(* ===== verification/X3D_Prelude.thy ===== *)
theory X3D_Prelude
  imports Main "HOL-Library.State_Monad" "HOL-Library.Sublist"
begin

section \<open>Prelude: C strings, integer casts, the state monad and its Hoare rules\<close>

text \<open>
  What every component of the development shares.

  \<^item> A C string is the HOL string of its bytes before the terminator, so the end of the list
    plays the part of the NUL byte. \<open>cstr\<close> cuts a raw buffer at its first NUL, \<open>c_lines\<close> is
    the list of lines that the program's line loops walk over.
  \<^item> \<open>s32\<close> is the conversion to a 32-bit signed \<^verbatim>\<open>int\<close>.
  \<^item> Stateful code is written in the state monad of the library; \<open>foldM\<close> and \<open>forM\<close> are
    the counted loops, \<open>hoare\<close> is the triple used to reason about them.
\<close>

named_theorems cstr_simps "facts about strings without a NUL byte"
named_theorems run_simps "what running a step of the state monad gives"
named_theorems hoare_rules "introduction rules for triples of the state monad"

subsection \<open>C strings\<close>

abbreviation NUL :: char where "NUL \<equiv> CHR 0x00"
abbreviation NL :: char where "NL \<equiv> CHR 0x0A"
abbreviation CR :: char where "CR \<equiv> CHR 0x0D"
abbreviation TAB :: char where "TAB \<equiv> CHR 0x09"

definition cstring :: "string \<Rightarrow> bool" where
  "cstring s \<longleftrightarrow> NUL \<notin> set s"

definition cstr :: "string \<Rightarrow> string" where
  "cstr d = takeWhile (\<lambda>c. c \<noteq> NUL) d"

lemma cstring_Nil [simp, cstr_simps]: "cstring []"
  by (simp add: cstring_def)

lemma cstring_Cons [cstr_simps]: "cstring (c # s) \<longleftrightarrow> c \<noteq> NUL \<and> cstring s"
  by (auto simp: cstring_def)

lemma cstring_append [simp, cstr_simps]: "cstring (s @ t) \<longleftrightarrow> cstring s \<and> cstring t"
  by (auto simp: cstring_def)

lemma cstring_take [intro, simp]: "cstring s \<Longrightarrow> cstring (take n s)"
  by (auto simp: cstring_def dest: in_set_takeD)

lemma cstring_drop [intro, simp]: "cstring s \<Longrightarrow> cstring (drop n s)"
  by (auto simp: cstring_def dest: in_set_dropD)

lemma cstring_takeWhile [intro, simp]: "cstring s \<Longrightarrow> cstring (takeWhile P s)"
  by (auto simp: cstring_def dest: set_takeWhileD)

lemma cstring_dropWhile [intro, simp]: "cstring s \<Longrightarrow> cstring (dropWhile P s)"
  by (auto simp: cstring_def dest: set_dropWhileD)

lemma cstring_cstr [simp]: "cstring (cstr d)"
  by (auto simp: cstring_def cstr_def dest: set_takeWhileD)

lemma cstr_cstring [simp]: "cstring s \<Longrightarrow> cstr s = s"
  by (auto simp: cstring_def cstr_def intro: takeWhile_eq_all_conv [THEN iffD2])

lemma length_cstr_le: "length (cstr d) \<le> length d"
  by (simp add: cstr_def length_takeWhile_le)

lemma cstr_append_NUL: "cstring s \<Longrightarrow> cstr (s @ NUL # t) = s"
  by (induction s) (auto simp: cstring_def cstr_def)

subsection \<open>Lines\<close>

text \<open>
  The lines of a buffer as the loops \<^verbatim>\<open>while (line && *line) { next = strchr(line, '\n'); ... }\<close>
  see them: an empty line between two newlines counts, what follows the last newline only
  counts when it is not empty.
\<close>

function c_lines :: "string \<Rightarrow> string list" where
  "c_lines [] = []"
| "c_lines (c # s) =
     takeWhile (\<lambda>x. x \<noteq> NL) (c # s) # c_lines (drop 1 (dropWhile (\<lambda>x. x \<noteq> NL) (c # s)))"
  by pat_completeness auto
termination
  by (relation "measure length") (auto simp: le_imp_less_Suc length_dropWhile_le
      intro: le_less_trans [OF diff_le_self])

lemma c_lines_NL_free: "l \<in> set (c_lines s) \<Longrightarrow> NL \<notin> set l"
  by (induction s rule: c_lines.induct) (auto dest: set_takeWhileD split: if_splits)

lemma c_lines_cstring: "cstring s \<Longrightarrow> l \<in> set (c_lines s) \<Longrightarrow> cstring l"
proof (induction s rule: c_lines.induct)
  case (2 c s)
  have "cstring (drop 1 (dropWhile (\<lambda>x. x \<noteq> NL) (c # s)))"
    using "2.prems"(1) by (intro cstring_drop cstring_dropWhile)
  moreover have "cstring (takeWhile (\<lambda>x. x \<noteq> NL) (c # s))"
    using "2.prems"(1) by (rule cstring_takeWhile)
  ultimately show ?case
    using "2.IH" "2.prems"(2) by (auto simp del: takeWhile.simps dropWhile.simps)
qed simp

definition unlines :: "string list \<Rightarrow> string" where
  "unlines ls = concat (map (\<lambda>l. l @ [NL]) ls)"

lemma unlines_simps [simp]:
  "unlines [] = []" "unlines (l # ls) = l @ NL # unlines ls"
  "unlines (ls @ ls') = unlines ls @ unlines ls'"
  by (simp_all add: unlines_def)

lemma takeWhile_stop [simp]: "y \<notin> set l \<Longrightarrow> takeWhile (\<lambda>x. x \<noteq> y) (l @ y # s) = l"
  by (induction l) auto

lemma dropWhile_stop [simp]: "y \<notin> set l \<Longrightarrow> dropWhile (\<lambda>x. x \<noteq> y) (l @ y # s) = y # s"
  by (induction l) auto

lemma c_lines_unfold:
  "s \<noteq> [] \<Longrightarrow> c_lines s =
     takeWhile (\<lambda>x. x \<noteq> NL) s # c_lines (drop 1 (dropWhile (\<lambda>x. x \<noteq> NL) s))"
  by (cases s) (simp_all del: takeWhile.simps dropWhile.simps)

lemma c_lines_line: "NL \<notin> set l \<Longrightarrow> c_lines (l @ NL # s) = l # c_lines s"
  by (subst c_lines_unfold) auto

lemma c_lines_unlines: "(\<forall>l \<in> set ls. NL \<notin> set l) \<Longrightarrow> c_lines (unlines ls) = ls"
  by (induction ls) (auto simp: c_lines_line)

subsection \<open>Integer conversions\<close>

definition s32 :: "int \<Rightarrow> int" where
  "s32 x = signed_take_bit 31 x"

lemma s32_range: "- (2 ^ 31) \<le> s32 x" "s32 x < 2 ^ 31"
  using signed_take_bit_int_greater_eq_minus_exp [of 31 x] signed_take_bit_int_less_exp [of 31 x]
  by (simp_all add: s32_def)

lemma s32_id: "- (2 ^ 31) \<le> x \<Longrightarrow> x < 2 ^ 31 \<Longrightarrow> s32 x = x"
  by (simp add: s32_def signed_take_bit_int_eq_self)

subsection \<open>The state monad\<close>

abbreviation ret :: "'a \<Rightarrow> ('s, 'a) state" where "ret \<equiv> State_Monad.return"

definition gets :: "('s \<Rightarrow> 'a) \<Rightarrow> ('s, 'a) state" where
  "gets f = State (\<lambda>s. (f s, s))"

definition modify :: "('s \<Rightarrow> 's) \<Rightarrow> ('s, unit) state" where
  "modify f = State (\<lambda>s. ((), f s))"

primrec foldM :: "('a \<Rightarrow> 'b \<Rightarrow> ('s, 'b) state) \<Rightarrow> 'a list \<Rightarrow> 'b \<Rightarrow> ('s, 'b) state" where
  "foldM f [] b = ret b"
| "foldM f (x # xs) b = do { b' \<leftarrow> f x b; foldM f xs b' }"

primrec forM :: "'a list \<Rightarrow> ('a \<Rightarrow> ('s, unit) state) \<Rightarrow> ('s, unit) state" where
  "forM [] f = ret ()"
| "forM (x # xs) f = do { f x; forM xs f }"

lemma run_gets [simp, run_simps]: "run_state (gets f) s = (f s, s)"
  by (simp add: gets_def)

lemma run_modify [simp, run_simps]: "run_state (modify f) s = ((), f s)"
  by (simp add: modify_def)

abbreviation exec :: "('s, 'a) state \<Rightarrow> 's \<Rightarrow> 's" where "exec m s \<equiv> snd (run_state m s)"
abbreviation result :: "('s, 'a) state \<Rightarrow> 's \<Rightarrow> 'a" where "result m s \<equiv> fst (run_state m s)"

lemma exec_bind: "exec (State_Monad.bind m k) s = exec (k (result m s)) (exec m s)"
  by (simp split: prod.splits)

lemma result_bind: "result (State_Monad.bind m k) s = result (k (result m s)) (exec m s)"
  by (simp split: prod.splits)

subsection \<open>Triples\<close>

definition hoare :: "('s \<Rightarrow> bool) \<Rightarrow> ('s, 'a) state \<Rightarrow> ('a \<Rightarrow> 's \<Rightarrow> bool) \<Rightarrow> bool" where
  "hoare P m Q \<longleftrightarrow> (\<forall>s. P s \<longrightarrow> Q (result m s) (exec m s))"

abbreviation keeps :: "('s \<Rightarrow> bool) \<Rightarrow> ('s, 'a) state \<Rightarrow> bool" where
  "keeps I m \<equiv> hoare I m (\<lambda>_. I)"

lemma hoareD: "hoare P m Q \<Longrightarrow> P s \<Longrightarrow> Q (result m s) (exec m s)"
  by (simp add: hoare_def)

lemma hoare_ret: "(\<And>s. P s \<Longrightarrow> Q x s) \<Longrightarrow> hoare P (ret x) Q"
  by (simp add: hoare_def)

lemma hoare_gets: "(\<And>s. P s \<Longrightarrow> Q (f s) s) \<Longrightarrow> hoare P (gets f) Q"
  by (simp add: hoare_def)

lemma hoare_modify: "(\<And>s. P s \<Longrightarrow> Q () (f s)) \<Longrightarrow> hoare P (modify f) Q"
  by (simp add: hoare_def)

lemma hoare_bind: "hoare P m R \<Longrightarrow> (\<And>x. hoare (R x) (k x) Q) \<Longrightarrow> hoare P (State_Monad.bind m k) Q"
  by (simp add: hoare_def exec_bind result_bind del: run_state_bind)

lemma hoare_conseq: "hoare P' m Q' \<Longrightarrow> (\<And>s. P s \<Longrightarrow> P' s) \<Longrightarrow> (\<And>x s. Q' x s \<Longrightarrow> Q x s) \<Longrightarrow> hoare P m Q"
  by (simp add: hoare_def)

lemma keeps_ret [hoare_rules]: "keeps I (ret x)"
  by (simp add: hoare_def)

lemma keeps_gets [hoare_rules]: "keeps I (gets f)"
  by (simp add: hoare_def)

lemma keeps_bind [hoare_rules]: "keeps I m \<Longrightarrow> (\<And>x. keeps I (k x)) \<Longrightarrow> keeps I (State_Monad.bind m k)"
  by (rule hoare_bind)

lemma hoare_if [hoare_rules]:
  "(b \<Longrightarrow> hoare P m Q) \<Longrightarrow> (\<not> b \<Longrightarrow> hoare P m' Q) \<Longrightarrow> hoare P (if b then m else m') Q"
  by simp

lemma hoare_case_option [hoare_rules]:
  "(x = None \<Longrightarrow> hoare P m Q) \<Longrightarrow> (\<And>y. x = Some y \<Longrightarrow> hoare P (f y) Q) \<Longrightarrow>
   hoare P (case x of None \<Rightarrow> m | Some y \<Rightarrow> f y) Q"
  by (cases x) simp_all

lemma hoare_case_prod [hoare_rules]:
  "(\<And>a b. x = (a, b) \<Longrightarrow> hoare P (f a b) Q) \<Longrightarrow> hoare P (case x of (a, b) \<Rightarrow> f a b) Q"
  by (cases x) simp

lemma hoare_Let [hoare_rules]: "hoare P (f x) Q \<Longrightarrow> hoare P (let y = x in f y) Q"
  by simp

lemma keeps_foldM [hoare_rules]: "(\<And>x b. keeps I (f x b)) \<Longrightarrow> keeps I (foldM f xs b)"
  by (induction xs arbitrary: b) (auto intro: hoare_rules)

lemma keeps_forM [hoare_rules]: "(\<And>x. keeps I (f x)) \<Longrightarrow> keeps I (forM xs f)"
  by (induction xs) (auto intro: hoare_rules)

end
