(* ===== verification/Libc_String.thy ===== *)
theory Libc_String
  imports X3D_Prelude Complex_Main "HOL-Library.Word"
begin

section \<open>The reading string functions of the private C library (src/libc.c)\<close>

text \<open>
  The project links no C library: \<^verbatim>\<open>libc.c\<close> brings its own string and number routines, and
  every other component is written on top of them. This theory translates the routines that
  only read their arguments; a \<open>string\<close> is the text before the terminator and a pointer into
  it is an offset. \<^verbatim>\<open>Libc_Mem\<close> has the routines that write memory.

  Signed overflow, undefined in C, is taken as the wrap-around of the x86-64 target
  (\<open>s32\<close>). Doubles are exact rationals: rounding is not modelled.
\<close>

subsection \<open>Comparison\<close>

definition uchar :: "char \<Rightarrow> int" where
  "uchar c = int (of_char c)"

fun strcmp :: "string \<Rightarrow> string \<Rightarrow> int" where
  "strcmp [] [] = 0"
| "strcmp [] (y # ys) = 0 - uchar y"
| "strcmp (x # xs) [] = uchar x - 0"
| "strcmp (x # xs) (y # ys) = (if x = y then strcmp xs ys else uchar x - uchar y)"

text \<open>The null-pointer convention: equal when both are null, a null pointer sorts first.\<close>

definition strcmp_ptr :: "string option \<Rightarrow> string option \<Rightarrow> int" where
  "strcmp_ptr p q =
     (case (p, q) of
        (Some s1, Some s2) \<Rightarrow> strcmp s1 s2
      | (None, None) \<Rightarrow> 0
      | (Some _, None) \<Rightarrow> 1
      | (None, Some _) \<Rightarrow> - 1)"

fun strncmp :: "string \<Rightarrow> string \<Rightarrow> nat \<Rightarrow> int" where
  "strncmp s1 s2 0 = 0"
| "strncmp [] [] (Suc n) = 0"
| "strncmp [] (y # ys) (Suc n) = 0 - uchar y"
| "strncmp (x # xs) [] (Suc n) = uchar x - 0"
| "strncmp (x # xs) (y # ys) (Suc n) = (if x = y then strncmp xs ys n else uchar x - uchar y)"

subsection \<open>Searching\<close>

fun strchr :: "string \<Rightarrow> char \<Rightarrow> nat option" where
  "strchr [] c = (if c = NUL then Some 0 else None)"
| "strchr (x # xs) c = (if x = c then Some 0 else map_option Suc (strchr xs c))"

fun strstr_here :: "string \<Rightarrow> string \<Rightarrow> bool" where
  "strstr_here h [] = True"
| "strstr_here [] (y # ys) = False"
| "strstr_here (x # xs) (y # ys) = (x = y \<and> strstr_here xs ys)"

fun strstr :: "string \<Rightarrow> string \<Rightarrow> nat option" where
  "strstr h [] = Some 0"
| "strstr [] (y # ys) = None"
| "strstr (x # xs) (y # ys) =
     (if x = y \<and> strstr_here (x # xs) (y # ys) then Some 0 else map_option Suc (strstr xs (y # ys)))"

fun strcspn :: "string \<Rightarrow> string \<Rightarrow> nat" where
  "strcspn [] reject = 0"
| "strcspn (x # xs) reject = (if strchr reject x \<noteq> None then 0 else Suc (strcspn xs reject))"

subsection \<open>Character classes and numbers\<close>

definition is_digit :: "char \<Rightarrow> bool" where
  "is_digit c \<longleftrightarrow> 48 \<le> uchar c \<and> uchar c \<le> 57"

definition is_blank :: "char \<Rightarrow> bool" where
  "is_blank c \<longleftrightarrow> c = CHR '' '' \<or> c = TAB"

definition toupper :: "char \<Rightarrow> char" where
  "toupper c = (if 97 \<le> uchar c \<and> uchar c \<le> 122 then char_of (of_char c - 32 :: nat) else c)"

definition isspace :: "char \<Rightarrow> bool" where
  "isspace c \<longleftrightarrow> c = CHR '' '' \<or> c = TAB \<or> c = NL \<or> c = CR \<or> c = CHR 0x0C \<or> c = CHR 0x0B"

fun atoi_digits :: "int \<Rightarrow> string \<Rightarrow> int" where
  "atoi_digits n [] = n"
| "atoi_digits n (c # s) = (if is_digit c then atoi_digits (s32 (n * 10 + (uchar c - 48))) s else n)"

definition atoi :: "string \<Rightarrow> int" where
  "atoi p =
     (let q = dropWhile is_blank p
      in if take 1 q = ''-'' then s32 (- atoi_digits 0 (drop 1 q)) else atoi_digits 0 q)"

fun atof_loop :: "rat \<Rightarrow> rat \<Rightarrow> bool \<Rightarrow> string \<Rightarrow> rat" where
  "atof_loop res fr state [] = res"
| "atof_loop res fr state (c # s) =
     (if is_digit c then
        (if \<not> state then atof_loop (res * 10 + of_int (uchar c - 48)) fr state s
         else atof_loop (res + of_int (uchar c - 48) * (fr / 10)) (fr / 10) state s)
      else if c = CHR ''.'' then atof_loop res fr True s
      else res)"

definition atof :: "string \<Rightarrow> rat" where
  "atof p =
     (let q = dropWhile is_blank p
      in if take 1 q = ''-'' then - atof_loop 0 1 False (drop 1 q) else atof_loop 0 1 False q)"

subsection \<open>\<^verbatim>\<open>strtol\<close> and \<^verbatim>\<open>strtoull\<close>\<close>

definition LONG_MAX :: int where "LONG_MAX = 9223372036854775807"
definition LONG_MIN :: int where "LONG_MIN = - LONG_MAX - 1"

record strtol_result =
  l_val :: int
  l_end :: "nat option"   \<comment> \<open>what is stored through \<^verbatim>\<open>e\<close>, as an offset; \<open>None\<close>: not stored\<close>
  l_erange :: bool        \<comment> \<open>\<^verbatim>\<open>errno\<close> was set to \<^verbatim>\<open>ERANGE\<close>\<close>

definition digit_value :: "char \<Rightarrow> nat option" where
  "digit_value c =
     (if is_digit c then Some (of_char c - 48)
      else if 97 \<le> uchar c \<and> uchar c \<le> 122 then Some (of_char c - 97 + 10)
      else if 65 \<le> uchar c \<and> uchar c \<le> 90 then Some (of_char c - 65 + 10)
      else None)"

fun strtol_digits :: "nat \<Rightarrow> nat \<Rightarrow> nat \<Rightarrow> bool \<Rightarrow> string \<Rightarrow> nat \<times> bool \<times> string" where
  "strtol_digits b limit r overflow [] = (r, overflow, [])"
| "strtol_digits b limit r overflow (c # s) =
     (case digit_value c of
        None \<Rightarrow> (r, overflow, c # s)
      | Some v \<Rightarrow>
          if v \<ge> b then (r, overflow, c # s)
          else
            let overflow' = (overflow \<or> r > (limit - v) div b)
            in strtol_digits b limit (if overflow' then r else r * b + v) overflow' s)"

definition strtol_sign :: "string \<Rightarrow> bool \<times> string" where
  "strtol_sign p =
     (if take 1 p = ''-'' then (True, drop 1 p)
      else if take 1 p = ''+'' then (False, drop 1 p)
      else (False, p))"

definition hex_prefix :: "string \<Rightarrow> bool" where
  "hex_prefix p \<longleftrightarrow> (case p of x # y # _ \<Rightarrow> x = CHR ''0'' \<and> (y = CHR ''x'' \<or> y = CHR ''X'') | _ \<Rightarrow> False)"

definition strtol_base :: "nat \<Rightarrow> string \<Rightarrow> nat \<times> string" where
  "strtol_base b p =
     (if b = 0 then
        (if hex_prefix p then (16, drop 2 p)
         else if take 1 p = ''0'' then (8, drop 1 p)
         else (10, p))
      else if b = 16 \<and> hex_prefix p then (b, drop 2 p)
      else (b, p))"

definition strtol :: "string \<Rightarrow> nat \<Rightarrow> strtol_result" where
  "strtol p b0 =
     (let (neg, q) = strtol_sign (dropWhile is_blank p);
          (b, digits_start) = strtol_base b0 q;
          limit = (if neg then nat LONG_MAX + 1 else nat LONG_MAX);
          (r, overflow, rest) = strtol_digits b limit 0 False digits_start
      in if overflow
         then \<lparr>l_val = (if neg then LONG_MIN else LONG_MAX), l_end = None, l_erange = True\<rparr>
         else \<lparr>l_val = (if neg then - int r else int r),
               l_end = Some (length p - length rest), l_erange = False\<rparr>)"

fun strtoull_digits :: "64 word \<Rightarrow> nat \<Rightarrow> string \<Rightarrow> 64 word \<times> string" where
  "strtoull_digits r b [] = (r, [])"
| "strtoull_digits r b (c # s) =
     (case digit_value c of
        None \<Rightarrow> (r, c # s)
      | Some v \<Rightarrow>
          if \<not> is_digit c \<and> v > 15 then (r, c # s)
          else if v \<ge> b then (r, c # s)
          else strtoull_digits (r * of_nat b + of_nat v) b s)"

definition strtoull :: "string \<Rightarrow> nat \<Rightarrow> 64 word \<times> string" where
  "strtoull p b = strtoull_digits 0 b (dropWhile is_blank p)"

subsection \<open>The pseudo random numbers\<close>

definition rand_next :: "32 word \<Rightarrow> 32 word" where
  "rand_next n = n * 1103515245 + 12345"

definition rand :: "32 word \<Rightarrow> int \<times> 32 word" where
  "rand n = (let n' = rand_next n in (uint ((n' div 65536) mod 32768), n'))"

subsection \<open>What the comparisons decide\<close>

lemma uchar_ge_0 [simp]: "0 \<le> uchar c"
  by (simp add: uchar_def)

lemma uchar_inject [simp]: "uchar c = uchar d \<longleftrightarrow> c = d"
  by (simp add: uchar_def)

lemma uchar_eq_0 [simp]: "uchar c = 0 \<longleftrightarrow> c = NUL"
proof -
  have "uchar NUL = 0" by (simp add: uchar_def)
  then show ?thesis by (metis uchar_inject)
qed

lemma strcmp_0 [simp]: "cstring s \<Longrightarrow> cstring t \<Longrightarrow> strcmp s t = 0 \<longleftrightarrow> s = t"
  by (induction s t rule: strcmp.induct) (auto simp: cstr_simps)

lemma strncmp_prefix: "cstring s \<Longrightarrow> cstring p \<Longrightarrow> strncmp s p (length p) = 0 \<longleftrightarrow> prefix p s"
proof (induction p arbitrary: s)
  case (Cons y ys)
  then show ?case by (cases s) (auto simp: cstr_simps)
qed simp

lemma strncmp_nat [simp]:
  "cstring s \<Longrightarrow> cstring p \<Longrightarrow> n = length p \<Longrightarrow> strncmp s p n = 0 \<longleftrightarrow> prefix p s"
  by (simp add: strncmp_prefix)

definition byte_less :: "(char \<times> char) set" where
  "byte_less = {(a, b). uchar a < uchar b}"

lemma strcmp_lexord:
  "cstring s \<Longrightarrow> cstring t \<Longrightarrow> strcmp s t < 0 \<longleftrightarrow> (s, t) \<in> lexord byte_less"
proof (induction s t rule: strcmp.induct)
  case (2 y ys)
  have "uchar y \<noteq> 0" using "2.prems" by (simp add: cstr_simps)
  then have "0 < uchar y" using uchar_ge_0 [of y] by linarith
  then show ?case by simp
next
  case (3 x xs)
  then show ?case by (simp add: not_less)
next
  case (4 x xs y ys)
  then show ?case by (auto simp: cstr_simps byte_less_def)
qed simp

lemma strcmp_swap: "strcmp t s = - strcmp s t"
  by (induction s t rule: strcmp.induct) auto

subsection \<open>What the searches find\<close>

lemma strchr_Some:
  "cstring s \<Longrightarrow> c \<noteq> NUL \<Longrightarrow>
   strchr s c = Some k \<longleftrightarrow> k < length s \<and> s ! k = c \<and> c \<notin> set (take k s)"
proof (induction s arbitrary: k)
  case (Cons x xs)
  then show ?case by (cases k) (auto simp: cstr_simps)
qed simp

lemma strchr_None: "c \<noteq> NUL \<Longrightarrow> strchr s c = None \<longleftrightarrow> c \<notin> set s"
  by (induction s) auto

lemma strchr_take_drop:
  "c \<noteq> NUL \<Longrightarrow> strchr s c = Some k \<Longrightarrow>
   take k s = takeWhile (\<lambda>x. x \<noteq> c) s \<and> drop k s = dropWhile (\<lambda>x. x \<noteq> c) s"
  by (induction s arbitrary: k) (auto split: if_splits)

lemma strchr_append_stop: "c \<noteq> NUL \<Longrightarrow> c \<notin> set l \<Longrightarrow> strchr (l @ c # s) c = Some (length l)"
  by (induction l) auto

lemma strstr_here_prefix [simp]: "strstr_here h n \<longleftrightarrow> prefix n h"
  by (induction h n rule: strstr_here.induct) auto

lemma strstr_step:
  "strstr (x # xs) (y # ys) =
     (if prefix (y # ys) (x # xs) then Some 0 else map_option Suc (strstr xs (y # ys)))"
proof -
  have "(x = y \<and> strstr_here (x # xs) (y # ys)) = prefix (y # ys) (x # xs)"
    by (simp del: strstr_here.simps) metis
  then show ?thesis by (simp only: strstr.simps)
qed

declare strstr.simps(3) [simp del]

lemma strstr_Some:
  "strstr h n = Some k \<longleftrightarrow>
     k \<le> length h \<and> prefix n (drop k h) \<and> (\<forall>j < k. \<not> prefix n (drop j h))"
proof (induction h arbitrary: k)
  case Nil
  then show ?case by (cases n) auto
next
  case (Cons x xs)
  show ?case
  proof (cases n)
    case Nil
    then show ?thesis by auto
  next
    case n: (Cons y ys)
    show ?thesis
    proof (cases k)
      case 0
      then show ?thesis by (simp only: n strstr_step) (simp del: Cons_prefix_Cons)
    next
      case (Suc m)
      have "(\<forall>j < Suc m. \<not> prefix n (drop j (x # xs))) \<longleftrightarrow>
          \<not> prefix n (x # xs) \<and> (\<forall>j < m. \<not> prefix n (drop j xs))"
        by (metis Suc_less_eq drop0 drop_Suc_Cons less_Suc_eq_0_disj zero_less_Suc)
      with Suc Cons.IH show ?thesis
        by (simp only: n strstr_step) (simp del: Cons_prefix_Cons)
    qed
  qed
qed

lemma strstr_None: "strstr h n = None \<longleftrightarrow> \<not> sublist n h"
proof (induction h)
  case Nil
  then show ?case by (cases n) auto
next
  case (Cons x xs)
  then show ?case
    by (cases n) (simp_all add: strstr_step sublist_Cons_right del: Cons_prefix_Cons)
qed

lemma strcspn_takeWhile:
  "cstring s \<Longrightarrow> strcspn s reject = length (takeWhile (\<lambda>c. c \<notin> set reject) s)"
  by (induction s) (auto simp: cstr_simps strchr_None)

subsection \<open>What the number readers compute\<close>

definition dec_from :: "nat \<Rightarrow> string \<Rightarrow> nat" where
  "dec_from r ds = foldl (\<lambda>n c. n * 10 + (of_char c - 48)) r ds"

abbreviation dec_value :: "string \<Rightarrow> nat" where
  "dec_value \<equiv> dec_from 0"

definition digits :: "string \<Rightarrow> bool" where
  "digits ds \<longleftrightarrow> (\<forall>c \<in> set ds. is_digit c)"

text \<open>No digit of base 10 follows.\<close>

definition stops :: "string \<Rightarrow> bool" where
  "stops rest \<longleftrightarrow> (case rest of [] \<Rightarrow> True | c # _ \<Rightarrow> \<not> is_digit c)"

lemma digits_simps [simp]:
  "digits []" "digits (c # ds) \<longleftrightarrow> is_digit c \<and> digits ds" "digits (ds @ es) \<longleftrightarrow> digits ds \<and> digits es"
  by (auto simp: digits_def)

lemma stops_simps [simp]: "stops []" "stops (c # s) \<longleftrightarrow> \<not> is_digit c"
  by (simp_all add: stops_def)

lemma dec_from_simps [simp]:
  "dec_from r [] = r" "dec_from r (c # ds) = dec_from (r * 10 + (of_char c - 48)) ds"
  "dec_from r (ds @ es) = dec_from (dec_from r ds) es"
  by (simp_all add: dec_from_def)

lemma dec_from_ge: "r \<le> dec_from r ds"
proof (induction ds arbitrary: r)
  case (Cons c ds)
  show ?case using Cons.IH [of "r * 10 + (of_char c - 48)"] by simp
qed simp

lemma is_digit_uchar: "is_digit c \<Longrightarrow> uchar c - 48 = int (of_char c - 48) \<and> of_char c - 48 \<le> (9 :: nat)"
  by (auto simp: is_digit_def uchar_def)

lemma digit_value_digit: "is_digit c \<Longrightarrow> digit_value c = Some (of_char c - 48)"
  by (simp add: digit_value_def)

lemma digit_value_stop: "\<not> is_digit c \<Longrightarrow> digit_value c = None \<or> (\<exists>v \<ge> 10. digit_value c = Some v)"
  by (auto simp: digit_value_def)

lemma strtol_digits_stop: "stops rest \<Longrightarrow> strtol_digits 10 limit r ov rest = (r, ov, rest)"
  by (cases rest) (auto dest: digit_value_stop split: option.splits)

lemma strtol_digits_saturated:
  "digits ds \<Longrightarrow> stops rest \<Longrightarrow> strtol_digits 10 limit r True (ds @ rest) = (r, True, rest)"
  by (induction ds) (auto simp: strtol_digits_stop digit_value_digit dest: is_digit_uchar)

lemma overflow_test: "v \<le> limit \<Longrightarrow> (limit - v) div 10 < r \<longleftrightarrow> limit < r * 10 + (v :: nat)"
  by (subst div_less_iff_less_mult) auto

lemma strtol_digits_exact:
  "digits ds \<Longrightarrow> stops rest \<Longrightarrow> 9 \<le> limit \<Longrightarrow> dec_from r ds \<le> limit \<Longrightarrow>
   strtol_digits 10 limit r False (ds @ rest) = (dec_from r ds, False, rest)"
proof (induction ds arbitrary: r)
  case (Cons c ds)
  have "r * 10 + (of_char c - 48) \<le> limit"
    using Cons.prems(4) dec_from_ge [of "r * 10 + (of_char c - 48)" ds] by simp
  moreover have "of_char c - 48 \<le> limit" and "of_char c - 48 < (10 :: nat)"
    using Cons.prems is_digit_uchar [of c] by auto
  ultimately show ?case
    using Cons by (simp add: digit_value_digit overflow_test)
qed (simp add: strtol_digits_stop)

lemma strtol_digits_overflow:
  "digits ds \<Longrightarrow> stops rest \<Longrightarrow> 9 \<le> limit \<Longrightarrow> r \<le> limit \<Longrightarrow> limit < dec_from r ds \<Longrightarrow>
   \<exists>r'. strtol_digits 10 limit r False (ds @ rest) = (r', True, rest)"
proof (induction ds arbitrary: r)
  case (Cons c ds)
  let ?r = "r * 10 + (of_char c - 48)"
  have d: "of_char c - 48 \<le> limit" "of_char c - 48 < (10 :: nat)"
    using Cons.prems is_digit_uchar [of c] by auto
  show ?case
  proof (cases "limit < ?r")
    case True
    with Cons.prems d show ?thesis
      by (simp add: digit_value_digit overflow_test strtol_digits_saturated)
  next
    case False
    with Cons d show ?thesis
      by (simp add: digit_value_digit overflow_test)
  qed
qed simp

lemma digit_not_sign: "is_digit c \<Longrightarrow> c \<noteq> CHR ''-'' \<and> c \<noteq> CHR ''+'' \<and> \<not> is_blank c"
  by (auto simp: is_digit_def is_blank_def uchar_def)

lemma strtol_sign_digits:
  "digits ds \<Longrightarrow> ds \<noteq> [] \<Longrightarrow> sg \<in> {[], ''-'', ''+''} \<Longrightarrow> strtol_sign (sg @ ds @ rest) = (sg = ''-'', ds @ rest)"
  by (cases ds) (auto simp: strtol_sign_def digit_not_sign)

lemma dropWhile_blanks:
  "set bl \<subseteq> {CHR '' '', TAB} \<Longrightarrow> s = [] \<or> \<not> is_blank (hd s) \<Longrightarrow> dropWhile is_blank (bl @ s) = s"
  by (induction bl) (cases s, auto simp: is_blank_def)

lemma dropWhile_signed_digits:
  assumes "set bl \<subseteq> {CHR '' '', TAB}" "digits ds" "ds \<noteq> []" "sg \<in> {[], ''-'', ''+''}"
  shows "dropWhile is_blank (bl @ sg @ ds @ rest) = sg @ ds @ rest"
proof (rule dropWhile_blanks)
  obtain c cs where ds: "ds = c # cs" using assms(3) by (cases ds) auto
  with assms(2) have "\<not> is_blank c" by (simp add: digit_not_sign)
  with assms(4) ds show "sg @ ds @ rest = [] \<or> \<not> is_blank (hd (sg @ ds @ rest))"
    by (auto simp: is_blank_def)
qed (rule assms(1))

definition signed_value :: "string \<Rightarrow> string \<Rightarrow> int" where
  "signed_value sg ds = (if sg = ''-'' then - int (dec_value ds) else int (dec_value ds))"

lemma signed_value_simps [simp]:
  "signed_value [] ds = int (dec_value ds)" "signed_value ''-'' ds = - int (dec_value ds)"
  "signed_value ''+'' ds = int (dec_value ds)"
  by (simp_all add: signed_value_def)

lemma strtol_reads_decimal:
  assumes "set bl \<subseteq> {CHR '' '', TAB}" "digits ds" "ds \<noteq> []" "sg \<in> {[], ''-'', ''+''}" "stops rest"
  shows "strtol (bl @ sg @ ds @ rest) 10 =
    (let v = signed_value sg ds in
     if LONG_MIN \<le> v \<and> v \<le> LONG_MAX
     then \<lparr>l_val = v, l_end = Some (length bl + length sg + length ds), l_erange = False\<rparr>
     else \<lparr>l_val = (if sg = ''-'' then LONG_MIN else LONG_MAX), l_end = None, l_erange = True\<rparr>)"
proof -
  define limit where "limit = (if sg = ''-'' then nat LONG_MAX + 1 else nat LONG_MAX)"
  have lim: "9 \<le> limit" by (simp add: limit_def LONG_MAX_def)
  have pre: "strtol_sign (dropWhile is_blank (bl @ sg @ ds @ rest)) = (sg = ''-'', ds @ rest)"
    unfolding dropWhile_signed_digits [OF assms(1-4)] by (rule strtol_sign_digits [OF assms(2-4)])
  have base: "strtol_base 10 (ds @ rest) = (10, ds @ rest)"
    by (simp add: strtol_base_def)
  have inrange: "LONG_MIN \<le> signed_value sg ds \<and> signed_value sg ds \<le> LONG_MAX \<longleftrightarrow> dec_value ds \<le> limit"
    using assms(4) by (auto simp: limit_def LONG_MAX_def LONG_MIN_def)
  show ?thesis
  proof (cases "dec_value ds \<le> limit")
    case True
    then have "strtol_digits 10 limit 0 False (ds @ rest) = (dec_value ds, False, rest)"
      using strtol_digits_exact [OF assms(2,5) lim] by simp
    with True inrange pre base show ?thesis
      by (simp add: strtol_def limit_def [symmetric] signed_value_def)
  next
    case False
    then obtain r where "strtol_digits 10 limit 0 False (ds @ rest) = (r, True, rest)"
      using strtol_digits_overflow [OF assms(2,5) lim, of 0] by auto
    with False inrange pre base show ?thesis
      by (auto simp: strtol_def limit_def [symmetric] Let_def)
  qed
qed

lemma s32_step: "s32 (s32 n * 10 + d) = s32 (n * 10 + d)"
  unfolding s32_def
  by (metis signed_take_bit_add signed_take_bit_mult signed_take_bit_signed_take_bit min.idem)

lemma atoi_digits_exact:
  "digits ds \<Longrightarrow> stops rest \<Longrightarrow> atoi_digits (s32 (int n)) (ds @ rest) = s32 (int (dec_from n ds))"
proof (induction ds arbitrary: n)
  case Nil
  then show ?case by (cases rest) auto
next
  case (Cons c ds)
  have "s32 (s32 (int n) * 10 + (uchar c - 48)) = s32 (int (n * 10 + (of_char c - 48)))"
    using Cons.prems(1) is_digit_uchar [of c] by (simp add: s32_step)
  with Cons.prems Cons.IH [of "n * 10 + (of_char c - 48)"] show ?case by simp
qed

lemma atoi_reads_decimal:
  assumes "set bl \<subseteq> {CHR '' '', TAB}" "digits ds" "ds \<noteq> []" "sg \<in> {[], ''-''}" "stops rest"
  shows "atoi (bl @ sg @ ds @ rest) = s32 (signed_value sg ds)"
proof -
  obtain c cs where ds: "ds = c # cs" using assms(3) by (cases ds) auto
  have dw: "dropWhile is_blank (bl @ sg @ ds @ rest) = sg @ ds @ rest"
    using assms by (intro dropWhile_signed_digits) auto
  have dig: "atoi_digits 0 (ds @ rest) = s32 (int (dec_value ds))"
    using atoi_digits_exact [OF assms(2,5), of 0] by (simp add: s32_def)
  have "s32 (- s32 x) = s32 (- x)" for x
    by (simp add: s32_def signed_take_bit_minus)
  then show ?thesis
    using assms(2,4) dw dig ds by (auto simp: atoi_def digit_not_sign)
qed

subsection \<open>The line loops\<close>

text \<open>
  Most parsers of the program walk over a buffer with the same loop:
  \<^verbatim>\<open>while (line && *line && go) { next = strchr(line, '\n'); if (next) *next = '\0'; BODY
  line = next ? next + 1 : NULL; }\<close>. \<open>while_lines\<close> is that loop, with \<open>go\<close> the extra guard
  on the loop state and \<open>body\<close> what happens to one line.
\<close>

lemma strchr_drop_less: "strchr s c = Some k \<Longrightarrow> s \<noteq> [] \<Longrightarrow> length (drop (Suc k) s) < length s"
  by (cases s) auto

function while_lines :: "('a \<Rightarrow> bool) \<Rightarrow> (string \<Rightarrow> 'a \<Rightarrow> 'a) \<Rightarrow> string \<Rightarrow> 'a \<Rightarrow> 'a" where
  "while_lines go body s a =
     (if s = [] \<or> \<not> go a then a
      else case strchr s NL of
             None \<Rightarrow> body s a
           | Some k \<Rightarrow> while_lines go body (drop (Suc k) s) (body (take k s) a))"
  by pat_completeness auto
termination
  by (relation "measure (\<lambda>(go, body, s, a). length s)") (auto dest: strchr_drop_less)

declare while_lines.simps [simp del]

primrec fold_while :: "('a \<Rightarrow> bool) \<Rightarrow> ('b \<Rightarrow> 'a \<Rightarrow> 'a) \<Rightarrow> 'b list \<Rightarrow> 'a \<Rightarrow> 'a" where
  "fold_while go body [] a = a"
| "fold_while go body (l # ls) a = (if go a then fold_while go body ls (body l a) else a)"

lemma while_lines_fold: "while_lines go body s a = fold_while go body (c_lines s) a"
proof (induction go body s a rule: while_lines.induct)
  case (1 go body s a)
  show ?case
  proof (cases "s = [] \<or> \<not> go a")
    case True
    then show ?thesis by (subst while_lines.simps) (cases "c_lines s"; cases s; auto)
  next
    case False
    show ?thesis
    proof (cases "strchr s NL")
      case None
      then have "takeWhile (\<lambda>x. x \<noteq> NL) s = s" "dropWhile (\<lambda>x. x \<noteq> NL) s = []"
        by (auto simp: strchr_None takeWhile_eq_all_conv dropWhile_eq_Nil_conv)
      moreover from this have "c_lines s = [s]"
        using False by (subst c_lines_unfold) (simp_all only: drop_Nil c_lines.simps, simp)
      ultimately show ?thesis using False None
        by (simp add: while_lines.simps [of go body s a])
    next
      case (Some k)
      then have "takeWhile (\<lambda>x. x \<noteq> NL) s = take k s" "dropWhile (\<lambda>x. x \<noteq> NL) s = drop k s"
        using strchr_take_drop [of NL s k] by auto
      with False Some "1.IH" show ?thesis
        by (simp add: while_lines.simps [of go body s a] c_lines_unfold)
    qed
  qed
qed

lemma fold_while_inv:
  "I a \<Longrightarrow> (\<And>l a. I a \<Longrightarrow> go a \<Longrightarrow> l \<in> set ls \<Longrightarrow> I (body l a)) \<Longrightarrow> I (fold_while go body ls a)"
  by (induction ls arbitrary: a) auto

lemma fold_while_True: "(\<And>a. go a) \<Longrightarrow> fold_while go body ls a = fold body ls a"
  by (induction ls arbitrary: a) auto

lemma while_lines_inv:
  assumes "I a" "\<And>l a. I a \<Longrightarrow> go a \<Longrightarrow> l \<in> set (c_lines s) \<Longrightarrow> I (body l a)"
  shows "I (while_lines go body s a)"
  unfolding while_lines_fold using assms by (rule fold_while_inv)

end
