(* ===== verification/Libc_Mem.thy ===== *)
theory Libc_Mem
  imports Libc_String
begin

section \<open>The writing string functions of the private C library (src/libc.c)\<close>

text \<open>
  The routines of \<^verbatim>\<open>libc.c\<close> that write through their pointer arguments, on an explicit memory:
  a pointer is an address, 0 is the null pointer, and each loop of the source is a recursion
  that performs the same byte accesses in the same order. A loop that looks for a terminator may
  not end, so it is a partial function with \<open>None\<close> for "does not return". Addresses do not
  wrap.

  The lemmas say which bytes each routine changes, also when source and destination overlap.
\<close>

type_synonym mem = "nat \<Rightarrow> char"

subsection \<open>Byte loops\<close>

partial_function (option) strlen_loop :: "mem \<Rightarrow> nat \<Rightarrow> nat \<Rightarrow> nat option" where
  "strlen_loop m s i = (if m (s + i) \<noteq> NUL then strlen_loop m s (Suc i) else Some i)"

definition strlen :: "mem \<Rightarrow> nat \<Rightarrow> nat option" where
  "strlen m s = (if s = 0 then Some 0 else strlen_loop m s 0)"

partial_function (option) strcpy_loop :: "mem \<Rightarrow> nat \<Rightarrow> nat \<Rightarrow> mem option" where
  "strcpy_loop m d s =
     (let c = m s; m' = m(d := c)
      in if c \<noteq> NUL then strcpy_loop m' (Suc d) (Suc s) else Some m')"

definition strcpy :: "mem \<Rightarrow> nat \<Rightarrow> nat \<Rightarrow> mem option" where
  "strcpy m d s = (if d = 0 \<or> s = 0 then Some m else strcpy_loop m d s)"

fun strncpy_copy :: "mem \<Rightarrow> nat \<Rightarrow> nat \<Rightarrow> nat \<Rightarrow> nat \<times> nat \<times> mem" where
  "strncpy_copy m d s 0 = (0, d, m)"
| "strncpy_copy m d s (Suc n) =
     (let c = m s; m' = m(d := c)
      in if c \<noteq> NUL then strncpy_copy m' (Suc d) (Suc s) n else (Suc n, Suc d, m'))"

fun fill :: "mem \<Rightarrow> nat \<Rightarrow> char \<Rightarrow> nat \<Rightarrow> mem" where
  "fill m d c 0 = m"
| "fill m d c (Suc n) = fill (m(d := c)) (Suc d) c n"

definition strncpy :: "mem \<Rightarrow> nat \<Rightarrow> nat \<Rightarrow> nat \<Rightarrow> mem" where
  "strncpy m d s n =
     (if d = 0 \<or> s = 0 \<or> n = 0 then m
      else let (n', d', m') = strncpy_copy m d s n in fill m' d' NUL n')"

definition strcat :: "mem \<Rightarrow> nat \<Rightarrow> nat \<Rightarrow> mem option" where
  "strcat m d s =
     (if d = 0 \<or> s = 0 then Some m
      else Option.bind (strlen_loop m d 0) (\<lambda>k. strcpy_loop m (d + k) s))"

fun strncat_copy :: "mem \<Rightarrow> nat \<Rightarrow> nat \<Rightarrow> nat \<Rightarrow> nat \<times> mem" where
  "strncat_copy m d s 0 = (d, m)"
| "strncat_copy m d s (Suc n) =
     (let c = m s; m' = m(d := c)
      in if c \<noteq> NUL then strncat_copy m' (Suc d) (Suc s) n else (Suc d, m'))"

definition strncat :: "mem \<Rightarrow> nat \<Rightarrow> nat \<Rightarrow> nat \<Rightarrow> mem option" where
  "strncat m d s n =
     (if d = 0 \<or> s = 0 then Some m
      else Option.bind (strlen_loop m d 0)
             (\<lambda>k. let (d', m') = strncat_copy m (d + k) s n in Some (m'(d' := NUL))))"

fun memcpy :: "mem \<Rightarrow> nat \<Rightarrow> nat \<Rightarrow> nat \<Rightarrow> mem" where
  "memcpy m d s 0 = m"
| "memcpy m d s (Suc n) = memcpy (m(d := m s)) (Suc d) (Suc s) n"

definition memset :: "mem \<Rightarrow> nat \<Rightarrow> char \<Rightarrow> nat \<Rightarrow> mem" where
  "memset m s c n = fill m s c n"

fun memcmp :: "mem \<Rightarrow> nat \<Rightarrow> nat \<Rightarrow> nat \<Rightarrow> int" where
  "memcmp m a b 0 = 0"
| "memcmp m a b (Suc n) = (if m a \<noteq> m b then uchar (m a) - uchar (m b) else memcmp m (Suc a) (Suc b) n)"

fun memmove_back :: "mem \<Rightarrow> nat \<Rightarrow> nat \<Rightarrow> nat \<Rightarrow> mem" where
  "memmove_back m d s 0 = m"
| "memmove_back m d s (Suc n) = memmove_back (m(d + n := m (s + n))) d s n"

definition memmove :: "mem \<Rightarrow> nat \<Rightarrow> nat \<Rightarrow> nat \<Rightarrow> mem" where
  "memmove m d s n = (if d < s then memcpy m d s n else memmove_back m d s n)"

definition strlcat_local :: "mem \<Rightarrow> nat \<Rightarrow> nat \<Rightarrow> nat \<Rightarrow> (nat \<times> mem) option" where
  "strlcat_local m dst src sz =
     Option.bind (strlen m dst) (\<lambda>dlen.
     Option.bind (strlen m src) (\<lambda>slen.
       if dlen \<ge> sz then Some (sz + slen, m)
       else let res = dlen + slen;
                copy = (if res \<ge> sz then sz - dlen - 1 else slen);
                m' = memcpy m (dst + dlen) src copy
            in Some (res, m'(dst + dlen + copy := NUL))))"

subsection \<open>Strings in memory\<close>

definition bytes :: "mem \<Rightarrow> nat \<Rightarrow> nat \<Rightarrow> string" where
  "bytes m p n = map m [p..<p + n]"

definition cstr_at :: "mem \<Rightarrow> nat \<Rightarrow> string \<Rightarrow> bool" where
  "cstr_at m p s \<longleftrightarrow> p \<noteq> 0 \<and> cstring s \<and> bytes m p (length s) = s \<and> m (p + length s) = NUL"

text \<open>The two regions of \<open>n\<close> and \<open>k\<close> bytes have no byte in common.\<close>

definition apart :: "nat \<Rightarrow> nat \<Rightarrow> nat \<Rightarrow> nat \<Rightarrow> bool" where
  "apart p n q k \<longleftrightarrow> p + n \<le> q \<or> q + k \<le> p"

lemma bytes_nth [simp]: "i < n \<Longrightarrow> bytes m p n ! i = m (p + i)"
  by (simp add: bytes_def)

lemma length_bytes [simp]: "length (bytes m p n) = n"
  by (simp add: bytes_def)

lemma bytes_eq_iff: "bytes m p n = bytes m' q n \<longleftrightarrow> (\<forall>i < n. m (p + i) = m' (q + i))"
  by (auto simp: list_eq_iff_nth_eq)

lemma bytes_is: "length s = n \<Longrightarrow> bytes m p n = s \<longleftrightarrow> (\<forall>i < n. m (p + i) = s ! i)"
  by (auto simp: list_eq_iff_nth_eq)

lemma cstr_at_nth: "cstr_at m p s \<Longrightarrow> i < length s \<Longrightarrow> m (p + i) = s ! i \<and> s ! i \<noteq> NUL"
  by (auto simp: cstr_at_def bytes_is cstring_def) (metis nth_mem)

lemma cstr_at_iff:
  "cstr_at m p s \<longleftrightarrow> p \<noteq> 0 \<and> cstring s \<and> (\<forall>i < length s. m (p + i) = s ! i) \<and> m (p + length s) = NUL"
  by (auto simp: cstr_at_def bytes_is)

lemma cstr_at_unique:
  assumes "cstr_at m p s" "cstr_at m p t"
  shows "s = t"
proof -
  have "\<not> length s < length t" "\<not> length t < length s"
    using assms cstr_at_nth [of m p] by (metis cstr_at_def)+
  then have "length s = length t" by simp
  with assms show ?thesis by (simp add: cstr_at_def)
qed

subsection \<open>What the routines do to memory\<close>

lemma strlen_loop_at:
  "cstr_at m p s \<Longrightarrow> i \<le> length s \<Longrightarrow> strlen_loop m p i = Some (length s)"
proof (induction "length s - i" arbitrary: i)
  case 0
  then show ?case by (subst strlen_loop.simps) (auto simp: cstr_at_def)
next
  case (Suc k)
  then have "strlen_loop m p (Suc i) = Some (length s)" "i < length s" by auto
  then show ?case using Suc.prems cstr_at_nth [of m p s i] by (subst strlen_loop.simps) auto
qed

lemma strlen_at: "cstr_at m p s \<Longrightarrow> strlen m p = Some (length s)"
  by (simp add: strlen_def strlen_loop_at cstr_at_def [of m p s])

lemma fill_nth: "fill m d c n x = (if d \<le> x \<and> x < d + n then c else m x)"
  by (induction n arbitrary: m d) auto

lemma memcpy_outside: "x < d \<or> d + n \<le> x \<Longrightarrow> memcpy m d s n x = m x"
  by (induction n arbitrary: m d s) auto

text \<open>Copying upwards is right when the source is not ahead of the destination's writes.\<close>

lemma memcpy_forward: "d < s \<or> d + n \<le> s \<or> s + n \<le> d \<Longrightarrow> i < n \<Longrightarrow> memcpy m d s n (d + i) = m (s + i)"
proof (induction m d s n arbitrary: i rule: memcpy.induct)
  case (2 m d s n)
  show ?case
  proof (cases i)
    case 0
    then show ?thesis by (simp add: memcpy_outside)
  next
    case (Suc j)
    then have "memcpy (m(d := m s)) (Suc d) (Suc s) n (Suc d + j) = (m(d := m s)) (Suc s + j)"
      using "2.prems" by (intro "2.IH") auto
    with Suc "2.prems" show ?thesis by auto
  qed
qed simp

lemma memmove_back_outside: "x < d \<or> d + n \<le> x \<Longrightarrow> memmove_back m d s n x = m x"
  by (induction n arbitrary: m) auto

lemma memmove_back_inside: "s \<le> d \<Longrightarrow> i < n \<Longrightarrow> memmove_back m d s n (d + i) = m (s + i)"
proof (induction m d s n arbitrary: i rule: memmove_back.induct)
  case (2 m d s n)
  show ?case
  proof (cases "i = n")
    case True
    then show ?thesis by (simp add: memmove_back_outside)
  next
    case False
    with "2.prems" have "memmove_back (m(d + n := m (s + n))) d s n (d + i) = (m(d + n := m (s + n))) (s + i)"
      by (intro "2.IH") auto
    with False "2.prems" show ?thesis by auto
  qed
qed simp

lemma memmove_nth: "memmove m d s n x = (if d \<le> x \<and> x < d + n then m (s + (x - d)) else m x)"
proof (cases "d \<le> x \<and> x < d + n")
  case True
  then obtain i where "x = d + i" "i < n" by (auto simp: le_iff_add)
  then show ?thesis by (auto simp: memmove_def memcpy_forward memmove_back_inside)
qed (auto simp: memmove_def memcpy_outside memmove_back_outside)

lemma memcpy_apart:
  "apart d n s n \<Longrightarrow> memcpy m d s n x = (if d \<le> x \<and> x < d + n then m (s + (x - d)) else m x)"
proof (cases "d \<le> x \<and> x < d + n")
  case True
  then obtain i where "x = d + i" "i < n" by (auto simp: le_iff_add)
  moreover assume "apart d n s n"
  ultimately show ?thesis by (auto simp: apart_def memcpy_forward)
qed (auto simp: memcpy_outside)

lemma memcmp_bytes: "memcmp m a b n = 0 \<longleftrightarrow> bytes m a n = bytes m b n"
proof (induction m a b n rule: memcmp.induct)
  case (2 m a b n)
  have "bytes m a (Suc n) = m a # bytes m (Suc a) n" for a
    by (simp add: bytes_def upt_conv_Cons del: upt_Suc)
  with "2.IH" show ?case by simp
qed (simp add: bytes_def)

subsubsection \<open>The copying loops are bounded block copies\<close>

lemma strncpy_copy_all:
  "\<forall>i < n. m (s + i) \<noteq> NUL \<Longrightarrow> apart d n s n \<Longrightarrow> strncpy_copy m d s n = (0, d + n, memcpy m d s n)"
proof (induction n arbitrary: m d s)
  case (Suc n)
  have nz: "m (s + i) \<noteq> NUL" if "i \<le> n" for i
    using Suc.prems(1) that by auto
  have "m s \<noteq> NUL" "\<forall>i < n. (m(d := m s)) (Suc s + i) \<noteq> NUL"
    using nz [of 0] nz [of "Suc i" for i] by auto
  with Suc.prems(2) Suc.IH [of "m(d := m s)" "Suc s" "Suc d"] show ?case
    by (auto simp: apart_def fun_upd_def)
qed simp

lemma strncpy_copy_end:
  "k < n \<Longrightarrow> \<forall>i < k. m (s + i) \<noteq> NUL \<Longrightarrow> m (s + k) = NUL \<Longrightarrow> apart d (Suc k) s (Suc k) \<Longrightarrow>
   strncpy_copy m d s n = (n - k, Suc (d + k), memcpy m d s (Suc k))"
proof (induction n arbitrary: m d s k)
  case (Suc n)
  show ?case
  proof (cases k)
    case 0
    with Suc.prems show ?thesis by (simp add: fun_upd_def)
  next
    case (Suc j)
    have nz: "m (s + i) \<noteq> NUL" if "i \<le> j" for i
      using Suc.prems(2) Suc that by auto
    have "m s \<noteq> NUL" "\<forall>i < j. (m(d := m s)) (Suc s + i) \<noteq> NUL"
      using nz [of 0] nz [of "Suc i" for i] by auto
    moreover have "(m(d := m s)) (Suc s + j) = NUL"
      using Suc.prems(2-4) Suc by (auto simp: apart_def)
    ultimately show ?thesis
      using Suc Suc.prems Suc.IH [of j "m(d := m s)" "Suc s" "Suc d"]
      by (auto simp: apart_def fun_upd_def)
  qed
qed simp

lemma strncat_copy_strncpy:
  "strncat_copy m d s n = (case strncpy_copy m d s n of (_, d', m') \<Rightarrow> (d', m'))"
  by (induction n arbitrary: m d s) (auto simp: Let_def)

lemma strcpy_loop_strncpy:
  "strncpy_copy m d s n = (Suc r, d', m') \<Longrightarrow> strcpy_loop m d s = Some m'"
proof (induction n arbitrary: m d s)
  case (Suc n)
  then show ?case by (subst strcpy_loop.simps) (auto simp: Let_def split: if_splits)
qed simp

text \<open>A string and its terminator, copied to a region apart from it.\<close>

lemma memcpy_string:
  assumes "cstr_at m s str" "apart d (Suc (length str)) s (Suc (length str))"
  shows "memcpy m d s (Suc (length str)) x =
    (if d \<le> x \<and> x < d + length str then str ! (x - d) else if x = d + length str then NUL else m x)"
proof (cases "d \<le> x \<and> x < d + Suc (length str)")
  case True
  then have "x = d + (x - d)" "x - d \<le> length str" by auto
  then obtain i where "x = d + i" "i \<le> length str" by blast
  with assms show ?thesis by (auto simp: memcpy_apart cstr_at_iff simp del: memcpy.simps)
qed (use assms in \<open>auto simp: memcpy_apart simp del: memcpy.simps\<close>)

lemma strcpy_at:
  assumes "cstr_at m s str" "apart d (Suc (length str)) s (Suc (length str))" "d \<noteq> 0"
  shows "strcpy m d s = Some (memcpy m d s (Suc (length str)))"
proof -
  have "strncpy_copy m d s (Suc (length str)) = (Suc 0, Suc (d + length str), memcpy m d s (Suc (length str)))"
    using assms cstr_at_nth [OF assms(1)] strncpy_copy_end [of "length str" "Suc (length str)" m s d]
    by (auto simp: cstr_at_def simp del: memcpy.simps strncpy_copy.simps)
  from strcpy_loop_strncpy [OF this] show ?thesis
    using assms by (simp add: strcpy_def cstr_at_def del: memcpy.simps)
qed

lemma strncpy_long:
  assumes "cstr_at m s str" "n \<le> length str" "apart d n s n" "d \<noteq> 0"
  shows "strncpy m d s n = memcpy m d s n"
  using assms strncpy_copy_all [of n m s d] cstr_at_nth [OF assms(1)]
  by (auto simp: strncpy_def cstr_at_def [of m s str])

lemma strncpy_short:
  assumes "cstr_at m s str" "length str < n" "apart d (Suc (length str)) s (Suc (length str))" "d \<noteq> 0"
  shows "strncpy m d s n = fill (memcpy m d s (Suc (length str))) (Suc (d + length str)) NUL (n - length str)"
  using assms strncpy_copy_end [of "length str" n m s d] cstr_at_nth [OF assms(1)]
  by (auto simp: strncpy_def cstr_at_def [of m s str] simp del: memcpy.simps)

lemma strlcat_local_eq:
  assumes "cstr_at m dst d" "cstr_at m src s" "length d < sz"
  shows "strlcat_local m dst src sz =
    (let k = min (length s) (sz - Suc (length d))
     in Some (length d + length s, (memcpy m (dst + length d) src k)(dst + length d + k := NUL)))"
  using assms by (auto simp: strlcat_local_def strlen_at min_def Let_def)

lemma cstr_at_append:
  assumes "cstr_at m dst d" "cstr_at m src s" "k \<le> length s" "apart dst (Suc (length d + k)) src (length s)"
  shows "cstr_at ((memcpy m (dst + length d) src k)(dst + length d + k := NUL)) dst (d @ take k s)"
proof -
  have "apart (dst + length d) k src k" using assms(3,4) by (auto simp: apart_def)
  then have "(memcpy m (dst + length d) src k) (dst + i) = (d @ take k s) ! i" if "i < length d + k" for i
    using that assms cstr_at_nth [of m dst d i] cstr_at_nth [of m src s "i - length d"]
    by (auto simp: memcpy_apart nth_append)
  with assms show ?thesis by (auto simp: cstr_at_iff min_def)
qed

subsection \<open>Buffers at the level of strings\<close>

text \<open>
  What the bounded writers promise their callers: a buffer of \<open>sz\<close> bytes holds a string, and
  appending keeps the longest prefix that still leaves room for the terminator. The other
  theories use a buffer at this level.
\<close>

definition buf_append :: "nat \<Rightarrow> string \<Rightarrow> string \<Rightarrow> string" where
  "buf_append sz d s = take (sz - 1) (d @ s)"

locale bounded_append =
  fixes cap :: nat
    and app :: "string \<Rightarrow> string \<Rightarrow> string"
  assumes app_eq: "length d < cap \<Longrightarrow> app d s = take (cap - 1) (d @ s)"
begin

lemma app_fits: "length d < cap \<Longrightarrow> length (app d s) < cap"
  by (auto simp: app_eq)

lemma app_room: "length d + length s < cap \<Longrightarrow> app d s = d @ s"
  by (simp add: app_eq)

lemma fold_app: "length d < cap \<Longrightarrow> fold (\<lambda>s d. app d s) ss d = take (cap - 1) (d @ concat ss)"
proof (induction ss arbitrary: d)
  case (Cons s ss)
  then have "fold (\<lambda>s d. app d s) ss (app d s) = take (cap - 1) (app d s @ concat ss)"
    by (intro Cons.IH) (rule app_fits)
  also have "\<dots> = take (cap - 1) (d @ s @ concat ss)"
    using Cons.prems by (auto simp: app_eq min_def)
  finally show ?case by simp
qed simp

lemma fold_app_room:
  "length d + length (concat ss) < cap \<Longrightarrow> fold (\<lambda>s d. app d s) ss d = d @ concat ss"
  by (simp add: fold_app)

end

interpretation strlcat: bounded_append sz "buf_append sz" for sz
  by unfold_locales (simp add: buf_append_def)

lemma length_buf_append [simp]: "0 < sz \<Longrightarrow> length (buf_append sz d s) < sz"
  by (auto simp: buf_append_def)

lemma cstring_buf_append [simp]: "cstring d \<Longrightarrow> cstring s \<Longrightarrow> cstring (buf_append sz d s)"
  by (simp add: buf_append_def)

subsection \<open>Properties\<close>

text \<open>
  C33. \<^verbatim>\<open>memmove\<close> moves the block whatever the overlap: afterwards the destination holds the bytes
  the source had before the call, and every other byte of memory is unchanged.
\<close>

theorem memmove_any_overlap:
  "bytes (memmove m d s n) d n = bytes m s n \<and> (x < d \<or> d + n \<le> x \<longrightarrow> memmove m d s n x = m x)"
  by (auto simp: memmove_nth bytes_eq_iff)

theorem memmove_any_overlap_witness:
  "bytes (memmove (\<lambda>a. if a = 5 then CHR ''a'' else CHR ''b'') 6 5 3) 6 3 = ''abb'' \<and>
   memmove (\<lambda>a. if a = 5 then CHR ''a'' else CHR ''b'') 6 5 3 5 = CHR ''a''"
  using memmove_any_overlap [of "\<lambda>a. if a = 5 then CHR ''a'' else CHR ''b''" 6 5 3 5]
  by (simp add: bytes_def upt_rec)

text \<open>
  \<^verbatim>\<open>strlcat_local\<close> implements the bounded append: when both strings are terminated, the
  destination fits its buffer of \<open>sz\<close> bytes and the source lies outside the buffer, it returns
  the length it tried to create, leaves the truncated concatenation in the buffer and changes no
  byte outside it.
\<close>

theorem strlcat_local_refines:
  assumes "cstr_at m dst d" "cstr_at m src s" "length d < sz" "apart dst sz src (Suc (length s))"
  shows "\<exists>m'. strlcat_local m dst src sz = Some (length d + length s, m') \<and>
    cstr_at m' dst (buf_append sz d s) \<and> (\<forall>x. x < dst \<or> dst + sz \<le> x \<longrightarrow> m' x = m x)"
proof -
  define k where "k = min (length s) (sz - Suc (length d))"
  have k: "k \<le> length s" "length d + k < sz" "d @ take k s = buf_append sz d s"
    using assms(3) by (auto simp: k_def buf_append_def min_def)
  then have "apart dst (Suc (length d + k)) src (length s)"
    using assms(4) by (auto simp: apart_def)
  from cstr_at_append [OF assms(1,2) k(1) this] k show ?thesis
    by (auto simp: strlcat_local_eq [OF assms(1-3)] k_def [symmetric] Let_def memcpy_outside)
qed

definition two_strings :: mem where
  "two_strings = (\<lambda>_. NUL)(1 := CHR ''a'', 2 := CHR ''b'', 11 := CHR ''c'', 12 := CHR ''d'')"

theorem strlcat_local_refines_witness:
  "\<exists>m'. strlcat_local two_strings 1 11 4 = Some (4, m') \<and> cstr_at m' 1 ''abc'' \<and> m' 5 = NUL"
  using strlcat_local_refines [of two_strings 1 "''ab''" 11 "''cd''" 4]
  by (auto simp: two_strings_def cstr_at_def bytes_def apart_def buf_append_def upt_rec cstring_def)

text \<open>
  The extent of \<^verbatim>\<open>strncpy\<close>: a source of at least \<open>n\<close> characters fills exactly \<open>n\<close> bytes and
  is not terminated; a shorter source is copied, terminated and padded, but the padding
  goes one byte too far: \<open>n + 1\<close> bytes are written.
\<close>

theorem strncpy_extent:
  assumes "cstr_at m s str" "apart d (Suc n) s (Suc (length str))" "d \<noteq> 0"
  shows "strncpy m d s n x =
    (if n = 0 then m x
     else if n \<le> length str then (if d \<le> x \<and> x < d + n then str ! (x - d) else m x)
     else if d \<le> x \<and> x < d + length str then str ! (x - d)
     else if d + length str \<le> x \<and> x \<le> d + n then NUL
     else m x)"
proof -
  consider "n = 0" | "0 < n" "n \<le> length str" | "length str < n" by linarith
  then show ?thesis
  proof cases
    case 2
    moreover have ap: "apart d n s n" using assms(2) 2 by (auto simp: apart_def)
    moreover have "m (s + (x - d)) = str ! (x - d)" if "d \<le> x" "x < d + n"
      using cstr_at_nth [OF assms(1), of "x - d"] that 2 by simp
    ultimately show ?thesis by (auto simp: strncpy_long [OF assms(1) 2(2) ap assms(3)] memcpy_apart)
  next
    case 3
    then have ap: "apart d (Suc (length str)) s (Suc (length str))" using assms(2) by (auto simp: apart_def)
    show ?thesis
      unfolding strncpy_short [OF assms(1) 3 ap assms(3)] fill_nth memcpy_string [OF assms(1) ap]
      using 3 by auto
  qed (simp add: strncpy_def)
qed

theorem strncpy_extent_witness:
  "strncpy (two_strings(7 := CHR ''z'')) 5 11 2 7 = CHR ''z'' \<and>
   strncpy (two_strings(8 := CHR ''z'')) 5 11 3 8 = NUL"
  using strncpy_extent [of "two_strings(7 := CHR ''z'')" 11 "''cd''" 5 2 7]
    strncpy_extent [of "two_strings(8 := CHR ''z'')" 11 "''cd''" 5 3 8]
  by (simp add: two_strings_def cstr_at_def bytes_def apart_def upt_rec cstring_def)

end
