(* ===== verification/Xui_Format.thy ===== *)
theory Xui_Format
  imports Libc_Mem
begin

section \<open>The formatter behind every message, path and reply (xui.c, written by xui.sh)\<close>

text \<open>
  \<^verbatim>\<open>xui.c\<close> is written by \<^verbatim>\<open>scripts/framework/xui.sh\<close>, which holds its text. All strings the
  program composes go through its \<^verbatim>\<open>printf_vsn\<close>, a small \<^verbatim>\<open>snprintf\<close> that also expands
  \<^verbatim>\<open>${NAME}\<close> symbols. \<open>printf_vsn\<close> follows its loop with the output index and the bound \<open>size - 1\<close>
  tested where the code tests them; \<open>render\<close> is the same formatter without a bound, and the main
  lemma says that the bounded one yields a prefix of it.

  A variadic argument is an \<open>arg\<close>. Reading an argument as another kind than it was passed is
  undefined in C; here it reads as an empty or zero value. A lone percent sign at the end of a format, which makes the code
  read past the terminator, ends the format here; no format of the program has one.
  Doubles are exact rationals.
\<close>

datatype arg = AStr string | ANull | AInt int | AUInt nat | ASize nat | ADbl rat

fun va_str :: "arg \<Rightarrow> string" where
  "va_str (AStr s) = s" | "va_str ANull = ''(null)''" | "va_str _ = ''''"
fun va_int :: "arg \<Rightarrow> int" where
  "va_int (AInt n) = s32 n" | "va_int _ = 0"
fun va_uint :: "arg \<Rightarrow> nat" where
  "va_uint (AUInt n) = n mod 2 ^ 32" | "va_uint (AInt n) = nat (n mod 2 ^ 32)" | "va_uint _ = 0"
fun va_size :: "arg \<Rightarrow> nat" where
  "va_size (ASize n) = n mod 2 ^ 64" | "va_size _ = 0"
fun va_dbl :: "arg \<Rightarrow> rat" where
  "va_dbl (ADbl x) = x" | "va_dbl _ = 0"

definition va_hd :: "arg list \<Rightarrow> arg" where
  "va_hd as = (case as of [] \<Rightarrow> ANull | a # _ \<Rightarrow> a)"

subsection \<open>Numbers\<close>

definition digit_char :: "nat \<Rightarrow> char" where
  "digit_char r = char_of (if r > 9 then (r - 10) + 97 else r + 48 :: nat)"

text \<open>The digits as the loop produces them, least significant first.\<close>

fun utoa_loop :: "nat \<Rightarrow> nat \<Rightarrow> string" where
  "utoa_loop base n = (if n = 0 \<or> base < 2 then [] else digit_char (n mod base) # utoa_loop base (n div base))"

declare utoa_loop.simps [simp del]

definition xui_utoa :: "nat \<Rightarrow> nat \<Rightarrow> string" where
  "xui_utoa base n = (if n = 0 then ''0'' else rev (utoa_loop base n))"

definition xui_itoa :: "nat \<Rightarrow> int \<Rightarrow> string" where
  "xui_itoa base n =
     (if n = 0 then ''0''
      else if n < 0 \<and> base = 10 then rev (utoa_loop base (nat (- n)) @ ''-'')
      else rev (utoa_loop base (nat n)))"

subsection \<open>Width\<close>

text \<open>The number of visible characters: escape sequences and UTF-8 continuation bytes do not count.\<close>

fun visible_len :: "bool \<Rightarrow> string \<Rightarrow> nat" where
  "visible_len in_escape [] = 0"
| "visible_len in_escape (c # s) =
     (if c = CHR 0x1B then visible_len True s
      else if in_escape then visible_len (c \<noteq> CHR ''m'') s
      else if uchar c div 64 \<noteq> 2 then Suc (visible_len False s)
      else visible_len False s)"

definition pad :: "bool \<Rightarrow> int \<Rightarrow> nat \<Rightarrow> string \<Rightarrow> string" where
  "pad left width vlen t =
     (let blanks = replicate (nat (width - int vlen)) CHR '' ''
      in if left then t @ blanks else blanks @ t)"

fun width_digits :: "int \<Rightarrow> string \<Rightarrow> int \<times> string" where
  "width_digits w [] = (w, [])"
| "width_digits w (c # p) =
     (if is_digit c then width_digits (s32 (w * 10 + (uchar c - 48))) p else (w, c # p))"

text \<open>The flags between the percent sign and the conversion: left, width, what follows.\<close>

definition read_flags :: "string \<Rightarrow> arg list \<Rightarrow> bool \<times> int \<times> string \<times> arg list" where
  "read_flags p as =
     (let left = (take 1 p = ''-'');
          p1 = (if left then drop 1 p else p);
          star = (take 1 p1 = ''*'');
          (w0, p2, as2) = (if star then (va_int (va_hd as), drop 1 p1, drop 1 as) else (0, p1, as));
          (w, p3) = width_digits w0 p2
      in (left, w, p3, as2))"

subsection \<open>One step of the loop\<close>

definition rat_trunc :: "rat \<Rightarrow> int" where
  "rat_trunc x = (if x < 0 then - \<lfloor>- x\<rfloor> else \<lfloor>x\<rfloor>)"

definition fixed1 :: "rat \<Rightarrow> string" where
  "fixed1 f =
     (let whole = rat_trunc f;
          fr = rat_trunc ((f - of_int whole) * 10)
      in xui_itoa 10 whole @ ''.'' @ [char_of (nat (\<bar>fr\<bar> + 48))])"

text \<open>A conversion: the text it adds, the rest of the format and of the arguments.\<close>

definition convert :: "string \<Rightarrow> arg list \<Rightarrow> string \<times> string \<times> arg list" where
  "convert p as =
     (case read_flags p as of (left, width, q, bs) \<Rightarrow>
        if take 1 q = ''s'' then
          (let s = va_str (va_hd bs) in (pad left width (visible_len False s) s, drop 1 q, drop 1 bs))
        else if take 1 q = ''d'' then
          (let t = xui_itoa 10 (va_int (va_hd bs)) in (pad left width (length t) t, drop 1 q, drop 1 bs))
        else if take 1 q = ''u'' then
          (let t = xui_utoa 10 (va_uint (va_hd bs)) in (pad left width (length t) t, drop 1 q, drop 1 bs))
        else if take 2 q = ''zu'' then
          (let t = xui_utoa 10 (va_size (va_hd bs)) in (pad left width (length t) t, drop 2 q, drop 1 bs))
        else if take 1 q = ''x'' then
          (let t = xui_utoa 16 (va_uint (va_hd bs)) in (pad left width (length t) t, drop 1 q, drop 1 bs))
        else if take 1 q = ''.'' then
          (if take 2 (drop 1 q) = ''1f'' then (fixed1 (va_dbl (va_hd bs)), drop 3 q, drop 1 bs)
           else ([], drop 2 q, bs))
        else (take 1 q, drop 1 q, bs))"

text \<open>\<^verbatim>\<open>${NAME}\<close> at the start of \<open>p\<close>, when the table has \<open>NAME\<close>: its value and the rest.\<close>

definition symbol :: "(string \<times> string) list \<Rightarrow> string \<Rightarrow> (string \<times> string) option" where
  "symbol table p =
     (if take 2 p = ''${'' then
        (case strchr (drop 2 p) (CHR ''}'') of
           None \<Rightarrow> None
         | Some n \<Rightarrow>
             if n < 64 then
               map_option (\<lambda>v. (v, drop (n + 3) p)) (map_of table (take n (drop 2 p)))
             else None)
      else None)"

text \<open>What the body of the loop adds, and what is left: symbol, conversion or plain character.\<close>

definition fmt_step :: "(string \<times> string) list \<Rightarrow> string \<Rightarrow> arg list \<Rightarrow> string \<times> string \<times> arg list" where
  "fmt_step table p as =
     (case symbol table p of
        Some (v, rest) \<Rightarrow> (v, rest, as)
      | None \<Rightarrow> if take 1 p \<noteq> ''%'' then (take 1 p, drop 1 p, as) else convert (drop 1 p) as)"

lemma width_digits_length: "width_digits w p = (w', q) \<Longrightarrow> length q \<le> length p"
  by (induction w p rule: width_digits.induct) (auto split: if_splits)

lemma read_flags_length: "read_flags p as = (l, w, q, bs) \<Longrightarrow> length q \<le> length p"
  by (auto simp: read_flags_def Let_def split: if_splits prod.splits dest!: width_digits_length)

lemma convert_length: "convert p as = (t, q, bs) \<Longrightarrow> length q \<le> length p"
  by (auto simp: convert_def Let_def split: prod.splits if_splits dest!: read_flags_length)

lemma fmt_step_length: "fmt_step table p as = (t, q, bs) \<Longrightarrow> p \<noteq> [] \<Longrightarrow> length q < length p"
  by (cases p) (auto simp: fmt_step_def symbol_def split: option.splits if_splits dest!: convert_length)

function render :: "(string \<times> string) list \<Rightarrow> string \<Rightarrow> arg list \<Rightarrow> string" where
  "render table p as =
     (if p = [] then []
      else case fmt_step table p as of (t, q, bs) \<Rightarrow> t @ render table q bs)"
  by pat_completeness auto
termination
  by (relation "measure (\<lambda>(table, p, as). length p)") (auto dest!: fmt_step_length [OF sym])

declare render.simps [simp del]

text \<open>The loop itself: \<open>buf\<close> is what has been written, \<open>room\<close> is \<^verbatim>\<open>size - 1\<close>.\<close>

function vsn_loop :: "(string \<times> string) list \<Rightarrow> nat \<Rightarrow> string \<Rightarrow> arg list \<Rightarrow> string \<Rightarrow> string" where
  "vsn_loop table room p as buf =
     (if p = [] \<or> \<not> length buf < room then buf
      else case fmt_step table p as of (t, q, bs) \<Rightarrow>
             vsn_loop table room q bs (buf @ take (room - length buf) t))"
  by pat_completeness auto
termination
  by (relation "measure (\<lambda>(table, room, p, as, buf). length p)") (auto dest!: fmt_step_length [OF sym])

declare vsn_loop.simps [simp del]

definition printf_vsn :: "(string \<times> string) list \<Rightarrow> nat \<Rightarrow> string \<Rightarrow> arg list \<Rightarrow> string" where
  "printf_vsn table sz fmt as = vsn_loop table (sz - 1) fmt as []"

subsection \<open>The bounded formatter is a prefix of the unbounded one\<close>

lemma vsn_loop_render:
  "length buf \<le> room \<Longrightarrow> vsn_loop table room p as buf = buf @ take (room - length buf) (render table p as)"
proof (induction table room p as buf rule: vsn_loop.induct)
  case (1 table room p as buf)
  show ?case
  proof (cases "p = [] \<or> \<not> length buf < room")
    case True
    with "1.prems" show ?thesis
      by (auto simp: vsn_loop.simps [of table room p as buf] render.simps [of table p as])
  next
    case False
    obtain t q bs where st: "fmt_step table p as = (t, q, bs)" by (metis prod_cases3)
    have "length (buf @ take (room - length buf) t) \<le> room" using "1.prems" by auto
    from "1.IH" [OF False st [symmetric] refl this]
    have "vsn_loop table room q bs (buf @ take (room - length buf) t) =
        buf @ take (room - length buf) (t @ render table q bs)"
      using "1.prems" by (auto simp: min_def)
    with False st show ?thesis
      by (simp add: vsn_loop.simps [of table room p as buf] render.simps [of table p as])
  qed
qed

lemma printf_vsn_render: "printf_vsn table sz fmt as = take (sz - 1) (render table fmt as)"
  by (simp add: printf_vsn_def vsn_loop_render)

lemma length_printf_vsn: "0 < sz \<Longrightarrow> length (printf_vsn table sz fmt as) < sz"
  by (auto simp: printf_vsn_render)

subsection \<open>Computing a format\<close>

named_theorems fmt_simps "the formatter on the conversions the program uses"

lemma render_Nil [fmt_simps]: "render table [] as = []"
  by (simp add: render.simps)

lemma render_plain [fmt_simps]:
  "c \<noteq> CHR ''%'' \<Longrightarrow> c \<noteq> CHR ''$'' \<Longrightarrow> render table (c # p) as = c # render table p as"
  by (subst render.simps) (auto simp: fmt_step_def symbol_def)

lemma convert_simps:
  "convert (CHR ''s'' # p) as = (va_str (va_hd as), p, drop 1 as)"
  "convert (CHR ''d'' # p) as = (xui_itoa 10 (va_int (va_hd as)), p, drop 1 as)"
  "convert (CHR ''u'' # p) as = (xui_utoa 10 (va_uint (va_hd as)), p, drop 1 as)"
  "convert (CHR ''z'' # CHR ''u'' # p) as = (xui_utoa 10 (va_size (va_hd as)), p, drop 1 as)"
  "convert (CHR ''x'' # p) as = (xui_utoa 16 (va_uint (va_hd as)), p, drop 1 as)"
  "convert (CHR ''.'' # CHR ''1'' # CHR ''f'' # p) as = (fixed1 (va_dbl (va_hd as)), p, drop 1 as)"
  "convert (CHR ''%'' # p) as = (''%'', p, as)"
  by (simp_all add: convert_def read_flags_def pad_def is_digit_def uchar_def numeral_2_eq_2)

lemma render_convert:
  "convert p as = (t, q, bs) \<Longrightarrow> render table (CHR ''%'' # p) as = t @ render table q bs"
  by (subst render.simps) (simp add: fmt_step_def symbol_def)

lemma render_conversions [fmt_simps]:
  "render table (CHR ''%'' # CHR ''s'' # p) (a # as) = va_str a @ render table p as"
  "render table (CHR ''%'' # CHR ''d'' # p) (a # as) = xui_itoa 10 (va_int a) @ render table p as"
  "render table (CHR ''%'' # CHR ''u'' # p) (a # as) = xui_utoa 10 (va_uint a) @ render table p as"
  "render table (CHR ''%'' # CHR ''z'' # CHR ''u'' # p) (a # as) = xui_utoa 10 (va_size a) @ render table p as"
  "render table (CHR ''%'' # CHR ''x'' # p) (a # as) = xui_utoa 16 (va_uint a) @ render table p as"
  "render table (CHR ''%'' # CHR ''.'' # CHR ''1'' # CHR ''f'' # p) (a # as) =
     fixed1 (va_dbl a) @ render table p as"
  "render table (CHR ''%'' # CHR ''%'' # p) as = CHR ''%'' # render table p as"
  by (simp_all add: render_convert [OF convert_simps(1)] render_convert [OF convert_simps(2)]
      render_convert [OF convert_simps(3)] render_convert [OF convert_simps(4)]
      render_convert [OF convert_simps(5)] render_convert [OF convert_simps(6)]
      render_convert [OF convert_simps(7)] va_hd_def)

lemmas printf_simps = printf_vsn_render fmt_simps

text \<open>What \<^verbatim>\<open>printf_sn(buf, n, "%s", s)\<close> leaves in \<^verbatim>\<open>buf\<close>.\<close>

definition fit :: "nat \<Rightarrow> string \<Rightarrow> string" where
  "fit n s = take (n - 1) s"

lemma printf_fit: "printf_vsn table n ''%s'' [AStr s] = fit n s"
  by (simp add: fit_def printf_simps)

lemma fit_short [simp]: "length s < n \<Longrightarrow> fit n s = s"
  by (simp add: fit_def)

lemma cstring_fit [simp]: "cstring s \<Longrightarrow> cstring (fit n s)"
  by (simp add: fit_def)

lemma length_fit: "length (fit n s) = min (length s) (n - 1)"
  by (simp add: fit_def min.commute)

subsection \<open>Printed numbers read back\<close>

lemma digit_char_digit: "r < 10 \<Longrightarrow> is_digit (digit_char r) \<and> of_char (digit_char r) = r + 48"
  by (simp add: digit_char_def is_digit_def uchar_def)

lemma utoa_loop_digits: "digits (utoa_loop 10 n)"
proof (induction n rule: less_induct)
  case (less n)
  then show ?case by (subst utoa_loop.simps) (auto simp: digit_char_digit)
qed

lemma dec_from_snoc: "dec_from r (ds @ [c]) = dec_from r ds * 10 + (of_char c - 48)"
  by simp

lemma utoa_loop_value: "dec_value (rev (utoa_loop 10 n)) = n"
proof (induction n rule: less_induct)
  case (less n)
  then show ?case by (subst utoa_loop.simps) (auto simp: digit_char_digit)
qed

lemma utoa_loop_Nil: "utoa_loop 10 n = [] \<longleftrightarrow> n = 0"
  by (subst utoa_loop.simps) simp

lemma digits_rev [simp]: "digits (rev ds) \<longleftrightarrow> digits ds"
  by (simp add: digits_def)

lemma xui_utoa_digits: "digits (xui_utoa 10 n)" "xui_utoa 10 n \<noteq> []" "dec_value (xui_utoa 10 n) = n"
  by (auto simp: xui_utoa_def utoa_loop_digits utoa_loop_value utoa_loop_Nil is_digit_def uchar_def)

lemma xui_itoa_shape:
  obtains sg ds where "xui_itoa 10 n = sg @ ds" "digits ds" "ds \<noteq> []" "sg \<in> {[], ''-''}"
    "signed_value sg ds = n"
proof (cases "n < 0")
  case True
  with that [of "''-''" "xui_utoa 10 (nat (- n))"] show ?thesis
    by (simp add: xui_utoa_digits, simp add: xui_itoa_def xui_utoa_def)
next
  case False
  with that [of "[]" "xui_utoa 10 (nat n)"] show ?thesis
    by (simp add: xui_utoa_digits, simp add: xui_itoa_def xui_utoa_def)
qed

lemma atoi_itoa: "stops rest \<Longrightarrow> atoi (xui_itoa 10 n @ rest) = s32 n"
proof -
  assume rest: "stops rest"
  obtain sg ds where *: "xui_itoa 10 n = sg @ ds" "digits ds" "ds \<noteq> []" "sg \<in> {[], ''-''}"
    "signed_value sg ds = n" by (rule xui_itoa_shape)
  show ?thesis using atoi_reads_decimal [of "[]" ds sg rest] rest * by simp
qed

lemma strtol_itoa:
  assumes "stops rest" "LONG_MIN \<le> n" "n \<le> LONG_MAX"
  shows "strtol (xui_itoa 10 n @ rest) 10 =
    \<lparr>l_val = n, l_end = Some (length (xui_itoa 10 n)), l_erange = False\<rparr>"
proof -
  obtain sg ds where *: "xui_itoa 10 n = sg @ ds" "digits ds" "ds \<noteq> []" "sg \<in> {[], ''-''}"
    "signed_value sg ds = n" by (rule xui_itoa_shape)
  show ?thesis using strtol_reads_decimal [of "[]" ds sg rest] assms * by auto
qed

lemma utoa_loop_length: "n < 10 ^ k \<Longrightarrow> length (utoa_loop 10 n) \<le> k"
proof (induction k arbitrary: n)
  case 0
  then show ?case by (simp add: utoa_loop_Nil)
next
  case (Suc k)
  have "n div 10 < 10 ^ k" using Suc.prems by auto
  from Suc.IH [OF this] show ?case by (subst utoa_loop.simps) simp
qed

lemma itoa_length: "- (2 ^ 31) \<le> n \<Longrightarrow> n < 2 ^ 31 \<Longrightarrow> length (xui_itoa 10 n) \<le> 11"
proof -
  assume n: "- (2 ^ 31) \<le> n" "n < 2 ^ 31"
  then have "nat n < 10 ^ 10" "nat (- n) < 10 ^ 10" by auto
  from utoa_loop_length [OF this(1)] utoa_loop_length [OF this(2)] show ?thesis by (auto simp: xui_itoa_def)
qed

lemma utoa_length: "n < 2 ^ 64 \<Longrightarrow> length (xui_utoa 10 n) \<le> 20"
  using utoa_loop_length [of n 20] by (auto simp: xui_utoa_def)

lemma cstring_digits: "digits ds \<Longrightarrow> cstring ds"
  by (auto simp: digits_def cstring_def is_digit_def uchar_def)

lemma xui_itoa_chars: "c \<in> set (xui_itoa 10 n) \<Longrightarrow> is_digit c \<or> c = CHR ''-''"
  by (rule xui_itoa_shape [of n]) (auto simp: digits_def)

lemma cstring_itoa [simp]: "cstring (xui_itoa 10 n)"
  using xui_itoa_chars [of NUL n] by (auto simp: cstring_def is_digit_def uchar_def)

end
