(* ===== verification/X3D_State.thy ===== *)
theory X3D_State
  imports Xui_Format
begin

section \<open>The state of the program, the kernel it runs on, and the system call wrappers\<close>

text \<open>
  The program's global variables are the fields of one record \<open>prog\<close>, and its functions are
  state transformers over it. What the program cannot see, the operating system and the
  libraries it does not contain, is the \<open>world\<close>: an opaque value that only the function \<open>kernel\<close> of
  the environment \<open>env\<close> transforms, one call at a time. Every call and every console
  message is also appended to the ghost field \<open>trace\<close>, so that theorems can speak about what the program
  did and in which order.

  The environment also has the constants that the build writes into \<^verbatim>\<open>build/config.h\<close>,
  \<^verbatim>\<open>build/ccd.h\<close> and \<^verbatim>\<open>build/xui.c\<close>, and \<open>garbage\<close>, what an uninitialised buffer holds.
\<close>

subsection \<open>System calls\<close>

text \<open>
  A forked child of this program runs one short fixed block that ends in \<^verbatim>\<open>execve\<close> and,
  if that fails, in \<^verbatim>\<open>_exit\<close>; \<open>child\<close> describes the block. The workers of the load generator, which execute nothing, have
  an empty path. \<open>c_redirect\<close> says that it first runs
  \<^verbatim>\<open>redirect_systemctl_stdio\<close>.
\<close>

record child =
  c_redirect :: bool
  c_path :: string
  c_argv :: "string list"
  c_env :: "string list"
  c_fail :: int

text \<open>The calls into libbpf, libpthread and sd-bus that \<^verbatim>\<open>bpf-user.c\<close> makes; pointers are integers.\<close>

datatype bpf_call =
    BpfThread
  | BpfOpen string
  | BpfLoad int
  | BpfClose int
  | BpfFindProgram int string
  | BpfAttach int
  | BpfDestroy int
  | BpfFindMap int string
  | BpfMapFd int
  | BpfRingNew int
  | BpfRingPoll int int
  | BpfRingFree int

datatype syscall =
    SysOpen string nat nat
  | SysRead int nat
  | SysWrite int string
  | SysClose int
  | SysDup2 int int
  | SysFork child
  | SysWait int
  | SysExecve string "string list" "string list"
  | SysExit int
  | SysNanosleep nat nat
  | SysGetdents int nat
  | SysClock int
  | SysAccess string nat
  | SysGetpid
  | SysGeteuid
  | SysUnlink string
  | SysChmod string nat
  | SysMkdir string nat
  | SysRmdir string
  | SysAffinity int string
  | SysKill int int
  | SysSigaction int
  | SysSocket nat nat nat
  | SysConnect int string
  | SysAccept4 int nat
  | SysBind int string
  | SysListen int nat
  | SysSendto int string nat string
  | SysRecvfrom int nat nat
  | SysSelect int "int list" int
  | SysFcntl int nat int
  | LibBpf bpf_call

record process_event =
  pe_pid :: int
  pe_comm :: string
  pe_is_exit :: bool

text \<open>
  What a call gives back: the raw return value, bytes stored through a pointer, the names of
  directory entries, numbers stored through pointers, or ring buffer events.
\<close>

datatype sysres =
    Ret int
  | Data string
  | Names "string list"
  | Nums int "int list"
  | Events "process_event list"

fun ret_of :: "sysres \<Rightarrow> int" where
  "ret_of (Ret n) = n"
| "ret_of (Data d) = int (length d)"
| "ret_of (Names ns) = int (length ns)"
| "ret_of (Nums n _) = n"
| "ret_of (Events es) = int (length es)"

fun data_of :: "sysres \<Rightarrow> string" where
  "data_of (Data d) = d"
| "data_of _ = []"

fun names_of :: "sysres \<Rightarrow> string list" where
  "names_of (Names ns) = ns"
| "names_of _ = []"

fun num_of :: "sysres \<Rightarrow> nat \<Rightarrow> int" where
  "num_of (Nums _ ns) i = (if i < length ns then ns ! i else 0)"
| "num_of _ i = 0"

fun events_of :: "sysres \<Rightarrow> process_event list" where
  "events_of (Events es) = es"
| "events_of _ = []"

subsection \<open>The environment\<close>

text \<open>The defaults of \<^verbatim>\<open>build/config.h\<close> (\<^verbatim>\<open>CONFIG_...\<close>).\<close>

record config_defaults =
  CONFIG_POLLING_INTERVAL :: int
  CONFIG_REFRESH_INTERVAL :: rat
  CONFIG_DEV_ENABLE :: int
  CONFIG_AFFINITY_LEVEL :: int
  CONFIG_AFFINITY_MASK :: string
  CONFIG_AFFINITY_FREQ_MASK :: string
  CONFIG_LOAD_THRESHOLD :: rat
  CONFIG_DETECTION_LEVEL :: int
  CONFIG_EBPF_ENABLE :: int
  CONFIG_DEBUG_ENABLE :: int
  CONFIG_FALLBACK_PROFILE :: string
  CONFIG_SERVER_ENABLED :: int
  CONFIG_SERVER_ADDRESS :: string
  CONFIG_SERVER_PORT :: int
  CONFIG_SERVER_SSH :: string

record 'w env =
  kernel :: "syscall \<Rightarrow> 'w \<Rightarrow> sysres \<times> 'w"
  xui_symbols :: "(string \<times> string) list"
  garbage :: string
  CONFIG_PATH :: string
  TOTAL_CORES :: int
  CCD1_START :: int
  ccd_result :: "(string \<times> int \<times> int) option"  \<comment> \<open>what the generated \<^verbatim>\<open>ccd()\<close> finds; \<open>None\<close>: it fails\<close>
  defaults :: config_defaults

subsection \<open>The program's variables\<close>

record DaemonConfig =
  polling_interval :: int
  refresh_interval :: rat
  dev_enable :: int
  affinity_level :: int
  affinity_mask :: string
  affinity_freq_mask :: string
  load_threshold :: rat
  detection_level :: int
  ebpf_enable :: int
  debug_enable :: int
  daemon_state :: string
  fallback_profile :: string
  server_enabled :: int
  server_address :: string
  server_port :: int
  server_ssh :: string
  sched_bore :: int
  sched_bit_shift :: int
  sched_burst_fork :: int
  sched_slice_us :: int
  vm_max_map :: int
  split_lock_detect :: int
  nmi_watchdog :: int
  thp_mode :: string
  net_qdisc :: string
  net_fastopen :: int
  net_rp_filter :: int
  net_source_route :: int
  irq_enable :: int
  irq_gpu :: int
  irq_nvme :: int
  irq_usb :: int
  irq_nic :: int
  irq_audio :: int
  irq_coalesce :: int
  irq_watch :: int
  advanced_config_enable :: int
  force_unsupported_display :: int
  lint_clang_diagnostic :: string
  lint_clang_bugprone :: string
  lint_clang_modernize :: string
  lint_clang_readability :: string
  lint_clang_performance :: string
  lint_clang_portability :: string
  lint_clang_analyzer :: string
  lint_cppcheck_all :: string
  lint_cppcheck_warning :: string
  lint_cppcheck_style :: string
  lint_cppcheck_performance :: string
  lint_cppcheck_portability :: string
  lint_cppcheck_information :: string
  lint_cppcheck_unused :: string
  lint_valgrind_mode :: string
  lint_valgrind_kinds :: string
  lint_valgrind_origins :: string
  journal_keep :: int
  journal_max_mb :: int
  capabilities :: "64 word"

text \<open>
  \<^verbatim>\<open>gamelist\<close> is its list of names; \<^verbatim>\<open>count\<close> is the length. The buffers \<^verbatim>\<open>char x[n]\<close> are strings.
\<close>

type_synonym gamelist = "string list"

record CPUStats =
  cs_user :: "64 word"
  cs_nice :: "64 word"
  cs_system :: "64 word"
  cs_idle :: "64 word"
  cs_iowait :: "64 word"
  cs_irq :: "64 word"
  cs_softirq :: "64 word"

text \<open>A console routine of \<^verbatim>\<open>xui.c\<close> with its format and arguments, or a call.\<close>

datatype event =
    Sys syscall sysres
  | Out string string "arg list"

record 'w prog =
  world :: 'w
  trace :: "event list"
  errno :: int
  environ :: "string list"
  cfg :: DaemonConfig
  gl :: gamelist
  bpf_active :: bool
  wrapper_lock :: int
  active_override :: int
  active_keep :: bool
  last_sig :: int
  reload_flag :: bool
  failsafe_active :: bool
  sig_installed :: bool   \<comment> \<open>\<^verbatim>\<open>init_signals\<close> has run\<close>
  x3d_path_cache :: string
  last_target :: string
  buffer_deferred :: string
  buffer_active :: bool
  syslog_fd :: int
  log_path :: string
  warned_group :: bool
  active_games :: int
  bpf_obj :: int
  bpf_link_exec :: int
  bpf_link_exit :: int
  bpf_rb :: int
  cur_mode :: string      \<comment> \<open>\<^verbatim>\<open>current\<close> of \<^verbatim>\<open>daemon()\<close>\<close>
  target_mode :: string   \<comment> \<open>\<^verbatim>\<open>target\<close> of \<^verbatim>\<open>daemon()\<close>\<close>
  p_stat :: CPUStats
  c_stat :: CPUStats
  exited :: "int option"  \<comment> \<open>the process has ended with this status\<close>

type_synonym ('w, 'a) m = "('w prog, 'a) state"

subsection \<open>Calls and their error convention\<close>

definition sys :: "'w env \<Rightarrow> syscall \<Rightarrow> ('w, sysres) m" where
  "sys E c =
     State (\<lambda>s. case kernel E c (world s) of (r, w) \<Rightarrow>
       (r, s\<lparr>world := w, trace := trace s @ [Sys c r]\<rparr>))"

definition out :: "string \<Rightarrow> string \<Rightarrow> arg list \<Rightarrow> ('w, unit) m" where
  "out f fmt as = modify (\<lambda>s. s\<lparr>trace := trace s @ [Out f fmt as]\<rparr>)"

abbreviation printf_step :: "string \<Rightarrow> arg list \<Rightarrow> ('w, unit) m" where
  "printf_step \<equiv> out ''printf_step''"

abbreviation printf_string :: "string \<Rightarrow> arg list \<Rightarrow> ('w, unit) m" where
  "printf_string \<equiv> out ''printf_string''"

definition printf_sn :: "'w env \<Rightarrow> nat \<Rightarrow> string \<Rightarrow> arg list \<Rightarrow> string" where
  "printf_sn E sz fmt as = printf_vsn (xui_symbols E) sz fmt as"

text \<open>The tail of most wrappers: an error is stored in \<^verbatim>\<open>errno\<close> and becomes -1.\<close>

definition sys_errno :: "'w env \<Rightarrow> syscall \<Rightarrow> ('w, sysres) m" where
  "sys_errno E c = do {
     r \<leftarrow> sys E c;
     if ret_of r < 0 \<and> ret_of r > - 4096 then do {
       modify (\<lambda>s. s\<lparr>errno := - ret_of r\<rparr>);
       ret (Ret (- 1))
     } else ret r
   }"

definition sys_int :: "'w env \<Rightarrow> syscall \<Rightarrow> ('w, int) m" where
  "sys_int E c = do { r \<leftarrow> sys_errno E c; ret (s32 (ret_of r)) }"

end
