(* ===== verification/Sys_Libc.thy ===== *)
theory Sys_Libc
  imports X3D_State
begin

section \<open>System call wrappers and the small helpers on top of them (src/libc.c)\<close>

text \<open>
  One definition per wrapper of \<^verbatim>\<open>libc.c\<close>. They share the error convention of \<open>sys_errno\<close>;
  those that return an \<^verbatim>\<open>int\<close> also truncate to 32 bits. Three wrappers (\<^verbatim>\<open>fork\<close>, \<^verbatim>\<open>waitpid\<close>,
  \<^verbatim>\<open>getpid\<close>/\<^verbatim>\<open>geteuid\<close>) hand the raw value back. A call that fills a buffer returns the bytes with
  the count. The kernel stores at most as many bytes as it was asked for.
\<close>

subsection \<open>Constants of \<^verbatim>\<open>libc.h\<close>\<close>

definition O_RDONLY :: nat where "O_RDONLY = 0"
definition O_WRONLY :: nat where "O_WRONLY = 1"
definition O_CREAT :: nat where "O_CREAT = 64"
definition O_TRUNC :: nat where "O_TRUNC = 512"
definition O_APPEND :: nat where "O_APPEND = 1024"
definition O_NONBLOCK :: nat where "O_NONBLOCK = 2048"
definition F_GETFL :: nat where "F_GETFL = 3"
definition F_SETFL :: nat where "F_SETFL = 4"
definition F_OK :: nat where "F_OK = 0"
definition R_OK :: nat where "R_OK = 4"
definition AF_UNIX :: nat where "AF_UNIX = 1"
definition SOCK_STREAM :: nat where "SOCK_STREAM = 1"
definition SOCK_DGRAM :: nat where "SOCK_DGRAM = 2"
definition SOCK_CLOEXEC :: nat where "SOCK_CLOEXEC = 524288"
definition MSG_NOSIGNAL :: nat where "MSG_NOSIGNAL = 16384"
definition CLOCK_REALTIME :: int where "CLOCK_REALTIME = 0"

lemmas libc_consts =
  O_RDONLY_def O_WRONLY_def O_CREAT_def O_TRUNC_def O_APPEND_def O_NONBLOCK_def F_GETFL_def F_SETFL_def
  F_OK_def R_OK_def AF_UNIX_def SOCK_STREAM_def SOCK_DGRAM_def SOCK_CLOEXEC_def MSG_NOSIGNAL_def
  CLOCK_REALTIME_def

definition WIFEXITED :: "int \<Rightarrow> bool" where "WIFEXITED st \<longleftrightarrow> st mod 128 = 0"
definition WEXITSTATUS :: "int \<Rightarrow> int" where "WEXITSTATUS st = (st div 256) mod 256"

subsection \<open>Wrappers\<close>

definition c_open :: "'w env \<Rightarrow> string \<Rightarrow> nat \<Rightarrow> nat \<Rightarrow> ('w, int) m" where
  "c_open E path flags md = sys_int E (SysOpen path flags md)"

text \<open>The bytes a call has stored, with their number; an error or the end of input has none.\<close>

definition filled :: "nat \<Rightarrow> sysres \<Rightarrow> int \<times> string" where
  "filled n r =
     (case r of Data d \<Rightarrow> (int (length (take n d)), take n d) | _ \<Rightarrow> (min 0 (ret_of r), []))"

definition c_read :: "'w env \<Rightarrow> int \<Rightarrow> nat \<Rightarrow> ('w, int \<times> string) m" where
  "c_read E fd n = do { r \<leftarrow> sys_errno E (SysRead fd n); ret (filled n r) }"

definition c_write :: "'w env \<Rightarrow> int \<Rightarrow> string \<Rightarrow> ('w, int) m" where
  "c_write E fd buf = do { r \<leftarrow> sys_errno E (SysWrite fd buf); ret (ret_of r) }"

definition c_close :: "'w env \<Rightarrow> int \<Rightarrow> ('w, int) m" where
  "c_close E fd = sys_int E (SysClose fd)"

definition c_dup2 :: "'w env \<Rightarrow> int \<Rightarrow> int \<Rightarrow> ('w, int) m" where
  "c_dup2 E oldfd newfd = sys_int E (SysDup2 oldfd newfd)"

definition c_fork :: "'w env \<Rightarrow> child \<Rightarrow> ('w, int) m" where
  "c_fork E c = do { r \<leftarrow> sys E (SysFork c); ret (s32 (ret_of r)) }"

definition c_execve :: "'w env \<Rightarrow> string \<Rightarrow> string list \<Rightarrow> string list \<Rightarrow> ('w, int) m" where
  "c_execve E path argv envp = sys_int E (SysExecve path argv envp)"

definition c_exit :: "'w env \<Rightarrow> int \<Rightarrow> ('w, unit) m" where
  "c_exit E status = do { sys E (SysExit status); modify (\<lambda>s. s\<lparr>exited := Some status\<rparr>) }"

definition c_waitpid :: "'w env \<Rightarrow> int \<Rightarrow> ('w, int \<times> int) m" where
  "c_waitpid E pid = do { r \<leftarrow> sys E (SysWait pid); ret (s32 (ret_of r), num_of r 0) }"

definition c_nanosleep :: "'w env \<Rightarrow> nat \<Rightarrow> nat \<Rightarrow> ('w, int) m" where
  "c_nanosleep E sec nsec = sys_int E (SysNanosleep sec nsec)"

definition c_udelay :: "'w env \<Rightarrow> nat \<Rightarrow> ('w, unit) m" where
  "c_udelay E usec = do { c_nanosleep E (usec div 1000000) ((usec mod 1000000) * 1000); ret () }"

definition c_getdents64 :: "'w env \<Rightarrow> int \<Rightarrow> nat \<Rightarrow> ('w, string list) m" where
  "c_getdents64 E fd count = do { r \<leftarrow> sys_errno E (SysGetdents fd count); ret (names_of r) }"

definition c_clock_gettime :: "'w env \<Rightarrow> int \<Rightarrow> ('w, int \<times> int) m" where
  "c_clock_gettime E clk = do { r \<leftarrow> sys_errno E (SysClock clk); ret (num_of r 0, num_of r 1) }"

definition c_access :: "'w env \<Rightarrow> string \<Rightarrow> nat \<Rightarrow> ('w, int) m" where
  "c_access E path md = sys_int E (SysAccess path md)"

definition c_getpid :: "'w env \<Rightarrow> ('w, int) m" where
  "c_getpid E = do { r \<leftarrow> sys E SysGetpid; ret (s32 (ret_of r)) }"

definition c_geteuid :: "'w env \<Rightarrow> ('w, int) m" where
  "c_geteuid E = do { r \<leftarrow> sys E SysGeteuid; ret (ret_of r mod 2 ^ 32) }"

definition c_unlink :: "'w env \<Rightarrow> string \<Rightarrow> ('w, int) m" where
  "c_unlink E path = sys_int E (SysUnlink path)"

definition c_chmod :: "'w env \<Rightarrow> string \<Rightarrow> nat \<Rightarrow> ('w, int) m" where
  "c_chmod E path md = sys_int E (SysChmod path md)"

definition c_mkdir :: "'w env \<Rightarrow> string \<Rightarrow> nat \<Rightarrow> ('w, int) m" where
  "c_mkdir E path md = sys_int E (SysMkdir path md)"

definition c_rmdir :: "'w env \<Rightarrow> string \<Rightarrow> ('w, int) m" where
  "c_rmdir E path = sys_int E (SysRmdir path)"

definition affinity_set :: "'w env \<Rightarrow> int \<Rightarrow> string \<Rightarrow> ('w, int) m" where
  "affinity_set E pid cpus = sys_int E (SysAffinity pid cpus)"

definition c_kill :: "'w env \<Rightarrow> int \<Rightarrow> int \<Rightarrow> ('w, int) m" where
  "c_kill E pid sig = sys_int E (SysKill pid sig)"

definition c_sigaction :: "'w env \<Rightarrow> int \<Rightarrow> ('w, int) m" where
  "c_sigaction E sig = sys_int E (SysSigaction sig)"

definition c_socket :: "'w env \<Rightarrow> nat \<Rightarrow> nat \<Rightarrow> nat \<Rightarrow> ('w, int) m" where
  "c_socket E fam typ pro = sys_int E (SysSocket fam typ pro)"

definition c_connect :: "'w env \<Rightarrow> int \<Rightarrow> string \<Rightarrow> ('w, int) m" where
  "c_connect E fd path = sys_int E (SysConnect fd path)"

definition c_bind :: "'w env \<Rightarrow> int \<Rightarrow> string \<Rightarrow> ('w, int) m" where
  "c_bind E fd path = sys_int E (SysBind fd path)"

definition c_listen :: "'w env \<Rightarrow> int \<Rightarrow> nat \<Rightarrow> ('w, int) m" where
  "c_listen E fd bl = sys_int E (SysListen fd bl)"

definition c_accept4 :: "'w env \<Rightarrow> int \<Rightarrow> nat \<Rightarrow> ('w, int) m" where
  "c_accept4 E fd fl = sys_int E (SysAccept4 fd fl)"

definition c_send :: "'w env \<Rightarrow> int \<Rightarrow> string \<Rightarrow> nat \<Rightarrow> ('w, int) m" where
  "c_send E fd buf fl = do { r \<leftarrow> sys_errno E (SysSendto fd buf fl []); ret (ret_of r) }"

definition c_sendto :: "'w env \<Rightarrow> int \<Rightarrow> string \<Rightarrow> nat \<Rightarrow> string \<Rightarrow> ('w, int) m" where
  "c_sendto E fd buf fl path = do { r \<leftarrow> sys_errno E (SysSendto fd buf fl path); ret (ret_of r) }"

definition c_recv :: "'w env \<Rightarrow> int \<Rightarrow> nat \<Rightarrow> nat \<Rightarrow> ('w, int \<times> string) m" where
  "c_recv E fd len fl = do { r \<leftarrow> sys_errno E (SysRecvfrom fd len fl); ret (filled len r) }"

text \<open>The result of \<^verbatim>\<open>select\<close> and the descriptors still set.\<close>

definition c_select :: "'w env \<Rightarrow> int \<Rightarrow> int list \<Rightarrow> int \<Rightarrow> ('w, int \<times> int list) m" where
  "c_select E n rf tv_sec = do {
     r \<leftarrow> sys_errno E (SysSelect n rf tv_sec);
     ret (s32 (ret_of r), (case r of Nums _ fds \<Rightarrow> fds | _ \<Rightarrow> []))
   }"

definition c_fcntl :: "'w env \<Rightarrow> int \<Rightarrow> nat \<Rightarrow> int \<Rightarrow> ('w, int) m" where
  "c_fcntl E fd cmd arg = sys_int E (SysFcntl fd cmd arg)"

subsection \<open>Helpers\<close>

fun getenv_in :: "string list \<Rightarrow> string \<Rightarrow> string option" where
  "getenv_in [] name = None"
| "getenv_in (e # es) name =
     (if strncmp e name (length name) = 0 \<and> take 1 (drop (length name) e) = ''=''
      then Some (drop (length name + 1) e) else getenv_in es name)"

definition getenv :: "string \<Rightarrow> ('w, string option) m" where
  "getenv name = gets (\<lambda>s. getenv_in (environ s) name)"

definition c_system :: "'w env \<Rightarrow> string option \<Rightarrow> ('w, int) m" where
  "c_system E cmd =
     (case cmd of
        None \<Rightarrow> ret 1
      | Some c \<Rightarrow> do {
          env \<leftarrow> gets environ;
          pid \<leftarrow> c_fork E \<lparr>c_redirect = False, c_path = ''/bin/sh'',
                           c_argv = [''/bin/sh'', ''-c'', c], c_env = env, c_fail = 127\<rparr>;
          if pid < 0 then ret (- 1)
          else do { st \<leftarrow> c_waitpid E pid; ret (snd st) }
        })"

text \<open>What \<^verbatim>\<open>sysctl_read\<close> leaves in the buffer, with the trailing line ends and blanks cut.\<close>

definition trim_trailing :: "string \<Rightarrow> string" where
  "trim_trailing s = rev (dropWhile (\<lambda>c. c = NL \<or> c = CR \<or> c = CHR '' '') (rev s))"

definition sysctl_read :: "'w env \<Rightarrow> string \<Rightarrow> nat \<Rightarrow> ('w, string option) m" where
  "sysctl_read E path sz = do {
     fd \<leftarrow> c_open E path O_RDONLY 0;
     if fd < 0 then ret None
     else do {
       nd \<leftarrow> c_read E fd (sz - 1);
       c_close E fd;
       if fst nd < 0 then ret None
       else ret (Some (cstr (trim_trailing (snd nd))))
     }
   }"

definition sysctl_write :: "'w env \<Rightarrow> string \<Rightarrow> string \<Rightarrow> ('w, int) m" where
  "sysctl_write E path val = do {
     fd \<leftarrow> c_open E path O_WRONLY 0;
     if fd < 0 then ret (- 1)
     else do {
       n \<leftarrow> c_write E fd val;
       c_close E fd;
       ret (if n = int (length val) then 0 else - 1)
     }
   }"

definition x3d_targets :: "string list" where
  "x3d_targets =
     [''/sys/class/amd_x3d/vcache_mode'',
      ''/sys/bus/platform/devices/AMDI0101:00/amd_x3d_mode'',
      ''/sys/devices/platform/AMDI0101:00/amd_x3d_mode'',
      ''/sys/bus/pci/drivers/amd_x3d_vcache/vcache_mode'',
      ''/sys/bus/platform/drivers/amd_x3d_vcache/AMDI0101:00/amd_x3d_mode'']"

fun priority_loop :: "'w env \<Rightarrow> string \<Rightarrow> string list \<Rightarrow> ('w, unit) m" where
  "priority_loop E md [] = ret ()"
| "priority_loop E md (t # ts) = do {
     fd \<leftarrow> c_open E t O_WRONLY 0;
     if fd \<ge> 0 then do { c_write E fd md; c_close E fd; ret () } else priority_loop E md ts
   }"

definition priority :: "'w env \<Rightarrow> bool \<Rightarrow> ('w, unit) m" where
  "priority E enable = priority_loop E (if enable then ''cache'' else ''frequency'') x3d_targets"

subsection \<open>The contract of the integer wrappers\<close>

text \<open>An invariant of the program's own variables: it does not look at what a call changes.\<close>

definition sys_indep :: "('w prog \<Rightarrow> bool) \<Rightarrow> bool" where
  "sys_indep I \<longleftrightarrow> (\<forall>s w t e. I s \<longrightarrow> I (s\<lparr>world := w, trace := t, errno := e\<rparr>))"

lemma sys_indepD: "sys_indep I \<Longrightarrow> I s \<Longrightarrow> I (s\<lparr>world := w, trace := t, errno := e\<rparr>)"
  by (simp add: sys_indep_def)

lemma sys_indep_upd:
  assumes "sys_indep I" "I s"
  shows "I (s\<lparr>world := w, trace := t\<rparr>)" "I (s\<lparr>trace := t\<rparr>)" "I (s\<lparr>errno := e\<rparr>)"
  using sys_indepD [OF assms, where w = w and t = t and e = "errno s"]
    sys_indepD [OF assms, where w = "world s" and t = t and e = "errno s"]
    sys_indepD [OF assms, where w = "world s" and t = "trace s" and e = e] by simp_all

lemma sys_indepI: "(\<And>s w t e. I s \<Longrightarrow> I (s\<lparr>world := w, trace := t, errno := e\<rparr>)) \<Longrightarrow> sys_indep I"
  by (simp add: sys_indep_def)

definition failed :: "int \<Rightarrow> bool" where
  "failed r \<longleftrightarrow> r < 0 \<and> r > - 4096"

lemma run_sys [run_simps]:
  "run_state (sys E c) s =
     (let k = kernel E c (world s)
      in (fst k, s\<lparr>world := snd k, trace := trace s @ [Sys c (fst k)]\<rparr>))"
  by (simp add: sys_def case_prod_beta Let_def)

lemma run_out [run_simps]: "run_state (out f fmt as) s = ((), s\<lparr>trace := trace s @ [Out f fmt as]\<rparr>)"
  by (simp add: out_def)

lemma run_sys_errno [run_simps]:
  "run_state (sys_errno E c) s =
     (let k = kernel E c (world s); s' = s\<lparr>world := snd k, trace := trace s @ [Sys c (fst k)]\<rparr>
      in if failed (ret_of (fst k)) then (Ret (- 1), s'\<lparr>errno := - ret_of (fst k)\<rparr>) else (fst k, s'))"
  by (simp add: sys_errno_def run_sys failed_def Let_def)

lemma run_sys_int [run_simps]:
  "run_state (sys_int E c) s =
     (let k = kernel E c (world s); s' = s\<lparr>world := snd k, trace := trace s @ [Sys c (fst k)]\<rparr>
      in if failed (ret_of (fst k)) then (- 1, s'\<lparr>errno := - ret_of (fst k)\<rparr>)
         else (s32 (ret_of (fst k)), s'))"
  by (simp add: sys_int_def run_sys_errno s32_id Let_def)

lemma keeps_sys [hoare_rules]: "sys_indep I \<Longrightarrow> keeps I (sys E c)"
  by (auto simp: hoare_def run_sys Let_def intro: sys_indep_upd)

lemma keeps_out [hoare_rules]: "sys_indep I \<Longrightarrow> keeps I (out f fmt as)"
  by (auto simp: hoare_def run_out intro: sys_indep_upd)

lemma keeps_sys_errno [hoare_rules]: "sys_indep I \<Longrightarrow> keeps I (sys_errno E c)"
  unfolding sys_errno_def by (intro hoare_rules hoare_modify) (auto intro: sys_indep_upd)

subsection \<open>Descriptors\<close>

text \<open>
  The number of descriptors the program holds: those that successful calls gave it, less those
  it has closed, less the one that \<^verbatim>\<open>journal_syslog\<close> keeps for the life of the process. \<open>nets d m\<close>
  says that \<open>m\<close> changes that number by \<open>d\<close> unless the process ends.
\<close>

fun fd_delta :: "event \<Rightarrow> int" where
  "fd_delta (Sys (SysOpen _ _ _) r) = (if \<not> failed (ret_of r) \<and> s32 (ret_of r) \<ge> 0 then 1 else 0)"
| "fd_delta (Sys (SysSocket _ _ _) r) = (if \<not> failed (ret_of r) \<and> s32 (ret_of r) \<ge> 0 then 1 else 0)"
| "fd_delta (Sys (SysAccept4 _ _) r) = (if \<not> failed (ret_of r) \<and> s32 (ret_of r) \<ge> 0 then 1 else 0)"
| "fd_delta (Sys (SysClose _) r) = - 1"
| "fd_delta _ = 0"

definition held :: "'w prog \<Rightarrow> int" where
  "held s = sum_list (map fd_delta (trace s)) - (if syslog_fd s \<ge> 0 then 1 else 0)"

definition nets :: "int \<Rightarrow> ('w, 'a) m \<Rightarrow> bool" where
  "nets d m \<longleftrightarrow> (\<forall>s. (exited s \<noteq> None \<longrightarrow> exited (exec m s) \<noteq> None) \<and>
     (exited (exec m s) = None \<longrightarrow> held (exec m s) = held s + d))"

named_theorems nets_rules "descriptor balance of program fragments"
named_theorems fd_rules "descriptor balance of the calls that open and close"

lemma nets_bind: "nets d m \<Longrightarrow> (\<And>x. nets d' (k x)) \<Longrightarrow> nets (d + d') (State_Monad.bind m k)"
  unfolding nets_def exec_bind
proof (intro allI)
  fix s
  let ?x = "result m s" and ?s = "exec m s"
  assume m: "\<forall>s. (exited s \<noteq> None \<longrightarrow> exited (exec m s) \<noteq> None) \<and>
      (exited (exec m s) = None \<longrightarrow> held (exec m s) = held s + d)"
    and k: "\<And>x. \<forall>s. (exited s \<noteq> None \<longrightarrow> exited (exec (k x) s) \<noteq> None) \<and>
      (exited (exec (k x) s) = None \<longrightarrow> held (exec (k x) s) = held s + d')"
  show "(exited s \<noteq> None \<longrightarrow> exited (exec (k ?x) ?s) \<noteq> None) \<and>
      (exited (exec (k ?x) ?s) = None \<longrightarrow> held (exec (k ?x) ?s) = held s + (d + d'))"
    using m [rule_format, of s] k [rule_format, of ?s ?x] by auto
qed

lemma nets_bind0 [nets_rules]: "nets 0 m \<Longrightarrow> (\<And>x. nets d (k x)) \<Longrightarrow> nets d (State_Monad.bind m k)"
  using nets_bind [of 0 m d k] by simp

lemma nets_ret [nets_rules]: "nets 0 (ret x)"
  by (simp add: nets_def)

lemma nets_gets [nets_rules]: "nets 0 (gets f)"
  by (simp add: nets_def)

lemma nets_modify:
  "(\<And>s. trace (f s) = trace s) \<Longrightarrow> (\<And>s. syslog_fd (f s) = syslog_fd s) \<Longrightarrow>
   (\<And>s. exited (f s) = exited s) \<Longrightarrow> nets 0 (modify f)"
  by (simp add: nets_def held_def)

lemma nets_if [nets_rules]: "(b \<Longrightarrow> nets d m) \<Longrightarrow> (\<not> b \<Longrightarrow> nets d m') \<Longrightarrow> nets d (if b then m else m')"
  by simp

lemma nets_case_option [nets_rules]:
  "(x = None \<Longrightarrow> nets d m) \<Longrightarrow> (\<And>y. x = Some y \<Longrightarrow> nets d (f y)) \<Longrightarrow>
   nets d (case x of None \<Rightarrow> m | Some y \<Rightarrow> f y)"
  by (cases x) simp_all

lemma nets_case_prod [nets_rules]:
  "(\<And>a b. x = (a, b) \<Longrightarrow> nets d (f a b)) \<Longrightarrow> nets d (case x of (a, b) \<Rightarrow> f a b)"
  by (cases x) simp

lemma nets_Let [nets_rules]: "nets d (f x) \<Longrightarrow> nets d (let y = x in f y)"
  by simp

lemma nets_foldM [nets_rules]: "(\<And>x b. nets 0 (f x b)) \<Longrightarrow> nets 0 (foldM f xs b)"
  by (induction xs arbitrary: b) (auto intro: nets_rules)

lemma nets_forM [nets_rules]: "(\<And>x. nets 0 (f x)) \<Longrightarrow> nets 0 (forM xs f)"
  by (induction xs) (auto intro: nets_rules)

lemma nets_out [nets_rules]: "nets 0 (out f fmt as)"
  by (simp add: nets_def held_def run_out)

lemma nets_sys: "(\<And>r. fd_delta (Sys c r) = 0) \<Longrightarrow> nets 0 (sys E c)"
  by (auto simp: nets_def held_def run_sys Let_def)

lemma nets_sys_errno: "(\<And>r. fd_delta (Sys c r) = 0) \<Longrightarrow> nets 0 (sys_errno E c)"
  by (auto simp: nets_def held_def run_sys_errno Let_def)

locale int_wrapper =
  fixes E :: "'w env"
    and c :: syscall
    and op :: "('w, int) m"
  assumes op_is: "op = sys_int E c"
begin

lemma op_fails:
  "failed (ret_of (fst (kernel E c (world s)))) \<Longrightarrow>
   result op s = - 1 \<and> errno (exec op s) = - ret_of (fst (kernel E c (world s)))"
  by (simp add: op_is run_sys_int Let_def)

lemma op_succeeds:
  "\<not> failed (ret_of (fst (kernel E c (world s)))) \<Longrightarrow>
   result op s = s32 (ret_of (fst (kernel E c (world s)))) \<and> errno (exec op s) = errno s"
  by (simp add: op_is run_sys_int Let_def)

lemma op_world: "world (exec op s) = snd (kernel E c (world s))"
  by (simp add: op_is run_sys_int Let_def)

lemma op_trace: "trace (exec op s) = trace s @ [Sys c (fst (kernel E c (world s)))]"
  by (simp add: op_is run_sys_int Let_def)

lemma op_keeps: "sys_indep I \<Longrightarrow> keeps I op"
  unfolding op_is sys_int_def by (intro hoare_rules)

lemma op_held: "(\<And>r. fd_delta (Sys c r) = 0) \<Longrightarrow> nets 0 op"
  unfolding op_is sys_int_def by (rule nets_bind0 nets_sys_errno nets_ret | assumption)+

text \<open>A call that gives a descriptor: the continuation owns it exactly when the result is not negative.\<close>

lemma op_acquires:
  assumes "\<And>r. fd_delta (Sys c r) = (if \<not> failed (ret_of r) \<and> s32 (ret_of r) \<ge> 0 then 1 else 0)"
    and "\<And>fd. fd < 0 \<Longrightarrow> nets d (k fd)" "\<And>fd. 0 \<le> fd \<Longrightarrow> nets (d - 1) (k fd)"
  shows "nets d (State_Monad.bind op k)"
  unfolding nets_def
proof (intro allI)
  fix s
  let ?s = "exec op s" and ?x = "result op s"
  have h: "held ?s = held s + (if ?x \<ge> 0 then 1 else 0)" "exited ?s = exited s"
    by (auto simp: op_is run_sys_int Let_def held_def assms(1))
  show "(exited s \<noteq> None \<longrightarrow> exited (exec (State_Monad.bind op k) s) \<noteq> None) \<and>
     (exited (exec (State_Monad.bind op k) s) = None \<longrightarrow> held (exec (State_Monad.bind op k) s) = held s + d)"
    using assms(2,3) [of ?x] h by (cases "0 \<le> ?x") (auto simp: nets_def exec_bind simp del: run_state_bind)
qed

end

interpretation open_w: int_wrapper E "SysOpen p f md" "c_open E p f md" for E p f md
  by unfold_locales (simp add: c_open_def)

interpretation close_w: int_wrapper E "SysClose fd" "c_close E fd" for E fd
  by unfold_locales (simp add: c_close_def)

interpretation dup2_w: int_wrapper E "SysDup2 a b" "c_dup2 E a b" for E a b
  by unfold_locales (simp add: c_dup2_def)

interpretation execve_w: int_wrapper E "SysExecve p av ev" "c_execve E p av ev" for E p av ev
  by unfold_locales (simp add: c_execve_def)

interpretation nanosleep_w: int_wrapper E "SysNanosleep a b" "c_nanosleep E a b" for E a b
  by unfold_locales (simp add: c_nanosleep_def)

interpretation access_w: int_wrapper E "SysAccess p md" "c_access E p md" for E p md
  by unfold_locales (simp add: c_access_def)

interpretation unlink_w: int_wrapper E "SysUnlink p" "c_unlink E p" for E p
  by unfold_locales (simp add: c_unlink_def)

interpretation chmod_w: int_wrapper E "SysChmod p md" "c_chmod E p md" for E p md
  by unfold_locales (simp add: c_chmod_def)

interpretation mkdir_w: int_wrapper E "SysMkdir p md" "c_mkdir E p md" for E p md
  by unfold_locales (simp add: c_mkdir_def)

interpretation rmdir_w: int_wrapper E "SysRmdir p" "c_rmdir E p" for E p
  by unfold_locales (simp add: c_rmdir_def)

interpretation affinity_w: int_wrapper E "SysAffinity pid cpus" "affinity_set E pid cpus" for E pid cpus
  by unfold_locales (simp add: affinity_set_def)

interpretation kill_w: int_wrapper E "SysKill pid sg" "c_kill E pid sg" for E pid sg
  by unfold_locales (simp add: c_kill_def)

interpretation sigaction_w: int_wrapper E "SysSigaction sg" "c_sigaction E sg" for E sg
  by unfold_locales (simp add: c_sigaction_def)

interpretation socket_w: int_wrapper E "SysSocket a b c" "c_socket E a b c" for E a b c
  by unfold_locales (simp add: c_socket_def)

interpretation connect_w: int_wrapper E "SysConnect fd p" "c_connect E fd p" for E fd p
  by unfold_locales (simp add: c_connect_def)

interpretation bind_w: int_wrapper E "SysBind fd p" "c_bind E fd p" for E fd p
  by unfold_locales (simp add: c_bind_def)

interpretation listen_w: int_wrapper E "SysListen fd n" "c_listen E fd n" for E fd n
  by unfold_locales (simp add: c_listen_def)

interpretation accept4_w: int_wrapper E "SysAccept4 fd n" "c_accept4 E fd n" for E fd n
  by unfold_locales (simp add: c_accept4_def)

interpretation fcntl_w: int_wrapper E "SysFcntl fd a b" "c_fcntl E fd a b" for E fd a b
  by unfold_locales (simp add: c_fcntl_def)

lemmas wrapper_keeps [hoare_rules] =
  open_w.op_keeps close_w.op_keeps dup2_w.op_keeps execve_w.op_keeps nanosleep_w.op_keeps access_w.op_keeps unlink_w.op_keeps chmod_w.op_keeps mkdir_w.op_keeps rmdir_w.op_keeps affinity_w.op_keeps kill_w.op_keeps sigaction_w.op_keeps socket_w.op_keeps connect_w.op_keeps bind_w.op_keeps listen_w.op_keeps accept4_w.op_keeps fcntl_w.op_keeps

lemma close_nets: "nets (- 1) (c_close E fd)"
  by (auto simp: nets_def held_def c_close_def run_sys_int Let_def)

text \<open>
  The rules for calls that give or take a descriptor, for code that holds none, one or two of its own.
  They are tried before the general rule for sequences.
\<close>

lemma nets_close [fd_rules]:
  "(\<And>x. nets 0 (k x)) \<Longrightarrow> nets (- 1) (State_Monad.bind (c_close E fd) k)"
  "(\<And>x. nets (- 1) (k x)) \<Longrightarrow> nets (- 2) (State_Monad.bind (c_close E fd) k)"
  using nets_bind [OF close_nets, of 0 k] nets_bind [OF close_nets, of "- 1" k] by simp_all

lemma nets_open [fd_rules]:
  "(\<And>fd. fd < 0 \<Longrightarrow> nets 0 (k fd)) \<Longrightarrow> (\<And>fd. 0 \<le> fd \<Longrightarrow> nets (- 1) (k fd)) \<Longrightarrow>
   nets 0 (State_Monad.bind (c_open E p f md) k)"
  "(\<And>fd. fd < 0 \<Longrightarrow> nets (- 1) (k fd)) \<Longrightarrow> (\<And>fd. 0 \<le> fd \<Longrightarrow> nets (- 2) (k fd)) \<Longrightarrow>
   nets (- 1) (State_Monad.bind (c_open E p f md) k)"
  by (rule open_w.op_acquires; simp)+

lemma nets_socket [fd_rules]:
  "(\<And>fd. fd < 0 \<Longrightarrow> nets 0 (k fd)) \<Longrightarrow> (\<And>fd. 0 \<le> fd \<Longrightarrow> nets (- 1) (k fd)) \<Longrightarrow>
   nets 0 (State_Monad.bind (c_socket E a b c) k)"
  "(\<And>fd. fd < 0 \<Longrightarrow> nets (- 1) (k fd)) \<Longrightarrow> (\<And>fd. 0 \<le> fd \<Longrightarrow> nets (- 2) (k fd)) \<Longrightarrow>
   nets (- 1) (State_Monad.bind (c_socket E a b c) k)"
  by (rule socket_w.op_acquires; simp)+

lemma nets_accept4 [fd_rules]:
  "(\<And>fd. fd < 0 \<Longrightarrow> nets 0 (k fd)) \<Longrightarrow> (\<And>fd. 0 \<le> fd \<Longrightarrow> nets (- 1) (k fd)) \<Longrightarrow>
   nets 0 (State_Monad.bind (c_accept4 E fd0 n) k)"
  "(\<And>fd. fd < 0 \<Longrightarrow> nets (- 1) (k fd)) \<Longrightarrow> (\<And>fd. 0 \<le> fd \<Longrightarrow> nets (- 2) (k fd)) \<Longrightarrow>
   nets (- 1) (State_Monad.bind (c_accept4 E fd0 n) k)"
  by (rule accept4_w.op_acquires; simp)+

lemma wrapper_nets [nets_rules]:
  "nets 0 (c_dup2 E oldfd newfd)"
  "nets 0 (c_execve E p av ev)"
  "nets 0 (c_nanosleep E a b)"
  "nets 0 (c_access E p md)"
  "nets 0 (c_unlink E p)"
  "nets 0 (c_chmod E p md)"
  "nets 0 (c_mkdir E p md)"
  "nets 0 (c_rmdir E p)"
  "nets 0 (affinity_set E pid cpus)"
  "nets 0 (c_kill E pid sg)"
  "nets 0 (c_sigaction E sg)"
  "nets 0 (c_connect E fd p)"
  "nets 0 (c_bind E fd p)"
  "nets 0 (c_listen E fd n)"
  "nets 0 (c_fcntl E fd a b)"
  by (simp_all add: dup2_w.op_held execve_w.op_held nanosleep_w.op_held access_w.op_held unlink_w.op_held chmod_w.op_held mkdir_w.op_held rmdir_w.op_held affinity_w.op_held kill_w.op_held sigaction_w.op_held connect_w.op_held bind_w.op_held listen_w.op_held fcntl_w.op_held)

lemma data_wrapper_keeps [hoare_rules]:
  assumes "sys_indep I"
  shows "keeps I (c_read E fd n)"
    "keeps I (c_write E fd b)"
    "keeps I (c_fork E ch)"
    "keeps I (c_waitpid E pid)"
    "keeps I (c_udelay E n)"
    "keeps I (c_getdents64 E fd n)"
    "keeps I (c_clock_gettime E clk)"
    "keeps I (c_getpid E)"
    "keeps I (c_geteuid E)"
    "keeps I (c_send E fd b n)"
    "keeps I (c_sendto E fd b n p)"
    "keeps I (c_recv E fd a a2)"
    "keeps I (c_select E nf fs tv)"
    "keeps I (getenv nm)"
    "keeps I (c_system E cm)"
  unfolding c_read_def c_write_def c_fork_def c_waitpid_def c_udelay_def c_getdents64_def c_clock_gettime_def c_getpid_def c_geteuid_def c_send_def c_sendto_def c_recv_def c_select_def getenv_def c_system_def
  by - (intro hoare_rules assms; simp?)+

lemma data_wrapper_nets [nets_rules]:
  "nets 0 (c_read E fd n)"
  "nets 0 (c_write E fd b)"
  "nets 0 (c_fork E ch)"
  "nets 0 (c_waitpid E pid)"
  "nets 0 (c_udelay E n)"
  "nets 0 (c_getdents64 E fd n)"
  "nets 0 (c_clock_gettime E clk)"
  "nets 0 (c_getpid E)"
  "nets 0 (c_geteuid E)"
  "nets 0 (c_send E fd b n)"
  "nets 0 (c_sendto E fd b n p)"
  "nets 0 (c_recv E fd a a2)"
  "nets 0 (c_select E nf fs tv)"
  "nets 0 (getenv nm)"
  "nets 0 (c_system E cm)"
  unfolding c_read_def c_write_def c_fork_def c_waitpid_def c_udelay_def c_getdents64_def c_clock_gettime_def c_getpid_def c_geteuid_def c_send_def c_sendto_def c_recv_def c_select_def getenv_def c_system_def
  by - (rule nets_rules nets_sys nets_sys_errno | simp)+

end
