(* ===== verification/Journal.thy ===== *)
theory Journal
  imports Sys_Libc
begin

section \<open>Diagnostics and the emergency path (src/error.c, the failsafe of src/systemd.c)\<close>

text \<open>
  Every message of the program goes through the journal: a code selects a summary and a format,
  the text goes to the console, to the systemd journal socket and to a log file. Two codes paths
  are more than text: \<^verbatim>\<open>ERR_CONF\<close> and \<^verbatim>\<open>journal_exit\<close> start the failsafe, which puts the hardware back
  under firmware control. The failsafe is here, before the journal that calls it.

  The console routines of \<^verbatim>\<open>xui.c\<close> only lay text out; a call of one is an \<open>Out\<close> event.
\<close>

subsection \<open>Codes of \<^verbatim>\<open>error.h\<close>\<close>

definition GAME_RESTORED :: int where "GAME_RESTORED = 1"
definition GAME_SYNCED :: int where "GAME_SYNCED = 2"
definition GAME_ADDED :: int where "GAME_ADDED = 3"
definition GAME_REMOVED :: int where "GAME_REMOVED = 15"
definition PROFILE_ACTION :: int where "PROFILE_ACTION = 4"
definition SET_EPP :: int where "SET_EPP = 5"
definition SET_PSTATE :: int where "SET_PSTATE = 6"
definition SET_CPPC :: int where "SET_CPPC = 7"
definition SET_GOV :: int where "SET_GOV = 8"
definition TOGGLE_GOV :: int where "TOGGLE_GOV = 8"
definition TOGGLE_PREFCORE :: int where "TOGGLE_PREFCORE = 9"
definition TOGGLE_BOOST :: int where "TOGGLE_BOOST = 10"
definition DAEMON_START :: int where "DAEMON_START = 11"
definition DAEMON_TRANSIT :: int where "DAEMON_TRANSIT = 13"
definition TRANSIT :: int where "TRANSIT = 13"
definition BPF_HIT :: int where "BPF_HIT = 12"
definition SOCKET_READY :: int where "SOCKET_READY = 14"
definition STATE_ACTIVE :: int where "STATE_ACTIVE = 16"
definition SET_XUI_SYNC :: int where "SET_XUI_SYNC = 17"
definition ERR_SUCCESS :: int where "ERR_SUCCESS = 0"
definition ERR_LOST :: int where "ERR_LOST = - 1"
definition ERR_PERMISSION :: int where "ERR_PERMISSION = - 2"
definition ERR_IO :: int where "ERR_IO = - 3"
definition ERR_IPC :: int where "ERR_IPC = - 4"
definition ERR_HW :: int where "ERR_HW = - 5"
definition ERR_SYNTAX :: int where "ERR_SYNTAX = - 6"
definition ERR_POLKIT :: int where "ERR_POLKIT = - 7"
definition ERR_DAEMON :: int where "ERR_DAEMON = - 8"
definition ERR_CMD :: int where "ERR_CMD = - 9"
definition ERR_VIP :: int where "ERR_VIP = - 10"
definition ERR_MISSING :: int where "ERR_MISSING = - 11"
definition ERR_PASSIVE :: int where "ERR_PASSIVE = - 12"
definition ERR_PROFILE :: int where "ERR_PROFILE = - 13"
definition ERR_OFFLINE :: int where "ERR_OFFLINE = - 14"
definition ERR_ADD :: int where "ERR_ADD = - 15"
definition ERR_REMOVE :: int where "ERR_REMOVE = - 16"
definition ERR_STATUS :: int where "ERR_STATUS = - 17"
definition ERR_CPPC :: int where "ERR_CPPC = - 18"
definition ERR_EPP :: int where "ERR_EPP = - 19"
definition ERR_GOV :: int where "ERR_GOV = - 20"
definition ERR_USAGE :: int where "ERR_USAGE = - 21"
definition ERR_SOCKET :: int where "ERR_SOCKET = - 22"
definition ERR_BIND :: int where "ERR_BIND = - 23"
definition ERR_CHOWN :: int where "ERR_CHOWN = - 24"
definition ERR_CHMOD :: int where "ERR_CHMOD = - 25"
definition ERR_LISTEN :: int where "ERR_LISTEN = - 26"
definition ERR_LOAD :: int where "ERR_LOAD = - 27"
definition ERR_LINTER :: int where "ERR_LINTER = - 28"
definition ERR_MEM :: int where "ERR_MEM = - 29"
definition ERR_CONF :: int where "ERR_CONF = - 30"
definition ERR_SCAFFOLD :: int where "ERR_SCAFFOLD = - 31"
definition ERR_PERM_BUILD :: int where "ERR_PERM_BUILD = - 32"
definition ERR_SAFETY :: int where "ERR_SAFETY = - 33"
definition ERR_CGROUP :: int where "ERR_CGROUP = - 34"
definition ERR_AFFINITY :: int where "ERR_AFFINITY = - 35"
definition ERR_GUI :: int where "ERR_GUI = - 36"
definition ERR_EXEC :: int where "ERR_EXEC = - 37"
definition ERR_INVALID_ARGS :: int where "ERR_INVALID_ARGS = - 38"
definition ERR_LONG :: int where "ERR_LONG = - 39"
definition ERR_IRQ_BIND :: int where "ERR_IRQ_BIND = - 40"
definition ERR_IRQ_NO_MSI :: int where "ERR_IRQ_NO_MSI = - 41"
definition ERR_IRQ_BALANCER :: int where "ERR_IRQ_BALANCER = - 42"
definition ERR_IRQ_UDEV :: int where "ERR_IRQ_UDEV = - 43"
definition ERR_IRQ_DISCOVER :: int where "ERR_IRQ_DISCOVER = - 44"
definition ERR_IRQ_TEARDOWN :: int where "ERR_IRQ_TEARDOWN = - 45"
definition ERR_IRQ_COALESCE :: int where "ERR_IRQ_COALESCE = - 46"
definition ERR_IRQ_WATCH :: int where "ERR_IRQ_WATCH = - 47"
definition ERR_UNSUPPORTED :: int where "ERR_UNSUPPORTED = - 48"

lemmas err_codes =
  GAME_RESTORED_def GAME_SYNCED_def GAME_ADDED_def GAME_REMOVED_def PROFILE_ACTION_def
  SET_EPP_def SET_PSTATE_def SET_CPPC_def SET_GOV_def TOGGLE_GOV_def TOGGLE_PREFCORE_def
  TOGGLE_BOOST_def DAEMON_START_def DAEMON_TRANSIT_def TRANSIT_def BPF_HIT_def SOCKET_READY_def
  STATE_ACTIVE_def SET_XUI_SYNC_def ERR_SUCCESS_def ERR_LOST_def ERR_PERMISSION_def ERR_IO_def
  ERR_IPC_def ERR_HW_def ERR_SYNTAX_def ERR_POLKIT_def ERR_DAEMON_def ERR_CMD_def ERR_VIP_def
  ERR_MISSING_def ERR_PASSIVE_def ERR_PROFILE_def ERR_OFFLINE_def ERR_ADD_def ERR_REMOVE_def
  ERR_STATUS_def ERR_CPPC_def ERR_EPP_def ERR_GOV_def ERR_USAGE_def ERR_SOCKET_def ERR_BIND_def
  ERR_CHOWN_def ERR_CHMOD_def ERR_LISTEN_def ERR_LOAD_def ERR_LINTER_def ERR_MEM_def ERR_CONF_def
  ERR_SCAFFOLD_def ERR_PERM_BUILD_def ERR_SAFETY_def ERR_CGROUP_def ERR_AFFINITY_def ERR_GUI_def
  ERR_EXEC_def ERR_INVALID_ARGS_def ERR_LONG_def ERR_IRQ_BIND_def ERR_IRQ_NO_MSI_def
  ERR_IRQ_BALANCER_def ERR_IRQ_UDEV_def ERR_IRQ_DISCOVER_def ERR_IRQ_TEARDOWN_def
  ERR_IRQ_COALESCE_def ERR_IRQ_WATCH_def ERR_UNSUPPORTED_def

definition LOG_ERR :: int where "LOG_ERR = 3"
definition LOG_WARNING :: int where "LOG_WARNING = 4"
definition LOG_INFO :: int where "LOG_INFO = 6"
definition LOG_CRIT :: int where "LOG_CRIT = 2"

subsection \<open>The failsafe\<close>

definition reset_child :: child where
  "reset_child =
     \<lparr>c_redirect = False, c_path = ''/bin/sh'',
      c_argv = [''/bin/sh'', ''/usr/lib/x3d-toggle/scripts/tools/reset.sh''],
      c_env = [''X3D_EXEC=1''], c_fail = 1\<rparr>"

definition exit_ok :: "int \<Rightarrow> bool" where
  "exit_ok status \<longleftrightarrow> WIFEXITED status \<and> WEXITSTATUS status = 0"

definition cppc_restore :: "'w env \<Rightarrow> ('w, int) m" where
  "cppc_restore E = do {
     pid \<leftarrow> c_fork E reset_child;
     if pid < 0 then ret ERR_IO
     else do { st \<leftarrow> c_waitpid E pid; ret (if exit_ok (snd st) then ERR_SUCCESS else ERR_IO) }
   }"

definition daemon_restore :: "'w env \<Rightarrow> ('w, unit) m" where
  "daemon_restore E = do {
     cppc_restore E;
     pid \<leftarrow> c_fork E reset_child;
     if pid > 0 then do { c_waitpid E pid; ret () } else ret ()
   }"

definition failsafe_msg :: string where
  "failsafe_msg = ''FATAL: Emergency Failsafe Triggered. Restoring hardware...'' @ [NL]"

definition daemon_failsafe :: "'w env \<Rightarrow> ('w, unit) m" where
  "daemon_failsafe E = do {
     active \<leftarrow> gets failsafe_active;
     if active then ret ()
     else do {
       modify (\<lambda>s. s\<lparr>failsafe_active := True\<rparr>);
       c_write E 2 failsafe_msg;
       cppc_restore E;
       daemon_restore E
     }
   }"

subsection \<open>Signals\<close>

definition SIGHUP :: int where "SIGHUP = 1"
definition SIGINT :: int where "SIGINT = 2"
definition SIGILL :: int where "SIGILL = 4"
definition SIGABRT :: int where "SIGABRT = 6"
definition SIGFPE :: int where "SIGFPE = 8"
definition SIGSEGV :: int where "SIGSEGV = 11"
definition SIGTERM :: int where "SIGTERM = 15"

lemmas sig_defs = SIGHUP_def SIGINT_def SIGILL_def SIGABRT_def SIGFPE_def SIGSEGV_def SIGTERM_def

definition sig_handler :: "'w env \<Rightarrow> int \<Rightarrow> ('w, unit) m" where
  "sig_handler E signum = do {
     modify (\<lambda>s. s\<lparr>last_sig := signum\<rparr>);
     if signum = SIGTERM \<or> signum = SIGINT then modify (\<lambda>s. s\<lparr>active_keep := False\<rparr>)
     else if signum = SIGHUP then modify (\<lambda>s. s\<lparr>reload_flag := True\<rparr>)
     else do { daemon_failsafe E; c_exit E signum }
   }"

definition init_signals :: "'w env \<Rightarrow> ('w, unit) m" where
  "init_signals E = do {
     c_sigaction E SIGTERM; c_sigaction E SIGINT; c_sigaction E SIGHUP;
     c_sigaction E SIGSEGV; c_sigaction E SIGABRT; c_sigaction E SIGILL; c_sigaction E SIGFPE;
     modify (\<lambda>s. s\<lparr>sig_installed := True\<rparr>)
   }"

text \<open>A null pointer is read: the handler of the daemon runs, another process is killed.\<close>

definition null_deref :: "'w env \<Rightarrow> ('w, unit) m" where
  "null_deref E = do {
     installed \<leftarrow> gets sig_installed;
     if installed then sig_handler E SIGSEGV else modify (\<lambda>s. s\<lparr>exited := Some (128 + SIGSEGV)\<rparr>)
   }"

subsection \<open>Registries\<close>

record msg_t =
  summary :: "string option"   \<comment> \<open>\<open>None\<close> is the null pointer\<close>
  details :: "string option"

definition registry_msg :: "(int \<times> string \<times> string) list" where
  "registry_msg =
     [
      (0, ''Success'',
        ''Operation completed successfully''),
      (1, ''Target Sysfs node or file not found'',
        ''Path missing or inaccessible: %s''),
      (2, ''Permission denied'',
        ''Access to hardware restricted: %s''),
      (3, ''I/O failure during hardware write'',
        ''Sysfs write failed for %s''),
      (4, ''Daemon communication failure'',
        ''Failed to contact daemon (Code: %d)''),
      (5, ''Hardware transition rejected'',
        ''SMU rejected state change (Code: %d)''),
      (6, ''Invalid command syntax'',
        ''Syntax error: %s''),
      (7, ''Polkit elevation failed'',
        ''Privilege escalation denied''),
      (8, ''Internal daemon state collision'',
        ''Daemon error: %s''),
      (9, ''Unknown command or process'',
        ''%s''),
      (10, ''System state anomaly'',
        ''Daemon offline. Utilizing Polkit VIP pass...''),
      (11, ''System state anomaly'',
        ''Hint: Shell session lacks 'x3d-toggle' group. Try full logout or 'sudo'.''),
      (12, ''System state anomaly'',
        ''Note: Only functional when amd_pstate is in 'passive' mode.''),
      (13, ''Invalid command syntax'',
        ''Usage: x3d profile [add|save|load|delete] [profile_name]''),
      (14, ''System state anomaly'',
        ''Hint: Daemon is offline or socket missing at %s''),
      (15, ''I/O failure during local write'',
        ''Error opening local game list: %s''),
      (16, ''I/O failure during local write'',
        ''Remove-game for '%s' not yet implemented.''),
      (17, ''Daemon communication failure'',
        ''Failed to retrieve daemon status.''),
      (18, ''Invalid command syntax'',
        ''Usage: x3d cppc [auto|high|normal|low]''),
      (19, ''Invalid command syntax'',
        ''Usage: x3d [epp-target|epp-raw] [ARGS...]''),
      (20, ''Invalid command syntax'',
        ''Usage: x3d governor [performance|powersave|schedutil]''),
      (21, ''Invalid command syntax'',
        ''Usage: x3d [boost|park|unpark|tdp|smt|plat] [ARGS...]''),
      (22, ''IPC Socket Failure'',
        ''Failed to create AF_UNIX socket: %s''),
      (23, ''IPC Bind Failure'',
        ''Failed to bind IPC socket to %s: %s''),
      (24, ''IPC Ownership Failure'',
        ''Failed to chown socket to x3d-toggle group: %s''),
      (25, ''IPC Permission Failure'',
        ''Failed to enforce 0660 permissions on %s: %s''),
      (26, ''IPC Listen Failure'',
        ''Failed to listen on IPC socket: %s''),
      (27, ''BPF Load Failure'',
        ''Failed to load eBPF object: %s''),
      (28, ''Linter failure'',
        ''Automated audit suite reported errors (Code: %d)''),
      (29, ''Memory allocation failure'',
        ''Failed to allocate %zu bytes''),
      (30, ''Critical Error: Configuration File Not Found'',
        ''/etc/x3d-toggle.d user configuration file is missing. Run the installer or regenerate it.''),
      (31, ''Scaffolding Component Failure'',
        ''Failed to generate: %s''),
      (32, ''Build Artifact Permission Overlap'',
        ''Permission denied on: %s. Run 'sudo make clean'.''),
      (33, ''OBLITERATION ABORTED: Self-Destruction Guard Triggered'',
        ''Safety Check failed: You are currently working inside the directory you are trying to delete. Path: %s''),
      (34, ''Cgroup Resource Isolation Failed'',
        ''Ephemeral core-set migration rejected (Locked or restricted): %s''),
      (35, ''Affinity Migration Disruption'',
        ''Universal Protocol failed to migrate process affinity (Code: %d)''),
      (36, ''GUI Execution Failure'',
        ''Dashboard error: %s''),
      (37, ''Direct execution restricted'',
        ''Please use the 'x3d-toggle' CLI or run via the installer.''),
      (39, ''Path component too long'',
        ''Assembled path exceeds 4096 bytes: %s''),
      (40, ''IRQ Binding Failed'',
        ''Failed to write affinity mask for IRQ %d: %s''),
      (41, ''IRQ MSI Verification Failed'',
        ''Device %s is not using MSI; legacy APIC pin detected''),
      (42, ''irqbalance Control Failed'',
        ''Failed to %s irqbalance service: %s''),
      (43, ''udev Rule Generation Failed'',
        ''Could not write 99-x3d-irq.rules: %s''),
      (44, ''IRQ Discovery Failed'',
        ''No IRQ vectors found for device class: %s''),
      (45, ''IRQ Teardown Incomplete'',
        ''Failed to restore affinity for IRQ %d; system may require reboot''),
      (46, ''IRQ Coalescing Error'',
        ''Failed to apply ethtool parameters to NIC: %s''),
      (47, ''IRQ Watch Error'',
        ''Daemon polling loop encountered an unexpected failure''),
      (48, ''Unsupported kernel feature'',
        ''Feature '%s' not supported by the current kernel.'')]"

definition registry_status :: "(int \<times> string \<times> string) list" where
  "registry_status =
     [
      (0, ''Success'',
        ''Operation successful''),
      (1, ''Hardware Defaults'',
        ''Native heuristics restored via %s''),
      (2, ''Configuration Synced'',
        ''Runtime configuration flushed to disk''),
      (3, ''Process Watchlist Updated'',
        ''Added '%s' to %s''),
      (4, ''Profile Action Successful'',
        ''%s''),
      (5, ''EPP Heuristic Applied'',
        ''EPP set to: %s''),
      (6, ''P-State Mode Shifted'',
        ''amd_pstate operational mode set to: %s''),
      (7, ''CPPC Target Applied'',
        ''Desired Performance Target register set to: %s''),
      (8, ''Governor Shifted'',
        ''CPUFreq scaling governor set to: %s''),
      (9, ''Preferred Cores Toggled'',
        ''CPPC highest_perf hints toggled: %s''),
      (10, ''Boost State Toggled'',
        ''Precision Boost override: %s''),
      (11, ''Daemon Initialization'',
        ''X3D Toggle Daemon started successfully.''),
      (12, ''BPF Game Detection'',
        ''Process '%s' (PID %d) %s. Active: %d''),
      (13, ''State Transition'',
        ''Target: %s | Sysfs: %s | Load: %.1f%%''),
      (14, ''IPC Server Ready'',
        ''IPC server bound to %s with strict 0660 permissions.''),
      (15, ''Process Watchlist Updated'',
        ''Removed '%s' from %s''),
      (16, ''Dialog Already Active'',
        ''Status monitor is already open. Close the existing window first.''),
      (17, ''Developer Sync'',
        ''UI Framework and build artifacts successfully re-scaffolded.'')]"

text \<open>The entry of a designated initialiser; an index that is left out is zero-initialised.\<close>

definition entry :: "(int \<times> string \<times> string) list \<Rightarrow> int \<Rightarrow> msg_t" where
  "entry tab i =
     (case map_of tab i of
        None \<Rightarrow> \<lparr>summary = None, details = None\<rparr>
      | Some (a, b) \<Rightarrow> \<lparr>summary = Some a, details = Some b\<rparr>)"

definition journal_get :: "int \<Rightarrow> msg_t" where
  "journal_get code =
     (if code > 0 \<and> code < 18 then entry registry_status code
      else let val = (if code < 0 then - code else code)
           in if val < 49 then entry registry_msg val
              else \<lparr>summary = Some ''Unknown Condition'', details = Some ''Unknown code generated''\<rparr>)"

definition journal_string :: "int \<Rightarrow> string option" where
  "journal_string code = summary (journal_get code)"

definition strerror_msgs :: "string list" where
  "strerror_msgs =
     [
      ''Success'',
      ''Operation not permitted'',
      ''No such file or directory'',
      ''No such process'',
      ''Interrupted system call'',
      ''I/O error'',
      ''No such device or address'',
      ''Argument list too long'',
      ''Exec format error'',
      ''Bad file number'',
      ''No child processes'',
      ''Try again'',
      ''Out of memory'',
      ''Permission denied'',
      ''Bad address'',
      ''Block device required'',
      ''Device or resource busy'',
      ''File exists'',
      ''Cross-device link'',
      ''No such device'',
      ''Not a directory'',
      ''Is a directory'',
      ''Invalid argument'',
      ''File table overflow'',
      ''Too many open files'',
      ''Inappropriate ioctl for device'',
      ''Text file busy'',
      ''File too large'',
      ''No space left on device'',
      ''Illegal seek'',
      ''Read-only file system'',
      ''Too many links'',
      ''Broken pipe'',
      ''Math argument out of domain'',
      ''Math result not representable'',
      ''Resource deadlock would occur'',
      ''File name too long'']"

definition journal_strerror :: "int \<Rightarrow> string" where
  "journal_strerror err =
     (let e = \<bar>err\<bar> in if e < int (length strerror_msgs) then strerror_msgs ! nat e else ''Unknown error'')"

subsection \<open>Sinks\<close>

definition VAR_LOGS :: string where "VAR_LOGS = ''/var/log/x3d-toggle/logs''"

definition JOURNAL_SOCKET :: string where "JOURNAL_SOCKET = ''/run/systemd/journal/socket''"

definition journal_syslog :: "'w env \<Rightarrow> int \<Rightarrow> string \<Rightarrow> string \<Rightarrow> ('w, unit) m" where
  "journal_syslog E prio summ ctx = do {
     fd0 \<leftarrow> gets syslog_fd;
     (if fd0 < 0 then do {
        fd \<leftarrow> c_socket E AF_UNIX (SOCK_DGRAM + SOCK_CLOEXEC) 0;
        modify (\<lambda>s. s\<lparr>syslog_fd := fd\<rparr>)
      } else ret ());
     fd \<leftarrow> gets syslog_fd;
     if fd < 0 then ret ()
     else do {
       c_sendto E fd
         (printf_sn E 2048
            (''PRIORITY=%d'' @ [NL] @ ''SYSLOG_IDENTIFIER=x3d-toggle'' @ [NL] @ ''MESSAGE=%s: %s'' @ [NL])
            [AInt prio, AStr summ, AStr ctx])
         0 (printf_sn E 108 JOURNAL_SOCKET []);
       ret ()
     }
   }"

definition journal_file :: "'w env \<Rightarrow> string \<Rightarrow> string option \<Rightarrow> string \<Rightarrow> ('w, unit) m" where
  "journal_file E level summ ctx = do {
     ts \<leftarrow> c_clock_gettime E CLOCK_REALTIME;
     p0 \<leftarrow> gets log_path;
     (if p0 = [] then
        modify (\<lambda>s. s\<lparr>log_path := printf_sn E 256 (VAR_LOGS @ ''/x3d-%zu.log'') [ASize (nat (fst ts mod 2 ^ 64))]\<rparr>)
      else ret ());
     let timestamp = printf_sn E 32 ''%zu'' [ASize (nat (fst ts mod 2 ^ 64))];
     let pri = (if strcmp level ''ERR'' = 0 then LOG_ERR
                else if strcmp level ''WRN'' = 0 then LOG_WARNING
                else if strcmp level ''FTL'' = 0 then LOG_CRIT
                else LOG_INFO);
     let summ' = va_str (case summ of None \<Rightarrow> ANull | Some x \<Rightarrow> AStr x);
     journal_syslog E pri summ' ctx;
     let buf = printf_sn E 2048 (''[%s] [%s] %s: %s'' @ [NL]) [AStr timestamp, AStr level, AStr summ', AStr ctx];
     path \<leftarrow> gets log_path;
     fd \<leftarrow> c_open E path (O_WRONLY + O_CREAT + O_APPEND) 436;
     if fd \<ge> 0 then do { c_write E fd buf; c_close E fd; ret () } else ret ()
   }"

subsection \<open>Entry points\<close>

text \<open>The context string of a coded message; a missing format is a null pointer that \<^verbatim>\<open>printf_vsn\<close> reads.\<close>

definition with_details :: "'w env \<Rightarrow> int \<Rightarrow> arg list \<Rightarrow> (string option \<Rightarrow> string \<Rightarrow> ('w, unit) m) \<Rightarrow> ('w, unit) m" where
  "with_details E code as k =
     (case details (journal_get code) of
        None \<Rightarrow> null_deref E
      | Some d \<Rightarrow> k (summary (journal_get code)) (printf_sn E 1024 d as))"

definition summ_arg :: "string option \<Rightarrow> arg" where
  "summ_arg summ = (case summ of None \<Rightarrow> ANull | Some x \<Rightarrow> AStr x)"

definition journal_error :: "'w env \<Rightarrow> int \<Rightarrow> arg list \<Rightarrow> ('w, unit) m" where
  "journal_error E code as = with_details E code as (\<lambda>summ ctx. do {
     printf_step ''2,${COLOR_RED}${XOUT} Error: ${COLOR_RESET}%s. [X3D-%d]'' [summ_arg summ, AInt \<bar>code\<bar>];
     printf_step ''2,${COLOR_RED}Context: ${COLOR_RESET}%s'' [AStr ctx];
     journal_file E ''ERR'' summ ctx;
     if code = ERR_CONF then daemon_failsafe E else ret ()
   })"

text \<open>A warning is shown at once or, between \<^verbatim>\<open>buffer_set\<close> and \<^verbatim>\<open>buffer_flush\<close>, kept in a buffer.\<close>

definition deferred_append :: "'w env \<Rightarrow> string \<Rightarrow> string \<Rightarrow> string" where
  "deferred_append E buf tmp = buf @ printf_sn E (4096 - length buf) ''%s'' [AStr tmp]"

definition journal_warn :: "'w env \<Rightarrow> int \<Rightarrow> arg list \<Rightarrow> ('w, unit) m" where
  "journal_warn E code as = with_details E code as (\<lambda>summ ctx. do {
     buffered \<leftarrow> gets buffer_active;
     (if buffered then
        let tmp = printf_sn E 2048
                    (''        ${COLOR_YELLOW}${WARN} [X3D-%d] %s: ${COLOR_RESET}%s'' @ [NL])
                    [AInt \<bar>code\<bar>, summ_arg summ, AStr ctx]
        in modify (\<lambda>s. s\<lparr>buffer_deferred := deferred_append E (buffer_deferred s) tmp\<rparr>)
      else do {
        printf_step ''2,${COLOR_YELLOW}${WARN} Warning: ${COLOR_RESET}%s. [X3D-%d]'' [summ_arg summ, AInt \<bar>code\<bar>];
        printf_step ''2,${COLOR_YELLOW}Context: ${COLOR_RESET}%s'' [AStr ctx]
      });
     journal_file E ''WRN'' summ ctx
   })"

definition journal_info :: "'w env \<Rightarrow> int \<Rightarrow> arg list \<Rightarrow> ('w, unit) m" where
  "journal_info E code as = with_details E code as (\<lambda>summ ctx.
     printf_step ''2,${COLOR_GREEN}${ALRIGHT} ${COLOR_RESET}%s'' [AStr ctx])"

definition buffer_set :: "('w, unit) m" where
  "buffer_set = modify (\<lambda>s. s\<lparr>buffer_active := True, buffer_deferred := []\<rparr>)"

definition buffer_flush :: "('w, unit) m" where
  "buffer_flush = do {
     modify (\<lambda>s. s\<lparr>buffer_active := False\<rparr>);
     buf \<leftarrow> gets buffer_deferred;
     if buf \<noteq> [] then do {
       out ''printf_br'' [] [];
       out ''printf_divider'' [] [];
       printf_step ''2,${COLOR_YELLOW}Anomaly Journal:${COLOR_RESET}'' [];
       printf_string ''%s'' [AStr buf];
       modify (\<lambda>s. s\<lparr>buffer_deferred := []\<rparr>)
     } else ret ()
   }"

definition journal_write :: "'w env \<Rightarrow> int \<Rightarrow> string \<Rightarrow> arg list \<Rightarrow> ('w, unit) m" where
  "journal_write E prio fmt as =
     (if prio \<le> 4 then journal_file E (if prio \<le> 3 then ''ERR'' else ''WRN'') (Some ''System Event'')
                          (printf_sn E 1024 fmt as)
      else ret ())"

definition journal_log :: "'w env \<Rightarrow> int \<Rightarrow> arg list \<Rightarrow> ('w, unit) m" where
  "journal_log E code as = with_details E code as (\<lambda>summ ctx. do {
     journal_file E (if code < 0 then ''ERR'' else ''INF'') summ ctx;
     if code = ERR_CONF then daemon_failsafe E else ret ()
   })"

definition journal_exit :: "'w env \<Rightarrow> int \<Rightarrow> string \<Rightarrow> arg list \<Rightarrow> ('w, unit) m" where
  "journal_exit E exit_code fmt as = do {
     let ctx = printf_sn E 512 fmt as;
     c_write E 2 (''   ${COLOR_RED}${XOUT} FATAL: ${COLOR_RESET}Daemon termination forced. [FATAL]'' @ [NL]);
     journal_file E ''FTL'' (Some ''Daemon Termination'') ctx;
     journal_write E LOG_ERR ''FATAL EXIT: %s'' [AStr ctx];
     daemon_failsafe E;
     c_exit E exit_code
   }"

definition journal_debug :: "'w env \<Rightarrow> string \<Rightarrow> arg list \<Rightarrow> ('w, unit) m" where
  "journal_debug E fmt as = journal_file E ''DBG'' (Some ''Debug Event'') (printf_sn E 1024 fmt as)"

definition journal_diag :: "'w env \<Rightarrow> string \<Rightarrow> arg list \<Rightarrow> ('w, unit) m" where
  "journal_diag E fmt as = journal_file E ''DBG'' (Some ''Diagnostic Event'') (printf_sn E 1024 fmt as)"

definition syslog :: "'w env \<Rightarrow> int \<Rightarrow> string \<Rightarrow> arg list \<Rightarrow> ('w, unit) m" where
  "syslog E prio fmt as = journal_syslog E prio ''System Event'' (printf_sn E 1024 fmt as)"

text \<open>\<^verbatim>\<open>execvp\<close> of \<^verbatim>\<open>libc.c\<close>, which reports a component that is too long; a successful call does not return.\<close>

fun execvp_loop :: "'w env \<Rightarrow> string \<Rightarrow> string list \<Rightarrow> nat \<Rightarrow> string \<Rightarrow> ('w, int) m" where
  "execvp_loop E file argv 0 p = ret (- 1)"
| "execvp_loop E file argv (Suc fuel) p =
     (if p = [] then ret (- 1)
      else let dir = takeWhile (\<lambda>c. c \<noteq> CHR '':'') p;
               rest = drop 1 (dropWhile (\<lambda>c. c \<noteq> CHR '':'') p)
           in if length dir + length file + 2 > 4096
              then do { journal_error E ERR_LONG [AStr file]; execvp_loop E file argv fuel rest }
              else do {
                env \<leftarrow> gets environ;
                r \<leftarrow> c_execve E (dir @ ''/'' @ file) argv env;
                if r = - 1 then execvp_loop E file argv fuel rest else ret r
              })"

definition execvp :: "'w env \<Rightarrow> string \<Rightarrow> string list \<Rightarrow> ('w, int) m" where
  "execvp E file argv =
     (if strchr file (CHR ''/'') \<noteq> None then do { env \<leftarrow> gets environ; c_execve E file argv env }
      else do {
        path \<leftarrow> getenv ''PATH'';
        let p = (case path of None \<Rightarrow> ''/bin:/usr/bin'' | Some x \<Rightarrow> x);
        execvp_loop E file argv (length p) p
      })"

subsection \<open>What the journal leaves alone\<close>

text \<open>An invariant that does not look at what logging changes either.\<close>

definition jrn_indep :: "('w prog \<Rightarrow> bool) \<Rightarrow> bool" where
  "jrn_indep I \<longleftrightarrow> sys_indep I \<and>
     (\<forall>s x. I s \<longrightarrow> I (s\<lparr>syslog_fd := x\<rparr>)) \<and> (\<forall>s x. I s \<longrightarrow> I (s\<lparr>log_path := x\<rparr>)) \<and>
     (\<forall>s x. I s \<longrightarrow> I (s\<lparr>buffer_deferred := x\<rparr>)) \<and> (\<forall>s x. I s \<longrightarrow> I (s\<lparr>buffer_active := x\<rparr>))"

text \<open>The codes whose messages are plain text: they have a format and do not start the failsafe.\<close>

definition plain_code :: "int \<Rightarrow> bool" where
  "plain_code code \<longleftrightarrow> \<bar>code\<bar> \<noteq> 38 \<and> code \<noteq> ERR_CONF"

lemma jrn_sys: "jrn_indep I \<Longrightarrow> sys_indep I"
  by (simp add: jrn_indep_def)

lemma keeps_jrn_modify [hoare_rules]:
  assumes "jrn_indep I"
  shows "keeps I (modify (\<lambda>s. s\<lparr>syslog_fd := f s\<rparr>))" "keeps I (modify (\<lambda>s. s\<lparr>log_path := g s\<rparr>))"
    "keeps I (modify (\<lambda>s. s\<lparr>buffer_deferred := g s\<rparr>))" "keeps I (modify (\<lambda>s. s\<lparr>buffer_active := h s\<rparr>))"
  using assms by (simp_all add: jrn_indep_def hoare_def)

lemma msg_table: "map_of registry_msg i = None \<longleftrightarrow> i < 0 \<or> i = 38 \<or> 48 < i"
proof -
  have "map fst registry_msg = [0..37] @ [39..48]"
    by (simp add: registry_msg_def upto_rec1)
  then have "fst ` set registry_msg = {0..37} \<union> {39..48}"
    by (metis set_append set_map set_upto)
  then show ?thesis by (auto simp: map_of_eq_None_iff)
qed

lemma status_table: "map_of registry_status i = None \<longleftrightarrow> i < 0 \<or> 17 < i"
proof -
  have "map fst registry_status = [0..17]"
    by (simp add: registry_status_def upto_rec1)
  then have "fst ` set registry_status = {0..17}"
    by (metis set_map set_upto)
  then show ?thesis by (auto simp: map_of_eq_None_iff)
qed

lemma details_entry: "details (entry tab i) = None \<longleftrightarrow> map_of tab i = None"
  by (auto simp: entry_def split: option.splits)

lemma journal_get_None: "details (journal_get code) = None \<longleftrightarrow> \<bar>code\<bar> = 38"
  by (auto simp: journal_get_def details_entry msg_table status_table Let_def)

lemma keeps_with_details [hoare_rules]:
  "\<bar>code\<bar> \<noteq> 38 \<Longrightarrow> (\<And>summ ctx. keeps I (k summ ctx)) \<Longrightarrow> keeps I (with_details E code as k)"
  using journal_get_None [of code] by (cases "details (journal_get code)") (simp_all add: with_details_def)

lemma journal_sinks_keep [hoare_rules]:
  assumes "jrn_indep I"
  shows "keeps I (journal_syslog E prio summ ctx)" "keeps I (journal_file E level summo ctx)"
  unfolding journal_file_def journal_syslog_def
  by - (intro hoare_rules assms jrn_sys [OF assms])+

lemma journal_entries_keep [hoare_rules]:
  assumes "jrn_indep I"
  shows "plain_code code \<Longrightarrow> keeps I (journal_error E code as)"
    "plain_code code \<Longrightarrow> keeps I (journal_warn E code as)"
    "plain_code code \<Longrightarrow> keeps I (journal_info E code as)"
    "plain_code code \<Longrightarrow> keeps I (journal_log E code as)"
    "keeps I (journal_write E prio fmt as)" "keeps I (journal_debug E fmt as)"
    "keeps I (journal_diag E fmt as)" "keeps I (syslog E prio fmt as)"
  unfolding journal_error_def journal_warn_def journal_info_def journal_log_def journal_write_def
    journal_debug_def journal_diag_def syslog_def plain_code_def
  by - (intro hoare_rules assms jrn_sys [OF assms]; simp)+

subsection \<open>Descriptors\<close>

lemma nets_modify_vars [nets_rules]:
  "nets 0 (modify (\<lambda>s. s\<lparr>errno := fi s\<rparr>))" "nets 0 (modify (\<lambda>s. s\<lparr>log_path := fs s\<rparr>))"
  "nets 0 (modify (\<lambda>s. s\<lparr>buffer_deferred := fs s\<rparr>))" "nets 0 (modify (\<lambda>s. s\<lparr>buffer_active := fb s\<rparr>))"
  "nets 0 (modify (\<lambda>s. s\<lparr>buffer_active := fb s, buffer_deferred := fs s\<rparr>))"
  "nets 0 (modify (\<lambda>s. s\<lparr>failsafe_active := fb s\<rparr>))" "nets 0 (modify (\<lambda>s. s\<lparr>last_sig := fi s\<rparr>))"
  "nets 0 (modify (\<lambda>s. s\<lparr>active_keep := fb s\<rparr>))" "nets 0 (modify (\<lambda>s. s\<lparr>reload_flag := fb s\<rparr>))"
  "nets 0 (modify (\<lambda>s. s\<lparr>sig_installed := fb s\<rparr>))" "nets 0 (modify (\<lambda>s. s\<lparr>cfg := fc s\<rparr>))"
  "nets 0 (modify (\<lambda>s. s\<lparr>gl := fg s\<rparr>))" "nets 0 (modify (\<lambda>s. s\<lparr>bpf_active := fb s\<rparr>))"
  "nets 0 (modify (\<lambda>s. s\<lparr>wrapper_lock := fi s\<rparr>))" "nets 0 (modify (\<lambda>s. s\<lparr>active_override := fi s\<rparr>))"
  "nets 0 (modify (\<lambda>s. s\<lparr>x3d_path_cache := fs s\<rparr>))" "nets 0 (modify (\<lambda>s. s\<lparr>last_target := fs s\<rparr>))"
  "nets 0 (modify (\<lambda>s. s\<lparr>warned_group := fb s\<rparr>))" "nets 0 (modify (\<lambda>s. s\<lparr>active_games := fi s\<rparr>))"
  "nets 0 (modify (\<lambda>s. s\<lparr>bpf_obj := fi s\<rparr>))" "nets 0 (modify (\<lambda>s. s\<lparr>bpf_link_exec := fi s\<rparr>))"
  "nets 0 (modify (\<lambda>s. s\<lparr>bpf_link_exit := fi s\<rparr>))" "nets 0 (modify (\<lambda>s. s\<lparr>bpf_rb := fi s\<rparr>))"
  "nets 0 (modify (\<lambda>s. s\<lparr>cur_mode := fs s\<rparr>))" "nets 0 (modify (\<lambda>s. s\<lparr>target_mode := fs s\<rparr>))"
  "nets 0 (modify (\<lambda>s. s\<lparr>p_stat := fp s\<rparr>))" "nets 0 (modify (\<lambda>s. s\<lparr>c_stat := fp s\<rparr>))"
  by (rule nets_modify; simp)+

lemma nets_exit [nets_rules]: "nets d (c_exit E st)"
  by (simp add: nets_def c_exit_def run_sys Let_def)

lemma nets_exited [nets_rules]: "nets d (modify (\<lambda>s. s\<lparr>exited := Some st\<rparr>))"
  by (simp add: nets_def)

text \<open>The descriptor that \<^verbatim>\<open>journal_syslog\<close> opens once belongs to the process, not to the caller.\<close>

lemma nets_journal_syslog [nets_rules]: "nets 0 (journal_syslog E prio summ ctx)"
proof -
  let ?get = "do { fd0 \<leftarrow> gets syslog_fd;
     (if fd0 < 0 then do {
        fd \<leftarrow> c_socket E AF_UNIX (SOCK_DGRAM + SOCK_CLOEXEC) 0;
        modify (\<lambda>s. s\<lparr>syslog_fd := fd\<rparr>)
      } else ret ()) }"
  let ?send = "do {
     fd \<leftarrow> gets syslog_fd;
     if fd < 0 then ret ()
     else do {
       c_sendto E fd
         (printf_sn E 2048
            (''PRIORITY=%d'' @ [NL] @ ''SYSLOG_IDENTIFIER=x3d-toggle'' @ [NL] @ ''MESSAGE=%s: %s'' @ [NL])
            [AInt prio, AStr summ, AStr ctx])
         0 (printf_sn E 108 JOURNAL_SOCKET []);
       ret ()
     } }"
  have "nets 0 ?get"
    by (auto simp: nets_def held_def c_socket_def run_sys_int Let_def failed_def)
  moreover have "nets 0 ?send" by (intro nets_rules)
  ultimately have "nets 0 (do { ?get; ?send })" by (rule nets_bind0)
  then show ?thesis by (simp only: journal_syslog_def bind_assoc)
qed

lemma nets_failsafe [nets_rules]:
  "nets 0 (cppc_restore E)" "nets 0 (daemon_restore E)" "nets 0 (daemon_failsafe E)"
  "nets 0 (sig_handler E sg)" "nets 0 (null_deref E)"
  unfolding null_deref_def sig_handler_def daemon_failsafe_def daemon_restore_def cppc_restore_def
  by - (intro nets_rules)+

lemma nets_journal [nets_rules]:
  "nets 0 (journal_file E level summo ctx)" "nets 0 (journal_error E code as)"
  "nets 0 (journal_warn E code as)" "nets 0 (journal_info E code as)" "nets 0 (journal_log E code as)"
  "nets 0 (journal_write E prio fmt as)" "nets 0 (journal_debug E fmt as)" "nets 0 (journal_diag E fmt as)"
  "nets 0 (syslog E prio fmt as)" "nets 0 (journal_exit E st fmt as)"
  unfolding journal_error_def journal_warn_def journal_info_def journal_log_def journal_write_def
    journal_debug_def journal_diag_def syslog_def with_details_def journal_exit_def journal_file_def
  by - (linarith | rule fd_rules | rule nets_rules)+

subsection \<open>The deferred warnings\<close>

interpretation deferred: bounded_append 4096 "deferred_append E" for E
  by unfold_locales (simp add: deferred_append_def printf_sn_def printf_simps)

text \<open>The text a warning leaves in the buffer.\<close>

definition warn_text :: "'w env \<Rightarrow> int \<times> arg list \<Rightarrow> string" where
  "warn_text E w = (case w of (code, as) \<Rightarrow>
     printf_sn E 2048 (''        ${COLOR_YELLOW}${WARN} [X3D-%d] %s: ${COLOR_RESET}%s'' @ [NL])
       [AInt \<bar>code\<bar>, summ_arg (summary (journal_get code)),
        AStr (printf_sn E 1024 (the (details (journal_get code))) as)])"

definition buffers :: "string \<Rightarrow> 'w prog \<Rightarrow> bool" where
  "buffers b s \<longleftrightarrow> buffer_active s \<and> buffer_deferred s = b"

lemma journal_file_buffers: "keeps (buffers b) (journal_file E level summo ctx)"
proof -
  have si: "sys_indep (buffers b)" by (intro sys_indepI) (simp add: buffers_def)
  then show ?thesis unfolding journal_file_def journal_syslog_def
    by (intro hoare_rules si hoare_modify) (simp_all add: buffers_def)
qed

lemma journal_warn_buffers:
  assumes "\<bar>code\<bar> \<noteq> 38"
  shows "hoare (buffers b) (journal_warn E code as) (\<lambda>_. buffers (deferred_append E b (warn_text E (code, as))))"
proof -
  obtain d where d: "details (journal_get code) = Some d"
    using assms journal_get_None [of code] by auto
  show ?thesis
    unfolding journal_warn_def with_details_def d option.case
    apply (rule hoare_bind [where R = "\<lambda>x s. x \<and> buffers b s"])
     apply (simp add: hoare_def buffers_def)
    apply (rule hoare_bind [where R = "\<lambda>_. buffers (deferred_append E b (warn_text E (code, as)))"])
     apply (simp add: hoare_def buffers_def warn_text_def d)
    apply (rule journal_file_buffers)
    done
qed

lemma journal_warns_buffers:
  "\<forall>w \<in> set ws. \<bar>fst w\<bar> \<noteq> 38 \<Longrightarrow>
   hoare (buffers b) (forM ws (\<lambda>w. journal_warn E (fst w) (snd w)))
     (\<lambda>_. buffers (fold (\<lambda>t b. deferred_append E b t) (map (warn_text E) ws) b))"
proof (induction ws arbitrary: b)
  case (Cons w ws)
  have "hoare (buffers b) (journal_warn E (fst w) (snd w)) (\<lambda>_. buffers (deferred_append E b (warn_text E w)))"
    using journal_warn_buffers [of "fst w" b E "snd w"] Cons.prems by simp
  with Cons.IH Cons.prems show ?case by (auto intro: hoare_bind)
qed (simp add: hoare_def)

subsection \<open>Properties\<close>

text \<open>
  Every message code has a summary and a format except 38 (\<^verbatim>\<open>ERR_INVALID_ARGS\<close>), for which the
  registry has a hole: a message with that code would format a null pointer.
\<close>

theorem journal_get_total:
  "summary (journal_get code) \<noteq> None \<and> details (journal_get code) \<noteq> None \<longleftrightarrow> \<bar>code\<bar> \<noteq> \<bar>ERR_INVALID_ARGS\<bar>"
proof -
  have "summary (entry tab i) = None \<longleftrightarrow> map_of tab i = None" for tab i
    by (auto simp: entry_def split: option.splits)
  then have "summary (journal_get code) = None \<longleftrightarrow> \<bar>code\<bar> = 38"
    by (auto simp: journal_get_def msg_table status_table Let_def)
  then show ?thesis using journal_get_None [of code] by (simp add: ERR_INVALID_ARGS_def)
qed

text \<open>
  C30. Warnings raised while the journal is deferred are collected in order, and the 4096-byte
  buffer holds the longest prefix of their texts that fits: a later warning never overwrites an earlier one
  and never writes past the end.
\<close>

theorem deferred_warnings_bounded:
  assumes "\<forall>w \<in> set ws. \<bar>fst w\<bar> \<noteq> 38"
  shows "buffer_deferred (exec (do { buffer_set; forM ws (\<lambda>w. journal_warn E (fst w) (snd w)) }) s) =
    take 4095 (concat (map (warn_text E) ws))"
proof -
  let ?m = "forM ws (\<lambda>w. journal_warn E (fst w) (snd w))"
  let ?s = "exec buffer_set s"
  have "buffers [] ?s" by (simp add: buffer_set_def buffers_def)
  with journal_warns_buffers [OF assms]
  have "buffers (fold (\<lambda>t b. deferred_append E b t) (map (warn_text E) ws) []) (exec ?m ?s)"
    by (rule hoareD)
  then show ?thesis
    by (simp add: exec_bind deferred.fold_app buffers_def del: run_state_bind)
qed

definition forks :: "event list \<Rightarrow> child list" where
  "forks t = List.map_filter (\<lambda>e. case e of Sys (SysFork c) _ \<Rightarrow> Some c | _ \<Rightarrow> None) t"

lemma forks_append [simp]: "forks (t @ u) = forks t @ forks u"
  by (simp add: forks_def map_filter_def)

lemma forks_simps [simp]: "forks [] = []" "forks (Sys (SysFork c) r # t) = c # forks t"
  "(\<And>c. sc \<noteq> SysFork c) \<Longrightarrow> forks (Sys sc r # t) = forks t" "forks (Out f fmt as # t) = forks t"
  by (auto simp: forks_def map_filter_def split: syscall.splits)

lemma cppc_restore_run:
  "forks (trace (exec (cppc_restore E) s)) = forks (trace s) @ [reset_child] \<and>
   failsafe_active (exec (cppc_restore E) s) = failsafe_active s"
  by (simp add: cppc_restore_def c_fork_def c_waitpid_def run_sys Let_def)

lemma daemon_restore_run:
  "forks (trace (exec (daemon_restore E) s)) = forks (trace s) @ [reset_child, reset_child] \<and>
   failsafe_active (exec (daemon_restore E) s) = failsafe_active s"
  using cppc_restore_run [of E s]
  by (simp add: daemon_restore_def exec_bind result_bind c_fork_def c_waitpid_def run_sys Let_def
      del: run_state_bind)

text \<open>
  C31. The failsafe acts once: the first call sets its flag and starts the reset script three
  times, every later call changes nothing at all.
\<close>

theorem daemon_failsafe_once:
  "let s' = exec (daemon_failsafe E) s in
     failsafe_active s' \<and> exec (daemon_failsafe E) s' = s' \<and>
     forks (trace s') = forks (trace s) @ (if failsafe_active s then [] else replicate 3 reset_child)"
proof (cases "failsafe_active s")
  case True
  then show ?thesis by (simp add: daemon_failsafe_def)
next
  case False
  let ?s = "exec (daemon_failsafe E) s"
  have "failsafe_active ?s \<and> forks (trace ?s) = forks (trace s) @ replicate 3 reset_child"
    using False
    by (simp add: daemon_failsafe_def exec_bind result_bind daemon_restore_run cppc_restore_run c_write_def
        run_sys_errno Let_def numeral_3_eq_3 del: run_state_bind)
  moreover from this have "exec (daemon_failsafe E) ?s = ?s" by (simp add: daemon_failsafe_def)
  ultimately show ?thesis using False by (simp add: Let_def)
qed

end
