(* ===== verification/Kernel_Files.thy ===== *)
theory Kernel_Files
  imports Journal
begin

section \<open>What the program relies on when it reads and writes files\<close>

text \<open>
  The kernel is a parameter. Theorems about a file that is written and read back need to know how
  the kernel treats regular files; \<open>file_kernel\<close> states it, as POSIX documents it, for the calls and flags
  the program uses. \<open>fs\<close> gives the contents of the files in a world, \<open>pos\<close> the open descriptors
  with their file and offset. The second half is a small kernel that keeps its files in memory: it satisfies
  the laws, and the witnesses of the development run on it.
\<close>

subsection \<open>Laws\<close>

type_synonym path = string
type_synonym 'w files = "'w \<Rightarrow> path \<Rightarrow> string option"
type_synonym 'w descriptors = "'w \<Rightarrow> int \<Rightarrow> (path \<times> nat) option"

definition plain_flags :: "nat set" where "plain_flags = {O_RDONLY, O_WRONLY}"
definition trunc_flags :: "nat set" where "trunc_flags = {O_WRONLY + O_TRUNC, O_WRONLY + O_CREAT + O_TRUNC}"

definition opens_files :: "'w env \<Rightarrow> 'w files \<Rightarrow> 'w descriptors \<Rightarrow> bool" where
  "opens_files E fs pos \<longleftrightarrow>
     (\<forall>w p fl md c. fs w p = Some c \<longrightarrow> fl \<in> plain_flags \<union> trunc_flags \<longrightarrow>
        (\<exists>fd w'. kernel E (SysOpen p fl md) w = (Ret fd, w') \<and> 0 \<le> fd \<and> fd < 2 ^ 31 \<and>
           pos w' = (pos w)(fd \<mapsto> (p, 0)) \<and>
           fs w' = (if fl \<in> trunc_flags then (fs w)(p \<mapsto> []) else fs w)))"

definition misses_files :: "'w env \<Rightarrow> 'w files \<Rightarrow> 'w descriptors \<Rightarrow> bool" where
  "misses_files E fs pos \<longleftrightarrow>
     (\<forall>w p fl md. fs w p = None \<longrightarrow> fl \<in> {O_RDONLY, O_WRONLY, O_WRONLY + O_TRUNC} \<longrightarrow>
        (\<exists>w'. kernel E (SysOpen p fl md) w = (Ret (- 2), w') \<and> fs w' = fs w \<and> pos w' = pos w))"

definition reads_files :: "'w env \<Rightarrow> 'w files \<Rightarrow> 'w descriptors \<Rightarrow> bool" where
  "reads_files E fs pos \<longleftrightarrow>
     (\<forall>w fd n p k c. pos w fd = Some (p, k) \<longrightarrow> fs w p = Some c \<longrightarrow>
        (\<exists>w'. kernel E (SysRead fd n) w = (Data (take n (drop k c)), w') \<and> fs w' = fs w \<and>
           pos w' = (pos w)(fd \<mapsto> (p, k + length (take n (drop k c))))))"

definition writes_files :: "'w env \<Rightarrow> 'w files \<Rightarrow> 'w descriptors \<Rightarrow> bool" where
  "writes_files E fs pos \<longleftrightarrow>
     (\<forall>w fd d p k c. pos w fd = Some (p, k) \<longrightarrow> fs w p = Some c \<longrightarrow>
        (\<exists>w'. kernel E (SysWrite fd d) w = (Ret (int (length d)), w') \<and>
           fs w' = (fs w)(p \<mapsto> take k c @ d @ drop (k + length d) c) \<and>
           pos w' = (pos w)(fd \<mapsto> (p, k + length d))))"

definition closes_files :: "'w env \<Rightarrow> 'w files \<Rightarrow> 'w descriptors \<Rightarrow> bool" where
  "closes_files E fs pos \<longleftrightarrow>
     (\<forall>w fd. \<exists>w' r. kernel E (SysClose fd) w = (Ret r, w') \<and> fs w' = fs w \<and> pos w' = (pos w)(fd := None))"

text \<open>Asking whether a file is there changes nothing.\<close>

definition probes_files :: "'w env \<Rightarrow> 'w files \<Rightarrow> 'w descriptors \<Rightarrow> bool" where
  "probes_files E fs pos \<longleftrightarrow>
     (\<forall>w p md. let w' = snd (kernel E (SysAccess p md) w) in fs w' = fs w \<and> pos w' = pos w)"

definition file_kernel :: "'w env \<Rightarrow> 'w files \<Rightarrow> 'w descriptors \<Rightarrow> bool" where
  "file_kernel E fs pos \<longleftrightarrow> opens_files E fs pos \<and> misses_files E fs pos \<and> reads_files E fs pos \<and>
     writes_files E fs pos \<and> closes_files E fs pos \<and> probes_files E fs pos"

subsection \<open>Files as the program's calls see them\<close>

text \<open>What a state says about the files: contents, descriptors, and the program's own variables.\<close>

definition vars :: "'w prog \<Rightarrow> unit prog" where
  "vars s =
     \<lparr>world = (), trace = [], errno = 0, environ = environ s, cfg = cfg s, gl = gl s,
      bpf_active = bpf_active s, wrapper_lock = wrapper_lock s, active_override = active_override s,
      active_keep = active_keep s, last_sig = last_sig s, reload_flag = reload_flag s,
      failsafe_active = failsafe_active s, sig_installed = sig_installed s,
      x3d_path_cache = x3d_path_cache s, last_target = last_target s,
      buffer_deferred = buffer_deferred s, buffer_active = buffer_active s, syslog_fd = syslog_fd s,
      log_path = log_path s, warned_group = warned_group s, active_games = active_games s,
      bpf_obj = bpf_obj s, bpf_link_exec = bpf_link_exec s, bpf_link_exit = bpf_link_exit s,
      bpf_rb = bpf_rb s, cur_mode = cur_mode s, target_mode = target_mode s, p_stat = p_stat s,
      c_stat = c_stat s, exited = exited s\<rparr>"

lemma vars_upd [simp]:
  "vars (s\<lparr>world := w\<rparr>) = vars s" "vars (s\<lparr>trace := t\<rparr>) = vars s" "vars (s\<lparr>errno := e\<rparr>) = vars s"
  by (simp_all add: vars_def)

lemma sys_indep_vars: "sys_indep (\<lambda>s. P (vars s))"
  by (intro sys_indepI) simp

definition sees :: "'w files \<Rightarrow> 'w descriptors \<Rightarrow> (path \<Rightarrow> string option) \<Rightarrow> (int \<Rightarrow> (path \<times> nat) option) \<Rightarrow>
    unit prog \<Rightarrow> 'w prog \<Rightarrow> bool" where
  "sees fs pos F D V s \<longleftrightarrow> fs (world s) = F \<and> pos (world s) = D \<and> vars s = V"

lemma hoare_open:
  assumes "file_kernel E fs pos" "F p = Some c" "fl \<in> plain_flags \<union> trunc_flags"
  shows "hoare (sees fs pos F D V) (c_open E p fl md)
    (\<lambda>fd s. 0 \<le> fd \<and> sees fs pos (if fl \<in> trunc_flags then F(p \<mapsto> []) else F) (D(fd \<mapsto> (p, 0))) V s)"
  unfolding hoare_def
proof (intro allI impI)
  fix s assume s: "sees fs pos F D V s"
  with assms obtain fd w' where "kernel E (SysOpen p fl md) (world s) = (Ret fd, w')" "0 \<le> fd" "fd < 2 ^ 31"
    "pos w' = D(fd \<mapsto> (p, 0))" "fs w' = (if fl \<in> trunc_flags then F(p \<mapsto> []) else F)"
    unfolding file_kernel_def opens_files_def sees_def by metis
  with s show "0 \<le> result (c_open E p fl md) s \<and>
      sees fs pos (if fl \<in> trunc_flags then F(p \<mapsto> []) else F) (D(result (c_open E p fl md) s \<mapsto> (p, 0))) V
        (exec (c_open E p fl md) s)"
    by (simp add: c_open_def run_sys_int failed_def s32_id sees_def Let_def)
qed

lemma hoare_open_missing:
  assumes "file_kernel E fs pos" "F p = None" "fl \<in> {O_RDONLY, O_WRONLY, O_WRONLY + O_TRUNC}"
  shows "hoare (sees fs pos F D V) (c_open E p fl md) (\<lambda>fd s. fd < 0 \<and> sees fs pos F D V s)"
  unfolding hoare_def
proof (intro allI impI)
  fix s assume s: "sees fs pos F D V s"
  with assms obtain w' where "kernel E (SysOpen p fl md) (world s) = (Ret (- 2), w')" "pos w' = D" "fs w' = F"
    unfolding file_kernel_def misses_files_def sees_def by metis
  with s show "result (c_open E p fl md) s < 0 \<and> sees fs pos F D V (exec (c_open E p fl md) s)"
    by (simp add: c_open_def run_sys_int failed_def sees_def Let_def)
qed

lemma hoare_read:
  assumes "file_kernel E fs pos" "D fd = Some (p, k)" "F p = Some c"
  shows "hoare (sees fs pos F D V) (c_read E fd n)
    (\<lambda>nd s. nd = (int (length (take n (drop k c))), take n (drop k c)) \<and>
       sees fs pos F (D(fd \<mapsto> (p, k + length (take n (drop k c))))) V s)"
  unfolding hoare_def
proof (intro allI impI)
  fix s assume s: "sees fs pos F D V s"
  with assms obtain w' where "kernel E (SysRead fd n) (world s) = (Data (take n (drop k c)), w')" "fs w' = F"
    "pos w' = D(fd \<mapsto> (p, k + length (take n (drop k c))))"
    unfolding file_kernel_def reads_files_def sees_def by metis
  with s show "result (c_read E fd n) s = (int (length (take n (drop k c))), take n (drop k c)) \<and>
      sees fs pos F (D(fd \<mapsto> (p, k + length (take n (drop k c))))) V (exec (c_read E fd n) s)"
    by (simp add: c_read_def run_sys_errno failed_def filled_def sees_def Let_def)
qed

lemma hoare_write:
  assumes "file_kernel E fs pos" "D fd = Some (p, k)" "F p = Some c"
  shows "hoare (sees fs pos F D V) (c_write E fd d)
    (\<lambda>n s. n = int (length d) \<and>
       sees fs pos (F(p \<mapsto> take k c @ d @ drop (k + length d) c)) (D(fd \<mapsto> (p, k + length d))) V s)"
  unfolding hoare_def
proof (intro allI impI)
  fix s assume s: "sees fs pos F D V s"
  with assms obtain w' where "kernel E (SysWrite fd d) (world s) = (Ret (int (length d)), w')"
    "fs w' = F(p \<mapsto> take k c @ d @ drop (k + length d) c)" "pos w' = D(fd \<mapsto> (p, k + length d))"
    unfolding file_kernel_def writes_files_def sees_def by metis
  with s show "result (c_write E fd d) s = int (length d) \<and>
      sees fs pos (F(p \<mapsto> take k c @ d @ drop (k + length d) c)) (D(fd \<mapsto> (p, k + length d))) V
        (exec (c_write E fd d) s)"
    by (simp add: c_write_def run_sys_errno failed_def sees_def Let_def)
qed

lemma hoare_close:
  assumes "file_kernel E fs pos"
  shows "hoare (sees fs pos F D V) (c_close E fd) (\<lambda>_. sees fs pos F (D(fd := None)) V)"
  unfolding hoare_def
proof (intro allI impI)
  fix s assume s: "sees fs pos F D V s"
  with assms obtain w' r where "kernel E (SysClose fd) (world s) = (Ret r, w')" "fs w' = F" "pos w' = D(fd := None)"
    unfolding file_kernel_def closes_files_def sees_def by metis
  with s show "sees fs pos F (D(fd := None)) V (exec (c_close E fd) s)"
    by (simp add: c_close_def run_sys_int sees_def Let_def)
qed

lemma access_files:
  "file_kernel E fs pos \<Longrightarrow> fs (world (exec (c_access E p md) s)) = fs (world s) \<and> vars (exec (c_access E p md) s) = vars s"
  by (simp add: file_kernel_def probes_files_def c_access_def run_sys_int Let_def)

text \<open>Writing a list of strings to a descriptor at the end of its file appends them.\<close>

lemma hoare_write_all:
  assumes "file_kernel E fs pos"
  shows "hoare (\<lambda>s. \<exists>c D. D fd = Some (p, length c) \<and> F p = Some c0 \<and> sees fs pos (F(p \<mapsto> c)) D V s \<and> c = acc)
      (forM rows (\<lambda>r. do { c_write E fd r; ret () }))
    (\<lambda>_ s. \<exists>D. sees fs pos (F(p \<mapsto> acc @ concat rows)) D V s)"
proof (induction rows arbitrary: acc)
  case Nil
  then show ?case by (auto simp: hoare_def)
next
  case (Cons r rows)
  have step: "hoare (\<lambda>s. \<exists>c D. D fd = Some (p, length c) \<and> F p = Some c0 \<and> sees fs pos (F(p \<mapsto> c)) D V s \<and> c = acc)
      (c_write E fd r)
    (\<lambda>_ s. \<exists>c D. D fd = Some (p, length c) \<and> F p = Some c0 \<and> sees fs pos (F(p \<mapsto> c)) D V s \<and> c = acc @ r)"
    unfolding hoare_def
  proof (intro allI impI; elim exE conjE)
    fix s c D
    assume a: "D fd = Some (p, length c)" "F p = Some c0" "sees fs pos (F(p \<mapsto> c)) D V s" "c = acc"
    have "hoare (sees fs pos (F(p \<mapsto> c)) D V) (c_write E fd r)
      (\<lambda>n s. n = int (length r) \<and> sees fs pos (F(p \<mapsto> c @ r)) (D(fd \<mapsto> (p, length c + length r))) V s)"
      using hoare_write [OF assms, of D fd p "length c" "F(p \<mapsto> c)" c V r] a(1) by simp
    from hoareD [OF this a(3)] a
    show "\<exists>c D. D fd = Some (p, length c) \<and> F p = Some c0 \<and>
        sees fs pos (F(p \<mapsto> c)) D V (exec (c_write E fd r) s) \<and> c = acc @ r"
      by (intro exI [of _ "acc @ r"] exI [of _ "D(fd \<mapsto> (p, length c + length r))"]) auto
  qed
  have body: "hoare (\<lambda>s. \<exists>c D. D fd = Some (p, length c) \<and> F p = Some c0 \<and> sees fs pos (F(p \<mapsto> c)) D V s \<and> c = acc)
      (do { c_write E fd r; ret () })
    (\<lambda>_ s. \<exists>c D. D fd = Some (p, length c) \<and> F p = Some c0 \<and> sees fs pos (F(p \<mapsto> c)) D V s \<and> c = acc @ r)"
    by (rule hoare_bind [OF step]) (rule hoare_ret)
  show ?case
    unfolding forM.simps concat.simps append_assoc [symmetric]
    by (rule hoare_bind [OF body Cons.IH])
qed

subsection \<open>Whole files\<close>

definition contents :: "'w files \<Rightarrow> (path \<Rightarrow> string option) \<Rightarrow> unit prog \<Rightarrow> 'w prog \<Rightarrow> bool" where
  "contents fs F V s \<longleftrightarrow> fs (world s) = F \<and> vars s = V"

lemma contents_sees: "contents fs F V s \<Longrightarrow> sees fs pos F (pos (world s)) V s"
  by (simp add: contents_def sees_def)

lemma sees_contents: "sees fs pos F D V s \<Longrightarrow> contents fs F V s"
  by (simp add: contents_def sees_def)

lemma hoare_contents_pre: "(\<And>D. hoare (sees fs pos F D V) m Q) \<Longrightarrow> hoare (contents fs F V) m Q"
  unfolding hoare_def using contents_sees by blast

lemma hoare_seesD: "hoare P m (\<lambda>x s. G x \<and> sees fs pos F (D x) V s) \<Longrightarrow> hoare P m (\<lambda>x s. G x \<and> contents fs F V s)"
  unfolding hoare_def using sees_contents by blast

lemma keeps_contents_out: "keeps (contents fs F V) (out f fmt as)"
  by (simp add: hoare_def run_out contents_def)

lemma keeps_contents_info: "\<bar>code\<bar> \<noteq> 38 \<Longrightarrow> keeps (contents fs F V) (journal_info E code as)"
  unfolding journal_info_def by (intro hoare_rules keeps_contents_out)

text \<open>Open, read at most \<open>n\<close> bytes, close: the beginning of the file.\<close>

lemma hoare_slurp:
  assumes K: "file_kernel E fs pos" and F: "F p = Some c"
    and body: "\<And>fd. 0 \<le> fd \<Longrightarrow> body fd = do { nd \<leftarrow> c_read E fd n; c_close E fd; k nd }"
    and k: "hoare (contents fs F V) (k (int (length (take n c)), take n c)) Q"
  shows "hoare (contents fs F V) (do { fd \<leftarrow> c_open E p O_RDONLY 0; body fd }) Q"
proof (rule hoare_contents_pre [where pos = pos])
  fix D
  have ro: "O_RDONLY \<in> plain_flags \<union> trunc_flags" "O_RDONLY \<notin> trunc_flags"
    by (simp_all add: plain_flags_def trunc_flags_def libc_consts)
  show "hoare (sees fs pos F D V) (do { fd \<leftarrow> c_open E p O_RDONLY 0; body fd }) Q"
  proof (rule hoare_bind [OF hoare_open [where F = F, OF K F ro(1)]])
    fix fd
    have "hoare (sees fs pos F (D(fd \<mapsto> (p, 0))) V) (do { nd \<leftarrow> c_read E fd n; c_close E fd; k nd }) Q"
    proof (rule hoare_bind [OF hoare_read [where F = F, OF K _ F]])
      fix nd
      show "hoare (\<lambda>s. nd = (int (length (take n (drop 0 c))), take n (drop 0 c)) \<and>
          sees fs pos F (D(fd \<mapsto> (p, 0), fd \<mapsto> (p, 0 + length (take n (drop 0 c))))) V s)
        (do { c_close E fd; k nd }) Q"
        using hoareD [OF hoare_close [OF K, where F = F and V = V and fd = fd]] hoareD [OF k] sees_contents
        by (fastforce simp: hoare_def exec_bind result_bind simp del: run_state_bind)
    qed simp
    with body [of fd] show "hoare (\<lambda>s. 0 \<le> fd \<and>
        sees fs pos (if O_RDONLY \<in> trunc_flags then F(p \<mapsto> []) else F) (D(fd \<mapsto> (p, 0))) V s) (body fd) Q"
      using ro(2) by (cases "0 \<le> fd") (auto simp: hoare_def simp del: run_state_bind)
  qed
qed

text \<open>Open with truncation, write the pieces, close: the file is their concatenation.\<close>

lemma hoare_spew:
  assumes K: "file_kernel E fs pos" and F: "F p = Some c0" and fl: "fl \<in> trunc_flags"
  shows "hoare (contents fs F V)
    (do { fd \<leftarrow> c_open E p fl md;
          if fd \<ge> 0 then do { forM rows (\<lambda>r. do { c_write E fd r; ret () }); c_close E fd; ret () } else ret () })
    (\<lambda>_. contents fs (F(p \<mapsto> concat rows)) V)"
proof (rule hoare_contents_pre [where pos = pos])
  fix D
  show "hoare (sees fs pos F D V)
    (do { fd \<leftarrow> c_open E p fl md;
          if fd \<ge> 0 then do { forM rows (\<lambda>r. do { c_write E fd r; ret () }); c_close E fd; ret () } else ret () })
    (\<lambda>_. contents fs (F(p \<mapsto> concat rows)) V)"
  proof (rule hoare_bind [OF hoare_open [where F = F, OF K F]])
    fix fd
    let ?w = "forM rows (\<lambda>r. do { c_write E fd r; ret () })"
    have w: "hoare (sees fs pos (F(p \<mapsto> [])) (D(fd \<mapsto> (p, 0))) V) ?w
        (\<lambda>_ s. \<exists>D. sees fs pos (F(p \<mapsto> concat rows)) D V s)"
      by (rule hoare_conseq [OF hoare_write_all [OF K, of fd p F c0 V "[]" rows]])
        (use F in \<open>auto intro!: exI [of _ "D(fd \<mapsto> (p, 0))"]\<close>)
    have "hoare (\<lambda>s. \<exists>D. sees fs pos (F(p \<mapsto> concat rows)) D V s) (do { c_close E fd; ret () })
        (\<lambda>_. contents fs (F(p \<mapsto> concat rows)) V)"
      using hoareD [OF hoare_close [OF K, where F = "F(p \<mapsto> concat rows)" and V = V and fd = fd]] sees_contents
      by (fastforce simp: hoare_def exec_bind result_bind simp del: run_state_bind)
    with w have "hoare (sees fs pos (F(p \<mapsto> [])) (D(fd \<mapsto> (p, 0))) V) (do { ?w; c_close E fd; ret () })
        (\<lambda>_. contents fs (F(p \<mapsto> concat rows)) V)"
      by (rule hoare_bind)
    then show "hoare (\<lambda>s. 0 \<le> fd \<and> sees fs pos (if fl \<in> trunc_flags then F(p \<mapsto> []) else F) (D(fd \<mapsto> (p, 0))) V s)
        (if 0 \<le> fd then do { ?w; c_close E fd; ret () } else ret ()) (\<lambda>_. contents fs (F(p \<mapsto> concat rows)) V)"
      using fl by (cases "0 \<le> fd") (auto simp: hoare_def simp del: run_state_bind)
  qed (use fl in simp)
qed

lemma hoare_spew1:
  assumes "file_kernel E fs pos" "F p = Some c0" "fl \<in> trunc_flags"
  shows "hoare (contents fs F V)
    (do { fd \<leftarrow> c_open E p fl md;
          if fd \<ge> 0 then do { c_write E fd t; c_close E fd; ret () } else ret () })
    (\<lambda>_. contents fs (F(p \<mapsto> t)) V)"
  using hoare_spew [where F = F and rows = "[t]", OF assms, of V md] by (simp cong: if_cong)

subsection \<open>A kernel with files in memory\<close>

record mem_world =
  mw_files :: "path \<Rightarrow> string option"
  mw_pos :: "int \<Rightarrow> (path \<times> nat) option"
  mw_next :: int
  mw_inbox :: "string list"   \<comment> \<open>what the clients that connect next will send\<close>
  mw_sent :: "string list"
  mw_dirs :: "string list"    \<comment> \<open>entries still to be listed\<close>

definition mem_open :: "path \<Rightarrow> nat \<Rightarrow> mem_world \<Rightarrow> sysres \<times> mem_world" where
  "mem_open p fl w =
     (if mw_files w p = None \<and> fl \<notin> {O_WRONLY + O_CREAT + O_TRUNC, O_WRONLY + O_CREAT + O_APPEND}
      then (Ret (- 2), w)
      else let fd = mw_next w mod 2 ^ 30 + 3;
               old = (case mw_files w p of None \<Rightarrow> [] | Some c \<Rightarrow> c)
           in (Ret fd, w\<lparr>mw_files := (mw_files w)(p \<mapsto> (if fl \<in> trunc_flags then [] else old)),
                         mw_pos := (mw_pos w)(fd \<mapsto> (p, if fl = O_WRONLY + O_CREAT + O_APPEND then length old else 0)),
                         mw_next := mw_next w + 1\<rparr>))"

definition mem_read :: "int \<Rightarrow> nat \<Rightarrow> mem_world \<Rightarrow> sysres \<times> mem_world" where
  "mem_read fd n w =
     (case mw_pos w fd of
        None \<Rightarrow> (Ret (- 9), w)
      | Some (p, k) \<Rightarrow>
          (case mw_files w p of
             None \<Rightarrow> (Ret (- 5), w)
           | Some c \<Rightarrow> let d = take n (drop k c)
                       in (Data d, w\<lparr>mw_pos := (mw_pos w)(fd \<mapsto> (p, k + length d))\<rparr>)))"

definition mem_write :: "int \<Rightarrow> string \<Rightarrow> mem_world \<Rightarrow> sysres \<times> mem_world" where
  "mem_write fd d w =
     (case mw_pos w fd of
        None \<Rightarrow> (Ret (int (length d)), w)
      | Some (p, k) \<Rightarrow>
          (case mw_files w p of
             None \<Rightarrow> (Ret (- 5), w)
           | Some c \<Rightarrow> (Ret (int (length d)),
               w\<lparr>mw_files := (mw_files w)(p \<mapsto> take k c @ d @ drop (k + length d) c),
                 mw_pos := (mw_pos w)(fd \<mapsto> (p, k + length d))\<rparr>)))"

fun mem_kernel :: "syscall \<Rightarrow> mem_world \<Rightarrow> sysres \<times> mem_world" where
  "mem_kernel (SysOpen p fl md) w = mem_open p fl w"
| "mem_kernel (SysRead fd n) w = mem_read fd n w"
| "mem_kernel (SysWrite fd d) w = mem_write fd d w"
| "mem_kernel (SysClose fd) w = (Ret 0, w\<lparr>mw_pos := (mw_pos w)(fd := None)\<rparr>)"
| "mem_kernel (SysAccess p md) w = (if mw_files w p = None then (Ret (- 2), w) else (Ret 0, w))"
| "mem_kernel (SysFork c) w = (Ret 100, w)"
| "mem_kernel (SysWait pid) w = (Nums pid [0], w)"
| "mem_kernel (SysClock clk) w = (Nums 0 [1700000000, 0], w)"
| "mem_kernel (SysAccept4 fd fl) w = (if mw_inbox w = [] then (Ret (- 11), w) else (Ret 9, w))"
| "mem_kernel (SysRecvfrom fd n fl) w =
     (case mw_inbox w of [] \<Rightarrow> (Ret 0, w) | d # ds \<Rightarrow> (Data d, w\<lparr>mw_inbox := ds\<rparr>))"
| "mem_kernel (SysSendto fd d fl dest) w = (Ret (int (length d)), w\<lparr>mw_sent := mw_sent w @ [d]\<rparr>)"
| "mem_kernel (SysGetdents fd n) w = (Names (mw_dirs w), w\<lparr>mw_dirs := []\<rparr>)"
| "mem_kernel (SysSelect n fds tv) w = (if mw_inbox w = [] then (Nums 0 [], w) else (Nums 1 fds, w))"
| "mem_kernel c w = (Ret 0, w)"

definition mem_defaults :: config_defaults where
  "mem_defaults =
     \<lparr>CONFIG_POLLING_INTERVAL = 5, CONFIG_REFRESH_INTERVAL = 1 / 2, CONFIG_DEV_ENABLE = 0,
      CONFIG_AFFINITY_LEVEL = 0, CONFIG_AFFINITY_MASK = ''none'', CONFIG_AFFINITY_FREQ_MASK = ''none'',
      CONFIG_LOAD_THRESHOLD = 30, CONFIG_DETECTION_LEVEL = 1, CONFIG_EBPF_ENABLE = 0,
      CONFIG_DEBUG_ENABLE = 0, CONFIG_FALLBACK_PROFILE = ''frequency'', CONFIG_SERVER_ENABLED = 0,
      CONFIG_SERVER_ADDRESS = ''127.0.0.1'', CONFIG_SERVER_PORT = 8080, CONFIG_SERVER_SSH = ''false''\<rparr>"

definition mem_env :: "mem_world env" where
  "mem_env =
     \<lparr>kernel = mem_kernel, xui_symbols = [], garbage = ''?'',
      CONFIG_PATH = ''/etc/x3d-toggle.d/daemon.conf'', TOTAL_CORES = 4, CCD1_START = 2,
      ccd_result = Some (''0-1'', 2, 4), defaults = mem_defaults\<rparr>"

definition zero_cfg :: DaemonConfig where
  "zero_cfg = 
    \<lparr>polling_interval = 0, refresh_interval = 0, dev_enable = 0, affinity_level = 0, affinity_mask =
     [], affinity_freq_mask = [], load_threshold = 0, detection_level = 0, ebpf_enable = 0,
     debug_enable = 0, daemon_state = [], fallback_profile = [], server_enabled = 0, server_address =
     [], server_port = 0, server_ssh = [], sched_bore = 0, sched_bit_shift = 0, sched_burst_fork = 0,
     sched_slice_us = 0, vm_max_map = 0, split_lock_detect = 0, nmi_watchdog = 0, thp_mode = [],
     net_qdisc = [], net_fastopen = 0, net_rp_filter = 0, net_source_route = 0, irq_enable = 0, irq_gpu
     = 0, irq_nvme = 0, irq_usb = 0, irq_nic = 0, irq_audio = 0, irq_coalesce = 0, irq_watch = 0,
     advanced_config_enable = 0, force_unsupported_display = 0, lint_clang_diagnostic = [],
     lint_clang_bugprone = [], lint_clang_modernize = [], lint_clang_readability = [],
     lint_clang_performance = [], lint_clang_portability = [], lint_clang_analyzer = [],
     lint_cppcheck_all = [], lint_cppcheck_warning = [], lint_cppcheck_style = [],
     lint_cppcheck_performance = [], lint_cppcheck_portability = [], lint_cppcheck_information = [],
     lint_cppcheck_unused = [], lint_valgrind_mode = [], lint_valgrind_kinds = [],
     lint_valgrind_origins = [], journal_keep = 0, journal_max_mb = 0, capabilities = 0\<rparr>"

definition zero_stats :: CPUStats where
  "zero_stats = \<lparr>cs_user = 0, cs_nice = 0, cs_system = 0, cs_idle = 0, cs_iowait = 0, cs_irq = 0, cs_softirq = 0\<rparr>"

text \<open>The variables as the loader leaves them: static storage is zero.\<close>

definition initial_prog :: "'w \<Rightarrow> 'w prog" where
  "initial_prog w =
     \<lparr>world = w, trace = [], errno = 0, environ = [], cfg = zero_cfg, gl = [], bpf_active = False,
      wrapper_lock = 0, active_override = 0, active_keep = True, last_sig = 0, reload_flag = False,
      failsafe_active = False, sig_installed = False, x3d_path_cache = [], last_target = [],
      buffer_deferred = [], buffer_active = False, syslog_fd = - 1, log_path = [], warned_group = False,
      active_games = 0, bpf_obj = 0, bpf_link_exec = 0, bpf_link_exit = 0, bpf_rb = 0, cur_mode = [],
      target_mode = [], p_stat = zero_stats, c_stat = zero_stats, exited = None\<rparr>"

definition mem_start :: "(path \<Rightarrow> string option) \<Rightarrow> string list \<Rightarrow> mem_world prog" where
  "mem_start files inbox =
     initial_prog \<lparr>mw_files = files, mw_pos = Map.empty, mw_next = 0, mw_inbox = inbox, mw_sent = [], mw_dirs = []\<rparr>"

lemma mem_env_simps [simp]:
  "kernel mem_env = mem_kernel" "xui_symbols mem_env = []" "CONFIG_PATH mem_env = ''/etc/x3d-toggle.d/daemon.conf''"
  "TOTAL_CORES mem_env = 4" "CCD1_START mem_env = 2" "ccd_result mem_env = Some (''0-1'', 2, 4)"
  "garbage mem_env = ''?''" "defaults mem_env = mem_defaults"
  by (simp_all add: mem_env_def)

lemma mem_start_simps [simp]:
  "mw_files (world (mem_start files inbox)) = files" "mw_inbox (world (mem_start files inbox)) = inbox"
  "cfg (mem_start files inbox) = zero_cfg" "exited (mem_start files inbox) = None"
  "active_override (mem_start files inbox) = 0" "wrapper_lock (mem_start files inbox) = 0"
  "gl (mem_start files inbox) = []" "active_keep (mem_start files inbox)" "x3d_path_cache (mem_start files inbox) = []"
  by (simp_all add: mem_start_def initial_prog_def)

lemma mem_file_kernel: "file_kernel mem_env mw_files mw_pos"
  unfolding file_kernel_def
proof (intro conjI)
  show "opens_files mem_env mw_files mw_pos"
    unfolding opens_files_def
  proof (intro allI impI)
    fix w :: mem_world and p fl md c
    assume "mw_files w p = Some c" "fl \<in> plain_flags \<union> trunc_flags"
    then show "\<exists>fd w'. kernel mem_env (SysOpen p fl md) w = (Ret fd, w') \<and> 0 \<le> fd \<and> fd < 2 ^ 31 \<and>
        mw_pos w' = (mw_pos w)(fd \<mapsto> (p, 0)) \<and>
        mw_files w' = (if fl \<in> trunc_flags then (mw_files w)(p \<mapsto> []) else mw_files w)"
      using pos_mod_bound [of "2 ^ 30" "mw_next w"]
      by (auto simp: mem_open_def Let_def plain_flags_def trunc_flags_def libc_consts map_upd_triv)
  qed
  show "misses_files mem_env mw_files mw_pos"
    by (auto simp: misses_files_def mem_open_def libc_consts)
  show "reads_files mem_env mw_files mw_pos"
    by (auto simp: reads_files_def mem_read_def Let_def)
  show "writes_files mem_env mw_files mw_pos"
    by (auto simp: writes_files_def mem_write_def)
  show "closes_files mem_env mw_files mw_pos"
    by (auto simp: closes_files_def)
  show "probes_files mem_env mw_files mw_pos"
    by (simp add: probes_files_def)
qed

subsection \<open>Witness for the journal\<close>

theorem deferred_warnings_bounded_witness:
  "buffer_deferred (exec (do { buffer_set; forM [(ERR_HW, [AInt 3])] (\<lambda>w. journal_warn mem_env (fst w) (snd w)) })
     (mem_start Map.empty [])) = take 4095 (warn_text mem_env (ERR_HW, [AInt 3]))"
  using deferred_warnings_bounded [of "[(ERR_HW, [AInt 3])]" mem_env "mem_start Map.empty []"]
  by (simp add: ERR_HW_def)

end
