(* ===== verification/Games.thy ===== *)
theory Games
  imports Kernel_Files
begin

section \<open>The list of games (src/games.c)\<close>

text \<open>
  The daemon keeps the names of known games, loaded from \<^verbatim>\<open>games.conf\<close>; \<^verbatim>\<open>game_add\<close> and \<^verbatim>\<open>game_remove\<close> edit
  the sections \<^verbatim>\<open>[GAMES_SYS]\<close> and \<^verbatim>\<open>[GAMES_USR]\<close> of the daemon's configuration. The line
  scanners are pure functions on the text that was read; the operations wrap them in the calls the code makes.
  Allocation does not fail here. The row array of \<^verbatim>\<open>game_add\<close> is a list without a bound; \<open>add_rows\<close> and
  \<open>add_cap\<close> say how many rows the code writes and how many it has.
\<close>

definition GAMES_SYS :: string where "GAMES_SYS = ''/etc/x3d-toggle.d/games.conf''"
definition GAMES_MAX :: nat where "GAMES_MAX = 512"
definition GAME_NAME :: nat where "GAME_NAME = 64"

definition has :: "string \<Rightarrow> string \<Rightarrow> bool" where
  "has h n \<longleftrightarrow> strstr h n \<noteq> None"

subsection \<open>Trimming\<close>

definition trim_ws_inplace :: "string \<Rightarrow> string" where
  "trim_ws_inplace s = rev (dropWhile isspace (rev (dropWhile isspace s)))"

definition trim_line_end :: "string \<Rightarrow> string" where
  "trim_line_end s = rev (dropWhile (\<lambda>c. c = NL \<or> c = CR \<or> c = CHR '' '' \<or> c = TAB) (rev s))"

definition strip_crlf :: "string \<Rightarrow> string" where
  "strip_crlf s = rev (dropWhile (\<lambda>c. c = NL \<or> c = CR) (rev s))"

subsection \<open>Loading\<close>

text \<open>The body of the loop of \<^verbatim>\<open>games_load\<close>: the section flag and the names so far.\<close>

definition games_line :: "string \<Rightarrow> bool \<times> gamelist \<Rightarrow> bool \<times> gamelist" where
  "games_line line a =
     (let (game_section, names) = a in
      if take 1 line = ''['' then
        (has line ''[GAMES_SYS]'' \<or> has line ''[GAMES_USR]'', names)
      else if \<not> game_section then a
      else
        let p = dropWhile is_blank (trim_line_end line) in
        if p = [] \<or> take 1 p = ''#'' \<or> length p < 2 then a
        else if (\<exists>n \<in> set names. strcmp n p = 0) then a
        else (game_section, names @ [take (GAME_NAME - 1) p]))"

definition games_parse :: "string \<Rightarrow> gamelist" where
  "games_parse buf = snd (while_lines (\<lambda>a. length (snd a) < GAMES_MAX) games_line buf (False, []))"

definition games_load :: "'w env \<Rightarrow> ('w, int) m" where
  "games_load E = do {
     modify (\<lambda>s. s\<lparr>gl := []\<rparr>);
     fd \<leftarrow> c_open E GAMES_SYS O_RDONLY 0;
     if fd < 0 then ret 0
     else do {
       nd \<leftarrow> c_read E fd 8191;
       if fst nd \<le> 0 then do { c_close E fd; ret 0 }
       else do {
         c_close E fd;
         let names = games_parse (cstr (snd nd));
         modify (\<lambda>s. s\<lparr>gl := names\<rparr>);
         ret (int (length names))
       }
     }
   }"

definition games_match :: "gamelist \<Rightarrow> string \<Rightarrow> bool" where
  "games_match names comm \<longleftrightarrow>
     comm \<noteq> [] \<and> (\<exists>n \<in> set names. n \<noteq> [] \<and> has comm n)"

subsection \<open>Editing\<close>

record game_scan =
  gs_rows :: "string list"
  gs_section :: nat
  gs_usr :: bool
  gs_sys :: bool
  gs_usr_idx :: int

definition gs_init :: game_scan where
  "gs_init = \<lparr>gs_rows = [], gs_section = 0, gs_usr = False, gs_sys = False, gs_usr_idx = - 1\<rparr>"

text \<open>
  One line of the scan that both editors make; \<open>clean\<close> is what they compare with the name. Only \<^verbatim>\<open>game_add\<close>
  keeps the index of the user section.
\<close>

definition scan_line :: "(string \<Rightarrow> string) \<Rightarrow> string \<Rightarrow> string \<Rightarrow> game_scan \<Rightarrow> game_scan" where
  "scan_line clean game line a =
     (let a' = a\<lparr>gs_rows := gs_rows a @ [fit 256 (line @ [NL])]\<rparr> in
      if take 1 line = ''['' then
        (if has line ''[GAMES_SYS]'' then a'\<lparr>gs_section := 1\<rparr>
         else if has line ''[GAMES_USR]'' then a'\<lparr>gs_section := 2, gs_usr_idx := int (length (gs_rows a))\<rparr>
         else a'\<lparr>gs_section := 0\<rparr>)
      else
        let c = clean (fit 256 line) in
        a'\<lparr>gs_sys := gs_sys a \<or> (gs_section a = 1 \<and> strcmp c game = 0),
           gs_usr := gs_usr a \<or> (gs_section a = 2 \<and> strcmp c game = 0)\<rparr>)"

definition game_scan_text :: "(string \<Rightarrow> string) \<Rightarrow> string \<Rightarrow> string \<Rightarrow> game_scan" where
  "game_scan_text clean game buf =
     while_lines (\<lambda>a. length (gs_rows a) < 1024) (scan_line clean game) buf gs_init"

text \<open>
  The rows after the insertion: a new section at the end, or the name right after the header of the
  user section, with the rows behind it moved down one by one.
\<close>

definition add_insert :: "string \<Rightarrow> game_scan \<Rightarrow> string list" where
  "add_insert game a =
     (if gs_usr_idx a = - 1 then gs_rows a @ [fit 256 ([NL] @ ''[GAMES_USR]'' @ [NL] @ game @ [NL])]
      else let i = Suc (nat (gs_usr_idx a))
           in take i (gs_rows a) @ [fit 256 (game @ [NL])] @ map (fit 256) (drop i (gs_rows a)))"

definition add_cap :: nat where "add_cap = 64"

definition add_rows :: "string \<Rightarrow> string \<Rightarrow> nat" where
  "add_rows game buf = length (gs_rows (game_scan_text trim_ws_inplace game buf))"

definition read_config :: "'w env \<Rightarrow> nat \<Rightarrow> ('w, string) m" where
  "read_config E n = do {
     fd \<leftarrow> c_open E (CONFIG_PATH E) O_RDONLY 0;
     if fd \<ge> 0 then do {
       nd \<leftarrow> c_read E fd n;
       c_close E fd;
       ret (if fst nd > 0 then cstr (snd nd) else [])
     } else ret []
   }"

definition write_rows :: "'w env \<Rightarrow> string list \<Rightarrow> ('w, unit) m" where
  "write_rows E rows = do {
     fd \<leftarrow> c_open E (CONFIG_PATH E) (O_WRONLY + O_CREAT + O_TRUNC) 436;
     if fd \<ge> 0 then do { forM rows (\<lambda>r. do { c_write E fd r; ret () }); c_close E fd; ret () } else ret ()
   }"

definition game_add :: "'w env \<Rightarrow> string option \<Rightarrow> ('w, int) m" where
  "game_add E gm =
     (case gm of
        None \<Rightarrow> ret ERR_SYNTAX
      | Some game \<Rightarrow> do {
          buf \<leftarrow> read_config E 16383;
          let a = game_scan_text trim_ws_inplace game buf;
          if gs_sys a \<or> gs_usr a then do {
            journal_info E GAME_ADDED [AStr game, AStr (CONFIG_PATH E)];
            ret ERR_SUCCESS
          }
          else if length (gs_rows a) \<ge> 1024 then ret ERR_MEM
          else do {
            write_rows E (add_insert game a);
            journal_info E GAME_ADDED [AStr game, AStr (CONFIG_PATH E)];
            ret ERR_SUCCESS
          }
        })"

fun remove_rows :: "string \<Rightarrow> bool \<Rightarrow> string list \<Rightarrow> string list" where
  "remove_rows game in_usr [] = []"
| "remove_rows game in_usr (r # rs) =
     (let in_usr' = (if has r ''[GAMES_USR]'' then True else if take 1 r = ''['' then False else in_usr)
      in if in_usr' \<and> strcmp (strip_crlf (fit 256 r)) game = 0 then remove_rows game in_usr' rs
         else fit 256 r # remove_rows game in_usr' rs)"

definition game_remove :: "'w env \<Rightarrow> string option \<Rightarrow> ('w, int) m" where
  "game_remove E gm =
     (case gm of
        None \<Rightarrow> ret ERR_SYNTAX
      | Some game \<Rightarrow> do {
          buf \<leftarrow> read_config E 16383;
          let a = game_scan_text (\<lambda>c. c) game buf;
          if gs_sys a then do {
            journal_warn E ERR_REMOVE [AStr game];
            printf_string ''Error: Cannot remove system-provided game defaults.'' [];
            ret ERR_REMOVE
          }
          else if \<not> gs_usr a then do { journal_warn E ERR_REMOVE [AStr game]; ret ERR_REMOVE }
          else do {
            write_rows E (remove_rows game False (gs_rows a));
            journal_info E GAME_REMOVED [AStr game, AStr (CONFIG_PATH E)];
            ret ERR_SUCCESS
          }
        })"

definition game_action :: "'w env \<Rightarrow> string list \<Rightarrow> ('w, int) m" where
  "game_action E argv =
     (if length argv < 3 then do { journal_error E ERR_SYNTAX [if length argv < 2 then ANull else AStr (argv ! 1)]; ret ERR_SYNTAX }
      else if strcmp (argv ! 1) ''game-add'' = 0 then game_add E (Some (argv ! 2))
      else game_remove E (Some (argv ! 2)))"

subsection \<open>What loading guarantees\<close>

lemma has_sublist: "has h n \<longleftrightarrow> sublist n h"
  by (simp add: has_def strstr_None)

text \<open>
  A name in the list fits its 64-byte slot, is at least two characters long, is one line and is not a
  comment.
\<close>

definition name_ok :: "string \<Rightarrow> bool" where
  "name_ok n \<longleftrightarrow> 2 \<le> length n \<and> length n < GAME_NAME \<and> cstring n \<and> NL \<notin> set n \<and>
     hd n \<noteq> CHR ''#'' \<and> \<not> is_blank (hd n)"

text \<open>Names that were not cut to their slot are not repeated.\<close>

definition games_ok :: "gamelist \<Rightarrow> bool" where
  "games_ok names \<longleftrightarrow> length names \<le> GAMES_MAX \<and> (\<forall>n \<in> set names. name_ok n) \<and>
     distinct (filter (\<lambda>n. length n < GAME_NAME - 1) names)"

lemma set_trim_line_end: "set (trim_line_end s) \<subseteq> set s"
  by (auto simp: trim_line_end_def dest: set_dropWhileD)

lemma hd_take: "0 < n \<Longrightarrow> hd (take n xs) = hd xs"
  by (cases xs; cases n) auto

lemma name_ok_take:
  assumes "cstring line" "NL \<notin> set line" "p = dropWhile is_blank (trim_line_end line)"
    "2 \<le> length p" "take 1 p \<noteq> ''#''"
  shows "name_ok (take 63 p)" "cstring p"
proof -
  have sub: "set p \<subseteq> set line"
    using assms(3) set_trim_line_end [of line] by (auto dest: set_dropWhileD)
  obtain c q where p: "p = c # q" using assms(4) by (cases p) auto
  then have "\<not> is_blank c" using assms(3) by (metis hd_dropWhile list.distinct(1) list.sel(1))
  moreover have "set (take 63 p) \<subseteq> set line" using sub set_take_subset [of 63 p] by blast
  moreover have "hd p = c" "c \<noteq> CHR ''#''" using p assms(5) by auto
  ultimately show "name_ok (take 63 p)"
    using assms(1,2,4) by (auto simp: name_ok_def GAME_NAME_def cstring_def hd_take)
  show "cstring p" using assms(1) sub by (auto simp: cstring_def)
qed

lemma games_line_ok:
  assumes "cstring line" "NL \<notin> set line" "games_ok (snd a)" "length (snd a) < GAMES_MAX"
  shows "games_ok (snd (games_line line a))"
proof -
  obtain sec names where a: "a = (sec, names)" by fastforce
  define p where "p = dropWhile is_blank (trim_line_end line)"
  show ?thesis
  proof (cases "snd (games_line line a) = names")
    case False
    then have new: "2 \<le> length p" "take 1 p \<noteq> ''#''" "\<not> (\<exists>n \<in> set names. strcmp n p = 0)"
      "snd (games_line line a) = names @ [take 63 p]"
      by (auto simp: games_line_def a p_def GAME_NAME_def Let_def split: if_splits)
    have ok: "name_ok (take 63 p)" "cstring p"
      using name_ok_take [OF assms(1,2) p_def new(1,2)] by auto
    have names: "\<forall>n \<in> set names. name_ok n" using assms(3) by (simp add: a games_ok_def)
    then have "\<forall>n \<in> set names. n \<noteq> p" using new(3) ok(2) by (auto simp: name_ok_def)
    then have "length (take 63 p) < 63 \<longrightarrow> take 63 p \<notin> set names" by (auto simp: min_def split: if_splits)
    then show ?thesis
      using assms(3,4) new(4) ok(1) names by (auto simp: games_ok_def a GAME_NAME_def GAMES_MAX_def)
  qed (use assms(3) a in simp)
qed

lemma games_parse_ok: "cstring buf \<Longrightarrow> games_ok (games_parse buf)"
  unfolding games_parse_def
proof (rule while_lines_inv [where I = "\<lambda>a. games_ok (snd a)"])
  show "games_ok (snd (False, []))" by (simp add: games_ok_def)
qed (auto intro!: games_line_ok dest: c_lines_NL_free c_lines_cstring)

subsection \<open>Editing the rows\<close>

abbreviation row :: "string \<Rightarrow> string" where "row l \<equiv> l @ [NL]"

definition short_lines :: "string list \<Rightarrow> bool" where
  "short_lines ls \<longleftrightarrow> (\<forall>l \<in> set ls. length l < 255 \<and> cstring l \<and> NL \<notin> set l)"

lemma scan_line_rows: "length l < 255 \<Longrightarrow> gs_rows (scan_line clean game l a) = gs_rows a @ [row l]"
  by (simp add: scan_line_def Let_def)

lemma scan_rows:
  "short_lines ls \<Longrightarrow> gs_rows (fold (scan_line clean game) ls a) = gs_rows a @ map row ls"
  by (induction ls arbitrary: a) (auto simp: short_lines_def scan_line_rows)

lemma scan_guard:
  "short_lines ls \<Longrightarrow> length (gs_rows a) + length ls \<le> 1024 \<Longrightarrow>
   fold_while (\<lambda>a. length (gs_rows a) < 1024) (scan_line clean game) ls a = fold (scan_line clean game) ls a"
  by (induction ls arbitrary: a) (auto simp: short_lines_def scan_line_rows)

lemma game_scan_lines:
  assumes "short_lines ls" "length ls \<le> 1024"
  shows "game_scan_text clean game (unlines ls) = fold (scan_line clean game) ls gs_init"
proof -
  have "c_lines (unlines ls) = ls" using assms(1) by (intro c_lines_unlines) (auto simp: short_lines_def)
  then show ?thesis
    using scan_guard [OF assms(1), of gs_init] assms(2) by (simp add: game_scan_text_def while_lines_fold gs_init_def)
qed

definition usr_header :: "string \<Rightarrow> bool" where
  "usr_header l \<longleftrightarrow> take 1 l = ''['' \<and> has l ''[GAMES_USR]'' \<and> \<not> has l ''[GAMES_SYS]''"

lemma scan_found:
  assumes "short_lines ls" "\<forall>l \<in> set ls. clean l \<noteq> game" "cstring game" "\<forall>l. cstring l \<longrightarrow> cstring (clean l)"
  shows "gs_sys (fold (scan_line clean game) ls a) = gs_sys a"
    "gs_usr (fold (scan_line clean game) ls a) = gs_usr a"
  using assms by (induction ls arbitrary: a) (auto simp: short_lines_def scan_line_def Let_def)

lemma scan_idx:
  assumes "short_lines ls" "\<forall>l \<in> set ls. \<not> usr_header l"
  shows "gs_usr_idx (fold (scan_line clean game) ls a) = gs_usr_idx a"
  using assms by (induction ls arbitrary: a) (auto simp: short_lines_def scan_line_def usr_header_def Let_def)

lemma scan_header:
  "usr_header h \<Longrightarrow> scan_line clean game h a =
     a\<lparr>gs_rows := gs_rows a @ [fit 256 (row h)], gs_section := 2, gs_usr_idx := int (length (gs_rows a))\<rparr>"
  by (simp add: scan_line_def usr_header_def Let_def)

lemma unlines_concat: "concat (map row ls) = unlines ls"
  by (simp add: unlines_def)

lemma add_insert_lines:
  assumes "short_lines (pre @ [h] @ post)" "usr_header h" "\<forall>l \<in> set post. \<not> usr_header l" "length game < 255"
  shows "add_insert game (fold (scan_line clean game) (pre @ [h] @ post) gs_init) =
    map row (pre @ [h, game] @ post)"
proof -
  let ?a = "fold (scan_line clean game) (pre @ [h] @ post) gs_init"
  have rows: "gs_rows ?a = map row (pre @ [h] @ post)"
    using scan_rows [OF assms(1)] by (simp add: gs_init_def)
  have pre: "short_lines pre" "short_lines post" using assms(1) by (auto simp: short_lines_def)
  have idx: "gs_usr_idx ?a = int (length pre)"
    using scan_idx [OF pre(2) assms(3)] scan_rows [OF pre(1)] by (simp add: scan_header [OF assms(2)] gs_init_def)
  have "map (fit 256) (map row post) = map row post"
    using pre(2) by (auto simp: short_lines_def)
  then show ?thesis
    using assms(4) unfolding add_insert_def idx rows by (simp add: Let_def)
qed

lemma strip_row: "NL \<notin> set l \<Longrightarrow> last l \<noteq> CR \<or> l = [] \<Longrightarrow> strip_crlf (row l) = l"
  by (cases l rule: rev_cases) (auto simp: strip_crlf_def)

lemma strip_crlf_suffix: "\<exists>e. row l = strip_crlf (row l) @ e"
  unfolding strip_crlf_def
  by (metis (no_types, lifting) rev_append rev_rev_ident takeWhile_dropWhile_id)

lemma remove_rows_keeps:
  "short_lines ls \<Longrightarrow> \<forall>l \<in> set ls. strip_crlf (row l) \<noteq> game \<Longrightarrow> cstring game \<Longrightarrow>
   remove_rows game b (map row ls) = map row ls"
proof (induction ls arbitrary: b)
  case (Cons l ls)
  have "cstring (strip_crlf (row l))"
    using Cons.prems(1) by (auto simp: strip_crlf_def short_lines_def cstring_def dest: set_dropWhileD)
  with Cons show ?case by (auto simp: short_lines_def Let_def)
qed simp

text \<open>A name that can stand in the list: one line, no blanks around it, not a section header.\<close>

definition entry_ok :: "string \<Rightarrow> bool" where
  "entry_ok g \<longleftrightarrow> length g < 255 \<and> cstring g \<and> NL \<notin> set g \<and> g \<noteq> [] \<and>
     \<not> isspace (hd g) \<and> \<not> isspace (last g) \<and> hd g \<noteq> CHR ''['' \<and> \<not> has g ''[GAMES_USR]''"

lemma entry_ok_trim: "entry_ok g \<Longrightarrow> trim_ws_inplace g = g \<and> strip_crlf (row g) = g"
proof -
  assume g: "entry_ok g"
  then obtain c cs where cs: "g = c # cs" by (cases g) (auto simp: entry_ok_def)
  from g obtain ds d where ds: "g = ds @ [d]" by (cases g rule: rev_cases) (auto simp: entry_ok_def)
  have "dropWhile isspace g = g" using g cs by (auto simp: entry_ok_def)
  moreover have "dropWhile isspace (rev g) = rev g" using g ds by (auto simp: entry_ok_def)
  moreover have "strip_crlf (row g) = g"
    using g ds by (intro strip_row) (auto simp: entry_ok_def isspace_def)
  ultimately show ?thesis by (simp add: trim_ws_inplace_def)
qed

lemma has_row: "NL \<notin> set n \<Longrightarrow> n \<noteq> [] \<Longrightarrow> has (row l) n \<longleftrightarrow> has l n"
proof -
  assume "NL \<notin> set n" "n \<noteq> []"
  then have "\<not> suffix n (row l)" using snoc_suffix_snoc by (metis in_set_conv_decomp last_snoc suffix_def append_butlast_last_id last_appendR)
  then show ?thesis by (simp add: has_sublist sublist_snoc del: suffix_snoc)
qed

lemma strip_crlf_trim:
  assumes "entry_ok g" "NL \<notin> set l" "strip_crlf (row l) = g"
  shows "trim_ws_inplace l = g"
proof -
  define e where "e = rev (takeWhile (\<lambda>c. c = NL \<or> c = CR) (rev (row l)))"
  have split: "row l = g @ e"
    unfolding e_def assms(3) [symmetric] strip_crlf_def
    by (metis rev_append rev_rev_ident takeWhile_dropWhile_id)
  have e: "\<forall>c \<in> set e. c = NL \<or> c = CR" unfolding e_def by (auto dest: set_takeWhileD)
  have "e \<noteq> []" using assms(1) split by (auto simp: entry_ok_def)
  then obtain e' where e': "e = e' @ [NL]" using split by (metis append_butlast_last_id last_appendR last_snoc)
  then have l: "l = g @ e'" using split by simp
  then have sp: "\<forall>c \<in> set e'. isspace c" using e e' by (auto simp: isspace_def)
  obtain c cs where cs: "g = c # cs" using assms(1) by (cases g) (auto simp: entry_ok_def)
  obtain ds d where ds: "g = ds @ [d]" using assms(1) by (cases g rule: rev_cases) (auto simp: entry_ok_def)
  have 1: "dropWhile isspace (g @ e') = g @ e'" using assms(1) cs by (simp add: entry_ok_def)
  have 2: "dropWhile isspace (rev e' @ rev g) = rev g"
    using sp assms(1) ds by (subst dropWhile_append2) (auto simp: entry_ok_def)
  show ?thesis by (simp add: trim_ws_inplace_def l 1 2)
qed

lemma remove_rows_prefix:
  assumes "short_lines pre" "\<forall>l \<in> set pre. strip_crlf (row l) \<noteq> game" "cstring game"
  shows "\<exists>b'. remove_rows game b (map row pre @ rest) = map row pre @ remove_rows game b' rest"
  using assms
proof (induction pre arbitrary: b)
  case (Cons l pre)
  have "cstring (strip_crlf (row l))"
    using Cons.prems(1) by (auto simp: strip_crlf_def short_lines_def cstring_def dest: set_dropWhileD)
  with Cons show ?case by (auto simp: short_lines_def Let_def)
qed auto

text \<open>A configuration with a user section in which \<open>g\<close> is not listed.\<close>

definition addable :: "string \<Rightarrow> string list \<Rightarrow> string \<Rightarrow> string list \<Rightarrow> bool" where
  "addable g pre h post \<longleftrightarrow>
     short_lines (pre @ [h] @ post) \<and> length (pre @ post) < 1022 \<and>
     length (unlines (pre @ [h] @ post)) + length g < 16383 \<and> usr_header h \<and> entry_ok g \<and>
     (\<forall>l \<in> set post. \<not> usr_header l) \<and> (\<forall>l \<in> set (pre @ [h] @ post). trim_ws_inplace l \<noteq> g)"

lemma addableD:
  assumes "addable g pre h post"
  shows "short_lines (pre @ [h] @ post)" "short_lines (pre @ [h, g] @ post)" "usr_header h" "entry_ok g"
    "\<forall>l \<in> set post. \<not> usr_header l" "\<forall>l \<in> set (pre @ [h] @ post). trim_ws_inplace l \<noteq> g"
    "\<forall>l \<in> set (pre @ [h] @ post). strip_crlf (row l) \<noteq> g" "\<forall>l \<in> set (pre @ [h] @ post). l \<noteq> g"
    "cstring g" "length g < 255"
  using assms entry_ok_trim [of g] strip_crlf_trim [of g]
  by (auto simp: addable_def short_lines_def entry_ok_def)

lemma remove_inserted:
  assumes "addable g pre h post"
  shows "remove_rows g False (map row (pre @ [h, g] @ post)) = map row (pre @ [h] @ post)"
proof -
  note D = addableD [OF assms]
  have sp: "short_lines pre" "short_lines [h]" "short_lines post" using D(1) by (auto simp: short_lines_def)
  obtain b where pre: "remove_rows g False (map row pre @ map row ([h, g] @ post)) =
      map row pre @ remove_rows g b (map row ([h, g] @ post))"
    using remove_rows_prefix [OF sp(1), of g False "map row ([h, g] @ post)"] D(7,9)
    by (auto simp del: remove_rows.simps)
  have h: "remove_rows g b (map row ([h, g] @ post)) = row h # remove_rows g True (map row (g # post))"
  proof -
    have "has (row h) ''[GAMES_USR]''" using D(3) by (subst has_row) (auto simp: usr_header_def)
    moreover have "cstring (strip_crlf (row h))"
      using sp(2) by (auto simp: strip_crlf_def short_lines_def cstring_def dest: set_dropWhileD)
    ultimately show ?thesis using D(7,9) sp(2) by (auto simp: short_lines_def Let_def)
  qed
  have g: "remove_rows g True (map row (g # post)) = remove_rows g True (map row post)"
  proof -
    have "\<not> has (row g) ''[GAMES_USR]''" using D(4) by (subst has_row) (auto simp: entry_ok_def)
    moreover have "take 1 (row g) \<noteq> ''[''" using D(4) by (cases g) (auto simp: entry_ok_def)
    moreover have "strcmp (strip_crlf (fit 256 (row g))) g = 0"
      using entry_ok_trim [OF D(4)] D(9,10) by simp
    ultimately show ?thesis by (simp add: Let_def)
  qed
  show ?thesis using pre h g remove_rows_keeps [OF sp(3), of g True] D(7,9) by simp
qed

lemma scan_after_add:
  assumes "addable g pre h post"
  shows "gs_usr (fold (scan_line (\<lambda>c. c) g) (pre @ [h, g] @ post) gs_init)"
    "\<not> gs_sys (fold (scan_line (\<lambda>c. c) g) (pre @ [h, g] @ post) gs_init)"
proof -
  note D = addableD [OF assms]
  have sp: "short_lines pre" "short_lines post" using D(1) by (auto simp: short_lines_def)
  let ?f = "scan_line (\<lambda>c. c) g"
  let ?h = "?f h (fold ?f pre gs_init)"
  have "\<not> gs_sys ?h" "gs_section ?h = 2"
    using scan_found(1) [OF sp(1), of "\<lambda>c. c" g gs_init] D(8,9) by (auto simp: scan_header [OF D(3)] gs_init_def)
  moreover have "take 1 g \<noteq> ''[''" using D(4) by (cases g) (auto simp: entry_ok_def)
  ultimately have "gs_usr (?f g ?h)" "\<not> gs_sys (?f g ?h)"
    using D(9,10) unfolding scan_line_def [of _ _ g ?h] by (simp_all add: Let_def)
  then show "gs_usr (fold ?f (pre @ [h, g] @ post) gs_init)" "\<not> gs_sys (fold ?f (pre @ [h, g] @ post) gs_init)"
    using scan_found [OF sp(2), of "\<lambda>c. c" g "?f g ?h"] D(8,9) by auto
qed

subsection \<open>The operations on files\<close>

lemma unlines_cstring: "short_lines ls \<Longrightarrow> cstring (unlines ls)"
  by (induction ls) (auto simp: short_lines_def cstr_simps)

lemma hoare_read_config:
  assumes "file_kernel E fs pos" "F (CONFIG_PATH E) = Some body" "cstring body" "length body \<le> n"
  shows "hoare (contents fs F V) (read_config E n) (\<lambda>t s. t = body \<and> contents fs F V s)"
  unfolding read_config_def
  by (rule hoare_slurp [where p = "CONFIG_PATH E" and c = body and F = F, OF assms(1,2)]) (use assms(3,4) in \<open>auto simp: hoare_def\<close>)

lemma hoare_write_rows:
  assumes "file_kernel E fs pos" "F (CONFIG_PATH E) = Some c0"
  shows "hoare (contents fs F V) (write_rows E rows) (\<lambda>_. contents fs (F(CONFIG_PATH E \<mapsto> concat rows)) V)"
  unfolding write_rows_def
  by (rule hoare_spew [where F = F and p = "CONFIG_PATH E", OF assms]) (simp add: trunc_flags_def)

lemma plain_game_codes: "\<bar>GAME_ADDED\<bar> \<noteq> 38" "\<bar>GAME_REMOVED\<bar> \<noteq> 38"
  by (simp_all add: err_codes)

lemma hoare_game_add:
  assumes "file_kernel E fs pos" "F (CONFIG_PATH E) = Some (unlines (pre @ [h] @ post))" "addable g pre h post"
  shows "hoare (contents fs F V) (game_add E (Some g))
    (\<lambda>r s. r = ERR_SUCCESS \<and> contents fs (F(CONFIG_PATH E \<mapsto> unlines (pre @ [h, g] @ post))) V s)"
proof -
  note D = addableD [OF assms(3)]
  let ?a = "game_scan_text trim_ws_inplace g (unlines (pre @ [h] @ post))"
  have scan: "?a = fold (scan_line trim_ws_inplace g) (pre @ [h] @ post) gs_init"
    using assms(3) by (intro game_scan_lines D(1)) (simp add: addable_def)
  have tr: "cstring l \<Longrightarrow> cstring (trim_ws_inplace l)" for l
    by (auto simp: trim_ws_inplace_def cstring_def dest!: set_dropWhileD)
  have found: "\<not> gs_sys ?a" "\<not> gs_usr ?a"
    unfolding scan using scan_found [OF D(1,6,9), of gs_init] tr by (auto simp: gs_init_def)
  have rows: "length (gs_rows ?a) < 1024"
    unfolding scan scan_rows [OF D(1)] using assms(3) by (simp add: gs_init_def addable_def)
  have ins: "concat (add_insert g ?a) = unlines (pre @ [h, g] @ post)"
    unfolding scan add_insert_lines [OF D(1,3,5,10)] by (rule unlines_concat)
  have rd: "hoare (contents fs F V) (read_config E 16383) (\<lambda>t s. t = unlines (pre @ [h] @ post) \<and> contents fs F V s)"
    using assms(3) by (intro hoare_read_config [where F = F, OF assms(1,2)] unlines_cstring D(1)) (simp add: addable_def)
  show ?thesis
    unfolding game_add_def option.case
  proof (rule hoare_bind [OF rd])
    fix t
    have "hoare (contents fs F V)
        (do { write_rows E (add_insert g ?a); journal_info E GAME_ADDED as; ret ERR_SUCCESS })
        (\<lambda>r s. r = ERR_SUCCESS \<and> contents fs (F(CONFIG_PATH E \<mapsto> unlines (pre @ [h, g] @ post))) V s)" for as
      by (rule hoare_bind [OF hoare_write_rows [where F = F, OF assms(1,2)]], unfold ins,
          rule hoare_bind [OF keeps_contents_info [OF plain_game_codes(1)]], rule hoare_ret, simp)
    then show "hoare (\<lambda>s. t = unlines (pre @ [h] @ post) \<and> contents fs F V s)
        (let a = game_scan_text trim_ws_inplace g t
         in if gs_sys a \<or> gs_usr a then do {
              journal_info E GAME_ADDED [AStr g, AStr (CONFIG_PATH E)]; ret ERR_SUCCESS }
            else if length (gs_rows a) \<ge> 1024 then ret ERR_MEM
            else do { write_rows E (add_insert g a);
              journal_info E GAME_ADDED [AStr g, AStr (CONFIG_PATH E)]; ret ERR_SUCCESS })
        (\<lambda>r s. r = ERR_SUCCESS \<and> contents fs (F(CONFIG_PATH E \<mapsto> unlines (pre @ [h, g] @ post))) V s)"
      using found rows by (cases "t = unlines (pre @ [h] @ post)") (simp_all add: Let_def, simp add: hoare_def)
  qed
qed

lemma hoare_game_remove:
  assumes "file_kernel E fs pos" "F (CONFIG_PATH E) = Some (unlines (pre @ [h, g] @ post))" "addable g pre h post"
  shows "hoare (contents fs F V) (game_remove E (Some g))
    (\<lambda>r s. r = ERR_SUCCESS \<and> contents fs (F(CONFIG_PATH E \<mapsto> unlines (pre @ [h] @ post))) V s)"
proof -
  note D = addableD [OF assms(3)]
  let ?a = "game_scan_text (\<lambda>c. c) g (unlines (pre @ [h, g] @ post))"
  have scan: "?a = fold (scan_line (\<lambda>c. c) g) (pre @ [h, g] @ post) gs_init"
    using assms(3) by (intro game_scan_lines D(2)) (simp add: addable_def)
  have found: "\<not> gs_sys ?a" "gs_usr ?a"
    unfolding scan using scan_after_add [OF assms(3)] by auto
  have rem: "concat (remove_rows g False (gs_rows ?a)) = unlines (pre @ [h] @ post)"
    unfolding scan scan_rows [OF D(2)] using remove_inserted [OF assms(3)]
    by (simp add: gs_init_def unlines_concat [symmetric])
  have rd: "hoare (contents fs F V) (read_config E 16383)
      (\<lambda>t s. t = unlines (pre @ [h, g] @ post) \<and> contents fs F V s)"
    using assms(3) by (intro hoare_read_config [where F = F, OF assms(1,2)] unlines_cstring D(2)) (simp add: addable_def)
  show ?thesis
    unfolding game_remove_def option.case
  proof (rule hoare_bind [OF rd])
    fix t
    have "hoare (contents fs F V)
        (do { write_rows E (remove_rows g False (gs_rows ?a)); journal_info E GAME_REMOVED as; ret ERR_SUCCESS })
        (\<lambda>r s. r = ERR_SUCCESS \<and> contents fs (F(CONFIG_PATH E \<mapsto> unlines (pre @ [h] @ post))) V s)" for as
      by (rule hoare_bind [OF hoare_write_rows [where F = F, OF assms(1,2)]], unfold rem,
          rule hoare_bind [OF keeps_contents_info [OF plain_game_codes(2)]], rule hoare_ret, simp)
    then show "hoare (\<lambda>s. t = unlines (pre @ [h, g] @ post) \<and> contents fs F V s)
        (let a = game_scan_text (\<lambda>c. c) g t
         in if gs_sys a then do {
              journal_warn E ERR_REMOVE [AStr g];
              printf_string ''Error: Cannot remove system-provided game defaults.'' [];
              ret ERR_REMOVE }
            else if \<not> gs_usr a then do { journal_warn E ERR_REMOVE [AStr g]; ret ERR_REMOVE }
            else do { write_rows E (remove_rows g False (gs_rows a));
              journal_info E GAME_REMOVED [AStr g, AStr (CONFIG_PATH E)]; ret ERR_SUCCESS })
        (\<lambda>r s. r = ERR_SUCCESS \<and> contents fs (F(CONFIG_PATH E \<mapsto> unlines (pre @ [h] @ post))) V s)"
      using found by (cases "t = unlines (pre @ [h, g] @ post)") (simp_all add: Let_def, simp add: hoare_def)
  qed
qed

lemma games_load_frame: "gl (exec (games_load E) s) = [] \<or>
   (\<exists>d. gl (exec (games_load E) s) = games_parse (cstr d))"
  by (auto simp: games_load_def c_open_def c_read_def c_close_def run_sys_int run_sys_errno Let_def split: prod.splits)

lemma nets_games_files [nets_rules]:
  "nets 0 (games_load E)" "nets 0 (read_config E n)" "nets 0 (write_rows E rows)"
  unfolding games_load_def read_config_def write_rows_def
  by - (linarith | rule fd_rules | rule nets_rules)+

lemma nets_games [nets_rules]:
  "nets 0 (game_add E gm)" "nets 0 (game_remove E gm)" "nets 0 (game_action E argv)"
proof -
  show *: "nets 0 (game_add E gm)" "nets 0 (game_remove E gm)" for gm
    unfolding game_add_def game_remove_def by - (intro nets_rules)+
  show "nets 0 (game_action E argv)"
    unfolding game_action_def by (intro nets_rules *)
qed

lemma games_line_name:
  assumes "name_ok n" "\<not> isspace (last n)" "take 1 n \<noteq> ''[''" "n \<notin> set names" "\<forall>m \<in> set names. cstring m"
  shows "games_line n (True, names) = (True, names @ [n])"
proof -
  obtain c cs where cs: "n = c # cs" using assms(1) by (cases n) (auto simp: name_ok_def)
  obtain ds d where ds: "n = ds @ [d]" using assms(1) by (cases n rule: rev_cases) (auto simp: name_ok_def)
  have "trim_line_end n = n" using assms(2) ds by (auto simp: trim_line_end_def isspace_def)
  moreover have "dropWhile is_blank n = n" using assms(1) cs by (auto simp: name_ok_def)
  ultimately show ?thesis using assms cs by (auto simp: games_line_def name_ok_def GAME_NAME_def Let_def)
qed

lemma fold_names:
  "\<forall>n \<in> set ns. name_ok n \<and> \<not> isspace (last n) \<and> take 1 n \<noteq> ''['' \<Longrightarrow> distinct (names @ ns) \<Longrightarrow>
   \<forall>m \<in> set names. cstring m \<Longrightarrow> length names + length ns \<le> GAMES_MAX \<Longrightarrow>
   fold_while (\<lambda>a. length (snd a) < GAMES_MAX) games_line ns (True, names) = (True, names @ ns)"
proof (induction ns arbitrary: names)
  case (Cons n ns)
  have "games_line n (True, names) = (True, names @ [n])"
    using Cons.prems by (intro games_line_name) auto
  moreover have "cstring n" using Cons.prems(1) by (simp add: name_ok_def)
  ultimately show ?case using Cons.IH [of "names @ [n]"] Cons.prems by auto
qed simp

subsection \<open>Properties\<close>

text \<open>
  C24. Whatever \<^verbatim>\<open>games.conf\<close> holds, loading it leaves at most 512 names, each of which fits
  its 64-byte slot with the terminator, has at least two characters and is a single line; a name that was
  not cut is stored once.
\<close>

theorem games_load_invariant: "games_ok (gl (exec (games_load E) s))"
  using games_load_frame [of E s] games_parse_ok
  by (auto simp: games_ok_def [of "[]"])

text \<open>
  Loading is faithful: a section header followed by one well-formed name per line gives exactly
  these names in their order.
\<close>

theorem games_parse_lists_names:
  assumes "\<forall>n \<in> set ns. name_ok n \<and> \<not> isspace (last n) \<and> take 1 n \<noteq> ''[''" "distinct ns" "length ns \<le> GAMES_MAX"
    "hdr \<in> {''[GAMES_SYS]'', ''[GAMES_USR]''}"
  shows "games_parse (unlines (hdr # ns)) = ns"
proof -
  have "c_lines (unlines (hdr # ns)) = hdr # ns"
    using assms(1,4) by (intro c_lines_unlines) (auto simp: name_ok_def)
  moreover have "games_line hdr (False, []) = (True, [])"
    using assms(4) by (auto simp: games_line_def has_sublist)
  ultimately show ?thesis
    using fold_names [of ns "[]"] assms(1-3) by (simp add: games_parse_def while_lines_fold GAMES_MAX_def)
qed

theorem games_parse_lists_names_witness:
  "games_parse (unlines [''[GAMES_SYS]'', ''Cyberpunk2077.exe'', ''witcher3'']) = [''Cyberpunk2077.exe'', ''witcher3'']"
  using games_parse_lists_names [of "[''Cyberpunk2077.exe'', ''witcher3'']" "''[GAMES_SYS]''"]
  by (simp add: name_ok_def GAME_NAME_def GAMES_MAX_def isspace_def is_blank_def cstring_def)

text \<open>
  A process matches the list exactly when a non-empty name of the list occurs somewhere in the
  given command line.
\<close>

theorem games_match_iff:
  "games_match names comm \<longleftrightarrow> (\<exists>n \<in> set names. n \<noteq> [] \<and> (\<exists>pre post. comm = pre @ n @ post))"
  by (auto simp: games_match_def has_sublist sublist_def)


definition demo_conf :: "string list" where
  "demo_conf = [''DAEMON_STATE=default'', ''[GAMES_USR]'', ''factorio'']"


text \<open>
  \<^verbatim>\<open>game_add\<close> allocates 64 rows and stores every line of the configuration, up to 1024, before it
  looks at the capacity: for a configuration of more than 64 lines it writes outside its allocation.
\<close>

theorem game_add_overruns_rows:
  assumes "short_lines ls" "add_cap < length ls" "length ls \<le> 1024"
  shows "add_rows game (unlines ls) = length ls \<and> add_cap < add_rows game (unlines ls)"
  using assms by (simp add: add_rows_def game_scan_lines scan_rows gs_init_def)

theorem game_add_overruns_rows_witness:
  "add_rows ''doom'' (unlines (replicate 65 ''x'')) = 65 \<and> add_cap < add_rows ''doom'' (unlines (replicate 65 ''x''))"
  using game_add_overruns_rows [of "replicate 65 ''x''" "''doom''"]
  by (simp add: short_lines_def add_cap_def cstring_def)

end
