(* ===== verification/Config.thy ===== *)
theory Config
  imports Games
begin

section \<open>The daemon's configuration (src/daemon/config.c)\<close>

text \<open>
  The configuration is a text file of \<^verbatim>\<open>KEY=VALUE\<close> lines. \<^verbatim>\<open>config_load\<close> fills the \<^verbatim>\<open>DaemonConfig\<close> record from
  the build's defaults and the file, \<^verbatim>\<open>config_update\<close> rewrites one key in the file, \<^verbatim>\<open>config_get\<close>
  prints one value for a client. The chains of \<^verbatim>\<open>strcmp\<close> are tables that are searched from the top. The
  command line handlers of \<^verbatim>\<open>config.c\<close> are in the theory of the client.
\<close>

subsection \<open>Capabilities\<close>

definition CAP_BORE :: "64 word" where "CAP_BORE = 1"
definition CAP_THP :: "64 word" where "CAP_THP = 2"
definition CAP_SPLIT_LOCK :: "64 word" where "CAP_SPLIT_LOCK = 4"
definition CAP_NMI_WATCHDOG :: "64 word" where "CAP_NMI_WATCHDOG = 8"
definition CAP_FASTOPEN :: "64 word" where "CAP_FASTOPEN = 16"
definition CAP_QDISC :: "64 word" where "CAP_QDISC = 32"

definition capability_nodes :: "(string \<times> 64 word) list" where
  "capability_nodes =
     [(''/proc/sys/kernel/sched_bore'', CAP_BORE),
      (''/sys/kernel/mm/transparent_hugepage/enabled'', CAP_THP),
      (''/proc/sys/kernel/split_lock_mitigate'', CAP_SPLIT_LOCK),
      (''/proc/sys/kernel/nmi_watchdog'', CAP_NMI_WATCHDOG),
      (''/proc/sys/net/ipv4/tcp_fastopen'', CAP_FASTOPEN),
      (''/proc/sys/net/core/default_qdisc'', CAP_QDISC)]"

definition config_probe_capabilities :: "'w env \<Rightarrow> ('w, unit) m" where
  "config_probe_capabilities E = do {
     modify (\<lambda>s. s\<lparr>cfg := (cfg s)\<lparr>capabilities := 0\<rparr>\<rparr>);
     forM capability_nodes (\<lambda>(path, bit). do {
       r \<leftarrow> c_access E path F_OK;
       if r = 0 then modify (\<lambda>s. s\<lparr>cfg := (cfg s)\<lparr>capabilities := or (capabilities (cfg s)) bit\<rparr>\<rparr>)
       else ret ()
     })
   }"

subsection \<open>Loading\<close>

definition config_setters :: "(string \<times> (string \<Rightarrow> DaemonConfig \<Rightarrow> DaemonConfig)) list" where
  "config_setters =
     [
      (''POLLING_INTERVAL'', (\<lambda>v c. c\<lparr>polling_interval := atoi v\<rparr>)),
      (''REFRESH_INTERVAL'', (\<lambda>v c. c\<lparr>refresh_interval := atof v\<rparr>)),
      (''DEV_ENABLE'', (\<lambda>v c. c\<lparr>dev_enable := atoi v\<rparr>)),
      (''LOAD_THRESHOLD'', (\<lambda>v c. c\<lparr>load_threshold := atof v\<rparr>)),
      (''DETECTION_LEVEL'', (\<lambda>v c. c\<lparr>detection_level := atoi v\<rparr>)),
      (''EBPF_ENABLE'', (\<lambda>v c. c\<lparr>ebpf_enable := atoi v\<rparr>)),
      (''DEBUG_ENABLE'', (\<lambda>v c. c\<lparr>debug_enable := atoi v\<rparr>)),
      (''DAEMON_STATE'', (\<lambda>v c. c\<lparr>daemon_state := fit 31 v\<rparr>)),
      (''FALLBACK_PROFILE'', (\<lambda>v c. c\<lparr>fallback_profile := fit 63 v\<rparr>)),
      (''SERVER_ENABLED'', (\<lambda>v c. c\<lparr>server_enabled := (if strcmp v ''true'' = 0 \<or> atoi v \<noteq> 0 then 1 else 0)\<rparr>)),
      (''SERVER_ADDRESS'', (\<lambda>v c. c\<lparr>server_address := fit 127 v\<rparr>)),
      (''SERVER_PORT'', (\<lambda>v c. c\<lparr>server_port := atoi v\<rparr>)),
      (''SERVER_SSH'', (\<lambda>v c. c\<lparr>server_ssh := fit 31 v\<rparr>)),
      (''AFFINITY_MASK'', (\<lambda>v c. c\<lparr>affinity_mask := fit 63 v\<rparr>)),
      (''AFFINITY_FREQ_MASK'', (\<lambda>v c. c\<lparr>affinity_freq_mask := fit 63 v\<rparr>)),
      (''SCHED_BORE'', (\<lambda>v c. c\<lparr>sched_bore := atoi v\<rparr>)),
      (''SCHED_BIT_SHIFT'', (\<lambda>v c. c\<lparr>sched_bit_shift := atoi v\<rparr>)),
      (''SCHED_BURST_FORK'', (\<lambda>v c. c\<lparr>sched_burst_fork := atoi v\<rparr>)),
      (''SCHED_SLICE_US'', (\<lambda>v c. c\<lparr>sched_slice_us := atoi v\<rparr>)),
      (''VM_MAX_MAP'', (\<lambda>v c. c\<lparr>vm_max_map := atoi v\<rparr>)),
      (''SPLIT_LOCK_DETECT'', (\<lambda>v c. c\<lparr>split_lock_detect := atoi v\<rparr>)),
      (''NMI_WATCHDOG'', (\<lambda>v c. c\<lparr>nmi_watchdog := atoi v\<rparr>)),
      (''THP_MODE'', (\<lambda>v c. c\<lparr>thp_mode := fit 15 v\<rparr>)),
      (''NET_QDISC'', (\<lambda>v c. c\<lparr>net_qdisc := fit 31 v\<rparr>)),
      (''NET_FASTOPEN'', (\<lambda>v c. c\<lparr>net_fastopen := atoi v\<rparr>)),
      (''NET_RP_FILTER'', (\<lambda>v c. c\<lparr>net_rp_filter := atoi v\<rparr>)),
      (''NET_SOURCE_ROUTE'', (\<lambda>v c. c\<lparr>net_source_route := atoi v\<rparr>)),
      (''IRQ_ENABLE'', (\<lambda>v c. c\<lparr>irq_enable := atoi v\<rparr>)),
      (''IRQ_GPU'', (\<lambda>v c. c\<lparr>irq_gpu := atoi v\<rparr>)),
      (''IRQ_NVME'', (\<lambda>v c. c\<lparr>irq_nvme := atoi v\<rparr>)),
      (''IRQ_USB'', (\<lambda>v c. c\<lparr>irq_usb := atoi v\<rparr>)),
      (''IRQ_NIC'', (\<lambda>v c. c\<lparr>irq_nic := atoi v\<rparr>)),
      (''IRQ_AUDIO'', (\<lambda>v c. c\<lparr>irq_audio := atoi v\<rparr>)),
      (''IRQ_COALESCE'', (\<lambda>v c. c\<lparr>irq_coalesce := atoi v\<rparr>)),
      (''IRQ_WATCH'', (\<lambda>v c. c\<lparr>irq_watch := atoi v\<rparr>)),
      (''ADVANCED_CONFIG_ENABLE'', (\<lambda>v c. c\<lparr>advanced_config_enable := atoi v\<rparr>)),
      (''FORCE_UNSUPPORTED_DISPLAY'', (\<lambda>v c. c\<lparr>force_unsupported_display := atoi v\<rparr>)),
      (''LINT_CLANG_DIAGNOSTIC'', (\<lambda>v c. c\<lparr>lint_clang_diagnostic := fit 15 v\<rparr>)),
      (''LINT_CLANG_BUGPRONE'', (\<lambda>v c. c\<lparr>lint_clang_bugprone := fit 15 v\<rparr>)),
      (''LINT_CLANG_MODERNIZE'', (\<lambda>v c. c\<lparr>lint_clang_modernize := fit 15 v\<rparr>)),
      (''LINT_CLANG_READABILITY'', (\<lambda>v c. c\<lparr>lint_clang_readability := fit 15 v\<rparr>)),
      (''LINT_CLANG_PERFORMANCE'', (\<lambda>v c. c\<lparr>lint_clang_performance := fit 15 v\<rparr>)),
      (''LINT_CLANG_PORTABILITY'', (\<lambda>v c. c\<lparr>lint_clang_portability := fit 15 v\<rparr>)),
      (''LINT_CLANG_ANALYZER'', (\<lambda>v c. c\<lparr>lint_clang_analyzer := fit 15 v\<rparr>)),
      (''LINT_CPPCHECK_ALL'', (\<lambda>v c. c\<lparr>lint_cppcheck_all := fit 15 v\<rparr>)),
      (''LINT_CPPCHECK_WARNING'', (\<lambda>v c. c\<lparr>lint_cppcheck_warning := fit 15 v\<rparr>)),
      (''LINT_CPPCHECK_STYLE'', (\<lambda>v c. c\<lparr>lint_cppcheck_style := fit 15 v\<rparr>)),
      (''LINT_CPPCHECK_PERFORMANCE'', (\<lambda>v c. c\<lparr>lint_cppcheck_performance := fit 15 v\<rparr>)),
      (''LINT_CPPCHECK_PORTABILITY'', (\<lambda>v c. c\<lparr>lint_cppcheck_portability := fit 15 v\<rparr>)),
      (''LINT_CPPCHECK_INFORMATION'', (\<lambda>v c. c\<lparr>lint_cppcheck_information := fit 15 v\<rparr>)),
      (''LINT_CPPCHECK_UNUSED'', (\<lambda>v c. c\<lparr>lint_cppcheck_unused := fit 15 v\<rparr>)),
      (''LINT_VALGRIND_MODE'', (\<lambda>v c. c\<lparr>lint_valgrind_mode := fit 15 v\<rparr>)),
      (''LINT_VALGRIND_KINDS'', (\<lambda>v c. c\<lparr>lint_valgrind_kinds := fit 31 v\<rparr>)),
      (''LINT_VALGRIND_ORIGINS'', (\<lambda>v c. c\<lparr>lint_valgrind_origins := fit 15 v\<rparr>)),
      (''JOURNAL_KEEP'', (\<lambda>v c. c\<lparr>journal_keep := atoi v\<rparr>)),
      (''JOURNAL_MAX_MB'', (\<lambda>v c. c\<lparr>journal_max_mb := atoi v\<rparr>))]"

definition set_key :: "string \<Rightarrow> string \<Rightarrow> DaemonConfig \<Rightarrow> DaemonConfig" where
  "set_key key v c = (case map_of config_setters key of None \<Rightarrow> c | Some u \<Rightarrow> u v c)"

text \<open>A line of the file as key and value; comments, empty lines and lines without an equals sign have none.\<close>

definition parse_kv :: "string \<Rightarrow> (string \<times> string) option" where
  "parse_kv line =
     (if take 1 line \<noteq> ''#'' \<and> line \<noteq> [] then
        map_option (\<lambda>k. (take k line, drop (Suc k) line)) (strchr line (CHR ''=''))
      else None)"

definition load_line :: "string \<Rightarrow> DaemonConfig \<Rightarrow> DaemonConfig" where
  "load_line line c = (case parse_kv line of None \<Rightarrow> c | Some (k, v) \<Rightarrow> set_key k v c)"

definition load_text :: "string \<Rightarrow> DaemonConfig \<Rightarrow> DaemonConfig" where
  "load_text buf c = while_lines (\<lambda>_. True) load_line buf c"

definition load_defaults :: "'w env \<Rightarrow> DaemonConfig \<Rightarrow> DaemonConfig" where
  "load_defaults E c =
     c\<lparr>polling_interval := CONFIG_POLLING_INTERVAL (defaults E),
       refresh_interval := CONFIG_REFRESH_INTERVAL (defaults E),
       dev_enable := CONFIG_DEV_ENABLE (defaults E),
       affinity_level := CONFIG_AFFINITY_LEVEL (defaults E),
       affinity_mask := fit 63 (CONFIG_AFFINITY_MASK (defaults E)),
       affinity_freq_mask := fit 63 (CONFIG_AFFINITY_FREQ_MASK (defaults E)),
       load_threshold := CONFIG_LOAD_THRESHOLD (defaults E),
       detection_level := CONFIG_DETECTION_LEVEL (defaults E),
       ebpf_enable := CONFIG_EBPF_ENABLE (defaults E),
       debug_enable := CONFIG_DEBUG_ENABLE (defaults E),
       daemon_state := fit 31 ''default'',
       fallback_profile := fit 63 (CONFIG_FALLBACK_PROFILE (defaults E)),
       server_enabled := CONFIG_SERVER_ENABLED (defaults E),
       server_address := fit 127 (CONFIG_SERVER_ADDRESS (defaults E)),
       server_port := CONFIG_SERVER_PORT (defaults E),
       server_ssh := fit 31 (CONFIG_SERVER_SSH (defaults E)),
       lint_clang_diagnostic := fit 15 ''enabled'',
       lint_clang_bugprone := fit 15 ''enabled'',
       lint_clang_modernize := fit 15 ''enabled'',
       lint_clang_readability := fit 15 ''enabled'',
       lint_clang_performance := fit 15 ''enabled'',
       lint_clang_portability := fit 15 ''enabled'',
       lint_clang_analyzer := fit 15 ''enabled'',
       lint_cppcheck_all := fit 15 ''enabled'',
       lint_cppcheck_warning := fit 15 ''enabled'',
       lint_cppcheck_style := fit 15 ''enabled'',
       lint_cppcheck_performance := fit 15 ''enabled'',
       lint_cppcheck_portability := fit 15 ''enabled'',
       lint_cppcheck_information := fit 15 ''disabled'',
       lint_cppcheck_unused := fit 15 ''enabled'',
       lint_valgrind_mode := fit 15 ''full'',
       lint_valgrind_kinds := fit 31 ''all'',
       lint_valgrind_origins := fit 15 ''enabled''\<rparr>"

definition config_load :: "'w env \<Rightarrow> ('w, unit) m" where
  "config_load E = do {
     config_probe_capabilities E;
     modify (\<lambda>s. s\<lparr>cfg := load_defaults E (cfg s)\<rparr>);
     fd \<leftarrow> c_open E (CONFIG_PATH E) O_RDONLY 0;
     if fd \<ge> 0 then do {
       nd \<leftarrow> c_read E fd 4095;
       (if fst nd > 0 then modify (\<lambda>s. s\<lparr>cfg := load_text (cstr (snd nd)) (cfg s)\<rparr>) else ret ());
       c_close E fd;
       ret ()
     } else ret ()
   }"

subsection \<open>Reading a value\<close>

definition config_getters :: "(string \<times> ('w env \<Rightarrow> DaemonConfig \<Rightarrow> string)) list" where
  "config_getters =
     [
      (''POLLING_INTERVAL'', (\<lambda>E c. printf_sn E 128 ''%d'' [AInt (polling_interval c)])),
      (''LOAD_THRESHOLD'', (\<lambda>E c. printf_sn E 128 ''%d'' [AInt (rat_trunc (load_threshold c))])),
      (''DETECTION_LEVEL'', (\<lambda>E c. printf_sn E 128 ''%d'' [AInt (detection_level c)])),
      (''EBPF_ENABLE'', (\<lambda>E c. printf_sn E 128 ''%d'' [AInt (ebpf_enable c)])),
      (''DEBUG_ENABLE'', (\<lambda>E c. printf_sn E 128 ''%d'' [AInt (debug_enable c)])),
      (''DEV_ENABLE'', (\<lambda>E c. printf_sn E 128 ''%d'' [AInt (dev_enable c)])),
      (''DAEMON_STATE'', (\<lambda>E c. daemon_state c)),
      (''FALLBACK_PROFILE'', (\<lambda>E c. fallback_profile c)),
      (''SERVER_ENABLED'', (\<lambda>E c. printf_sn E 128 ''%d'' [AInt (server_enabled c)])),
      (''SERVER_ADDRESS'', (\<lambda>E c. server_address c)),
      (''SERVER_PORT'', (\<lambda>E c. printf_sn E 128 ''%d'' [AInt (server_port c)])),
      (''SERVER_SSH'', (\<lambda>E c. server_ssh c)),
      (''AFFINITY_MASK'', (\<lambda>E c. affinity_mask c)),
      (''AFFINITY_FREQ_MASK'', (\<lambda>E c. affinity_freq_mask c)),
      (''AFFINITY_LEVEL'', (\<lambda>E c. printf_sn E 128 ''%d'' [AInt (affinity_level c)])),
      (''SCHED_BORE'', (\<lambda>E c. printf_sn E 128 ''%d'' [AInt (sched_bore c)])),
      (''SCHED_BIT_SHIFT'', (\<lambda>E c. printf_sn E 128 ''%d'' [AInt (sched_bit_shift c)])),
      (''SCHED_BURST_FORK'', (\<lambda>E c. printf_sn E 128 ''%d'' [AInt (sched_burst_fork c)])),
      (''SCHED_SLICE_US'', (\<lambda>E c. printf_sn E 128 ''%d'' [AInt (sched_slice_us c)])),
      (''VM_MAX_MAP'', (\<lambda>E c. printf_sn E 128 ''%d'' [AInt (vm_max_map c)])),
      (''SPLIT_LOCK_DETECT'', (\<lambda>E c. printf_sn E 128 ''%d'' [AInt (split_lock_detect c)])),
      (''NMI_WATCHDOG'', (\<lambda>E c. printf_sn E 128 ''%d'' [AInt (nmi_watchdog c)])),
      (''THP_MODE'', (\<lambda>E c. thp_mode c)),
      (''NET_QDISC'', (\<lambda>E c. net_qdisc c)),
      (''NET_FASTOPEN'', (\<lambda>E c. printf_sn E 128 ''%d'' [AInt (net_fastopen c)])),
      (''NET_RP_FILTER'', (\<lambda>E c. printf_sn E 128 ''%d'' [AInt (net_rp_filter c)])),
      (''NET_SOURCE_ROUTE'', (\<lambda>E c. printf_sn E 128 ''%d'' [AInt (net_source_route c)])),
      (''IRQ_ENABLE'', (\<lambda>E c. printf_sn E 128 ''%d'' [AInt (irq_enable c)])),
      (''IRQ_GPU'', (\<lambda>E c. printf_sn E 128 ''%d'' [AInt (irq_gpu c)])),
      (''IRQ_NVME'', (\<lambda>E c. printf_sn E 128 ''%d'' [AInt (irq_nvme c)])),
      (''IRQ_USB'', (\<lambda>E c. printf_sn E 128 ''%d'' [AInt (irq_usb c)])),
      (''IRQ_NIC'', (\<lambda>E c. printf_sn E 128 ''%d'' [AInt (irq_nic c)])),
      (''IRQ_AUDIO'', (\<lambda>E c. printf_sn E 128 ''%d'' [AInt (irq_audio c)])),
      (''IRQ_COALESCE'', (\<lambda>E c. printf_sn E 128 ''%d'' [AInt (irq_coalesce c)])),
      (''IRQ_WATCH'', (\<lambda>E c. printf_sn E 128 ''%d'' [AInt (irq_watch c)])),
      (''ADVANCED_CONFIG_ENABLE'', (\<lambda>E c. printf_sn E 128 ''%d'' [AInt (advanced_config_enable c)])),
      (''FORCE_UNSUPPORTED_DISPLAY'', (\<lambda>E c. printf_sn E 128 ''%d'' [AInt (force_unsupported_display c)])),
      (''LINT_CLANG_DIAGNOSTIC'', (\<lambda>E c. lint_clang_diagnostic c)),
      (''LINT_CLANG_BUGPRONE'', (\<lambda>E c. lint_clang_bugprone c)),
      (''LINT_CLANG_MODERNIZE'', (\<lambda>E c. lint_clang_modernize c)),
      (''LINT_CLANG_READABILITY'', (\<lambda>E c. lint_clang_readability c)),
      (''LINT_CLANG_PERFORMANCE'', (\<lambda>E c. lint_clang_performance c)),
      (''LINT_CLANG_PORTABILITY'', (\<lambda>E c. lint_clang_portability c)),
      (''LINT_CLANG_ANALYZER'', (\<lambda>E c. lint_clang_analyzer c)),
      (''LINT_CPPCHECK_ALL'', (\<lambda>E c. lint_cppcheck_all c)),
      (''LINT_CPPCHECK_WARNING'', (\<lambda>E c. lint_cppcheck_warning c)),
      (''LINT_CPPCHECK_STYLE'', (\<lambda>E c. lint_cppcheck_style c)),
      (''LINT_CPPCHECK_PERFORMANCE'', (\<lambda>E c. lint_cppcheck_performance c)),
      (''LINT_CPPCHECK_PORTABILITY'', (\<lambda>E c. lint_cppcheck_portability c)),
      (''LINT_CPPCHECK_INFORMATION'', (\<lambda>E c. lint_cppcheck_information c)),
      (''LINT_CPPCHECK_UNUSED'', (\<lambda>E c. lint_cppcheck_unused c)),
      (''LINT_VALGRIND_MODE'', (\<lambda>E c. lint_valgrind_mode c)),
      (''LINT_VALGRIND_KINDS'', (\<lambda>E c. lint_valgrind_kinds c)),
      (''LINT_VALGRIND_ORIGINS'', (\<lambda>E c. lint_valgrind_origins c)),
      (''JOURNAL_KEEP'', (\<lambda>E c. printf_sn E 128 ''%d'' [AInt (journal_keep c)])),
      (''JOURNAL_MAX_MB'', (\<lambda>E c. printf_sn E 128 ''%d'' [AInt (journal_max_mb c)])),
      (''REFRESH_INTERVAL'', (\<lambda>E c. printf_sn E 128 ''%.2f'' [ADbl (refresh_interval c)]))]"

definition config_get :: "'w env \<Rightarrow> string \<Rightarrow> ('w, string) m" where
  "config_get E key =
     gets (\<lambda>s. case map_of config_getters key of None \<Rightarrow> ''ERR'' | Some g \<Rightarrow> g E (cfg s))"

subsection \<open>Updating\<close>

definition key_matches :: "string \<Rightarrow> string \<Rightarrow> bool" where
  "key_matches key line \<longleftrightarrow> strncmp line key (length key) = 0 \<and> take 1 (drop (length key) line) = ''=''"

text \<open>
  The loop of \<^verbatim>\<open>config_update\<close>: the flag \<^verbatim>\<open>found\<close> and the output buffer of 8192 bytes, to which each piece is
  appended by \<^verbatim>\<open>strlcat_local\<close>.
\<close>

definition append_kv :: "string \<Rightarrow> string \<Rightarrow> string \<Rightarrow> string" where
  "append_kv key val buf = fold (\<lambda>s d. buf_append 8192 d s) [key, ''='', val, [NL]] buf"

definition update_line :: "string \<Rightarrow> string \<Rightarrow> string \<Rightarrow> bool \<times> string \<Rightarrow> bool \<times> string" where
  "update_line key val line a =
     (if key_matches key line then (True, append_kv key val (snd a))
      else (fst a, fold (\<lambda>s d. buf_append 8192 d s) [line, [NL]] (snd a)))"

definition update_text :: "string \<Rightarrow> string \<Rightarrow> string \<Rightarrow> string" where
  "update_text key val buf =
     (let (found, out) = while_lines (\<lambda>_. True) (update_line key val) buf (False, [])
      in if found then out else append_kv key val out)"

definition config_update :: "'w env \<Rightarrow> string \<Rightarrow> string \<Rightarrow> ('w, unit) m" where
  "config_update E key val = do {
     fd \<leftarrow> c_open E (CONFIG_PATH E) O_RDONLY 0;
     if fd < 0 then ret ()
     else do {
       nd \<leftarrow> c_read E fd 8191;
       c_close E fd;
       if fst nd \<le> 0 then ret ()
       else do {
         let txt = update_text key val (cstr (snd nd));
         out_fd \<leftarrow> c_open E (CONFIG_PATH E) (O_WRONLY + O_TRUNC) 0;
         if out_fd \<ge> 0 then do { c_write E out_fd txt; c_close E out_fd; ret () } else ret ()
       }
     }
   }"

subsection \<open>Generating\<close>

definition config_generate :: "'w env \<Rightarrow> string \<Rightarrow> string \<Rightarrow> ('w, int) m" where
  "config_generate E settings_src dest = do {
     sfd \<leftarrow> c_open E settings_src O_RDONLY 0;
     if sfd < 0 then ret ERR_IO
     else do {
       nd \<leftarrow> c_read E sfd 4095;
       c_close E sfd;
       if fst nd \<le> 0 then ret ERR_IO
       else do {
         dfd \<leftarrow> c_open E dest (O_WRONLY + O_CREAT + O_TRUNC) 436;
         if dfd < 0 then ret ERR_IO
         else do {
           c_write E dfd (snd nd);
           irq_fd \<leftarrow> c_open E ''config/irq.conf'' O_RDONLY 0;
           if irq_fd \<ge> 0 then do {
             inn \<leftarrow> c_read E irq_fd 4095;
             (if fst inn > 0 then do { c_write E dfd [NL]; c_write E dfd (snd inn); ret () } else ret ());
             c_close E irq_fd;
             c_close E dfd;
             ret ERR_SUCCESS
           } else do { c_close E dfd; ret ERR_SUCCESS }
         }
       }
     }
   }"

subsection \<open>Key-value stores\<close>

text \<open>
  What the rest of the program expects of the configuration: reading a key after writing it gives
  the value, and a write leaves the other keys alone.
\<close>

locale kv_store =
  fixes valid_key :: "'k \<Rightarrow> bool"
    and valid_val :: "'v \<Rightarrow> bool"
    and lookup :: "'s \<Rightarrow> 'k \<Rightarrow> 'v option"
    and update :: "'k \<Rightarrow> 'v \<Rightarrow> 's \<Rightarrow> 's"
    and inv :: "'s \<Rightarrow> bool"
  assumes inv_update: "inv s \<Longrightarrow> valid_key k \<Longrightarrow> valid_val v \<Longrightarrow> inv (update k v s)"
    and lookup_update: "inv s \<Longrightarrow> valid_key k \<Longrightarrow> valid_val v \<Longrightarrow>
      lookup (update k v s) k' = (if k' = k then Some v else lookup s k')"
begin

lemma lookup_last_write:
  "inv s \<Longrightarrow> valid_key k \<Longrightarrow> valid_val v \<Longrightarrow> valid_val v' \<Longrightarrow>
   lookup (update k v' (update k v s)) = lookup (update k v' s)"
  by (rule ext) (simp add: lookup_update inv_update)

lemma lookup_commute:
  "inv s \<Longrightarrow> valid_key k \<Longrightarrow> valid_key k' \<Longrightarrow> valid_val v \<Longrightarrow> valid_val v' \<Longrightarrow> k \<noteq> k' \<Longrightarrow>
   lookup (update k v (update k' v' s)) = lookup (update k' v' (update k v s))"
  by (rule ext) (simp add: lookup_update inv_update)

lemma lookup_updates:
  "inv s \<Longrightarrow> \<forall>(k, v) \<in> set kvs. valid_key k \<and> valid_val v \<Longrightarrow>
   lookup (fold (\<lambda>(k, v). update k v) kvs s) k' =
     (case map_of (rev kvs) k' of None \<Rightarrow> lookup s k' | Some v \<Rightarrow> Some v)"
proof (induction kvs arbitrary: s)
  case (Cons kv kvs)
  obtain k v where kv: "kv = (k, v)" by fastforce
  with Cons.prems have "inv (update k v s)" by (auto intro: inv_update)
  from Cons.IH [OF this] Cons.prems kv show ?case
    by (auto simp: map_add_def lookup_update split: option.splits)
qed simp

end

subsection \<open>The configuration text as a key-value store\<close>

definition valid_key :: "string \<Rightarrow> bool" where
  "valid_key k \<longleftrightarrow> k \<noteq> [] \<and> cstring k \<and> NL \<notin> set k \<and> CHR ''='' \<notin> set k \<and> hd k \<noteq> CHR ''#''"

definition valid_val :: "string \<Rightarrow> bool" where
  "valid_val v \<longleftrightarrow> cstring v \<and> NL \<notin> set v"

definition conf_lines :: "string list \<Rightarrow> bool" where
  "conf_lines ls \<longleftrightarrow> (\<forall>l \<in> set ls. cstring l \<and> NL \<notin> set l)"

definition pairs :: "string list \<Rightarrow> (string \<times> string) list" where
  "pairs ls = List.map_filter parse_kv ls"

definition conf_lookup :: "string list \<Rightarrow> string \<Rightarrow> string option" where
  "conf_lookup ls k = map_of (rev (pairs ls)) k"

definition update_lines :: "string \<Rightarrow> string \<Rightarrow> string list \<Rightarrow> string list" where
  "update_lines k v ls =
     map (\<lambda>l. if key_matches k l then k @ ''='' @ v else l) ls @
     (if \<exists>l \<in> set ls. key_matches k l then [] else [k @ ''='' @ v])"

lemma parse_kv_line: "valid_key k \<Longrightarrow> parse_kv (k @ ''='' @ v) = Some (k, v)"
  by (cases k) (auto simp: parse_kv_def valid_key_def strchr_append_stop)

lemma key_matches_iff:
  assumes "valid_key k" "cstring l"
  shows "key_matches k l \<longleftrightarrow> (\<exists>v. parse_kv l = Some (k, v))"
proof
  assume "key_matches k l"
  then have "prefix k l" "take 1 (drop (length k) l) = ''=''"
    using assms by (auto simp: key_matches_def valid_key_def)
  then obtain v where "l = k @ ''='' @ v"
    by (auto simp: prefix_def) (metis append_Cons append_Nil append_take_drop_id)
  then show "\<exists>v. parse_kv l = Some (k, v)" using parse_kv_line [OF assms(1)] by auto
next
  assume "\<exists>v. parse_kv l = Some (k, v)"
  then obtain j where j: "strchr l (CHR ''='') = Some j" "k = take j l"
    by (auto simp: parse_kv_def split: if_splits)
  then have "j < length l" "l ! j = CHR ''=''" using strchr_Some [OF assms(2), of "CHR ''=''" j] by auto
  then have "length k = j" "take 1 (drop j l) = ''=''" using j(2)
    by (auto simp: take_Suc_conv_app_nth [of 0 "drop j l", simplified])
  then show "key_matches k l"
    using assms j(2) by (auto simp: key_matches_def valid_key_def take_is_prefix)
qed

lemma pairs_simps [simp]:
  "pairs [] = []" "pairs (l # ls) = (case parse_kv l of None \<Rightarrow> pairs ls | Some p \<Rightarrow> p # pairs ls)"
  "pairs (ls @ ms) = pairs ls @ pairs ms"
  by (auto simp: pairs_def map_filter_def split: option.splits)

lemma pairs_update:
  assumes "valid_key k" "conf_lines ls"
  shows "pairs (map (\<lambda>l. if key_matches k l then k @ ''='' @ v else l) ls) =
    map (\<lambda>(k', v'). if k' = k then (k, v) else (k', v')) (pairs ls)"
  using assms(2)
proof (induction ls)
  case (Cons l ls)
  then have "cstring l" by (simp add: conf_lines_def)
  with Cons key_matches_iff [OF assms(1), of l] parse_kv_line [OF assms(1), of v] show ?case
    by (auto simp: conf_lines_def split: option.splits)
qed simp

lemma map_of_overwrite:
  "map_of (map (\<lambda>(k', v'). if k' = k then (k, v) else (k', v')) ps) j =
     (if j = k then map_option (\<lambda>_. v) (map_of ps k) else map_of ps j)"
  by (induction ps) auto

lemma conf_lookup_Some_match:
  assumes "valid_key k" "conf_lines ls"
  shows "conf_lookup ls k = None \<longleftrightarrow> \<not> (\<exists>l \<in> set ls. key_matches k l)"
proof -
  have "(\<exists>l \<in> set ls. key_matches k l) \<longleftrightarrow> k \<in> fst ` set (pairs ls)"
    using assms key_matches_iff [OF assms(1)]
    by (force simp: conf_lines_def pairs_def map_filter_def image_iff)
  then show ?thesis by (simp add: conf_lookup_def map_of_eq_None_iff)
qed

interpretation conf: kv_store valid_key valid_val conf_lookup update_lines conf_lines
proof
  fix ls k v
  assume a: "conf_lines ls" "valid_key k" "valid_val v"
  then show "conf_lines (update_lines k v ls)"
    by (auto simp: conf_lines_def update_lines_def valid_key_def valid_val_def cstr_simps)
  fix k'
  have m: "map_of (rev (pairs (map (\<lambda>l. if key_matches k l then k @ ''='' @ v else l) ls))) j =
      (if j = k then map_option (\<lambda>_. v) (conf_lookup ls k) else conf_lookup ls j)" for j
    unfolding pairs_update [OF a(2,1)] conf_lookup_def rev_map map_of_overwrite by simp
  show "conf_lookup (update_lines k v ls) k' = (if k' = k then Some v else conf_lookup ls k')"
  proof (cases "\<exists>l \<in> set ls. key_matches k l")
    case True
    then have "conf_lookup ls k \<noteq> None" using conf_lookup_Some_match [OF a(2,1)] by blast
    then show ?thesis using True m [of k'] by (auto simp: update_lines_def conf_lookup_def [of "map f ls" for f])
  next
    case False
    then show ?thesis
      using m [of k'] parse_kv_line [OF a(2), of v]
      by (auto simp: update_lines_def conf_lookup_def [of "map f ls @ u" for f u])
  qed
qed

subsection \<open>The text that an update writes\<close>

lemma append_kv_eq: "length d < 8192 \<Longrightarrow> append_kv k v d = take 8191 (d @ k @ ''='' @ v @ [NL])"
  unfolding append_kv_def by (subst strlcat.fold_app) auto

lemma take_take_append: "take n (take n xs @ ys) = take n (xs @ ys)"
  by (auto simp: min_def)

lemma update_line_fold:
  "length (snd a) < 8192 \<Longrightarrow> fold (update_line k v) ls a =
    (fst a \<or> (\<exists>l \<in> set ls. key_matches k l),
     take 8191 (snd a @ unlines (map (\<lambda>l. if key_matches k l then k @ ''='' @ v else l) ls)))"
proof (induction ls arbitrary: a)
  case Nil
  then show ?case by (cases a) auto
next
  case (Cons l ls)
  let ?l = "if key_matches k l then k @ ''='' @ v else l"
  have two: "fold (\<lambda>s d. buf_append 8192 d s) [l, [NL]] (snd a) = take 8191 (snd a @ l @ [NL])"
    using Cons.prems by (subst strlcat.fold_app) auto
  have step: "update_line k v l a = (fst a \<or> key_matches k l, take 8191 (snd a @ ?l @ [NL]))"
    unfolding update_line_def two append_kv_eq [OF Cons.prems] by (simp del: take_append)
  have "length (take 8191 (snd a @ ?l @ [NL])) < 8192" by simp
  then have "fold (update_line k v) ls (update_line k v l a) =
      (fst a \<or> key_matches k l \<or> (\<exists>l \<in> set ls. key_matches k l),
       take 8191 ((snd a @ ?l @ [NL]) @ unlines (map (\<lambda>l. if key_matches k l then k @ ''='' @ v else l) ls)))"
    unfolding step by (subst Cons.IH) (simp_all only: fst_conv snd_conv take_take_append disj_assoc)
  then show ?case by (simp del: take_append)
qed

lemma update_text_eq: "update_text k v buf = take 8191 (unlines (update_lines k v (c_lines buf)))"
proof -
  have w: "while_lines (\<lambda>_. True) (update_line k v) buf (False, []) =
      (\<exists>l \<in> set (c_lines buf). key_matches k l,
       take 8191 (unlines (map (\<lambda>l. if key_matches k l then k @ ''='' @ v else l) (c_lines buf))))"
    unfolding while_lines_fold by (subst fold_while_True) (auto simp: update_line_fold)
  show ?thesis
    by (simp add: update_text_def w update_lines_def append_kv_eq take_take_append del: take_append)
qed

subsection \<open>What loading reads\<close>

text \<open>The field \<open>f\<close> is set by the key \<open>K\<close>, to what \<open>g\<close> makes of the value, and by no other key.\<close>

definition reads_key :: "string \<Rightarrow> (DaemonConfig \<Rightarrow> 'a) \<Rightarrow> (string \<Rightarrow> 'a) \<Rightarrow> bool" where
  "reads_key K f g \<longleftrightarrow> (\<forall>k v c. f (set_key k v c) = (if k = K then g v else f c))"

text \<open>Each setter of the table, seen through each field.\<close>

lemma reads_keyI:
  assumes "list_all (\<lambda>(k, u). \<forall>v c. f (u v c) = (if k = K then g v else f c)) config_setters"
    "map_of config_setters K \<noteq> None"
  shows "reads_key K f g"
  unfolding reads_key_def
proof (intro allI)
  fix k v c
  show "f (set_key k v c) = (if k = K then g v else f c)"
  proof (cases "map_of config_setters k")
    case None
    then have "k \<noteq> K" using assms(2) by auto
    then show ?thesis by (simp add: set_key_def None)
  next
    case (Some u)
    then have "(k, u) \<in> set config_setters" by (rule map_of_SomeD)
    with assms(1) show ?thesis by (auto simp: list_all_iff set_key_def Some)
  qed
qed

text \<open>The keys the daemon's own decisions depend on.\<close>

lemma config_keys:
  "reads_key ''POLLING_INTERVAL'' polling_interval atoi"
  "reads_key ''REFRESH_INTERVAL'' refresh_interval atof"
  "reads_key ''LOAD_THRESHOLD'' load_threshold atof"
  "reads_key ''DETECTION_LEVEL'' detection_level atoi"
  "reads_key ''EBPF_ENABLE'' ebpf_enable atoi"
  "reads_key ''DAEMON_STATE'' daemon_state (fit 31)"
  "reads_key ''FALLBACK_PROFILE'' fallback_profile (fit 63)"
  "reads_key ''SERVER_ENABLED'' server_enabled (\<lambda>v. (if strcmp v ''true'' = 0 \<or> atoi v \<noteq> 0 then 1 else 0))"
  "reads_key ''AFFINITY_MASK'' affinity_mask (fit 63)"
  "reads_key ''SCHED_BORE'' sched_bore atoi"
  by - (rule reads_keyI;
      (unfold config_setters_def list.pred_inject prod.case, (intro conjI allI TrueI)?; simp))+

lemma load_field:
  assumes "reads_key K f g"
  shows "f (fold load_line ls c) = (case conf_lookup ls K of None \<Rightarrow> f c | Some v \<Rightarrow> g v)"
proof (induction ls rule: rev_induct)
  case (snoc l ls)
  then show ?case
    using assms by (auto simp: load_line_def reads_key_def conf_lookup_def split: option.splits)
qed (simp add: conf_lookup_def)

lemma load_text_field:
  assumes "reads_key K f g"
  shows "f (load_text buf c) = (case conf_lookup (c_lines buf) K of None \<Rightarrow> f c | Some v \<Rightarrow> g v)"
  using load_field [OF assms] by (simp add: load_text_def while_lines_fold fold_while_True)

subsection \<open>The operations on the file\<close>

lemma hoare_config_update:
  assumes "file_kernel E fs pos" "F (CONFIG_PATH E) = Some body" "body \<noteq> []" "cstring body" "length body \<le> 8191"
  shows "hoare (contents fs F V) (config_update E K v)
    (\<lambda>_. contents fs (F(CONFIG_PATH E \<mapsto> update_text K v body)) V)"
proof -
  let ?G = "F(CONFIG_PATH E \<mapsto> update_text K v body)"
  let ?k = "\<lambda>nd. if fst nd \<le> 0 then ret () else do {
         let txt = update_text K v (cstr (snd nd));
         out_fd \<leftarrow> c_open E (CONFIG_PATH E) (O_WRONLY + O_TRUNC) 0;
         if out_fd \<ge> 0 then do { c_write E out_fd txt; c_close E out_fd; ret () } else ret () }"
  have "O_WRONLY + O_TRUNC \<in> trunc_flags" by (simp add: trunc_flags_def)
  from hoare_spew1 [where F = F, OF assms(1,2) this]
  have k: "hoare (contents fs F V) (?k (int (length (take 8191 body)), take 8191 body)) (\<lambda>_. contents fs ?G V)"
    using assms(3,4,5) by (simp add: Let_def)
  show ?thesis
    unfolding config_update_def
    by (rule hoare_slurp [where F = F and c = body and n = 8191 and k = ?k, OF assms(1,2)]) (use k in auto)
qed

text \<open>The state while the configuration is loaded: \<open>c0\<close> with some capabilities.\<close>

definition loading :: "'w files \<Rightarrow> (path \<Rightarrow> string option) \<Rightarrow> DaemonConfig \<Rightarrow> 'w prog \<Rightarrow> bool" where
  "loading fs F c0 s \<longleftrightarrow> fs (world s) = F \<and> (\<exists>x. cfg s = c0\<lparr>capabilities := x\<rparr>)"

lemma cfg_vars: "vars s = vars t \<Longrightarrow> cfg s = cfg t"
  by (simp add: vars_def)

lemma keeps_probe:
  assumes "file_kernel E fs pos"
  shows "keeps (loading fs F c0) (config_probe_capabilities E)"
  unfolding config_probe_capabilities_def
proof (intro keeps_bind keeps_forM hoare_case_prod hoare_if keeps_ret)
  fix path
  show "keeps (loading fs F c0) (c_access E path F_OK)"
    using access_files [OF assms, of path F_OK] cfg_vars [of "exec (c_access E path F_OK) s" s for s]
    by (auto simp: hoare_def loading_def)
qed (auto simp: hoare_def loading_def)

lemma hoare_load_text:
  assumes "file_kernel E fs pos"
  shows "hoare (sees fs pos F D V) (do { modify (\<lambda>s. s\<lparr>cfg := load_text body (cfg s)\<rparr>); c_close E fd; ret () })
    (\<lambda>_ s. fs (world s) = F \<and> cfg s = load_text body (cfg V))"
proof -
  have "hoare (sees fs pos F D V) (modify (\<lambda>s. s\<lparr>cfg := load_text body (cfg s)\<rparr>))
      (\<lambda>_. sees fs pos F D (V\<lparr>cfg := load_text body (cfg V)\<rparr>))"
    by (auto simp: hoare_def sees_def vars_def)
  moreover have "hoare (sees fs pos F D V') (do { c_close E fd; ret () })
      (\<lambda>_ s. fs (world s) = F \<and> cfg s = cfg V')" for V'
    using hoareD [OF hoare_close [OF assms, where F = F and V = V' and fd = fd]]
    by (fastforce simp: hoare_def sees_def vars_def exec_bind result_bind simp del: run_state_bind)
  ultimately show ?thesis by (rule hoare_bind [THEN hoare_conseq]) auto
qed

lemma hoare_config_file:
  assumes "file_kernel E fs pos" "F (CONFIG_PATH E) = Some body" "cstring body" "body \<noteq> []" "length body \<le> 4095"
  shows "hoare (contents fs F V)
      (do { fd \<leftarrow> c_open E (CONFIG_PATH E) O_RDONLY 0;
            if fd \<ge> 0 then do {
              nd \<leftarrow> c_read E fd 4095;
              (if fst nd > 0 then modify (\<lambda>s. s\<lparr>cfg := load_text (cstr (snd nd)) (cfg s)\<rparr>) else ret ());
              c_close E fd; ret () } else ret () })
      (\<lambda>_ s. fs (world s) = F \<and> cfg s = load_text body (cfg V))"
proof (rule hoare_contents_pre [where pos = pos], rule hoare_bind)
  fix D
  have "O_RDONLY \<in> plain_flags \<union> trunc_flags" by (simp add: plain_flags_def)
  from hoare_open [where F = F, OF assms(1,2) this]
  show "hoare (sees fs pos F D V) (c_open E (CONFIG_PATH E) O_RDONLY 0)
      (\<lambda>fd s. 0 \<le> fd \<and> sees fs pos F (D(fd \<mapsto> (CONFIG_PATH E, 0))) V s)"
    by (simp add: trunc_flags_def libc_consts)
  fix fd
  let ?D = "D(fd \<mapsto> (CONFIG_PATH E, 0))"
  have rd: "hoare (sees fs pos F ?D V) (c_read E fd 4095)
      (\<lambda>nd s. nd = (int (length body), body) \<and> sees fs pos F (?D(fd \<mapsto> (CONFIG_PATH E, length body))) V s)"
    using hoare_read [OF assms(1), of ?D fd "CONFIG_PATH E" 0 F body V 4095] assms(2,5) by simp
  from hoare_load_text [OF assms(1), where F = F and V = V and fd = fd and body = body]
  show "hoare (\<lambda>s. 0 \<le> fd \<and> sees fs pos F ?D V s)
      (if fd \<ge> 0 then do {
            nd \<leftarrow> c_read E fd 4095;
            (if fst nd > 0 then modify (\<lambda>s. s\<lparr>cfg := load_text (cstr (snd nd)) (cfg s)\<rparr>) else ret ());
            c_close E fd; ret () } else ret ())
      (\<lambda>_ s. fs (world s) = F \<and> cfg s = load_text body (cfg V))"
    using hoareD [OF rd] assms(3,4)
    by (cases "0 \<le> fd") (auto simp: hoare_def exec_bind result_bind simp del: run_state_bind)
qed

lemma hoare_config_load:
  assumes "file_kernel E fs pos" "F (CONFIG_PATH E) = Some body" "cstring body" "body \<noteq> []" "length body \<le> 4095"
  shows "hoare (loading fs F c0) (config_load E)
    (\<lambda>_ s. fs (world s) = F \<and> (\<exists>x. cfg s = load_text body (load_defaults E (c0\<lparr>capabilities := x\<rparr>))))"
  unfolding config_load_def
proof (rule hoare_bind [OF keeps_probe [OF assms(1)]], rule hoare_bind)
  show "hoare (loading fs F c0) (modify (\<lambda>s. s\<lparr>cfg := load_defaults E (cfg s)\<rparr>))
      (\<lambda>_ s. \<exists>x. contents fs F (vars s) s \<and> cfg s = load_defaults E (c0\<lparr>capabilities := x\<rparr>))"
    by (auto simp: hoare_def loading_def contents_def)
qed (use hoareD [OF hoare_config_file [where F = F, OF assms]] in \<open>fastforce simp: hoare_def vars_def simp del: run_state_bind\<close>)

subsection \<open>The strings stay within their arrays\<close>

text \<open>Every string of the configuration fits its array, terminator included.\<close>

definition cfg_ok :: "DaemonConfig \<Rightarrow> bool" where
  "cfg_ok c \<longleftrightarrow>
     length (affinity_mask c) < 64 \<and>
     length (affinity_freq_mask c) < 64 \<and>
     length (daemon_state c) < 32 \<and>
     length (fallback_profile c) < 64 \<and>
     length (server_address c) < 128 \<and>
     length (server_ssh c) < 32 \<and>
     length (thp_mode c) < 16 \<and>
     length (net_qdisc c) < 32 \<and>
     length (lint_clang_diagnostic c) < 16 \<and>
     length (lint_clang_bugprone c) < 16 \<and>
     length (lint_clang_modernize c) < 16 \<and>
     length (lint_clang_readability c) < 16 \<and>
     length (lint_clang_performance c) < 16 \<and>
     length (lint_clang_portability c) < 16 \<and>
     length (lint_clang_analyzer c) < 16 \<and>
     length (lint_cppcheck_all c) < 16 \<and>
     length (lint_cppcheck_warning c) < 16 \<and>
     length (lint_cppcheck_style c) < 16 \<and>
     length (lint_cppcheck_performance c) < 16 \<and>
     length (lint_cppcheck_portability c) < 16 \<and>
     length (lint_cppcheck_information c) < 16 \<and>
     length (lint_cppcheck_unused c) < 16 \<and>
     length (lint_valgrind_mode c) < 16 \<and>
     length (lint_valgrind_kinds c) < 32 \<and>
     length (lint_valgrind_origins c) < 16"

lemma fit_less: "0 < n \<Longrightarrow> n \<le> k \<Longrightarrow> length (fit n s) < k"
  by (simp add: fit_def)

lemma cfg_ok_capabilities [simp]: "cfg_ok (c\<lparr>capabilities := x\<rparr>) = cfg_ok c"
  by (simp add: cfg_ok_def)

lemma setters_ok: "list_all (\<lambda>(k, u). \<forall>v c. cfg_ok c \<longrightarrow> cfg_ok (u v c)) config_setters"
  unfolding config_setters_def list.pred_inject prod.case
  by (intro conjI allI TrueI impI; simp add: cfg_ok_def fit_less)

lemma cfg_ok_load_line: "cfg_ok c \<Longrightarrow> cfg_ok (load_line line c)"
  using setters_ok
  by (auto simp: load_line_def set_key_def list_all_iff split: option.splits dest!: map_of_SomeD)

lemma cfg_ok_load_text: "cfg_ok c \<Longrightarrow> cfg_ok (load_text buf c)"
  unfolding load_text_def by (rule while_lines_inv) (auto intro: cfg_ok_load_line)

lemma cfg_ok_defaults: "cfg_ok c \<Longrightarrow> cfg_ok (load_defaults E c)"
  by (simp add: cfg_ok_def load_defaults_def fit_less)

lemma keeps_cfg_ok_load: "keeps (\<lambda>s. cfg_ok (cfg s)) (config_load E)"
proof -
  have si: "sys_indep (\<lambda>s. cfg_ok (cfg s))" by (rule sys_indepI) simp
  show ?thesis
    unfolding config_load_def config_probe_capabilities_def
    by (intro hoare_rules si hoare_modify) (auto intro: cfg_ok_defaults cfg_ok_load_text)
qed

subsection \<open>Frames\<close>

lemma keeps_config_update [hoare_rules]: "sys_indep I \<Longrightarrow> keeps I (config_update E k v)"
  unfolding config_update_def by (intro hoare_rules)

lemma keeps_config_load:
  "sys_indep I \<Longrightarrow> (\<And>s c. I s \<Longrightarrow> I (s\<lparr>cfg := c\<rparr>)) \<Longrightarrow> keeps I (config_load E)"
  unfolding config_load_def config_probe_capabilities_def by (intro hoare_rules hoare_modify) auto

lemma keeps_config_get [hoare_rules]: "keeps I (config_get E k)"
  unfolding config_get_def by (intro hoare_rules)

lemma nets_config [nets_rules]:
  "nets 0 (config_probe_capabilities E)" "nets 0 (config_load E)" "nets 0 (config_update E k v)"
  "nets 0 (config_get E k)" "nets 0 (config_generate E a b)"
  unfolding config_load_def config_probe_capabilities_def config_update_def config_get_def config_generate_def
  by - (linarith | rule fd_rules | rule nets_rules)+

subsection \<open>Properties\<close>

text \<open>
  C23. \<^verbatim>\<open>config_update\<close> is an update of a key-value store: as long as the new text fits the 8192-byte
  buffer, reading the rewritten text gives the new value for the key and the old value for every other key.
\<close>

theorem update_text_lookup:
  assumes "cstring buf" "valid_key k" "valid_val v" "length (unlines (update_lines k v (c_lines buf))) \<le> 8191"
  shows "conf_lookup (c_lines (update_text k v buf)) k' = (if k' = k then Some v else conf_lookup (c_lines buf) k')"
proof -
  have cl: "conf_lines (c_lines buf)"
    using assms(1) by (auto simp: conf_lines_def dest: c_lines_NL_free c_lines_cstring)
  have "c_lines (update_text k v buf) = update_lines k v (c_lines buf)"
    using conf.inv_update [OF cl assms(2,3)] assms(4)
    by (simp add: update_text_eq c_lines_unlines conf_lines_def)
  then show ?thesis using conf.lookup_update [OF cl assms(2,3)] by simp
qed

theorem update_text_lookup_witness:
  "conf_lookup (c_lines (update_text ''B'' ''7'' (unlines [''A=1'', ''B=2'']))) ''B'' = Some ''7''"
  using update_text_lookup [of "unlines [''A=1'', ''B=2'']" "''B''" "''7''" "''B''"]
  by (simp add: valid_key_def valid_val_def cstring_def c_lines_line update_lines_def key_matches_def)



text \<open>
  C32. Loading never overflows a string of the configuration: whatever the file and the defaults hold, every string
  still fits its array with the terminator.
\<close>

theorem config_load_fits_arrays: "cfg_ok (cfg s) \<Longrightarrow> cfg_ok (cfg (exec (config_load E) s))"
  using hoareD [OF keeps_cfg_ok_load] by blast

theorem config_load_fits_arrays_witness: "cfg_ok (cfg (exec (config_load mem_env) (mem_start Map.empty [])))"
  by (rule config_load_fits_arrays) (simp add: zero_cfg_def cfg_ok_def)

text \<open>
  A client that asks for \<^verbatim>\<open>REFRESH_INTERVAL\<close> never gets the number: the formatter does not know the precision
  2, and the answer is the letter \<^verbatim>\<open>f\<close>.
\<close>

theorem config_get_refresh_interval: "result (config_get E ''REFRESH_INTERVAL'') s = ''f''"
proof -
  have "render tab ''%.2f'' [ADbl x] = ''f''" for tab x
    by (subst render_convert [of _ _ "[]" "''f''" "[ADbl x]"])
      (simp_all add: convert_def read_flags_def is_digit_def uchar_def numeral_2_eq_2 fmt_simps)
  then show ?thesis
    by (simp add: config_get_def config_getters_def printf_sn_def printf_vsn_render)
qed

end
