(* ===== verification/Calls.thy ===== *)
theory Calls
  imports Config
begin

section \<open>Which calls a piece of the program makes\<close>

text \<open>
  \<open>makes E C m\<close>: run from a state whose log file is in the log directory, \<open>m\<close> makes only calls that
  satisfy \<open>C\<close>, records each of them, and the world afterwards is what these calls make of it. Two
  consequences are used: what may be read off the trace (which nodes a handler can write), and
  invariants of the world that all these calls keep.
\<close>

definition log_ok :: "'w prog \<Rightarrow> bool" where
  "log_ok s \<longleftrightarrow> log_path s = [] \<or> prefix VAR_LOGS (log_path s)"

definition calls :: "event list \<Rightarrow> syscall list" where
  "calls t = List.map_filter (\<lambda>e. case e of Sys c r \<Rightarrow> Some c | Out f fmt as \<Rightarrow> None) t"

definition replay :: "'w env \<Rightarrow> syscall list \<Rightarrow> 'w \<Rightarrow> 'w" where
  "replay E cs w = fold (\<lambda>c w. snd (kernel E c w)) cs w"

text \<open>The general form has a condition \<open>P\<close> on the state before and \<open>Q\<close> on the state after.\<close>

definition makes_pq :: "('w prog \<Rightarrow> bool) \<Rightarrow> 'w env \<Rightarrow> (syscall \<Rightarrow> bool) \<Rightarrow> ('w, 'a) m \<Rightarrow> ('w prog \<Rightarrow> bool) \<Rightarrow> bool" where
  "makes_pq P E C m Q \<longleftrightarrow> (\<forall>s. log_ok s \<and> P s \<longrightarrow> log_ok (exec m s) \<and> Q (exec m s) \<and>
     (\<exists>t. trace (exec m s) = trace s @ t \<and> list_all C (calls t) \<and>
        world (exec m s) = replay E (calls t) (world s)))"

definition makes :: "'w env \<Rightarrow> (syscall \<Rightarrow> bool) \<Rightarrow> ('w, 'a) m \<Rightarrow> bool" where
  "makes E C m \<longleftrightarrow> makes_pq (\<lambda>_. True) E C m (\<lambda>_. True)"

named_theorems makes_rules "calls made by program fragments"

lemma calls_simps [simp]:
  "calls [] = []" "calls (Sys c r # t) = c # calls t" "calls (Out f fmt as # t) = calls t"
  "calls (t @ u) = calls t @ calls u"
  by (simp_all add: calls_def map_filter_def)

lemma makesI:
  assumes "\<And>s. log_ok s \<Longrightarrow> log_ok (exec m s)"
    "\<And>s. \<exists>t. trace (exec m s) = trace s @ t \<and> list_all C (calls t) \<and> world (exec m s) = replay E (calls t) (world s)"
  shows "makes E C m"
  using assms by (simp add: makes_def makes_pq_def)

lemma makes_sys: "C c \<Longrightarrow> makes E C (sys E c)"
  by (rule makesI) (auto simp: run_sys Let_def log_ok_def replay_def intro!: exI [of _ "[Sys c r]" for r])

lemma makes_sys_errno: "C c \<Longrightarrow> makes E C (sys_errno E c)"
  by (rule makesI) (auto simp: run_sys_errno Let_def log_ok_def replay_def intro!: exI [of _ "[Sys c r]" for r])

lemma makes_out [makes_rules]: "makes E C (out f fmt as)"
  by (rule makesI) (auto simp: run_out log_ok_def replay_def intro!: exI [of _ "[Out f fmt as]"])

lemma makes_modify:
  "(\<And>s. trace (f s) = trace s) \<Longrightarrow> (\<And>s. world (f s) = world s) \<Longrightarrow> (\<And>s. log_ok s \<Longrightarrow> log_ok (f s)) \<Longrightarrow>
   makes E C (modify f)"
  by (rule makesI) (auto simp: replay_def intro!: exI [of _ "[]"])

lemma makes_pq_bind:
  assumes "makes_pq P E C m R" "\<And>x. makes_pq R E C (k x) Q"
  shows "makes_pq P E C (State_Monad.bind m k) Q"
  unfolding makes_pq_def
proof (intro allI impI)
  fix s assume s: "log_ok s \<and> P s"
  obtain t where t: "log_ok (exec m s)" "R (exec m s)" "trace (exec m s) = trace s @ t" "list_all C (calls t)"
    "world (exec m s) = replay E (calls t) (world s)"
    using assms(1) s unfolding makes_pq_def by blast
  let ?s = "exec (k (result m s)) (exec m s)"
  obtain u where u: "log_ok ?s" "Q ?s" "trace ?s = trace (exec m s) @ u" "list_all C (calls u)"
    "world ?s = replay E (calls u) (world (exec m s))"
    using assms(2) t(1,2) unfolding makes_pq_def by blast
  show "log_ok (exec (State_Monad.bind m k) s) \<and> Q (exec (State_Monad.bind m k) s) \<and>
     (\<exists>t. trace (exec (State_Monad.bind m k) s) = trace s @ t \<and> list_all C (calls t) \<and>
        world (exec (State_Monad.bind m k) s) = replay E (calls t) (world s))"
    using t u by (auto simp: exec_bind replay_def simp del: run_state_bind intro!: exI [of _ "t @ u"])
qed

lemma makes_bind [makes_rules]:
  "makes E C m \<Longrightarrow> (\<And>x. makes E C (k x)) \<Longrightarrow> makes E C (State_Monad.bind m k)"
  unfolding makes_def by (rule makes_pq_bind)

lemma makes_pq_keep: "makes E C m \<Longrightarrow> keeps P m \<Longrightarrow> makes_pq P E C m P"
  by (auto simp: makes_def makes_pq_def hoare_def)

lemma makes_pq_drop: "makes_pq (\<lambda>_. True) E C m Q \<Longrightarrow> makes E C m"
  by (auto simp: makes_def makes_pq_def)

lemma makes_pq_weak: "makes E C m \<Longrightarrow> makes_pq P E C m (\<lambda>_. True)"
  by (auto simp: makes_def makes_pq_def)

lemma makes_ret [makes_rules]: "makes E C (ret x)"
  by (rule makesI) (auto simp: replay_def intro!: exI [of _ "[]"])

lemma makes_gets [makes_rules]: "makes E C (gets f)"
  by (rule makesI) (auto simp: replay_def intro!: exI [of _ "[]"])

lemma makes_control [makes_rules]:
  "(b \<Longrightarrow> makes E C m) \<Longrightarrow> (\<not> b \<Longrightarrow> makes E C m') \<Longrightarrow> makes E C (if b then m else m')"
  "(x = None \<Longrightarrow> makes E C n) \<Longrightarrow> (\<And>y. x = Some y \<Longrightarrow> makes E C (f y)) \<Longrightarrow>
   makes E C (case x of None \<Rightarrow> n | Some y \<Rightarrow> f y)"
  "(\<And>u v. z = (u, v) \<Longrightarrow> makes E C (g u v)) \<Longrightarrow> makes E C (case z of (u, v) \<Rightarrow> g u v)"
  "makes E C (h y) \<Longrightarrow> makes E C (let v = y in h v)"
  by (auto split: option.splits prod.splits)

lemma makes_foldM [makes_rules]: "(\<And>x b. x \<in> set xs \<Longrightarrow> makes E C (f x b)) \<Longrightarrow> makes E C (foldM f xs b)"
  by (induction xs arbitrary: b) (auto intro!: makes_rules)

lemma makes_forM [makes_rules]: "(\<And>x. x \<in> set xs \<Longrightarrow> makes E C (f x)) \<Longrightarrow> makes E C (forM xs f)"
  by (induction xs) (auto intro!: makes_rules)

lemma makes_int_wrappers [makes_rules]:
  "C (SysOpen p f md) \<Longrightarrow> makes E C (c_open E p f md)"
  "C (SysClose fd) \<Longrightarrow> makes E C (c_close E fd)"
  "C (SysDup2 oldfd newfd) \<Longrightarrow> makes E C (c_dup2 E oldfd newfd)"
  "C (SysNanosleep a b) \<Longrightarrow> makes E C (c_nanosleep E a b)"
  "C (SysAccess p md) \<Longrightarrow> makes E C (c_access E p md)"
  "C (SysUnlink p) \<Longrightarrow> makes E C (c_unlink E p)"
  "C (SysChmod p md) \<Longrightarrow> makes E C (c_chmod E p md)"
  "C (SysMkdir p md) \<Longrightarrow> makes E C (c_mkdir E p md)"
  "C (SysRmdir p) \<Longrightarrow> makes E C (c_rmdir E p)"
  "C (SysAffinity pid cpus) \<Longrightarrow> makes E C (affinity_set E pid cpus)"
  "C (SysKill pid sg) \<Longrightarrow> makes E C (c_kill E pid sg)"
  "C (SysSigaction sg) \<Longrightarrow> makes E C (c_sigaction E sg)"
  "C (SysSocket a b c) \<Longrightarrow> makes E C (c_socket E a b c)"
  "C (SysConnect fd p) \<Longrightarrow> makes E C (c_connect E fd p)"
  "C (SysBind fd p) \<Longrightarrow> makes E C (c_bind E fd p)"
  "C (SysListen fd n) \<Longrightarrow> makes E C (c_listen E fd n)"
  "C (SysAccept4 fd n) \<Longrightarrow> makes E C (c_accept4 E fd n)"
  "C (SysFcntl fd a b) \<Longrightarrow> makes E C (c_fcntl E fd a b)"
  unfolding affinity_set_def c_accept4_def c_access_def c_bind_def c_chmod_def c_close_def c_connect_def c_dup2_def c_fcntl_def c_kill_def c_listen_def c_mkdir_def c_nanosleep_def c_open_def c_rmdir_def c_sigaction_def c_socket_def c_unlink_def sys_int_def
  by (auto intro!: makes_bind makes_sys_errno makes_ret)

lemma makes_data_wrappers [makes_rules]:
  "C (SysRead fd n) \<Longrightarrow> makes E C (c_read E fd n)"
  "C (SysWrite fd b) \<Longrightarrow> makes E C (c_write E fd b)"
  "C (SysFork ch) \<Longrightarrow> makes E C (c_fork E ch)"
  "C (SysWait pid) \<Longrightarrow> makes E C (c_waitpid E pid)"
  "C (SysGetdents fd n) \<Longrightarrow> makes E C (c_getdents64 E fd n)"
  "C (SysClock clk) \<Longrightarrow> makes E C (c_clock_gettime E clk)"
  "C (SysGetpid) \<Longrightarrow> makes E C (c_getpid E)"
  "C (SysGeteuid) \<Longrightarrow> makes E C (c_geteuid E)"
  "C (SysSendto fd b n []) \<Longrightarrow> makes E C (c_send E fd b n)"
  "C (SysSendto fd b n p) \<Longrightarrow> makes E C (c_sendto E fd b n p)"
  "C (SysRecvfrom fd n k) \<Longrightarrow> makes E C (c_recv E fd n k)"
  "C (SysSelect nf fs tv) \<Longrightarrow> makes E C (c_select E nf fs tv)"
  unfolding c_clock_gettime_def c_fork_def c_getdents64_def c_geteuid_def c_getpid_def c_read_def c_recv_def c_select_def c_send_def c_sendto_def c_waitpid_def c_write_def
  by (auto intro!: makes_bind makes_sys makes_sys_errno makes_ret)

lemma makes_getenv [makes_rules]: "makes E C (getenv nm)"
  unfolding getenv_def by (rule makes_gets)

lemma makes_mono: "makes E C m \<Longrightarrow> (\<And>c. C c \<Longrightarrow> C' c) \<Longrightarrow> makes E C' m"
  unfolding makes_def makes_pq_def by (meson list.pred_mono_strong)

subsection \<open>Consequences\<close>

text \<open>A property of the world that every allowed call keeps is kept by the fragment.\<close>

definition kept_by :: "'w env \<Rightarrow> ('w \<Rightarrow> bool) \<Rightarrow> (syscall \<Rightarrow> bool) \<Rightarrow> bool" where
  "kept_by E J C \<longleftrightarrow> (\<forall>c w. C c \<longrightarrow> J w \<longrightarrow> J (snd (kernel E c w)))"

lemma replay_kept: "kept_by E J C \<Longrightarrow> list_all C cs \<Longrightarrow> J w \<Longrightarrow> J (replay E cs w)"
  by (induction cs arbitrary: w) (auto simp: replay_def kept_by_def)

lemma makes_kept: "makes E C m \<Longrightarrow> kept_by E J C \<Longrightarrow> log_ok s \<Longrightarrow> J (world s) \<Longrightarrow> J (world (exec m s))"
  unfolding makes_def makes_pq_def using replay_kept by metis

lemma makes_log_ok: "makes E C m \<Longrightarrow> log_ok s \<Longrightarrow> log_ok (exec m s)"
  by (simp add: makes_def makes_pq_def)

subsection \<open>The journal\<close>

text \<open>The calls that logging makes; its descriptors and data are arbitrary.\<close>

definition log_calls :: "(syscall \<Rightarrow> bool) \<Rightarrow> bool" where
  "log_calls C \<longleftrightarrow> (\<forall>clk. C (SysClock clk)) \<and> (\<forall>a b c. C (SysSocket a b c)) \<and> (\<forall>fd d p. C (SysSendto fd d 0 p)) \<and>
     (\<forall>p fl md. prefix VAR_LOGS p \<longrightarrow> C (SysOpen p fl md)) \<and> (\<forall>fd d. C (SysWrite fd d)) \<and> (\<forall>fd. C (SysClose fd))"

lemma makes_plain_modify [makes_rules]:
  "makes E C (modify (\<lambda>s. s\<lparr>syslog_fd := fi s\<rparr>))" "makes E C (modify (\<lambda>s. s\<lparr>buffer_deferred := fs s\<rparr>))"
  "makes E C (modify (\<lambda>s. s\<lparr>cfg := fc s\<rparr>))" "makes E C (modify (\<lambda>s. s\<lparr>x3d_path_cache := fs s\<rparr>))"
  "makes E C (modify (\<lambda>s. s\<lparr>active_override := fi s\<rparr>))" "makes E C (modify (\<lambda>s. s\<lparr>wrapper_lock := fi s\<rparr>))"
  "makes E C (modify (\<lambda>s. s\<lparr>errno := fi s\<rparr>))" "makes E C (modify (\<lambda>s. s\<lparr>active_games := fi s\<rparr>))"
  "makes E C (modify (\<lambda>s. s\<lparr>last_target := fs s\<rparr>))" "makes E C (modify (\<lambda>s. s\<lparr>cur_mode := fs s\<rparr>))"
  "makes E C (modify (\<lambda>s. s\<lparr>target_mode := fs s\<rparr>))" "makes E C (modify (\<lambda>s. s\<lparr>p_stat := fp s\<rparr>))"
  "makes E C (modify (\<lambda>s. s\<lparr>c_stat := fp s\<rparr>))" "makes E C (modify (\<lambda>s. s\<lparr>active_keep := fb s\<rparr>))"
  "makes E C (modify (\<lambda>s. s\<lparr>bpf_active := fb s\<rparr>))" "makes E C (modify (\<lambda>s. s\<lparr>gl := fg s\<rparr>))"
  by (rule makes_modify; simp add: log_ok_def)+

lemma makes_journal_file [makes_rules]:
  assumes "log_calls C"
  shows "makes E C (journal_file E level summo ctx)"
proof -
  have syslog: "makes E C (journal_syslog E prio summ ctx)" for prio summ ctx
    unfolding journal_syslog_def using assms by (intro makes_rules) (auto simp: log_calls_def)
  let ?path = "\<lambda>ts. printf_sn E 256 (VAR_LOGS @ ''/x3d-%zu.log'') [ASize (nat (fst ts mod 2 ^ 64))]"
  have path: "prefix VAR_LOGS (?path ts)" for ts :: "int \<times> int"
    by (simp add: printf_sn_def printf_vsn_render VAR_LOGS_def fmt_simps)
  let ?log = "\<lambda>s. prefix VAR_LOGS (log_path s)"
  have set_path: "makes_pq (\<lambda>_. True) E C
      (do { p0 \<leftarrow> gets log_path; if p0 = [] then modify (\<lambda>s. s\<lparr>log_path := ?path ts\<rparr>) else ret () }) ?log" for ts
    using path by (auto simp: makes_pq_def replay_def log_ok_def intro!: exI [of _ "[]"])
  have wr: "makes_pq ?log E C
      (do { p \<leftarrow> gets log_path;
            fd \<leftarrow> c_open E p (O_WRONLY + O_CREAT + O_APPEND) 436;
            if fd \<ge> 0 then do { c_write E fd buf; c_close E fd; ret () } else ret () }) (\<lambda>_. True)" for buf
  proof -
    have "makes E C (do { fd \<leftarrow> c_open E p (O_WRONLY + O_CREAT + O_APPEND) 436;
            if fd \<ge> 0 then do { c_write E fd buf; c_close E fd; ret () } else ret () })" if "prefix VAR_LOGS p" for p
      using assms that by (intro makes_rules) (auto simp: log_calls_def)
    then show ?thesis by (auto simp: makes_def makes_pq_def exec_bind result_bind simp del: run_state_bind)
  qed
  have syslog_log: "makes_pq ?log E C (journal_syslog E prio summ ctx) ?log" for prio summ ctx
  proof (rule makes_pq_keep [OF syslog])
    have si: "sys_indep ?log" by (rule sys_indepI) simp
    show "keeps ?log (journal_syslog E prio summ ctx)"
      unfolding journal_syslog_def by (intro hoare_rules si hoare_modify) simp
  qed
  have clock: "makes_pq (\<lambda>_. True) E C (c_clock_gettime E CLOCK_REALTIME) (\<lambda>_. True)"
    using assms by (intro makes_rules [unfolded makes_def]) (auto simp: log_calls_def)
  have "makes_pq (\<lambda>_. True) E C (journal_file E level summo ctx) (\<lambda>_. True)"
    unfolding journal_file_def Let_def
  proof (rule makes_pq_bind [OF clock], goal_cases)
    case (1 ts)
    show ?case
      using makes_pq_bind [OF set_path [of ts] makes_pq_bind [OF syslog_log wr]] by (simp only: bind_assoc)
  qed
  then show ?thesis by (simp add: makes_def)
qed

lemma makes_journal [makes_rules]:
  assumes "log_calls C"
  shows "plain_code code \<Longrightarrow> makes E C (journal_error E code as)" "plain_code code \<Longrightarrow> makes E C (journal_warn E code as)"
    "plain_code code \<Longrightarrow> makes E C (journal_info E code as)" "plain_code code \<Longrightarrow> makes E C (journal_log E code as)"
    "makes E C (journal_debug E fmt as)" "makes E C (journal_diag E fmt as)" "makes E C (journal_write E prio fmt as)"
    "makes E C (syslog E prio fmt as)"
proof -
  have wd: "makes E C (with_details E code as k)" if "\<bar>code\<bar> \<noteq> 38" "\<And>x y. makes E C (k x y)" for code as k
    using that journal_get_None [of code] by (cases "details (journal_get code)") (simp_all add: with_details_def)
  have sl: "makes E C (journal_syslog E prio summ ctx)" for prio summ ctx
    unfolding journal_syslog_def using assms by (intro makes_rules) (auto simp: log_calls_def)
  show "plain_code code \<Longrightarrow> makes E C (journal_error E code as)" "plain_code code \<Longrightarrow> makes E C (journal_warn E code as)"
    "plain_code code \<Longrightarrow> makes E C (journal_info E code as)" "plain_code code \<Longrightarrow> makes E C (journal_log E code as)"
    unfolding journal_error_def journal_warn_def journal_info_def journal_log_def plain_code_def
    by - (rule wd; (intro makes_rules assms)?; simp)+
  show "makes E C (journal_debug E fmt as)" "makes E C (journal_diag E fmt as)" "makes E C (journal_write E prio fmt as)"
    "makes E C (syslog E prio fmt as)"
    unfolding journal_debug_def journal_diag_def journal_write_def syslog_def
    by - (intro makes_rules assms sl)+
qed

end
