(* ===== verification/Hardware.thy ===== *)
theory Hardware
  imports Calls
begin

section \<open>Steering the processor: modes.c, cppc.c, affinity.c and scheduler.c\<close>

text \<open>
  The operations that change the hardware: the V-cache mode node, the online switch of a core, the
  CPPC and cpufreq nodes of every core, the control group partitions and the scheduler's sysctls. Each is a short
  sequence of open, write and close whose result code depends on what the kernel answers.
  The command line handlers of \<^verbatim>\<open>modes.c\<close> and \<^verbatim>\<open>cppc.c\<close> are in the theory of the client.
\<close>

subsection \<open>The V-cache mode (src/daemon/modes.c)\<close>

fun find_path_loop :: "'w env \<Rightarrow> string list \<Rightarrow> ('w, string option) m" where
  "find_path_loop E [] = ret None"
| "find_path_loop E (t # ts) = do {
     r \<leftarrow> c_access E t R_OK;
     if r = 0 then do {
       modify (\<lambda>s. s\<lparr>x3d_path_cache := fit 256 t\<rparr>);
       c \<leftarrow> gets x3d_path_cache;
       ret (Some c)
     } else find_path_loop E ts
   }"

definition find_path :: "'w env \<Rightarrow> ('w, string option) m" where
  "find_path E = do {
     c \<leftarrow> gets x3d_path_cache;
     if c \<noteq> [] then ret (Some c) else find_path_loop E x3d_targets
   }"

text \<open>
  \<^verbatim>\<open>mode(buf, n)\<close>: the code and what \<^verbatim>\<open>buf\<close> holds afterwards. When the node cannot be opened or read, \<^verbatim>\<open>buf\<close> keeps what it had.
\<close>

definition mode :: "'w env \<Rightarrow> string \<Rightarrow> nat \<Rightarrow> ('w, int \<times> string) m" where
  "mode E old max_len = do {
     p \<leftarrow> find_path E;
     case p of
       None \<Rightarrow> ret (ERR_HW, fit max_len ''unknown'')
     | Some path \<Rightarrow> do {
         fd \<leftarrow> c_open E path O_RDONLY 0;
         if fd < 0 then ret (ERR_HW, old)
         else do {
           nd \<leftarrow> c_read E fd (max_len - 1);
           c_close E fd;
           if fst nd \<le> 0 then ret (ERR_IO, old)
           else ret (ERR_SUCCESS, takeWhile (\<lambda>c. c \<noteq> NL) (cstr (snd nd)))
         }
       }
   }"

definition mode_path :: "'w env \<Rightarrow> string \<Rightarrow> nat \<Rightarrow> ('w, int \<times> string) m" where
  "mode_path E old sz = do {
     p \<leftarrow> find_path E;
     case p of None \<Rightarrow> ret (ERR_HW, old) | Some path \<Rightarrow> ret (ERR_SUCCESS, fit sz path)
   }"

text \<open>Open for writing, one write, close: the idiom of most setters.\<close>

definition write_node :: "'w env \<Rightarrow> string \<Rightarrow> string \<Rightarrow> int \<Rightarrow> int \<Rightarrow> ('w, int) m" where
  "write_node E path val err_open err_write = do {
     fd \<leftarrow> c_open E path O_WRONLY 0;
     if fd < 0 then ret err_open
     else do {
       n \<leftarrow> c_write E fd val;
       c_close E fd;
       ret (if n > 0 then ERR_SUCCESS else err_write)
     }
   }"

definition cli_set_mode :: "'w env \<Rightarrow> string \<Rightarrow> ('w, int) m" where
  "cli_set_mode E target = do {
     p \<leftarrow> find_path E;
     case p of None \<Rightarrow> ret ERR_HW | Some path \<Rightarrow> write_node E path target ERR_HW ERR_IO
   }"

definition cli_set_dual :: "'w env \<Rightarrow> ('w, int) m" where
  "cli_set_dual E = cli_set_mode E ''dual''"

definition cli_set_swap :: "'w env \<Rightarrow> ('w, int) m" where
  "cli_set_swap E = cli_set_mode E ''swap''"

definition cli_set_core :: "'w env \<Rightarrow> int \<Rightarrow> bool \<Rightarrow> ('w, int) m" where
  "cli_set_core E core_id online =
     write_node E (printf_sn E 128 ''/sys/devices/system/cpu/cpu%d/online'' [AInt core_id])
       (if online then ''1'' else ''0'') ERR_HW ERR_IO"

subsection \<open>CPPC and cpufreq nodes (src/daemon/cppc.c)\<close>

definition cppc_boost :: "'w env \<Rightarrow> bool \<Rightarrow> ('w, int) m" where
  "cppc_boost E enable =
     write_node E ''/sys/devices/system/cpu/cpufreq/boost'' (if enable then ''1'' else ''0'') ERR_HW ERR_IO"

definition cppc_tdp :: "'w env \<Rightarrow> int \<Rightarrow> ('w, int) m" where
  "cppc_tdp E watts = do {
     journal_debug E ''Core: Requesting TDP limit adjustment to %d Watts'' [AInt watts];
     env \<leftarrow> gets environ;
     pid \<leftarrow> c_fork E \<lparr>c_redirect = False, c_path = ''/usr/bin/x3d-toggle'',
       c_argv = [''/usr/bin/x3d-toggle'', ''framework'', ''--set-tdp'', printf_sn E 16 ''%d'' [AInt watts]],
       c_env = env, c_fail = 1\<rparr>;
     if pid < 0 then ret ERR_IO
     else do { st \<leftarrow> c_waitpid E pid; ret (if exit_ok (snd st) then ERR_SUCCESS else ERR_IO) }
   }"

text \<open>
  The loop over cores: a node that cannot be opened is skipped, a failing write is remembered. The
  path is built from the format for the core's number.
\<close>

definition write_cores :: "'w env \<Rightarrow> string \<Rightarrow> string \<Rightarrow> int list \<Rightarrow> ('w, int) m" where
  "write_cores E fmt val cores =
     foldM (\<lambda>i r. do {
       fd \<leftarrow> c_open E (printf_sn E 256 fmt [AInt i]) O_WRONLY 0;
       if fd \<ge> 0 then do {
         n \<leftarrow> c_write E fd val;
         c_close E fd;
         ret (if n < 0 then ERR_IO else r)
       } else ret r
     }) cores ERR_SUCCESS"

definition all_cores :: "'w env \<Rightarrow> int list" where
  "all_cores E = [0..TOTAL_CORES E - 1]"

definition cppc_perf :: "'w env \<Rightarrow> int \<Rightarrow> ('w, int) m" where
  "cppc_perf E val =
     write_cores E ''/sys/devices/system/cpu/cpu%d/acpi_cppc/desired_perf'' (printf_sn E 16 ''%d'' [AInt val]) (all_cores E)"

definition epp_node :: string where
  "epp_node = ''/sys/devices/system/cpu/cpu%d/cpufreq/energy_performance_preference''"

definition cppc_epp :: "'w env \<Rightarrow> string \<Rightarrow> ('w, int) m" where
  "cppc_epp E val = write_cores E epp_node val (all_cores E)"

definition ccd_cores :: "'w env \<Rightarrow> int \<Rightarrow> int list" where
  "ccd_cores E ccd = [if ccd = 0 then 0 else CCD1_START E .. (if ccd = 0 then CCD1_START E else TOTAL_CORES E) - 1]"

definition cppc_ccd :: "'w env \<Rightarrow> int \<Rightarrow> string \<Rightarrow> ('w, int) m" where
  "cppc_ccd E ccd val = write_cores E epp_node val (ccd_cores E ccd)"

definition cppc_pstate :: "'w env \<Rightarrow> string \<Rightarrow> ('w, int) m" where
  "cppc_pstate E val = write_node E ''/sys/devices/system/cpu/amd_pstate/status'' val ERR_HW ERR_IO"

definition cppc_governor :: "'w env \<Rightarrow> string \<Rightarrow> ('w, int) m" where
  "cppc_governor E val =
     write_cores E ''/sys/devices/system/cpu/cpu%d/cpufreq/scaling_governor'' val (all_cores E)"

definition cppc_prefcore :: "'w env \<Rightarrow> bool \<Rightarrow> ('w, int) m" where
  "cppc_prefcore E enable =
     write_node E ''/sys/devices/system/cpu/amd_pstate/prefcore'' (if enable then ''1'' else ''0'') ERR_HW ERR_IO"

subsection \<open>Control group partitions (src/affinity.c)\<close>

definition CGROUP_ROOT :: string where "CGROUP_ROOT = ''/sys/fs/cgroup/x3d-toggle''"

definition cgroup_write_raw :: "'w env \<Rightarrow> string \<Rightarrow> string \<Rightarrow> ('w, int) m" where
  "cgroup_write_raw E rel_path val =
     write_node E (printf_sn E 512 ''%s/%s'' [AStr CGROUP_ROOT, AStr rel_path]) val ERR_CGROUP ERR_CGROUP"

text \<open>The masks and the result; when the discovery fails the buffers keep what they had.\<close>

definition freq_range :: "'w env \<Rightarrow> int \<Rightarrow> int \<Rightarrow> string" where
  "freq_range E ccd1_start total_cores = printf_sn E 128 ''%d-%d'' [AInt ccd1_start, AInt (total_cores - 1)]"

definition affinity_get_topology :: "'w env \<Rightarrow> string \<times> string \<Rightarrow> int \<times> string \<times> string" where
  "affinity_get_topology E old =
     (case ccd_result E of
        None \<Rightarrow> (- 1, old)
      | Some (cache, ccd1_start, total_cores) \<Rightarrow> (0, cache, freq_range E ccd1_start total_cores))"

definition affinity_init :: "'w env \<Rightarrow> ('w, int) m" where
  "affinity_init E = do {
     r1 \<leftarrow> c_mkdir E (CGROUP_ROOT @ ''/cache'') 493;
     e1 \<leftarrow> gets errno;
     if r1 < 0 \<and> e1 \<noteq> 17 then ret ERR_CGROUP
     else do {
       r2 \<leftarrow> c_mkdir E (CGROUP_ROOT @ ''/frequency'') 493;
       e2 \<leftarrow> gets errno;
       if r2 < 0 \<and> e2 \<noteq> 17 then ret ERR_CGROUP
       else do {
         (case ccd_result E of
            None \<Rightarrow> ret ()
          | Some (cache, ccd1_start, total_cores) \<Rightarrow> do {
              cgroup_write_raw E ''cache/cpuset.cpus'' cache;
              cgroup_write_raw E ''frequency/cpuset.cpus'' (freq_range E ccd1_start total_cores);
              ret ()
            });
         cgroup_write_raw E ''cache/cpuset.mems'' ''0'';
         cgroup_write_raw E ''frequency/cpuset.mems'' ''0'';
         ret ERR_SUCCESS
       }
     }
   }"

definition cgroup_write_pid :: "'w env \<Rightarrow> string \<Rightarrow> int \<Rightarrow> ('w, int) m" where
  "cgroup_write_pid E part pid =
     write_node E (printf_sn E 256 ''%s/%s/cgroup.procs'' [AStr CGROUP_ROOT, AStr part])
       (printf_sn E 16 ''%d'' [AInt pid]) ERR_CGROUP ERR_CGROUP"

definition affinity_default :: "'w env \<Rightarrow> int \<Rightarrow> ('w, int) m" where
  "affinity_default E pid = cgroup_write_pid E [] pid"

definition affinity_auto :: "'w env \<Rightarrow> int \<Rightarrow> ('w, int) m" where
  "affinity_auto E pid =
     write_node E ''/sys/fs/cgroup/cgroup.procs'' (printf_sn E 16 ''%d'' [AInt pid]) ERR_CGROUP ERR_CGROUP"

definition affinity_dual :: "'w env \<Rightarrow> int \<Rightarrow> ('w, int) m" where
  "affinity_dual E pid = affinity_default E pid"

definition affinity_swap :: "'w env \<Rightarrow> int \<Rightarrow> ('w, int) m" where
  "affinity_swap E pid = cgroup_write_pid E ''frequency'' pid"

definition PART_DUAL :: int where "PART_DUAL = 0"
definition PART_CACHE :: int where "PART_CACHE = 1"
definition PART_FREQ :: int where "PART_FREQ = 2"

definition affinity_partition :: "'w env \<Rightarrow> int \<Rightarrow> int \<Rightarrow> ('w, int) m" where
  "affinity_partition E pid part =
     (if part = 1 then cgroup_write_pid E ''cache'' pid
      else if part = 2 then cgroup_write_pid E ''frequency'' pid
      else affinity_default E pid)"

definition affinity_set_masks :: "'w env \<Rightarrow> string \<Rightarrow> string \<Rightarrow> ('w, int) m" where
  "affinity_set_masks E cache freq = do {
     r1 \<leftarrow> cgroup_write_raw E ''cache/cpuset.cpus'' cache;
     r2 \<leftarrow> cgroup_write_raw E ''frequency/cpuset.cpus'' freq;
     ret (if r1 = ERR_SUCCESS \<and> r2 = ERR_SUCCESS then ERR_SUCCESS else ERR_CGROUP)
   }"

subsection \<open>Scheduler profiles (src/scheduler.c)\<close>

datatype sched_t = SCHED_BALANCED | SCHED_GAMING

definition sysctl_kernel_write :: "'w env \<Rightarrow> string \<Rightarrow> string \<Rightarrow> ('w, int) m" where
  "sysctl_kernel_write E node val = do {
     let path = printf_sn E 128 ''%s%s'' [AStr ''/proc/sys/kernel/'', AStr node];
     if length path \<ge> 128 then ret (- 1)
     else do {
       fd \<leftarrow> c_open E path O_WRONLY 0;
       if fd < 0 then ret (- 1)
       else do {
         written \<leftarrow> c_write E fd val;
         close_res \<leftarrow> c_close E fd;
         ret (if written < 0 \<or> written \<noteq> int (length val) \<or> close_res < 0 then - 1 else 0)
       }
     }
   }"

definition scheduler_check :: "'w env \<Rightarrow> ('w, bool) m" where
  "scheduler_check E = do { r \<leftarrow> c_access E ''/proc/sys/kernel/sched_bore'' F_OK; ret (r = 0) }"

text \<open>The values of a profile: the bandwidth slice and, on a BORE kernel, the two BORE knobs.\<close>

definition sched_values :: "sched_t \<Rightarrow> string \<times> string \<times> string" where
  "sched_values p = (if p = SCHED_GAMING then (''3000'', ''1'', ''14'') else (''5000'', ''0'', ''12''))"

definition scheduler_set :: "'w env \<Rightarrow> sched_t \<Rightarrow> ('w, int) m" where
  "scheduler_set E p = do {
     uid \<leftarrow> c_geteuid E;
     if uid \<noteq> 0 then ret (- 1)
     else case sched_values p of (slice_us, bore, shift) \<Rightarrow> do {
       r1 \<leftarrow> sysctl_kernel_write E ''sched_cfs_bandwidth_slice_us'' slice_us;
       if r1 \<noteq> 0 then ret (- 1)
       else do {
         has_bore \<leftarrow> scheduler_check E;
         if has_bore then do {
           r2 \<leftarrow> sysctl_kernel_write E ''sched_bore'' bore;
           if r2 \<noteq> 0 then ret (- 1)
           else do {
             r3 \<leftarrow> sysctl_kernel_write E ''sched_bit_shift'' shift;
             ret (if r3 \<noteq> 0 then - 1 else 0)
           }
         } else ret 0
       }
     }
   }"

definition cli_mode_apply :: "'w env \<Rightarrow> int \<Rightarrow> ('w, int) m" where
  "cli_mode_apply E md = do {
     uid \<leftarrow> c_geteuid E;
     if uid \<noteq> 0 then ret 0
     else do {
       aff \<leftarrow> affinity_partition E 0 md;
       if aff \<noteq> 0 then do { journal_error E ERR_AFFINITY [AInt aff]; ret (- 1) }
       else do {
         r \<leftarrow> scheduler_set E (if md = PART_CACHE then SCHED_GAMING else SCHED_BALANCED);
         (if r \<noteq> 0 then journal_warn E ERR_HW [] else ret ());
         ret 0
       }
     }
   }"

subsection \<open>Frames and descriptors\<close>

text \<open>An invariant that does not look at what logging and the search for the mode node change.\<close>

definition hw_indep :: "('w prog \<Rightarrow> bool) \<Rightarrow> bool" where
  "hw_indep I \<longleftrightarrow> jrn_indep I \<and> (\<forall>s x. I s \<longrightarrow> I (s\<lparr>x3d_path_cache := x\<rparr>))"

lemma hw_jrn: "hw_indep I \<Longrightarrow> jrn_indep I"
  by (simp add: hw_indep_def)

lemma hw_sys: "hw_indep I \<Longrightarrow> sys_indep I"
  by (simp add: hw_indep_def jrn_indep_def)

lemma keeps_find_path:
  assumes "sys_indep I" "\<And>s x. I s \<Longrightarrow> I (s\<lparr>x3d_path_cache := x\<rparr>)"
  shows "keeps I (find_path E)"
proof -
  have "keeps I (find_path_loop E ts)" for ts
    by (induction ts) (use assms in \<open>auto intro!: hoare_rules hoare_modify\<close>)
  then show ?thesis unfolding find_path_def by (intro hoare_rules)
qed

lemma plain_codes [simp]:
  "plain_code ERR_AFFINITY" "plain_code ERR_HW" "plain_code ERR_IPC" "plain_code ERR_IO" "plain_code ERR_CGROUP"
  "plain_code ERR_DAEMON" "plain_code ERR_SYNTAX" "plain_code ERR_MISSING" "plain_code ERR_OFFLINE"
  "plain_code ERR_LOAD" "plain_code BPF_HIT" "plain_code DAEMON_TRANSIT" "plain_code DAEMON_START"
  "plain_code GAME_ADDED" "plain_code GAME_REMOVED" "plain_code ERR_REMOVE"
  by (simp_all add: plain_code_def err_codes)

lemma keeps_nodes [hoare_rules]:
  assumes "sys_indep I"
  shows "keeps I (write_node E path val a b)" "keeps I (write_cores E fmt val cores)"
    "keeps I (cli_set_core E i on)" "keeps I (cppc_boost E on)" "keeps I (cppc_perf E v)" "keeps I (cppc_epp E val)"
    "keeps I (cppc_ccd E i val)" "keeps I (cppc_pstate E val)" "keeps I (cppc_governor E val)"
    "keeps I (cppc_prefcore E on)" "keeps I (cgroup_write_raw E path val)" "keeps I (cgroup_write_pid E path i)"
    "keeps I (affinity_partition E i j)" "keeps I (affinity_set_masks E path val)"
    "keeps I (sysctl_kernel_write E path val)" "keeps I (scheduler_set E pf)"
    "keeps I (sysctl_write E path val)" "keeps I (sysctl_read E path n)"
proof -
  show node: "keeps I (write_node E path val a b)" for path val a b
    unfolding write_node_def by (intro hoare_rules assms)
  show cores: "keeps I (write_cores E fmt val cores)" for fmt val cores
    unfolding write_cores_def by (intro hoare_rules assms)
  show sysctl: "keeps I (sysctl_kernel_write E path val)" for path val
    unfolding sysctl_kernel_write_def by (intro hoare_rules assms)
  show "keeps I (scheduler_set E pf)"
    unfolding scheduler_set_def scheduler_check_def by (intro hoare_rules assms sysctl)
  show "keeps I (cgroup_write_raw E path val)" "keeps I (cgroup_write_pid E path i)"
    unfolding cgroup_write_raw_def cgroup_write_pid_def by (rule node)+
  show "keeps I (affinity_partition E i j)" "keeps I (affinity_set_masks E path val)"
    unfolding affinity_partition_def affinity_set_masks_def affinity_default_def cgroup_write_raw_def cgroup_write_pid_def
    by - (intro hoare_rules node)+
  show "keeps I (sysctl_write E path val)" "keeps I (sysctl_read E path n)"
    unfolding sysctl_write_def sysctl_read_def by - (intro hoare_rules assms)+
qed (unfold cli_set_core_def cppc_boost_def cppc_perf_def cppc_epp_def cppc_ccd_def cppc_pstate_def cppc_governor_def
    cppc_prefcore_def write_node_def write_cores_def, (intro hoare_rules assms)+)

lemma keeps_hw [hoare_rules]:
  assumes "hw_indep I"
  shows "keeps I (mode E old n)" "keeps I (mode_path E old n)" "keeps I (cli_set_mode E t)" "keeps I (cli_set_dual E)"
    "keeps I (cli_set_swap E)" "keeps I (cli_mode_apply E md)" "keeps I (cppc_tdp E w)"
  unfolding mode_def mode_path_def cli_set_dual_def cli_set_swap_def cli_set_mode_def cli_mode_apply_def cppc_tdp_def
  by - (intro hoare_rules keeps_find_path assms hw_sys [OF assms] hw_jrn [OF assms] plain_codes |
      use assms in \<open>simp add: hw_indep_def\<close>)+

lemma nets_find_path [nets_rules]: "nets 0 (find_path E)"
proof -
  have "nets 0 (find_path_loop E ts)" for ts
    by (induction ts) (auto intro!: nets_rules)
  then show ?thesis unfolding find_path_def by (intro nets_rules)
qed

lemma nets_nodes [nets_rules]:
  "nets 0 (write_node E path val a b)" "nets 0 (write_cores E fmt val cores)" "nets 0 (sysctl_kernel_write E path val)"
  "nets 0 (mode E old n)" "nets 0 (mode_path E old n)" "nets 0 (sysctl_write E path val)" "nets 0 (sysctl_read E path n)"
  unfolding write_node_def write_cores_def sysctl_kernel_write_def mode_def mode_path_def sysctl_write_def sysctl_read_def
  by - (linarith | rule fd_rules | rule nets_rules)+

lemma nets_hw [nets_rules]:
  "nets 0 (cli_set_mode E t)" "nets 0 (cli_set_dual E)" "nets 0 (cli_set_swap E)" "nets 0 (cli_set_core E i on)"
  "nets 0 (cppc_boost E on)" "nets 0 (cppc_tdp E w)" "nets 0 (cppc_perf E v)" "nets 0 (cppc_epp E val)"
  "nets 0 (cppc_ccd E i val)" "nets 0 (cppc_pstate E val)" "nets 0 (cppc_governor E val)" "nets 0 (cppc_prefcore E on)"
  "nets 0 (cgroup_write_raw E path val)" "nets 0 (cgroup_write_pid E path i)" "nets 0 (affinity_partition E i j)"
  "nets 0 (affinity_set_masks E path val)" "nets 0 (affinity_init E)" "nets 0 (scheduler_set E pf)"
  "nets 0 (cli_mode_apply E md)"
  unfolding cli_set_dual_def cli_set_swap_def cli_set_mode_def cli_set_core_def cppc_boost_def cppc_tdp_def cppc_perf_def
    cppc_epp_def cppc_ccd_def cppc_pstate_def cppc_governor_def cppc_prefcore_def cli_mode_apply_def affinity_partition_def
    affinity_set_masks_def affinity_init_def affinity_default_def cgroup_write_raw_def cgroup_write_pid_def
    scheduler_set_def scheduler_check_def
  by - (rule nets_rules)+

end
