(* ===== verification/Mode_Device.thy ===== *)
theory Mode_Device
  imports Hardware
begin

section \<open>The V-cache node as a device, and the hardware setters on it\<close>

text \<open>
  The driver of the V-cache node is not part of the program. \<open>mode_device\<close> states what it documents, and
  the theorems show what \<^verbatim>\<open>modes.c\<close> makes of it: setting a mode and reading it back. The second part has
  the theorems about the core and scheduler nodes, the last a concrete device for the witnesses.
\<close>

subsection \<open>What the driver documents\<close>

text \<open>
  Reading the node gives the current mode and a newline, writing
  \<^verbatim>\<open>cache\<close> or \<^verbatim>\<open>frequency\<close> sets it, nothing else the program does through other descriptors changes it (a forked
  child may). \<open>st\<close> is the mode in a world, \<open>fds\<close> the program's open descriptors of the node.
\<close>

definition modes :: "string set" where "modes = {''cache'', ''frequency''}"

text \<open>A call that neither opens the node nor starts another program.\<close>

definition off_node :: "string \<Rightarrow> syscall \<Rightarrow> bool" where
  "off_node p c \<longleftrightarrow> (\<forall>fl md. c \<noteq> SysOpen p fl md) \<and> (\<forall>ch. c \<noteq> SysFork ch)"

definition device_open :: "'w env \<Rightarrow> string \<Rightarrow> ('w \<Rightarrow> string) \<Rightarrow> ('w \<Rightarrow> int set) \<Rightarrow> bool" where
  "device_open E p st fds \<longleftrightarrow>
     (\<forall>w fl md. fds w = {} \<longrightarrow> fl \<in> plain_flags \<longrightarrow>
        (\<exists>fd w'. kernel E (SysOpen p fl md) w = (Ret fd, w') \<and> 0 \<le> fd \<and> fd < 2 ^ 31 \<and> fds w' = {fd} \<and> st w' = st w))"

definition device_read :: "'w env \<Rightarrow> ('w \<Rightarrow> string) \<Rightarrow> ('w \<Rightarrow> int set) \<Rightarrow> bool" where
  "device_read E st fds \<longleftrightarrow>
     (\<forall>w fd n. fds w = {fd} \<longrightarrow>
        (\<exists>w'. kernel E (SysRead fd n) w = (Data (take n (st w @ [NL])), w') \<and> fds w' = {fd} \<and> st w' = st w))"

definition device_write :: "'w env \<Rightarrow> ('w \<Rightarrow> string) \<Rightarrow> ('w \<Rightarrow> int set) \<Rightarrow> bool" where
  "device_write E st fds \<longleftrightarrow>
     (\<forall>w fd v. fds w = {fd} \<longrightarrow> v \<in> modes \<longrightarrow>
        (\<exists>w'. kernel E (SysWrite fd v) w = (Ret (int (length v)), w') \<and> fds w' = {fd} \<and> st w' = v))"

definition device_close :: "'w env \<Rightarrow> ('w \<Rightarrow> string) \<Rightarrow> ('w \<Rightarrow> int set) \<Rightarrow> bool" where
  "device_close E st fds \<longleftrightarrow>
     (\<forall>w fd. fds w = {fd} \<longrightarrow> fds (snd (kernel E (SysClose fd) w)) = {} \<and> st (snd (kernel E (SysClose fd) w)) = st w)"

definition device_apart :: "'w env \<Rightarrow> string \<Rightarrow> ('w \<Rightarrow> string) \<Rightarrow> ('w \<Rightarrow> int set) \<Rightarrow> bool" where
  "device_apart E p st fds \<longleftrightarrow>
     (\<forall>w c. fds w = {} \<longrightarrow> off_node p c \<longrightarrow> fds (snd (kernel E c w)) = {} \<and> st (snd (kernel E c w)) = st w)"

definition mode_device :: "'w env \<Rightarrow> string \<Rightarrow> ('w \<Rightarrow> string) \<Rightarrow> ('w \<Rightarrow> int set) \<Rightarrow> bool" where
  "mode_device E p st fds \<longleftrightarrow> (\<forall>w. st w \<in> modes) \<and> device_open E p st fds \<and> device_read E st fds \<and>
     device_write E st fds \<and> device_close E st fds \<and> device_apart E p st fds"

text \<open>The node is the first of the known paths that can be read.\<close>

definition node_at :: "'w env \<Rightarrow> string \<Rightarrow> bool" where
  "node_at E p \<longleftrightarrow> (\<exists>pre post. x3d_targets = pre @ p # post \<and>
     (\<forall>t \<in> set pre. \<forall>w. fst (kernel E (SysAccess t R_OK) w) = Ret (- 2)) \<and>
     (\<forall>w. fst (kernel E (SysAccess p R_OK) w) = Ret 0))"

text \<open>Between two operations: the mode is \<open>m\<close>, no descriptor of the node is open. On a descriptor: \<open>fd\<close> is.\<close>

definition in_mode :: "string \<Rightarrow> ('w \<Rightarrow> string) \<Rightarrow> ('w \<Rightarrow> int set) \<Rightarrow> string \<Rightarrow> 'w prog \<Rightarrow> bool" where
  "in_mode p st fds m s \<longleftrightarrow> fds (world s) = {} \<and> st (world s) = m \<and> x3d_path_cache s \<in> {[], p} \<and> log_ok s"

definition on_node :: "string \<Rightarrow> ('w \<Rightarrow> string) \<Rightarrow> ('w \<Rightarrow> int set) \<Rightarrow> string \<Rightarrow> int \<Rightarrow> 'w prog \<Rightarrow> bool" where
  "on_node p st fds m fd s \<longleftrightarrow> fds (world s) = {fd} \<and> st (world s) = m \<and> x3d_path_cache s \<in> {[], p} \<and> log_ok s"

subsection \<open>Triples for the device\<close>

lemma off_node_kept: "mode_device E p st fds \<Longrightarrow> kept_by E (\<lambda>w. fds w = {} \<and> st w = m) (off_node p)"
  by (simp add: mode_device_def device_apart_def kept_by_def)

lemma in_mode_makes:
  assumes "mode_device E p st fds" "makes E (off_node p) n" "keeps (\<lambda>s. x3d_path_cache s \<in> {[], p}) n"
  shows "keeps (in_mode p st fds m) n"
  unfolding hoare_def in_mode_def
  using makes_kept [OF assms(2) off_node_kept [OF assms(1)], of _ m] makes_log_ok [OF assms(2)] hoareD [OF assms(3)]
  by blast

lemma targets_short: "t \<in> set x3d_targets \<Longrightarrow> fit 256 t = t \<and> t \<noteq> []"
  by (auto simp: x3d_targets_def)

lemma off_node_access [simp]: "off_node p (SysAccess t md)"
  by (simp add: off_node_def)

lemma find_path_loop_finds:
  assumes "\<forall>t \<in> set pre. \<forall>w. fst (kernel E (SysAccess t R_OK) w) = Ret (- 2)"
    "\<forall>w. fst (kernel E (SysAccess p R_OK) w) = Ret 0" "fit 256 p = p"
  shows "result (find_path_loop E (pre @ p # post)) s = Some p \<and>
    x3d_path_cache (exec (find_path_loop E (pre @ p # post)) s) = p"
  using assms(1)
proof (induction pre arbitrary: s)
  case Nil
  then show ?case using assms(2,3) by (simp add: c_access_def run_sys_int Let_def failed_def s32_id)
next
  case (Cons t pre)
  then have "result (c_access E t R_OK) s \<noteq> 0"
    by (simp add: c_access_def run_sys_int Let_def failed_def)
  with Cons show ?case by (simp add: exec_bind result_bind del: run_state_bind)
qed

lemma makes_find_path: "(\<And>t. C (SysAccess t R_OK)) \<Longrightarrow> makes E C (find_path E)"
proof -
  assume C: "\<And>t. C (SysAccess t R_OK)"
  have "makes E C (find_path_loop E ts)" for ts
    by (induction ts) (auto intro!: makes_rules C)
  then show ?thesis unfolding find_path_def by (intro makes_rules)
qed

lemma hoare_find_path:
  assumes D: "mode_device E p st fds" and N: "node_at E p"
  shows "hoare (in_mode p st fds m) (find_path E) (\<lambda>r s. r = Some p \<and> in_mode p st fds m s)"
  unfolding hoare_def
proof (intro allI impI)
  fix s assume s: "in_mode p st fds m s"
  obtain pre post where pp: "x3d_targets = pre @ p # post"
    "\<forall>t \<in> set pre. \<forall>w. fst (kernel E (SysAccess t R_OK) w) = Ret (- 2)"
    "\<forall>w. fst (kernel E (SysAccess p R_OK) w) = Ret 0"
    using N unfolding node_at_def by blast
  have short: "fit 256 p = p \<and> p \<noteq> []" by (rule targets_short) (simp add: pp(1))
  have "result (find_path E) s = Some p \<and> x3d_path_cache (exec (find_path E) s) = p"
    using s find_path_loop_finds [OF pp(2,3), of post s, folded pp(1)] short
    by (auto simp: in_mode_def find_path_def exec_bind result_bind simp del: run_state_bind)
  moreover have "makes E (off_node p) (find_path E)" by (rule makes_find_path) simp
  ultimately show "result (find_path E) s = Some p \<and> in_mode p st fds m (exec (find_path E) s)"
    using s makes_kept [OF _ off_node_kept [OF D], of "find_path E" s m] makes_log_ok [of E "off_node p" "find_path E" s]
    by (simp add: in_mode_def)
qed

lemma hoare_node_open:
  assumes D: "mode_device E p st fds" and fl: "fl \<in> plain_flags"
  shows "hoare (in_mode p st fds m) (c_open E p fl 0) (\<lambda>fd s. 0 \<le> fd \<and> on_node p st fds m fd s)"
  unfolding hoare_def
proof (intro allI impI)
  fix s assume s: "in_mode p st fds m s"
  with D fl obtain fd w' where "kernel E (SysOpen p fl 0) (world s) = (Ret fd, w')" "0 \<le> fd" "fd < 2 ^ 31"
    "fds w' = {fd}" "st w' = m"
    unfolding mode_device_def device_open_def in_mode_def by metis
  with s show "0 \<le> result (c_open E p fl 0) s \<and> on_node p st fds m (result (c_open E p fl 0) s) (exec (c_open E p fl 0) s)"
    by (simp add: c_open_def run_sys_int failed_def s32_id in_mode_def on_node_def log_ok_def Let_def)
qed

lemma hoare_node_read:
  assumes D: "mode_device E p st fds" and n: "length m < n"
  shows "hoare (on_node p st fds m fd) (c_read E fd n) (\<lambda>r s. r = (int (length m) + 1, m @ [NL]) \<and> on_node p st fds m fd s)"
  unfolding hoare_def
proof (intro allI impI)
  fix s assume s: "on_node p st fds m fd s"
  with D obtain w' where "kernel E (SysRead fd n) (world s) = (Data (take n (m @ [NL])), w')" "fds w' = {fd}" "st w' = m"
    unfolding mode_device_def device_read_def on_node_def by metis
  with s n show "result (c_read E fd n) s = (int (length m) + 1, m @ [NL]) \<and> on_node p st fds m fd (exec (c_read E fd n) s)"
    by (simp add: c_read_def run_sys_errno failed_def filled_def on_node_def log_ok_def Let_def)
qed

lemma hoare_node_write:
  assumes D: "mode_device E p st fds" and v: "v \<in> modes"
  shows "hoare (on_node p st fds m fd) (c_write E fd v) (\<lambda>r s. r = int (length v) \<and> on_node p st fds v fd s)"
  unfolding hoare_def
proof (intro allI impI)
  fix s assume s: "on_node p st fds m fd s"
  with D v obtain w' where "kernel E (SysWrite fd v) (world s) = (Ret (int (length v)), w')" "fds w' = {fd}" "st w' = v"
    unfolding mode_device_def device_write_def on_node_def by metis
  with s show "result (c_write E fd v) s = int (length v) \<and> on_node p st fds v fd (exec (c_write E fd v) s)"
    by (simp add: c_write_def run_sys_errno failed_def on_node_def log_ok_def Let_def)
qed

lemma hoare_node_close:
  assumes "mode_device E p st fds"
  shows "hoare (on_node p st fds m fd) (c_close E fd) (\<lambda>_. in_mode p st fds m)"
  using assms
  by (auto simp: hoare_def mode_device_def device_close_def on_node_def in_mode_def c_close_def run_sys_int log_ok_def Let_def)

lemma modes_facts: "v \<in> modes \<Longrightarrow> length v < 31 \<and> v \<noteq> [] \<and> cstring v \<and> NL \<notin> set v"
  by (auto simp: modes_def cstring_def)

text \<open>The setter drives the device to the mode it is given.\<close>

lemma hoare_cli_set_mode:
  assumes D: "mode_device E p st fds" and N: "node_at E p" and v: "v \<in> modes"
  shows "hoare (in_mode p st fds m) (cli_set_mode E v) (\<lambda>r s. r = ERR_SUCCESS \<and> in_mode p st fds v s)"
proof -
  have wr: "O_WRONLY \<in> plain_flags" by (simp add: plain_flags_def)
  have tail: "hoare (on_node p st fds v fd) (do { c_close E fd; ret (if n > 0 then ERR_SUCCESS else ERR_IO) })
      (\<lambda>r s. r = ERR_SUCCESS \<and> in_mode p st fds v s)" if "n = int (length v)" for fd and n :: int
    using modes_facts [OF v] that by (intro hoare_bind [OF hoare_node_close [OF D]] hoare_ret) simp
  have body: "hoare (on_node p st fds m fd) (do { n \<leftarrow> c_write E fd v; c_close E fd; ret (if n > 0 then ERR_SUCCESS else ERR_IO) })
      (\<lambda>r s. r = ERR_SUCCESS \<and> in_mode p st fds v s)" for fd
    by (rule hoare_bind [OF hoare_node_write [OF D v]]) (use tail in \<open>auto simp: hoare_def simp del: run_state_bind\<close>)
  have "hoare (in_mode p st fds m) (write_node E p v ERR_HW ERR_IO) (\<lambda>r s. r = ERR_SUCCESS \<and> in_mode p st fds v s)"
    unfolding write_node_def
    by (rule hoare_bind [OF hoare_node_open [OF D wr]]) (use body in \<open>auto simp: hoare_def simp del: run_state_bind\<close>)
  then show ?thesis
    unfolding cli_set_mode_def
    by (intro hoare_bind [OF hoare_find_path [OF D N]]) (auto simp: hoare_def simp del: run_state_bind)
qed

text \<open>Reading gives the mode back, without the newline, in every buffer of the program (32 bytes or more).\<close>

lemma hoare_mode:
  assumes D: "mode_device E p st fds" and N: "node_at E p" and n: "32 \<le> n"
  shows "hoare (in_mode p st fds m) (mode E old n) (\<lambda>r s. r = (ERR_SUCCESS, m) \<and> in_mode p st fds m s)"
proof (cases "m \<in> modes")
  case False
  then show ?thesis using D by (auto simp: hoare_def in_mode_def mode_device_def)
next
  case True
  note m = modes_facts [OF True]
  have ro: "O_RDONLY \<in> plain_flags" by (simp add: plain_flags_def)
  let ?rest = "\<lambda>fd nd. do { c_close E fd;
       if fst nd \<le> 0 then ret (ERR_IO, old) else ret (ERR_SUCCESS, takeWhile (\<lambda>c. c \<noteq> NL) (cstr (snd nd))) }"
  have tail: "hoare (on_node p st fds m fd) (?rest fd (int (length m) + 1, m @ [NL]))
      (\<lambda>r s. r = (ERR_SUCCESS, m) \<and> in_mode p st fds m s)" for fd
    using m by (intro hoare_bind [OF hoare_node_close [OF D]]) (simp add: hoare_def cstr_simps)
  have rd: "length m < n - 1" using m n by linarith
  have body: "hoare (on_node p st fds m fd) (do { nd \<leftarrow> c_read E fd (n - 1); ?rest fd nd })
      (\<lambda>r s. r = (ERR_SUCCESS, m) \<and> in_mode p st fds m s)" for fd
    by (rule hoare_bind [OF hoare_node_read [OF D rd]]) (use tail in \<open>auto simp: hoare_def simp del: run_state_bind\<close>)
  have "hoare (in_mode p st fds m) (do { fd \<leftarrow> c_open E p O_RDONLY 0;
      if fd < 0 then ret (ERR_HW, old) else do { nd \<leftarrow> c_read E fd (n - 1); ?rest fd nd } })
      (\<lambda>r s. r = (ERR_SUCCESS, m) \<and> in_mode p st fds m s)"
    by (rule hoare_bind [OF hoare_node_open [OF D ro]]) (use body in \<open>auto simp: hoare_def simp del: run_state_bind\<close>)
  then show ?thesis
    unfolding mode_def
    by (intro hoare_bind [OF hoare_find_path [OF D N]]) (auto simp: hoare_def simp del: run_state_bind)
qed

text \<open>
  C21. Setting the V-cache mode works end to end: for a driver that behaves as documented, with the node at one
  of the known paths, \<^verbatim>\<open>cli_set_mode\<close> reports success and a following \<^verbatim>\<open>mode()\<close> reports success and leaves exactly
  the requested mode in the caller's buffer, whatever the mode was before, and no descriptor of the node stays open.
\<close>

theorem set_mode_then_read:
  assumes D: "mode_device E p st fds" and N: "node_at E p" and v: "v \<in> {''cache'', ''frequency''}"
    and n: "32 \<le> n" and s: "in_mode p st fds m s"
  shows "result (do { r \<leftarrow> cli_set_mode E v; b \<leftarrow> mode E old n; ret (r, b) }) s = (ERR_SUCCESS, ERR_SUCCESS, v) \<and>
    in_mode p st fds v (exec (do { r \<leftarrow> cli_set_mode E v; b \<leftarrow> mode E old n; ret (r, b) }) s)"
proof -
  have v: "v \<in> modes" using v by (simp add: modes_def)
  from hoareD [OF hoare_cli_set_mode [OF D N v] s] hoareD [OF hoare_mode [OF D N n]]
  show ?thesis by (simp add: exec_bind result_bind del: run_state_bind)
qed

subsection \<open>Core and scheduler nodes\<close>

text \<open>The paths opened and the data written since the trace was \<open>t\<close>.\<close>

definition opened :: "event list \<Rightarrow> string list" where
  "opened t = List.map_filter (\<lambda>c. case c of SysOpen p fl md \<Rightarrow> Some p | _ \<Rightarrow> None) (calls t)"

definition written :: "event list \<Rightarrow> string list" where
  "written t = List.map_filter (\<lambda>c. case c of SysWrite fd d \<Rightarrow> Some d | _ \<Rightarrow> None) (calls t)"

definition since :: "'w prog \<Rightarrow> 'w prog \<Rightarrow> event list" where
  "since s s' = drop (length (trace s)) (trace s')"

lemma opened_simps [simp]:
  "opened [] = []" "opened (Sys (SysOpen p fl md) r # t) = p # opened t" "opened (Sys (SysWrite fd d) r # t) = opened t"
  "opened (Sys (SysClose fd) r # t) = opened t" "opened (Sys SysGeteuid r # t) = opened t"
  "opened (Sys (SysAccess p md) r # t) = opened t" "opened (t @ u) = opened t @ opened u"
  by (simp_all add: opened_def map_filter_def)

lemma written_simps [simp]:
  "written [] = []" "written (Sys (SysOpen p fl md) r # t) = written t" "written (Sys (SysWrite fd d) r # t) = d # written t"
  "written (Sys (SysClose fd) r # t) = written t" "written (t @ u) = written t @ written u"
  by (simp_all add: written_def map_filter_def)

text \<open>What the loop over cores does, whatever the kernel answers.\<close>

lemma write_cores_trace:
  "\<exists>t. trace (exec (write_cores E fmt val cores) s) = trace s @ t \<and>
     opened t = map (\<lambda>i. printf_sn E 256 fmt [AInt i]) cores \<and> set (written t) \<subseteq> {val}"
proof -
  define f where "f i r = do {
       fd \<leftarrow> c_open E (printf_sn E 256 fmt [AInt i]) O_WRONLY 0;
       if fd \<ge> 0 then do { n \<leftarrow> c_write E fd val; c_close E fd; ret (if n < 0 then ERR_IO else r) } else ret r }" for i r
  have step: "\<exists>t. trace (exec (f i r) s) = trace s @ t \<and> opened t = [printf_sn E 256 fmt [AInt i]] \<and>
      set (written t) \<subseteq> {val}" for i r s
    by (auto simp: f_def c_open_def c_write_def c_close_def run_sys_int run_sys_errno Let_def)
  have "\<exists>t. trace (exec (foldM f cores r) s) = trace s @ t \<and>
     opened t = map (\<lambda>i. printf_sn E 256 fmt [AInt i]) cores \<and> set (written t) \<subseteq> {val}" for r
  proof (induction cores arbitrary: r s)
    case (Cons i cores)
    obtain t where t: "trace (exec (f i r) s) = trace s @ t" "opened t = [printf_sn E 256 fmt [AInt i]]"
      "set (written t) \<subseteq> {val}" using step by blast
    obtain u where u: "trace (exec (foldM f cores (result (f i r) s)) (exec (f i r) s)) = trace (exec (f i r) s) @ u"
      "opened u = map (\<lambda>i. printf_sn E 256 fmt [AInt i]) cores" "set (written u) \<subseteq> {val}" using Cons by blast
    show ?case using t u by (intro exI [of _ "t @ u"]) (simp add: exec_bind del: run_state_bind)
  qed simp
  then show ?thesis unfolding write_cores_def f_def .
qed

text \<open>
  The two dies cover the processor: when the second die starts inside the core range, \<^verbatim>\<open>cppc_ccd(0, v)\<close>
  followed by \<^verbatim>\<open>cppc_ccd(1, w)\<close> opens the preference node of every core exactly once, in the order \<^verbatim>\<open>cppc_epp\<close> uses,
  the first call only those below \<^verbatim>\<open>CCD1_START\<close>, and what each call writes is the preference it was given.
\<close>

theorem cppc_ccd_partition:
  assumes "0 \<le> CCD1_START E" "CCD1_START E \<le> TOTAL_CORES E"
  shows "let s1 = exec (cppc_ccd E 0 v) s; s2 = exec (cppc_ccd E 1 w) s1 in
    opened (since s s1) = map (\<lambda>i. printf_sn E 256 epp_node [AInt i]) [0..CCD1_START E - 1] \<and>
    opened (since s s2) = opened (since s (exec (cppc_epp E u) s)) \<and>
    set (written (since s s1)) \<subseteq> {v} \<and> set (written (since s1 s2)) \<subseteq> {w}"
proof -
  define s1 where "s1 = exec (cppc_ccd E 0 v) s"
  define s2 where "s2 = exec (cppc_ccd E 1 w) s1"
  obtain t1 where t1: "trace s1 = trace s @ t1" "opened t1 = map (\<lambda>i. printf_sn E 256 epp_node [AInt i]) (ccd_cores E 0)"
    "set (written t1) \<subseteq> {v}"
    using write_cores_trace [of E epp_node v "ccd_cores E 0" s] unfolding s1_def cppc_ccd_def by blast
  obtain t2 where t2: "trace s2 = trace s1 @ t2" "opened t2 = map (\<lambda>i. printf_sn E 256 epp_node [AInt i]) (ccd_cores E 1)"
    "set (written t2) \<subseteq> {w}"
    using write_cores_trace [of E epp_node w "ccd_cores E 1" s1] unfolding s2_def cppc_ccd_def by blast
  obtain t3 where t3: "trace (exec (cppc_epp E u) s) = trace s @ t3"
    "opened t3 = map (\<lambda>i. printf_sn E 256 epp_node [AInt i]) (all_cores E)"
    using write_cores_trace [of E epp_node u "all_cores E" s] unfolding cppc_epp_def by blast
  have "[0..TOTAL_CORES E - 1] = [0..CCD1_START E - 1] @ [CCD1_START E..TOTAL_CORES E - 1]"
    using assms(1,2) upto_split1 [of 0 "CCD1_START E" "TOTAL_CORES E - 1"]
    by (cases "CCD1_START E = TOTAL_CORES E") simp_all
  then have "opened (since s s1) = map (\<lambda>i. printf_sn E 256 epp_node [AInt i]) [0..CCD1_START E - 1] \<and>
    opened (since s s2) = opened (since s (exec (cppc_epp E u) s)) \<and>
    set (written (since s s1)) \<subseteq> {v} \<and> set (written (since s1 s2)) \<subseteq> {w}"
    using t1 t2 t3 by (simp add: since_def ccd_cores_def all_cores_def)
  then show ?thesis by (simp add: s1_def s2_def Let_def)
qed

lemma itoa_small: "xui_itoa 10 (s32 0) = ''0''" "xui_itoa 10 (s32 1) = ''1''"
  by code_simp+

theorem cppc_ccd_partition_witness:
  "opened (since (mem_start Map.empty []) (exec (cppc_ccd mem_env 0 ''performance'') (mem_start Map.empty []))) =
    [''/sys/devices/system/cpu/cpu0/cpufreq/energy_performance_preference'',
     ''/sys/devices/system/cpu/cpu1/cpufreq/energy_performance_preference'']"
  using cppc_ccd_partition [of mem_env "''performance''" "mem_start Map.empty []" "''power''" "''power''"]
  by (simp add: Let_def epp_node_def printf_sn_def printf_vsn_render fmt_simps upto.simps itoa_small)

text \<open>Since \<open>s0\<close> the program has opened \<open>ps\<close> and written \<open>ws\<close>.\<close>

definition did :: "'w prog \<Rightarrow> string list \<Rightarrow> string list \<Rightarrow> 'w prog \<Rightarrow> bool" where
  "did s0 ps ws s \<longleftrightarrow> (\<exists>t. trace s = trace s0 @ t \<and> opened t = ps \<and> written t = ws)"

definition sysctl_path :: "'w env \<Rightarrow> string \<Rightarrow> string" where
  "sysctl_path E node = printf_sn E 128 ''%s%s'' [AStr ''/proc/sys/kernel/'', AStr node]"

lemma did_sysctl_kernel_write:
  assumes "did s0 ps ws s"
  obtains ws' where "did s0 (ps @ [sysctl_path E node]) ws' (exec (sysctl_kernel_write E node val) s)"
    "result (sysctl_kernel_write E node val) s \<in> {0, - 1}"
    "result (sysctl_kernel_write E node val) s = 0 \<Longrightarrow> ws' = ws @ [val]"
proof -
  have "\<exists>ws'. did s0 (ps @ [sysctl_path E node]) ws' (exec (sysctl_kernel_write E node val) s) \<and>
    result (sysctl_kernel_write E node val) s \<in> {0, - 1} \<and>
    (result (sysctl_kernel_write E node val) s = 0 \<longrightarrow> ws' = ws @ [val])"
    using assms length_printf_vsn [of 128 "xui_symbols E" "''%s%s''" "[AStr ''/proc/sys/kernel/'', AStr node]"]
    by (auto simp: did_def sysctl_kernel_write_def sysctl_path_def printf_sn_def c_open_def c_write_def c_close_def
        run_sys_int run_sys_errno Let_def)
  then show ?thesis using that by blast
qed

lemma did_quiet:
  "did s0 ps ws s \<Longrightarrow> did s0 ps ws (exec (c_geteuid E) s)" "did s0 ps ws s \<Longrightarrow> did s0 ps ws (exec (scheduler_check E) s)"
  by (auto simp: did_def c_geteuid_def scheduler_check_def c_access_def run_sys run_sys_int Let_def written_def
      map_filter_def)


definition sched_start :: "mem_world prog" where
  "sched_start = mem_start [''/proc/sys/kernel/sched_cfs_bandwidth_slice_us'' \<mapsto> ''5000''] []"

lemma sched_start_runs: "result (scheduler_set mem_env SCHED_GAMING) sched_start = 0"
  by code_simp


subsection \<open>A device in memory\<close>

text \<open>The first known path is the node; everything else is the kernel with files in memory.\<close>

record dev_world =
  dv_mem :: mem_world
  dv_cache :: bool
  dv_fds :: "int set"

definition dev_node :: string where "dev_node = ''/sys/class/amd_x3d/vcache_mode''"

definition dv_mode :: "dev_world \<Rightarrow> string" where
  "dv_mode w = (if dv_cache w then ''cache'' else ''frequency'')"

definition dev_kernel :: "syscall \<Rightarrow> dev_world \<Rightarrow> sysres \<times> dev_world" where
  "dev_kernel c w =
     (let other = (case mem_kernel c (dv_mem w) of (r, m) \<Rightarrow> (r, w\<lparr>dv_mem := m\<rparr>)) in
      case c of
        SysOpen p fl md \<Rightarrow> if p = dev_node then (Ret 2000000000, w\<lparr>dv_fds := {2000000000}\<rparr>) else other
      | SysRead fd n \<Rightarrow> if fd \<in> dv_fds w then (Data (take n (dv_mode w @ [NL])), w) else other
      | SysWrite fd d \<Rightarrow>
          if fd \<notin> dv_fds w then other
          else if d = ''cache'' \<or> d = ''frequency'' then (Ret (int (length d)), w\<lparr>dv_cache := (d = ''cache'')\<rparr>)
          else (Ret (- 22), w)
      | SysClose fd \<Rightarrow> if fd \<in> dv_fds w then (Ret 0, w\<lparr>dv_fds := dv_fds w - {fd}\<rparr>) else other
      | SysAccess p md \<Rightarrow> if p = dev_node then (Ret 0, w) else other
      | _ \<Rightarrow> other)"

definition dev_env :: "dev_world env" where
  "dev_env =
     \<lparr>kernel = dev_kernel, xui_symbols = [], garbage = ''?'', CONFIG_PATH = CONFIG_PATH mem_env,
      TOTAL_CORES = 4, CCD1_START = 2, ccd_result = Some (''0-1'', 2, 4), defaults = mem_defaults\<rparr>"

definition dev_start :: "bool \<Rightarrow> dev_world prog" where
  "dev_start b = initial_prog \<lparr>dv_mem = world (mem_start Map.empty []), dv_cache = b, dv_fds = {}\<rparr>"

lemma dev_mode_device: "mode_device dev_env dev_node dv_mode dv_fds"
  unfolding mode_device_def
proof (intro conjI allI)
  fix w show "dv_mode w \<in> modes" by (simp add: dv_mode_def modes_def)
  show "device_open dev_env dev_node dv_mode dv_fds"
    by (auto simp: device_open_def dev_env_def dev_kernel_def dv_mode_def)
  show "device_read dev_env dv_mode dv_fds"
    by (auto simp: device_read_def dev_env_def dev_kernel_def)
  show "device_write dev_env dv_mode dv_fds"
    by (auto simp: device_write_def dev_env_def dev_kernel_def dv_mode_def modes_def)
  show "device_close dev_env dv_mode dv_fds"
    by (auto simp: device_close_def dev_env_def dev_kernel_def dv_mode_def)
  show "device_apart dev_env dev_node dv_mode dv_fds"
    by (auto simp: device_apart_def dev_env_def dev_kernel_def dv_mode_def off_node_def Let_def split: syscall.splits prod.splits)
qed

lemma dev_node_at: "node_at dev_env dev_node"
  unfolding node_at_def
  by (rule exI [of _ "[]"]) (auto simp: x3d_targets_def dev_node_def dev_env_def dev_kernel_def)

lemma dev_in_mode: "in_mode dev_node dv_mode dv_fds (if b then ''cache'' else ''frequency'') (dev_start b)"
  by (simp add: in_mode_def dev_start_def initial_prog_def dv_mode_def log_ok_def)

theorem set_mode_then_read_witness:
  "result (do { r \<leftarrow> cli_set_mode dev_env ''cache''; b \<leftarrow> mode dev_env ''?'' 32; ret (r, b) }) (dev_start False) =
    (ERR_SUCCESS, ERR_SUCCESS, ''cache'')"
  using set_mode_then_read [OF dev_mode_device dev_node_at _ _ dev_in_mode [of False], of "''cache''" 32 "''?''"] by simp

end
