(* ===== verification/Detect.thy ===== *)
theory Detect
  imports Mode_Device
begin

section \<open>Finding games: steam.h, the /proc scan of polling.c, and bpf-user.c\<close>

text \<open>
  Three detectors feed the decision of the polling loop: the scan of \<^verbatim>\<open>/proc\<close> (game list, GameMode library,
  Steam), the eBPF ring buffer, and the D-Bus signals of GameMode. The two loops that read from the kernel until it
  has no more to give take a bound \<open>n\<close> on the number of rounds and return \<open>None\<close> when it is used up;
  \<open>detect_game_returns\<close> shows that a bound exists whenever descriptors deliver finite streams. The D-Bus listener
  thread is sd-bus code around \<open>on_gamemode_signal\<close>; libbpf's calls are calls to the kernel parameter, a poll returns the events it hands to the callback.
\<close>

subsection \<open>Steam (src/daemon/steam.h)\<close>

definition steam_infra_names :: "string list" where
  "steam_infra_names =
     [''steam'', ''steamwebhelper'', ''steamboot'', ''steam_osx'', ''reaper'', ''pressure-vessel'', ''SteamChildMonit'']"

definition steam_is_infra_comm :: "string \<Rightarrow> bool" where
  "steam_is_infra_comm comm \<longleftrightarrow> comm \<noteq> [] \<and> list_ex (\<lambda>nm. strncmp comm nm 15 = 0) steam_infra_names"

definition is_game_engine_comm :: "string \<Rightarrow> bool" where
  "is_game_engine_comm comm \<longleftrightarrow> comm \<noteq> [] \<and> strncmp comm ''GameThread'' 10 = 0"

text \<open>The loop over the entries of \<^verbatim>\<open>/proc/<pid>/environ\<close>; the list is what is left of the buffer.\<close>

function environ_scan :: "string \<Rightarrow> bool" where
  "environ_scan [] = False"
| "environ_scan (c # d) =
     (let entry = cstr (c # d); appid = drop 11 entry in
      if strncmp entry ''SteamAppId='' 11 = 0 \<and> appid \<noteq> [] \<and> appid \<noteq> ''0'' then True
      else environ_scan (drop (length entry + 1) (c # d)))"
  by pat_completeness auto
termination by (relation "measure length") auto

text \<open>The name in \<^verbatim>\<open>comm\<close> after a read of \<open>d\<close>: a final newline is cut.\<close>

definition comm_of :: "string \<Rightarrow> string" where
  "comm_of d = cstr (if last d = NL then butlast d else d)"

definition scan_pid_steam :: "'w env \<Rightarrow> string \<Rightarrow> ('w, bool) m" where
  "scan_pid_steam E pid_str =
     (if pid_str = [] then ret False
      else do {
        let by_environ = do {
          fd \<leftarrow> c_open E (printf_sn E 64 ''/proc/%s/environ'' [AStr pid_str]) O_RDONLY 0;
          if fd < 0 then ret False
          else do {
            nd \<leftarrow> c_read E fd 4095;
            c_close E fd;
            ret (fst nd > 0 \<and> environ_scan (snd nd))
          }
        };
        cfd \<leftarrow> c_open E (printf_sn E 64 ''/proc/%s/comm'' [AStr pid_str]) O_RDONLY 0;
        if cfd \<ge> 0 then do {
          cn \<leftarrow> c_read E cfd 31;
          c_close E cfd;
          if fst cn > 0 \<and> is_game_engine_comm (comm_of (snd cn)) then ret True
          else if fst cn > 0 \<and> steam_is_infra_comm (comm_of (snd cn)) then ret False
          else by_environ
        } else by_environ
      })"

definition scan_pid_steam_by_pid :: "'w env \<Rightarrow> int \<Rightarrow> ('w, bool) m" where
  "scan_pid_steam_by_pid E pid =
     (if pid \<le> 0 then ret False else scan_pid_steam E (printf_sn E 16 ''%d'' [AInt pid]))"

subsection \<open>The scan of \<^verbatim>\<open>/proc\<close> (src/daemon/polling/polling.c)\<close>

definition nul_to_blank :: "string \<Rightarrow> string" where
  "nul_to_blank d = map (\<lambda>c. if c = NUL then CHR '' '' else c) d"

text \<open>The game list against the command line.\<close>

definition scan_cmdline :: "'w env \<Rightarrow> string \<Rightarrow> ('w, bool) m" where
  "scan_cmdline E pid_str = do {
     g \<leftarrow> gets gl;
     if g = [] then ret False
     else do {
       fd \<leftarrow> c_open E (printf_sn E 256 ''/proc/%s/cmdline'' [AStr pid_str]) O_RDONLY 0;
       if fd < 0 then ret False
       else do {
         nd \<leftarrow> c_read E fd 16383;
         c_close E fd;
         ret (fst nd > 0 \<and> games_match g (nul_to_blank (snd nd)))
       }
     }
   }"

fun maps_loop :: "'w env \<Rightarrow> nat \<Rightarrow> int \<Rightarrow> ('w, bool option) m" where
  "maps_loop E 0 fd = ret None"
| "maps_loop E (Suc n) fd = do {
     nd \<leftarrow> c_read E fd 16383;
     if fst nd > 0 then
       (if strstr (cstr (snd nd)) ''libgamemodeauto.so'' \<noteq> None then do { c_close E fd; ret (Some True) }
        else maps_loop E n fd)
     else do { c_close E fd; ret (Some False) }
   }"

definition scan_maps :: "'w env \<Rightarrow> nat \<Rightarrow> string \<Rightarrow> ('w, bool option) m" where
  "scan_maps E n pid_str = do {
     fd \<leftarrow> c_open E (printf_sn E 256 ''/proc/%s/maps'' [AStr pid_str]) O_RDONLY 0;
     if fd \<ge> 0 then maps_loop E n fd else ret (Some False)
   }"

definition scan_pid :: "'w env \<Rightarrow> nat \<Rightarrow> string \<Rightarrow> ('w, bool option) m" where
  "scan_pid E n pid_str = do {
     listed \<leftarrow> scan_cmdline E pid_str;
     if listed then ret (Some True)
     else do {
       gm \<leftarrow> scan_maps E n pid_str;
       case gm of
         None \<Rightarrow> ret None
       | Some True \<Rightarrow> ret (Some True)
       | Some False \<Rightarrow> do { b \<leftarrow> scan_pid_steam E pid_str; ret (Some b) }
     }
   }"

fun entries_loop :: "'w env \<Rightarrow> nat \<Rightarrow> string list \<Rightarrow> ('w, bool option) m" where
  "entries_loop E n [] = ret (Some False)"
| "entries_loop E n (d # ds) =
     (if d \<noteq> [] \<and> is_digit (hd d) then do {
        r \<leftarrow> scan_pid E n d;
        if r = Some False then entries_loop E n ds else ret r
      } else entries_loop E n ds)"

fun detect_loop :: "'w env \<Rightarrow> nat \<Rightarrow> nat \<Rightarrow> int \<Rightarrow> ('w, bool option) m" where
  "detect_loop E n 0 fd = ret None"
| "detect_loop E n (Suc k) fd = do {
     ns \<leftarrow> c_getdents64 E fd 1024;
     if ns = [] then do { c_close E fd; ret (Some False) }
     else do {
       r \<leftarrow> entries_loop E n ns;
       case r of
         None \<Rightarrow> ret None
       | Some True \<Rightarrow> do { c_close E fd; ret (Some True) }
       | Some False \<Rightarrow> detect_loop E n k fd
     }
   }"

definition detect_game :: "'w env \<Rightarrow> nat \<Rightarrow> ('w, bool option) m" where
  "detect_game E n = do {
     fd \<leftarrow> c_open E ''/proc'' O_RDONLY 0;
     if fd < 0 then ret (Some False) else detect_loop E n n fd
   }"

subsection \<open>eBPF and GameMode (src/daemon/bpf/bpf-user.c)\<close>

definition count_launch :: "('w, int) m" where
  "count_launch = do { modify (\<lambda>s. s\<lparr>active_games := active_games s + 1\<rparr>); gets active_games }"

definition count_exit :: "('w, int) m" where
  "count_exit = do {
     modify (\<lambda>s. if active_games s > 0 then s\<lparr>active_games := active_games s - 1\<rparr> else s);
     gets active_games
   }"

definition handle_event :: "'w env \<Rightarrow> process_event \<Rightarrow> ('w, unit) m" where
  "handle_event E e = do {
     g \<leftarrow> gets gl;
     if games_match g (pe_comm e) then
       (if pe_is_exit e then do {
          k \<leftarrow> count_exit;
          journal_log E BPF_HIT [AStr (pe_comm e), AInt (pe_pid e), AStr ''exited'', AInt k]
        } else do {
          k \<leftarrow> count_launch;
          journal_log E BPF_HIT [AStr (pe_comm e), AInt (pe_pid e), AStr ''launched'', AInt k]
        })
     else do {
       steam \<leftarrow> (if pe_is_exit e then ret False
                else if is_game_engine_comm (pe_comm e) then ret True else scan_pid_steam_by_pid E (pe_pid e));
       if steam then do {
         k \<leftarrow> count_launch;
         journal_log E BPF_HIT [AStr (pe_comm e), AInt (pe_pid e), AStr ''launched [Steam]'', AInt k]
       } else do {
         a \<leftarrow> gets active_games;
         if pe_is_exit e \<and> a > 0 then do {
           k \<leftarrow> count_exit;
           journal_log E BPF_HIT [AStr (pe_comm e), AInt (pe_pid e), AStr ''exited [unmatched]'', AInt k]
         } else ret ()
       }
     }
   }"

text \<open>The member of the signal and the integer read from it; \<open>None\<close>: the read fails.\<close>

definition on_gamemode_signal :: "'w env \<Rightarrow> string \<Rightarrow> int option \<Rightarrow> ('w, unit) m" where
  "on_gamemode_signal E member pid =
     (case pid of
        None \<Rightarrow> ret ()
      | Some p \<Rightarrow>
          if strcmp member ''GameRegistered'' = 0 then do {
            k \<leftarrow> count_launch;
            journal_log E BPF_HIT [AStr ''GameMode [D-Bus]'', AInt p, AStr ''launched'', AInt k]
          } else if strcmp member ''GameUnregistered'' = 0 then do {
            k \<leftarrow> count_exit;
            journal_log E BPF_HIT [AStr ''GameMode [D-Bus]'', AInt p, AStr ''exited'', AInt k]
          } else ret ())"

definition bpf_lib :: "'w env \<Rightarrow> bpf_call \<Rightarrow> ('w, int) m" where
  "bpf_lib E c = do { r \<leftarrow> sys E (LibBpf c); ret (ret_of r) }"

text \<open>Attach a program by its name; the link, 0 when there is none.\<close>

definition bpf_attach :: "'w env \<Rightarrow> int \<Rightarrow> string \<Rightarrow> string \<Rightarrow> int \<Rightarrow> ('w, int) m" where
  "bpf_attach E ob prog_name err old = do {
     p \<leftarrow> bpf_lib E (BpfFindProgram ob prog_name);
     if p \<noteq> 0 then do {
       l \<leftarrow> bpf_lib E (BpfAttach p);
       if l \<le> 0 then do { journal_log E ERR_LOAD [AStr err]; ret 0 } else ret l
     } else ret old
   }"

definition bpf_events :: "'w env \<Rightarrow> int \<Rightarrow> ('w, bool) m" where
  "bpf_events E ob = do {
     mp \<leftarrow> bpf_lib E (BpfFindMap ob ''events'');
     map_fd \<leftarrow> (if mp \<noteq> 0 then bpf_lib E (BpfMapFd mp) else ret (- 1));
     if map_fd \<ge> 0 then do {
       r \<leftarrow> bpf_lib E (BpfRingNew map_fd);
       modify (\<lambda>s. s\<lparr>bpf_rb := r\<rparr>);
       if r \<noteq> 0 then do {
         journal_log E BPF_HIT [AStr ''N/A'', AInt 0, AStr ''initialized [BPF_ACTIVE]'', AInt 0];
         ret True
       } else ret False
     } else ret False
   }"

definition bpf_init :: "'w env \<Rightarrow> ('w, bool) m" where
  "bpf_init E = do {
     ob0 \<leftarrow> gets bpf_obj;
     if ob0 \<noteq> 0 then ret True
     else do {
       bpf_lib E BpfThread;
       ob \<leftarrow> bpf_lib E (BpfOpen ''/usr/lib/x3d-toggle/bpf.o'');
       modify (\<lambda>s. s\<lparr>bpf_obj := ob\<rparr>);
       if ob \<le> 0 then do {
         journal_log E ERR_LOAD [AStr ''/usr/lib/x3d-toggle/bpf.o''];
         modify (\<lambda>s. s\<lparr>bpf_obj := 0\<rparr>);
         ret False
       } else do {
         l \<leftarrow> bpf_lib E (BpfLoad ob);
         if l < 0 then do {
           journal_log E ERR_LOAD [AStr ''kernel verifier rejection or permission denied''];
           bpf_lib E (BpfClose ob);
           modify (\<lambda>s. s\<lparr>bpf_obj := 0\<rparr>);
           ret False
         } else do {
           x0 \<leftarrow> gets bpf_link_exec;
           x \<leftarrow> bpf_attach E ob ''handle_exec'' ''failed to attach handle_exec tracepoint'' x0;
           modify (\<lambda>s. s\<lparr>bpf_link_exec := x\<rparr>);
           y0 \<leftarrow> gets bpf_link_exit;
           y \<leftarrow> bpf_attach E ob ''handle_exit'' ''failed to attach handle_exit tracepoint'' y0;
           modify (\<lambda>s. s\<lparr>bpf_link_exit := y\<rparr>);
           ok \<leftarrow> (if x \<noteq> 0 \<and> y \<noteq> 0 then bpf_events E ob else ret False);
           if ok then ret True
           else do { journal_log E ERR_LOAD [AStr ''falling back to polling mode'']; ret False }
         }
       }
     }
   }"

definition bpf_poll :: "'w env \<Rightarrow> int \<Rightarrow> ('w, unit) m" where
  "bpf_poll E timeout_ms = do {
     r \<leftarrow> gets bpf_rb;
     if r \<noteq> 0 then do {
       x \<leftarrow> sys E (LibBpf (BpfRingPoll r timeout_ms));
       forM (events_of x) (handle_event E)
     } else ret ()
   }"

definition bpf_game :: "('w, bool) m" where
  "bpf_game = gets (\<lambda>s. active_games s > 0)"

definition bpf_cleanup :: "'w env \<Rightarrow> ('w, unit) m" where
  "bpf_cleanup E = do {
     r \<leftarrow> gets bpf_rb;
     (if r \<noteq> 0 then do { bpf_lib E (BpfRingFree r); ret () } else ret ());
     x \<leftarrow> gets bpf_link_exec;
     (if x \<noteq> 0 then do { bpf_lib E (BpfDestroy x); ret () } else ret ());
     y \<leftarrow> gets bpf_link_exit;
     (if y \<noteq> 0 then do { bpf_lib E (BpfDestroy y); ret () } else ret ());
     ob \<leftarrow> gets bpf_obj;
     (if ob \<noteq> 0 then do { bpf_lib E (BpfClose ob); ret () } else ret ())
   }"

subsection \<open>Steam entries\<close>

text \<open>The NUL-separated entries of a buffer.\<close>

function nul_entries :: "string \<Rightarrow> string list" where
  "nul_entries [] = []"
| "nul_entries (c # d) = cstr (c # d) # nul_entries (drop (length (cstr (c # d)) + 1) (c # d))"
  by pat_completeness auto
termination by (relation "measure length") auto

lemma steam_entry:
  "strncmp (cstr d) ''SteamAppId='' 11 = 0 \<and> drop 11 (cstr d) \<noteq> [] \<and> drop 11 (cstr d) \<noteq> ''0'' \<longleftrightarrow>
   (\<exists>v. cstr d = ''SteamAppId='' @ v \<and> v \<notin> {[], ''0''})"
proof -
  have "strncmp (cstr d) ''SteamAppId='' 11 = 0 \<longleftrightarrow> prefix ''SteamAppId='' (cstr d)"
    by (rule strncmp_nat) (simp_all add: cstr_simps)
  then show ?thesis by (auto simp: prefix_def)
qed

lemma environ_scan_step:
  "environ_scan (c # d) \<longleftrightarrow> (\<exists>v. cstr (c # d) = ''SteamAppId='' @ v \<and> v \<notin> {[], ''0''}) \<or>
     environ_scan (drop (length (cstr (c # d)) + 1) (c # d))"
  unfolding environ_scan.simps Let_def steam_entry by (rule if_bool_eq_disj [THEN trans]) blast

lemma environ_scan_iff:
  "environ_scan d \<longleftrightarrow> (\<exists>v. ''SteamAppId='' @ v \<in> set (nul_entries d) \<and> v \<notin> {[], ''0''})"
proof (induction d rule: nul_entries.induct)
  case (2 c d)
  show ?case unfolding environ_scan_step nul_entries.simps list.set 2 by (metis insert_iff)
qed simp

lemma hoare_scan_pid_steam:
  assumes K: "file_kernel E fs pos" and pid: "pid \<noteq> []"
    and cm: "F (printf_sn E 64 ''/proc/%s/comm'' [AStr pid]) = Some cm"
    and en: "F (printf_sn E 64 ''/proc/%s/environ'' [AStr pid]) = Some en"
  shows "hoare (contents fs F V) (scan_pid_steam E pid)
    (\<lambda>r s. (r \<longleftrightarrow> (cm \<noteq> [] \<and> is_game_engine_comm (comm_of (take 31 cm)) \<or>
       \<not> (cm \<noteq> [] \<and> steam_is_infra_comm (comm_of (take 31 cm))) \<and> environ_scan (take 4095 en))) \<and> contents fs F V s)"
proof -
  let ?env = "do {
          fd \<leftarrow> c_open E (printf_sn E 64 ''/proc/%s/environ'' [AStr pid]) O_RDONLY 0;
          if fd < 0 then ret False
          else do { nd \<leftarrow> c_read E fd 4095; c_close E fd; ret (fst nd > 0 \<and> environ_scan (snd nd)) } }"
  have env: "hoare (contents fs F V) ?env (\<lambda>r s. (r \<longleftrightarrow> environ_scan (take 4095 en)) \<and> contents fs F V s)"
    by (rule hoare_slurp [where F = F, OF K en, where n = 4095 and k = "\<lambda>nd. ret (fst nd > 0 \<and> environ_scan (snd nd))"])
      (auto intro!: hoare_ret)
  show ?thesis
    using pid unfolding scan_pid_steam_def Let_def
    apply (simp only: if_False simp_thms)
    apply (rule hoare_slurp [where F = F, OF K cm, where n = 31 and k = "\<lambda>cn. if fst cn > 0 \<and> is_game_engine_comm (comm_of (snd cn)) then ret True
          else if fst cn > 0 \<and> steam_is_infra_comm (comm_of (snd cn)) then ret False else ?env"])
     apply simp
    using env by (auto intro!: hoare_ret simp: hoare_def simp del: run_state_bind)
qed

text \<open>
  C27. The Steam detector: for a process whose \<^verbatim>\<open>comm\<close> and \<^verbatim>\<open>environ\<close> can be read, \<^verbatim>\<open>scan_pid_steam\<close>
  answers yes exactly when the name is that of a game engine thread, or it is not a Steam infrastructure process and one of the
  NUL-separated entries in the first 4095 bytes of the environment is \<^verbatim>\<open>SteamAppId=\<close> with a value other than the empty string and \<^verbatim>\<open>0\<close>.
\<close>

theorem scan_pid_steam_spec:
  assumes "file_kernel E fs pos" "pid \<noteq> []"
    and "fs (world s) (printf_sn E 64 ''/proc/%s/comm'' [AStr pid]) = Some cm"
    and "fs (world s) (printf_sn E 64 ''/proc/%s/environ'' [AStr pid]) = Some en"
  shows "result (scan_pid_steam E pid) s \<longleftrightarrow>
    (cm \<noteq> [] \<and> is_game_engine_comm (comm_of (take 31 cm))) \<or>
    (\<not> (cm \<noteq> [] \<and> steam_is_infra_comm (comm_of (take 31 cm))) \<and>
     (\<exists>v. ''SteamAppId='' @ v \<in> set (nul_entries (take 4095 en)) \<and> v \<notin> {[], ''0''}))"
  using hoareD [OF hoare_scan_pid_steam [where F = "fs (world s)" and V = "vars s", OF assms], of s]
  by (simp only: contents_def environ_scan_iff simp_thms)

definition steam_files :: "path \<Rightarrow> string option" where
  "steam_files =
     [''/proc/42/comm'' \<mapsto> ''hl2_linux'' @ [NL], ''/proc/42/environ'' \<mapsto> ''A=b'' @ [NUL] @ ''SteamAppId=220'' @ [NUL]]"

theorem scan_pid_steam_spec_witness: "result (scan_pid_steam mem_env ''42'') (mem_start steam_files [])"
proof -
  have "environ_scan (''A=b'' @ [NUL] @ ''SteamAppId=220'' @ [NUL])" "\<not> steam_is_infra_comm (comm_of (''hl2_linux'' @ [NL]))"
    by code_simp+
  then show ?thesis
    using scan_pid_steam_spec [OF mem_file_kernel, where s = "mem_start steam_files []" and pid = "''42''" and
        cm = "''hl2_linux'' @ [NL]" and en = "''A=b'' @ [NUL] @ ''SteamAppId=220'' @ [NUL]"]
    by (simp add: environ_scan_iff steam_files_def printf_sn_def printf_simps)
qed

subsection \<open>Frames\<close>

lemma keeps_scans [hoare_rules]:
  assumes "sys_indep I"
  shows "keeps I (scan_pid_steam E pid)" "keeps I (scan_pid_steam_by_pid E i)" "keeps I (scan_pid E n pid)"
    "keeps I (entries_loop E n ns)" "keeps I (detect_game E n)" "keeps I (bpf_lib E c)"
proof -
  show steam: "keeps I (scan_pid_steam E pid)" for pid
    unfolding scan_pid_steam_def Let_def by (intro hoare_rules assms)
  then show "keeps I (scan_pid_steam_by_pid E i)"
    unfolding scan_pid_steam_by_pid_def by (intro hoare_rules)
  have maps: "keeps I (maps_loop E n fd)" for fd
    by (induction n) (auto intro!: hoare_rules assms)
  have bool: "keeps I (case b of True \<Rightarrow> m | False \<Rightarrow> m')" if "keeps I m" "keeps I m'" for b and m m' :: "('a, bool option) m"
    using that by (cases b) auto
  show pid: "keeps I (scan_pid E n pid)" for pid
    unfolding scan_pid_def scan_cmdline_def scan_maps_def by (intro hoare_rules assms maps steam bool)
  show ents: "keeps I (entries_loop E n ns)" for ns
    by (induction ns) (auto intro!: hoare_rules pid)
  have "keeps I (detect_loop E n k fd)" for k fd
    by (induction k) (auto intro!: hoare_rules assms ents bool)
  then show "keeps I (detect_game E n)" unfolding detect_game_def by (intro hoare_rules assms)
  show "keeps I (bpf_lib E c)" unfolding bpf_lib_def by (intro hoare_rules assms)
qed

text \<open>An invariant that does not look at the state of the detectors either.\<close>

definition det_indep :: "('w prog \<Rightarrow> bool) \<Rightarrow> bool" where
  "det_indep I \<longleftrightarrow> hw_indep I \<and> (\<forall>s x. I s \<longrightarrow> I (s\<lparr>active_games := x\<rparr>)) \<and> (\<forall>s x. I s \<longrightarrow> I (s\<lparr>bpf_obj := x\<rparr>)) \<and>
     (\<forall>s x. I s \<longrightarrow> I (s\<lparr>bpf_link_exec := x\<rparr>)) \<and> (\<forall>s x. I s \<longrightarrow> I (s\<lparr>bpf_link_exit := x\<rparr>)) \<and>
     (\<forall>s x. I s \<longrightarrow> I (s\<lparr>bpf_rb := x\<rparr>))"

lemma det_hw: "det_indep I \<Longrightarrow> hw_indep I"
  by (simp add: det_indep_def)

lemmas det_jrn = hw_jrn [OF det_hw] and det_sys = hw_sys [OF det_hw]

lemma keeps_counts:
  assumes "det_indep I"
  shows "keeps I count_launch" "keeps I count_exit"
  using assms unfolding count_launch_def count_exit_def
  by - (intro hoare_rules hoare_modify; simp add: det_indep_def)+

lemma keeps_det_modify:
  assumes "det_indep I"
  shows "keeps I (modify (\<lambda>s. s\<lparr>bpf_obj := f s\<rparr>))" "keeps I (modify (\<lambda>s. s\<lparr>bpf_link_exec := f s\<rparr>))"
    "keeps I (modify (\<lambda>s. s\<lparr>bpf_link_exit := f s\<rparr>))" "keeps I (modify (\<lambda>s. s\<lparr>bpf_rb := f s\<rparr>))"
  using assms by (simp_all add: det_indep_def hoare_def)

lemma keeps_detectors [hoare_rules]:
  assumes I: "det_indep I"
  shows "keeps I (handle_event E e)" "keeps I (on_gamemode_signal E member pd)" "keeps I (bpf_poll E ms)"
    "keeps I (bpf_init E)" "keeps I (bpf_cleanup E)"
proof -
  note base = keeps_counts [OF I] keeps_det_modify [OF I] det_jrn [OF I] det_sys [OF I] plain_codes
  show ev: "keeps I (handle_event E e)" for e
    unfolding handle_event_def by (intro hoare_rules base)
  show "keeps I (on_gamemode_signal E member pd)"
    unfolding on_gamemode_signal_def by (intro hoare_rules base)
  show "keeps I (bpf_poll E ms)" unfolding bpf_poll_def by (intro hoare_rules base ev)
  show "keeps I (bpf_init E)" unfolding bpf_init_def bpf_attach_def bpf_events_def by (intro hoare_rules base)
  show "keeps I (bpf_cleanup E)" unfolding bpf_cleanup_def by (intro hoare_rules base)
qed

subsection \<open>The game counter\<close>

definition games_upto :: "int \<Rightarrow> 'w prog \<Rightarrow> bool" where
  "games_upto k s \<longleftrightarrow> 0 \<le> active_games s \<and> active_games s \<le> k"

lemma indep_games_upto: "jrn_indep (games_upto k)" "sys_indep (games_upto k)"
  by (simp_all add: jrn_indep_def sys_indep_def games_upto_def)

lemma games_upto_count:
  "hoare (games_upto k) count_launch (\<lambda>_. games_upto (k + 1))" "hoare (games_upto k) count_exit (\<lambda>_. games_upto (k + 1))"
  by (auto simp: hoare_def count_launch_def count_exit_def games_upto_def)

lemma games_upto_logged:
  assumes "hoare (games_upto k) m (\<lambda>_. games_upto (k + 1))"
  shows "hoare (games_upto k) (do { c \<leftarrow> m; journal_log E BPF_HIT (f c) }) (\<lambda>_. games_upto (k + 1))"
  by (rule hoare_bind [OF assms]) (intro hoare_rules indep_games_upto plain_codes)

lemma games_upto_ret: "hoare (games_upto k) (ret ()) (\<lambda>_. games_upto (k + 1))"
  by (simp add: hoare_def games_upto_def)

lemmas games_upto_rules = hoare_if hoare_case_option games_upto_logged [OF games_upto_count(1)]
  games_upto_logged [OF games_upto_count(2)] games_upto_ret hoare_bind [OF keeps_gets, where P = "games_upto k" for k]

lemma games_upto_events:
  "hoare (games_upto k) (handle_event E e) (\<lambda>_. games_upto (k + 1))"
  "hoare (games_upto k) (on_gamemode_signal E member pd) (\<lambda>_. games_upto (k + 1))"
proof -
  have steam: "keeps (games_upto k) (if pe_is_exit e then ret False
      else if is_game_engine_comm (pe_comm e) then ret True else scan_pid_steam_by_pid E (pe_pid e))"
    by (intro hoare_rules indep_games_upto)
  show "hoare (games_upto k) (handle_event E e) (\<lambda>_. games_upto (k + 1))"
    unfolding handle_event_def by (intro games_upto_rules hoare_bind [OF steam])
  show "hoare (games_upto k) (on_gamemode_signal E member pd) (\<lambda>_. games_upto (k + 1))"
    unfolding on_gamemode_signal_def by (intro games_upto_rules)
qed

text \<open>An event of one of the two sources, in whichever order the ring buffer and the D-Bus thread deliver them.\<close>

datatype game_source = Process process_event | Bus string "int option"

fun game_event :: "'w env \<Rightarrow> game_source \<Rightarrow> ('w, unit) m" where
  "game_event E (Process e) = handle_event E e"
| "game_event E (Bus member pd) = on_gamemode_signal E member pd"

text \<open>
  The game counter is never negative: for every sequence of process and GameMode events in any order, the counter
  stays at least 0 and grows by at most one per event, so \<^verbatim>\<open>bpf_game()\<close> never reports a game without a launch.
\<close>

theorem active_games_counts:
  assumes "0 \<le> active_games s"
  shows "0 \<le> active_games (exec (forM es (game_event E)) s) \<and>
    active_games (exec (forM es (game_event E)) s) \<le> active_games s + int (length es)"
proof -
  have ev: "hoare (games_upto k) (game_event E e) (\<lambda>_. games_upto (k + 1))" for k e
    by (cases e) (simp_all add: games_upto_events)
  have "hoare (games_upto k) (forM es (game_event E)) (\<lambda>_. games_upto (k + int (length es)))" for k
  proof (induction es arbitrary: k)
    case (Cons e es)
    show ?case using hoare_bind [OF ev Cons.IH, of k e] by (simp add: add.assoc add.commute add.left_commute)
  qed (simp add: hoare_def)
  from hoareD [OF this, of "active_games s" s] assms show ?thesis by (simp add: games_upto_def)
qed

theorem active_games_counts_witness:
  "active_games (exec (forM [Bus ''GameRegistered'' (Some 7), Bus ''GameUnregistered'' (Some 7), Bus ''GameUnregistered'' (Some 7)]
     (game_event mem_env)) (mem_start Map.empty [])) \<in> {0..3}"
  using active_games_counts [of "mem_start Map.empty []"
      "[Bus ''GameRegistered'' (Some 7), Bus ''GameUnregistered'' (Some 7), Bus ''GameUnregistered'' (Some 7)]" mem_env]
  by (simp add: mem_start_def initial_prog_def del: run_state_bind forM.simps)

subsection \<open>The life of the ring buffer\<close>

text \<open>
  \<^verbatim>\<open>bpf_cleanup\<close> frees the ring buffer, the links and the object but keeps the pointers, so a later \<^verbatim>\<open>bpf_init\<close> returns
  true without creating anything: the ring buffer the next poll uses is the one that was freed.
\<close>

theorem bpf_reinit_dangling:
  assumes "bpf_obj s \<noteq> 0" "bpf_rb s \<noteq> 0"
  shows "let m = do { bpf_cleanup E; bpf_init E }; s' = exec m s in
    result m s \<and> bpf_rb s' = bpf_rb s \<and> LibBpf (BpfRingFree (bpf_rb s)) \<in> set (calls (since s s')) \<and>
    (\<forall>fd. LibBpf (BpfRingNew fd) \<notin> set (calls (since s s')))"
  using assms by (auto simp: Let_def bpf_cleanup_def bpf_init_def bpf_lib_def run_sys since_def)

theorem bpf_reinit_dangling_witness:
  "result (do { bpf_cleanup mem_env; bpf_init mem_env }) ((mem_start Map.empty [])\<lparr>bpf_obj := 1, bpf_rb := 2\<rparr>)"
  using bpf_reinit_dangling [of "(mem_start Map.empty [])\<lparr>bpf_obj := 1, bpf_rb := 2\<rparr>" mem_env]
  by (simp add: Let_def del: run_state_bind)

subsection \<open>The scan returns\<close>

text \<open>
  What the program relies on to end its two loops: a descriptor delivers a finite stream. \<open>left w fd\<close> is a bound on the
  reads that \<open>fd\<close> can still answer with data (\<open>None\<close>: not open); a new descriptor starts with at most \<open>B\<close>.
\<close>

definition opens_streams :: "'w env \<Rightarrow> ('w \<Rightarrow> int \<Rightarrow> nat option) \<Rightarrow> nat \<Rightarrow> bool" where
  "opens_streams E left B \<longleftrightarrow>
     (\<forall>w p fl md. let r = kernel E (SysOpen p fl md) w in
        (\<exists>e. fst r = Ret (- e) \<and> 0 < e \<and> e < 4096 \<and> left (snd r) = left w) \<or>
        (\<exists>fd k. fst r = Ret fd \<and> 0 \<le> fd \<and> fd < 2 ^ 31 \<and> left w fd = None \<and> k \<le> B \<and> left (snd r) = (left w)(fd \<mapsto> k)))"

definition drains :: "'w env \<Rightarrow> ('w \<Rightarrow> int \<Rightarrow> nat option) \<Rightarrow> (int \<Rightarrow> nat \<Rightarrow> syscall) \<Rightarrow> bool" where
  "drains E left call \<longleftrightarrow>
     (\<forall>w fd k n. left w fd = Some k \<longrightarrow>
        (let r = kernel E (call fd n) w in
         \<exists>k'. left (snd r) = (left w)(fd \<mapsto> k') \<and> k' \<le> k \<and> (data_of (fst r) \<noteq> [] \<or> names_of (fst r) \<noteq> [] \<longrightarrow> k' < k)))"

definition finite_streams :: "'w env \<Rightarrow> ('w \<Rightarrow> int \<Rightarrow> nat option) \<Rightarrow> nat \<Rightarrow> bool" where
  "finite_streams E left B \<longleftrightarrow> opens_streams E left B \<and> drains E left SysRead \<and> drains E left SysGetdents \<and>
     (\<forall>w fd. left (snd (kernel E (SysClose fd) w)) = (left w)(fd := None))"

lemma stream_open:
  assumes "finite_streams E left B"
  obtains "result (c_open E p fl md) s < 0" "left (world (exec (c_open E p fl md) s)) = left (world s)"
  | k where "0 \<le> result (c_open E p fl md) s" "k \<le> B" "left (world s) (result (c_open E p fl md) s) = None"
    "left (world (exec (c_open E p fl md) s)) = (left (world s))(result (c_open E p fl md) s \<mapsto> k)"
proof -
  let ?r = "kernel E (SysOpen p fl md) (world s)"
  have w: "world (exec (c_open E p fl md) s) = snd ?r" by (rule open_w.op_world)
  consider (err) e where "fst ?r = Ret (- e)" "0 < e" "e < 4096" "left (snd ?r) = left (world s)"
    | (ok) fd k where "fst ?r = Ret fd" "0 \<le> fd" "fd < 2 ^ 31" "left (world s) fd = None" "k \<le> B"
      "left (snd ?r) = (left (world s))(fd \<mapsto> k)"
    using assms unfolding finite_streams_def opens_streams_def Let_def by blast
  then show ?thesis
  proof cases
    case err
    then show ?thesis using that(1) w by (simp add: c_open_def run_sys_int Let_def failed_def)
  next
    case ok
    then have "result (c_open E p fl md) s = fd" by (simp add: c_open_def run_sys_int Let_def failed_def s32_id)
    then show ?thesis using that(2) [of k] ok w by simp
  qed
qed

lemma stream_close:
  "finite_streams E left B \<Longrightarrow> left (world (exec (c_close E fd) s)) = (left (world s))(fd := None)"
  by (simp add: finite_streams_def close_w.op_world)

lemma drainsD:
  assumes "drains E left call" "left w fd = Some k"
  obtains k' where "left (snd (kernel E (call fd n) w)) = (left w)(fd \<mapsto> k')" "k' \<le> k"
    "data_of (fst (kernel E (call fd n) w)) \<noteq> [] \<or> names_of (fst (kernel E (call fd n) w)) \<noteq> [] \<Longrightarrow> k' < k"
  using assms unfolding drains_def Let_def by metis

lemma stream_read:
  assumes "finite_streams E left B" "left (world s) fd = Some k"
  obtains k' where "left (world (exec (c_read E fd n) s)) = (left (world s))(fd \<mapsto> k')" "k' \<le> k"
    "0 < fst (result (c_read E fd n) s) \<Longrightarrow> k' < k"
proof -
  let ?r = "kernel E (SysRead fd n) (world s)"
  have d: "0 < fst (result (c_read E fd n) s) \<Longrightarrow> data_of (fst ?r) \<noteq> []"
    by (auto simp: c_read_def run_sys_errno Let_def filled_def split: sysres.splits if_splits)
  have w: "world (exec (c_read E fd n) s) = snd ?r"
    by (simp add: c_read_def run_sys_errno Let_def)
  have "drains E left SysRead" using assms(1) by (simp add: finite_streams_def)
  from drainsD [where n = n, OF this assms(2)] show ?thesis using d w that by metis
qed

lemma stream_getdents:
  assumes "finite_streams E left B" "left (world s) fd = Some k"
  obtains k' where "left (world (exec (c_getdents64 E fd n) s)) = (left (world s))(fd \<mapsto> k')" "k' \<le> k"
    "result (c_getdents64 E fd n) s \<noteq> [] \<Longrightarrow> k' < k"
proof -
  let ?r = "kernel E (SysGetdents fd n) (world s)"
  have d: "result (c_getdents64 E fd n) s \<noteq> [] \<Longrightarrow> names_of (fst ?r) \<noteq> []"
    by (auto simp: c_getdents64_def run_sys_errno Let_def split: if_splits)
  have w: "world (exec (c_getdents64 E fd n) s) = snd ?r"
    by (simp add: c_getdents64_def run_sys_errno Let_def)
  have "drains E left SysGetdents" using assms(1) by (simp add: finite_streams_def)
  from drainsD [where n = n, OF this assms(2)] show ?thesis using d w that by metis
qed

lemma maps_loop_returns:
  assumes F: "finite_streams E left B" and "left (world s) fd = Some k" "k < n"
  shows "result (maps_loop E n fd) s \<noteq> None \<and> left (world (exec (maps_loop E n fd) s)) = (left (world s))(fd := None)"
  using assms(2,3)
proof (induction n arbitrary: s k)
  case (Suc n)
  let ?s = "exec (c_read E fd 16383) s" and ?nd = "result (c_read E fd 16383) s"
  obtain k' where k': "left (world ?s) = (left (world s))(fd \<mapsto> k')" "k' \<le> k" "0 < fst ?nd \<longrightarrow> k' < k"
    by (rule stream_read [OF F Suc.prems(1), where n = 16383]) blast
  show ?case
  proof (cases "0 < fst ?nd \<and> strstr (cstr (snd ?nd)) ''libgamemodeauto.so'' = None")
    case True
    then have "k' < n" using k' Suc.prems by linarith
    with Suc.IH [of ?s k'] k' True show ?thesis
      by (simp add: exec_bind result_bind fun_upd_same del: run_state_bind fun_upd_apply)
  next
    case False
    then show ?thesis using k' stream_close [OF F]
      by (auto simp: exec_bind result_bind simp del: run_state_bind fun_upd_apply)
  qed
qed simp

text \<open>Open, one read, close: nothing stays open, and the rest goes on with the streams as they were.\<close>

lemma stream_slurp:
  assumes F: "finite_streams E left B"
    and fail: "\<And>fd s. fd < 0 \<Longrightarrow> left (world s) = L \<Longrightarrow> left (world (exec (body fd) s)) = L"
    and body: "\<And>fd. 0 \<le> fd \<Longrightarrow> body fd = do { nd \<leftarrow> c_read E fd n; c_close E fd; k nd }"
    and k: "\<And>nd s. left (world s) = L \<Longrightarrow> left (world (exec (k nd) s)) = L"
    and L: "left (world s) = L"
  shows "left (world (exec (do { fd \<leftarrow> c_open E p O_RDONLY 0; body fd }) s)) = L"
proof (rule stream_open [OF F, where p = p and fl = O_RDONLY and md = 0 and s = s], goal_cases)
  case 1
  then show ?case using fail L by (simp add: exec_bind del: run_state_bind)
next
  case (2 j)
  let ?fd = "result (c_open E p O_RDONLY 0) s" and ?s = "exec (c_open E p O_RDONLY 0) s"
  have "left (world ?s) ?fd = Some j" using 2 by simp
  then obtain k' where "left (world (exec (c_read E ?fd n) ?s)) = (left (world ?s))(?fd \<mapsto> k')"
    by (rule stream_read [OF F])
  then have "left (world (exec (c_close E ?fd) (exec (c_read E ?fd n) ?s))) = L"
    using stream_close [OF F] 2 L by (auto simp: fun_upd_idem_iff)
  then show ?case using body 2 k by (simp add: exec_bind del: run_state_bind)
qed

lemma scan_streams:
  assumes F: "finite_streams E left B"
  shows "left (world (exec (scan_cmdline E pid) s)) = left (world s)"
    "left (world (exec (scan_pid_steam E pid) s)) = left (world s)"
proof -
  show "left (world (exec (scan_cmdline E pid) s)) = left (world s)"
  proof (cases "gl s = []")
    case False
    show ?thesis
      unfolding scan_cmdline_def exec_bind [of "gets gl"] run_gets fst_conv snd_conv if_not_P [OF False]
      by (rule stream_slurp [OF F, where n = 16383 and k = "\<lambda>nd. ret (fst nd > 0 \<and> games_match (gl s) (nul_to_blank (snd nd)))"]) simp_all
  qed (simp add: scan_cmdline_def)
  let ?env = "do {
          fd \<leftarrow> c_open E (printf_sn E 64 ''/proc/%s/environ'' [AStr pid]) O_RDONLY 0;
          if fd < 0 then ret False
          else do { nd \<leftarrow> c_read E fd 4095; c_close E fd; ret (fst nd > 0 \<and> environ_scan (snd nd)) } }"
  have env: "left (world (exec ?env s)) = left (world s)" for s
    by (rule stream_slurp [OF F, where n = 4095 and k = "\<lambda>nd. ret (fst nd > 0 \<and> environ_scan (snd nd))"]) simp_all
  show "left (world (exec (scan_pid_steam E pid) s)) = left (world s)"
  proof (cases "pid = []")
    case False
    then show ?thesis
      unfolding scan_pid_steam_def Let_def if_not_P [OF False]
      by (intro stream_slurp [OF F, where n = 31 and k = "\<lambda>cn. if fst cn > 0 \<and> is_game_engine_comm (comm_of (snd cn)) then ret True
          else if fst cn > 0 \<and> steam_is_infra_comm (comm_of (snd cn)) then ret False else ?env"])
        (use env in \<open>simp_all del: run_state_bind\<close>)
  qed (simp add: scan_pid_steam_def)
qed

lemma scan_pid_returns:
  assumes F: "finite_streams E left B" and n: "B < n"
  shows "result (scan_pid E n pid) s \<noteq> None \<and> left (world (exec (scan_pid E n pid) s)) = left (world s)"
proof -
  have maps: "result (scan_maps E n pid) s \<noteq> None \<and> left (world (exec (scan_maps E n pid) s)) = left (world s)" for s
  proof (rule stream_open [OF F, where p = "printf_sn E 256 ''/proc/%s/maps'' [AStr pid]" and fl = O_RDONLY and md = 0 and s = s],
      goal_cases)
    case 1
    then show ?case by (simp add: scan_maps_def exec_bind result_bind del: run_state_bind)
  next
    case (2 k)
    then show ?case
      using maps_loop_returns [OF F, of "exec (c_open E (printf_sn E 256 ''/proc/%s/maps'' [AStr pid]) O_RDONLY 0) s" _ k n] n
      by (simp add: scan_maps_def exec_bind result_bind fun_upd_idem del: run_state_bind)
  qed
  define s1 where "s1 = exec (scan_cmdline E pid) s"
  have s1: "left (world s1) = left (world s)" by (simp add: s1_def scan_streams(1) [OF F])
  obtain b where b: "result (scan_maps E n pid) s1 = Some b" "left (world (exec (scan_maps E n pid) s1)) = left (world s)"
    using maps [of s1] s1 by auto
  then show ?thesis
    using s1 scan_streams(2) [OF F]
    by (cases b) (auto simp: scan_pid_def exec_bind result_bind s1_def [symmetric] simp del: run_state_bind)
qed

lemma entries_loop_returns:
  assumes F: "finite_streams E left B" and n: "B < n"
  shows "result (entries_loop E n ds) s \<noteq> None \<and> left (world (exec (entries_loop E n ds) s)) = left (world s)"
proof (induction ds arbitrary: s)
  case (Cons d ds)
  then show ?case using scan_pid_returns [OF F n, of d s]
    by (auto simp: exec_bind result_bind simp del: run_state_bind)
qed simp

lemma detect_loop_returns:
  assumes F: "finite_streams E left B" and n: "B < n" and "left (world s) fd = Some k" "k < j"
  shows "result (detect_loop E n j fd) s \<noteq> None"
  using assms(3,4)
proof (induction j arbitrary: s k)
  case (Suc j)
  let ?s = "exec (c_getdents64 E fd 1024) s" and ?ns = "result (c_getdents64 E fd 1024) s"
  obtain k' where k': "left (world ?s) = (left (world s))(fd \<mapsto> k')" "?ns \<noteq> [] \<Longrightarrow> k' < k"
    by (rule stream_getdents [OF F Suc.prems(1), where n = 1024]) blast
  obtain b where b: "result (entries_loop E n ?ns) ?s = Some b" "left (world (exec (entries_loop E n ?ns) ?s)) = left (world ?s)"
    using entries_loop_returns [OF F n, of ?ns ?s] by auto
  have "?ns \<noteq> [] \<Longrightarrow> \<not> b \<Longrightarrow> result (detect_loop E n j fd) (exec (entries_loop E n ?ns) ?s) \<noteq> None"
    using k' b Suc.prems(2) by (intro Suc.IH [of _ k']) simp_all
  then show ?case using b
    by (cases b) (auto simp: exec_bind result_bind simp del: run_state_bind)
qed simp

text \<open>
  C26. The scan of \<^verbatim>\<open>/proc\<close> always returns: when every descriptor delivers at most \<open>B\<close> more blocks of data, \<open>B + 1\<close> rounds of
  each of the two read loops are enough for \<^verbatim>\<open>detect_game()\<close> to give an answer, whatever the processes look like.
\<close>

theorem detect_game_returns:
  assumes F: "finite_streams E left B" and n: "B < n"
  shows "\<exists>found. result (detect_game E n) s = Some found"
proof (rule stream_open [OF F, where p = "''/proc''" and fl = O_RDONLY and md = 0 and s = s], goal_cases)
  case 1
  then show ?case by (auto simp: detect_game_def result_bind simp del: run_state_bind)
next
  case (2 k)
  then have "result (detect_loop E n n (result (c_open E ''/proc'' O_RDONLY 0) s)) (exec (c_open E ''/proc'' O_RDONLY 0) s) \<noteq> None"
    using n by (intro detect_loop_returns [OF F n, where k = k]) simp_all
  then show ?case using 2 by (auto simp: detect_game_def result_bind simp del: run_state_bind)
qed

text \<open>A kernel whose descriptors each deliver two blocks.\<close>

type_synonym two_world = "(int \<times> nat) list"

definition two_new :: "two_world \<Rightarrow> int" where
  "two_new w = fold max (map fst w) 2 + 1"

fun two_kernel :: "syscall \<Rightarrow> two_world \<Rightarrow> sysres \<times> two_world" where
  "two_kernel (SysOpen p fl md) w = (if two_new w < 1024 then (Ret (two_new w), (two_new w, 2) # w) else (Ret (- 24), w))"
| "two_kernel (SysRead fd n) w =
     (case map_of w fd of Some (Suc k) \<Rightarrow> (Data ''x'', (fd, k) # w) | _ \<Rightarrow> (Data [], w))"
| "two_kernel (SysGetdents fd n) w =
     (case map_of w fd of Some (Suc k) \<Rightarrow> (Names [''self'', ''7''], (fd, k) # w) | _ \<Rightarrow> (Names [], w))"
| "two_kernel (SysClose fd) w = (Ret 0, filter (\<lambda>e. fst e \<noteq> fd) w)"
| "two_kernel _ w = (Ret 0, w)"

definition two_env :: "two_world env" where
  "two_env =
     \<lparr>kernel = two_kernel, xui_symbols = [], garbage = [], CONFIG_PATH = [], TOTAL_CORES = 4, CCD1_START = 2,
      ccd_result = None, defaults = mem_defaults\<rparr>"

lemma two_new_fresh: "map_of w (two_new w) = None \<and> 0 \<le> two_new w"
proof -
  have fold: "(a :: int) \<le> fold max xs a \<and> (\<forall>x \<in> set xs. x \<le> fold max xs a)" for xs a
  proof (induction xs arbitrary: a)
    case (Cons x xs)
    show ?case using Cons.IH [of "max x a"] by auto
  qed simp
  show ?thesis
    using fold [of 2 "map fst w"] by (fastforce simp: two_new_def map_of_eq_None_iff)
qed

lemma map_of_without: "map_of (filter (\<lambda>e. fst e \<noteq> fd) w) = (map_of w)(fd := None)"
  by (induction w) (auto simp: fun_eq_iff)

lemma two_streams: "finite_streams two_env map_of 2"
  unfolding finite_streams_def opens_streams_def drains_def Let_def two_env_def
proof (intro conjI allI impI)
  fix w :: two_world and p fl md
  let ?E = "\<lparr>kernel = two_kernel, xui_symbols = [], garbage = [], CONFIG_PATH = [], TOTAL_CORES = 4, CCD1_START = 2,
      ccd_result = None, defaults = mem_defaults\<rparr>"
  show "(\<exists>e. fst (kernel ?E (SysOpen p fl md) w) = Ret (- e) \<and> 0 < e \<and> e < 4096 \<and>
      map_of (snd (kernel ?E (SysOpen p fl md) w)) = map_of w) \<or>
    (\<exists>fd k. fst (kernel ?E (SysOpen p fl md) w) = Ret fd \<and> 0 \<le> fd \<and> fd < 2 ^ 31 \<and> map_of w fd = None \<and> k \<le> 2 \<and>
      map_of (snd (kernel ?E (SysOpen p fl md) w)) = (map_of w)(fd \<mapsto> k))"
    using two_new_fresh [of w] by (cases "two_new w < 1024") auto
qed (auto split: nat.splits option.splits simp: map_of_without)

theorem detect_game_returns_witness: "\<exists>found. result (detect_game two_env 3) (initial_prog []) = Some found"
  by (rule detect_game_returns [OF two_streams]) simp

subsection \<open>Calls and descriptors\<close>

text \<open>The calls of the scan, and those of the detectors.\<close>

definition scan_calls :: "(syscall \<Rightarrow> bool) \<Rightarrow> bool" where
  "scan_calls C \<longleftrightarrow> (\<forall>p. prefix ''/proc'' p \<longrightarrow> C (SysOpen p O_RDONLY 0)) \<and> (\<forall>fd n. C (SysRead fd n)) \<and>
     (\<forall>fd n. C (SysGetdents fd n)) \<and> (\<forall>fd. C (SysClose fd))"

lemma proc_paths:
  "prefix ''/proc'' (printf_sn E 64 ''/proc/%s/environ'' [AStr pid])" "prefix ''/proc'' (printf_sn E 64 ''/proc/%s/comm'' [AStr pid])"
  "prefix ''/proc'' (printf_sn E 256 ''/proc/%s/cmdline'' [AStr pid])" "prefix ''/proc'' (printf_sn E 256 ''/proc/%s/maps'' [AStr pid])"
  by (simp_all add: printf_sn_def printf_simps)

lemma makes_scans [makes_rules]:
  assumes C: "scan_calls C"
  shows "makes E C (scan_pid_steam_by_pid E i)" "makes E C (detect_game E n)"
proof -
  have c: "\<And>p. prefix ''/proc'' p \<Longrightarrow> C (SysOpen p O_RDONLY 0)" "\<And>fd n. C (SysRead fd n)" "\<And>fd n. C (SysGetdents fd n)"
    "\<And>fd. C (SysClose fd)" using C by (auto simp: scan_calls_def)
  have steam: "makes E C (scan_pid_steam E pid)" for pid
    unfolding scan_pid_steam_def Let_def by (intro makes_rules c proc_paths)
  then show "makes E C (scan_pid_steam_by_pid E i)"
    unfolding scan_pid_steam_by_pid_def by (intro makes_rules)
  have maps: "makes E C (maps_loop E n fd)" for fd
    by (induction n) (auto intro!: makes_rules c)
  have bool: "makes E C (case b of True \<Rightarrow> m | False \<Rightarrow> m')" if "makes E C m" "makes E C m'" for b and m m' :: "('a, bool option) m"
    using that by (cases b) auto
  have pid: "makes E C (scan_pid E n pid)" for pid
    unfolding scan_pid_def scan_cmdline_def scan_maps_def by (intro makes_rules c proc_paths maps steam bool)
  have ents: "makes E C (entries_loop E n ns)" for ns
    by (induction ns) (auto intro!: makes_rules pid)
  have "makes E C (detect_loop E n k fd)" for k fd
    by (induction k) (auto intro!: makes_rules c ents bool)
  then show "makes E C (detect_game E n)" unfolding detect_game_def by (intro makes_rules c) simp_all
qed

lemma makes_bpf_poll [makes_rules]:
  assumes "scan_calls C" "log_calls C" "\<And>c. C (LibBpf c)"
  shows "makes E C (bpf_poll E ms)"
proof -
  have counts: "makes E C count_launch" "makes E C count_exit"
    unfolding count_launch_def count_exit_def
    by (intro makes_rules makes_modify; simp add: log_ok_def)+
  show ?thesis
    unfolding bpf_poll_def handle_event_def
    by (intro makes_rules makes_sys assms counts plain_codes)
qed

text \<open>Descriptor balance of a fragment that may run out of rounds.\<close>

definition nets_opt :: "int \<Rightarrow> ('w, 'a option) m \<Rightarrow> bool" where
  "nets_opt d m \<longleftrightarrow> (\<forall>s. (exited s \<noteq> None \<longrightarrow> exited (exec m s) \<noteq> None) \<and>
     (exited (exec m s) = None \<longrightarrow> result m s \<noteq> None \<longrightarrow> held (exec m s) = held s + d))"

lemma nets_optI: "nets d m \<Longrightarrow> nets_opt d m"
  by (simp add: nets_def nets_opt_def)

lemma nets_opt_bind: "nets 0 m \<Longrightarrow> (\<And>x. nets_opt d (k x)) \<Longrightarrow> nets_opt d (State_Monad.bind m k)"
  unfolding nets_def nets_opt_def exec_bind result_bind by (metis add_0_right)

lemma nets_opt_case:
  assumes m: "nets_opt 0 m" and k: "\<And>x. nets_opt d (k (Some x))" and none: "k None = ret None"
  shows "nets_opt d (State_Monad.bind m k)"
  unfolding nets_opt_def
proof (intro allI)
  fix s
  show "(exited s \<noteq> None \<longrightarrow> exited (exec (State_Monad.bind m k) s) \<noteq> None) \<and>
     (exited (exec (State_Monad.bind m k) s) = None \<longrightarrow> result (State_Monad.bind m k) s \<noteq> None \<longrightarrow>
      held (exec (State_Monad.bind m k) s) = held s + d)"
  proof (cases "result m s")
    case None
    then show ?thesis using m none by (simp add: nets_opt_def exec_bind result_bind del: run_state_bind)
  next
    case (Some x)
    have "(exited s \<noteq> None \<longrightarrow> exited (exec m s) \<noteq> None) \<and> (exited (exec m s) = None \<longrightarrow> held (exec m s) = held s)"
      using m Some by (simp add: nets_opt_def)
    moreover have "(exited (exec m s) \<noteq> None \<longrightarrow> exited (exec (k (Some x)) (exec m s)) \<noteq> None) \<and>
      (exited (exec (k (Some x)) (exec m s)) = None \<longrightarrow> result (k (Some x)) (exec m s) \<noteq> None \<longrightarrow>
       held (exec (k (Some x)) (exec m s)) = held (exec m s) + d)"
      using k [of x] unfolding nets_opt_def by blast
    ultimately show ?thesis using Some by (auto simp: exec_bind result_bind simp del: run_state_bind)
  qed
qed

lemma nets_opt_open:
  assumes "\<And>fd. fd < 0 \<Longrightarrow> nets_opt d (k fd)" "\<And>fd. 0 \<le> fd \<Longrightarrow> nets_opt (d - 1) (k fd)"
  shows "nets_opt d (State_Monad.bind (c_open E p fl md) k)"
  unfolding nets_opt_def
proof (intro allI)
  fix s
  let ?s = "exec (c_open E p fl md) s" and ?x = "result (c_open E p fl md) s"
  have h: "held ?s = held s + (if ?x \<ge> 0 then 1 else 0)" "exited ?s = exited s"
    by (auto simp: c_open_def run_sys_int Let_def held_def)
  show "(exited s \<noteq> None \<longrightarrow> exited (exec (State_Monad.bind (c_open E p fl md) k) s) \<noteq> None) \<and>
     (exited (exec (State_Monad.bind (c_open E p fl md) k) s) = None \<longrightarrow> result (State_Monad.bind (c_open E p fl md) k) s \<noteq> None \<longrightarrow>
      held (exec (State_Monad.bind (c_open E p fl md) k) s) = held s + d)"
    using assms [of ?x] h by (cases "0 \<le> ?x") (auto simp: nets_opt_def exec_bind result_bind simp del: run_state_bind)
qed

lemma nets_opt_if: "(b \<Longrightarrow> nets_opt d m) \<Longrightarrow> (\<not> b \<Longrightarrow> nets_opt d m') \<Longrightarrow> nets_opt d (if b then m else m')"
  by simp

lemma nets_scan_steam [nets_rules]: "nets 0 (scan_pid_steam E pid)" "nets 0 (scan_pid_steam_by_pid E i)" "nets 0 (scan_cmdline E pid)"
  unfolding scan_pid_steam_by_pid_def scan_pid_steam_def scan_cmdline_def Let_def
  by - (linarith | rule fd_rules | rule nets_rules)+

lemma nets_detect_game: "nets_opt 0 (detect_game E n)"
proof -
  have maps: "nets_opt (- 1) (maps_loop E n fd)" for fd
  proof (induction n)
    case (Suc n)
    show ?case
      unfolding maps_loop.simps
      by (intro nets_opt_bind nets_opt_if Suc nets_optI nets_rules fd_rules)
  qed (simp add: nets_opt_def)
  have smaps: "nets_opt 0 (scan_maps E n pid)" for pid
    unfolding scan_maps_def by (rule nets_opt_open) (auto intro!: nets_optI nets_rules maps)
  have pid: "nets_opt 0 (scan_pid E n pid)" for pid
    unfolding scan_pid_def
    by (intro nets_opt_bind nets_opt_if nets_opt_case [OF smaps] nets_rules nets_optI; simp split: bool.split)
      (intro conjI impI nets_opt_bind nets_rules nets_optI)
  have ents: "nets_opt 0 (entries_loop E n ns)" for ns
  proof (induction ns)
    case (Cons d ds)
    have "nets_opt 0 (do { r \<leftarrow> scan_pid E n d; if r = Some False then entries_loop E n ds else ret r })"
      by (rule nets_opt_case [OF pid]; simp) (use Cons in \<open>auto intro: nets_optI nets_ret\<close>)
    with Cons show ?case by simp
  qed (simp add: nets_opt_def)
  have loop: "nets_opt (- 1) (detect_loop E n k fd)" for k fd
  proof (induction k)
    case (Suc k)
    have close: "nets_opt (- 1) (do { c_close E fd; ret (Some b) })" for b
      by (intro nets_optI fd_rules nets_rules)
    show ?case
      unfolding detect_loop.simps
      by (intro nets_opt_bind nets_opt_if close nets_opt_case [OF ents] nets_rules; simp split: bool.split)
        (intro conjI impI Suc close)
  qed (simp add: nets_opt_def)
  show ?thesis
    unfolding detect_game_def by (rule nets_opt_open) (auto intro!: nets_optI nets_rules loop)
qed

lemma nets_bpf [nets_rules]:
  "nets 0 (bpf_lib E c)" "nets 0 (handle_event E e)" "nets 0 (bpf_poll E ms)" "nets 0 (bpf_init E)" "nets 0 (bpf_cleanup E)"
  "nets 0 bpf_game"
proof -
  have exit: "nets 0 (modify (\<lambda>s. if 0 < active_games s then s\<lparr>active_games := active_games s - 1\<rparr> else s))"
    by (rule nets_modify) simp_all
  have lib: "nets 0 (sys E (LibBpf c))" for c by (rule nets_sys) simp
  show "nets 0 (bpf_lib E c)" "nets 0 (handle_event E e)" "nets 0 (bpf_poll E ms)" "nets 0 (bpf_init E)" "nets 0 (bpf_cleanup E)"
    "nets 0 bpf_game"
    unfolding bpf_poll_def bpf_init_def bpf_cleanup_def bpf_attach_def bpf_events_def handle_event_def count_launch_def
      count_exit_def bpf_lib_def bpf_game_def
    by - (intro nets_rules lib exit)+
qed

end
