(* ===== verification/Transport.thy ===== *)
theory Transport
  imports Detect
begin

section \<open>Talking to the daemon and to systemd: worker.c and systemd.c\<close>

text \<open>
  The client's side of the socket (\<^verbatim>\<open>worker.c\<close>) and the systemd glue (\<^verbatim>\<open>systemd.c\<close>); the signal handler and
  the failsafe of \<^verbatim>\<open>systemd.c\<close> are in the theory of the journal, which needs them. A function that fills a buffer of its caller takes what
  the buffer had and returns what it has afterwards.
\<close>

subsection \<open>systemd (src/systemd.c)\<close>

definition IPC_PATH :: string where "IPC_PATH = ''/run/x3d-toggle/x3d-toggle.ipc''"
definition SERVICE_UNIT :: string where "SERVICE_UNIT = ''x3d-toggle.service''"

definition systemctl_child :: "string \<Rightarrow> string list \<Rightarrow> child" where
  "systemctl_child verb env =
     \<lparr>c_redirect = True, c_path = ''/usr/bin/systemctl'', c_argv = [''/usr/bin/systemctl'', verb, SERVICE_UNIT],
      c_env = env, c_fail = 1\<rparr>"

text \<open>
  What the child of such a call does: its output goes to \<^verbatim>\<open>/dev/null\<close> and its errors to a log, then it becomes \<^verbatim>\<open>systemctl\<close>; should that fail,
  it ends with \<open>c_fail\<close>. The same block, without the redirection, is every other child of the program that executes something.
\<close>

definition redirect_systemctl_stdio :: "'w env \<Rightarrow> ('w, unit) m" where
  "redirect_systemctl_stdio E = do {
     null_fd \<leftarrow> c_open E ''/dev/null'' O_WRONLY 0;
     (if null_fd \<ge> 0 then do { c_dup2 E null_fd 1; c_close E null_fd; ret () } else ret ());
     log_fd \<leftarrow> c_open E (VAR_LOGS @ ''/systemd-exec.log'') (O_WRONLY + O_CREAT + O_APPEND) 436;
     if log_fd \<ge> 0 then do { c_dup2 E log_fd 2; c_close E log_fd; ret () } else ret ()
   }"

definition child_run :: "'w env \<Rightarrow> child \<Rightarrow> ('w, unit) m" where
  "child_run E c = do {
     (if c_redirect c then redirect_systemctl_stdio E else ret ());
     c_execve E (c_path c) (c_argv c) (c_env c);
     c_exit E (c_fail c)
   }"

definition execute_unit_method :: "'w env \<Rightarrow> string \<Rightarrow> ('w, int) m" where
  "execute_unit_method E verb = do {
     env \<leftarrow> gets environ;
     pid \<leftarrow> c_fork E (systemctl_child verb env);
     if pid < 0 then ret ERR_IO
     else do { st \<leftarrow> c_waitpid E pid; ret (if exit_ok (snd st) then ERR_SUCCESS else ERR_IPC) }
   }"

definition unit_start :: "'w env \<Rightarrow> ('w, int) m" where "unit_start E = execute_unit_method E ''start''"
definition unit_stop :: "'w env \<Rightarrow> ('w, int) m" where "unit_stop E = execute_unit_method E ''stop''"
definition unit_enable :: "'w env \<Rightarrow> ('w, int) m" where "unit_enable E = execute_unit_method E ''enable''"
definition unit_disable :: "'w env \<Rightarrow> ('w, int) m" where "unit_disable E = execute_unit_method E ''disable''"

definition unit_active :: "'w env \<Rightarrow> ('w, bool) m" where
  "unit_active E = do {
     env \<leftarrow> gets environ;
     pid \<leftarrow> c_fork E (systemctl_child ''is-active'' env);
     if pid < 0 then ret False
     else do { st \<leftarrow> c_waitpid E pid; ret (exit_ok (snd st)) }
   }"

text \<open>The address of the notification socket: at most 107 bytes, a leading \<^verbatim>\<open>@\<close> is the abstract namespace.\<close>

definition notify_addr :: "string \<Rightarrow> string" where
  "notify_addr sock_path =
     (let p = take (min (length sock_path) 107) sock_path
      in if take 1 sock_path = ''@'' then NUL # drop 1 p else p)"

definition notify_ready :: "'w env \<Rightarrow> ('w, unit) m" where
  "notify_ready E = do {
     sock_path \<leftarrow> getenv ''NOTIFY_SOCKET'';
     case sock_path of
       None \<Rightarrow> ret ()
     | Some p \<Rightarrow> do {
         fd \<leftarrow> c_socket E AF_UNIX (SOCK_DGRAM + SOCK_CLOEXEC) 0;
         if fd < 0 then ret ()
         else do {
           c_sendto E fd (''READY=1'' @ [NL]) MSG_NOSIGNAL (notify_addr p);
           c_close E fd;
           ret ()
         }
       }
   }"

definition log_shutdown :: "'w env \<Rightarrow> ('w, unit) m" where
  "log_shutdown E = do {
     sg \<leftarrow> gets last_sig;
     c_write E 2 (printf_sn E 128 (''Shutting down daemon... (Signal: %d)'' @ [NL]) [AInt sg]);
     ret ()
   }"

subsection \<open>The client's side of the socket (src/worker.c)\<close>

definition EACCES :: int where "EACCES = 13"
definition ENOENT :: int where "ENOENT = 2"

text \<open>
  \<^verbatim>\<open>socket_send(cmd, response, resp_len)\<close>: the code and the response buffer; \<open>resp_len = 0\<close> stands for the calls
  without one.
\<close>

definition connect_failed :: "'w env \<Rightarrow> ('w, unit) m" where
  "connect_failed E = do {
     e \<leftarrow> gets errno;
     if e = EACCES then do {
       w \<leftarrow> gets warned_group;
       if w then ret ()
       else do { journal_warn E ERR_MISSING []; modify (\<lambda>s. s\<lparr>warned_group := True\<rparr>) }
     } else if e = ENOENT then do {
       a \<leftarrow> unit_active E;
       if a then journal_warn E ERR_OFFLINE [AStr IPC_PATH] else ret ()
     } else journal_error E ERR_IPC [AInt e]
   }"

definition ipc_error :: "'w env \<Rightarrow> ('w, unit) m" where
  "ipc_error E = do { e \<leftarrow> gets errno; journal_error E ERR_IPC [AInt e] }"

definition socket_send :: "'w env \<Rightarrow> string \<Rightarrow> nat \<Rightarrow> string \<Rightarrow> ('w, int \<times> string) m" where
  "socket_send E cmd resp_len old = do {
     fd \<leftarrow> c_socket E AF_UNIX (SOCK_STREAM + SOCK_CLOEXEC) 0;
     if fd < 0 then do { ipc_error E; ret (ERR_IPC, old) }
     else do {
       cn \<leftarrow> c_connect E fd (fit 108 IPC_PATH);
       if cn < 0 then do { connect_failed E; c_close E fd; ret (ERR_IPC, old) }
       else do {
         sn \<leftarrow> c_send E fd cmd MSG_NOSIGNAL;
         if sn < 0 then do { ipc_error E; c_close E fd; ret (ERR_IPC, old) }
         else if resp_len > 0 then do {
           nd \<leftarrow> c_read E fd (resp_len - 1);
           if fst nd > 0 then do { c_close E fd; ret (ERR_SUCCESS, cstr (snd nd)) }
           else if fst nd = 0 then do { journal_error E ERR_IPC [AInt (- 3)]; c_close E fd; ret (ERR_IPC, old) }
           else do { ipc_error E; c_close E fd; ret (ERR_IPC, old) }
         } else do {
           nd \<leftarrow> c_read E fd 15;
           if fst nd < 0 then do { ipc_error E; c_close E fd; ret (ERR_IPC, old) }
           else if fst nd = 0 \<or> strncmp (cstr (snd nd)) ''OK'' 2 \<noteq> 0
           then do { journal_error E ERR_IPC [AInt ERR_IPC]; c_close E fd; ret (ERR_IPC, old) }
           else do { c_close E fd; ret (ERR_SUCCESS, old) }
         }
       }
     }
   }"

text \<open>A command without a response buffer: the code.\<close>

definition socket_cmd :: "'w env \<Rightarrow> string \<Rightarrow> ('w, int) m" where
  "socket_cmd E cmd = do { r \<leftarrow> socket_send E cmd 0 []; ret (fst r) }"

definition socket_probe :: "'w env \<Rightarrow> ('w, int) m" where
  "socket_probe E = do {
     fd \<leftarrow> c_socket E AF_UNIX (SOCK_STREAM + SOCK_CLOEXEC) 0;
     if fd < 0 then ret ERR_IPC
     else do {
       cn \<leftarrow> c_connect E fd (fit 108 IPC_PATH);
       if cn < 0 then do { c_close E fd; ret ERR_IPC }
       else do {
         sent \<leftarrow> c_send E fd ''PING'' MSG_NOSIGNAL;
         if sent \<noteq> 4 then do { c_close E fd; ret ERR_IPC }
         else do {
           nd \<leftarrow> c_read E fd 15;
           c_close E fd;
           ret (if fst nd > 0 \<and> strncmp (cstr (snd nd)) ''OK'' 2 = 0 then ERR_SUCCESS else ERR_IPC)
         }
       }
     }
   }"

subsection \<open>Descriptors and frames\<close>

lemma nets_units [nets_rules]:
  "nets 0 (execute_unit_method E verb)" "nets 0 (unit_start E)" "nets 0 (unit_stop E)" "nets 0 (unit_enable E)"
  "nets 0 (unit_disable E)" "nets 0 (unit_active E)" "nets 0 (notify_ready E)" "nets 0 (log_shutdown E)"
  unfolding unit_start_def unit_stop_def unit_enable_def unit_disable_def execute_unit_method_def unit_active_def
    notify_ready_def log_shutdown_def
  by - (linarith | rule fd_rules | rule nets_rules)+

text \<open>A child leaves the parent's descriptors as they are, executes nothing but its own program, and ends if it could not.\<close>

lemma nets_redirect [nets_rules]: "nets 0 (redirect_systemctl_stdio (E :: 'a env))"
proof -
  let ?log = "c_open E (VAR_LOGS @ ''/systemd-exec.log'') (O_WRONLY + O_CREAT + O_APPEND) 436
     \<bind> (\<lambda>fd. if fd \<ge> 0 then do { c_dup2 E fd 2; c_close E fd; ret () } else ret ())"
  have first: "nets (- 1) (State_Monad.bind m k)" if "nets (- 1) m" "\<And>x. nets 0 (k x)" for m :: "('a, unit) m" and k :: "unit \<Rightarrow> ('a, unit) m"
    using nets_bind [OF that] by simp
  have log: "nets 0 ?log" by - (linarith | rule fd_rules | rule nets_rules)+
  have keep: "nets (- 1) (do { c_dup2 E fd 1; c_close E fd; ret () })" for fd by - (linarith | rule fd_rules | rule nets_rules)+
  have out: "nets (- 1) (if fd \<ge> 0 then do { c_dup2 E fd 1; c_close E fd; ret () } else ret ())" if "0 \<le> fd" for fd
    using keep that by (simp only: if_True)
  have none: "nets 0 (if fd \<ge> 0 then do { c_dup2 E fd 1; c_close E fd; ret () } else ret ())" if "fd < 0" for fd
    using that nets_ret by simp
  show ?thesis
    unfolding redirect_systemctl_stdio_def by (rule nets_open, rule nets_bind0 [OF none log], assumption, rule first [OF out log])
qed

definition child_call :: "child \<Rightarrow> syscall \<Rightarrow> bool" where
  "child_call ch c \<longleftrightarrow> (case c of
     SysExecve q av ev \<Rightarrow> q = c_path ch \<and> av = c_argv ch \<and> ev = c_env ch
   | SysExit st \<Rightarrow> st = c_fail ch
   | SysOpen q fl md \<Rightarrow> c_redirect ch \<and> list_ex (\<lambda>p. q = p) [''/dev/null'', VAR_LOGS @ ''/systemd-exec.log'']
   | SysDup2 a b \<Rightarrow> c_redirect ch \<and> list_ex (\<lambda>fd. b = fd) [1, 2]
   | SysClose fd \<Rightarrow> c_redirect ch
   | _ \<Rightarrow> False)"

lemma child_run_calls: "makes E (child_call ch) (child_run E ch)"
proof -
  have ex: "makes E (child_call ch) (c_execve E (c_path ch) (c_argv ch) (c_env ch))"
    unfolding c_execve_def sys_int_def by (intro makes_rules makes_sys_errno) (simp add: child_call_def)
  have en: "makes E (child_call ch) (c_exit E (c_fail ch))"
    unfolding c_exit_def by (intro makes_rules makes_sys makes_modify) (simp_all add: child_call_def log_ok_def)
  have rd: "makes E (child_call ch) (redirect_systemctl_stdio E)" if "c_redirect ch"
    unfolding redirect_systemctl_stdio_def by (intro makes_rules) (simp_all add: child_call_def that)
  show ?thesis unfolding child_run_def by (intro makes_rules ex en rd)
qed

lemma child_run_ends: "exited (exec (child_run E ch) s) = Some (c_fail ch)"
  by (simp add: child_run_def c_exit_def exec_bind del: run_state_bind)

lemma nets_worker [nets_rules]:
  "nets 0 (connect_failed E)" "nets 0 (ipc_error E)" "nets 0 (socket_send E cmd n old)" "nets 0 (socket_cmd E cmd)"
  "nets 0 (socket_probe E)"
proof -
  show c: "nets 0 (connect_failed E)" "nets 0 (ipc_error E)"
    unfolding connect_failed_def ipc_error_def by - (rule nets_rules)+
  show s: "nets 0 (socket_send E cmd n old)" for n old
    unfolding socket_send_def by - (linarith | rule fd_rules | rule nets_rules c)+
  show "nets 0 (socket_cmd E cmd)" unfolding socket_cmd_def by (intro nets_rules s)
  show "nets 0 (socket_probe E)" unfolding socket_probe_def by - (linarith | rule fd_rules | rule nets_rules)+
qed

definition ipc_indep :: "('w prog \<Rightarrow> bool) \<Rightarrow> bool" where
  "ipc_indep I \<longleftrightarrow> jrn_indep I \<and> (\<forall>s x. I s \<longrightarrow> I (s\<lparr>warned_group := x\<rparr>))"

lemma keeps_worker [hoare_rules]:
  assumes I: "ipc_indep I"
  shows "keeps I (socket_send E cmd n old)" "keeps I (socket_cmd E cmd)" "keeps I (socket_probe E)"
    "keeps I (execute_unit_method E verb)"
proof -
  have j: "jrn_indep I" and w: "\<And>s x. I s \<Longrightarrow> I (s\<lparr>warned_group := x\<rparr>)" using I by (auto simp: ipc_indep_def)
  note base = j jrn_sys [OF j] plain_codes
  show "keeps I (execute_unit_method E verb)" unfolding execute_unit_method_def by (intro hoare_rules base)
  show s: "keeps I (socket_send E cmd n old)" for n old
    unfolding socket_send_def connect_failed_def ipc_error_def unit_active_def
    by (intro hoare_rules base hoare_modify w)
  show "keeps I (socket_cmd E cmd)" unfolding socket_cmd_def by (intro hoare_rules s)
  show "keeps I (socket_probe E)" unfolding socket_probe_def by (intro hoare_rules base)
qed

text \<open>What the daemon answered, as the trace records it.\<close>

definition replies :: "event list \<Rightarrow> string list" where
  "replies t = List.map_filter (\<lambda>e. case e of Sys (SysRead fd n) (Data d) \<Rightarrow> Some (take n d) | _ \<Rightarrow> None) t"

lemma replies_simps [simp]:
  "replies [] = []" "replies (t @ u) = replies t @ replies u"
  "replies [Sys (SysRead fd n) (Data d)] = [take n d]"
  by (simp_all add: replies_def map_filter_def)

lemma hoare_any: "(\<And>x. hoare (\<lambda>_. True) (k x) Q) \<Longrightarrow> hoare (\<lambda>_. True) (State_Monad.bind m k) Q"
  by (rule hoare_bind [where R = "\<lambda>_ _. True"]) (simp_all add: hoare_def)

lemma socket_cmd_codes: "result (socket_cmd E cmd) s \<in> {ERR_SUCCESS, ERR_IPC}"
proof -
  have "hoare (\<lambda>_. True) (socket_send E cmd n old) (\<lambda>r _. fst r \<in> {ERR_SUCCESS, ERR_IPC})" for n old
    unfolding socket_send_def by (intro hoare_any hoare_if hoare_ret) simp_all
  from hoareD [OF this] show ?thesis by (simp add: socket_cmd_def result_bind del: run_state_bind)
qed

text \<open>The only way to success.\<close>

lemma socket_cmd_path:
  assumes "result (socket_cmd E cmd) s = ERR_SUCCESS"
  shows "\<exists>t fd r. trace (exec (socket_cmd E cmd) s) = trace s @ t \<and> SysSendto fd cmd MSG_NOSIGNAL [] \<in> set (calls t) \<and>
         r \<in> set (replies t) \<and> prefix ''OK'' (cstr r)"
proof -
  define fd where "fd = result (c_socket E AF_UNIX (SOCK_STREAM + SOCK_CLOEXEC) 0) s"
  define s1 where "s1 = exec (c_socket E AF_UNIX (SOCK_STREAM + SOCK_CLOEXEC) 0) s"
  define s2 where "s2 = exec (c_connect E fd (fit 108 IPC_PATH)) s1"
  define s3 where "s3 = exec (c_send E fd cmd MSG_NOSIGNAL) s2"
  define s4 where "s4 = exec (c_read E fd 15) s3"
  define nd where "nd = result (c_read E fd 15) s3"
  have ne: "ERR_IPC \<noteq> ERR_SUCCESS" by (simp add: ERR_IPC_def ERR_SUCCESS_def)
  have path: "fd \<ge> 0 \<and> result (c_connect E fd (fit 108 IPC_PATH)) s1 \<ge> 0 \<and> result (c_send E fd cmd MSG_NOSIGNAL) s2 \<ge> 0 \<and>
      fst nd > 0 \<and> strncmp (cstr (snd nd)) ''OK'' 2 = 0"
    using assms ne
    by (auto simp: socket_cmd_def socket_send_def result_bind exec_bind fd_def s1_def s2_def s3_def s4_def nd_def not_less
        simp del: run_state_bind split: if_splits)
  then have ex: "exec (socket_cmd E cmd) s = exec (c_close E fd) s4"
    by (simp add: socket_cmd_def socket_send_def result_bind exec_bind fd_def [symmetric] s1_def [symmetric] s2_def [symmetric]
        s3_def [symmetric] s4_def [symmetric] nd_def [symmetric] del: run_state_bind)
  let ?r = "fst (kernel E (SysRead fd 15) (world s3))"
  obtain d where d: "?r = Data d" "snd nd = take 15 d"
    using path by (auto simp: nd_def c_read_def run_sys_errno Let_def filled_def split: sysres.splits if_splits)
  have t3: "\<exists>r. trace s3 = trace s2 @ [Sys (SysSendto fd cmd MSG_NOSIGNAL []) r]"
    by (simp add: s3_def c_send_def run_sys_errno Let_def)
  have t4: "trace s4 = trace s3 @ [Sys (SysRead fd 15) (Data d)]"
    using d(1) by (simp add: s4_def c_read_def run_sys_errno Let_def)
  obtain r3 r1 r2 r5 where t: "trace (exec (socket_cmd E cmd) s) = trace s @
      [Sys (SysSocket AF_UNIX (SOCK_STREAM + SOCK_CLOEXEC) 0) r1, Sys (SysConnect fd (fit 108 IPC_PATH)) r2,
       Sys (SysSendto fd cmd MSG_NOSIGNAL []) r3] @ [Sys (SysRead fd 15) (Data d)] @ [Sys (SysClose fd) r5]"
    using t3 t4 unfolding ex by (auto simp: close_w.op_trace s2_def connect_w.op_trace s1_def socket_w.op_trace)
  have ok: "prefix ''OK'' (cstr (take 15 d))"
    using path d(2) by (simp add: cstr_simps)
  show ?thesis
    unfolding t
    by (rule exI, rule exI [of _ fd], rule exI [of _ "take 15 d"], intro conjI, rule refl)
      (use ok in \<open>simp_all add: replies_def map_filter_def\<close>)
qed

text \<open>
  C29. A command counts as done only when the daemon said so: \<^verbatim>\<open>socket_send\<close> without a response buffer returns \<^verbatim>\<open>ERR_SUCCESS\<close> only
  if it sent the command and read a reply that begins with \<^verbatim>\<open>OK\<close>; otherwise it returns \<^verbatim>\<open>ERR_IPC\<close>. Either way it
  leaves no descriptor behind.
\<close>

theorem socket_cmd_success:
  "(result (socket_cmd E cmd) s = ERR_SUCCESS \<longrightarrow>
      (\<exists>t fd r. trace (exec (socket_cmd E cmd) s) = trace s @ t \<and> SysSendto fd cmd MSG_NOSIGNAL [] \<in> set (calls t) \<and>
         r \<in> set (replies t) \<and> prefix ''OK'' (cstr r))) \<and>
   (result (socket_cmd E cmd) s \<noteq> ERR_SUCCESS \<longrightarrow> result (socket_cmd E cmd) s = ERR_IPC) \<and>
   (exited (exec (socket_cmd E cmd) s) = None \<longrightarrow> held (exec (socket_cmd E cmd) s) = held s)"
  using socket_cmd_codes [of E cmd s] socket_cmd_path [of E cmd s] nets_worker(4) [of E cmd]
  by (auto simp: nets_def simp del: ex_simps)

text \<open>A daemon that always answers \<^verbatim>\<open>OK\<close>.\<close>

definition ok_env :: "unit env" where
  "ok_env =
     \<lparr>kernel = (\<lambda>c w. (case c of SysRead fd n \<Rightarrow> Data ''OK'' | SysSendto fd d fl p \<Rightarrow> Ret (int (length d)) | _ \<Rightarrow> Ret 3, w)),
      xui_symbols = [], garbage = [], CONFIG_PATH = [], TOTAL_CORES = 4, CCD1_START = 2, ccd_result = None, defaults = mem_defaults\<rparr>"

lemma ok_env_answers: "result (socket_cmd ok_env ''PING'') (initial_prog ()) = ERR_SUCCESS"
  by (simp add: socket_cmd_def socket_send_def c_socket_def c_connect_def c_send_def c_read_def c_close_def run_sys_int
      run_sys_errno Let_def ok_env_def failed_def s32_id filled_def cstr_simps)

theorem socket_cmd_success_witness:
  "\<exists>t fd r. trace (exec (socket_cmd ok_env ''PING'') (initial_prog ())) = trace (initial_prog ()) @ t \<and>
     SysSendto fd ''PING'' MSG_NOSIGNAL [] \<in> set (calls t) \<and> r \<in> set (replies t) \<and> prefix ''OK'' (cstr r)"
  using socket_cmd_success [of ok_env "''PING''" "initial_prog ()"] ok_env_answers by blast

end
