(* ===== verification/Status.thy ===== *)
theory Status
  imports Transport
begin

section \<open>Status for the front ends (src/status.c)\<close>

text \<open>
  \<^verbatim>\<open>stats\<close> and \<^verbatim>\<open>status_cpu\<close> measure the load from \<^verbatim>\<open>/proc/stat\<close>; \<^verbatim>\<open>daemon_status\<close> collects what the front ends
  show: it probes the daemon, reads the hardware nodes, asks the daemon for its state or falls back to the
  configuration file, and classifies the result. The counters are 64-bit words; the load, a \<^verbatim>\<open>double\<close> in the code, is
  an exact rational. The icons are macros of the generated header and stand for themselves.
\<close>

subsection \<open>Load\<close>

fun read_counters :: "nat \<Rightarrow> string \<Rightarrow> 64 word list" where
  "read_counters 0 p = []"
| "read_counters (Suc n) p = (case strtoull p 10 of (v, q) \<Rightarrow> v # read_counters n q)"

definition stats_text :: "string \<Rightarrow> CPUStats \<Rightarrow> CPUStats" where
  "stats_text buf st =
     (case strchr buf (CHR '' '') of
        None \<Rightarrow> st
      | Some k \<Rightarrow>
          (case read_counters 7 (drop k buf) of
             [a, b, c, d, e, f, g] \<Rightarrow>
               \<lparr>cs_user = a, cs_nice = b, cs_system = c, cs_idle = d, cs_iowait = e, cs_irq = f, cs_softirq = g\<rparr>
           | _ \<Rightarrow> st))"

definition stats :: "'w env \<Rightarrow> CPUStats \<Rightarrow> ('w, CPUStats) m" where
  "stats E st = do {
     fd \<leftarrow> c_open E ''/proc/stat'' O_RDONLY 0;
     if fd < 0 then ret st
     else do {
       nd \<leftarrow> c_read E fd 255;
       c_close E fd;
       ret (if fst nd \<le> 0 then st else stats_text (cstr (snd nd)) st)
     }
   }"

definition idle_of :: "CPUStats \<Rightarrow> 64 word" where
  "idle_of st = cs_idle st + cs_iowait st"

definition busy_of :: "CPUStats \<Rightarrow> 64 word" where
  "busy_of st = cs_user st + cs_nice st + cs_system st + cs_irq st + cs_softirq st"

definition status_cpu :: "CPUStats \<Rightarrow> CPUStats \<Rightarrow> rat" where
  "status_cpu prev cur =
     (let p_total = idle_of prev + busy_of prev;
          c_total = idle_of cur + busy_of cur;
          diff_total = c_total - p_total;
          diff_idle = idle_of cur - idle_of prev
      in if diff_total = 0 then 0 else of_nat (unat (diff_total - diff_idle)) / of_nat (unat diff_total))"

subsection \<open>Collecting\<close>

definition status_sysfs :: "'w env \<Rightarrow> string \<Rightarrow> nat \<Rightarrow> ('w, string) m" where
  "status_sysfs E path max_len = do {
     fd \<leftarrow> c_open E path O_RDONLY 0;
     if fd < 0 then ret (fit max_len ''N/A'')
     else do {
       nd \<leftarrow> c_read E fd (max_len - 1);
       c_close E fd;
       ret (if fst nd > 0 then takeWhile (\<lambda>c. c \<noteq> NL \<and> c \<noteq> CR) (cstr (snd nd)) else fit max_len ''N/A'')
     }
   }"

definition status_upper :: "string \<Rightarrow> string" where
  "status_upper str = map toupper str"

definition daemon_active :: "'w env \<Rightarrow> ('w, int) m" where
  "daemon_active E = do {
     a \<leftarrow> c_access E IPC_PATH F_OK;
     b \<leftarrow> (if a \<noteq> 0 then c_access E ''/var/run/x3d-toggle.pid'' F_OK else ret 0);
     if b \<noteq> 0 then ret 1
     else do {
       res \<leftarrow> socket_probe E;
       if res \<noteq> 0 then do { e \<leftarrow> gets errno; ret (if e = 13 then 3 else 2) } else ret 0
     }
   }"

text \<open>The state of a die, from the online switch of its first core.\<close>

definition ccd_state_of :: "'w env \<Rightarrow> int \<Rightarrow> ('w, string) m" where
  "ccd_state_of E core = do {
     fd \<leftarrow> c_open E (printf_sn E 128 ''/sys/devices/system/cpu/cpu%d/online'' [AInt core]) O_RDONLY 0;
     if fd < 0 then ret ''ONLINE''
     else do {
       nd \<leftarrow> c_read E fd 15;
       c_close E fd;
       ret (if fst nd > 0 \<and> take 1 (snd nd) = ''0'' then ''PARKED'' else ''ONLINE'')
     }
   }"

datatype icon = QUERY | CACHED | FREQU | CHICKEN | HUT | PINNED | TOPSWAP | DUALIZE | STOPSIGN | MANUAL | XOUT | PADLOCK

record Status =
  sv_d_mode :: string
  sv_daemon_state :: string
  sv_ipc_status :: string
  sv_ebpf_status :: string
  sv_c_mode :: string
  sv_ccd_state :: string
  sv_st_buff :: string
  sv_st_buff_ccd0 :: string
  sv_st_buff_ccd1 :: string
  sv_d_buff :: string
  sv_epp :: string
  sv_gov :: string
  sv_smt :: string
  sv_plat :: string
  sv_refresh :: rat
  sv_d_icon :: icon
  sv_c_icon :: icon
  sv_ccd_icon :: icon

text \<open>What the daemon's own report or the configuration file says.\<close>

record report =
  rp_state :: string
  rp_ebpf :: string
  rp_override :: int
  rp_affinity :: bool
  rp_refresh :: rat

definition report_init :: report where
  "report_init = \<lparr>rp_state = ''MANUAL'', rp_ebpf = ''DYNAMIC POLLING'', rp_override = - 1, rp_affinity = False, rp_refresh = 0\<rparr>"

text \<open>The value of the state: it ends at the first semicolon, without one at the first bar.\<close>

definition cut_state :: "string \<Rightarrow> string" where
  "cut_state v =
     (case strchr v (CHR '';'') of
        Some k \<Rightarrow> take k v
      | None \<Rightarrow> (case strchr v (CHR ''|'') of Some k \<Rightarrow> take k v | None \<Rightarrow> v))"

definition parse_live :: "string \<Rightarrow> report" where
  "parse_live info =
     (let st = status_upper (case strstr info ''STATE='' of
                 None \<Rightarrow> ''MANUAL'' | Some k \<Rightarrow> cut_state (fit 64 (drop (k + 6) info)));
          ebpf = (case strstr info ''BPF_ACTIVE='' of
                    None \<Rightarrow> ''DYNAMIC POLLING''
                  | Some k \<Rightarrow> if atoi (drop (k + 11) info) \<noteq> 0 then ''eBPF (Active)'' else ''Polling (Fallback)'')
      in \<lparr>rp_state = st,
          rp_ebpf = (if strcmp st ''DEFAULT'' \<noteq> 0 then ''INACTIVE (MANUAL OVERRIDE)'' else ebpf),
          rp_override = (case strstr info ''OVERRIDE='' of None \<Rightarrow> - 1 | Some k \<Rightarrow> atoi (drop (k + 9) info)),
          rp_affinity = (case strstr info ''MASK='' of None \<Rightarrow> False | Some k \<Rightarrow> strncmp (drop (k + 5) info) ''none'' 4 \<noteq> 0),
          rp_refresh = (case strstr info ''REFRESH_INTERVAL='' of None \<Rightarrow> 1 / 2 | Some k \<Rightarrow> atof (drop (k + 17) info))\<rparr>)"

definition conf_line :: "string \<Rightarrow> report \<Rightarrow> report" where
  "conf_line line r =
     (let r1 = (if strncmp line ''DAEMON_STATE='' 13 = 0 then r\<lparr>rp_state := status_upper (fit 64 (drop 13 line))\<rparr> else r)
      in if strncmp line ''AFFINITY_MASK='' 14 = 0 \<and> strcmp (drop 14 line) ''none'' \<noteq> 0 then r1\<lparr>rp_affinity := True\<rparr> else r1)"

definition parse_conf :: "string \<Rightarrow> report" where
  "parse_conf buf =
     (let r = while_lines (\<lambda>_. True) conf_line buf report_init
      in r\<lparr>rp_ebpf := (if strcmp (rp_state r) ''DEFAULT'' = 0 then ''eBPF/POLLING (ACTIVE)'' else ''INACTIVE (SUSPENDED)'')\<rparr>)"

definition offline_report :: "'w env \<Rightarrow> ('w, report) m" where
  "offline_report E = do {
     fd \<leftarrow> c_open E (CONFIG_PATH E) O_RDONLY 0;
     if fd < 0 then ret report_init
     else do {
       nd \<leftarrow> c_read E fd 4095;
       c_close E fd;
       ret (if fst nd > 0 then parse_conf (cstr (snd nd)) else report_init)
     }
   }"

definition live_report :: "'w env \<Rightarrow> int \<Rightarrow> ('w, report) m" where
  "live_report E daemon_st =
     (if daemon_st = 0 then do {
        r \<leftarrow> socket_send E ''DAEMON_INFO'' 128 [];
        if fst r = 0 then ret (parse_live (snd r)) else offline_report E
      } else offline_report E)"

subsection \<open>Classifying\<close>

definition classify_mode :: "string \<Rightarrow> icon \<times> string" where
  "classify_mode c_mode =
     (if has c_mode ''CACHE'' then (CACHED, ''CACHE'')
      else if has c_mode ''FREQUENCY'' then (FREQU, ''FREQUENCY'')
      else if has c_mode ''AUTO'' \<or> has c_mode ''CPPC'' then (CHICKEN, ''CPPC'')
      else (QUERY, ''UNKNOWN''))"

definition classify_ccd :: "bool \<Rightarrow> string \<Rightarrow> int \<Rightarrow> icon \<times> string" where
  "classify_ccd affinity_active ccd1_st live_override =
     (if affinity_active then (PINNED, ''AFFINITY PINNED'')
      else if strcmp ccd1_st ''ONLINE'' = 0 then
        (if live_override = 4 then (TOPSWAP, ''INVERTED'') else (DUALIZE, ''FULL THROUGHPUT''))
      else (PINNED, ''CCD ISOLATED''))"

text \<open>Icon, mode, socket status and eBPF status for the state of the daemon.\<close>

definition classify_daemon :: "int \<Rightarrow> string \<Rightarrow> string \<Rightarrow> icon \<times> string \<times> string \<times> string" where
  "classify_daemon daemon_st st ebpf =
     (if daemon_st = 0 then
        (if strcmp st ''DEFAULT'' = 0 then (CHICKEN, ''ACTIVE'', ''SOCKET ONLINE'', ebpf)
         else if strcmp st ''HARD_RESET'' = 0 \<or> strcmp st ''AUTO'' = 0
         then (STOPSIGN, ''CPPC NATIVE'', ''SOCKET ONLINE'', ebpf)
         else (MANUAL, ''SUSPENDED'', ''SOCKET ONLINE'', ebpf))
      else if daemon_st = 2 then (XOUT, ''FAILED (NO IPC)'', ''SOCKET OFFLINE'', ''INACTIVE'')
      else if daemon_st = 3 then (PADLOCK, ''PERMISSION ERROR'', ''ACCESS DENIED'', ''INACTIVE (RE-AUTH REQ)'')
      else (STOPSIGN, ''STOPPED'', ''SOCKET OFFLINE'', ''INACTIVE''))"

definition daemon_status :: "'w env \<Rightarrow> ('w, Status) m" where
  "daemon_status E = do {
     daemon_st \<leftarrow> daemon_active E;
     cm \<leftarrow> mode E ''n/a'' 64;
     ccd0_st \<leftarrow> ccd_state_of E 0;
     ccd1_st \<leftarrow> ccd_state_of E (CCD1_START E);
     d_buff \<leftarrow> status_sysfs E ''/sys/devices/system/cpu/amd_pstate/status'' 64;
     epp \<leftarrow> status_sysfs E ''/sys/devices/system/cpu/cpu0/cpufreq/energy_performance_preference'' 64;
     gov \<leftarrow> status_sysfs E ''/sys/devices/system/cpu/cpu0/cpufreq/scaling_governor'' 64;
     smt \<leftarrow> status_sysfs E ''/sys/devices/system/cpu/smt/control'' 64;
     plat \<leftarrow> status_sysfs E ''/sys/firmware/acpi/platform_profile'' 64;
     bst \<leftarrow> status_sysfs E ''/sys/devices/system/cpu/cpufreq/boost'' 64;
     rp \<leftarrow> live_report E daemon_st;
     let (c_icon, c_mode) = classify_mode (status_upper (fit 64 (snd cm)));
         (ccd_icon, ccd_st) = classify_ccd (rp_affinity rp) ccd1_st (rp_override rp);
         (d_icon, d_mode, ipc, ebpf) = classify_daemon daemon_st (rp_state rp) (rp_ebpf rp)
     in ret \<lparr>sv_d_mode = fit 64 d_mode, sv_daemon_state = rp_state rp, sv_ipc_status = fit 64 ipc, sv_ebpf_status = fit 64 ebpf,
          sv_c_mode = fit 64 c_mode, sv_ccd_state = fit 32 ccd_st,
          sv_st_buff = status_upper (fit 16 (if strcmp bst ''1'' = 0 then ''ENABLED'' else ''DISABLED'')),
          sv_st_buff_ccd0 = fit 16 ccd0_st, sv_st_buff_ccd1 = fit 16 ccd1_st,
          sv_d_buff = status_upper d_buff, sv_epp = status_upper epp, sv_gov = status_upper gov,
          sv_smt = status_upper smt, sv_plat = status_upper plat, sv_refresh = rp_refresh rp,
          sv_d_icon = d_icon, sv_c_icon = c_icon, sv_ccd_icon = ccd_icon\<rparr>
   }"

subsection \<open>Descriptors\<close>

lemma nets_status [nets_rules]: "nets 0 (daemon_status E)" "nets 0 (stats E st)"
  unfolding daemon_status_def live_report_def offline_report_def status_sysfs_def ccd_state_of_def daemon_active_def stats_def
  by - (linarith | rule fd_rules | rule nets_rules)+

subsection \<open>The load is a fraction\<close>

text \<open>The counters as natural numbers.\<close>

definition idle_nat :: "CPUStats \<Rightarrow> nat" where
  "idle_nat st = unat (cs_idle st) + unat (cs_iowait st)"

definition busy_nat :: "CPUStats \<Rightarrow> nat" where
  "busy_nat st = unat (cs_user st) + unat (cs_nice st) + unat (cs_system st) + unat (cs_irq st) + unat (cs_softirq st)"

lemma counters_of_nat: "idle_of st = of_nat (idle_nat st)" "busy_of st = of_nat (busy_nat st)"
  by (simp_all add: idle_of_def busy_of_def idle_nat_def busy_nat_def)

lemma unat_small: "n < 2 ^ 64 \<Longrightarrow> unat (of_nat n :: 64 word) = n"
  by (simp add: unat_of_nat)

text \<open>
  C34. The load: when the busy and idle counters have not gone back since the last sample and the total still fits
  64 bits, \<^verbatim>\<open>status_cpu\<close> is the busy share of the ticks in between, computed without wrap-around, and lies between 0 and 1; with no ticks in
  between it is 0.
\<close>

theorem status_cpu_fraction:
  assumes "idle_nat prev \<le> idle_nat cur" "busy_nat prev \<le> busy_nat cur" "idle_nat cur + busy_nat cur < 2 ^ 64"
  shows "status_cpu prev cur =
      (let busy = busy_nat cur - busy_nat prev; idle = idle_nat cur - idle_nat prev
       in if busy + idle = 0 then 0 else of_nat busy / of_nat (busy + idle)) \<and>
    0 \<le> status_cpu prev cur \<and> status_cpu prev cur \<le> 1"
proof -
  define b i where "b = busy_nat cur - busy_nat prev" and "i = idle_nat cur - idle_nat prev"
  have lt: "b + i < 2 ^ 64" using assms by (simp add: b_def i_def)
  have tot: "idle_of cur + busy_of cur - (idle_of prev + busy_of prev) = of_nat (b + i)"
    using assms unfolding counters_of_nat by (simp add: b_def i_def of_nat_diff algebra_simps)
  have idl: "idle_of cur - idle_of prev = of_nat i"
    using assms unfolding counters_of_nat by (simp add: i_def of_nat_diff)
  have dif: "of_nat (b + i) - of_nat i = (of_nat b :: 64 word)" by simp
  have zero: "(of_nat (b + i) = (0 :: 64 word)) = (b + i = 0)"
    unfolding unat_eq_zero [symmetric] unat_small [OF lt] ..
  have eq: "status_cpu prev cur = (if b + i = 0 then 0 else of_nat b / of_nat (b + i))"
    unfolding status_cpu_def Let_def tot idl dif zero using lt unat_small [OF lt] unat_small [of b] by simp
  moreover have "0 \<le> (if b + i = 0 then 0 else of_nat b / of_nat (b + i) :: rat)" "(if b + i = 0 then 0 else of_nat b / of_nat (b + i) :: rat) \<le> 1"
    by (simp_all add: divide_le_eq)
  ultimately show ?thesis unfolding Let_def b_def [symmetric] i_def [symmetric] by simp
qed

definition sample :: "nat \<Rightarrow> nat \<Rightarrow> CPUStats" where
  "sample b i = \<lparr>cs_user = of_nat b, cs_nice = 0, cs_system = 0, cs_idle = of_nat i, cs_iowait = 0, cs_irq = 0, cs_softirq = 0\<rparr>"

theorem status_cpu_fraction_witness: "status_cpu (sample 10 100) (sample 40 110) = 3 / 4"
  using status_cpu_fraction [of "sample 10 100" "sample 40 110"]
  by (simp add: sample_def idle_nat_def busy_nat_def Let_def)

subsection \<open>The report fits its buffers\<close>

definition status_fits :: "Status \<Rightarrow> bool" where
  "status_fits v \<longleftrightarrow> length (sv_d_mode v) < 64 \<and> length (sv_daemon_state v) < 64 \<and> length (sv_ipc_status v) < 64 \<and>
     length (sv_ebpf_status v) < 64 \<and> length (sv_c_mode v) < 64 \<and> length (sv_ccd_state v) < 32 \<and> length (sv_st_buff v) < 16 \<and>
     length (sv_st_buff_ccd0 v) < 16 \<and> length (sv_st_buff_ccd1 v) < 16 \<and> length (sv_d_buff v) < 64 \<and> length (sv_epp v) < 64 \<and>
     length (sv_gov v) < 64 \<and> length (sv_smt v) < 64 \<and> length (sv_plat v) < 64"

lemma length_cut_state: "length (cut_state v) \<le> length v"
  by (simp add: cut_state_def split: option.splits)

lemma length_status_upper [simp]: "length (status_upper v) = length v"
  by (simp add: status_upper_def)

lemma rp_state_live: "length (rp_state (parse_live info)) < 64"
proof -
  have "rp_state (parse_live info) = status_upper (case strstr info ''STATE='' of
      None \<Rightarrow> ''MANUAL'' | Some k \<Rightarrow> cut_state (fit 64 (drop (k + 6) info)))"
    unfolding parse_live_def Let_def by (simp only: report.select_convs)
  moreover have "length (cut_state (fit 64 v)) < 64" for v
    using length_cut_state [of "fit 64 v"] length_fit [of 64 v] by linarith
  ultimately show ?thesis by (cases "strstr info ''STATE=''") simp_all
qed

lemma rp_state_conf: "length (rp_state (parse_conf buf)) < 64"
proof -
  let ?I = "\<lambda>r. length (rp_state r) < 64"
  have "?I (while_lines (\<lambda>_. True) conf_line buf report_init)"
    by (rule while_lines_inv) (simp_all add: report_init_def conf_line_def Let_def length_fit min_less_iff_disj)
  then show ?thesis by (simp add: parse_conf_def Let_def)
qed

text \<open>A bind whose first part promises something about its value only.\<close>

lemma hoare_value:
  "hoare (\<lambda>_. True) m (\<lambda>x _. G x) \<Longrightarrow> (\<And>x. G x \<Longrightarrow> hoare (\<lambda>_. True) (k x) Q) \<Longrightarrow>
   hoare (\<lambda>_. True) (State_Monad.bind m k) Q"
  by (simp add: hoare_def exec_bind result_bind del: run_state_bind)

lemma hoare_status_sysfs:
  "hoare (\<lambda>_. True) (status_sysfs E path 64) (\<lambda>r _. length r < 64)"
proof -
  have read: "hoare (\<lambda>_. True) (c_read E fd n) (\<lambda>nd _. length (snd nd) \<le> n)" for fd n
    by (auto simp: hoare_def c_read_def run_sys_errno Let_def filled_def split: sysres.splits)
  have close: "hoare (\<lambda>_. P) (c_close E fd) (\<lambda>_ _. P)" for fd P
    by (simp add: hoare_def)
  have short: "length d \<le> 63 \<Longrightarrow> length (takeWhile Q (cstr d)) < 64" for d Q
    using length_takeWhile_le [of Q "cstr d"] length_cstr_le [of d] by linarith
  show ?thesis
    unfolding status_sysfs_def
    by (intro hoare_any hoare_if hoare_ret hoare_bind [OF read] hoare_bind [OF close])
      (auto simp: short)
qed

text \<open>
  Whatever the kernel and the daemon answer, every string of the status report fits the array the front ends declare for it.
\<close>

theorem daemon_status_fits: "status_fits (result (daemon_status E) s)"
proof -
  have rp: "hoare (\<lambda>_. True) (live_report E d) (\<lambda>r _. length (rp_state r) < 64)" for d
    unfolding live_report_def offline_report_def
    by (intro hoare_if hoare_any hoare_ret) (simp_all add: rp_state_live rp_state_conf report_init_def)
  have "hoare (\<lambda>_. True) (daemon_status E) (\<lambda>v _. status_fits v)"
    unfolding daemon_status_def
    by (intro hoare_any [where m = "daemon_active E"] hoare_any [where m = "mode E ''n/a'' 64"]
        hoare_any [where m = "ccd_state_of E i" for i] hoare_value [OF hoare_status_sysfs] hoare_value [OF rp])
      (simp add: Let_def split_beta hoare_def status_fits_def length_fit min_less_iff_disj)
  from hoareD [OF this] show ?thesis by simp
qed

end
