(* ===== verification/Polling.thy ===== *)
theory Polling
  imports Status
begin

section \<open>The decision of the daemon (\<^verbatim>\<open>polling_run\<close> of src/daemon/polling/polling.c)\<close>

text \<open>
  One round of the daemon: sample the load, read the mode, decide, switch if needed, log a transition.
  \<^verbatim>\<open>current\<close> and \<^verbatim>\<open>target\<close> are buffers of the caller and live in the program state; \<open>None\<close> means that the scan of
  \<^verbatim>\<open>/proc\<close> used up its bound.
\<close>

subsection \<open>The round\<close>

definition polling_sense :: "'w env \<Rightarrow> ('w, bool) m" where
  "polling_sense E = do {
     c0 \<leftarrow> gets c_stat;
     c1 \<leftarrow> stats E c0;
     modify (\<lambda>s. s\<lparr>c_stat := c1\<rparr>);
     modify (\<lambda>s. s\<lparr>p_stat := c1\<rparr>);
     old \<leftarrow> gets cur_mode;
     mc \<leftarrow> mode E old 32;
     modify (\<lambda>s. s\<lparr>cur_mode := snd mc\<rparr>);
     ret (fst mc = ERR_SUCCESS)
   }"

definition polling_target :: "int \<Rightarrow> bool \<Rightarrow> string" where
  "polling_target ov game =
     (if ov = 1 then ''cache'' else if ov = 2 then ''frequency'' else if game then ''cache'' else ''frequency'')"

text \<open>The pending events, if eBPF is active.\<close>

definition poll_events :: "'w env \<Rightarrow> ('w, unit) m" where
  "poll_events E = do { b \<leftarrow> gets bpf_active; if b then bpf_poll E 0 else ret () }"

definition polling_decide :: "'w env \<Rightarrow> nat \<Rightarrow> ('w, string option) m" where
  "polling_decide E n = do {
     poll_events E;
     eg \<leftarrow> bpf_game;
     pg \<leftarrow> detect_game E n;
     case pg of
       None \<Rightarrow> ret None
     | Some g \<Rightarrow> do { ov \<leftarrow> gets active_override; ret (Some (fit 32 (polling_target ov (eg \<or> g)))) }
   }"

definition polling_switch :: "'w env \<Rightarrow> bool \<Rightarrow> ('w, unit) m" where
  "polling_switch E sysfs_ok = do {
     cur \<leftarrow> gets cur_mode;
     tgt \<leftarrow> gets target_mode;
     if sysfs_ok \<and> strcmp cur tgt \<noteq> 0 \<and> tgt \<noteq> [] then do { cli_set_mode E tgt; ret () } else ret ()
   }"

definition force_apply :: "'w env \<Rightarrow> bool \<Rightarrow> ('w, unit) m" where
  "force_apply E sysfs_ok = do {
     polling_switch E sysfs_ok;
     cur \<leftarrow> gets cur_mode;
     modify (\<lambda>s. s\<lparr>target_mode := fit 32 cur\<rparr>)
   }"

definition polling_display :: "'w env \<Rightarrow> ('w, unit) m" where
  "polling_display E = do {
     tgt \<leftarrow> gets target_mode;
     ov \<leftarrow> gets active_override;
     let shown = (if ov = 4 then ''swap'' else if ov = 3 then ''dual'' else fit 32 tgt);
     last_t \<leftarrow> gets last_target;
     ds \<leftarrow> gets (\<lambda>s. daemon_state (cfg s));
     if strcmp shown last_t \<noteq> 0 then do {
       modify (\<lambda>s. s\<lparr>last_target := fit 32 shown\<rparr>);
       journal_debug E ''State Transition: Target: %s | Mode: %s'' [AStr shown, AStr ds]
     } else ret ()
   }"

definition polling_run :: "'w env \<Rightarrow> nat \<Rightarrow> ('w, unit option) m" where
  "polling_run E n = do {
     sysfs_ok \<leftarrow> polling_sense E;
     lock \<leftarrow> gets wrapper_lock;
     ov \<leftarrow> gets active_override;
     ds \<leftarrow> gets (\<lambda>s. daemon_state (cfg s));
     if lock \<noteq> 0 then do {
       modify (\<lambda>s. s\<lparr>target_mode := ''cache''\<rparr>);
       force_apply E sysfs_ok;
       polling_display E;
       ret (Some ())
     } else if ov < 3 \<and> strcmp ds ''default'' = 0 then do {
       t \<leftarrow> polling_decide E n;
       case t of
         None \<Rightarrow> ret None
       | Some tgt \<Rightarrow> do {
           modify (\<lambda>s. s\<lparr>target_mode := tgt\<rparr>);
           polling_switch E sysfs_ok;
           polling_display E;
           ret (Some ())
         }
     } else do {
       force_apply E sysfs_ok;
       polling_display E;
       ret (Some ())
     }
   }"

subsection \<open>Descriptors\<close>

lemma nets_polling_parts [nets_rules]:
  "nets 0 (polling_sense E)" "nets 0 (polling_switch E ok)" "nets 0 (force_apply E ok)" "nets 0 (polling_display E)"
  unfolding polling_sense_def force_apply_def polling_switch_def polling_display_def by - (intro nets_rules)+

lemma nets_opt_option:
  "nets_opt 0 m \<Longrightarrow> (\<And>x. nets_opt d (f x)) \<Longrightarrow>
   nets_opt d (State_Monad.bind m (\<lambda>r. case r of None \<Rightarrow> ret None | Some x \<Rightarrow> f x))"
  by (rule nets_opt_case) simp_all

lemma nets_polling_run: "nets_opt 0 (polling_run E n)"
proof -
  have tail: "nets_opt 0 (do { ov \<leftarrow> gets active_override; ret (Some (fit 32 (polling_target ov (eg \<or> g)))) })" for eg g
    by (intro nets_optI nets_rules)
  have dec: "nets_opt 0 (polling_decide E n)"
    unfolding polling_decide_def
    by (rule nets_opt_bind, (unfold poll_events_def, intro nets_rules)[1], rule nets_opt_bind, rule nets_bpf,
        rule nets_opt_option [OF nets_detect_game tail])
  have apply_t: "nets_opt 0 (do { modify (\<lambda>s. s\<lparr>target_mode := f s\<rparr>); polling_switch E ok; polling_display E; ret (Some ()) })"
    "nets_opt 0 (do { modify (\<lambda>s. s\<lparr>target_mode := f s\<rparr>); force_apply E ok; polling_display E; ret (Some ()) })"
    "nets_opt 0 (do { force_apply E ok; polling_display E; ret (Some ()) })" for f ok
    by (intro nets_optI nets_rules)+
  show ?thesis
    unfolding polling_run_def
    by (intro nets_opt_option [OF dec] apply_t nets_opt_if nets_opt_bind [OF nets_polling_parts(1)] nets_opt_bind [OF nets_gets])
qed

subsection \<open>Rounds on the device\<close>

text \<open>Nothing else the round does touches the mode node.\<close>

lemma node_calls:
  assumes "node_at E p"
  shows "scan_calls (off_node p)" "log_calls (off_node p)" "off_node p (LibBpf c)" "off_node p (SysOpen ''/proc/stat'' fl md)"
    "off_node p (SysRead fd k)" "off_node p (SysClose fd)"
proof -
  have p: "p \<in> set x3d_targets" using assms unfolding node_at_def by (metis in_set_conv_decomp)
  then have "\<not> prefix ''/proc'' p" "\<not> prefix VAR_LOGS p" "p \<noteq> ''/proc/stat''"
    by (auto simp: x3d_targets_def VAR_LOGS_def)
  then show "scan_calls (off_node p)" "log_calls (off_node p)" "off_node p (LibBpf c)" "off_node p (SysOpen ''/proc/stat'' fl md)"
    "off_node p (SysRead fd k)" "off_node p (SysClose fd)"
    by (auto simp: scan_calls_def log_calls_def off_node_def)
qed

text \<open>Steps between the operations on the node keep the mode.\<close>

definition path_in :: "string \<Rightarrow> 'w prog \<Rightarrow> bool" where
  "path_in p s \<longleftrightarrow> x3d_path_cache s \<in> {[], p}"

lemma path_in_indep: "sys_indep (path_in p)" "jrn_indep (path_in p)"
  by (simp_all add: path_in_def sys_indep_def jrn_indep_def)

lemma in_mode_quiet:
  assumes "mode_device E p st fds" "makes E (off_node p) n" "keeps (path_in p) n"
  shows "keeps (in_mode p st fds m) n"
  using in_mode_makes [OF assms(1,2)] assms(3) by (simp add: path_in_def [abs_def])

lemma in_mode_modify:
  assumes "\<And>s. world (f s) = world s" "\<And>s. x3d_path_cache (f s) = x3d_path_cache s" "\<And>s. log_path (f s) = log_path s"
  shows "keeps (in_mode p st fds m) (modify f)"
  using assms by (simp add: hoare_def in_mode_def log_ok_def)

text \<open>The variables a round is steered by.\<close>

definition steer :: "int \<Rightarrow> int \<Rightarrow> string \<Rightarrow> string \<Rightarrow> 'w prog \<Rightarrow> bool" where
  "steer lock ov ds tgt s \<longleftrightarrow> wrapper_lock s = lock \<and> active_override s = ov \<and> daemon_state (cfg s) = ds \<and> target_mode s = tgt"

lemma steer_indep: "det_indep (steer lock ov ds tgt)"
  by (simp add: det_indep_def hw_indep_def jrn_indep_def sys_indep_def steer_def)

lemmas steer_base = det_sys [OF steer_indep] det_jrn [OF steer_indep] det_hw [OF steer_indep] steer_indep

lemma hoare_conj: "hoare P m Q \<Longrightarrow> hoare P' m Q' \<Longrightarrow> hoare (\<lambda>s. P s \<and> P' s) m (\<lambda>x s. Q x s \<and> Q' x s)"
  by (simp add: hoare_def)

lemma keeps_polling_parts:
  "keeps (steer lock ov ds tgt) (polling_sense E)" "keeps (steer lock ov ds tgt) (polling_decide E n)"
  "keeps (steer lock ov ds tgt) (polling_switch E ok)" "keeps (steer lock ov ds tgt) (polling_display E)"
proof -
  have mods: "keeps (steer lock ov ds tgt) (modify (\<lambda>s. s\<lparr>c_stat := fp s\<rparr>))" "keeps (steer lock ov ds tgt) (modify (\<lambda>s. s\<lparr>p_stat := fp s\<rparr>))"
    "keeps (steer lock ov ds tgt) (modify (\<lambda>s. s\<lparr>cur_mode := fs s\<rparr>))" "keeps (steer lock ov ds tgt) (modify (\<lambda>s. s\<lparr>last_target := fs s\<rparr>))"
    for fp fs by (simp_all add: hoare_def steer_def)
  show "keeps (steer lock ov ds tgt) (polling_sense E)" "keeps (steer lock ov ds tgt) (polling_decide E n)"
    "keeps (steer lock ov ds tgt) (polling_switch E ok)" "keeps (steer lock ov ds tgt) (polling_display E)"
    unfolding polling_sense_def stats_def polling_decide_def poll_events_def bpf_game_def polling_switch_def polling_display_def
    by - (intro hoare_rules mods steer_base)+
qed

lemma hoare_polling_sense:
  assumes D: "mode_device E p st fds" and N: "node_at E p"
  shows "hoare (in_mode p st fds m) (polling_sense E) (\<lambda>ok s. ok \<and> cur_mode s = m \<and> in_mode p st fds m s)"
proof -
  have stats: "keeps (in_mode p st fds m) (stats E c)" for c
    by (rule in_mode_quiet [OF D])
      (unfold stats_def, intro makes_rules node_calls [OF N], intro hoare_rules path_in_indep)
  have mods: "keeps (in_mode p st fds m) (modify (\<lambda>s. s\<lparr>c_stat := fp s\<rparr>))" "keeps (in_mode p st fds m) (modify (\<lambda>s. s\<lparr>p_stat := fp s\<rparr>))" for fp
    by (rule in_mode_modify; simp)+
  have last: "hoare (\<lambda>s. r = (ERR_SUCCESS, m) \<and> in_mode p st fds m s)
      (do { modify (\<lambda>s. s\<lparr>cur_mode := snd r\<rparr>); ret (fst r = ERR_SUCCESS) }) (\<lambda>ok s. ok \<and> cur_mode s = m \<and> in_mode p st fds m s)" for r
    by (auto simp: hoare_def in_mode_def log_ok_def)
  have "hoare (in_mode p st fds m) (do { mc \<leftarrow> mode E old 32; modify (\<lambda>s. s\<lparr>cur_mode := snd mc\<rparr>); ret (fst mc = ERR_SUCCESS) })
      (\<lambda>ok s. ok \<and> cur_mode s = m \<and> in_mode p st fds m s)" for old
    by (rule hoare_bind [OF hoare_mode [OF D N] last]) simp
  then show ?thesis
    unfolding polling_sense_def
    by (intro hoare_bind [OF keeps_gets] hoare_bind [OF stats] hoare_bind [OF mods(1)] hoare_bind [OF mods(2)])
qed

lemma hoare_polling_switch:
  assumes D: "mode_device E p st fds" and N: "node_at E p" and t: "t \<in> modes"
  shows "hoare (\<lambda>s. cur_mode s = m \<and> in_mode p st fds m s \<and> target_mode s = t) (polling_switch E True) (\<lambda>_. in_mode p st fds t)"
  unfolding hoare_def
proof (intro allI impI; elim conjE)
  fix s :: "'a prog"
  assume s: "cur_mode s = m" "in_mode p st fds m s" "target_mode s = t"
  have "m \<in> modes" using D s(2) by (auto simp: mode_device_def in_mode_def)
  then have eq: "strcmp m t = 0 \<longleftrightarrow> m = t" and ne: "t \<noteq> []"
    using modes_facts [OF t] modes_facts [of m] by simp_all
  show "in_mode p st fds t (exec (polling_switch E True) s)"
  proof (cases "m = t")
    case True
    then show ?thesis using s eq by (simp add: polling_switch_def)
  next
    case False
    then have "exec (polling_switch E True) s = exec (cli_set_mode E t) s"
      using s eq ne by (simp add: polling_switch_def split_beta)
    then show ?thesis using hoareD [OF hoare_cli_set_mode [OF D N t] s(2)] by simp
  qed
qed

lemma keeps_polling_display:
  assumes D: "mode_device E p st fds" and N: "node_at E p"
  shows "keeps (in_mode p st fds m) (polling_display E)"
proof (rule in_mode_quiet [OF D])
  show "makes E (off_node p) (polling_display E)"
    unfolding polling_display_def by (intro makes_rules node_calls [OF N])
  have "keeps (path_in p) (modify (\<lambda>s. s\<lparr>last_target := f s\<rparr>))" for f by (simp add: hoare_def path_in_def)
  then show "keeps (path_in p) (polling_display E)"
    unfolding polling_display_def by (intro hoare_rules path_in_indep)
qed

lemma keeps_path_detectors: "keeps (path_in p) (bpf_poll E ms)" "keeps (path_in p) (detect_game E n)"
proof -
  show "keeps (path_in p) (detect_game E n)" by (intro hoare_rules path_in_indep)
  have counts: "keeps (path_in p) count_launch" "keeps (path_in p) count_exit"
    by (simp_all add: hoare_def path_in_def count_launch_def count_exit_def)
  show "keeps (path_in p) (bpf_poll E ms)"
    unfolding bpf_poll_def handle_event_def by (intro hoare_rules path_in_indep counts plain_codes)
qed

lemma polling_decide_run:
  assumes D: "mode_device E p st fds" and N: "node_at E p" and s: "in_mode p st fds m s" "active_override s = ov"
  shows "in_mode p st fds m (exec (polling_decide E n) s) \<and> (\<forall>t. result (polling_decide E n) s = Some t \<longrightarrow>
    (\<exists>pg. result (detect_game E n) (exec (poll_events E) s) = Some pg \<and>
       t = polling_target ov (0 < active_games (exec (polling_decide E n) s) \<or> pg)))"
proof -
  let ?poll = "if bpf_active s then bpf_poll E 0 else ret ()"
  define s1 where "s1 = exec ?poll s"
  have s1: "exec (poll_events E) s = s1" by (simp add: poll_events_def s1_def exec_bind del: run_state_bind)
  define s2 where "s2 = exec (detect_game E n) s1"
  have ov: "sys_indep (\<lambda>s. active_override s = ov)" "det_indep (\<lambda>s. active_override s = ov)" "sys_indep (\<lambda>s. active_games s = k)" for k
    by (simp_all add: sys_indep_def det_indep_def hw_indep_def jrn_indep_def)
  have poll: "keeps (in_mode p st fds m) ?poll" "keeps (\<lambda>s. active_override s = ov) ?poll"
    using in_mode_quiet [OF D makes_bpf_poll [OF node_calls(1,2,3) [OF N]] keeps_path_detectors(1)]
    by (auto intro!: hoare_rules ov)
  have det: "keeps (in_mode p st fds m) (detect_game E n)"
    by (rule in_mode_quiet [OF D makes_scans(2) [OF node_calls(1) [OF N]] keeps_path_detectors(2)])
  have im: "in_mode p st fds m s2" "active_override s2 = ov" "active_games s2 = active_games s1"
    using hoareD [OF det, of s1] hoareD [OF poll(1) s(1)] hoareD [OF poll(2), of s] s(2)
      hoareD [OF keeps_scans(5) [OF ov(1)], of s1] hoareD [OF keeps_scans(5) [OF ov(3)], of s1 "active_games s1"]
    by (simp_all add: s1_def s2_def)
  have run: "run_state (polling_decide E n) s =
    (case result (detect_game E n) s1 of None \<Rightarrow> (None, s2)
     | Some g \<Rightarrow> (Some (fit 32 (polling_target ov (0 < active_games s1 \<or> g))), s2))"
    using im(2) by (cases "bpf_active s") (simp_all add: polling_decide_def poll_events_def bpf_game_def s1_def s2_def split_beta split: option.split)
  have short: "fit 32 (polling_target ov g) = polling_target ov g" for g by (simp add: polling_target_def)
  show ?thesis
    using im unfolding run short s1 by (cases "result (detect_game E n) s1") auto
qed

subsection \<open>What a round does\<close>

lemma polling_target_spec:
  "polling_target ov g = (if ov = 1 \<or> ov \<noteq> 2 \<and> g then ''cache'' else ''frequency'')"
  by (auto simp: polling_target_def)

lemma polling_target_modes: "polling_target ov g \<in> modes"
  by (simp add: polling_target_def modes_def)

text \<open>After sensing, with the steering variables fixed: the rest of the round.\<close>

lemma sensed:
  assumes D: "mode_device E p st fds" and N: "node_at E p" and s: "in_mode p st fds m s" and v: "steer lock ov ds tgt s"
  shows "result (polling_sense E) s \<and> cur_mode (exec (polling_sense E) s) = m \<and>
    in_mode p st fds m (exec (polling_sense E) s) \<and> steer lock ov ds tgt (exec (polling_sense E) s)"
  using hoareD [OF hoare_polling_sense [OF D N] s] hoareD [OF keeps_polling_parts(1) v] by simp

lemma force_apply_round:
  assumes D: "mode_device E p st fds" and N: "node_at E p" and t: "t \<in> modes"
    and s: "in_mode p st fds m s" and c: "cur_mode s = m" and v: "steer lock ov ds t s"
  shows "in_mode p st fds t (exec (do { force_apply E True; polling_display E; ret (Some ()) }) s) \<and>
    steer lock ov ds m (exec (do { force_apply E True; polling_display E; ret (Some ()) }) s)"
proof -
  define s1 where "s1 = exec (polling_switch E True) s"
  have cm: "hw_indep (\<lambda>s. cur_mode s = m)" by (simp add: hw_indep_def jrn_indep_def sys_indep_def)
  have "keeps (\<lambda>s. cur_mode s = m) (polling_switch E True)"
    unfolding polling_switch_def by (intro hoare_rules cm)
  then have c1: "cur_mode s1 = m" using c by (simp add: hoare_def s1_def)
  have "m \<in> modes" using D s by (auto simp: mode_device_def in_mode_def)
  then have fit: "fit 32 m = m" using modes_facts [of m] by simp
  have i1: "in_mode p st fds t s1"
    using hoareD [OF hoare_polling_switch [OF D N t], of s m] s c v by (simp add: s1_def steer_def)
  have v1: "steer lock ov ds t s1" using hoareD [OF keeps_polling_parts(3) v] by (simp add: s1_def)
  let ?s2 = "s1\<lparr>target_mode := m\<rparr>"
  have "in_mode p st fds t ?s2" "steer lock ov ds m ?s2" using i1 v1 by (simp_all add: in_mode_def steer_def log_ok_def)
  then have "in_mode p st fds t (exec (polling_display E) ?s2) \<and> steer lock ov ds m (exec (polling_display E) ?s2)"
    using hoareD [OF keeps_polling_display [OF D N]] hoareD [OF keeps_polling_parts(4)] by blast
  then show ?thesis
    using c1 fit by (simp add: force_apply_def s1_def [symmetric] exec_bind result_bind del: run_state_bind)
qed

lemma apply_round:
  assumes D: "mode_device E p st fds" and N: "node_at E p" and t: "t \<in> modes"
    and s: "in_mode p st fds m s" and c: "cur_mode s = m"
  shows "let s' = exec (do { modify (\<lambda>s. s\<lparr>target_mode := t\<rparr>); polling_switch E True; polling_display E; ret (Some ()) }) s
    in in_mode p st fds t s' \<and> active_games s' = active_games s"
proof -
  let ?s1 = "s\<lparr>target_mode := t\<rparr>"
  define s2 where "s2 = exec (polling_switch E True) ?s1"
  have "in_mode p st fds m ?s1" using s by (simp add: in_mode_def log_ok_def)
  then have "in_mode p st fds t s2"
    using hoareD [OF hoare_polling_switch [OF D N t, where m = m], of ?s1] c by (simp add: s2_def)
  then have i: "in_mode p st fds t (exec (polling_display E) s2)" by (rule hoareD [OF keeps_polling_display [OF D N]])
  have ag: "hw_indep (\<lambda>s. active_games s = k)" for k by (simp add: hw_indep_def jrn_indep_def sys_indep_def)
  have lt: "keeps (\<lambda>s. active_games s = k) (modify (\<lambda>s. s\<lparr>last_target := f s\<rparr>))" for f k by (simp add: hoare_def)
  have "keeps (\<lambda>s. active_games s = k) (polling_switch E True)" "keeps (\<lambda>s. active_games s = k) (polling_display E)" for k
    unfolding polling_switch_def polling_display_def by - (intro hoare_rules ag hw_jrn [OF ag] lt)+
  then have "active_games (exec (polling_display E) s2) = active_games s" by (simp add: hoare_def s2_def)
  with i show ?thesis by (simp add: Let_def s2_def exec_bind del: run_state_bind)
qed

text \<open>
  C7. The automatic mode does what it promises: while no wrapper holds the lock, the daemon's state is \<^verbatim>\<open>default\<close> and the override is
  none, cache or frequency, a finished round leaves the V-cache device in the mode that the override asks for; without an override in \<^verbatim>\<open>cache\<close>
  exactly when a game is counted by the event sources or found by the scan of this round, else in \<^verbatim>\<open>frequency\<close>.
\<close>

theorem polling_run_automatic:
  assumes D: "mode_device E p st fds" and N: "node_at E p" and s: "in_mode p st fds m s"
    and v: "wrapper_lock s = 0" "active_override s < 3" "daemon_state (cfg s) = ''default''"
    and r: "result (polling_run E n) s = Some ()"
  shows "\<exists>pg. result (detect_game E n) (exec (do { polling_sense E; poll_events E }) s) = Some pg \<and>
    in_mode p st fds (if active_override s = 1 \<or> active_override s \<noteq> 2 \<and> (0 < active_games (exec (polling_run E n) s) \<or> pg)
      then ''cache'' else ''frequency'') (exec (polling_run E n) s)"
proof -
  define ov where "ov = active_override s"
  have v0: "steer 0 ov ''default'' (target_mode s) s" using v by (simp add: steer_def ov_def)
  define s1 where "s1 = exec (polling_sense E) s"
  have ss: "result (polling_sense E) s" "cur_mode s1 = m" "in_mode p st fds m s1" "steer 0 ov ''default'' (target_mode s) s1"
    using sensed [OF D N s v0] by (simp_all add: s1_def)
  define s2 where "s2 = exec (polling_decide E n) s1"
  have sv: "wrapper_lock s1 = 0" "active_override s1 = ov" "daemon_state (cfg s1) = ''default''" using ss(4) by (simp_all add: steer_def)
  have go: "ov < 3" "strcmp ''default'' ''default'' = 0" using v by (simp_all add: ov_def)
  obtain t where t: "result (polling_decide E n) s1 = Some t"
    using r ss(1) sv go by (cases "result (polling_decide E n) s1")
      (auto simp: polling_run_def exec_bind result_bind s1_def [symmetric] simp del: run_state_bind strcmp.simps)
  have dec: "in_mode p st fds m s2" "\<exists>pg. result (detect_game E n) (exec (poll_events E) s1) = Some pg \<and> t = polling_target ov (0 < active_games s2 \<or> pg)"
    using polling_decide_run [OF D N ss(3) sv(2), where n = n] t by (simp_all add: s2_def)
  have cm: "det_indep (\<lambda>s. cur_mode s = m)" by (simp add: det_indep_def hw_indep_def jrn_indep_def sys_indep_def)
  have "keeps (\<lambda>s. cur_mode s = m) (polling_decide E n)"
    unfolding polling_decide_def poll_events_def bpf_game_def by (intro hoare_rules det_sys [OF cm] cm)
  then have c2: "cur_mode s2 = m" using ss(2) by (simp add: hoare_def s2_def)
  have tm: "t \<in> modes" using dec(2) polling_target_modes by auto
  have "exec (polling_run E n) s =
      exec (do { modify (\<lambda>s. s\<lparr>target_mode := t\<rparr>); polling_switch E True; polling_display E; ret (Some ()) }) s2"
    using ss(1) sv go t
    by (simp add: polling_run_def exec_bind result_bind s1_def [symmetric] s2_def [symmetric] del: run_state_bind strcmp.simps)
  then show ?thesis using apply_round [OF D N tm dec(1) c2] dec(2)
    by (auto simp: Let_def ov_def s1_def exec_bind polling_target_spec simp del: run_state_bind)
qed

definition auto_start :: "dev_world prog" where
  "auto_start = (dev_start False)\<lparr>active_override := 1, cfg := zero_cfg\<lparr>daemon_state := ''default''\<rparr>\<rparr>"

lemma auto_start_facts:
  "in_mode dev_node dv_mode dv_fds ''frequency'' auto_start" "wrapper_lock auto_start = 0" "active_override auto_start = 1"
  "daemon_state (cfg auto_start) = ''default''"
  using dev_in_mode [of False] by (simp_all add: auto_start_def in_mode_def log_ok_def dev_start_def initial_prog_def)

text \<open>A round finishes when the scan does.\<close>

lemma polling_run_returns:
  assumes "\<And>s. result (detect_game E n) s \<noteq> None"
  shows "result (polling_run E n) s = Some ()"
proof -
  have some: "(result (detect_game E n) s = None) = False" for s using assms by simp
  have "\<exists>t. result (polling_decide E n) s = Some t" for s
    by (auto simp: polling_decide_def result_bind some simp del: run_state_bind split: option.split)
  then have dec: "(result (polling_decide E n) s = None) = False" for s by auto
  show ?thesis
    by (auto simp: polling_run_def result_bind dec simp del: run_state_bind split: option.split)
qed

text \<open>The device without any other file.\<close>

definition lone_env :: "dev_world env" where
  "lone_env = dev_env\<lparr>kernel := (\<lambda>c w. case c of
     SysOpen p fl md \<Rightarrow> if p = dev_node then dev_kernel c w else (Ret (- 2), w) | _ \<Rightarrow> dev_kernel c w)\<rparr>"

lemma lone_mode_device: "mode_device lone_env dev_node dv_mode dv_fds"
proof -
  note d = dev_mode_device [unfolded mode_device_def]
  have "device_open lone_env dev_node dv_mode dv_fds" "device_read lone_env dv_mode dv_fds" "device_write lone_env dv_mode dv_fds"
    "device_close lone_env dv_mode dv_fds"
    using d by (simp_all add: lone_env_def dev_env_def device_open_def device_read_def device_write_def device_close_def)
  moreover have "device_apart lone_env dev_node dv_mode dv_fds"
    using d by (auto simp: lone_env_def dev_env_def device_apart_def off_node_def split: syscall.splits)
  ultimately show ?thesis using d by (simp add: mode_device_def)
qed

lemma lone_node_at: "node_at lone_env dev_node"
  using dev_node_at by (simp add: node_at_def lone_env_def dev_env_def)

lemma lone_runs: "result (polling_run lone_env n) s = Some ()"
proof (rule polling_run_returns)
  fix s
  have "result (c_open lone_env ''/proc'' O_RDONLY 0) s < 0"
    by (simp add: c_open_def run_sys_int lone_env_def dev_node_def failed_def Let_def)
  then show "result (detect_game lone_env n) s \<noteq> None" by (simp add: detect_game_def result_bind del: run_state_bind)
qed

theorem polling_run_automatic_witness:
  "in_mode dev_node dv_mode dv_fds ''cache'' (exec (polling_run lone_env 1) auto_start)"
  using polling_run_automatic [OF lone_mode_device lone_node_at auto_start_facts(1,2) _ auto_start_facts(4) lone_runs]
  by (simp add: auto_start_facts)

text \<open>
  In every other state the daemon works against itself: with the state \<^verbatim>\<open>manual\<close> (or an override of dual or swap) and a target
  left over that differs from the current mode, a round switches the device to the old target and takes the mode it found as the
  next target, so the next round switches back. Two rounds return to where they started and the device alternates for ever.
\<close>

theorem manual_mode_oscillates:
  assumes D: "mode_device E p st fds" and N: "node_at E p" and s: "in_mode p st fds m s"
    and v: "wrapper_lock s = 0" "3 \<le> active_override s \<or> daemon_state (cfg s) = ''manual''"
    and t: "target_mode s \<in> {''cache'', ''frequency''}" "target_mode s \<noteq> m"
  shows "let s1 = exec (polling_run E n) s; s2 = exec (polling_run E n) s1
    in in_mode p st fds (target_mode s) s1 \<and> target_mode s1 = m \<and> in_mode p st fds m s2 \<and> target_mode s2 = target_mode s"
proof -
  define ov ds where "ov = active_override s" and "ds = daemon_state (cfg s)"
  have man: "\<not> (ov < 3 \<and> strcmp ds ''default'' = 0)" using v by (auto simp: ov_def ds_def)
  have round: "in_mode p st fds t' (exec (polling_run E n) s') \<and> steer 0 ov ds m' (exec (polling_run E n) s')"
    if i: "in_mode p st fds m' s'" and v': "steer 0 ov ds t' s'" and t': "t' \<in> modes" for s' m' t'
  proof -
    define s1 where "s1 = exec (polling_sense E) s'"
    have ss: "result (polling_sense E) s'" "cur_mode s1 = m'" "in_mode p st fds m' s1" "steer 0 ov ds t' s1"
      using sensed [OF D N i v'] by (simp_all add: s1_def)
    have "exec (polling_run E n) s' = exec (do { force_apply E True; polling_display E; ret (Some ()) }) s1"
      using ss man by (auto simp: polling_run_def steer_def exec_bind result_bind s1_def [symmetric] simp del: run_state_bind)
    then show ?thesis using force_apply_round [OF D N t' ss(3,2,4)] by simp
  qed
  have m: "m \<in> modes" "target_mode s \<in> modes" using D s t by (auto simp: mode_device_def in_mode_def modes_def)
  have v0: "steer 0 ov ds (target_mode s) s" using v by (simp add: steer_def ov_def ds_def)
  have r1: "in_mode p st fds (target_mode s) (exec (polling_run E n) s) \<and> steer 0 ov ds m (exec (polling_run E n) s)"
    by (rule round [OF s v0 m(2)])
  then show ?thesis using round [of "target_mode s" "exec (polling_run E n) s" m] m by (simp add: Let_def steer_def)
qed

theorem manual_mode_oscillates_witness:
  "let s = (dev_start False)\<lparr>target_mode := ''cache'', cfg := zero_cfg\<lparr>daemon_state := ''manual''\<rparr>\<rparr>;
       s1 = exec (polling_run dev_env 1) s; s2 = exec (polling_run dev_env 1) s1
   in dv_mode (world s1) = ''cache'' \<and> dv_mode (world s2) = ''frequency''"
proof -
  let ?s = "(dev_start False)\<lparr>target_mode := ''cache'', cfg := zero_cfg\<lparr>daemon_state := ''manual''\<rparr>\<rparr>"
  have "in_mode dev_node dv_mode dv_fds ''frequency'' ?s" "wrapper_lock ?s = 0"
    using dev_in_mode [of False] by (simp_all add: in_mode_def log_ok_def dev_start_def initial_prog_def)
  from manual_mode_oscillates [OF dev_mode_device dev_node_at this, where n = 1]
  show ?thesis by (simp add: Let_def in_mode_def)
qed

text \<open>
  A running wrapper keeps the cache mode: while the lock is held, every round leaves the device in \<^verbatim>\<open>cache\<close>, whatever the override, the
  daemon's state and the detectors say.
\<close>

lemma lock_round:
  assumes D: "mode_device E p st fds" and N: "node_at E p" and s: "in_mode p st fds m s" and v: "wrapper_lock s \<noteq> 0"
  shows "result (polling_run E n) s = Some () \<and> in_mode p st fds ''cache'' (exec (polling_run E n) s) \<and>
    wrapper_lock (exec (polling_run E n) s) = wrapper_lock s"
proof -
  define s1 where "s1 = exec (polling_sense E) s"
  have v0: "steer (wrapper_lock s) (active_override s) (daemon_state (cfg s)) (target_mode s) s" by (simp add: steer_def)
  have ss: "result (polling_sense E) s" "cur_mode s1 = m" "in_mode p st fds m s1"
    "steer (wrapper_lock s) (active_override s) (daemon_state (cfg s)) (target_mode s) s1"
    using sensed [OF D N s v0] by (simp_all add: s1_def)
  let ?s2 = "s1\<lparr>target_mode := ''cache''\<rparr>" and ?rest = "do { force_apply E True; polling_display E; ret (Some ()) }"
  have c: "''cache'' \<in> modes" by (simp add: modes_def)
  have "in_mode p st fds m ?s2" "cur_mode ?s2 = m" "steer (wrapper_lock s) (active_override s) (daemon_state (cfg s)) ''cache'' ?s2"
    using ss by (simp_all add: in_mode_def log_ok_def steer_def)
  from force_apply_round [OF D N c this]
  have "in_mode p st fds ''cache'' (exec ?rest ?s2) \<and> wrapper_lock (exec ?rest ?s2) = wrapper_lock s" by (simp add: steer_def)
  moreover have "exec (polling_run E n) s = exec ?rest ?s2" "result (polling_run E n) s = Some ()"
    using ss v by (simp_all add: polling_run_def steer_def exec_bind result_bind s1_def [symmetric] del: run_state_bind)
  ultimately show ?thesis by simp
qed

end
