(* ===== verification/Socket.thy ===== *)
theory Socket
  imports Polling
begin

section \<open>The daemon's side of the socket (src/socket.c)\<close>

text \<open>
  \<^verbatim>\<open>socket_setup\<close> binds the listening socket. \<^verbatim>\<open>socket_handle\<close> accepts one client, reads one request and runs the branch whose
  prefix it has. Each branch of its chain of \<^verbatim>\<open>strncmp\<close> tests is one definition here, and \<open>ipc_commands\<close> is the chain, in the order of
  the code. A branch gets the client's descriptor and what follows the prefix, and returns whether the code falls through to the
  final \<^verbatim>\<open>close\<close>; it does not after an early return and when a null pointer has been read.
\<close>

subsection \<open>Binding the socket\<close>

definition MAX_CONNECTIONS :: nat where "MAX_CONNECTIONS = 128"

text \<open>A step of the setup that failed: report, close, give up.\<close>

definition setup_failed :: "'w env \<Rightarrow> int \<Rightarrow> string \<Rightarrow> arg list \<Rightarrow> ('w, int) m" where
  "setup_failed E fd fmt as = do {
     e \<leftarrow> gets errno;
     syslog E LOG_ERR fmt (as @ [AStr (journal_strerror e)]);
     c_close E fd;
     ret (- 1)
   }"

definition socket_setup :: "'w env \<Rightarrow> ('w, int) m" where
  "socket_setup E = do {
     fd \<leftarrow> c_socket E AF_UNIX SOCK_STREAM 0;
     if fd < 0 then do {
       e \<leftarrow> gets errno;
       syslog E LOG_ERR ''Failed to create AF_UNIX socket: %s'' [AStr (journal_strerror e)];
       ret (- 1)
     } else do {
       flags \<leftarrow> c_fcntl E fd F_GETFL 0;
       nb \<leftarrow> (if flags < 0 then ret (- 1) else c_fcntl E fd F_SETFL (or flags (int O_NONBLOCK)));
       if nb < 0 then setup_failed E fd ''Failed to set non-blocking mode on socket: %s'' []
       else do {
         c_unlink E IPC_PATH;
         b \<leftarrow> c_bind E fd (fit 108 IPC_PATH);
         if b < 0 then setup_failed E fd ''Failed to bind IPC socket to %s: %s'' [AStr IPC_PATH]
         else do {
           l \<leftarrow> c_listen E fd MAX_CONNECTIONS;
           if l < 0 then setup_failed E fd ''Failed to listen on IPC socket: %s'' []
           else do {
             c \<leftarrow> c_chmod E IPC_PATH 432;
             e \<leftarrow> gets errno;
             (if c < 0 then syslog E LOG_ERR ''Failed to set permissions on IPC socket %s: %s''
                              [AStr IPC_PATH, AStr (journal_strerror e)] else ret ());
             syslog E LOG_INFO ''IPC server bound and ready at %s'' [AStr IPC_PATH];
             ret fd
           }
         }
       }
     }
   }"

subsection \<open>Replies and arguments\<close>

definition reply :: "'w env \<Rightarrow> int \<Rightarrow> string \<Rightarrow> ('w, bool) m" where
  "reply E client_fd msg = do { c_send E client_fd msg MSG_NOSIGNAL; ret True }"

definition reply_ok :: "'w env \<Rightarrow> int \<Rightarrow> bool \<Rightarrow> ('w, bool) m" where
  "reply_ok E client_fd ok = reply E client_fd (if ok then ''OK'' else ''ERR'')"

definition reply_code :: "'w env \<Rightarrow> int \<Rightarrow> int \<Rightarrow> ('w, bool) m" where
  "reply_code E client_fd code = reply_ok E client_fd (code = ERR_SUCCESS)"

text \<open>The two parts of an argument around its first blank.\<close>

definition split_arg :: "string \<Rightarrow> (string \<times> string) option" where
  "split_arg arg = map_option (\<lambda>k. (take k arg, drop (Suc k) arg)) (strchr arg (CHR '' ''))"

definition in_int :: "int \<Rightarrow> bool" where
  "in_int n \<longleftrightarrow> - (2 ^ 31) \<le> n \<and> n < 2 ^ 31"

text \<open>
  How a request's number is read: \<^verbatim>\<open>endptr\<close> starts as a null pointer, which \<^verbatim>\<open>strtol\<close> leaves alone when the number overflows, and
  the check reads \<^verbatim>\<open>*endptr\<close> before it looks at \<^verbatim>\<open>errno\<close>.
\<close>

datatype request_number = Null_Read | Rejected | Number int

definition request_int :: "string \<Rightarrow> request_number" where
  "request_int arg =
     (let r = strtol arg 10
      in case l_end r of
           None \<Rightarrow> Null_Read
         | Some k \<Rightarrow> if k = 0 \<or> drop k arg \<noteq> [] \<or> l_erange r \<or> \<not> in_int (l_val r) then Rejected else Number (l_val r))"

definition with_number :: "'w env \<Rightarrow> int \<Rightarrow> string \<Rightarrow> int \<Rightarrow> (int \<Rightarrow> ('w, int) m) \<Rightarrow> ('w, bool) m" where
  "with_number E client_fd arg err op = do {
     modify (\<lambda>s. s\<lparr>errno := 0\<rparr>);
     case request_int arg of
       Null_Read \<Rightarrow> do { modify (\<lambda>s. s\<lparr>errno := 34\<rparr>); null_deref E; ret False }
     | Rejected \<Rightarrow> reply_code E client_fd err
     | Number n \<Rightarrow> do { r \<leftarrow> op n; reply_code E client_fd r }
   }"

subsection \<open>The branches\<close>

definition ipc_ping :: "'w env \<Rightarrow> int \<Rightarrow> string \<Rightarrow> ('w, bool) m" where
  "ipc_ping E client_fd arg = reply E client_fd ''OK''"

definition ipc_mode :: "'w env \<Rightarrow> int \<Rightarrow> string \<Rightarrow> ('w, bool) m" where
  "ipc_mode E client_fd arg = do { mc \<leftarrow> mode E (garbage E) 32; reply E client_fd (snd mc) }"

definition info_format :: string where
  "info_format = ''STATE=%s|OVERRIDE=%d|BPF_ACTIVE=%d|REFRESH_INTERVAL=%.1f|MASK=%s|CAPS=%llx''"

definition daemon_info :: "'w env \<Rightarrow> 'w prog \<Rightarrow> string" where
  "daemon_info E s =
     printf_sn E 512 info_format
       [AStr (daemon_state (cfg s)), AInt (active_override s), AInt (if bpf_active s then 1 else 0),
        ADbl (refresh_interval (cfg s)), AStr (affinity_mask (cfg s)), ASize (unat (capabilities (cfg s)))]"

definition ipc_daemon_info :: "'w env \<Rightarrow> int \<Rightarrow> string \<Rightarrow> ('w, bool) m" where
  "ipc_daemon_info E client_fd arg = do { info \<leftarrow> gets (daemon_info E); reply E client_fd info }"

definition ipc_get_config :: "'w env \<Rightarrow> int \<Rightarrow> string \<Rightarrow> ('w, bool) m" where
  "ipc_get_config E client_fd arg = do { val \<leftarrow> config_get E arg; reply E client_fd val }"

definition ipc_toggle :: "'w env \<Rightarrow> int \<Rightarrow> string \<Rightarrow> ('w, bool) m" where
  "ipc_toggle E client_fd arg = do {
     mc \<leftarrow> mode E (garbage E) 32;
     let target = (if strcmp (snd mc) ''cache'' = 0 then ''frequency'' else ''cache'');
     modify (\<lambda>s. s\<lparr>active_override := (if strcmp target ''cache'' = 0 then 1 else 2)\<rparr>);
     cli_set_mode E target;
     reply E client_fd ''OK''
   }"

definition ipc_set_mode :: "'w env \<Rightarrow> int \<Rightarrow> string \<Rightarrow> ('w, bool) m" where
  "ipc_set_mode E client_fd val =
     (if has val ''auto'' \<or> has val ''default'' \<or> has val ''reset'' then do {
        modify (\<lambda>s. s\<lparr>active_override := 0\<rparr>);
        reply_ok E client_fd True
      } else if has val ''cache'' then do {
        modify (\<lambda>s. s\<lparr>active_override := 1\<rparr>);
        cli_set_mode E ''cache'';
        cli_mode_apply E PART_CACHE;
        reply_ok E client_fd True
      } else if has val ''frequency'' then do {
        modify (\<lambda>s. s\<lparr>active_override := 2\<rparr>);
        cli_set_mode E ''frequency'';
        cli_mode_apply E PART_FREQ;
        reply_ok E client_fd True
      } else if has val ''dual'' then do {
        modify (\<lambda>s. s\<lparr>active_override := 3\<rparr>);
        cli_set_dual E;
        cli_mode_apply E PART_DUAL;
        reply_ok E client_fd True
      } else if has val ''swap'' then do {
        modify (\<lambda>s. s\<lparr>active_override := 4\<rparr>);
        cli_set_swap E;
        cli_mode_apply E PART_DUAL;
        reply_ok E client_fd True
      } else reply_ok E client_fd False)"

definition ipc_get_topology :: "'w env \<Rightarrow> int \<Rightarrow> string \<Rightarrow> ('w, bool) m" where
  "ipc_get_topology E client_fd arg =
     (case affinity_get_topology E ([], []) of (code, cache_mask, freq_mask) \<Rightarrow>
        reply E client_fd (printf_sn E 512 ''CACHE=%s;FREQ=%s'' [AStr cache_mask, AStr freq_mask]))"

definition ipc_set_affinity_config :: "'w env \<Rightarrow> int \<Rightarrow> string \<Rightarrow> ('w, bool) m" where
  "ipc_set_affinity_config E client_fd arg =
     (case split_arg arg of
        None \<Rightarrow> reply_code E client_fd ERR_IO
      | Some (cache, freq) \<Rightarrow> do {
          r \<leftarrow> affinity_set_masks E cache freq;
          dbg \<leftarrow> gets (\<lambda>s. debug_enable (cfg s));
          (if dbg \<noteq> 0 then journal_debug E ''Affinity masks updated: cache=%s, freq=%s (result=%d)'' [AStr cache, AStr freq, AInt r]
           else ret ());
          reply_code E client_fd r
        })"

text \<open>This branch checks \<^verbatim>\<open>errno\<close> first and allows white space after the number.\<close>

definition ipc_set_cppc :: "'w env \<Rightarrow> int \<Rightarrow> string \<Rightarrow> ('w, bool) m" where
  "ipc_set_cppc E client_fd val = do {
     let r = strtol val 10;
     modify (\<lambda>s. s\<lparr>errno := (if l_erange r then 34 else 0)\<rparr>);
     code \<leftarrow> (case l_end r of
        None \<Rightarrow> ret ERR_IO
      | Some k \<Rightarrow>
          if k \<noteq> 0 \<and> \<not> l_erange r \<and>
             dropWhile (\<lambda>c. c = CHR '' '' \<or> c = TAB \<or> c = CR \<or> c = NL) (drop k val) = [] \<and> in_int (l_val r)
          then cppc_perf E (l_val r) else ret ERR_IO);
     reply_code E client_fd code
   }"

definition ipc_set_boost :: "'w env \<Rightarrow> int \<Rightarrow> string \<Rightarrow> ('w, bool) m" where
  "ipc_set_boost E client_fd arg = do { r \<leftarrow> cppc_boost E (has arg ''on''); reply_code E client_fd r }"

definition park_ccd1 :: "'w env \<Rightarrow> ('w, int) m" where
  "park_ccd1 E =
     foldM (\<lambda>i code. do {
       r \<leftarrow> cli_set_core E i False;
       ret (if r \<noteq> ERR_SUCCESS \<and> r \<noteq> ERR_LOST then r else code)
     }) [CCD1_START E..TOTAL_CORES E - 1] ERR_SUCCESS"

definition ipc_set_park :: "'w env \<Rightarrow> int \<Rightarrow> string \<Rightarrow> ('w, bool) m" where
  "ipc_set_park E client_fd target_str =
     (if strcmp target_str ''ccd1'' = 0 then do { r \<leftarrow> park_ccd1 E; reply_code E client_fd r }
      else with_number E client_fd target_str ERR_LOST (\<lambda>n. cli_set_core E n False))"

definition ipc_set_unpark :: "'w env \<Rightarrow> int \<Rightarrow> string \<Rightarrow> ('w, bool) m" where
  "ipc_set_unpark E client_fd target_str =
     (if strcmp target_str ''ccd1'' = 0 \<or> strcmp target_str ''all'' = 0
      then do { r \<leftarrow> cli_set_dual E; reply_code E client_fd r }
      else with_number E client_fd target_str ERR_INVALID_ARGS (\<lambda>n. cli_set_core E n True))"

definition ipc_set_tdp :: "'w env \<Rightarrow> int \<Rightarrow> string \<Rightarrow> ('w, bool) m" where
  "ipc_set_tdp E client_fd arg = with_number E client_fd arg ERR_INVALID_ARGS (cppc_tdp E)"

definition ipc_set_epp :: "'w env \<Rightarrow> int \<Rightarrow> string \<Rightarrow> ('w, bool) m" where
  "ipc_set_epp E client_fd arg = do { r \<leftarrow> cppc_epp E arg; reply_code E client_fd r }"

definition ipc_set_epp_ccd :: "'w env \<Rightarrow> int \<Rightarrow> string \<Rightarrow> ('w, bool) m" where
  "ipc_set_epp_ccd E client_fd arg =
     (case split_arg arg of
        None \<Rightarrow> reply_code E client_fd ERR_IO
      | Some (ccd_str, val) \<Rightarrow> with_number E client_fd ccd_str ERR_INVALID_ARGS (\<lambda>n. cppc_ccd E n val))"

definition ipc_set_pstate :: "'w env \<Rightarrow> int \<Rightarrow> string \<Rightarrow> ('w, bool) m" where
  "ipc_set_pstate E client_fd arg = do { r \<leftarrow> cppc_pstate E arg; reply_code E client_fd r }"

definition ipc_set_governor :: "'w env \<Rightarrow> int \<Rightarrow> string \<Rightarrow> ('w, bool) m" where
  "ipc_set_governor E client_fd arg = do { r \<leftarrow> cppc_governor E arg; reply_code E client_fd r }"

definition ipc_set_prefcore :: "'w env \<Rightarrow> int \<Rightarrow> string \<Rightarrow> ('w, bool) m" where
  "ipc_set_prefcore E client_fd arg = do {
     r \<leftarrow> cppc_prefcore E (has arg ''on'' \<or> has arg ''1'');
     reply_code E client_fd r
   }"

text \<open>The reset script of the state \<^verbatim>\<open>auto\<close>: whether the fork succeeded.\<close>

definition run_reset :: "'w env \<Rightarrow> ('w, bool) m" where
  "run_reset E = do {
     rpid \<leftarrow> c_fork E reset_child;
     if rpid < 0 then do {
       fork_errno \<leftarrow> gets errno;
       syslog E LOG_ERR ''fork() failed for reset.sh: %s'' [AStr (journal_strerror fork_errno)];
       ret False
     } else do { c_waitpid E rpid; ret True }
   }"

definition ipc_set_daemon :: "'w env \<Rightarrow> int \<Rightarrow> string \<Rightarrow> ('w, bool) m" where
  "ipc_set_daemon E client_fd val =
     (if strcmp val ''manual'' = 0 \<or> strcmp val ''auto'' = 0 \<or> strcmp val ''default'' = 0 then do {
        config_update E ''DAEMON_STATE'' val;
        modify (\<lambda>s. s\<lparr>cfg := (cfg s)\<lparr>daemon_state := fit 32 val\<rparr>\<rparr>);
        forked \<leftarrow> (if strcmp val ''auto'' = 0 then run_reset E else ret True);
        if \<not> forked then do { reply E client_fd ''ERR''; c_close E client_fd; ret False }
        else do {
          ov \<leftarrow> gets active_override;
          (if ov \<noteq> 0 \<and> (strcmp val ''auto'' = 0 \<or> strcmp val ''default'' = 0)
           then modify (\<lambda>s. s\<lparr>active_override := 0\<rparr>) else ret ());
          reply E client_fd ''OK''
        }
      } else reply E client_fd ''ERR'')"

definition live_setters :: "(string \<times> (string \<Rightarrow> DaemonConfig \<Rightarrow> DaemonConfig)) list" where
  "live_setters =
     [(''DETECTION_LEVEL'', \<lambda>v c. c\<lparr>detection_level := atoi v\<rparr>),
      (''POLLING_INTERVAL'', \<lambda>v c. c\<lparr>polling_interval := atoi v\<rparr>),
      (''LOAD_THRESHOLD'', \<lambda>v c. c\<lparr>load_threshold := atof v\<rparr>),
      (''SERVER_ADDRESS'', \<lambda>v c. c\<lparr>server_address := fit 128 v\<rparr>),
      (''EBPF_ENABLE'', \<lambda>v c. c\<lparr>ebpf_enable := atoi v\<rparr>),
      (''AFFINITY_MASK'', \<lambda>v c. c\<lparr>affinity_mask := fit 64 v\<rparr>),
      (''AFFINITY_FREQ_MASK'', \<lambda>v c. c\<lparr>affinity_freq_mask := fit 64 v\<rparr>),
      (''DEV_ENABLE'', \<lambda>v c. c\<lparr>dev_enable := atoi v\<rparr>),
      (''DEBUG_ENABLE'', \<lambda>v c. c\<lparr>debug_enable := atoi v\<rparr>),
      (''AFFINITY_LEVEL'', \<lambda>v c. c\<lparr>affinity_level := atoi v\<rparr>),
      (''REFRESH_INTERVAL'', \<lambda>v c. c\<lparr>refresh_interval := atof v\<rparr>),
      (''FALLBACK_PROFILE'', \<lambda>v c. c\<lparr>fallback_profile := fit 64 v\<rparr>),
      (''SCHED_BORE'', \<lambda>v c. c\<lparr>sched_bore := atoi v\<rparr>),
      (''SCHED_BIT_SHIFT'', \<lambda>v c. c\<lparr>sched_bit_shift := atoi v\<rparr>),
      (''SCHED_BURST_FORK'', \<lambda>v c. c\<lparr>sched_burst_fork := atoi v\<rparr>),
      (''SCHED_SLICE_US'', \<lambda>v c. c\<lparr>sched_slice_us := atoi v\<rparr>),
      (''VM_MAX_MAP'', \<lambda>v c. c\<lparr>vm_max_map := atoi v\<rparr>),
      (''SPLIT_LOCK_DETECT'', \<lambda>v c. c\<lparr>split_lock_detect := atoi v\<rparr>),
      (''NMI_WATCHDOG'', \<lambda>v c. c\<lparr>nmi_watchdog := atoi v\<rparr>),
      (''THP_MODE'', \<lambda>v c. c\<lparr>thp_mode := fit 16 v\<rparr>),
      (''NET_QDISC'', \<lambda>v c. c\<lparr>net_qdisc := fit 32 v\<rparr>),
      (''NET_FASTOPEN'', \<lambda>v c. c\<lparr>net_fastopen := atoi v\<rparr>),
      (''NET_RP_FILTER'', \<lambda>v c. c\<lparr>net_rp_filter := atoi v\<rparr>),
      (''NET_SOURCE_ROUTE'', \<lambda>v c. c\<lparr>net_source_route := atoi v\<rparr>),
      (''IRQ_ENABLE'', \<lambda>v c. c\<lparr>irq_enable := atoi v\<rparr>),
      (''IRQ_GPU'', \<lambda>v c. c\<lparr>irq_gpu := atoi v\<rparr>),
      (''IRQ_NVME'', \<lambda>v c. c\<lparr>irq_nvme := atoi v\<rparr>),
      (''IRQ_USB'', \<lambda>v c. c\<lparr>irq_usb := atoi v\<rparr>),
      (''IRQ_NIC'', \<lambda>v c. c\<lparr>irq_nic := atoi v\<rparr>),
      (''IRQ_AUDIO'', \<lambda>v c. c\<lparr>irq_audio := atoi v\<rparr>),
      (''IRQ_COALESCE'', \<lambda>v c. c\<lparr>irq_coalesce := atoi v\<rparr>),
      (''IRQ_WATCH'', \<lambda>v c. c\<lparr>irq_watch := atoi v\<rparr>),
      (''ADVANCED_CONFIG_ENABLE'', \<lambda>v c. c\<lparr>advanced_config_enable := atoi v\<rparr>),
      (''FORCE_UNSUPPORTED_DISPLAY'', \<lambda>v c. c\<lparr>force_unsupported_display := atoi v\<rparr>)]"

definition set_live :: "string \<Rightarrow> string \<Rightarrow> DaemonConfig \<Rightarrow> DaemonConfig" where
  "set_live key v c = (case map_of live_setters key of None \<Rightarrow> c | Some u \<Rightarrow> u v c)"

text \<open>After \<^verbatim>\<open>EBPF_ENABLE\<close> the eBPF objects follow the setting.\<close>

definition follow_ebpf :: "'w env \<Rightarrow> ('w, unit) m" where
  "follow_ebpf E = do {
     en \<leftarrow> gets (\<lambda>s. ebpf_enable (cfg s));
     act \<leftarrow> gets bpf_active;
     if en \<noteq> 0 \<and> \<not> act then do { b \<leftarrow> bpf_init E; modify (\<lambda>s. s\<lparr>bpf_active := b\<rparr>) }
     else if en = 0 \<and> act then do { bpf_cleanup E; modify (\<lambda>s. s\<lparr>bpf_active := False\<rparr>) }
     else ret ()
   }"

definition ipc_set_config :: "'w env \<Rightarrow> int \<Rightarrow> string \<Rightarrow> ('w, bool) m" where
  "ipc_set_config E client_fd arg =
     (case split_arg arg of
        None \<Rightarrow> reply E client_fd ''ERR''
      | Some (kv, v) \<Rightarrow> do {
          config_update E kv v;
          modify (\<lambda>s. s\<lparr>cfg := set_live kv v (cfg s)\<rparr>);
          (if strcmp kv ''EBPF_ENABLE'' = 0 then follow_ebpf E else ret ());
          journal_info E DAEMON_TRANSIT [AStr ''Configuration Update: %s -> %s'', AStr kv, AStr v];
          reply E client_fd ''OK''
        })"

definition ipc_set_wrapper :: "'w env \<Rightarrow> int \<Rightarrow> string \<Rightarrow> ('w, bool) m" where
  "ipc_set_wrapper E client_fd arg = do {
     let enable = atoi arg;
     modify (\<lambda>s. s\<lparr>wrapper_lock := enable\<rparr>);
     (if enable \<noteq> 0 then do { cli_set_mode E ''cache''; modify (\<lambda>s. s\<lparr>active_override := 1\<rparr>) }
      else do { cli_set_mode E ''frequency''; modify (\<lambda>s. s\<lparr>active_override := 0\<rparr>) });
     reply E client_fd ''OK''
   }"

definition ipc_daemon_disable :: "'w env \<Rightarrow> int \<Rightarrow> string \<Rightarrow> ('w, bool) m" where
  "ipc_daemon_disable E client_fd arg = do {
     modify (\<lambda>s. s\<lparr>active_keep := False\<rparr>);
     reply E client_fd ''OK''
   }"

definition ipc_config_sync :: "'w env \<Rightarrow> int \<Rightarrow> string \<Rightarrow> ('w, bool) m" where
  "ipc_config_sync E client_fd arg = do { config_load E; reply E client_fd ''OK'' }"

definition ipc_games_list :: "'w env \<Rightarrow> int \<Rightarrow> string \<Rightarrow> ('w, bool) m" where
  "ipc_games_list E client_fd arg = reply E client_fd (printf_sn E 512 ''GAMES_SYNCED'' [])"

text \<open>The tunables of \<^verbatim>\<open>ADVANCED_GET\<close> and \<^verbatim>\<open>ADVANCED_SET\<close>: name, node, field of the configuration, key in the file.\<close>

definition advanced_nodes :: "(string \<times> string \<times> (string \<Rightarrow> DaemonConfig \<Rightarrow> DaemonConfig) \<times> string) list" where
  "advanced_nodes =
     [(''kernel.sched_bore'', ''/proc/sys/kernel/sched_bore'', \<lambda>v c. c\<lparr>sched_bore := atoi v\<rparr>, ''SCHED_BORE''),
      (''kernel.sched_bit_shift'', ''/proc/sys/kernel/sched_bit_shift'', \<lambda>v c. c\<lparr>sched_bit_shift := atoi v\<rparr>, ''SCHED_BIT_SHIFT''),
      (''kernel.sched_burst_fork_at_init'', ''/proc/sys/kernel/sched_burst_fork_at_init'',
       \<lambda>v c. c\<lparr>sched_burst_fork := atoi v\<rparr>, ''SCHED_BURST_FORK''),
      (''kernel.sched_cfs_bandwidth_slice_us'', ''/proc/sys/kernel/sched_cfs_bandwidth_slice_us'',
       \<lambda>v c. c\<lparr>sched_slice_us := atoi v\<rparr>, ''SCHED_SLICE_US''),
      (''vm.max_map_count'', ''/proc/sys/vm/max_map_count'', \<lambda>v c. c\<lparr>vm_max_map := atoi v\<rparr>, ''VM_MAX_MAP''),
      (''kernel.split_lock_mitigate'', ''/proc/sys/kernel/split_lock_mitigate'',
       \<lambda>v c. c\<lparr>split_lock_detect := atoi v\<rparr>, ''SPLIT_LOCK_DETECT''),
      (''kernel.nmi_watchdog'', ''/proc/sys/kernel/nmi_watchdog'', \<lambda>v c. c\<lparr>nmi_watchdog := atoi v\<rparr>, ''NMI_WATCHDOG''),
      (''net.core.default_qdisc'', ''/proc/sys/net/core/default_qdisc'', \<lambda>v c. c\<lparr>net_qdisc := fit 31 v\<rparr>, ''NET_QDISC''),
      (''net.ipv4.tcp_fastopen'', ''/proc/sys/net/ipv4/tcp_fastopen'', \<lambda>v c. c\<lparr>net_fastopen := atoi v\<rparr>, ''NET_FASTOPEN''),
      (''net.ipv4.conf.all.rp_filter'', ''/proc/sys/net/ipv4/conf/all/rp_filter'',
       \<lambda>v c. c\<lparr>net_rp_filter := atoi v\<rparr>, ''NET_RP_FILTER''),
      (''net.ipv4.conf.all.accept_source_route'', ''/proc/sys/net/ipv4/conf/all/accept_source_route'',
       \<lambda>v c. c\<lparr>net_source_route := atoi v\<rparr>, ''NET_SOURCE_ROUTE''),
      (''target_thp_mode'', ''/sys/kernel/mm/transparent_hugepage/enabled'', \<lambda>v c. c\<lparr>thp_mode := fit 15 v\<rparr>, ''THP_MODE'')]"

definition ipc_advanced_get :: "'w env \<Rightarrow> int \<Rightarrow> string \<Rightarrow> ('w, bool) m" where
  "ipc_advanced_get E client_fd key =
     (case map_of advanced_nodes key of
        None \<Rightarrow> reply E client_fd ''ERR''
      | Some (path, u, ckey) \<Rightarrow> do {
          v \<leftarrow> sysctl_read E path 128;
          case v of None \<Rightarrow> reply E client_fd ''ERR'' | Some val \<Rightarrow> reply E client_fd val
        })"

definition ipc_advanced_set :: "'w env \<Rightarrow> int \<Rightarrow> string \<Rightarrow> ('w, bool) m" where
  "ipc_advanced_set E client_fd arg =
     (case split_arg arg of
        None \<Rightarrow> reply_ok E client_fd False
      | Some (key, val) \<Rightarrow>
          (case map_of advanced_nodes key of
             None \<Rightarrow> reply_ok E client_fd False
           | Some (path, u, ckey) \<Rightarrow> do {
               modify (\<lambda>s. s\<lparr>cfg := u val (cfg s)\<rparr>);
               r \<leftarrow> sysctl_write E path val;
               (if r = 0 then config_update E ckey val else ret ());
               reply_ok E client_fd (r = 0)
             }))"

subsection \<open>Dispatch\<close>

definition ipc_commands :: "(string \<times> ('w env \<Rightarrow> int \<Rightarrow> string \<Rightarrow> ('w, bool) m)) list" where
  "ipc_commands =
     [(''PING'', ipc_ping), (''MODE'', ipc_mode), (''DAEMON_INFO'', ipc_daemon_info), (''GET_CONFIG '', ipc_get_config),
      (''TOGGLE'', ipc_toggle), (''SET_MODE '', ipc_set_mode), (''GET_TOPOLOGY'', ipc_get_topology),
      (''SET_AFFINITY_CONFIG '', ipc_set_affinity_config), (''SET_CPPC '', ipc_set_cppc), (''SET_BOOST '', ipc_set_boost),
      (''SET_PARK '', ipc_set_park), (''SET_UNPARK '', ipc_set_unpark), (''SET_TDP '', ipc_set_tdp),
      (''SET_EPP '', ipc_set_epp), (''SET_EPP_CCD '', ipc_set_epp_ccd), (''SET_PSTATE '', ipc_set_pstate),
      (''SET_GOVERNOR '', ipc_set_governor), (''SET_PREFCORE '', ipc_set_prefcore), (''SET_DAEMON '', ipc_set_daemon),
      (''SET_CONFIG '', ipc_set_config), (''SET_WRAPPER '', ipc_set_wrapper), (''DAEMON_DISABLE'', ipc_daemon_disable),
      (''CONFIG_SYNC'', ipc_config_sync), (''GAMES_LIST'', ipc_games_list), (''ADVANCED_GET '', ipc_advanced_get),
      (''ADVANCED_SET '', ipc_advanced_set)]"

fun find_branch :: "(string \<times> 'h) list \<Rightarrow> string \<Rightarrow> (string \<times> 'h) option" where
  "find_branch [] buf = None"
| "find_branch ((pre, h) # bs) buf = (if strncmp buf pre (length pre) = 0 then Some (pre, h) else find_branch bs buf)"

definition ipc_dispatch :: "'w env \<Rightarrow> int \<Rightarrow> string \<Rightarrow> ('w, bool) m" where
  "ipc_dispatch E client_fd buf =
     (case find_branch ipc_commands buf of
        None \<Rightarrow> reply E client_fd ''ERR''
      | Some (pre, h) \<Rightarrow> h E client_fd (drop (length pre) buf))"

definition request_of :: "string \<Rightarrow> string" where
  "request_of d = (let buf = cstr d in take (strcspn buf [CR, NL]) buf)"

definition socket_handle :: "'w env \<Rightarrow> int \<Rightarrow> ('w, unit) m" where
  "socket_handle E server_fd = do {
     client_fd \<leftarrow> c_accept4 E server_fd SOCK_CLOEXEC;
     if client_fd < 0 then ret ()
     else do {
       nd \<leftarrow> c_recv E client_fd 511 0;
       fall \<leftarrow> (if fst nd > 0 then ipc_dispatch E client_fd (request_of (snd nd)) else ret True);
       if fall then do { c_close E client_fd; ret () } else ret ()
     }
   }"

subsection \<open>Every accepted descriptor is closed once\<close>

text \<open>A branch balances its descriptors, and has closed the client's exactly when it does not fall through.\<close>

definition nets_fall :: "('w, bool) m \<Rightarrow> bool" where
  "nets_fall m \<longleftrightarrow> (\<forall>s. (exited s \<noteq> None \<longrightarrow> exited (exec m s) \<noteq> None) \<and>
     (exited (exec m s) = None \<longrightarrow> held (exec m s) = held s - (if result m s then 0 else 1)))"

named_theorems fall_rules "descriptor balance of the branches"

lemma nets_fall_bind [fall_rules]:
  assumes "nets 0 m" "\<And>x. nets_fall (k x)"
  shows "nets_fall (State_Monad.bind m k)"
  unfolding nets_fall_def exec_bind result_bind
proof (intro allI conjI impI)
  fix s
  let ?x = "result m s" and ?s = "exec m s"
  note m = assms(1) [unfolded nets_def, rule_format, of s]
  note k = assms(2) [unfolded nets_fall_def, rule_format, of ?s ?x]
  show "exited (exec (k ?x) ?s) \<noteq> None" if "exited s \<noteq> None" using m k that by blast
  show "held (exec (k ?x) ?s) = held s - (if result (k ?x) ?s then 0 else 1)" if "exited (exec (k ?x) ?s) = None"
    using m k that by (cases "exited ?s = None") auto
qed

lemma nets_fall_if [fall_rules]: "(b \<Longrightarrow> nets_fall m) \<Longrightarrow> (\<not> b \<Longrightarrow> nets_fall m') \<Longrightarrow> nets_fall (if b then m else m')"
  by simp

lemma nets_fall_option [fall_rules]:
  "nets_fall m \<Longrightarrow> (\<And>y. nets_fall (f y)) \<Longrightarrow> nets_fall (case x of None \<Rightarrow> m | Some y \<Rightarrow> f y)"
  by (cases x) simp_all

lemma nets_fall_prod [fall_rules]: "(\<And>a b. nets_fall (f a b)) \<Longrightarrow> nets_fall (case x of (a, b) \<Rightarrow> f a b)"
  by (cases x) simp

lemma nets_fall_Let [fall_rules]: "nets_fall (f x) \<Longrightarrow> nets_fall (let y = x in f y)"
  by simp

lemma nets_fall_reply [fall_rules]:
  "nets_fall (reply E fd msg)" "nets_fall (reply_ok E fd ok)" "nets_fall (reply_code E fd code)"
proof -
  show r: "nets_fall (reply E fd msg)" for msg
    by (auto simp: nets_fall_def reply_def c_send_def run_sys_errno Let_def held_def)
  then show "nets_fall (reply_ok E fd ok)" "nets_fall (reply_code E fd code)"
    by (simp_all add: reply_ok_def reply_code_def)
qed

lemma null_deref_exits: "exited (exec (null_deref E) s) \<noteq> None"
  by (simp add: null_deref_def sig_handler_def sig_defs c_exit_def run_sys Let_def split_beta)

lemma nets_fall_crash [fall_rules]: "nets_fall (do { null_deref E; ret False })"
  by (simp add: nets_fall_def null_deref_exits exec_bind del: run_state_bind)

lemma nets_fall_closed [fall_rules]: "nets_fall (do { reply E fd msg; c_close E fd; ret False })"
  by (auto simp: nets_fall_def reply_def c_send_def c_close_def run_sys_errno run_sys_int Let_def held_def)

lemma nets_fall_number [fall_rules]: "(\<And>n. nets 0 (op n)) \<Longrightarrow> nets_fall (with_number E fd arg err op)"
  unfolding with_number_def
  by (rule nets_fall_bind [OF nets_modify_vars(1)])
    (auto split: request_number.split intro!: fall_rules nets_rules)

lemma nets_parts [nets_rules]: "nets 0 (park_ccd1 E)" "nets 0 (run_reset E)" "nets 0 (follow_ebpf E)"
  unfolding park_ccd1_def run_reset_def follow_ebpf_def by - (intro nets_rules)+

lemmas ipc_defs =
  ipc_ping_def ipc_mode_def ipc_daemon_info_def ipc_get_config_def ipc_toggle_def ipc_set_mode_def ipc_get_topology_def
  ipc_set_affinity_config_def ipc_set_cppc_def ipc_set_boost_def ipc_set_park_def ipc_set_unpark_def ipc_set_tdp_def
  ipc_set_epp_def ipc_set_epp_ccd_def ipc_set_pstate_def ipc_set_governor_def ipc_set_prefcore_def ipc_set_daemon_def
  ipc_set_config_def ipc_set_wrapper_def ipc_daemon_disable_def ipc_config_sync_def ipc_games_list_def

text \<open>A property of all branches and of the error reply is one of the dispatch.\<close>

lemma find_branch_in: "find_branch bs buf = Some b \<Longrightarrow> b \<in> set bs"
  by (induction bs) (auto split: if_splits)

lemma dispatch_all:
  assumes "\<And>pre h arg. (pre, h) \<in> set ipc_commands \<Longrightarrow> P (h E fd arg)" "P (reply E fd ''ERR'')"
  shows "P (ipc_dispatch E fd buf)"
  using assms by (auto simp: ipc_dispatch_def dest: find_branch_in split: option.split)

lemma nets_fall_dispatch: "nets_fall (ipc_dispatch E fd buf)"
proof (rule dispatch_all)
  fix pre h arg
  assume "(pre, h) \<in> set (ipc_commands :: (string \<times> ('a env \<Rightarrow> int \<Rightarrow> string \<Rightarrow> ('a, bool) m)) list)"
  then show "nets_fall (h E fd arg)"
    unfolding ipc_commands_def list.set insert_iff empty_iff prod.inject
    by (elim disjE conjE FalseE; hypsubst; unfold ipc_defs ipc_advanced_get_def ipc_advanced_set_def; intro fall_rules nets_rules)
qed (rule fall_rules)

lemma nets_after_fall:
  assumes "nets_fall m"
  shows "nets (- 1) (do { fall \<leftarrow> m; if fall then do { c_close E fd; ret () } else ret () })"
  unfolding nets_def exec_bind
proof (intro allI conjI impI)
  fix s
  let ?x = "result m s" and ?s = "exec m s"
  let ?t = "if ?x then do { c_close E fd; ret () } else ret ()"
  note m = assms [unfolded nets_fall_def, rule_format, of s]
  have c: "exited (exec ?t ?s) = exited ?s" "held (exec ?t ?s) = held ?s - (if ?x then 1 else 0)"
    by (auto simp: c_close_def run_sys_int Let_def held_def)
  show "exited (exec ?t ?s) \<noteq> None" if "exited s \<noteq> None" using m c(1) that by simp
  show "held (exec ?t ?s) = held s + - 1" if "exited (exec ?t ?s) = None" using m c that by auto
qed

lemma nets_socket_handle [nets_rules]: "nets 0 (socket_handle E fd)"
proof -
  have fall: "nets_fall (if b then ipc_dispatch E cfd buf else ret True)" for b cfd buf
    by (rule nets_fall_if [OF nets_fall_dispatch]) (simp add: nets_fall_def)
  have recv: "nets 0 (c_recv E cfd a b)" for cfd a b by (rule nets_rules)
  show ?thesis
    unfolding socket_handle_def
    by (rule nets_accept4) (auto intro: nets_ret nets_bind0 [OF recv nets_after_fall [OF fall]])
qed

subsection \<open>What a request may change\<close>

text \<open>
  An invariant of the daemon that allows what requests do: they choose one of five overrides, keep
  the strings of the configuration within their arrays, and leave the game list and the buffers of the loop alone.
\<close>

definition served :: "('w prog \<Rightarrow> bool) \<Rightarrow> bool" where
  "served I \<longleftrightarrow> det_indep I \<and> (\<forall>s v. I s \<longrightarrow> v \<in> {0..4} \<longrightarrow> I (s\<lparr>active_override := v\<rparr>)) \<and>
     (\<forall>s c. I s \<longrightarrow> (cfg_ok (cfg s) \<longrightarrow> cfg_ok c) \<longrightarrow> I (s\<lparr>cfg := c\<rparr>)) \<and>
     (\<forall>s x. I s \<longrightarrow> I (s\<lparr>bpf_active := x\<rparr>)) \<and> (\<forall>s x. I s \<longrightarrow> I (s\<lparr>wrapper_lock := x\<rparr>)) \<and>
     (\<forall>s x. I s \<longrightarrow> I (s\<lparr>active_keep := x\<rparr>)) \<and> (\<forall>s x. I s \<longrightarrow> I (s\<lparr>failsafe_active := x\<rparr>)) \<and>
     (\<forall>s x. I s \<longrightarrow> I (s\<lparr>last_sig := x\<rparr>)) \<and> (\<forall>s x. I s \<longrightarrow> I (s\<lparr>exited := x\<rparr>)) \<and>
     (\<forall>s x. I s \<longrightarrow> I (s\<lparr>reload_flag := x\<rparr>))"

lemma served_det: "served I \<Longrightarrow> det_indep I"
  by (simp add: served_def)

lemmas served_base = served_det det_hw [OF served_det] det_jrn [OF served_det] det_sys [OF served_det]

lemma keeps_served_modify:
  assumes "served I"
  shows "v \<in> {0..4} \<Longrightarrow> keeps I (modify (\<lambda>s. s\<lparr>active_override := v\<rparr>))"
    "(\<And>c. cfg_ok c \<Longrightarrow> cfg_ok (u c)) \<Longrightarrow> keeps I (modify (\<lambda>s. s\<lparr>cfg := u (cfg s)\<rparr>))"
    "keeps I (modify (\<lambda>s. s\<lparr>bpf_active := b\<rparr>))" "keeps I (modify (\<lambda>s. s\<lparr>wrapper_lock := n\<rparr>))"
    "keeps I (modify (\<lambda>s. s\<lparr>active_keep := b\<rparr>))" "keeps I (modify (\<lambda>s. s\<lparr>failsafe_active := b\<rparr>))"
    "keeps I (modify (\<lambda>s. s\<lparr>last_sig := n\<rparr>))" "keeps I (modify (\<lambda>s. s\<lparr>exited := e\<rparr>))"
    "keeps I (modify (\<lambda>s. s\<lparr>reload_flag := b\<rparr>))" "keeps I (modify (\<lambda>s. s\<lparr>errno := n\<rparr>))"
  using assms sys_indep_upd(3) [OF det_sys [OF served_det [OF assms]]] by (simp_all add: served_def hoare_def)

lemma keeps_served_config [hoare_rules]:
  assumes "served I"
  shows "keeps I (config_load E)"
  unfolding config_load_def config_probe_capabilities_def
  by (intro hoare_rules served_base [OF assms] keeps_served_modify(2) [OF assms])
    (auto intro: cfg_ok_defaults cfg_ok_load_text)

lemma keeps_served_failsafe [hoare_rules]:
  assumes "served I"
  shows "keeps I (daemon_failsafe E)" "keeps I (sig_handler E sg)" "keeps I (null_deref E)"
  unfolding null_deref_def sig_handler_def daemon_failsafe_def daemon_restore_def cppc_restore_def c_exit_def
  by - (intro hoare_rules served_base [OF assms] keeps_served_modify [OF assms])+

lemma keeps_reply [hoare_rules]:
  assumes "sys_indep I"
  shows "keeps I (reply E fd msg)" "keeps I (reply_ok E fd ok)" "keeps I (reply_code E fd code)"
  unfolding reply_code_def reply_ok_def reply_def by - (intro hoare_rules assms)+

lemma keeps_with_number [hoare_rules]:
  assumes "served I" "\<And>n. keeps I (op n)"
  shows "keeps I (with_number E fd arg err op)"
  unfolding with_number_def
  by (rule keeps_bind [OF keeps_served_modify(10) [OF assms(1)]])
    (auto split: request_number.split intro!: hoare_rules keeps_served_modify assms served_base [OF assms(1)])

lemma live_setters_ok: "list_all (\<lambda>(k, u). \<forall>v c. cfg_ok c \<longrightarrow> cfg_ok (u v c)) live_setters"
  unfolding live_setters_def list.pred_inject prod.case
  by (intro conjI allI TrueI impI; simp add: cfg_ok_def fit_less)

lemma advanced_ok: "list_all (\<lambda>(k, p, u, ck). \<forall>v c. cfg_ok c \<longrightarrow> cfg_ok (u v c)) advanced_nodes"
  unfolding advanced_nodes_def list.pred_inject prod.case
  by (intro conjI allI TrueI impI; simp add: cfg_ok_def fit_less)

lemma cfg_ok_set_live: "cfg_ok c \<Longrightarrow> cfg_ok (set_live k v c)"
proof (cases "map_of live_setters k")
  case (Some u)
  then have "(k, u) \<in> set live_setters" by (rule map_of_SomeD)
  with live_setters_ok have "cfg_ok c \<longrightarrow> cfg_ok (u v c)" unfolding list_all_iff by blast
  then show "cfg_ok c \<Longrightarrow> cfg_ok (set_live k v c)" using Some by (simp add: set_live_def)
qed (simp add: set_live_def)

lemma cfg_ok_advanced: "map_of advanced_nodes k = Some (p, u, ck) \<Longrightarrow> cfg_ok c \<Longrightarrow> cfg_ok (u v c)"
  using advanced_ok unfolding list_all_iff by (blast dest: map_of_SomeD)

lemma cfg_ok_daemon_state: "cfg_ok c \<Longrightarrow> cfg_ok (c\<lparr>daemon_state := fit 32 v\<rparr>)"
  by (simp add: cfg_ok_def fit_less)

lemma keeps_dispatch:
  assumes I: "served I"
  shows "keeps I (ipc_dispatch E fd buf)"
proof (rule dispatch_all)
  note base = served_base [OF I] I keeps_served_modify [OF I] plain_codes
  have adv: "keeps I (ipc_advanced_set E fd arg)" for arg
    unfolding ipc_advanced_set_def by (intro hoare_rules base) (auto dest: cfg_ok_advanced)
  fix pre h arg
  assume "(pre, h) \<in> set (ipc_commands :: (string \<times> ('a env \<Rightarrow> int \<Rightarrow> string \<Rightarrow> ('a, bool) m)) list)"
  then show "keeps I (h E fd arg)"
    unfolding ipc_commands_def list.set insert_iff empty_iff prod.inject
    by (elim disjE conjE FalseE; hypsubst; unfold ipc_defs ipc_advanced_get_def park_ccd1_def run_reset_def follow_ebpf_def;
        intro hoare_rules base adv cfg_ok_set_live cfg_ok_daemon_state; simp)
qed (intro hoare_rules served_base [OF I])

lemma keeps_socket_handle [hoare_rules]:
  assumes "served I"
  shows "keeps I (socket_handle E fd)"
  unfolding socket_handle_def
  by (intro hoare_rules keeps_dispatch assms served_base [OF assms])

subsection \<open>What a request can reach\<close>

text \<open>
  The files and programs within reach of a request: nodes below \<^verbatim>\<open>/sys\<close> and \<^verbatim>\<open>/proc/sys\<close>, the configuration file
  and the log; the reset script and the tool's own power limit command with a decimal number.
\<close>

definition allowed_path :: "'w env \<Rightarrow> string \<Rightarrow> bool" where
  "allowed_path E p \<longleftrightarrow>
     (prefix ''/sys/'' p \<or> prefix ''/proc/sys/'' p) \<and> \<not> sublist ''..'' p \<or> prefix VAR_LOGS p \<or> p = CONFIG_PATH E"

definition allowed_child :: "child \<Rightarrow> bool" where
  "allowed_child ch \<longleftrightarrow> ch = reset_child \<or>
     (c_path ch = ''/usr/bin/x3d-toggle'' \<and>
      (\<exists>n. c_argv ch = [''/usr/bin/x3d-toggle'', ''framework'', ''--set-tdp'', take 15 (xui_itoa 10 n)]))"

definition allowed_call :: "'w env \<Rightarrow> syscall \<Rightarrow> bool" where
  "allowed_call E c \<longleftrightarrow>
     (case c of
        SysOpen p fl md \<Rightarrow> allowed_path E p
      | SysFork ch \<Rightarrow> allowed_child ch
      | SysExecve p av ev \<Rightarrow> False | SysUnlink p \<Rightarrow> False | SysChmod p md \<Rightarrow> False | SysMkdir p md \<Rightarrow> False
      | SysRmdir p \<Rightarrow> False | SysKill pid sg \<Rightarrow> False | SysConnect fd p \<Rightarrow> False | SysBind fd p \<Rightarrow> False
      | _ \<Rightarrow> True)"

definition path_ok :: "'w prog \<Rightarrow> bool" where
  "path_ok s \<longleftrightarrow> x3d_path_cache s \<in> insert [] (set x3d_targets)"

definition confined :: "'w env \<Rightarrow> ('w, 'a) m \<Rightarrow> bool" where
  "confined E m \<longleftrightarrow> makes_pq path_ok E (allowed_call E) m path_ok"

named_theorems confined_rules "fragments that stay within reach"

lemma path_ok_indep: "sys_indep path_ok" "jrn_indep path_ok"
  by (simp_all add: path_ok_def sys_indep_def jrn_indep_def)

lemma confinedI: "makes E (allowed_call E) m \<Longrightarrow> keeps path_ok m \<Longrightarrow> confined E m"
  unfolding confined_def by (rule makes_pq_keep)

lemma confined_bind [confined_rules]: "confined E m \<Longrightarrow> (\<And>x. confined E (k x)) \<Longrightarrow> confined E (State_Monad.bind m k)"
  unfolding confined_def by (rule makes_pq_bind)

lemma confined_ret [confined_rules]: "confined E (ret x)" "confined E (gets f)"
  by (intro confinedI makes_rules hoare_rules)+

lemma confined_control [confined_rules]:
  "(b \<Longrightarrow> confined E m) \<Longrightarrow> (\<not> b \<Longrightarrow> confined E m') \<Longrightarrow> confined E (if b then m else m')"
  "(x = None \<Longrightarrow> confined E n) \<Longrightarrow> (\<And>y. x = Some y \<Longrightarrow> confined E (f y)) \<Longrightarrow>
   confined E (case x of None \<Rightarrow> n | Some y \<Rightarrow> f y)"
  "(\<And>u v. z = (u, v) \<Longrightarrow> confined E (g u v)) \<Longrightarrow> confined E (case z of (u, v) \<Rightarrow> g u v)"
  "confined E (h y) \<Longrightarrow> confined E (let v = y in h v)"
  by (auto split: option.splits prod.splits)

lemma confined_foldM [confined_rules]: "(\<And>x b. confined E (f x b)) \<Longrightarrow> confined E (foldM f xs b)"
  by (induction xs arbitrary: b) (auto intro!: confined_rules)

lemma confined_forM [confined_rules]: "(\<And>x. confined E (f x)) \<Longrightarrow> confined E (forM xs f)"
  by (induction xs) (auto intro!: confined_rules)

lemma confined_modify:
  "(\<And>s. trace (f s) = trace s) \<Longrightarrow> (\<And>s. world (f s) = world s) \<Longrightarrow> (\<And>s. log_path (f s) = log_path s) \<Longrightarrow>
   (\<And>s. x3d_path_cache (f s) = x3d_path_cache s) \<Longrightarrow> confined E (modify f)"
  by (intro confinedI makes_modify) (simp_all add: log_ok_def hoare_def path_ok_def)

lemma confined_vars [confined_rules]:
  "confined E (modify (\<lambda>s. s\<lparr>cfg := fc s\<rparr>))" "confined E (modify (\<lambda>s. s\<lparr>active_override := fi s\<rparr>))"
  "confined E (modify (\<lambda>s. s\<lparr>wrapper_lock := fi s\<rparr>))" "confined E (modify (\<lambda>s. s\<lparr>errno := fi s\<rparr>))"
  "confined E (modify (\<lambda>s. s\<lparr>active_keep := fb s\<rparr>))" "confined E (modify (\<lambda>s. s\<lparr>bpf_active := fb s\<rparr>))"
  "confined E (modify (\<lambda>s. s\<lparr>bpf_obj := fi s\<rparr>))" "confined E (modify (\<lambda>s. s\<lparr>bpf_link_exec := fi s\<rparr>))"
  "confined E (modify (\<lambda>s. s\<lparr>bpf_link_exit := fi s\<rparr>))" "confined E (modify (\<lambda>s. s\<lparr>bpf_rb := fi s\<rparr>))"
  "confined E (modify (\<lambda>s. s\<lparr>failsafe_active := fb s\<rparr>))" "confined E (modify (\<lambda>s. s\<lparr>last_sig := fi s\<rparr>))"
  "confined E (modify (\<lambda>s. s\<lparr>reload_flag := fb s\<rparr>))" "confined E (modify (\<lambda>s. s\<lparr>exited := fe s\<rparr>))"
  by (rule confined_modify; simp)+

lemma allowed_log: "log_calls (allowed_call E)"
  by (simp add: log_calls_def allowed_call_def allowed_path_def)

lemma allowed_calls [simp]:
  "allowed_call E (SysRead fd n)" "allowed_call E (SysWrite fd d)" "allowed_call E (SysClose fd)" "allowed_call E (SysAccess p md)"
  "allowed_call E SysGeteuid" "allowed_call E (SysWait pid)" "allowed_call E (SysSendto fd d n p)" "allowed_call E (LibBpf bc)"
  "allowed_call E (SysRecvfrom fd n k)" "allowed_call E (SysAccept4 fd n)" "allowed_call E (SysExit st)"
  "allowed_call E (SysOpen p fl md) = allowed_path E p" "allowed_call E (SysFork ch) = allowed_child ch"
  by (simp_all add: allowed_call_def)

lemma confined_sys [confined_rules]:
  "allowed_call E c \<Longrightarrow> confined E (sys E c)"
  by (rule confinedI) (auto intro: makes_sys hoare_rules path_ok_indep)

lemma confined_calls [confined_rules]:
  "confined E (c_read E fd n)" "confined E (c_write E fd d)" "confined E (c_close E fd)" "confined E (c_access E p md)"
  "confined E (c_geteuid E)" "confined E (c_waitpid E pid)" "confined E (c_send E fd d n)" "confined E (c_recv E fd n k)"
  "confined E (c_accept4 E fd n)" "allowed_path E p \<Longrightarrow> confined E (c_open E p n k)"
  "allowed_child ch \<Longrightarrow> confined E (c_fork E ch)"
  by - (intro confinedI makes_rules hoare_rules path_ok_indep; simp)+

lemma confined_journal [confined_rules]:
  "plain_code code \<Longrightarrow> confined E (journal_error E code as)" "plain_code code \<Longrightarrow> confined E (journal_warn E code as)"
  "plain_code code \<Longrightarrow> confined E (journal_info E code as)" "plain_code code \<Longrightarrow> confined E (journal_log E code as)"
  "confined E (journal_debug E fmt as)" "confined E (syslog E prio fmt as)"
  by - (intro confinedI makes_rules hoare_rules path_ok_indep allowed_log; assumption?)+

lemma confined_failsafe [confined_rules]: "confined E (null_deref E)"
proof -
  have "allowed_child reset_child" by (simp add: allowed_child_def)
  then show ?thesis
    unfolding null_deref_def sig_handler_def daemon_failsafe_def daemon_restore_def cppc_restore_def c_exit_def
    by (intro confined_rules) simp_all
qed

text \<open>A path with at most one dot cannot climb to a parent directory.\<close>

definition dots :: "string \<Rightarrow> nat" where
  "dots p = length (filter (\<lambda>c. c = CHR ''.'') p)"

lemma dots_simps [simp]:
  "dots [] = 0" "dots (c # p) = (if c = CHR ''.'' then Suc (dots p) else dots p)" "dots (p @ q) = dots p + dots q"
  "dots (xui_itoa 10 n) = 0"
proof -
  have "CHR ''.'' \<notin> set (xui_itoa 10 n)" using xui_itoa_chars by (fastforce simp: is_digit_def uchar_def)
  then show "dots (xui_itoa 10 n) = 0" by (auto simp: dots_def filter_empty_conv)
qed (simp_all add: dots_def)

lemma dots_take: "dots (take n p) \<le> dots p"
  by (metis append_take_drop_id dots_simps(3) le_add1)

lemma one_dot: "dots p \<le> 1 \<Longrightarrow> \<not> sublist ''..'' (take n p)"
  using dots_take [of n p] by (auto simp: sublist_def)

lemma allowed_take:
  "dots p \<le> 1 \<Longrightarrow> prefix ''/sys/'' (take n p) \<or> prefix ''/proc/sys/'' (take n p) \<Longrightarrow> allowed_path E (take n p)"
  by (simp add: allowed_path_def one_dot)

lemma allowed_nodes:
  "allowed_path E (printf_sn E 128 ''/sys/devices/system/cpu/cpu%d/online'' [AInt i])"
  "allowed_path E (printf_sn E 256 ''/sys/devices/system/cpu/cpu%d/acpi_cppc/desired_perf'' [AInt i])"
  "allowed_path E (printf_sn E 256 epp_node [AInt i])"
  "allowed_path E (printf_sn E 256 ''/sys/devices/system/cpu/cpu%d/cpufreq/scaling_governor'' [AInt i])"
  "dots rel \<le> 1 \<Longrightarrow> allowed_path E (printf_sn E 512 ''%s/%s'' [AStr CGROUP_ROOT, AStr rel])"
  "dots rel = 0 \<Longrightarrow> allowed_path E (printf_sn E 256 ''%s/%s/cgroup.procs'' [AStr CGROUP_ROOT, AStr rel])"
  "dots rel \<le> 1 \<Longrightarrow> allowed_path E (printf_sn E 128 ''%s%s'' [AStr ''/proc/sys/kernel/'', AStr rel])"
  unfolding printf_sn_def printf_vsn_render epp_node_def CGROUP_ROOT_def by (rule allowed_take; simp add: fmt_simps)+

lemma allowed_literal: "dots p \<le> 1 \<Longrightarrow> prefix ''/sys/'' p \<or> prefix ''/proc/sys/'' p \<Longrightarrow> allowed_path E p"
  using allowed_take [of p "length p"] by simp

lemma allowed_literals [simp]:
  "allowed_path E (CONFIG_PATH E)" "allowed_path E ''/sys/devices/system/cpu/cpufreq/boost''"
  "allowed_path E ''/sys/devices/system/cpu/amd_pstate/status''" "allowed_path E ''/sys/devices/system/cpu/amd_pstate/prefcore''"
  by (simp add: allowed_path_def) (rule allowed_literal; simp)+

lemma allowed_targets: "p \<in> set x3d_targets \<Longrightarrow> allowed_path E p"
  by (rule allowed_literal) (auto simp: x3d_targets_def)

lemma allowed_advanced: "map_of advanced_nodes k = Some (p, u, ck) \<Longrightarrow> allowed_path E p"
  by (drule map_of_SomeD, rule allowed_literal) (auto simp: advanced_nodes_def)

lemma confined_write_node [confined_rules]: "allowed_path E p \<Longrightarrow> confined E (write_node E p val a b)"
  unfolding write_node_def by (intro confined_rules)

lemma confined_write_cores: "(\<And>i. allowed_path E (printf_sn E 256 fmt [AInt i])) \<Longrightarrow> confined E (write_cores E fmt val cores)"
  unfolding write_cores_def by (intro confined_rules)

lemma confined_nodes [confined_rules]:
  "confined E (cli_set_core E i on)" "confined E (cppc_boost E on)" "confined E (cppc_perf E v)" "confined E (cppc_epp E val)"
  "confined E (cppc_ccd E i val)" "confined E (cppc_pstate E val)" "confined E (cppc_governor E val)"
  "confined E (cppc_prefcore E on)" "confined E (affinity_set_masks E path val)" "confined E (affinity_partition E i j)"
  "confined E (scheduler_set E pf)" "confined E (config_update E key val)" "confined E (config_get E key)"
  unfolding cli_set_core_def cppc_boost_def cppc_perf_def cppc_epp_def cppc_ccd_def cppc_pstate_def cppc_governor_def
    cppc_prefcore_def affinity_set_masks_def affinity_partition_def cgroup_write_raw_def cgroup_write_pid_def affinity_default_def
    scheduler_set_def scheduler_check_def sysctl_kernel_write_def config_update_def config_get_def
  by - (intro confined_rules confined_write_cores allowed_nodes allowed_literals; simp)+

lemma confined_sysctl [confined_rules]:
  "allowed_path E p \<Longrightarrow> confined E (sysctl_write E p val)" "allowed_path E p \<Longrightarrow> confined E (sysctl_read E p n)"
  unfolding sysctl_write_def sysctl_read_def by - (intro confined_rules; assumption)+

lemma confined_config_load [confined_rules]: "confined E (config_load E)"
  unfolding config_load_def config_probe_capabilities_def by (intro confined_rules allowed_literals)

lemma confined_tdp [confined_rules]: "confined E (cppc_tdp E w)"
proof -
  have "allowed_child \<lparr>c_redirect = False, c_path = ''/usr/bin/x3d-toggle'',
      c_argv = [''/usr/bin/x3d-toggle'', ''framework'', ''--set-tdp'', printf_sn E 16 ''%d'' [AInt w]], c_env = env, c_fail = 1\<rparr>" for env
    by (auto simp: allowed_child_def printf_sn_def printf_simps)
  then show ?thesis unfolding cppc_tdp_def by (intro confined_rules)
qed

lemma confined_bpf [confined_rules]: "confined E (bpf_init E)" "confined E (bpf_cleanup E)"
  unfolding bpf_init_def bpf_cleanup_def bpf_attach_def bpf_events_def bpf_lib_def
  by - (intro confined_rules plain_codes allowed_calls)+

text \<open>The search for the mode node yields one of the known paths.\<close>

lemma find_path_targets: "hoare path_ok (find_path E) (\<lambda>r s. path_ok s \<and> (\<forall>p. r = Some p \<longrightarrow> p \<in> set x3d_targets))"
proof -
  have "hoare path_ok (find_path_loop E ts) (\<lambda>r s. path_ok s \<and> (\<forall>p. r = Some p \<longrightarrow> p \<in> set x3d_targets))"
    if "set ts \<subseteq> set x3d_targets" for ts
    using that
  proof (induction ts)
    case (Cons t ts)
    have "keeps path_ok (c_access E t R_OK)" by (intro hoare_rules path_ok_indep)
    with Cons targets_short [of t] show ?case
      by (auto simp: hoare_def path_ok_def exec_bind result_bind simp del: run_state_bind)
  qed (simp add: hoare_def)
  from this [of x3d_targets] show ?thesis
    by (auto simp: hoare_def find_path_def path_ok_def exec_bind result_bind simp del: run_state_bind)
qed

lemma confined_find_path:
  assumes "\<And>p. p \<in> set x3d_targets \<Longrightarrow> confined E (k (Some p))" "confined E (k None)"
  shows "confined E (State_Monad.bind (find_path E) k)"
proof -
  have fp: "makes E (allowed_call E) (find_path E)" by (rule makes_find_path) simp
  show ?thesis
    unfolding confined_def makes_pq_def
  proof (intro allI impI)
    fix s :: "'a prog" assume s: "log_ok s \<and> path_ok s"
    let ?r = "result (find_path E) s" and ?s = "exec (find_path E) s"
    have k: "confined E (k ?r)" "path_ok ?s"
      using hoareD [OF find_path_targets, of s E] s assms by (cases ?r; simp)+
    obtain t where t: "log_ok ?s" "trace ?s = trace s @ t" "list_all (allowed_call E) (calls t)"
      "world ?s = replay E (calls t) (world s)"
      using fp s unfolding makes_def makes_pq_def by blast
    obtain u where u: "log_ok (exec (k ?r) ?s)" "path_ok (exec (k ?r) ?s)" "trace (exec (k ?r) ?s) = trace ?s @ u"
      "list_all (allowed_call E) (calls u)" "world (exec (k ?r) ?s) = replay E (calls u) (world ?s)"
      using k t(1) unfolding confined_def makes_pq_def by blast
    show "log_ok (exec (find_path E \<bind> k) s) \<and> path_ok (exec (find_path E \<bind> k) s) \<and>
      (\<exists>t. trace (exec (find_path E \<bind> k) s) = trace s @ t \<and> list_all (allowed_call E) (calls t) \<and>
        world (exec (find_path E \<bind> k) s) = replay E (calls t) (world s))"
      using t u by (auto simp: exec_bind replay_def simp del: run_state_bind intro!: exI [of _ "t @ u"])
  qed
qed

lemma confined_modes [confined_rules]:
  "confined E (mode E old n)" "confined E (cli_set_mode E md)" "confined E (cli_set_dual E)" "confined E (cli_set_swap E)"
  "confined E (cli_mode_apply E part)"
proof -
  show "confined E (mode E old n)"
    unfolding mode_def by (rule confined_find_path; simp only: option.case; intro confined_rules allowed_targets; assumption?)
  show sm: "confined E (cli_set_mode E md)" for md
    unfolding cli_set_mode_def by (rule confined_find_path; simp only: option.case; intro confined_rules allowed_targets; assumption?)
  show "confined E (cli_set_dual E)" "confined E (cli_set_swap E)"
    unfolding cli_set_dual_def cli_set_swap_def by (rule sm)+
  show "confined E (cli_mode_apply E part)"
    unfolding cli_mode_apply_def by (intro confined_rules plain_codes)
qed

lemma confined_dispatch: "confined E (ipc_dispatch E fd buf)"
proof (rule dispatch_all)
  have reset: "allowed_child reset_child" by (simp add: allowed_child_def)
  have rep: "confined E (reply E fd msg)" "confined E (reply_ok E fd ok)" "confined E (reply_code E fd code)" for msg ok code
    unfolding reply_code_def reply_ok_def reply_def by - (intro confined_rules)+
  have num: "confined E (with_number E fd arg err op)" if "\<And>n. confined E (op n)" for arg err op
    unfolding with_number_def using that
    by (intro confined_rules) (auto split: request_number.split intro!: confined_rules rep)
  have adv: "confined E (ipc_advanced_set E fd arg)" "confined E (ipc_advanced_get E fd arg)" for arg
    unfolding ipc_advanced_set_def ipc_advanced_get_def
    by - (intro confined_rules rep; use allowed_advanced in blast)+
  show "confined E (reply E fd ''ERR'')" by (rule rep)
  fix pre h arg
  assume "(pre, h) \<in> set (ipc_commands :: (string \<times> ('a env \<Rightarrow> int \<Rightarrow> string \<Rightarrow> ('a, bool) m)) list)"
  then show "confined E (h E fd arg)"
    unfolding ipc_commands_def list.set insert_iff empty_iff prod.inject
    by (elim disjE conjE FalseE; hypsubst; unfold ipc_defs park_ccd1_def run_reset_def follow_ebpf_def;
        intro confined_rules rep num adv reset plain_codes)
qed

lemma confined_socket_handle: "confined E (socket_handle E fd)"
  unfolding socket_handle_def by (intro confined_rules confined_dispatch)

end
