(* ===== verification/Requests.thy ===== *)
theory Requests
  imports Socket
begin

section \<open>What the daemon's clients can rely on\<close>

text \<open>
  The theorems about requests: how they find their branch, what they can reach, which invariants they
  keep, what \<^verbatim>\<open>TOGGLE\<close>, \<^verbatim>\<open>DAEMON_INFO\<close> and the numeric requests do end to end.
\<close>

subsection \<open>Dispatch\<close>

lemma find_branch_prefix:
  assumes "cstring buf" "\<forall>p \<in> fst ` set bs. cstring p" "\<forall>p \<in> fst ` set bs. \<forall>q \<in> fst ` set bs. prefix p q \<longrightarrow> p = q"
    "distinct (map fst bs)" "(p, h) \<in> set bs" "prefix p buf"
  shows "find_branch bs buf = Some (p, h)"
  using assms
proof (induction bs)
  case (Cons b bs)
  obtain q g where b: "b = (q, g)" by (cases b)
  show ?case
  proof (cases "prefix q buf")
    case True
    then have pq: "prefix p q \<or> prefix q p" using Cons.prems(6) prefix_same_cases by blast
    have p: "p \<in> fst ` set (b # bs)" using Cons.prems(5) by (rule rev_image_eqI) simp
    have q: "q \<in> fst ` set (b # bs)" by (simp add: b)
    have "p = q" using pq Cons.prems(3) [rule_format, OF p q] Cons.prems(3) [rule_format, OF q p] by auto
    moreover have "h = g" if "p = q"
    proof (rule ccontr)
      assume "h \<noteq> g"
      then have "(p, h) \<in> set bs" using Cons.prems(5) b by simp
      then have "p \<in> fst ` set bs" by (rule rev_image_eqI) simp
      then show False using Cons.prems(4) b that by simp
    qed
    ultimately show ?thesis using True b Cons.prems(1,2) by simp
  next
    case False
    then have "(p, h) \<in> set bs" using Cons.prems(5,6) b by auto
    moreover have "find_branch (b # bs) buf = find_branch bs buf" using False b Cons.prems(1,2) by simp
    moreover have "\<forall>p \<in> fst ` set bs. cstring p" "\<forall>p \<in> fst ` set bs. \<forall>q \<in> fst ` set bs. prefix p q \<longrightarrow> p = q" "distinct (map fst bs)"
      using Cons.prems(2,3,4) by - (simp only: list.set image_insert ball_simps list.map distinct.simps ball_conj_distrib; elim conjE; assumption)+
    ultimately show ?thesis using Cons.IH [OF Cons.prems(1)] Cons.prems(6) by (simp only:)
  qed
qed simp

lemma find_branch_None:
  "cstring buf \<Longrightarrow> \<forall>p \<in> fst ` set bs. cstring p \<and> \<not> prefix p buf \<Longrightarrow> find_branch bs buf = None"
  by (induction bs) auto

lemma ipc_names: "map fst ipc_commands =
  [''PING'', ''MODE'', ''DAEMON_INFO'', ''GET_CONFIG '', ''TOGGLE'', ''SET_MODE '', ''GET_TOPOLOGY'', ''SET_AFFINITY_CONFIG '',
   ''SET_CPPC '', ''SET_BOOST '', ''SET_PARK '', ''SET_UNPARK '', ''SET_TDP '', ''SET_EPP '', ''SET_EPP_CCD '', ''SET_PSTATE '',
   ''SET_GOVERNOR '', ''SET_PREFCORE '', ''SET_DAEMON '', ''SET_CONFIG '', ''SET_WRAPPER '', ''DAEMON_DISABLE'', ''CONFIG_SYNC'',
   ''GAMES_LIST'', ''ADVANCED_GET '', ''ADVANCED_SET '']"
  by (simp add: ipc_commands_def)

definition prefix_free :: "string list \<Rightarrow> bool" where
  "prefix_free ps \<longleftrightarrow> distinct ps \<and> list_all (\<lambda>p. list_all (\<lambda>c. c \<noteq> NUL) p \<and> list_all (\<lambda>q. prefix p q \<longrightarrow> p = q) ps) ps"

lemma ipc_prefix_free: "prefix_free (map fst ipc_commands)"
  unfolding ipc_names by code_simp

text \<open>
  C10. Requests are unambiguous: no command of the protocol is a prefix of another, so whatever their order in the chain, a request
  that begins with a command runs exactly that command's branch on the text after it, and a request that begins with none is
  answered \<^verbatim>\<open>ERR\<close> and does nothing else.
\<close>

theorem dispatch_by_prefix:
  assumes "cstring buf"
  shows "(\<forall>(pre, h) \<in> set ipc_commands. prefix pre buf \<longrightarrow> ipc_dispatch E fd buf = h E fd (drop (length pre) buf)) \<and>
    ((\<forall>(pre, h) \<in> set (ipc_commands :: (string \<times> ('w env \<Rightarrow> int \<Rightarrow> string \<Rightarrow> ('w, bool) m)) list). \<not> prefix pre buf) \<longrightarrow>
       ipc_dispatch E fd buf = (do { c_send E fd ''ERR'' MSG_NOSIGNAL; ret True } :: ('w, bool) m))"
proof -
  let ?bs = "ipc_commands :: (string \<times> ('w env \<Rightarrow> int \<Rightarrow> string \<Rightarrow> ('w, bool) m)) list"
  have pf: "\<forall>p \<in> fst ` set ?bs. cstring p" "\<forall>p \<in> fst ` set ?bs. \<forall>q \<in> fst ` set ?bs. prefix p q \<longrightarrow> p = q" "distinct (map fst ?bs)"
    using ipc_prefix_free unfolding prefix_free_def list_all_iff set_map cstring_def by auto
  have none: "find_branch ?bs buf = None" if "\<forall>(pre, h) \<in> set ?bs. \<not> prefix pre buf"
    by (rule find_branch_None [OF assms]) (use pf(1) that in auto)
  show ?thesis
    unfolding ipc_dispatch_def using find_branch_prefix [OF assms pf] none by (auto simp: reply_def)
qed

theorem dispatch_by_prefix_witness: "ipc_dispatch mem_env 7 ''MODE'' = ipc_mode mem_env 7 []"
  using dispatch_by_prefix [of "''MODE''" mem_env 7] by (auto simp: ipc_commands_def cstr_simps)

subsection \<open>Reach and invariants\<close>

text \<open>
  C2. No request makes the daemon, which runs as root, touch a file or start a program of the client's choice: while it serves a client, whatever the
  bytes it receives and however the kernel answers, every file it opens is below \<^verbatim>\<open>/sys\<close> or \<^verbatim>\<open>/proc/sys\<close> (by a path without \<^verbatim>\<open>..\<close>), the configuration file or the log,
  every program it starts is the reset script or the tool's own \<^verbatim>\<open>--set-tdp\<close> with a decimal number, and it neither deletes nor creates
  directory entries, changes permissions or signals a process. The two conditions on the state hold at start-up and are kept.
\<close>

theorem request_reach:
  assumes "log_path s = [] \<or> prefix VAR_LOGS (log_path s)" "x3d_path_cache s \<in> insert [] (set x3d_targets)"
  shows "(\<forall>c \<in> set (calls (since s (exec (socket_handle E fd) s))). allowed_call E c) \<and>
    (log_path (exec (socket_handle E fd) s) = [] \<or> prefix VAR_LOGS (log_path (exec (socket_handle E fd) s))) \<and>
    x3d_path_cache (exec (socket_handle E fd) s) \<in> insert [] (set x3d_targets)"
proof -
  have "log_ok s \<and> path_ok s" using assms by (simp add: log_ok_def path_ok_def)
  from confined_socket_handle [of E fd, unfolded confined_def makes_pq_def, rule_format, OF this]
  show ?thesis by (auto simp: since_def log_ok_def path_ok_def list_all_iff)
qed

theorem request_reach_witness:
  "list_all (allowed_call dev_env) (calls (since (dev_start True) (exec (socket_handle dev_env 3) (dev_start True))))"
  using request_reach [of "dev_start True" dev_env 3] by (simp add: dev_start_def initial_prog_def list_all_iff)

text \<open>
  Serving a client keeps the daemon's state well formed: the override stays one of its five values, every string of the
  configuration stays within its array, the game list and the buffers of the main loop are untouched, and, unless the
  process ends, the client's descriptor has been closed exactly once and nothing else is left open.
\<close>

theorem request_invariant:
  assumes "active_override s \<in> {0..4}" "cfg_ok (cfg s)"
  shows "active_override (exec (socket_handle E fd) s) \<in> {0..4} \<and> cfg_ok (cfg (exec (socket_handle E fd) s)) \<and>
    gl (exec (socket_handle E fd) s) = gl s \<and> cur_mode (exec (socket_handle E fd) s) = cur_mode s \<and>
    target_mode (exec (socket_handle E fd) s) = target_mode s \<and> last_target (exec (socket_handle E fd) s) = last_target s \<and>
    (exited (exec (socket_handle E fd) s) = None \<longrightarrow> held (exec (socket_handle E fd) s) = held s)"
proof -
  let ?I = "\<lambda>t. active_override t \<in> {0..4} \<and> cfg_ok (cfg t) \<and> gl t = gl s \<and> cur_mode t = cur_mode s \<and>
    target_mode t = target_mode s \<and> last_target t = last_target s"
  have "served ?I" by (simp add: served_def det_indep_def hw_indep_def jrn_indep_def sys_indep_def)
  from hoareD [OF keeps_socket_handle [OF this], of s E fd] assms nets_socket_handle [of E fd]
  show ?thesis by (simp add: nets_def)
qed

lemma initial_cfg_ok: "cfg_ok (cfg (initial_prog w))"
  by (simp add: initial_prog_def zero_cfg_def cfg_ok_def)

theorem request_invariant_witness: "active_override (exec (socket_handle dev_env 3) (dev_start True)) \<in> {0..4}"
proof -
  have "active_override (dev_start True) \<in> {0..4}" "cfg_ok (cfg (dev_start True))"
    using initial_cfg_ok by (simp_all add: dev_start_def initial_prog_def)
  from request_invariant [OF this, of dev_env 3] show ?thesis by simp
qed

subsection \<open>Toggling\<close>

lemma hoare_toggle:
  assumes D: "mode_device E p st fds" and N: "node_at E p"
  shows "hoare (in_mode p st fds m) (ipc_toggle E fd arg) (\<lambda>_ s.
    in_mode p st fds (if m = ''cache'' then ''frequency'' else ''cache'') s \<and> active_override s = (if m = ''cache'' then 2 else 1))"
  unfolding hoare_def
proof (intro allI impI)
  fix s :: "'a prog" assume s: "in_mode p st fds m s"
  define t where "t = (if m = ''cache'' then ''frequency'' else ''cache'')"
  define v :: int where "v = (if m = ''cache'' then 2 else 1)"
  have m: "m \<in> modes" using D s by (auto simp: mode_device_def in_mode_def)
  then have eq: "(if strcmp m ''cache'' = 0 then ''frequency'' else ''cache'') = t"
    using modes_facts [of m] by (simp add: cstr_simps t_def)
  have c: "(if strcmp t ''cache'' = 0 then 1 else 2) = v" by (simp add: cstr_simps t_def v_def)
  define s1 where "s1 = exec (mode E (garbage E) 32) s"
  have s1: "result (mode E (garbage E) 32) s = (ERR_SUCCESS, m)" "in_mode p st fds m s1"
    using hoareD [OF hoare_mode [OF D N, where n = 32 and old = "garbage E" and m = m] s] by (simp_all add: s1_def)
  let ?s2 = "s1\<lparr>active_override := v\<rparr>"
  have s2: "in_mode p st fds m ?s2" using s1(2) by (simp add: in_mode_def log_ok_def)
  have t: "t \<in> modes" by (simp add: modes_def t_def)
  have hw: "hw_indep (\<lambda>s :: 'a prog. active_override s = v)" by (simp add: hw_indep_def jrn_indep_def sys_indep_def)
  define s3 where "s3 = exec (cli_set_mode E t) ?s2"
  have s3: "in_mode p st fds t s3" using hoareD [OF hoare_cli_set_mode [OF D N t] s2] by (simp add: s3_def)
  have v3: "active_override s3 = v" using keeps_hw(3) [OF hw, of E t] by (simp add: hoare_def s3_def)
  have snd: "off_node p (SysSendto fd b n q)" for b n q by (simp add: off_node_def)
  have "keeps (in_mode p st fds t) (reply E fd ''OK'')"
    unfolding reply_def by (intro in_mode_quiet [OF D] makes_rules snd hoare_rules path_in_indep)
  moreover have "keeps (\<lambda>s. active_override s = v) (reply E fd ''OK'')" by (intro hoare_rules hw_sys [OF hw])
  ultimately have s4: "in_mode p st fds t (exec (reply E fd ''OK'') s3)" "active_override (exec (reply E fd ''OK'') s3) = v"
    using s3 v3 by (simp_all add: hoare_def)
  have "exec (ipc_toggle E fd arg) s = exec (reply E fd ''OK'') s3"
    using s1(1) by (simp add: ipc_toggle_def exec_bind result_bind s1_def [symmetric] s3_def Let_def eq c del: run_state_bind)
  then show "in_mode p st fds (if m = ''cache'' then ''frequency'' else ''cache'') (exec (ipc_toggle E fd arg) s) \<and>
      active_override (exec (ipc_toggle E fd arg) s) = (if m = ''cache'' then 2 else 1)"
    using s4 unfolding t_def [symmetric] v_def [symmetric] by simp
qed

lemma dispatch_toggle: "ipc_dispatch E fd (''TOGGLE'' @ rest) = ipc_toggle E fd rest"
  by (simp add: ipc_dispatch_def ipc_commands_def numeral_eq_Suc)

text \<open>
  \<^verbatim>\<open>TOGGLE\<close> toggles: for a driver that behaves as documented, a request that begins with \<^verbatim>\<open>TOGGLE\<close> switches the
  device from \<^verbatim>\<open>cache\<close> to \<^verbatim>\<open>frequency\<close> or back and records the new mode as the override; two of them
  restore the mode.
\<close>

theorem toggle_alternates:
  assumes D: "mode_device E p st fds" and N: "node_at E p" and s: "in_mode p st fds m s"
  shows "let s1 = exec (ipc_dispatch E fd (''TOGGLE'' @ rest)) s; s2 = exec (ipc_dispatch E fd' (''TOGGLE'' @ rest')) s1 in
    in_mode p st fds (if m = ''cache'' then ''frequency'' else ''cache'') s1 \<and>
    active_override s1 = (if m = ''cache'' then 2 else 1) \<and> in_mode p st fds m s2"
proof -
  define s1 where "s1 = exec (ipc_toggle E fd rest) s"
  have m: "m \<in> modes" using D s by (auto simp: mode_device_def in_mode_def)
  have s1: "in_mode p st fds (if m = ''cache'' then ''frequency'' else ''cache'') s1" "active_override s1 = (if m = ''cache'' then 2 else 1)"
    using hoareD [OF hoare_toggle [OF D N, where fd = fd and arg = rest] s] by (simp_all add: s1_def)
  have "in_mode p st fds m (exec (ipc_toggle E fd' rest') s1)"
    using hoare_toggle [OF D N, where fd = fd' and arg = rest' and m = "''cache''"]
      hoare_toggle [OF D N, where fd = fd' and arg = rest' and m = "''frequency''"] s1(1) m
    by (auto simp: modes_def hoare_def)
  with s1 show ?thesis unfolding dispatch_toggle Let_def s1_def by simp
qed

theorem toggle_alternates_witness:
  "dv_mode (world (exec (ipc_dispatch dev_env 7 ''TOGGLE'') (dev_start True))) = ''frequency''"
  using toggle_alternates [OF dev_mode_device dev_node_at dev_in_mode [of True], where fd = 7 and rest = "[]"]
  by (simp add: Let_def in_mode_def)

subsection \<open>Numbers that overflow\<close>

lemma request_int_overflow:
  assumes "digits ds" "nat LONG_MAX < dec_value ds"
  shows "request_int ds = Null_Read"
proof -
  have "ds \<noteq> []" using assms(2) by auto
  then have "l_end (strtol ds 10) = None"
    using strtol_reads_decimal [of "[]" ds "[]" "[]"] assms by (simp add: Let_def LONG_MAX_def LONG_MIN_def)
  then show ?thesis by (simp add: request_int_def Let_def)
qed

lemma forks_quiet [simp]: "forks [Sys (SysWrite fd d) r] = []" "forks [Sys (SysExit st) r] = []"
  by (simp_all add: forks_def map_filter_def)

lemma null_deref_run:
  assumes "sig_installed s" "\<not> failsafe_active s"
  shows "exited (exec (null_deref E) s) = Some SIGSEGV \<and>
    forks (trace (exec (null_deref E) s)) = forks (trace s) @ replicate 3 reset_child"
  using assms
  by (simp add: null_deref_def sig_handler_def sig_defs daemon_failsafe_def exec_bind result_bind daemon_restore_run
      cppc_restore_run c_write_def c_exit_def run_sys run_sys_errno Let_def numeral_3_eq_3 del: run_state_bind)

lemma dispatch_numbers:
  "ipc_dispatch E fd (''SET_PARK '' @ arg) = ipc_set_park E fd arg"
  "ipc_dispatch E fd (''SET_UNPARK '' @ arg) = ipc_set_unpark E fd arg"
  "ipc_dispatch E fd (''SET_TDP '' @ arg) = ipc_set_tdp E fd arg"
  by (simp_all add: ipc_dispatch_def ipc_commands_def numeral_eq_Suc)



subsection \<open>The report of the daemon, read by its clients\<close>

lemma strstr_skip:
  "y \<notin> set u \<Longrightarrow> strstr (u @ v) (y # ys) = map_option (\<lambda>k. k + length u) (strstr v (y # ys))"
proof (induction u)
  case (Cons x u)
  then have "\<not> prefix (y # ys) (x # u @ v)" by auto
  with Cons show ?case by (simp add: strstr_step option.map_comp comp_def del: Cons_prefix_Cons)
qed (simp add: option.map_ident)

lemma strstr_start: "strstr (p @ v) p = Some 0"
  by (cases p) (simp_all add: strstr_step)

lemma strstr_after: "y \<notin> set u \<Longrightarrow> strstr (u @ (y # ys) @ v) (y # ys) = Some (length u)"
  unfolding strstr_skip by (simp add: strstr_start [of "y # ys" v, simplified])

lemma atof_loop_digits:
  "digits ds \<Longrightarrow> atof_loop (of_nat r) fr False (ds @ rest) = atof_loop (of_nat (dec_from r ds)) fr False rest"
proof (induction ds arbitrary: r)
  case (Cons c ds)
  have "of_nat r * 10 + of_int (uchar c - 48) = (of_nat (r * 10 + (of_char c - 48)) :: rat)"
    using Cons.prems by (simp add: is_digit_def uchar_def of_nat_diff)
  then have "atof_loop (of_nat r) fr False ((c # ds) @ rest) = atof_loop (of_nat (r * 10 + (of_char c - 48))) fr False (ds @ rest)"
    using Cons.prems by (simp only: append_Cons atof_loop.simps digits_simps simp_thms if_True)
  also have "\<dots> = atof_loop (of_nat (dec_from r (c # ds))) fr False rest"
    using Cons by (simp del: of_nat_add of_nat_mult)
  finally show ?case .
qed simp

text \<open>A rate is printed with one digit after the point.\<close>

lemma itoa_utoa: "0 \<le> n \<Longrightarrow> xui_itoa 10 n = xui_utoa 10 (nat n)"
  by (simp add: xui_itoa_def xui_utoa_def)

lemma fixed1_shape:
  assumes "0 \<le> x"
  obtains c where "fixed1 x = xui_utoa 10 (nat \<lfloor>x\<rfloor>) @ [CHR ''.'', c]" "is_digit c" "uchar c - 48 = \<lfloor>x * 10\<rfloor> - 10 * \<lfloor>x\<rfloor>"
proof -
  define d where "d = \<lfloor>(x - of_int \<lfloor>x\<rfloor>) * 10\<rfloor>"
  have d: "0 \<le> d" "d < 10" unfolding d_def by (simp_all add: floor_less_iff, linarith)
  have x0: "0 \<le> \<lfloor>x\<rfloor>" "\<not> x < of_int \<lfloor>x\<rfloor>" using assms by (simp_all add: not_less)
  have dd: "d = \<lfloor>x * 10\<rfloor> - 10 * \<lfloor>x\<rfloor>"
    unfolding d_def using floor_diff_of_int [of "x * 10" "10 * \<lfloor>x\<rfloor>"] by (simp add: algebra_simps)
  let ?c = "char_of (nat (\<bar>d\<bar> + 48)) :: char"
  have c: "is_digit ?c" "uchar ?c - 48 = d" using d by (simp_all add: is_digit_def uchar_def of_char_mod_256 nat_less_iff)
  have tr: "rat_trunc x = \<lfloor>x\<rfloor>" "rat_trunc ((x - of_int \<lfloor>x\<rfloor>) * 10) = d"
    using assms x0 by (simp_all add: rat_trunc_def d_def)
  have "fixed1 x = xui_utoa 10 (nat \<lfloor>x\<rfloor>) @ [CHR ''.'', ?c]"
    using itoa_utoa [OF x0(1)] unfolding fixed1_def Let_def tr by simp
  with c dd that show ?thesis by metis
qed

lemma atof_fixed1:
  assumes "0 \<le> x"
  shows "atof (fixed1 x @ CHR ''|'' # rest) = of_int \<lfloor>x * 10\<rfloor> / 10"
proof -
  obtain c where c: "fixed1 x = xui_utoa 10 (nat \<lfloor>x\<rfloor>) @ [CHR ''.'', c]" "is_digit c" "uchar c - 48 = \<lfloor>x * 10\<rfloor> - 10 * \<lfloor>x\<rfloor>"
    by (rule fixed1_shape [OF assms])
  have u: "digits (xui_utoa 10 (nat \<lfloor>x\<rfloor>))" "xui_utoa 10 (nat \<lfloor>x\<rfloor>) \<noteq> []" "dec_value (xui_utoa 10 (nat \<lfloor>x\<rfloor>)) = nat \<lfloor>x\<rfloor>"
    by (rule xui_utoa_digits)+
  obtain a b where ab: "xui_utoa 10 (nat \<lfloor>x\<rfloor>) = a # b" using u(2) by (cases "xui_utoa 10 (nat \<lfloor>x\<rfloor>)") auto
  have a: "is_digit a" "\<not> is_blank a" "a \<noteq> CHR ''-''" using u(1) ab by (auto simp: is_digit_def is_blank_def uchar_def)
  have "atof (fixed1 x @ CHR ''|'' # rest) = atof_loop (of_nat 0) 1 False (xui_utoa 10 (nat \<lfloor>x\<rfloor>) @ CHR ''.'' # c # CHR ''|'' # rest)"
    using a by (simp add: atof_def c(1) ab Let_def)
  also have "\<dots> = of_nat (nat \<lfloor>x\<rfloor>) + of_int (\<lfloor>x * 10\<rfloor> - 10 * \<lfloor>x\<rfloor>) * (1 / 10)"
    unfolding atof_loop_digits [OF u(1)] u(3) c(3) [symmetric] using c(2) by (simp add: is_digit_def uchar_def)
  also have "\<dots> = of_int \<lfloor>x * 10\<rfloor> / 10" using assms by (simp add: field_simps)
  finally show ?thesis .
qed

lemma fixed1_chars: "0 \<le> x \<Longrightarrow> c \<in> set (fixed1 x) \<Longrightarrow> is_digit c \<or> c = CHR ''.''"
  using xui_utoa_digits(1) [of "nat \<lfloor>x\<rfloor>"] by (auto simp: digits_def elim!: fixed1_shape [of x])

text \<open>The text of the report; the formatter has no \<^verbatim>\<open>%llx\<close>, which prints as the letters after the sign.\<close>

lemma daemon_info_text:
  "daemon_info E s = take 511 (''STATE='' @ daemon_state (cfg s) @ ''|OVERRIDE='' @ xui_itoa 10 (s32 (active_override s)) @
     ''|BPF_ACTIVE='' @ (if bpf_active s then ''1'' else ''0'') @ ''|REFRESH_INTERVAL='' @ fixed1 (refresh_interval (cfg s)) @
     ''|MASK='' @ affinity_mask (cfg s) @ ''|CAPS=llx'')"
proof -
  have l: "render table (CHR ''%'' # CHR ''l'' # p) as = CHR ''l'' # render table p as" for table p as
    using render_convert [of "CHR ''l'' # p" as "''l''" p as table]
    by (simp add: convert_def read_flags_def is_digit_def uchar_def numeral_2_eq_2)
  show ?thesis
    by (cases "bpf_active s")
      (simp_all add: daemon_info_def info_format_def printf_sn_def printf_vsn_render fmt_simps l itoa_small)
qed

lemma state_upper:
  "status_upper ''manual'' = ''MANUAL''" "status_upper ''auto'' = ''AUTO''" "status_upper ''default'' = ''DEFAULT''"
  by code_simp+

lemma cut_state_at_bar:
  assumes "CHR '';'' \<notin> set (st @ rest)" "CHR ''|'' \<notin> set st" "length st < 63"
  shows "cut_state (fit 64 (st @ CHR ''|'' # rest)) = st"
proof -
  have "fit 64 (st @ CHR ''|'' # rest) = st @ CHR ''|'' # take (62 - length st) rest"
    using assms(3) by (simp add: fit_def take_Cons')
  moreover have "strchr (st @ CHR ''|'' # take (62 - length st) rest) (CHR '';'') = None"
    using assms(1) by (auto simp: strchr_None dest: in_set_takeD)
  moreover have "strchr (st @ CHR ''|'' # take (62 - length st) rest) (CHR ''|'') = Some (length st)"
    using assms(2) by (intro strchr_append_stop) simp_all
  ultimately show ?thesis by (simp add: cut_state_def)
qed

text \<open>The fields of a report, found by their names.\<close>

lemma report_fields:
  fixes ds ov bp rf mk :: string
  defines "info \<equiv> ''STATE='' @ ds @ ''|OVERRIDE='' @ ov @ ''|BPF_ACTIVE='' @ bp @ ''|REFRESH_INTERVAL='' @ rf @ ''|MASK='' @ mk"
  assumes "set ''OBRM'' \<inter> set (ds @ ov @ bp @ rf) = {}"
  shows "strstr info ''STATE='' = Some 0"
    "\<exists>k. strstr info ''OVERRIDE='' = Some k \<and> drop (k + 9) info = ov @ ''|BPF_ACTIVE='' @ bp @ ''|REFRESH_INTERVAL='' @ rf @ ''|MASK='' @ mk"
    "\<exists>k. strstr info ''BPF_ACTIVE='' = Some k \<and> drop (k + 11) info = bp @ ''|REFRESH_INTERVAL='' @ rf @ ''|MASK='' @ mk"
    "\<exists>k. strstr info ''REFRESH_INTERVAL='' = Some k \<and> drop (k + 17) info = rf @ ''|MASK='' @ mk"
    "\<exists>k. strstr info ''MASK='' = Some k \<and> drop (k + 5) info = mk"
proof -
  have found: "\<exists>k. strstr (u @ (y # ys) @ v) (y # ys) = Some k \<and> drop (k + n) (u @ (y # ys) @ v) = v"
    if "y \<notin> set u" "n = length (y # ys)" for u v ys y n
    using that strstr_after [OF that(1)] by simp
  show "strstr info ''STATE='' = Some 0" unfolding info_def by (rule strstr_start)
  show "\<exists>k. strstr info ''OVERRIDE='' = Some k \<and> drop (k + 9) info = ov @ ''|BPF_ACTIVE='' @ bp @ ''|REFRESH_INTERVAL='' @ rf @ ''|MASK='' @ mk"
    using found [of "CHR ''O''" "''STATE='' @ ds @ ''|''" 9 "''VERRIDE=''"] assms(2) by (simp add: info_def)
  show "\<exists>k. strstr info ''BPF_ACTIVE='' = Some k \<and> drop (k + 11) info = bp @ ''|REFRESH_INTERVAL='' @ rf @ ''|MASK='' @ mk"
    using found [of "CHR ''B''" "''STATE='' @ ds @ ''|OVERRIDE='' @ ov @ ''|''" 11 "''PF_ACTIVE=''"] assms(2) by (simp add: info_def)
  show "\<exists>k. strstr info ''MASK='' = Some k \<and> drop (k + 5) info = mk"
    using found [of "CHR ''M''" "''STATE='' @ ds @ ''|OVERRIDE='' @ ov @ ''|BPF_ACTIVE='' @ bp @ ''|REFRESH_INTERVAL='' @ rf @ ''|''" 5 "''ASK=''"]
      assms(2) by (simp add: info_def)
  define u v where "u = ''STATE='' @ ds @ ''|OVERR''"
    and "v = ''IDE='' @ ov @ ''|BPF_ACTIVE='' @ bp @ ''|REFRESH_INTERVAL='' @ rf @ ''|MASK='' @ mk"
  have uv: "info = u @ v" by (simp add: info_def u_def v_def)
  have "strstr info ''REFRESH_INTERVAL='' = map_option (\<lambda>k. k + length u) (strstr v ''REFRESH_INTERVAL='')"
    using strstr_skip [of "CHR ''R''" "''STATE='' @ ds @ ''|OVE''" _ "''EFRESH_INTERVAL=''"] assms(2)
    by (simp add: uv u_def v_def strstr_step option.map_comp comp_def)
  moreover have "\<exists>k. strstr v ''REFRESH_INTERVAL='' = Some k \<and> drop (k + 17) v = rf @ ''|MASK='' @ mk"
    using found [of "CHR ''R''" "''IDE='' @ ov @ ''|BPF_ACTIVE='' @ bp @ ''|''" 17 "''EFRESH_INTERVAL=''" "rf @ ''|MASK='' @ mk"] assms(2)
    by (simp add: v_def)
  moreover have "drop (k + length u + 17) info = drop (k + 17) v" for k by (simp add: uv drop_append)
  ultimately show "\<exists>k. strstr info ''REFRESH_INTERVAL='' = Some k \<and> drop (k + 17) info = rf @ ''|MASK='' @ mk" by auto
qed


text \<open>The daemon in the state \<^verbatim>\<open>default\<close> with an active eBPF program.\<close>

definition info_start :: "dev_world prog" where
  "info_start = (dev_start True)\<lparr>bpf_active := True,
     cfg := (cfg (dev_start True))\<lparr>daemon_state := ''default'', refresh_interval := 1 / 2, affinity_mask := ''none''\<rparr>\<rparr>"



end
