(* ===== verification/Daemon.thy ===== *)
theory Daemon
  imports Requests
begin

section \<open>The daemon (src/daemon/daemon.c)\<close>

text \<open>
  \<^verbatim>\<open>daemon()\<close> is its start-up, its loop and its shutdown. A turn of the loop is \<open>daemon_round\<close>; \<open>daemon_loop\<close>
  repeats it under a bound, and \<open>daemon_step\<close> is the step relation of the running daemon: a turn, or one of the three signals that its handler turns into
  flags. A signal that arrives during a turn only sets a flag that the turn reads at its end, and is taken to arrive just before or after
  the turn. A signal step is a delivery to the handler; \<^verbatim>\<open>init_signals\<close> installs it without \<^verbatim>\<open>SA_RESTORER\<close>, and a kernel that insists
  on a restorer, as Linux on x86-64 does, ends the process instead. The bound \<open>n\<close> of the scan of \<^verbatim>\<open>/proc\<close> is that of the theory of the detection; \<open>None\<close> means that it was used up.
  \<^verbatim>\<open>openlog\<close> and \<^verbatim>\<open>closelog\<close> of \<^verbatim>\<open>libc.c\<close> do nothing and are left out.
\<close>

subsection \<open>Start-up\<close>

text \<open>The local variables: \<^verbatim>\<open>current\<close> and \<^verbatim>\<open>target\<close> are not initialised.\<close>

definition daemon_locals :: "'w env \<Rightarrow> ('w, unit) m" where
  "daemon_locals E = do {
     modify (\<lambda>s. s\<lparr>p_stat := zero_stats\<rparr>);
     modify (\<lambda>s. s\<lparr>c_stat := zero_stats\<rparr>);
     modify (\<lambda>s. s\<lparr>cur_mode := garbage E\<rparr>);
     modify (\<lambda>s. s\<lparr>target_mode := garbage E\<rparr>)
   }"

definition daemon_mode_init :: "'w env \<Rightarrow> ('w, unit) m" where
  "daemon_mode_init E = do {
     cli_set_mode E ''frequency'';
     ds \<leftarrow> gets (\<lambda>s. daemon_state (cfg s));
     (if length ds = 0 then modify (\<lambda>s. s\<lparr>cfg := (cfg s)\<lparr>daemon_state := fit 32 ''default''\<rparr>\<rparr>) else ret ());
     ds' \<leftarrow> gets (\<lambda>s. daemon_state (cfg s));
     if strcmp ds' ''default'' = 0 then do { cli_set_mode E ''frequency''; ret () } else ret ()
   }"

definition daemon_start :: "'w env \<Rightarrow> ('w, int) m" where
  "daemon_start E = do {
     daemon_locals E;
     init_signals E;
     config_load E;
     journal_info E DAEMON_START [AStr ''X3D Toggle Daemon starting (Session Log Initialized)''];
     games_load E;
     a \<leftarrow> affinity_init E;
     (if a \<noteq> ERR_SUCCESS then journal_error E ERR_CGROUP [AStr ''Failed to initialize ephemeral partitions.''] else ret ());
     en \<leftarrow> gets (\<lambda>s. ebpf_enable (cfg s));
     (if en \<noteq> 0 then do { b \<leftarrow> bpf_init E; modify (\<lambda>s. s\<lparr>bpf_active := b\<rparr>) } else ret ());
     daemon_mode_init E;
     server_fd \<leftarrow> socket_setup E;
     if server_fd < 0 then do { journal_exit E 1 ''Failed to initialize IPC server'' []; ret server_fd }
     else do {
       notify_ready E;
       p0 \<leftarrow> gets p_stat;
       p \<leftarrow> stats E p0;
       modify (\<lambda>s. s\<lparr>p_stat := p\<rparr>);
       ret server_fd
     }
   }"

subsection \<open>The loop\<close>

text \<open>Wait for a client for at most the polling interval and serve it.\<close>

definition daemon_wait :: "'w env \<Rightarrow> int \<Rightarrow> ('w, unit) m" where
  "daemon_wait E server_fd = do {
     iv \<leftarrow> gets (\<lambda>s. polling_interval (cfg s));
     sel \<leftarrow> c_select E (server_fd + 1) [server_fd] iv;
     if fst sel > 0 \<and> server_fd \<in> set (snd sel) then socket_handle E server_fd else ret ()
   }"

definition daemon_reload :: "'w env \<Rightarrow> ('w, unit) m" where
  "daemon_reload E = do {
     rl \<leftarrow> gets reload_flag;
     if rl then do {
       modify (\<lambda>s. s\<lparr>reload_flag := False\<rparr>);
       config_load E;
       games_load E;
       ret ()
     } else ret ()
   }"

text \<open>The process may have ended while it served the client.\<close>

definition daemon_running :: "('w, bool) m" where
  "daemon_running = gets (\<lambda>s. active_keep s \<and> exited s = None)"

definition daemon_round :: "'w env \<Rightarrow> nat \<Rightarrow> int \<Rightarrow> ('w, unit option) m" where
  "daemon_round E n server_fd = do {
     daemon_wait E server_fd;
     running \<leftarrow> daemon_running;
     if \<not> running then ret (Some ())
     else do {
       r \<leftarrow> polling_run E n;
       case r of None \<Rightarrow> ret None | Some _ \<Rightarrow> do { daemon_reload E; ret (Some ()) }
     }
   }"

fun daemon_loop :: "'w env \<Rightarrow> nat \<Rightarrow> int \<Rightarrow> nat \<Rightarrow> ('w, unit option) m" where
  "daemon_loop E n server_fd 0 = ret None"
| "daemon_loop E n server_fd (Suc k) = do {
     running \<leftarrow> daemon_running;
     if \<not> running then ret (Some ())
     else do {
       r \<leftarrow> daemon_round E n server_fd;
       case r of None \<Rightarrow> ret None | Some _ \<Rightarrow> daemon_loop E n server_fd k
     }
   }"

subsection \<open>Shutdown\<close>

definition daemon_shutdown :: "'w env \<Rightarrow> int \<Rightarrow> ('w, int) m" where
  "daemon_shutdown E server_fd = do {
     log_shutdown E;
     (if server_fd \<ge> 0 then do { c_close E server_fd; ret () } else ret ());
     act \<leftarrow> gets bpf_active;
     (if act then bpf_cleanup E else ret ());
     cppc_restore E;
     c_unlink E IPC_PATH;
     ret 0
   }"

definition daemon :: "'w env \<Rightarrow> nat \<Rightarrow> nat \<Rightarrow> ('w, int option) m" where
  "daemon E n k = do {
     server_fd \<leftarrow> daemon_start E;
     ended \<leftarrow> gets (\<lambda>s. exited s \<noteq> None);
     if ended then ret (Some 1)
     else do {
       r \<leftarrow> daemon_loop E n server_fd k;
       dead \<leftarrow> gets (\<lambda>s. exited s \<noteq> None);
       case r of
         None \<Rightarrow> ret None
       | Some _ \<Rightarrow> if dead then ret (Some 1) else do { code \<leftarrow> daemon_shutdown E server_fd; ret (Some code) }
     }
   }"

subsection \<open>The running daemon as a step relation\<close>

inductive daemon_step :: "'w env \<Rightarrow> nat \<Rightarrow> int \<Rightarrow> 'w prog \<Rightarrow> 'w prog \<Rightarrow> bool" for E n server_fd where
  Round: "active_keep s \<Longrightarrow> exited s = None \<Longrightarrow> run_state (daemon_round E n server_fd) s = (Some (), s') \<Longrightarrow>
    daemon_step E n server_fd s s'"
| Signal: "exited s = None \<Longrightarrow> sg \<in> {SIGTERM, SIGINT, SIGHUP} \<Longrightarrow> daemon_step E n server_fd s (exec (sig_handler E sg) s)"

inductive daemon_reach :: "'w env \<Rightarrow> nat \<Rightarrow> int \<Rightarrow> 'w prog \<Rightarrow> 'w prog \<Rightarrow> bool" for E n server_fd s0 where
  Start: "daemon_reach E n server_fd s0 s0"
| Step: "daemon_reach E n server_fd s0 s \<Longrightarrow> daemon_step E n server_fd s s' \<Longrightarrow> daemon_reach E n server_fd s0 s'"

inductive_cases daemon_stepE: "daemon_step E n server_fd s s'"

subsection \<open>The commands that control the service\<close>

definition framework_child :: "string list \<Rightarrow> child" where
  "framework_child args =
     \<lparr>c_redirect = False, c_path = ''/usr/bin/sh'',
      c_argv = [''/usr/bin/sh'', ''/usr/lib/x3d-toggle/scripts/framework/framework.sh''] @ take 29 args,
      c_env = [''X3D_EXEC=1'', ''X3D_FRAMEWORK=1'', ''X3D_TOGGLE=.''], c_fail = 1\<rparr>"

definition cli_framework :: "'w env \<Rightarrow> string list \<Rightarrow> ('w, int) m" where
  "cli_framework E argv =
     (if length argv < 3 then do {
        journal_error E ERR_SYNTAX [AStr ''Usage: x3d framework [ARGS...]''];
        ret ERR_SYNTAX
      } else do {
        printf_step ''${GEAR} Initiating Framework Orchestration...'' [];
        pid \<leftarrow> c_fork E (framework_child (drop 2 argv));
        if pid < 0 then ret ERR_IO
        else do { st \<leftarrow> c_waitpid E pid; ret (if exit_ok (snd st) then ERR_SUCCESS else ERR_IO) }
      })"

text \<open>The tries to reach the freshly started daemon, with 100 ms between them.\<close>

fun wake_retries :: "'w env \<Rightarrow> nat \<Rightarrow> ('w, bool) m" where
  "wake_retries E 0 = ret False"
| "wake_retries E (Suc k) = do {
     r \<leftarrow> socket_cmd E ''SET_DAEMON default'';
     if r = 0 then ret True else do { c_nanosleep E 0 100000000; wake_retries E k }
   }"

definition cli_daemon_enable :: "'w env \<Rightarrow> string list \<Rightarrow> ('w, int) m" where
  "cli_daemon_enable E argv = do {
     printf_step ''${ROCKET} Initializing X3D Toggle Daemon (Current Session)...'' [];
     config_update E ''DAEMON_STATE'' ''default'';
     res \<leftarrow> unit_start E;
     if res = 0 then do {
       ipc_ok \<leftarrow> wake_retries E 5;
       (if \<not> ipc_ok then journal_error E ERR_IPC [AInt (- 1)] else ret ());
       printf_step ''${ALRIGHT} Soft Wake: Daemon started and automation ENABLED for current session.'' [];
       ret 0
     } else do {
       journal_error E ERR_DAEMON [AStr ''Failed to start systemd service via DBus. (Code: %d)'', AInt res];
       ret 1
     }
   }"

definition cli_daemon_start :: "'w env \<Rightarrow> string list \<Rightarrow> ('w, int) m" where
  "cli_daemon_start E argv = do {
     res \<leftarrow> unit_enable E;
     (if res \<noteq> 0 then journal_error E ERR_DAEMON [AStr ''Failed to register autostart via DBus. (Code: %d)'', AInt res] else ret ());
     cli_daemon_enable E argv
   }"

definition cli_daemon_wake :: "'w env \<Rightarrow> string list \<Rightarrow> ('w, int) m" where
  "cli_daemon_wake E argv = do {
     r1 \<leftarrow> socket_cmd E ''CONFIG_SYNC'';
     r2 \<leftarrow> socket_cmd E ''SET_DAEMON default'';
     r3 \<leftarrow> socket_cmd E ''SET_MODE frequency'';
     if r1 = 0 \<and> r2 = 0 \<and> r3 = 0 then do {
       printf_step ''${CHICKEN} Poke: Daemon orchestration re-enabled via IPC.'' [];
       ret 0
     } else do {
       journal_error E ERR_IPC
         [AStr ''Failed to poke daemon (Code: %d). Is the service actively running?'', AInt (or (or r1 r2) r3)];
       ret 1
     }
   }"

definition cli_daemon_sleep :: "'w env \<Rightarrow> string list \<Rightarrow> ('w, int) m" where
  "cli_daemon_sleep E argv = do {
     ipc_res \<leftarrow> socket_cmd E ''SET_DAEMON manual'';
     if ipc_res = 0 then do {
       printf_step ''${SLEEPY} Firm Sleep: Daemon logic loop suspended.'' [];
       printf_step ''Manual hardware overrides will now persist without daemon interference.'' [];
       ret 0
     } else do {
       journal_error E ERR_IPC
         [AStr ''Failed to suspend daemon (Code: %d). Is the service actively running?'', AInt ipc_res];
       ret 1
     }
   }"

definition cli_daemon_stop :: "'w env \<Rightarrow> string list \<Rightarrow> ('w, int) m" where
  "cli_daemon_stop E argv = do {
     printf_step ''${STOPSIGN} Terminating Daemon...'' [];
     r \<leftarrow> unit_stop E;
     if r = 0 then do { printf_step ''${ALRIGHT} Daemon gracefully STOPPED.'' []; ret 0 }
     else do { journal_error E ERR_DAEMON [AStr ''Failed to stop systemd service via DBus.'']; ret 1 }
   }"

definition cli_daemon_disable :: "'w env \<Rightarrow> string list \<Rightarrow> ('w, int) m" where
  "cli_daemon_disable E argv = do {
     printf_step ''${WIPE} Unregistering Daemon autostart rules...'' [];
     config_update E ''DAEMON_STATE'' ''manual'';
     res \<leftarrow> unit_disable E;
     if res = 0 then do {
       printf_step ''${ALRIGHT} Success: x3d-toggle.service is now disabled and stopped.'' [];
       ret 0
     } else do { journal_error E res [AStr ''Could not disable x3d-toggle.service via DBus.'']; ret 1 }
   }"

end
