(* ===== verification/Commands.thy ===== *)
theory Commands
  imports Daemon
begin

section \<open>The commands of the command line tool\<close>

text \<open>
  The handlers of the command table: modes (\<^verbatim>\<open>src/daemon/modes.c\<close>), power settings (\<^verbatim>\<open>src/daemon/cppc.c\<close>), configuration
  (\<^verbatim>\<open>src/daemon/config.c\<close>), scheduler profiles (\<^verbatim>\<open>src/scheduler.c\<close>), diagnostics (\<^verbatim>\<open>src/daemon/diag.c\<close>) and the game launcher
  (\<^verbatim>\<open>src/run.c\<close>). A handler takes the argument vector; \<^verbatim>\<open>argc\<close> is its length. Characters outside ASCII are their UTF-8 bytes.
\<close>

subsection \<open>Modes\<close>

definition upper_display :: "string \<Rightarrow> string" where
  "upper_display s = map (\<lambda>c. if 97 \<le> uchar c \<and> uchar c \<le> 122 then char_of (nat (uchar c - 32)) else c) s"

definition display_mode :: "string \<Rightarrow> string" where
  "display_mode md =
     (if strcmp md ''cache'' = 0 then fit 32 ''LATENCY-OPTIMIZED''
      else if strcmp md ''frequency'' = 0 then fit 32 ''THROUGHPUT-OPTIMIZED''
      else upper_display (fit 32 md))"

definition ccd_change :: "'w env \<Rightarrow> string \<Rightarrow> ('w, int) m" where
  "ccd_change E md = do {
     ipc_res \<leftarrow>
       (if strcmp md ''cache'' = 0 \<or> strcmp md ''frequency'' = 0 \<or> strcmp md ''dual'' = 0 \<or> strcmp md ''swap'' = 0
        then do {
          socket_cmd E ''SET_DAEMON manual'';
          socket_cmd E (printf_sn E 64 ''SET_MODE %s'' [AStr md])
        } else ret ERR_IPC);
     if ipc_res = ERR_SUCCESS then do {
       mp \<leftarrow> mode_path E ''unknown'' 256;
       printf_step ''${ALRIGHT} ${COLOR_CYAN}%s${COLOR_RESET} %s applied via ${COLOR_CYAN}%s''
         [AStr (display_mode md), AStr ''profile'', AStr (snd mp)];
       ret ERR_SUCCESS
     } else do {
       hw_res \<leftarrow> (if strcmp md ''dual'' = 0 then cli_set_dual E
                  else if strcmp md ''swap'' = 0 then cli_set_swap E else cli_set_mode E md);
       if hw_res \<noteq> ERR_SUCCESS then do { journal_error E ERR_HW [AInt hw_res]; ret ERR_HW }
       else do {
         mp \<leftarrow> mode_path E ''unknown'' 256;
         printf_step (''${ALRIGHT} ${COLOR_CYAN}%s${COLOR_RESET} %s applied via '' @
                      ''${COLOR_CYAN}%s${COLOR_RESET} - ${COLOR_YELLOW}IPC socket offline'')
           [AStr (display_mode md), AStr ''profile'', AStr (snd mp)];
         ret ERR_SUCCESS
       }
     }
   }"

definition cli_mode_cache :: "'w env \<Rightarrow> string list \<Rightarrow> ('w, int) m" where
  "cli_mode_cache E argv = ccd_change E ''cache''"
definition cli_mode_frequency :: "'w env \<Rightarrow> string list \<Rightarrow> ('w, int) m" where
  "cli_mode_frequency E argv = ccd_change E ''frequency''"
definition cli_mode_dual :: "'w env \<Rightarrow> string list \<Rightarrow> ('w, int) m" where
  "cli_mode_dual E argv = ccd_change E ''dual''"
definition cli_mode_swap :: "'w env \<Rightarrow> string list \<Rightarrow> ('w, int) m" where
  "cli_mode_swap E argv = ccd_change E ''swap''"

definition cli_mode_auto :: "'w env \<Rightarrow> string list \<Rightarrow> ('w, int) m" where
  "cli_mode_auto E argv = do {
     printf_step ''${RELOAD} Initiating HARD RESET: Restoring CPPC defaults and purging session...'' [];
     pid \<leftarrow> c_fork E reset_child;
     (if pid > 0 then do { c_waitpid E pid; ret () } else ret ());
     r \<leftarrow> socket_cmd E ''DAEMON_DISABLE'';
     (if r \<noteq> ERR_SUCCESS then do { unit_disable E; unit_stop E; ret () } else ret ());
     printf_step ''${ALRIGHT} ${COLOR_CYAN}CPPC NATIVE ${COLOR_RESET}control restored. Service disabled.'' [];
     ret 0
   }"

definition cli_mode_reset :: "'w env \<Rightarrow> string list \<Rightarrow> ('w, int) m" where
  "cli_mode_reset E argv = do {
     printf_step ''${RELOAD} Initiating Hardware Re-probe: Restoring native heuristics...'' [];
     r \<leftarrow> socket_cmd E ''SET_MODE reset'';
     if r = ERR_SUCCESS then do {
       printf_step ''${ALRIGHT} Hardware re-probe complete via daemon IPC.'' [];
       ret ERR_SUCCESS
     } else ccd_change E ''reset''
   }"

text \<open>\<open>txt\<close> gives the replacement text of a macro of the generated configuration header, which \<^verbatim>\<open>TOSTRING\<close> turns into a string.\<close>

definition cli_mode_default :: "'w env \<Rightarrow> (string \<Rightarrow> string) \<Rightarrow> string list \<Rightarrow> ('w, int) m" where
  "cli_mode_default E txt argv = do {
     setup \<leftarrow> getenv ''X3D_SETUP'';
     (if setup \<noteq> None then printf_step ''2,${SPARKLE} Initializing with default config daemon rules'' []
      else printf_step ''2,${RELOAD} SOFT RESET: Restoring default daemon rules'' []);
     config_update E ''DAEMON_STATE'' ''default'';
     config_update E ''POLLING_INTERVAL'' (txt ''CONFIG_POLLING_INTERVAL'');
     config_update E ''LOAD_THRESHOLD'' (txt ''CONFIG_LOAD_THRESHOLD'');
     config_update E ''DETECTION_LEVEL'' (txt ''CONFIG_DETECTION_LEVEL'');
     config_update E ''EBPF_ENABLE'' (txt ''CONFIG_EBPF_ENABLE'');
     r1 \<leftarrow> socket_cmd E ''CONFIG_SYNC'';
     r2 \<leftarrow> socket_cmd E ''SET_DAEMON default'';
     r3 \<leftarrow> socket_cmd E ''SET_MODE frequency'';
     (if r1 = 0 \<and> r2 = 0 \<and> r3 = 0 then do {
        setup' \<leftarrow> getenv ''X3D_SETUP'';
        if setup' \<noteq> None then printf_step ''2,${ALRIGHT} DEFAULT CONFIG initialized. Daemon active.'' []
        else printf_step ''${ALRIGHT} DEFAULT CONFIG restored. Daemon active.'' []
      } else printf_step ''${WARN} CONFIG UPDATED but daemon is offline. Restart to apply.'' []);
     ret 0
   }"

subsection \<open>Power settings\<close>

definition cppc_cmd :: "'w env \<Rightarrow> string \<Rightarrow> int \<Rightarrow> string option \<Rightarrow> ('w, int) m" where
  "cppc_cmd E cmd_string success_code arg = do {
     res \<leftarrow> socket_cmd E cmd_string;
     if res = ERR_SUCCESS then do {
       (case arg of Some a \<Rightarrow> journal_info E success_code [AStr a] | None \<Rightarrow> journal_info E success_code []);
       ret ERR_SUCCESS
     }
     else do { journal_error E ERR_IPC [AInt res]; ret ERR_IPC }
   }"

definition cli_cppc_perf :: "'w env \<Rightarrow> string list \<Rightarrow> ('w, int) m" where
  "cli_cppc_perf E argv = cppc_cmd E ''SET_EPP performance'' SET_EPP (Some ''Maximum Performance (0x0)'')"
definition cli_cppc_bal :: "'w env \<Rightarrow> string list \<Rightarrow> ('w, int) m" where
  "cli_cppc_bal E argv = cppc_cmd E ''SET_EPP balance_performance'' SET_EPP (Some ''Balanced Performance'')"
definition cli_cppc_eco :: "'w env \<Rightarrow> string list \<Rightarrow> ('w, int) m" where
  "cli_cppc_eco E argv = cppc_cmd E ''SET_EPP balance_power'' SET_EPP (Some ''Balanced Power'')"
definition cli_cppc_power :: "'w env \<Rightarrow> string list \<Rightarrow> ('w, int) m" where
  "cli_cppc_power E argv = cppc_cmd E ''SET_EPP power'' SET_EPP (Some ''Minimum Power (0xff)'')"

definition usage_error :: "'w env \<Rightarrow> int \<Rightarrow> arg list \<Rightarrow> ('w, int) m" where
  "usage_error E code as = do { journal_error E code as; ret ERR_SYNTAX }"

definition cli_cppc_epp :: "'w env \<Rightarrow> string list \<Rightarrow> ('w, int) m" where
  "cli_cppc_epp E argv =
     (if length argv < 4 then usage_error E ERR_USAGE []
      else cppc_cmd E (printf_sn E 128 ''SET_EPP_CCD %s %s'' [AStr (argv ! 2), AStr (argv ! 3)]) SET_EPP
             (Some (printf_sn E 128 ''%s -> %s'' [AStr (argv ! 2), AStr (argv ! 3)])))"

definition cli_cppc_raw :: "'w env \<Rightarrow> string list \<Rightarrow> ('w, int) m" where
  "cli_cppc_raw E argv =
     (if length argv < 4 then usage_error E ERR_USAGE []
      else cppc_cmd E (printf_sn E 128 ''SET_RAW %s %s'' [AStr (argv ! 3), AStr (argv ! 2)]) SET_EPP
             (Some (printf_sn E 128 ''0x%x applied to %s'' [AInt (atoi (argv ! 2)), AStr (argv ! 3)])))"

definition cli_cppc_mode :: "'w env \<Rightarrow> string list \<Rightarrow> ('w, int) m" where
  "cli_cppc_mode E argv =
     (if length argv < 3 then usage_error E ERR_USAGE []
      else cppc_cmd E (printf_sn E 128 ''SET_PSTATE %s'' [AStr (argv ! 2)]) SET_PSTATE (Some (argv ! 2)))"

definition cli_cppc_target :: "'w env \<Rightarrow> string list \<Rightarrow> ('w, int) m" where
  "cli_cppc_target E argv =
     (if length argv < 3 then usage_error E ERR_SYNTAX [AStr ''Usage: x3d-toggle cppc-target [0-255]'']
      else cppc_cmd E (printf_sn E 128 ''SET_CPPC %s'' [AStr (argv ! 2)]) SET_CPPC (Some (argv ! 2)))"

definition cli_cppc_governor :: "'w env \<Rightarrow> string list \<Rightarrow> ('w, int) m" where
  "cli_cppc_governor E argv =
     (if length argv < 3 then usage_error E ERR_USAGE []
      else cppc_cmd E (printf_sn E 128 ''SET_GOVERNOR %s'' [AStr (argv ! 2)]) TOGGLE_GOV (Some (argv ! 2)))"

definition cli_cppc_prefcore :: "'w env \<Rightarrow> string list \<Rightarrow> ('w, int) m" where
  "cli_cppc_prefcore E argv =
     (if length argv < 3 then usage_error E ERR_SYNTAX [AStr ''Usage: x3d-toggle prefcore [on|off]'']
      else cppc_cmd E (printf_sn E 128 ''SET_PREFCORE %s'' [AStr (argv ! 2)]) TOGGLE_PREFCORE (Some (argv ! 2)))"

subsection \<open>Scheduler profiles\<close>

definition cli_scheduler_gaming :: "'w env \<Rightarrow> string list \<Rightarrow> ('w, int) m" where
  "cli_scheduler_gaming E argv = do {
     res \<leftarrow> scheduler_set E SCHED_GAMING;
     (if res = 0 then printf_step ''${ALRIGHT} Scheduler: ${COLOR_CYAN}GAMING${COLOR_RESET} profile applied.'' []
      else printf_step ''${WARN} Scheduler: Failed to apply GAMING profile.'' []);
     ret res
   }"

definition cli_scheduler_balanced :: "'w env \<Rightarrow> string list \<Rightarrow> ('w, int) m" where
  "cli_scheduler_balanced E argv = do {
     res \<leftarrow> scheduler_set E SCHED_BALANCED;
     (if res = 0 then printf_step ''${ALRIGHT} Scheduler: ${COLOR_CYAN}BALANCED${COLOR_RESET} profile applied.'' []
      else printf_step ''${WARN} Scheduler: Failed to apply BALANCED profile.'' []);
     ret res
   }"

subsection \<open>Configuration\<close>

definition check_utf8 :: string where "check_utf8 = [CHR 0xE2, CHR 0x9C, CHR 0x85]"
definition tools_utf8 :: string where
  "tools_utf8 = [CHR 0xF0, CHR 0x9F, CHR 0x9B, CHR 0xA0, CHR 0xEF, CHR 0xB8, CHR 0x8F]"
definition dash_utf8 :: string where "dash_utf8 = [CHR 0xE2, CHR 0x80, CHR 0x94]"

text \<open>The key and the value are null pointers together or not at all.\<close>

definition config_write :: "'w env \<Rightarrow> string \<Rightarrow> (string \<times> string) option \<Rightarrow> string \<Rightarrow> ('w, int) m" where
  "config_write E ipc_command kv user_message = do {
     ipc_res \<leftarrow> socket_cmd E ipc_command;
     if ipc_res = 0 then do {
       printf_string (check_utf8 @ '' %s (Active daemon synced)'') [AStr user_message];
       ret 0
     } else do {
       (case kv of
          Some (key, val) \<Rightarrow> config_update E key val
        | None \<Rightarrow>
            if strncmp ipc_command ''GAME_ADD '' 9 = 0 then do { game_add E (Some (drop 9 ipc_command)); ret () }
            else if strncmp ipc_command ''GAME_REMOVE '' 12 = 0 then do { game_remove E (Some (drop 12 ipc_command)); ret () }
            else ret ());
       printf_string (check_utf8 @ '' %s (Direct file write - Daemon offline)'') [AStr user_message];
       ret 0
     }
   }"

text \<open>The commands that set one key to their argument.\<close>

definition config_one :: "'w env \<Rightarrow> string \<Rightarrow> string \<Rightarrow> string list \<Rightarrow> ('w, int) m" where
  "config_one E key message argv =
     (if length argv < 3 then ret 1
      else config_write E (printf_sn E 128 (''SET_CONFIG '' @ key @ '' %s'') [AStr (argv ! 2)]) (Some (key, argv ! 2))
             (printf_sn E 128 message [AStr (argv ! 2)]))"

definition cli_config_interval :: "'w env \<Rightarrow> string list \<Rightarrow> ('w, int) m" where
  "cli_config_interval E argv = config_one E ''POLLING_INTERVAL'' ''Polling interval set to %s ms.'' argv"
definition cli_config_threshold :: "'w env \<Rightarrow> string list \<Rightarrow> ('w, int) m" where
  "cli_config_threshold E argv = config_one E ''LOAD_THRESHOLD'' ''Compute load threshold set to %s%%.'' argv"
definition cli_config_fallback :: "'w env \<Rightarrow> string list \<Rightarrow> ('w, int) m" where
  "cli_config_fallback E argv = config_one E ''FALLBACK_PROFILE'' (''Fallback baseline profile set to '' @ [CHR 0x27] @ ''%s'' @ [CHR 0x27] @ ''.'') argv"
definition cli_config_detection :: "'w env \<Rightarrow> string list \<Rightarrow> ('w, int) m" where
  "cli_config_detection E argv = config_one E ''DETECTION_LEVEL'' (''Detection mode shifted to '' @ [CHR 0x27] @ ''%s'' @ [CHR 0x27] @ ''.'') argv"

definition cli_config_polling :: "'w env \<Rightarrow> string list \<Rightarrow> ('w, int) m" where
  "cli_config_polling E argv = do {
     config_write E ''SET_CONFIG DETECTION_LEVEL 0'' (Some (''DETECTION_LEVEL'', ''0'')) ''Detection mode shifted to Polling Heuristics.'';
     config_write E ''SET_CONFIG EBPF_ENABLE 0'' (Some (''EBPF_ENABLE'', ''0'')) ''  ... eBPF tracker unhooked from kernel.''
   }"

definition cli_config_ebpf :: "'w env \<Rightarrow> string list \<Rightarrow> ('w, int) m" where
  "cli_config_ebpf E argv = do {
     config_write E ''SET_CONFIG DETECTION_LEVEL 1'' (Some (''DETECTION_LEVEL'', ''1'')) ''Detection mode shifted to eBPF Zero-latency.'';
     config_write E ''SET_CONFIG EBPF_ENABLE 1'' (Some (''EBPF_ENABLE'', ''1''))
       ''  ... eBPF tracker successfully attached to kernel events.''
   }"

text \<open>Address and port of the dashboard, cut to their arrays.\<close>

definition server_parts :: "string list \<Rightarrow> string \<times> string" where
  "server_parts argv =
     (case strchr (argv ! 2) (CHR '':'') of
        Some k \<Rightarrow> (take 127 (take k (argv ! 2)), take 31 (drop (Suc k) (argv ! 2)))
      | None \<Rightarrow> (take 127 (argv ! 2), if length argv \<ge> 4 then take 31 (argv ! 3) else []))"

definition cli_config_server :: "'w env \<Rightarrow> string list \<Rightarrow> ('w, int) m" where
  "cli_config_server E argv =
     (if length argv < 3 then ret 1
      else (case server_parts argv of (ip, port) \<Rightarrow> do {
        config_write E (printf_sn E 256 ''SET_CONFIG SERVER_ADDRESS %s'' [AStr ip]) (Some (''SERVER_ADDRESS'', ip))
          (printf_sn E 256 ''Dashboard server IP set to %s.'' [AStr ip]);
        (if port \<noteq> [] then do {
           config_write E (printf_sn E 256 ''SET_CONFIG SERVER_PORT %s'' [AStr port]) (Some (''SERVER_PORT'', port))
             (printf_sn E 256 ''Dashboard server port set to %s.'' [AStr port]);
           ret ()
         } else ret ());
        ret 0
      }))"

definition cli_config_add :: "'w env \<Rightarrow> string list \<Rightarrow> ('w, int) m" where
  "cli_config_add E argv =
     (if length argv < 3 then ret 1
      else config_write E (printf_sn E 256 ''GAME_ADD %s'' [AStr (argv ! 2)]) None
             (printf_sn E 256 (''Process '' @ [CHR 0x27] @ ''%s'' @ [CHR 0x27] @ '' appended to trigger list.'') [AStr (argv ! 2)]))"

definition cli_config_remove :: "'w env \<Rightarrow> string list \<Rightarrow> ('w, int) m" where
  "cli_config_remove E argv =
     (if length argv < 3 then ret 1
      else config_write E (printf_sn E 256 ''GAME_REMOVE %s'' [AStr (argv ! 2)]) None
             (printf_sn E 256 (''Process '' @ [CHR 0x27] @ ''%s'' @ [CHR 0x27] @ '' stripped from trigger list.'') [AStr (argv ! 2)]))"

definition cli_config_list :: "'w env \<Rightarrow> string list \<Rightarrow> ('w, int) m" where
  "cli_config_list E argv = do {
     r \<leftarrow> socket_send E ''GAMES_LIST'' 2048 [];
     if fst r = ERR_SUCCESS then do {
       printf_string ''--- Active Daemon Trigger List ---'' [];
       printf_string ''%s'' [AStr (snd r)];
       ret ERR_SUCCESS
     } else do {
       fd \<leftarrow> c_open E (CONFIG_PATH E) O_RDONLY 0;
       if fd < 0 then do { journal_error E ERR_LOST [AStr (CONFIG_PATH E)]; ret ERR_LOST }
       else do {
         printf_string ''--- Saved Trigger List (Daemon Offline) ---'' [];
         nd \<leftarrow> c_read E fd 4095;
         (if fst nd > 0 then forM (c_lines (cstr (snd nd))) (\<lambda>line. printf_string '' - %s'' [AStr line]) else ret ());
         c_close E fd;
         ret ERR_SUCCESS
       }
     }
   }"

definition profile_message :: "'w env \<Rightarrow> string \<Rightarrow> string \<Rightarrow> string option" where
  "profile_message E action name =
     (if strcmp action ''add'' = 0 \<or> strcmp action ''save'' = 0
      then Some (printf_sn E 256 (''Snapshot of active topology and limits saved to profile '' @ [CHR 0x27] @ ''%s'' @ [CHR 0x27] @ ''.'') [AStr name])
      else if strcmp action ''load'' = 0
      then Some (printf_sn E 256 (''Profile '' @ [CHR 0x27] @ ''%s'' @ [CHR 0x27] @ '' loaded and hardware states applied.'') [AStr name])
      else if strcmp action ''delete'' = 0
      then Some (printf_sn E 256 (''Profile '' @ [CHR 0x27] @ ''%s'' @ [CHR 0x27] @ '' deleted from persistent storage.'') [AStr name])
      else None)"

definition cli_config_profile :: "'w env \<Rightarrow> string list \<Rightarrow> ('w, int) m" where
  "cli_config_profile E argv =
     (if length argv < 4 then
        usage_error E ERR_PROFILE [AStr ''Usage: X3D Toggle profile [add|save|load|delete] [profile_name]'']
      else (case profile_message E (argv ! 2) (argv ! 3) of
        None \<Rightarrow> do { journal_error E ERR_SYNTAX [AStr (argv ! 2)]; ret ERR_SYNTAX }
      | Some msg \<Rightarrow> do {
          res \<leftarrow> socket_cmd E (printf_sn E 256 ''PROFILE %s %s'' [AStr (argv ! 2), AStr (argv ! 3)]);
          if res = ERR_SUCCESS then do { journal_info E PROFILE_ACTION [AStr msg]; ret ERR_SUCCESS }
          else do { journal_error E ERR_IPC [AInt (- 1)]; ret ERR_IPC }
        }))"

definition cli_config_sync :: "'w env \<Rightarrow> string list \<Rightarrow> ('w, int) m" where
  "cli_config_sync E argv = do {
     r \<leftarrow> socket_cmd E ''CONFIG_SYNC'';
     if r = ERR_SUCCESS then do {
       journal_info E GAME_SYNCED [AStr ''Runtime configuration flushed to disk.''];
       ret ERR_SUCCESS
     } else do { journal_error E ERR_IPC [AInt (- 1)]; ret ERR_IPC }
   }"

definition arg_or :: "string list \<Rightarrow> nat \<Rightarrow> string \<Rightarrow> string" where
  "arg_or argv i d = (if length argv > i then argv ! i else d)"

text \<open>The source of the game list is passed on and ignored by \<^verbatim>\<open>config_generate\<close>.\<close>

definition cli_config_generate :: "'w env \<Rightarrow> string list \<Rightarrow> ('w, int) m" where
  "cli_config_generate E argv = do {
     let dest = arg_or argv 4 (CONFIG_PATH E);
     printf_string (tools_utf8 @ '' Generating X3D Toggle Configuration based on defaults...'') [];
     res \<leftarrow> config_generate E (arg_or argv 2 ''config/settings.conf'') dest;
     (if res = ERR_SUCCESS then printf_string (check_utf8 @ '' Configuration successfully assembled at %s'') [AStr dest]
      else journal_error E res [AStr dest]);
     ret res
   }"

definition USR_LIBS :: string where "USR_LIBS = ''/usr/lib/x3d-toggle''"

definition update_child :: "'w env \<Rightarrow> child" where
  "update_child E =
     \<lparr>c_redirect = False, c_path = ''/bin/sh'',
      c_argv = [''/bin/sh'', printf_sn E 256 ''%s/scripts/framework/config.sh'' [AStr USR_LIBS], ''--update''],
      c_env = [''X3D_EXEC=1''], c_fail = 1\<rparr>"

definition cli_config_update :: "'w env \<Rightarrow> string list \<Rightarrow> ('w, int) m" where
  "cli_config_update E argv = do {
     printf_string (tools_utf8 @ ''  Regenerating system configuration from source templates...'') [];
     pid \<leftarrow> c_fork E (update_child E);
     res \<leftarrow> (if pid > 0 then do { st \<leftarrow> c_waitpid E pid; ret (if exit_ok (snd st) then ERR_SUCCESS else ERR_IO) } else ret ERR_IO);
     if res \<noteq> ERR_SUCCESS then do { journal_error E ERR_IO [AStr ''config.sh --update'']; ret ERR_IO }
     else do {
       r \<leftarrow> socket_cmd E ''CONFIG_SYNC'';
       (if r = ERR_SUCCESS then printf_string (check_utf8 @ '' Configuration rebuilt and daemon synced.'') []
        else printf_string (check_utf8 @ '' Configuration rebuilt (daemon offline '' @ dash_utf8 @ '' will apply on next start).'') []);
       ret ERR_SUCCESS
     }
   }"

definition cli_advanced_config :: "'w env \<Rightarrow> string list \<Rightarrow> ('w, int) m" where
  "cli_advanced_config E argv =
     (if length argv < 3 then ret 1
      else if strcmp (argv ! 2) ''get'' = 0 then
        (if length argv < 4 then ret 1
         else do {
           r \<leftarrow> socket_send E (printf_sn E 256 ''ADVANCED_GET %s'' [AStr (argv ! 3)]) 256 [];
           if fst r = 0 then do { printf_string ''%s = %s'' [AStr (argv ! 3), AStr (snd r)]; ret 0 }
           else do { journal_error E ERR_IPC [AInt (- 1)]; ret 1 }
         })
      else if strcmp (argv ! 2) ''set'' = 0 then
        (if length argv < 5 then ret 1
         else config_write E (printf_sn E 256 ''ADVANCED_SET %s %s'' [AStr (argv ! 3), AStr (argv ! 4)]) (Some (argv ! 3, argv ! 4))
                (printf_sn E 256 (''Advanced configuration '' @ [CHR 0x27] @ ''%s'' @ [CHR 0x27] @ '' set to '' @ [CHR 0x27] @ ''%s'' @ [CHR 0x27] @ ''.'')
                   [AStr (argv ! 3), AStr (argv ! 4)]))
      else ret 1)"

end
