(* ===== verification/Irq.thy ===== *)
theory Irq
  imports Daemon
begin

section \<open>Interrupt affinity (src/irq.c)\<close>

text \<open>
  The commands that pin the interrupts of the GPU and of peripherals to a core, watch them, and undo it. The static variables of
  the file are the record \<open>irq_state\<close>, passed and returned: every command starts from \<open>irq_zero\<close>, the initial value of static
  storage. An \<^verbatim>\<open>irq_list_t\<close> is its list of numbers. \<^verbatim>\<open>CONFIG_PATH\<close> is a macro of the build with the default that the file
  gives, as in the rest of the program. \<^verbatim>\<open>irq_watch\<close> loops for ever: \<open>k\<close> bounds its rounds and \<open>None\<close> is a run that has not
  ended after them.
\<close>

subsection \<open>Data\<close>

definition IRQ_MAX_VECTORS :: nat where "IRQ_MAX_VECTORS = 64"
definition IRQ_STATE_DIR :: string where "IRQ_STATE_DIR = ''/run/x3d-toggle''"
definition IRQ_UDEV_RULES :: string where "IRQ_UDEV_RULES = ''/etc/udev/rules.d/99-x3d-irq.rules''"
definition IRQ_BALANCER_STATE :: string where "IRQ_BALANCER_STATE = IRQ_STATE_DIR @ ''/irqbalance_was_active''"

record irq_config_t =
  q_target_core :: int
  q_irq_enable :: int
  q_irq_pinning :: int
  q_irq_gpu :: int
  q_irq_nvme :: int
  q_irq_usb :: int
  q_irq_nic :: int
  q_irq_audio :: int
  q_irq_coalesce :: int
  q_irq_watch :: int
  q_thread_control :: int
  q_thread_cap :: int
  q_thread_exempt :: string

record irq_state =
  g_cfg :: irq_config_t
  g_gpu_irqs :: "int list"
  g_nvme_irqs :: "int list"
  g_usb_irqs :: "int list"
  g_nic_irqs :: "int list"
  g_audio_irqs :: "int list"
  g_nic_names :: "string list"

definition irq_zero :: irq_state where
  "irq_zero =
     \<lparr>g_cfg = \<lparr>q_target_core = 0, q_irq_enable = 0, q_irq_pinning = 0, q_irq_gpu = 0, q_irq_nvme = 0, q_irq_usb = 0, q_irq_nic = 0,
        q_irq_audio = 0, q_irq_coalesce = 0, q_irq_watch = 0, q_thread_control = 0, q_thread_cap = 0, q_thread_exempt = []\<rparr>,
      g_gpu_irqs = [], g_nvme_irqs = [], g_usb_irqs = [], g_nic_irqs = [], g_audio_irqs = [], g_nic_names = []\<rparr>"

subsection \<open>Files\<close>

text \<open>\<open>None\<close>: the result is -1 and the buffer keeps what it had.\<close>

definition read_file_line :: "'w env \<Rightarrow> string \<Rightarrow> nat \<Rightarrow> ('w, string option) m" where
  "read_file_line E path len = do {
     fd \<leftarrow> c_open E path O_RDONLY 0;
     if fd < 0 then ret None
     else do {
       nd \<leftarrow> c_read E fd (len - 1);
       c_close E fd;
       ret (if fst nd \<le> 0 then None
            else Some (cstr (rev (dropWhile (\<lambda>c. c = NL \<or> c = CR) (rev (snd nd))))))
     }
   }"

definition write_file :: "'w env \<Rightarrow> string \<Rightarrow> string \<Rightarrow> ('w, int) m" where
  "write_file E path val = do {
     fd \<leftarrow> c_open E path O_WRONLY 0;
     if fd < 0 then ret (- 1)
     else do {
       n \<leftarrow> c_write E fd val;
       c_close E fd;
       ret (if n > 0 then 0 else - 1)
     }
   }"

definition file_exists :: "'w env \<Rightarrow> string \<Rightarrow> ('w, bool) m" where
  "file_exists E path = do { r \<leftarrow> c_access E path F_OK; ret (r = 0) }"

subsection \<open>Configuration\<close>

definition parse_conf_int :: "'w env \<Rightarrow> string \<Rightarrow> string \<Rightarrow> int" where
  "parse_conf_int E haystack key =
     (let search = printf_sn E 128 ''%s='' [AStr key]
      in case strstr haystack search of None \<Rightarrow> 0 | Some k \<Rightarrow> atoi (drop (k + length search) haystack))"

definition parse_conf_str :: "'w env \<Rightarrow> string \<Rightarrow> string \<Rightarrow> nat \<Rightarrow> string" where
  "parse_conf_str E haystack key len =
     (let search = printf_sn E 128 ''%s='' [AStr key]
      in case strstr haystack search of
           None \<Rightarrow> []
         | Some k \<Rightarrow> take (len - 1) (takeWhile (\<lambda>c. c \<noteq> NL \<and> c \<noteq> CR) (drop (k + length search) haystack)))"

text \<open>
  The value of \<^verbatim>\<open>IRQ_CUSTOM\<close> is copied over the buffer that holds the file. The copy runs forward from a higher to a lower address, so
  it copies the value as it was; after it the buffer holds nothing else up to its terminator.
\<close>

definition parse_irq_config :: "'w env \<Rightarrow> string \<Rightarrow> irq_config_t" where
  "parse_irq_config E buf =
     (let buf' = parse_conf_str E buf ''IRQ_CUSTOM'' 4096
      in \<lparr>q_target_core = atoi buf',
          q_irq_enable = parse_conf_int E buf ''IRQ_ENABLE'',
          q_irq_pinning = parse_conf_int E buf ''IRQ_PINNING'',
          q_irq_gpu = parse_conf_int E buf ''IRQ_GPU'',
          q_irq_nvme = parse_conf_int E buf ''IRQ_NVME'',
          q_irq_usb = parse_conf_int E buf ''IRQ_USB'',
          q_irq_nic = parse_conf_int E buf ''IRQ_NIC'',
          q_irq_audio = parse_conf_int E buf ''IRQ_AUDIO'',
          q_irq_coalesce = parse_conf_int E buf ''IRQ_COALESCE'',
          q_irq_watch = parse_conf_int E buf ''IRQ_WATCH'',
          q_thread_control = parse_conf_int E buf ''THREAD_CONTROL'',
          q_thread_cap = parse_conf_int E buf ''THREAD_CAP'',
          q_thread_exempt = parse_conf_str E buf' ''THREAD_EXEMPT'' 512\<rparr>)"

definition load_irq_config :: "'w env \<Rightarrow> irq_state \<Rightarrow> ('w, int \<times> irq_state) m" where
  "load_irq_config E s = do {
     fd \<leftarrow> c_open E (CONFIG_PATH E) O_RDONLY 0;
     if fd < 0 then do { journal_warn E ERR_CONF []; ret (ERR_CONF, s) }
     else do {
       nd \<leftarrow> c_read E fd 4095;
       c_close E fd;
       ret (if fst nd \<le> 0 then (ERR_CONF, s)
            else (ERR_SUCCESS, s\<lparr>g_cfg := parse_irq_config E (cstr (snd nd))\<rparr>))
     }
   }"

definition resolve_target_core :: "'w env \<Rightarrow> irq_state \<Rightarrow> ('w, int) m" where
  "resolve_target_core E s =
     (let pin = q_irq_pinning (g_cfg s)
      in if pin = 0 then ret 0
         else if pin = 1 then do {
           b \<leftarrow> read_file_line E (IRQ_STATE_DIR @ ''/irq_target_core'') 16;
           ret (case b of None \<Rightarrow> 0 | Some t \<Rightarrow> atoi t)
         }
         else if pin = 2 then ret (q_target_core (g_cfg s))
         else if pin = 3 then ret (- 1)
         else ret 0)"

subsection \<open>The balancing service\<close>

definition sys_failed :: "int \<Rightarrow> bool" where
  "sys_failed st \<longleftrightarrow> WIFEXITED st \<and> WEXITSTATUS st \<noteq> 0"

definition disable_irqbalance :: "'w env \<Rightarrow> ('w, int) m" where
  "disable_irqbalance E = do {
     active \<leftarrow> c_system E (Some ''systemctl is-active --quiet irqbalance 2>/dev/null'');
     (if WIFEXITED active \<and> WEXITSTATUS active = 0 then do {
        c_mkdir E IRQ_STATE_DIR 493;
        fd \<leftarrow> c_open E IRQ_BALANCER_STATE (O_WRONLY + O_CREAT + O_TRUNC) 420;
        (if fd \<ge> 0 then do { c_write E fd ''1''; c_close E fd; ret () } else ret ());
        st \<leftarrow> c_system E (Some ''systemctl stop irqbalance 2>/dev/null'');
        if sys_failed st then journal_warn E ERR_IRQ_BALANCER [AStr ''stop'', AStr ''systemctl returned non-zero''] else ret ()
      } else ret ());
     ret ERR_SUCCESS
   }"

definition restore_irqbalance :: "'w env \<Rightarrow> ('w, int) m" where
  "restore_irqbalance E = do {
     was \<leftarrow> file_exists E IRQ_BALANCER_STATE;
     (if was then do {
        st \<leftarrow> c_system E (Some ''systemctl start irqbalance 2>/dev/null'');
        (if sys_failed st then journal_warn E ERR_IRQ_BALANCER [AStr ''start'', AStr ''systemctl returned non-zero''] else ret ());
        c_unlink E IRQ_BALANCER_STATE;
        ret ()
      } else ret ());
     ret ERR_SUCCESS
   }"

subsection \<open>Discovery\<close>

text \<open>The text of \<^verbatim>\<open>/proc/interrupts\<close> that the functions read: at most 8191 bytes, \<open>None\<close> on failure.\<close>

definition read_interrupts :: "'w env \<Rightarrow> ('w, string option) m" where
  "read_interrupts E = do {
     fd \<leftarrow> c_open E ''/proc/interrupts'' O_RDONLY 0;
     if fd < 0 then ret None
     else do {
       nd \<leftarrow> c_read E fd 8191;
       c_close E fd;
       ret (if fst nd \<le> 0 then None else Some (cstr (snd nd)))
     }
   }"

definition irq_line :: "string \<Rightarrow> string \<Rightarrow> int list \<Rightarrow> int list" where
  "irq_line token line irqs = (if has line token \<and> atoi line > 0 then irqs @ [atoi line] else irqs)"

definition discover_irqs :: "'w env \<Rightarrow> string \<Rightarrow> ('w, int list) m" where
  "discover_irqs E token = do {
     t \<leftarrow> read_interrupts E;
     ret (case t of None \<Rightarrow> []
          | Some buf \<Rightarrow> while_lines (\<lambda>irqs. length irqs < IRQ_MAX_VECTORS) (irq_line token) buf [])
   }"

definition verify_msi :: "'w env \<Rightarrow> int \<Rightarrow> ('w, bool) m" where
  "verify_msi E irq = do {
     t \<leftarrow> read_interrupts E;
     ret (case t of None \<Rightarrow> False
          | Some buf \<Rightarrow>
              (case strstr buf (printf_sn E 16 ''%d:'' [AInt irq]) of
                 None \<Rightarrow> False
               | Some k \<Rightarrow> has (drop k buf) ''PCI-MSI'' \<or> has (drop k buf) ''PCI-MSIX''))
   }"

lemma strstr_less: "strstr s (c # cs) = Some k \<Longrightarrow> k < length s"
  by (auto simp: strstr_Some prefix_def dest!: arg_cong [where f = length])

function msix_loop :: "string \<Rightarrow> nat \<Rightarrow> int" where
  "msix_loop buf p =
     (case strstr (drop p buf) ''amdgpu'' of
        None \<Rightarrow> 0
      | Some j \<Rightarrow> (if has (drop (p + j - 80) buf) ''PCI-MSIX'' then 1 else 0) + msix_loop buf (Suc (p + j)))"
  by pat_completeness auto
termination
  by (relation "measure (\<lambda>(buf, p). length buf - p)") (auto dest!: strstr_less)

declare msix_loop.simps [simp del]

definition count_msix_vectors :: "'w env \<Rightarrow> ('w, int) m" where
  "count_msix_vectors E = do { t \<leftarrow> read_interrupts E; ret (case t of None \<Rightarrow> 0 | Some buf \<Rightarrow> msix_loop buf 0) }"

subsection \<open>Masks\<close>

definition affinity_node :: "'w env \<Rightarrow> int \<Rightarrow> string" where
  "affinity_node E irq = printf_sn E 256 ''/proc/irq/%d/smp_affinity_list'' [AInt irq]"

definition orig_file :: "'w env \<Rightarrow> int \<Rightarrow> string" where
  "orig_file E irq = printf_sn E 256 (IRQ_STATE_DIR @ ''/irq_orig_%d'') [AInt irq]"

definition save_original_mask :: "'w env \<Rightarrow> int \<Rightarrow> ('w, int) m" where
  "save_original_mask E irq = do {
     line \<leftarrow> read_file_line E (affinity_node E irq) 64;
     (case line of
        None \<Rightarrow> ret ()
      | Some old \<Rightarrow> do {
          c_mkdir E IRQ_STATE_DIR 493;
          fd \<leftarrow> c_open E (orig_file E irq) (O_WRONLY + O_CREAT + O_TRUNC) 420;
          if fd \<ge> 0 then do { c_write E fd old; c_close E fd; ret () } else ret ()
        });
     ret ERR_SUCCESS
   }"

definition apply_affinity :: "'w env \<Rightarrow> int \<Rightarrow> int \<Rightarrow> ('w, int) m" where
  "apply_affinity E irq core = do {
     save_original_mask E irq;
     r \<leftarrow> write_file E (affinity_node E irq) (printf_sn E 16 ''%d'' [AInt core]);
     if r < 0 then do { journal_warn E ERR_IRQ_BIND [AInt irq, AStr ''write failed'']; ret ERR_IRQ_BIND }
     else ret ERR_SUCCESS
   }"

definition restore_affinity :: "'w env \<Rightarrow> int \<Rightarrow> ('w, int) m" where
  "restore_affinity E irq = do {
     line \<leftarrow> read_file_line E (orig_file E irq) 64;
     (case line of
        None \<Rightarrow> ret ()
      | Some old \<Rightarrow> do {
          r \<leftarrow> write_file E (affinity_node E irq) old;
          (if r < 0 then journal_warn E ERR_IRQ_TEARDOWN [AInt irq] else ret ());
          c_unlink E (orig_file E irq);
          ret ()
        });
     ret ERR_SUCCESS
   }"

definition apply_list :: "'w env \<Rightarrow> int list \<Rightarrow> int \<Rightarrow> ('w, unit) m" where
  "apply_list E irqs core = forM irqs (\<lambda>irq. do { apply_affinity E irq core; ret () })"

subsection \<open>Network interfaces\<close>

definition nic_tokens :: "string list" where
  "nic_tokens = [''eth'', ''enp'', ''eno'', ''wlan'']"

fun first_token :: "string \<Rightarrow> string list \<Rightarrow> nat option" where
  "first_token line [] = None"
| "first_token line (t # ts) = (case strstr line t of Some k \<Rightarrow> Some k | None \<Rightarrow> first_token line ts)"

definition nic_line :: "string \<Rightarrow> string list \<Rightarrow> string list" where
  "nic_line line names =
     (case first_token line nic_tokens of
        None \<Rightarrow> names
      | Some k \<Rightarrow> names @ [take 31 (takeWhile (\<lambda>c. c \<noteq> CHR '' '' \<and> c \<noteq> NL \<and> c \<noteq> CHR ''-'') (drop k line))])"

definition discover_nic_names :: "'w env \<Rightarrow> ('w, string list) m" where
  "discover_nic_names E = do {
     t \<leftarrow> read_interrupts E;
     ret (case t of None \<Rightarrow> [] | Some buf \<Rightarrow> while_lines (\<lambda>names. length names < 8) nic_line buf [])
   }"

definition apply_coalescing :: "'w env \<Rightarrow> irq_state \<Rightarrow> bool \<Rightarrow> ('w, unit) m" where
  "apply_coalescing E s enable =
     forM (g_nic_names s) (\<lambda>name. do {
       st \<leftarrow> c_system E (Some (printf_sn E 256
               (if enable then ''ethtool -C %s rx-usecs 0 tx-usecs 0 2>/dev/null''
                else ''ethtool -C %s rx-usecs 50 tx-usecs 50 2>/dev/null'') [AStr name]));
       if enable \<and> sys_failed st then journal_warn E ERR_IRQ_COALESCE [AStr name] else ret ()
     })"

subsection \<open>Operations\<close>

definition irq_init :: "'w env \<Rightarrow> irq_state \<Rightarrow> ('w, int \<times> irq_state) m" where
  "irq_init E s = do {
     (rc, s1) \<leftarrow> load_irq_config E s;
     if rc \<noteq> ERR_SUCCESS then ret (rc, s1)
     else if q_irq_enable (g_cfg s1) = 0 then ret (ERR_SUCCESS, s1)
     else if q_irq_pinning (g_cfg s1) = 3 then ret (ERR_SUCCESS, s1)
     else do {
       core \<leftarrow> resolve_target_core E s1;
       let s2 = s1\<lparr>g_cfg := (g_cfg s1)\<lparr>q_target_core := core\<rparr>\<rparr>;
       if core < 0 then ret (ERR_SUCCESS, s2)
       else do {
         disable_irqbalance E;
         ret (ERR_SUCCESS, s2\<lparr>g_gpu_irqs := [], g_nvme_irqs := [], g_usb_irqs := [], g_nic_irqs := [], g_audio_irqs := []\<rparr>)
       }
     }
   }"

definition irq_off :: "irq_state \<Rightarrow> bool" where
  "irq_off s \<longleftrightarrow> q_irq_enable (g_cfg s) = 0 \<or> q_irq_pinning (g_cfg s) = 3"

text \<open>The second name is tried when the first has no interrupt.\<close>

definition discover_either :: "'w env \<Rightarrow> string \<Rightarrow> string \<Rightarrow> ('w, int list) m" where
  "discover_either E token token' = do {
     irqs \<leftarrow> discover_irqs E token;
     if length irqs = 0 then discover_irqs E token' else ret irqs
   }"

definition verify_list :: "'w env \<Rightarrow> int list \<Rightarrow> ('w, int list) m" where
  "verify_list E irqs =
     foldM (\<lambda>irq verified. do {
       ok \<leftarrow> verify_msi E irq;
       if ok then ret (verified @ [irq])
       else do { journal_warn E ERR_IRQ_NO_MSI [AStr ''GPU IRQ (legacy APIC pin)'']; ret verified }
     }) irqs []"

definition irq_bind_gpu :: "'w env \<Rightarrow> irq_state \<Rightarrow> ('w, int \<times> irq_state) m" where
  "irq_bind_gpu E s =
     (if irq_off s then ret (ERR_SUCCESS, s)
      else if q_irq_gpu (g_cfg s) = 0 then ret (ERR_SUCCESS, s)
      else do {
        irqs \<leftarrow> discover_either E ''amdgpu'' ''nouveau'';
        if length irqs = 0 then do {
          journal_warn E ERR_IRQ_DISCOVER [AStr ''GPU''];
          ret (ERR_SUCCESS, s\<lparr>g_gpu_irqs := irqs\<rparr>)
        } else do {
          verified \<leftarrow> verify_list E irqs;
          apply_list E verified (q_target_core (g_cfg s));
          ret (ERR_SUCCESS, s\<lparr>g_gpu_irqs := verified\<rparr>)
        }
      })"

definition bind_nvme :: "'w env \<Rightarrow> irq_state \<Rightarrow> ('w, irq_state) m" where
  "bind_nvme E s =
     (if q_irq_nvme (g_cfg s) \<noteq> 0 then do {
        irqs \<leftarrow> discover_irqs E ''nvme'';
        (if length irqs > 0 then apply_list E irqs (q_target_core (g_cfg s)) else ret ());
        ret (s\<lparr>g_nvme_irqs := irqs\<rparr>)
      } else ret s)"

definition bind_usb :: "'w env \<Rightarrow> irq_state \<Rightarrow> ('w, irq_state) m" where
  "bind_usb E s =
     (if q_irq_usb (g_cfg s) \<noteq> 0 then do {
        irqs \<leftarrow> discover_irqs E ''xhci_hcd'';
        (if length irqs > 0 then apply_list E irqs (q_target_core (g_cfg s)) else ret ());
        ret (s\<lparr>g_usb_irqs := irqs\<rparr>)
      } else ret s)"

definition bind_nic :: "'w env \<Rightarrow> irq_state \<Rightarrow> ('w, irq_state) m" where
  "bind_nic E s =
     (if q_irq_nic (g_cfg s) \<noteq> 0 then do {
        irqs \<leftarrow> discover_either E ''eth'' ''enp'';
        let s1 = s\<lparr>g_nic_irqs := irqs\<rparr>;
        if length irqs > 0 then do {
          apply_list E irqs (q_target_core (g_cfg s));
          if q_irq_coalesce (g_cfg s) \<noteq> 0 then do {
            names \<leftarrow> discover_nic_names E;
            let s2 = s1\<lparr>g_nic_names := names\<rparr>;
            apply_coalescing E s2 True;
            ret s2
          } else ret s1
        } else ret s1
      } else ret s)"

definition bind_audio :: "'w env \<Rightarrow> irq_state \<Rightarrow> ('w, irq_state) m" where
  "bind_audio E s =
     (if q_irq_audio (g_cfg s) \<noteq> 0 then do {
        irqs \<leftarrow> discover_either E ''snd_hda'' ''snd-hda'';
        (if length irqs > 0 then apply_list E irqs (q_target_core (g_cfg s)) else ret ());
        ret (s\<lparr>g_audio_irqs := irqs\<rparr>)
      } else ret s)"

definition irq_bind_peripherals :: "'w env \<Rightarrow> irq_state \<Rightarrow> ('w, int \<times> irq_state) m" where
  "irq_bind_peripherals E s =
     (if irq_off s then ret (ERR_SUCCESS, s)
      else do {
        s1 \<leftarrow> bind_nvme E s;
        s2 \<leftarrow> bind_usb E s1;
        s3 \<leftarrow> bind_nic E s2;
        s4 \<leftarrow> bind_audio E s3;
        ret (ERR_SUCCESS, s4)
      })"

definition udev_header :: string where
  "udev_header = ''# X3D Toggle IRQ Affinity Rules (auto-generated)'' @ [NL] @
     ''# Re-asserts IRQ affinity on device add/reset events'' @ [NL, NL]"

definition udev_rule :: "string \<Rightarrow> string" where
  "udev_rule drivers = ''ACTION==\"add\", SUBSYSTEM==\"pci\", DRIVER==\"'' @ drivers @
     ''\", RUN+=\"/usr/bin/x3d-toggle irq-bind\"'' @ [NL]"

definition irq_gen_udev :: "'w env \<Rightarrow> irq_state \<Rightarrow> ('w, int) m" where
  "irq_gen_udev E s =
     (if irq_off s then ret ERR_SUCCESS
      else do {
        fd \<leftarrow> c_open E IRQ_UDEV_RULES (O_WRONLY + O_CREAT + O_TRUNC) 420;
        if fd < 0 then do { journal_error E ERR_IRQ_UDEV [AStr ''permission denied or path missing'']; ret ERR_IRQ_UDEV }
        else do {
          c_write E fd udev_header;
          (if q_irq_gpu (g_cfg s) \<noteq> 0 then do { c_write E fd (printf_sn E 256 (udev_rule ''amdgpu|nouveau'') []); ret () } else ret ());
          (if q_irq_nvme (g_cfg s) \<noteq> 0 then do { c_write E fd (printf_sn E 256 (udev_rule ''nvme'') []); ret () } else ret ());
          (if q_irq_usb (g_cfg s) \<noteq> 0 then do { c_write E fd (printf_sn E 256 (udev_rule ''xhci_hcd'') []); ret () } else ret ());
          c_close E fd;
          c_system E (Some ''udevadm control --reload-rules 2>/dev/null'');
          ret ERR_SUCCESS
        }
      })"

definition irq_lists :: "irq_state \<Rightarrow> int list list" where
  "irq_lists s = [g_gpu_irqs s, g_nvme_irqs s, g_usb_irqs s, g_nic_irqs s, g_audio_irqs s]"

definition irq_teardown :: "'w env \<Rightarrow> irq_state \<Rightarrow> ('w, int) m" where
  "irq_teardown E s = do {
     forM (irq_lists s) (\<lambda>irqs. forM irqs (\<lambda>irq. do { restore_affinity E irq; ret () }));
     (if q_irq_coalesce (g_cfg s) \<noteq> 0 \<and> length (g_nic_names s) > 0 then apply_coalescing E s False else ret ());
     rules \<leftarrow> file_exists E IRQ_UDEV_RULES;
     (if rules then do {
        c_unlink E IRQ_UDEV_RULES;
        c_system E (Some ''udevadm control --reload-rules 2>/dev/null'');
        ret ()
      } else ret ());
     restore_irqbalance E;
     ret ERR_SUCCESS
   }"

subsection \<open>Status\<close>

definition irq_labels :: "string list" where
  "irq_labels = [''GPU'', ''NVMe'', ''USB/xHCI'', ''NIC'', ''Audio'']"

text \<open>The two characters outside ASCII are their UTF-8 bytes.\<close>

definition bar_utf8 :: string where "bar_utf8 = [CHR 0xE2, CHR 0x94, CHR 0x80]"
definition arrow_utf8 :: string where "arrow_utf8 = [CHR 0xE2, CHR 0x86, CHR 0x92]"

definition irq_header :: string where
  "irq_header = [NL] @ ''  IRQ Affinity Status'' @ [NL] @ ''  '' @ concat (replicate 41 bar_utf8) @ [NL]"

definition show_irq :: "'w env \<Rightarrow> int \<Rightarrow> ('w, unit) m" where
  "show_irq E irq = do {
     line \<leftarrow> read_file_line E (affinity_node E irq) 64;
     let cores = (case line of None \<Rightarrow> [] | Some l \<Rightarrow> l);
     c_write E 1 (printf_sn E 128 (''    IRQ %3d '' @ arrow_utf8 @ '' Core(s): %s'' @ [NL])
                    [AInt irq, AStr (if cores \<noteq> [] then cores else ''N/A'')]);
     ret ()
   }"

definition irq_status :: "'w env \<Rightarrow> irq_state \<Rightarrow> ('w, int) m" where
  "irq_status E s = do {
     c_write E 1 irq_header;
     msix \<leftarrow> count_msix_vectors E;
     c_write E 1 (printf_sn E 128 (''  GPU MSI-X Vectors: %d'' @ [NL, NL]) [AInt msix]);
     forM (zip irq_labels (irq_lists s)) (\<lambda>(label, irqs).
       if length irqs = 0 then ret ()
       else do {
         c_write E 1 (printf_sn E 128 (''  [%s] %d vectors'' @ [NL]) [AStr label, AInt (int (length irqs))]);
         forM irqs (show_irq E)
       });
     off \<leftarrow> file_exists E IRQ_BALANCER_STATE;
     c_write E 1 (printf_sn E 128 ([NL] @ ''  irqbalance: %s'' @ [NL])
                    [AStr (if off then ''Disabled (by X3D Toggle)'' else ''Active/Unmanaged'')]);
     ret ERR_SUCCESS
   }"

subsection \<open>Watching\<close>

definition reassert :: "'w env \<Rightarrow> int \<Rightarrow> int \<Rightarrow> ('w, unit) m" where
  "reassert E core irq = do {
     let expected = printf_sn E 16 ''%d'' [AInt core];
     line \<leftarrow> read_file_line E (affinity_node E irq) 64;
     case line of
       None \<Rightarrow> ret ()
     | Some cores \<Rightarrow>
         if strcmp cores expected \<noteq> 0 then do {
           write_file E (affinity_node E irq) expected;
           journal_debug E ''IRQ Watch: Re-asserted IRQ %d to core %d'' [AInt irq, AInt core]
         } else ret ()
   }"

definition is_sep :: "char \<Rightarrow> bool" where
  "is_sep c \<longleftrightarrow> c = CHR '','' \<or> c = CHR '' ''"

function exempt_tokens :: "string \<Rightarrow> string list" where
  "exempt_tokens ex =
     (if ex = [] then []
      else let token = take 63 (takeWhile (\<lambda>c. \<not> is_sep c) ex);
               rest = drop (length token) ex
           in token # exempt_tokens (if rest \<noteq> [] \<and> is_sep (hd rest) then tl rest else rest))"
  by pat_completeness auto
termination
  by (relation "measure length") (auto simp: neq_Nil_conv split: if_splits)

declare exempt_tokens.simps [simp del]

definition exempt_command :: "'w env \<Rightarrow> string \<Rightarrow> string \<Rightarrow> string" where
  "exempt_command E full_mask token =
     printf_sn E 512 (''for p in $(pidof %s 2>/dev/null); do   taskset -p -c %s $p >/dev/null 2>&1; '' @ ''done'')
       [AStr token, AStr full_mask]"

definition watch_round :: "'w env \<Rightarrow> irq_state \<Rightarrow> int \<Rightarrow> string \<Rightarrow> ('w, unit) m" where
  "watch_round E s core full_mask = do {
     forM (irq_lists s) (\<lambda>irqs. forM irqs (reassert E core));
     (if q_thread_control (g_cfg s) \<noteq> 0 then
        forM (exempt_tokens (q_thread_exempt (g_cfg s))) (\<lambda>token.
          if token \<noteq> [] then do { c_system E (Some (exempt_command E full_mask token)); ret () } else ret ())
      else ret ());
     c_nanosleep E 5 0;
     ret ()
   }"

fun watch_loop :: "'w env \<Rightarrow> irq_state \<Rightarrow> int \<Rightarrow> string \<Rightarrow> nat \<Rightarrow> ('w, int option) m" where
  "watch_loop E s core full_mask 0 = ret None"
| "watch_loop E s core full_mask (Suc k) = do { watch_round E s core full_mask; watch_loop E s core full_mask k }"

definition full_mask_of :: "'w env \<Rightarrow> string" where
  "full_mask_of E =
     (let total_cores = (case ccd_result E of None \<Rightarrow> 0 | Some (mask_tmp, ccd1_start, tc) \<Rightarrow> tc)
      in if total_cores > 0 then printf_sn E 32 ''0-%d'' [AInt (total_cores - 1)] else printf_sn E 32 ''0'' [])"

definition irq_watch_run :: "'w env \<Rightarrow> irq_state \<Rightarrow> nat \<Rightarrow> ('w, int option) m" where
  "irq_watch_run E s k =
     (if irq_off s then ret (Some ERR_SUCCESS)
      else do {
        journal_file E ''INF'' (Some ''IRQ Watch'') ''Watch mode started'';
        watch_loop E s (q_target_core (g_cfg s)) (full_mask_of E) k
      })"

subsection \<open>Commands\<close>

definition cli_irq_bind :: "'w env \<Rightarrow> irq_state \<Rightarrow> ('w, int \<times> irq_state) m" where
  "cli_irq_bind E s = do {
     (rc, s1) \<leftarrow> irq_init E s;
     if rc \<noteq> ERR_SUCCESS then ret (rc, s1)
     else do {
       (rc, s2) \<leftarrow> irq_bind_gpu E s1;
       if rc \<noteq> ERR_SUCCESS then ret (rc, s2)
       else do {
         (rc, s3) \<leftarrow> irq_bind_peripherals E s2;
         if rc \<noteq> ERR_SUCCESS then ret (rc, s3)
         else do { rc \<leftarrow> irq_gen_udev E s3; ret (rc, s3) }
       }
     }
   }"

definition cli_irq_reset :: "'w env \<Rightarrow> irq_state \<Rightarrow> ('w, int) m" where
  "cli_irq_reset E s = irq_teardown E s"

definition cli_irq_status :: "'w env \<Rightarrow> irq_state \<Rightarrow> ('w, int) m" where
  "cli_irq_status E s = irq_status E s"

definition cli_irq_udev :: "'w env \<Rightarrow> irq_state \<Rightarrow> ('w, int) m" where
  "cli_irq_udev E s = do {
     (rc, s1) \<leftarrow> irq_init E s;
     if rc \<noteq> ERR_SUCCESS then ret rc else irq_gen_udev E s1
   }"

definition cli_irq_watch :: "'w env \<Rightarrow> irq_state \<Rightarrow> nat \<Rightarrow> ('w, int option) m" where
  "cli_irq_watch E s k = do {
     (rc, s1) \<leftarrow> irq_init E s;
     if rc \<noteq> ERR_SUCCESS then ret (Some rc) else irq_watch_run E s1 k
   }"

end
