(* ===== verification/Stress.thy ===== *)
theory Stress
  imports Mode_Device
begin

section \<open>The load generator (src/stress.c)\<close>

text \<open>
  \<^verbatim>\<open>cli_stress_cpu\<close> forks workers that burn cycles and waits until a signal clears \<^verbatim>\<open>active\<close>. When the signal arrives is not up to
  the program: \<open>k\<close> is the number of tests of \<^verbatim>\<open>active\<close> that still find it set, so that \<open>k\<close> ranges over all runs that end. A worker executes
  no program; its \<open>child\<close> has an empty path. The theorem says which processes the generator signals and waits for.
\<close>

fun stress_interval :: "string list \<Rightarrow> int \<Rightarrow> int" where
  "stress_interval (a # v # args) interval =
     (if strcmp a ''-i'' = 0 then stress_interval args (atoi v) else stress_interval (v # args) interval)"
| "stress_interval _ interval = interval"

definition load_payload :: child where
  "load_payload = \<lparr>c_redirect = False, c_path = [], c_argv = [], c_env = [], c_fail = 0\<rparr>"

text \<open>One second per test, while the interval lasts; afterwards \<open>k - interval\<close> tests are left.\<close>

definition naps :: "'w env \<Rightarrow> nat \<Rightarrow> nat \<Rightarrow> ('w, unit) m" where
  "naps E interval k = forM [0..<min interval k] (\<lambda>_. do { c_nanosleep E 1 0; ret () })"

function migrate :: "'w env \<Rightarrow> int \<Rightarrow> nat \<Rightarrow> nat \<Rightarrow> ('w, unit) m" where
  "migrate E worker interval k =
     (if k = 0 then ret ()
      else do {
        printf_step ''${ALRIGHT} Shifting load to LATENCY CCD (CCD0)...'' [];
        affinity_partition E worker PART_CACHE;
        naps E interval (k - 1);
        let k1 = k - 1 - interval;
        if k1 = 0 then ret ()
        else do {
          printf_step ''${ALRIGHT} Shifting load to THROUGHPUT CCD (CCD1)...'' [];
          affinity_partition E worker PART_FREQ;
          naps E interval (k1 - 1);
          migrate E worker interval (k1 - 1 - interval)
        }
      })"
  by pat_completeness auto
termination by (relation "measure (\<lambda>(E, worker, interval, k). k)") auto

declare migrate.simps [simp del]

definition stop_worker :: "'w env \<Rightarrow> int \<Rightarrow> ('w, unit) m" where
  "stop_worker E worker = do { c_kill E worker SIGTERM; c_waitpid E worker; ret () }"

primrec fork_workers :: "'w env \<Rightarrow> nat \<Rightarrow> ('w, int list) m" where
  "fork_workers E 0 = ret []"
| "fork_workers E (Suc n) = do { w \<leftarrow> c_fork E load_payload; ws \<leftarrow> fork_workers E n; ret (w # ws) }"

definition cli_stress_cpu :: "'w env \<Rightarrow> nat \<Rightarrow> string list \<Rightarrow> ('w, int) m" where
  "cli_stress_cpu E k argv = do {
     let interval = stress_interval (drop 2 argv) 0;
     printf_step ''${GEAR} Initializing Compute Load Engine...'' [];
     c_sigaction E SIGINT;
     c_sigaction E SIGTERM;
     let total_cores = 16;
     if interval > 0 then do {
       printf_step ''${RELOAD} Mode: targeted CCD Migration (Interval: %ds)'' [AInt interval];
       worker \<leftarrow> c_fork E load_payload;
       if worker < 0 then ret ERR_IO
       else do {
         migrate E worker (nat interval) k;
         stop_worker E worker;
         printf_step ''${ALRIGHT} Compute stress engine gracefully stopped.'' [];
         ret 0
       }
     } else do {
       printf_step ''${STOPSIGN} Mode: Total CCD Saturation (100%% All Cores)'' [];
       workers \<leftarrow> fork_workers E (min 128 total_cores);
       forM [0..<k] (\<lambda>_. do { c_nanosleep E 0 500000000; ret () });
       forM workers (stop_worker E);
       printf_step ''${ALRIGHT} Compute stress engine gracefully stopped.'' [];
       ret 0
     }
   }"

subsection \<open>The processes it starts, signals and waits for\<close>

datatype process_op = Forked int | Signalled int int | Waited int

definition process_ops :: "event list \<Rightarrow> process_op list" where
  "process_ops t = List.map_filter (\<lambda>e. case e of
      Sys (SysFork c) r \<Rightarrow> Some (Forked (s32 (ret_of r)))
    | Sys (SysKill p sg) r \<Rightarrow> Some (Signalled p sg)
    | Sys (SysWait p) r \<Rightarrow> Some (Waited p)
    | _ \<Rightarrow> None) t"

text \<open>\<open>spawns m Q\<close>: \<open>m\<close> only extends the trace, and \<open>Q\<close> relates its result to the operations on processes in the extension.\<close>

definition spawns :: "('w, 'a) m \<Rightarrow> ('a \<Rightarrow> process_op list \<Rightarrow> bool) \<Rightarrow> bool" where
  "spawns m Q \<longleftrightarrow> (\<forall>s. \<exists>t. trace (exec m s) = trace s @ t \<and> Q (result m s) (process_ops t))"

lemma process_ops_simps [simp]:
  "process_ops [] = []" "process_ops (t @ u) = process_ops t @ process_ops u"
  "process_ops [Out f fmt as] = []" "process_ops [Sys (SysFork c) r] = [Forked (s32 (ret_of r))]"
  "process_ops [Sys (SysKill p sg) r] = [Signalled p sg]" "process_ops [Sys (SysWait p) r] = [Waited p]"
  "process_ops [Sys (SysOpen a b d) r] = []" "process_ops [Sys (SysWrite fd v) r] = []" "process_ops [Sys (SysClose fd) r] = []"
  "process_ops [Sys (SysNanosleep i j) r] = []" "process_ops [Sys (SysSigaction sg) r] = []"
  by (simp_all add: process_ops_def map_filter_def)

lemma spawns_bind:
  assumes "spawns m R" "\<And>x t. R x t \<Longrightarrow> spawns (k x) (\<lambda>y u. Q y (t @ u))"
  shows "spawns (State_Monad.bind m k) Q"
  unfolding spawns_def
proof
  fix s
  from assms(1) obtain t where t: "trace (exec m s) = trace s @ t" "R (result m s) (process_ops t)"
    unfolding spawns_def by blast
  from assms(2) [OF t(2)] obtain u where "trace (exec (k (result m s)) (exec m s)) = trace (exec m s) @ u"
    "Q (result (k (result m s)) (exec m s)) (process_ops t @ process_ops u)"
    unfolding spawns_def by blast
  with t show "\<exists>t. trace (exec (State_Monad.bind m k) s) = trace s @ t \<and> Q (result (State_Monad.bind m k) s) (process_ops t)"
    by (auto simp: exec_bind result_bind simp del: run_state_bind intro!: exI [of _ "t @ u"])
qed

lemma spawns_ret: "Q x [] \<Longrightarrow> spawns (ret x) Q"
  by (simp add: spawns_def)

text \<open>Fragments without operations on processes.\<close>

abbreviation spawns_none :: "('w, 'a) m \<Rightarrow> bool" where
  "spawns_none m \<equiv> spawns m (\<lambda>_ t. t = [])"

lemma spawns_then: "spawns_none m \<Longrightarrow> (\<And>x. spawns (k x) Q) \<Longrightarrow> spawns (State_Monad.bind m k) Q"
  by (rule spawns_bind [where R = "\<lambda>_ t. t = []"]) auto

lemma spawns_weaken: "spawns m R \<Longrightarrow> (\<And>x t. R x t \<Longrightarrow> Q x t) \<Longrightarrow> spawns m Q"
  unfolding spawns_def by blast

lemma spawns_none_basic:
  "spawns_none (out f fmt as)" "spawns_none (c_open E a b d)" "spawns_none (c_write E fd v)" "spawns_none (c_close E fd)"
  "spawns_none (c_nanosleep E i j)" "spawns_none (c_sigaction E sg)"
  by (auto simp: spawns_def run_out c_open_def c_write_def c_close_def c_nanosleep_def c_sigaction_def run_sys_int run_sys_errno Let_def)

lemma spawns_none_forM: "(\<And>x. spawns_none (f x)) \<Longrightarrow> spawns_none (forM xs f)"
  by (induction xs) (auto intro: spawns_then spawns_ret)

lemma spawns_none_if: "spawns_none m \<Longrightarrow> spawns_none m' \<Longrightarrow> spawns_none (if b then m else m')"
  by simp

lemmas spawns_none_rules = spawns_none_basic spawns_none_forM spawns_none_if spawns_then spawns_ret

lemma spawns_none_partition: "spawns_none (affinity_partition E pid part)"
  unfolding affinity_partition_def affinity_default_def cgroup_write_pid_def write_node_def
  by (intro spawns_none_rules) simp_all

lemma spawns_none_naps: "spawns_none (naps E interval k)"
  unfolding naps_def by (intro spawns_none_rules) simp

lemma spawns_none_migrate: "spawns_none (migrate E worker interval k)"
proof (induction E worker interval k rule: migrate.induct)
  case (1 E worker interval k)
  show ?case
    using "1.IH" unfolding migrate.simps [of E worker interval k] Let_def
    by (intro spawns_none_if) (auto intro!: spawns_then spawns_none_basic spawns_none_partition spawns_none_naps spawns_ret)
qed

lemma spawns_fork: "spawns (c_fork E c) (\<lambda>p t. t = [Forked p])"
  by (auto simp: spawns_def c_fork_def run_sys Let_def)

lemma spawns_stop: "spawns (stop_worker E p) (\<lambda>_ t. t = [Signalled p SIGTERM, Waited p])"
proof -
  have "spawns (c_kill E p SIGTERM) (\<lambda>_ t. t = [Signalled p SIGTERM])" "spawns (c_waitpid E p) (\<lambda>_ t. t = [Waited p])"
    by (auto simp: spawns_def c_kill_def c_waitpid_def run_sys_int run_sys Let_def)
  then show ?thesis
    unfolding stop_worker_def by (auto intro!: spawns_bind spawns_ret elim!: spawns_bind)
qed

lemma spawns_workers: "spawns (fork_workers E n) (\<lambda>ps t. length ps = n \<and> t = map Forked ps)"
proof (induction n)
  case (Suc n)
  show ?case
    unfolding fork_workers.simps
    by (rule spawns_bind [OF spawns_fork], rule spawns_bind [OF Suc.IH], rule spawns_ret) auto
qed (simp add: spawns_ret)

lemma spawns_stop_all: "spawns (forM ps (stop_worker E)) (\<lambda>_ t. t = concat (map (\<lambda>p. [Signalled p SIGTERM, Waited p]) ps))"
proof (induction ps)
  case (Cons p ps)
  show ?case
    unfolding forM.simps by (rule spawns_bind [OF spawns_stop], rule spawns_weaken [OF Cons.IH]) simp
qed (simp add: spawns_ret)

text \<open>The two modes.\<close>

definition stopped_one :: "int \<Rightarrow> process_op list \<Rightarrow> bool" where
  "stopped_one r ops \<longleftrightarrow>
     (\<exists>p. if p < 0 then r = ERR_IO \<and> ops = [Forked p] else r = 0 \<and> ops = [Forked p, Signalled p SIGTERM, Waited p])"

definition stopped_all :: "int \<Rightarrow> process_op list \<Rightarrow> bool" where
  "stopped_all r ops \<longleftrightarrow> r = 0 \<and>
     (\<exists>ps. length ps = 16 \<and> ops = map Forked ps @ concat (map (\<lambda>p. [Signalled p SIGTERM, Waited p]) ps))"

lemma spawns_stress:
  "spawns (cli_stress_cpu E k argv)
     (if 0 < stress_interval (drop 2 argv) 0 then stopped_one else stopped_all)"
proof -
  have last: "spawns (do { printf_step f []; ret 0 } :: ('w, int) m) (\<lambda>r t. r = 0 \<and> t = [])" for f
    by (intro spawns_then spawns_none_basic spawns_ret) simp
  have one: "spawns (do { stop_worker E p; printf_step f []; ret 0 }) (\<lambda>r t. stopped_one r (Forked p # t))" if "\<not> p < 0" for p f
    by (rule spawns_bind [OF spawns_stop], rule spawns_weaken [OF last]) (use that in \<open>auto simp: stopped_one_def intro!: exI [of _ p]\<close>)
  have all: "spawns (do { forM [0..<k] (\<lambda>_. do { c_nanosleep E 0 500000000; ret () }); forM ps (stop_worker E); printf_step f []; ret 0 })
      (\<lambda>r t. stopped_all r (map Forked ps @ t))" if "length ps = 16" for ps f
    by (rule spawns_then, intro spawns_none_rules, simp, rule spawns_bind [OF spawns_stop_all], rule spawns_weaken [OF last])
      (use that in \<open>auto simp: stopped_all_def intro!: exI [of _ ps]\<close>)
  have mig: "spawns (do { w \<leftarrow> c_fork E load_payload;
      if w < 0 then ret ERR_IO
      else do { migrate E w i k; stop_worker E w; printf_step f []; ret 0 } }) stopped_one" for i f
  proof (rule spawns_bind [OF spawns_fork])
    fix p t assume "t = [Forked p]"
    then show "spawns (if p < 0 then ret ERR_IO else do { migrate E p i k; stop_worker E p; printf_step f []; ret 0 })
        (\<lambda>r u. stopped_one r (t @ u))"
      using spawns_then [OF spawns_none_migrate one [of p f]]
      by (cases "p < 0") (auto intro!: spawns_ret simp: stopped_one_def intro: exI [of _ p])
  qed
  have sat: "spawns (do { ps \<leftarrow> fork_workers E 16; forM [0..<k] (\<lambda>_. do { c_nanosleep E 0 500000000; ret () });
      forM ps (stop_worker E); printf_step f []; ret 0 }) stopped_all" for f
    by (rule spawns_bind [OF spawns_workers]) (use all in auto)
  show ?thesis
    unfolding cli_stress_cpu_def Let_def
    by (rule spawns_then [OF spawns_none_basic(1)], rule spawns_then [OF spawns_none_basic(6)], rule spawns_then [OF spawns_none_basic(6)])
      (auto intro!: spawns_then [OF spawns_none_basic(1)] mig sat)
qed

lemma since_spawns: "spawns m Q \<Longrightarrow> Q (result m s) (process_ops (since s (exec m s)))"
  unfolding spawns_def since_def by (metis append_eq_conv_conj)

text \<open>
  The load generator stops what it started: in the migrating mode its one worker is signalled and waited for, unless it could not be
  forked; in the saturating mode every result of its sixteen forks is signalled with \<^verbatim>\<open>SIGTERM\<close> and waited for, once, in order, and no other
  process is. The results of failed forks are among them.
\<close>

theorem stress_stops_workers:
  "let r = result (cli_stress_cpu E k argv) s; ops = process_ops (since s (exec (cli_stress_cpu E k argv) s))
   in if 0 < stress_interval (drop 2 argv) 0
      then \<exists>p. if p < 0 then r = ERR_IO \<and> ops = [Forked p] else r = 0 \<and> ops = [Forked p, Signalled p SIGTERM, Waited p]
      else r = 0 \<and> (\<exists>ps. length ps = 16 \<and> ops = map Forked ps @ concat (map (\<lambda>p. [Signalled p SIGTERM, Waited p]) ps))"
  using since_spawns [OF spawns_stress [of E k argv], of s]
  by (cases "0 < stress_interval (drop 2 argv) 0") (simp_all add: Let_def stopped_one_def stopped_all_def)

text \<open>
  A fork that fails leaves its negative error code in the table of workers, and \<^verbatim>\<open>kill\<close> of a negative number signals a whole process group.
\<close>

lemma stress_signals_group:
  assumes "\<not> 0 < stress_interval (drop 2 argv) 0" "Forked p \<in> set (process_ops (since s (exec (cli_stress_cpu E k argv) s)))"
  shows "Signalled p SIGTERM \<in> set (process_ops (since s (exec (cli_stress_cpu E k argv) s)))"
  using since_spawns [OF spawns_stress [of E k argv], of s] assms by (auto simp: stopped_all_def)

end
