(* ===== verification/Client.thy ===== *)
theory Client
  imports Commands Irq Stress
begin

section \<open>Diagnostics, launcher and dispatch of the command line tool\<close>

text \<open>
  The rest of the client: diagnostics (\<^verbatim>\<open>src/daemon/diag.c\<close>), status views (\<^verbatim>\<open>src/cli/dialog.c\<close>), the launcher
  (\<^verbatim>\<open>src/run.c\<close>), the miscellaneous commands (\<^verbatim>\<open>src/cli/misc.c\<close>), the command table (\<^verbatim>\<open>src/cli/cli.c\<close>) and the entry point
  (\<^verbatim>\<open>src/toggle.c\<close>). Function pointers of the table are the constructors of \<open>handler\<close>. The monitor repaints for ever and is
  bounded by \<open>k\<close> rounds; the reads of \<^verbatim>\<open>/proc\<close> by \<open>n\<close>, as in the detection.
\<close>

subsection \<open>Diagnostics\<close>

definition diag_ebpf :: "'w env \<Rightarrow> ('w, string) m" where
  "diag_ebpf E = do {
     let p1 = printf_sn E 128 ''%s/bpf.o'' [AStr USR_LIBS];
     a1 \<leftarrow> c_access E p1 F_OK;
     if a1 \<noteq> 0 then do {
       let p2 = printf_sn E 128 ''%s/bpf.o'' [AStr ''/var/lib/x3d-toggle''];
       a2 \<leftarrow> c_access E p2 F_OK;
       if a2 \<noteq> 0 then do {
         a3 \<leftarrow> c_access E ''build/bpf.o'' F_OK;
         ret (if a3 \<noteq> 0 then ''MISSING (.O NOT FOUND)'' else ''HEALTHY (DEV BUILD)'')
       } else do {
         r \<leftarrow> c_access E p2 R_OK;
         ret (if r \<noteq> 0 then ''INACCESSIBLE (PERMISSION DENIED)'' else ''HEALTHY'')
       }
     } else do {
       r \<leftarrow> c_access E p1 R_OK;
       ret (if r \<noteq> 0 then ''INACCESSIBLE (PERMISSION DENIED)'' else ''HEALTHY'')
     }
   }"

definition diag_restore :: "'w env \<Rightarrow> ('w, unit) m" where
  "diag_restore E = do { cppc_restore E; cli_set_dual E; ret () }"

definition diag_failsafe :: "'w env \<Rightarrow> int \<Rightarrow> ('w, unit) m" where
  "diag_failsafe E sg = do {
     syslog E LOG_CRIT ''FATAL: Emergency Failsafe Triggered by signal %d. Restoring hardware state...'' [AInt sg];
     cppc_restore E;
     diag_restore E
   }"

text \<open>What a forked child prints before it starts its program, or when it cannot, is not part of its record.\<close>

definition tool_child :: "'w env \<Rightarrow> string \<Rightarrow> string list \<Rightarrow> string list \<Rightarrow> child" where
  "tool_child E script args env =
     \<lparr>c_redirect = False, c_path = ''/usr/bin/sh'',
      c_argv = [''/usr/bin/sh'', printf_sn E 128 (''%s/scripts/tools/'' @ script) [AStr USR_LIBS]] @ args, c_env = env, c_fail = 1\<rparr>"

text \<open>Fork, wait, and the code of the exit status.\<close>

definition run_tool :: "'w env \<Rightarrow> child \<Rightarrow> ('w, unit) m \<Rightarrow> ('w, int) m" where
  "run_tool E ch no_fork = do {
     pid \<leftarrow> c_fork E ch;
     if pid > 0 then do { st \<leftarrow> c_waitpid E pid; ret (if exit_ok (snd st) then ERR_SUCCESS else ERR_IO) }
     else do { no_fork; ret ERR_IO }
   }"

definition fork_failed :: "'w env \<Rightarrow> ('w, unit) m" where
  "fork_failed E = do { c_write E 2 (''X3D Error: fork failed'' @ [NL]); ret () }"

definition cli_diag_linter :: "'w env \<Rightarrow> string list \<Rightarrow> ('w, int) m" where
  "cli_diag_linter E argv = do {
     printf_step ''${SEARCH} Initiating Project Audit: Launching automated linter suite...'' [];
     run_tool E (tool_child E ''linter.sh'' [] []) (fork_failed E)
   }"

definition launch_debug_observer :: "'w env \<Rightarrow> ('w, unit) m" where
  "launch_debug_observer E = do {
     c_fork E \<lparr>c_redirect = False, c_path = ''/bin/sh'',
       c_argv = [''/bin/sh'', ''/usr/lib/x3d-toggle/scripts/tools/debug.sh''], c_env = [], c_fail = 1\<rparr>;
     ret ()
   }"

definition cli_diag_debug :: "'w env \<Rightarrow> string list \<Rightarrow> ('w, int) m" where
  "cli_diag_debug E argv = do {
     printf_step ''${SEARCH} Launching MVC Observer: Initializing real-time daemon and eBPF event monitor...'' [];
     run_tool E (tool_child E ''debug.sh'' [] []) (fork_failed E)
   }"

definition journal_flag :: "string \<Rightarrow> string" where
  "journal_flag sub =
     (if strcmp sub ''journal-log'' = 0 then ''--log''
      else if strcmp sub ''journal-audit'' = 0 then ''--audit''
      else if strcmp sub ''journal-coredump'' = 0 then ''--coredump'' else ''--all'')"

definition cli_diag_journal :: "'w env \<Rightarrow> string list \<Rightarrow> ('w, int) m" where
  "cli_diag_journal E argv =
     (if length argv < 3 \<or> strcmp (argv ! 2) ''-rotate'' \<noteq> 0
      then usage_error E ERR_SYNTAX [AStr ''Usage: x3d-toggle journal-[type] -rotate'']
      else do {
        let flag = journal_flag (argv ! 1);
        printf_step ''${WIPE} Initiating modular rotation of journals: %s...'' [AStr flag];
        run_tool E (tool_child E ''rotate.sh'' [flag] [''X3D_EXEC=1'']) (ret ())
      })"

definition cli_diag_archive :: "'w env \<Rightarrow> string list \<Rightarrow> ('w, int) m" where
  "cli_diag_archive E argv = do {
     printf_step ''${PACKAGE} Finalizing diagnostics: Zipping all current session data...'' [];
     run_tool E (tool_child E ''archive.sh'' [] [''X3D_EXEC=1'']) (ret ())
   }"

definition cli_diag_dump :: "'w env \<Rightarrow> string list \<Rightarrow> ('w, int) m" where
  "cli_diag_dump E argv = run_tool E (tool_child E ''coredump.sh'' [arg_or argv 2 ''none''] [''X3D_EXEC=1'']) (ret ())"

definition rotate_flag :: "string \<Rightarrow> string" where
  "rotate_flag sub =
     (if strcmp sub ''rotate-log'' = 0 then ''--log'' else if strcmp sub ''rotate-audit'' = 0 then ''--audit'' else ''--all'')"

definition cli_diag_rotate :: "'w env \<Rightarrow> string list \<Rightarrow> ('w, int) m" where
  "cli_diag_rotate E argv = do {
     let flag = rotate_flag (argv ! 1);
     printf_step ''${WIPE} Initiating modular rotation of logs: %s...'' [AStr flag];
     run_tool E (tool_child E ''rotate.sh'' [flag] [''X3D_EXEC=1'']) (ret ())
   }"

subsection \<open>The game launcher\<close>

text \<open>
  The child replaces itself by the game, which \<^verbatim>\<open>execvp\<close> searches along \<^verbatim>\<open>PATH\<close>; \<open>game_child\<close> is its block, and the record that the fork
  carries names the program as it was typed.
\<close>

definition game_child :: "'w env \<Rightarrow> string list \<Rightarrow> ('w, unit) m" where
  "game_child E args = do {
     execvp E (hd args) args;
     journal_error E ERR_IO [AStr (hd args)];
     c_exit E 1
   }"

definition WIFSIGNALED :: "int \<Rightarrow> bool" where "WIFSIGNALED st \<longleftrightarrow> st mod 128 \<noteq> 0 \<and> st mod 128 \<noteq> 127"
definition WTERMSIG :: "int \<Rightarrow> int" where "WTERMSIG st = st mod 128"

definition report_exit :: "int \<Rightarrow> ('w, unit) m" where
  "report_exit st =
     (if WIFEXITED st then
        (if WEXITSTATUS st = 0 then printf_step ''${ALRIGHT} Game process terminated successfully.'' []
         else printf_step ''${XOUT} Game process exited with code %d.'' [AInt (WEXITSTATUS st)])
      else if WIFSIGNALED st then printf_step ''${WARN} Game process killed by signal %d.'' [AInt (WTERMSIG st)]
      else ret ())"

definition launch_game :: "'w env \<Rightarrow> string list \<Rightarrow> ('w, int) m" where
  "launch_game E args = do {
     printf_step ''${HAMMER} Initiating Game Launcher: %s'' [AStr (hd args)];
     socket_cmd E ''SET_WRAPPER 1'';
     c_udelay E 1000;
     env \<leftarrow> gets environ;
     pid \<leftarrow> c_fork E \<lparr>c_redirect = False, c_path = hd args, c_argv = args, c_env = env, c_fail = 1\<rparr>;
     if pid < 0 then do { journal_error E ERR_IO [AStr ''Failed to fork for game execution'']; ret ERR_IO }
     else do {
       st \<leftarrow> c_waitpid E pid;
       socket_cmd E ''SET_WRAPPER 0'';
       report_exit (snd st);
       ret ERR_SUCCESS
     }
   }"

definition run_game :: "'w env \<Rightarrow> string list \<Rightarrow> ('w, int) m" where
  "run_game E argv =
     (if length argv < 2 then usage_error E ERR_SYNTAX [AStr ''Usage: x3d-run [CMD] [ARGS...]'']
      else let args = drop (if strcmp (argv ! 1) ''run'' = 0 then 2 else 1) argv
           in if args = [] then usage_error E ERR_SYNTAX [AStr ''Usage: x3d-run [CMD] [ARGS...]'']
              else launch_game E args)"

subsection \<open>Status views\<close>

text \<open>A macro of the generated header: the entry of the symbol table with its name.\<close>

definition macro :: "'w env \<Rightarrow> string \<Rightarrow> string" where
  "macro E name = (case map_of (xui_symbols E) name of None \<Rightarrow> [] | Some v \<Rightarrow> v)"

definition icon_text :: "'w env \<Rightarrow> icon \<Rightarrow> string" where
  "icon_text E i = macro E (case i of
     QUERY \<Rightarrow> ''QUERY'' | CACHED \<Rightarrow> ''CACHED'' | FREQU \<Rightarrow> ''FREQU'' | CHICKEN \<Rightarrow> ''CHICKEN'' | HUT \<Rightarrow> ''HUT'' | PINNED \<Rightarrow> ''PINNED''
   | TOPSWAP \<Rightarrow> ''TOPSWAP'' | DUALIZE \<Rightarrow> ''DUALIZE'' | STOPSIGN \<Rightarrow> ''STOPSIGN'' | MANUAL \<Rightarrow> ''MANUAL'' | XOUT \<Rightarrow> ''XOUT'' | PADLOCK \<Rightarrow> ''PADLOCK'')"

text \<open>Is a monitor running? The arguments in a \<^verbatim>\<open>cmdline\<close> are separated by NUL bytes, which become blanks.\<close>

definition blank_args :: "string \<Rightarrow> string" where
  "blank_args d = cstr (map (\<lambda>c. if c = NUL then CHR '' '' else c) (butlast d) @ [last d])"

definition is_monitor :: "'w env \<Rightarrow> string \<Rightarrow> ('w, bool) m" where
  "is_monitor E d_name = do {
     cfd \<leftarrow> c_open E (printf_sn E 256 ''/proc/%s/cmdline'' [AStr d_name]) O_RDONLY 0;
     if cfd \<ge> 0 then do {
       nd \<leftarrow> c_read E cfd 255;
       c_close E cfd;
       ret (fst nd > 0 \<and> has (blank_args (snd nd)) ''x3d-toggle monitor'')
     } else ret False
   }"

fun monitor_entries :: "'w env \<Rightarrow> string list \<Rightarrow> ('w, bool) m" where
  "monitor_entries E [] = ret False"
| "monitor_entries E (d # ds) =
     (if d \<noteq> [] \<and> is_digit (hd d) then do {
        found \<leftarrow> is_monitor E d;
        if found then ret True else monitor_entries E ds
      } else monitor_entries E ds)"

fun dialog_loop :: "'w env \<Rightarrow> nat \<Rightarrow> int \<Rightarrow> ('w, bool option) m" where
  "dialog_loop E 0 fd = ret None"
| "dialog_loop E (Suc n) fd = do {
     ns \<leftarrow> c_getdents64 E fd 4096;
     if ns = [] then do { c_close E fd; ret (Some False) }
     else do {
       found \<leftarrow> monitor_entries E ns;
       if found then do { c_close E fd; ret (Some True) } else dialog_loop E n fd
     }
   }"

definition dialog_open :: "'w env \<Rightarrow> nat \<Rightarrow> ('w, bool option) m" where
  "dialog_open E n = do {
     fd \<leftarrow> c_open E ''/proc'' O_RDONLY 0;
     if fd < 0 then ret (Some False) else dialog_loop E n fd
   }"

text \<open>One repaint. \<^verbatim>\<open>daemon_status\<close> always succeeds. A negative interval, which the kernel rejects, does not sleep.\<close>

definition monitor_round :: "'w env \<Rightarrow> ('w, unit) m" where
  "monitor_round E = do {
     st \<leftarrow> daemon_status E;
     c_write E 1 ([CHR 0x1B] @ ''[H'' @ [CHR 0x1B] @ ''[2J'');
     out ''printf_br'' [] [];
     bpf_health \<leftarrow> diag_ebpf E;
     printf_step ''${COLOR_CYAN}%s${COLOR_RESET}  Daemon Status:  ${COLOR_CYAN}%s'' [AStr (icon_text E (sv_d_icon st)), AStr (sv_d_mode st)];
     printf_step ''${TOOLS}  IPC Status:     ${COLOR_CYAN}%s'' [AStr (sv_ipc_status st)];
     printf_step ''${SCHED}  eBPF Health:    ${COLOR_CYAN}%s'' [AStr bpf_health];
     printf_step ''${SCHED}  Scheduler Mode: ${COLOR_CYAN}%s'' [AStr (sv_ebpf_status st)];
     printf_step ''==========================================='' [];
     printf_step ''${COLOR_CYAN}%s  v-Cache Mode:   ${COLOR_CYAN}%s'' [AStr (icon_text E (sv_c_icon st)), AStr (sv_c_mode st)];
     printf_step ''${BOOST}  Boost Mode:     ${COLOR_CYAN}%s'' [AStr (sv_st_buff st)];
     printf_step ''${COLOR_CYAN}%s  CCD State:      ${COLOR_CYAN}%s'' [AStr (icon_text E (sv_ccd_icon st)), AStr (sv_ccd_state st)];
     out ''printf_br'' [] [];
     printf_step ''${CCD0}  CCD0 Status:    ${COLOR_CYAN}%s'' [AStr (sv_st_buff_ccd0 st)];
     printf_step ''${CCD1}  CCD1 Status:    ${COLOR_CYAN}%s'' [AStr (sv_st_buff_ccd1 st)];
     printf_step ''==========================================='' [];
     printf_step ''${DRIVER}  Driver Mode:    ${COLOR_CYAN}%s'' [AStr (sv_d_buff st)];
     printf_step ''${EPP}  EPP Profile:    ${COLOR_CYAN}%s'' [AStr (sv_epp st)];
     printf_step ''${GOV}  Governor:       ${COLOR_CYAN}%s'' [AStr (sv_gov st)];
     out ''printf_br'' [] [];
     printf_step ''${SMT}  SMT Status:     ${COLOR_CYAN}%s'' [AStr (sv_smt st)];
     printf_step ''${PLAT}  Platform:       ${COLOR_CYAN}%s'' [AStr (sv_plat st)];
     out ''printf_br'' [] [];
     printf_step ''2,${COLOR_DIM}(Heartbeat: %.1fs)'' [ADbl (sv_refresh st)];
     c_nanosleep E (nat (rat_trunc (sv_refresh st))) (nat (rat_trunc (sv_refresh st * 1000000000) mod 1000000000));
     ret ()
   }"

fun monitor_loop :: "'w env \<Rightarrow> nat \<Rightarrow> ('w, int option) m" where
  "monitor_loop E 0 = ret None"
| "monitor_loop E (Suc k) = do { monitor_round E; monitor_loop E k }"

text \<open>The configuration is loaded into a local variable that nothing reads.\<close>

definition cli_status_monitor :: "'w env \<Rightarrow> nat \<Rightarrow> string list \<Rightarrow> ('w, int option) m" where
  "cli_status_monitor E k argv = do {
     global \<leftarrow> gets cfg;
     config_load E;
     modify (\<lambda>s. s\<lparr>cfg := global\<rparr>);
     c_write E 1 ([CHR 0x1B] @ ''[?25l'');
     monitor_loop E k
   }"

definition HTML_CYAN :: string where "HTML_CYAN = ''<font color=\"#00FFFF\">''"

definition cli_diag_status :: "'w env \<Rightarrow> string list \<Rightarrow> ('w, int) m" where
  "cli_diag_status E argv = do {
     let is_gui = list_ex (\<lambda>a. strcmp a ''--gui'' = 0) (drop 1 argv);
     buffer_set;
     st \<leftarrow> daemon_status E;
     html \<leftarrow> getenv ''X3D_XUI_HTML'';
     let cyan = fit 32 (if html \<noteq> None then HTML_CYAN else macro E ''COLOR_CYAN'');
     let br = (if html \<noteq> None then ''<br>'' else []);
     (if is_gui then printf_string ''<html><pre>'' [] else ret ());
     bpf_health \<leftarrow> diag_ebpf E;
     printf_step ''%s  Daemon Status:  %s%s%s'' [AStr (icon_text E (sv_d_icon st)), AStr cyan, AStr (sv_d_mode st), AStr br];
     printf_step ''%s  IPC Status:     %s%s%s'' [AStr (macro E ''TOOLS''), AStr cyan, AStr (sv_ipc_status st), AStr br];
     printf_step ''%s  eBPF Health:    %s%s%s'' [AStr (macro E ''SCHED''), AStr cyan, AStr (bpf_health), AStr br];
     printf_step ''%s  Scheduler Mode: %s%s%s'' [AStr (macro E ''SCHED''), AStr cyan, AStr (sv_ebpf_status st), AStr br];
     printf_step ''========================================'' [];
     printf_step ''%s  v-Cache Mode:   %s%s%s'' [AStr (icon_text E (sv_c_icon st)), AStr cyan, AStr (sv_c_mode st), AStr br];
     printf_step ''%s  Boost Mode:     %s%s%s'' [AStr (macro E ''BOOST''), AStr cyan, AStr (sv_st_buff st), AStr br];
     printf_step ''%s  CCD State:      %s%s%s'' [AStr (icon_text E (sv_ccd_icon st)), AStr cyan, AStr (sv_ccd_state st), AStr br];
     printf_step ''%s'' [AStr br];
     printf_step ''%s  CCD0 Status:    %s%s%s'' [AStr (macro E ''CCD0''), AStr cyan, AStr (sv_st_buff_ccd0 st), AStr br];
     printf_step ''%s  CCD1 Status:    %s%s%s'' [AStr (macro E ''CCD1''), AStr cyan, AStr (sv_st_buff_ccd1 st), AStr br];
     printf_step ''========================================'' [];
     printf_step ''%s  Driver Mode:    %s%s%s'' [AStr (macro E ''DRIVER''), AStr cyan, AStr (sv_d_buff st), AStr br];
     printf_step ''%s  EPP Profile:    %s%s%s'' [AStr (macro E ''EPP''), AStr cyan, AStr (sv_epp st), AStr br];
     printf_step ''%s  Governor:       %s%s%s'' [AStr (macro E ''GOV''), AStr cyan, AStr (sv_gov st), AStr br];
     printf_step ''%s'' [AStr br];
     printf_step ''%s  SMT Status:     %s%s%s'' [AStr (macro E ''SMT''), AStr cyan, AStr (sv_smt st), AStr br];
     printf_step ''%s  Platform:       %s%s%s'' [AStr (macro E ''PLAT''), AStr cyan, AStr (sv_plat st), AStr br];
     buffer_flush;
     (if is_gui then printf_string ''</pre></html>'' [] else ret ());
     ret ERR_SUCCESS
   }"

definition terminals :: "string list" where
  "terminals = [''konsole'', ''gnome-terminal'', ''xfce4-terminal'', ''alacritty'', ''kitty'', ''xterm'']"

definition search_paths :: "string list" where
  "search_paths = [''/usr/bin/'', ''/bin/'', ''/usr/local/bin/'']"

text \<open>The probe opens the program and does not close it.\<close>

fun find_terminal :: "'w env \<Rightarrow> (string \<times> string) list \<Rightarrow> ('w, string option) m" where
  "find_terminal E [] = ret None"
| "find_terminal E ((trm, dir) # cs) = do {
     fd \<leftarrow> c_open E (printf_sn E 128 ''%s%s'' [AStr dir, AStr trm]) O_RDONLY 0;
     if fd \<ge> 0 then ret (Some trm) else find_terminal E cs
   }"

definition terminal_args :: "string \<Rightarrow> string list" where
  "terminal_args trm =
     trm #
     (if strcmp trm ''konsole'' = 0 then [''--qwindowgeometry'', ''500x400'', ''--title'', ''X3D Status'', ''-e'']
      else if strcmp trm ''gnome-terminal'' = 0 then [''--title=X3D Status'', ''--geometry=50x15'', ''--'']
      else [''-T'', ''X3D Status'', ''-e'']) @ [''x3d-toggle'', ''monitor'', ''--loop'']"

definition lift_ret :: "('w, int) m \<Rightarrow> ('w, int option) m" where
  "lift_ret m = do { r \<leftarrow> m; ret (Some r) }"

definition cli_status_dialog :: "'w env \<Rightarrow> nat \<Rightarrow> nat \<Rightarrow> string list \<Rightarrow> ('w, int option) m" where
  "cli_status_dialog E n k argv =
     (if list_ex (\<lambda>a. strcmp a ''--loop'' = 0) argv then cli_status_monitor E k argv
      else do {
        opened \<leftarrow> dialog_open E n;
        case opened of
          None \<Rightarrow> ret None
        | Some True \<Rightarrow> do { journal_info E STATE_ACTIVE []; ret (Some ERR_SUCCESS) }
        | Some False \<Rightarrow> do {
            found \<leftarrow> find_terminal E [(trm, dir). trm \<leftarrow> terminals, dir \<leftarrow> search_paths];
            case found of
              None \<Rightarrow> lift_ret (cli_diag_status E argv)
            | Some trm \<Rightarrow> do {
                c_fork E \<lparr>c_redirect = False, c_path = printf_sn E 128 ''/usr/bin/%s'' [AStr trm],
                  c_argv = terminal_args trm, c_env = [], c_fail = 1\<rparr>;
                printf_step ''${ALRIGHT} Launching dynamic status monitor via %s...'' [AStr trm];
                ret (Some 0)
              }
          }
      })"

definition cli_status_owl :: "'w env \<Rightarrow> nat \<Rightarrow> nat \<Rightarrow> string list \<Rightarrow> ('w, int option) m" where
  "cli_status_owl E n k argv = cli_status_dialog E n k argv"

subsection \<open>Miscellaneous\<close>

definition insults :: "string list" where
  "insults =
     [''Wrong!  You cheating scum!'',
      ''And you call yourself a Rocket Scientist!'',
      ''Where did you learn to type?'',
      ''Are you on drugs?'',
      ''My pet ferret can type better than you!'',
      ''You type like i drive.'',
      ''Do you think like you type?'',
      (''Your mind just hasn'' @ [CHR 0x27] @ ''t been the same since the electro-shock, has it?''),
      (''Just what do you think you'' @ [CHR 0x27] @ ''re doing Dave?''),
      ''It can only be attributed to human error.'',
      (''That'' @ [CHR 0x27] @ ''s something I cannot allow to happen.''),
      ''My mind is going. I can feel it.'',
      (''Sorry about this, I know it'' @ [CHR 0x27] @ ''s a bit silly.''),
      ''Take a stress pill and think things over.'',
      ''This mission is too important for me to allow you to jeopardize it.'',
      ''I feel much better now.'',
      ''You silly, twisted boy you.'',
      ''He has fallen in the water!'',
      (''We'' @ [CHR 0x27] @ ''ll all be murdered in our beds!''),
      (''You can'' @ [CHR 0x27] @ ''t come in. Our tiger has got flu''),
      (''I don'' @ [CHR 0x27] @ ''t wish to know that.''),
      ''What, what, what, what, what, what, what, what, what, what?'',
      (''You can'' @ [CHR 0x27] @ ''t get the wood, you know.''),
      (''You'' @ [CHR 0x27] @ ''ll starve!''),
      ''... and it used to be so popular...'',
      ''Pauses for audience applause, not a sausage'',
      ''Hold it up to the light --- not a brain in sight!'',
      ''Have a gorilla...'',
      ''There must be cure for it!'',
      (''There'' @ [CHR 0x27] @ ''s a lot of it about, you know.''),
      ''You do that again and see what happens...'',
      ''Ying Tong Iddle I Po'',
      ''Harm can come to a young lad like that!'',
      ''And with that remark folks, the case of the Crown vs yourself was proven.'',
      ''Speak English you fool --- there are no subtitles in this scene.'',
      ''You gotta go owwwww!'',
      ''I have been called worse.'',
      (''It'' @ [CHR 0x27] @ ''s only your word against mine.''),
      (''I think ... err ... I think ... I think I'' @ [CHR 0x27] @ ''ll go home''),
      ''Maybe if you used more than just two fingers...'',
      ''BOB says:  You seem to have forgotten your passwd, enter another!'',
      ''stty: unknown mode: doofus'',
      (''I can'' @ [CHR 0x27] @ ''t hear you -- I'' @ [CHR 0x27] @ ''m using the scrambler.''),
      ''The more you drive -- the dumber you get.'',
      (''Listen, broccoli brains, I don'' @ [CHR 0x27] @ ''t have time to listen to this trash.''),
      (''I'' @ [CHR 0x27] @ ''ve seen penguins that can type better than that.''),
      ''Have you considered trying to match wits with a rutabaga?'',
      ''You speak an infinite deal of nothing'',
      ''That is no basis for supreme executive power!'',
      ''You empty-headed animal food trough wiper!'',
      ''I fart in your general direction!'',
      ''Your mother was a hamster and your father smelt of elderberries!'',
      ''You must cut down the mightiest tree in the forest... with... a herring!'',
      ''I wave my private parts at your aunties!'',
      (''He'' @ [CHR 0x27] @ ''s not the Messiah, he'' @ [CHR 0x27] @ ''s a very naughty boy!''),
      ''I wish to make a complaint.'',
      (''When you'' @ [CHR 0x27] @ ''re walking home tonight, and some homicidal maniac comes after you with a bunch of loganberries, don'' @ [CHR 0x27] @ ''t come crying to me!''),
      (''This man, he doesn'' @ [CHR 0x27] @ ''t know when he'' @ [CHR 0x27] @ ''s beaten! He doesn'' @ [CHR 0x27] @ ''t know when he'' @ [CHR 0x27] @ ''s ''),
      ''winning, either. He has no... sort of... sensory apparatus...'',
      (''There'' @ [CHR 0x27] @ ''s nothing wrong with you that an expensive operation can'' @ [CHR 0x27] @ ''t prolong.''),
      (''I'' @ [CHR 0x27] @ ''m very sorry, but I'' @ [CHR 0x27] @ ''m not allowed to argue unless you'' @ [CHR 0x27] @ ''ve paid.'')]"

text \<open>The generator is seeded by the clock at the first use, and a process uses it once.\<close>

definition get_insult :: "'w env \<Rightarrow> ('w, string) m" where
  "get_insult E = do {
     ts \<leftarrow> c_clock_gettime E CLOCK_REALTIME;
     ret (insults ! nat (fst (rand (word_of_int (fst ts))) mod int (length insults)))
   }"

definition printf_misc :: "'w env \<Rightarrow> ('w, unit) m" where
  "printf_misc E = do { t \<leftarrow> get_insult E; journal_error E ERR_CMD [AStr t] }"

definition scroll_utf8 :: string where "scroll_utf8 = [CHR 0xF0, CHR 0x9F, CHR 0x93, CHR 0x9C]"

definition cli_misc_insults :: "'w env \<Rightarrow> string list \<Rightarrow> ('w, int) m" where
  "cli_misc_insults E argv = do {
     out ''printf_divider'' [] [];
     out ''printf_center'' (scroll_utf8 @ '' X3D Toggle - The Great Book of Insults '' @ scroll_utf8) [];
     out ''printf_divider'' [] [];
     out ''printf_br'' [] [];
     forM (zip [1..int (length insults)] insults) (\<lambda>(i, t). printf_step ''[%2d] %s'' [AInt i, AStr t]);
     out ''printf_br'' [] [];
     out ''printf_divider'' [] [];
     out ''printf_center'' (''Use these wisely... Or don'' @ [CHR 0x27] @ ''t.'') [];
     out ''printf_divider'' [] [];
     ret 0
   }"

text \<open>An unknown command is looked up among the commented-out entries of the command table's source, if that is at hand.\<close>

definition upcoming :: "'w env \<Rightarrow> string \<Rightarrow> string \<Rightarrow> bool" where
  "upcoming E cmd_str buf =
     (let pattern = printf_sn E 128 ''{\"%s\"'' [AStr cmd_str]
      in list_ex (\<lambda>ln. has ln ''//'' \<and> has ln pattern) (c_lines buf))"

definition cli_misc_fallback :: "'w env \<Rightarrow> string list \<Rightarrow> ('w, int) m" where
  "cli_misc_fallback E argv =
     (if length argv < 2 then ret 1
      else do {
        let cmd_str = dropWhile (\<lambda>c. c = CHR ''-'') (argv ! 1);
        fd \<leftarrow> c_open E ''src/cli/cli.c'' O_RDONLY 0;
        known \<leftarrow> (if fd \<ge> 0 then do {
            nd \<leftarrow> c_read E fd 16383;
            c_close E fd;
            ret (fst nd > 0 \<and> upcoming E cmd_str (cstr (snd nd)))
          } else ret False);
        if known then do { out ''printf_upcoming'' ''%s'' [AStr cmd_str]; ret 0 }
        else do { printf_misc E; ret 1 }
      })"

definition cli_gui_log :: "'w env \<Rightarrow> string list \<Rightarrow> ('w, int) m" where
  "cli_gui_log E argv = do {
     (if length argv > 2 then journal_error E ERR_GUI [AStr (argv ! 2)] else ret ());
     ret 0
   }"

subsection \<open>The command table\<close>

datatype handler =
    H_daemon_enable | H_daemon_start | H_daemon_wake | H_daemon_sleep | H_daemon_stop
  | H_daemon_disable | H_mode_cache | H_mode_frequency | H_mode_dual | H_mode_swap
  | H_mode_auto | H_mode_reset | H_mode_default | H_config_interval | H_config_threshold
  | H_config_fallback | H_config_detection | H_config_polling | H_config_ebpf | H_config_server
  | H_config_add | H_config_remove | H_config_list | H_config_profile | H_config_sync
  | H_config_update | H_framework | H_config_generate | H_status_dialog | H_status_owl
  | H_diag_linter | H_diag_debug | H_diag_status | H_diag_rotate | H_diag_journal
  | H_diag_archive | H_diag_dump | H_cppc_perf | H_cppc_bal | H_cppc_eco
  | H_cppc_power | H_cppc_epp | H_cppc_raw | H_cppc_mode | H_cppc_target
  | H_cppc_governor | H_cppc_prefcore | H_misc_fallback | H_stress_cpu | H_misc_insults
  | H_scheduler_gaming | H_scheduler_balanced | H_irq_bind | H_irq_reset | H_irq_status
  | H_irq_udev | H_irq_watch | H_advanced_config | H_gui_log

definition cmd_table :: "(string \<times> handler \<times> string) list" where
  "cmd_table =
     [(''enable'', H_daemon_enable, ''Soft Wake: Start daemon (no autostart)''),
      (''start'', H_daemon_start, ''Hard Wake: Start daemon and enable autostart''),
      (''wake'', H_daemon_wake, ''Poke: Refresh state loop via IPC to active status''),
      (''sleep'', H_daemon_sleep, ''Firm Sleep: Suspend daemon logic loop to sleep status''),
      (''stop'', H_daemon_stop, ''Terminate: Kill daemon process gracefully''),
      (''disable'', H_daemon_disable, ''Unregister: Stop and remove autostart rules''),
      (''elk'', H_daemon_enable, ''Alias for enable/default''),
      (''rooster'', H_daemon_wake, ''Alias for wake''),
      (''pause'', H_daemon_sleep, ''Alias for sleep''),
      (''koala'', H_daemon_sleep, ''Alias for sleep''),
      (''loris'', H_daemon_stop, ''Alias for stop''),
      (''sloth'', H_daemon_disable, ''Alias for disable''),
      (''sonic'', H_daemon_start, ''Alias for start''),
      (''cache'', H_mode_cache, ''Force CCD0: Prioritize 3D V-Cache, suspending daemon''),
      (''frequency'', H_mode_frequency, ''Force CCD1: Prioritize frequency cores, suspending daemon''),
      (''dual'', H_mode_dual, ''Unpark all: Maximize throughput across CCDs, suspending daemon''),
      (''swap'', H_mode_swap, ''Invert Priority: Dynamically flip preferred core tags, suspending daemon''),
      (''auto'', H_mode_auto, ''Hard Reset: Restore base CPPC states, removing daemon from autostart and terminating current session''),
      (''reset'', H_mode_reset, ''Restore/Reprobe: Revert to autonomous daemon state by reloading current daemon configuration''),
      (''default'', H_mode_default, ''Soft Reset: Restore daemon default configuration and restart, but leave CPPC and v-cache alone''),
      (''rabbit'', H_mode_cache, ''Alias for cache''),
      (''cheetah'', H_mode_frequency, ''Alias for frequency''),
      (''bear'', H_mode_dual, ''Alias for dual''),
      (''chameleon'', H_mode_swap, ''Alias for swap''),
      (''moose'', H_mode_default, ''Alias for default''),
      (''elephant'', H_mode_reset, ''Alias for reset''),
      (''interval'', H_config_interval, ''Polling Rate: Adjust daemon evaluation loop frequency''),
      (''threshold'', H_config_threshold, ''Compute Load: Adjust background compute detection threshold''),
      (''fallback'', H_config_fallback, ''Baseline State: Hardware state with no active triggers''),
      (''detection'', H_config_detection, ''Detection Mode: Toggle between Polling and eBPF tracking for the task scheduler''),
      (''polling'', H_config_polling, ''Detection Mode: Disable eBPF and fall back to polling heuristics for task scheduler''),
      (''ebpf'', H_config_ebpf, ''Detection Mode: Enable eBPF tracker for Zero-Latency task scheduler''),
      (''server'', H_config_server, ''Dashboard Server: Set dashboard URL and Port''),
      (''add'', H_config_add, ''Watch: Append executable to trigger list''),
      (''remove'', H_config_remove, ''Ignore: Strip executable from trigger list''),
      (''list'', H_config_list, ''View: Output active monitored processes''),
      (''profile'', H_config_profile, ''Macro Management: Snapshot/load states to JSON/YAML''),
      (''sync'', H_config_sync, ''Persist: Flush session config to persistent storage''),
      (''update'', H_config_update, ''Rebuild: Regenerate /etc/x3d-toggle.d from edited settings.conf / games.conf''),
      (''tick'', H_config_interval, ''Alias for interval''),
      (''anchor'', H_config_fallback, ''Alias for fallback''),
      (''commit'', H_config_sync, ''Alias for sync''),
      (''bpf'', H_config_ebpf, ''Alias for ebpf''),
      (''framework'', H_framework, ''Orchestration: Access structural scaffolding and installation suite''),
      (''--gen-config'', H_config_generate, ''Hidden: Generate C-native topology configuration''),
      (''dialog'', H_status_dialog, ''Dynamic Monitor: Pop-out status window''),
      (''monitor'', H_status_dialog, ''Internal Loop: Refresh view, alias for dialog''),
      (''owl'', H_status_owl, ''Self-Contained Dashboard: Conditionally start daemon & monitor''),
      (''linter'', H_diag_linter, ''Developer Audit: Project-wide static and dynamic analysis scan''),
      (''debug'', H_diag_debug, ''MVC Observer: Real-time daemon and eBPF event monitor''),
      (''status'', H_diag_status, ''Echo Snapshot: Daemon state and IPC connections''),
      (''rotate-log'', H_diag_rotate, ''Clean: Truncate and compress standard logs''),
      (''rotate-audit'', H_diag_rotate, ''Clean: Truncate and compress audit records''),
      (''rotate-all'', H_diag_rotate, ''Clean: Truncate and compress all project logs''),
      (''journal-log'', H_diag_journal, ''Journal: Manage project activity logs''),
      (''journal-audit'', H_diag_journal, ''Journal: Manage diagnostic audits''),
      (''journal-coredump'', H_diag_journal, ''Journal: Manage service coredumps''),
      (''journal-all'', H_diag_journal, ''Journal: Manage all project logs''),
      (''journal-archive'', H_diag_archive, ''Archive: Mandatory session zipping (.gz)''),
      (''trim'', H_diag_rotate, ''Trim: Cleanup and retention management''),
      (''journal-dump'', H_diag_dump, ''Journal: Analyze service coredumps via coredumpctl''),
      (''hawk'', H_diag_status, ''Alias for status''),
      (''perf'', H_cppc_perf, ''Set EPP via IPC: Maximum Performance (0x0)''),
      (''bal'', H_cppc_bal, ''Set EPP via IPC: Balanced Performance''),
      (''eco'', H_cppc_eco, ''Set EPP via IPC: Balanced Power''),
      (''power'', H_cppc_power, ''Set EPP via IPC: Minimum Power (0xff)''),
      (''epp'', H_cppc_epp, ''Set EPP_CCD via IPC: Shift focus [CCD] [VAL]''),
      (''cppc-raw'', H_cppc_raw, ''Set RAW via IPC: Direct register write [VAL] [DEV]''),
      (''cppc-mode'', H_cppc_mode, ''Set PSTATE via IPC: Shift operational mode''),
      (''cppc-target'', H_cppc_target, ''Set CPPC via IPC: Apply desired performance target''),
      (''governor'', H_cppc_governor, ''Set GOVERNOR via IPC: Shift frequency scaling policy''),
      (''prefcore'', H_cppc_prefcore, ''Set PREFCORE via IPC: Toggle highest_perf hints''),
      (''fallback'', H_misc_fallback, ''Baseline State: Hardware state with no active triggers''),
      (''stress-cpu'', H_stress_cpu, ''Compute Load: Generate mock throughput load for validation''),
      (''insults'', H_misc_insults, ''The Great Book of Insults: View all funny failure messages''),
      (''bible'', H_misc_insults, ''Alias for insults''),
      (''sched-gaming'', H_scheduler_gaming, ''Scheduler: Tighten CFS to 3ms + BORE Shift 14''),
      (''sched-balanced'', H_scheduler_balanced, ''Scheduler: Restore 5ms CFS + BORE Shift 12''),
      (''irq-bind'', H_irq_bind, ''IRQ Affinity: Apply IRQ bindings from settings.conf''),
      (''irq-reset'', H_irq_reset, ''IRQ Affinity: Teardown all IRQ bindings and restore irqbalance''),
      (''irq-status'', H_irq_status, ''IRQ Affinity: Display current IRQ vector affinity map''),
      (''irq-udev'', H_irq_udev, ''IRQ Affinity: Regenerate 99-x3d-irq.rules udev ruleset''),
      (''irq-watch'', H_irq_watch, ''IRQ Affinity: Persistent loop to re-assert active bindings''),
      (''advanced'', H_advanced_config, ''Advanced Configuration: Get/Set system tunables''),
      (''gui-log'', H_gui_log, ''Internal: Log GUI errors'')]"

fun find_in :: "(string \<times> handler \<times> string) list \<Rightarrow> string \<Rightarrow> handler option" where
  "find_in [] name = None"
| "find_in ((nm, h, help) # cs) name = (if strcmp nm name = 0 then Some h else find_in cs name)"

definition find_command :: "string \<Rightarrow> handler option" where
  "find_command name = find_in cmd_table name"

text \<open>
  What the handlers need beyond the environment: the texts of the generated macros, the bounds, and the number of tests that the load
  generator makes before a signal stops it.
\<close>

record extras =
  x_txt :: "string \<Rightarrow> string"
  x_scan :: nat
  x_rounds :: nat
  x_tests :: nat

definition call_handler :: "'w env \<Rightarrow> extras \<Rightarrow> handler \<Rightarrow> string list \<Rightarrow> ('w, int option) m" where
  "call_handler E X h argv =
     (case h of
        H_daemon_enable \<Rightarrow> lift_ret (cli_daemon_enable E argv)
      | H_daemon_start \<Rightarrow> lift_ret (cli_daemon_start E argv)
      | H_daemon_wake \<Rightarrow> lift_ret (cli_daemon_wake E argv)
      | H_daemon_sleep \<Rightarrow> lift_ret (cli_daemon_sleep E argv)
      | H_daemon_stop \<Rightarrow> lift_ret (cli_daemon_stop E argv)
      | H_daemon_disable \<Rightarrow> lift_ret (cli_daemon_disable E argv)
      | H_mode_cache \<Rightarrow> lift_ret (cli_mode_cache E argv)
      | H_mode_frequency \<Rightarrow> lift_ret (cli_mode_frequency E argv)
      | H_mode_dual \<Rightarrow> lift_ret (cli_mode_dual E argv)
      | H_mode_swap \<Rightarrow> lift_ret (cli_mode_swap E argv)
      | H_mode_auto \<Rightarrow> lift_ret (cli_mode_auto E argv)
      | H_mode_reset \<Rightarrow> lift_ret (cli_mode_reset E argv)
      | H_mode_default \<Rightarrow> lift_ret (cli_mode_default E (x_txt X) argv)
      | H_config_interval \<Rightarrow> lift_ret (cli_config_interval E argv)
      | H_config_threshold \<Rightarrow> lift_ret (cli_config_threshold E argv)
      | H_config_fallback \<Rightarrow> lift_ret (cli_config_fallback E argv)
      | H_config_detection \<Rightarrow> lift_ret (cli_config_detection E argv)
      | H_config_polling \<Rightarrow> lift_ret (cli_config_polling E argv)
      | H_config_ebpf \<Rightarrow> lift_ret (cli_config_ebpf E argv)
      | H_config_server \<Rightarrow> lift_ret (cli_config_server E argv)
      | H_config_add \<Rightarrow> lift_ret (cli_config_add E argv)
      | H_config_remove \<Rightarrow> lift_ret (cli_config_remove E argv)
      | H_config_list \<Rightarrow> lift_ret (cli_config_list E argv)
      | H_config_profile \<Rightarrow> lift_ret (cli_config_profile E argv)
      | H_config_sync \<Rightarrow> lift_ret (cli_config_sync E argv)
      | H_config_update \<Rightarrow> lift_ret (cli_config_update E argv)
      | H_framework \<Rightarrow> lift_ret (cli_framework E argv)
      | H_config_generate \<Rightarrow> lift_ret (cli_config_generate E argv)
      | H_status_dialog \<Rightarrow> cli_status_dialog E (x_scan X) (x_rounds X) argv
      | H_status_owl \<Rightarrow> cli_status_owl E (x_scan X) (x_rounds X) argv
      | H_diag_linter \<Rightarrow> lift_ret (cli_diag_linter E argv)
      | H_diag_debug \<Rightarrow> lift_ret (cli_diag_debug E argv)
      | H_diag_status \<Rightarrow> lift_ret (cli_diag_status E argv)
      | H_diag_rotate \<Rightarrow> lift_ret (cli_diag_rotate E argv)
      | H_diag_journal \<Rightarrow> lift_ret (cli_diag_journal E argv)
      | H_diag_archive \<Rightarrow> lift_ret (cli_diag_archive E argv)
      | H_diag_dump \<Rightarrow> lift_ret (cli_diag_dump E argv)
      | H_cppc_perf \<Rightarrow> lift_ret (cli_cppc_perf E argv)
      | H_cppc_bal \<Rightarrow> lift_ret (cli_cppc_bal E argv)
      | H_cppc_eco \<Rightarrow> lift_ret (cli_cppc_eco E argv)
      | H_cppc_power \<Rightarrow> lift_ret (cli_cppc_power E argv)
      | H_cppc_epp \<Rightarrow> lift_ret (cli_cppc_epp E argv)
      | H_cppc_raw \<Rightarrow> lift_ret (cli_cppc_raw E argv)
      | H_cppc_mode \<Rightarrow> lift_ret (cli_cppc_mode E argv)
      | H_cppc_target \<Rightarrow> lift_ret (cli_cppc_target E argv)
      | H_cppc_governor \<Rightarrow> lift_ret (cli_cppc_governor E argv)
      | H_cppc_prefcore \<Rightarrow> lift_ret (cli_cppc_prefcore E argv)
      | H_misc_fallback \<Rightarrow> lift_ret (cli_misc_fallback E argv)
      | H_stress_cpu \<Rightarrow> lift_ret (cli_stress_cpu E (x_tests X) argv)
      | H_misc_insults \<Rightarrow> lift_ret (cli_misc_insults E argv)
      | H_scheduler_gaming \<Rightarrow> lift_ret (cli_scheduler_gaming E argv)
      | H_scheduler_balanced \<Rightarrow> lift_ret (cli_scheduler_balanced E argv)
      | H_irq_bind \<Rightarrow> lift_ret (do { r \<leftarrow> cli_irq_bind E irq_zero; ret (fst r) })
      | H_irq_reset \<Rightarrow> lift_ret (cli_irq_reset E irq_zero)
      | H_irq_status \<Rightarrow> lift_ret (cli_irq_status E irq_zero)
      | H_irq_udev \<Rightarrow> lift_ret (cli_irq_udev E irq_zero)
      | H_irq_watch \<Rightarrow> cli_irq_watch E irq_zero (x_rounds X)
      | H_advanced_config \<Rightarrow> lift_ret (cli_advanced_config E argv)
      | H_gui_log \<Rightarrow> lift_ret (cli_gui_log E argv))"

subsection \<open>Entry points\<close>

definition first_alias :: "nat \<Rightarrow> string" where
  "first_alias i =
     (case find (\<lambda>j. j \<noteq> i \<and> fst (snd (cmd_table ! i)) = fst (snd (cmd_table ! j))) [0..<length cmd_table] of
        None \<Rightarrow> [] | Some j \<Rightarrow> fit 64 (fst (cmd_table ! j)))"

definition printf_help :: "('w, unit) m" where
  "printf_help = do {
     out ''printf_br'' [] [];
     out ''printf_center'' ''X3D Toggle - Advanced CLI (IPC Enabled)'' [];
     out ''printf_center'' ''Usage: x3d-toggle [COMMAND|MODE] [ARGS...]'' [];
     out ''printf_center'' ''   or: x3d -[COMMAND|MODE] [ARGS...]'' [];
     out ''printf_br'' [] [];
     forM [0..<length cmd_table] (\<lambda>i.
       case cmd_table ! i of (name, h, help) \<Rightarrow>
         if has help ''Alias for'' then ret ()
         else do {
           (if i = 0 then printf_string ''Daemon Control:'' [] else ret ());
           (if i = 5 then printf_string ''Topology & Thread Management:'' [] else ret ());
           (if i = 12 then printf_string ''Configuration & Rulesets:'' [] else ret ());
           (if i = 22 then printf_string ''Diagnostics:'' [] else ret ());
           printf_string ''  %-12s  %-12s  %s'' [AStr name, AStr (first_alias i), AStr help]
         });
     out ''printf_br'' [] [];
     printf_string ''Options:'' [];
     printf_string ''  help, h, manual, book, instructions    Show this help message'' [];
     printf_string ''  -h, --h, -help, --help                 Show this help message'' [];
     out ''printf_br'' [] []
   }"

definition help_words :: "string list" where
  "help_words = [''-h'', ''--help'', ''-help'', ''help'', ''h'', ''--h'', ''manual'', ''book'', ''instructions'']"

definition toggle_main :: "'w env \<Rightarrow> extras \<Rightarrow> string list \<Rightarrow> ('w, int option) m" where
  "toggle_main E X argv =
     (if length argv < 2 then do { journal_error E ERR_USAGE []; ret (Some ERR_USAGE) }
      else if list_ex (\<lambda>w. strcmp (argv ! 1) w = 0) help_words then do { printf_help; ret (Some 0) }
      else if strcmp (argv ! 1) ''--gen-config'' = 0 then lift_ret (cli_config_generate E argv)
      else case find_command (argv ! 1) of
             Some h \<Rightarrow> call_handler E X h argv
           | None \<Rightarrow> lift_ret (cli_misc_fallback E argv))"

end
