(* ===== verification/Client_Facts.thy ===== *)
theory Client_Facts
  imports Client
begin

section \<open>What the client asks of the daemon\<close>

text \<open>
  The requests a run of the client sends, read off its trace: \<^verbatim>\<open>socket_send\<close> is the only place that sends with \<^verbatim>\<open>MSG_NOSIGNAL\<close>.
  \<open>tells m Q\<close> says that the result of \<open>m\<close> and the requests it sends are related by \<open>Q\<close>.
\<close>

definition requests :: "syscall list \<Rightarrow> string list" where
  "requests cs = List.map_filter (\<lambda>c. case c of SysSendto fd d fl p \<Rightarrow> if fl = MSG_NOSIGNAL then Some d else None | _ \<Rightarrow> None) cs"

lemma requests_append [simp]: "requests (cs @ ds) = requests cs @ requests ds"
  by (simp add: requests_def map_filter_def)

lemma requests_simps [simp]:
  "requests [] = []"
  "requests (c # cs) = (case c of SysSendto fd d fl p \<Rightarrow> if fl = MSG_NOSIGNAL then [d] else [] | _ \<Rightarrow> []) @ requests cs"
  by (simp_all add: requests_def map_filter_def split: syscall.split)

definition no_request :: "syscall \<Rightarrow> bool" where
  "no_request c \<longleftrightarrow> (case c of SysSendto fd d fl p \<Rightarrow> fl \<noteq> MSG_NOSIGNAL | _ \<Rightarrow> True)"

lemma no_requests: "list_all no_request cs \<Longrightarrow> requests cs = []"
  by (induction cs) (auto simp: no_request_def split: syscall.splits)

definition tells :: "('w, 'a) m \<Rightarrow> ('a \<Rightarrow> string list \<Rightarrow> bool) \<Rightarrow> bool" where
  "tells m Q \<longleftrightarrow> (\<forall>s. log_ok s \<longrightarrow> log_ok (exec m s) \<and>
     (\<exists>t. trace (exec m s) = trace s @ t \<and> Q (result m s) (requests (calls t))))"

lemma tells_bind:
  assumes "tells m R" "\<And>x ds. R x ds \<Longrightarrow> tells (k x) (\<lambda>y es. Q y (ds @ es))"
  shows "tells (State_Monad.bind m k) Q"
  unfolding tells_def
proof (intro allI impI)
  fix s :: "'a prog" assume s: "log_ok s"
  with assms(1) obtain t where t: "log_ok (exec m s)" "trace (exec m s) = trace s @ t" "R (result m s) (requests (calls t))"
    by (auto simp: tells_def)
  from assms(2) [OF t(3)] t(1) obtain u where "log_ok (exec (k (result m s)) (exec m s))"
    "trace (exec (k (result m s)) (exec m s)) = trace (exec m s) @ u"
    "Q (result (k (result m s)) (exec m s)) (requests (calls t) @ requests (calls u))"
    by (auto simp: tells_def)
  with t show "log_ok (exec (State_Monad.bind m k) s) \<and>
      (\<exists>t. trace (exec (State_Monad.bind m k) s) = trace s @ t \<and> Q (result (State_Monad.bind m k) s) (requests (calls t)))"
    by (auto simp: exec_bind result_bind simp del: run_state_bind intro!: exI [of _ "t @ u"])
qed

lemma tells_makes: "makes E no_request m \<Longrightarrow> (\<And>x. Q x []) \<Longrightarrow> tells m Q"
  unfolding tells_def makes_def makes_pq_def using no_requests by fastforce

lemma tells_quiet_then: "makes E no_request m \<Longrightarrow> (\<And>x. tells (k x) Q) \<Longrightarrow> tells (State_Monad.bind m k) Q"
  by (rule tells_bind [OF tells_makes [where Q = "\<lambda>x ds. ds = []"]]) auto

lemma tells_ret: "Q x [] \<Longrightarrow> tells (ret x) Q"
  by (simp add: tells_def)

lemma tells_if: "(b \<Longrightarrow> tells m Q) \<Longrightarrow> (\<not> b \<Longrightarrow> tells m' Q) \<Longrightarrow> tells (if b then m else m') Q"
  by simp

lemma no_request_log: "log_calls no_request"
  by (simp add: log_calls_def no_request_def libc_consts)

lemma no_request_calls [simp]:
  "no_request (SysOpen p fl md)" "no_request (SysRead fd n)" "no_request (SysClose fd)" "no_request (SysSocket a b c)"
  "no_request (SysConnect fd p)" "no_request (SysFork ch)" "no_request (SysWait pid)" "no_request (SysNanosleep a b)"
  by (simp_all add: no_request_def)

text \<open>A daemon that listens: the socket can be created, connected and written.\<close>

definition ipc_up :: "'w env \<Rightarrow> bool" where
  "ipc_up E \<longleftrightarrow> (\<forall>w. (\<forall>a b c. \<exists>fd. fst (kernel E (SysSocket a b c) w) = Ret fd \<and> 0 \<le> fd \<and> fd < 2 ^ 31) \<and>
     (\<forall>fd p. fst (kernel E (SysConnect fd p) w) = Ret 0) \<and> (\<forall>fd d fl p. \<exists>n \<ge> 0. fst (kernel E (SysSendto fd d fl p) w) = Ret n))"

lemma tells_sys_int:
  assumes "\<And>w. no_request c \<and> (\<exists>n. fst (kernel E c w) = Ret n \<and> - (2 ^ 31) \<le> n \<and> n < 2 ^ 31 \<and> (\<not> failed n \<longrightarrow> P n) \<and> (failed n \<longrightarrow> P (- 1)))"
  shows "tells (sys_int E c) (\<lambda>n ds. P n \<and> ds = [])"
proof -
  have "requests [c] = []" by (rule no_requests) (use assms in simp)
  moreover have "\<exists>r. trace (exec (sys_int E c) s) = trace s @ [Sys c r]" "P (result (sys_int E c) s)"
    "log_path (exec (sys_int E c) s) = log_path s" for s
  proof -
    from assms [of "world s"] obtain n where n: "fst (kernel E c (world s)) = Ret n" "- (2 ^ 31) \<le> n" "n < 2 ^ 31"
      "\<not> failed n \<Longrightarrow> P n" "failed n \<Longrightarrow> P (- 1)" by auto
    show "\<exists>r. trace (exec (sys_int E c) s) = trace s @ [Sys c r]" "P (result (sys_int E c) s)"
      "log_path (exec (sys_int E c) s) = log_path s"
      using n by (auto simp: run_sys_int Let_def s32_id)
  qed
  ultimately show ?thesis unfolding tells_def log_ok_def by (metis calls_simps(1,2))
qed

lemma tells_send:
  assumes "ipc_up E"
  shows "tells (c_send E fd cmd MSG_NOSIGNAL) (\<lambda>n ds. 0 \<le> n \<and> ds = [cmd])"
  unfolding tells_def
proof (intro allI impI)
  fix s :: "'a prog" assume s: "log_ok s"
  from assms obtain n where n: "0 \<le> n" "fst (kernel E (SysSendto fd cmd MSG_NOSIGNAL []) (world s)) = Ret n"
    unfolding ipc_up_def by blast
  then show "log_ok (exec (c_send E fd cmd MSG_NOSIGNAL) s) \<and>
      (\<exists>t. trace (exec (c_send E fd cmd MSG_NOSIGNAL) s) = trace s @ t \<and>
         0 \<le> result (c_send E fd cmd MSG_NOSIGNAL) s \<and> requests (calls t) = [cmd])"
    using s by (auto simp: c_send_def run_sys_errno Let_def failed_def log_ok_def)
qed

lemma ipc_plain: "plain_code ERR_IPC" "plain_code ERR_SYNTAX" "plain_code ERR_IO"
  by (simp_all add: plain_code_def ERR_IPC_def ERR_SYNTAX_def ERR_IO_def ERR_CONF_def)

lemma tells_socket:
  assumes up: "ipc_up E"
  shows "tells (c_socket E AF_UNIX (SOCK_STREAM + SOCK_CLOEXEC) 0) (\<lambda>fd ds. 0 \<le> fd \<and> ds = [])"
  unfolding c_socket_def
proof (rule tells_sys_int)
  fix w
  obtain fd where "fst (kernel E (SysSocket AF_UNIX (SOCK_STREAM + SOCK_CLOEXEC) 0) w) = Ret fd" "0 \<le> fd" "fd < 2 ^ 31"
    using up unfolding ipc_up_def by blast
  then show "no_request (SysSocket AF_UNIX (SOCK_STREAM + SOCK_CLOEXEC) 0) \<and>
      (\<exists>n. fst (kernel E (SysSocket AF_UNIX (SOCK_STREAM + SOCK_CLOEXEC) 0) w) = Ret n \<and> - (2 ^ 31) \<le> n \<and> n < 2 ^ 31 \<and>
         (\<not> failed n \<longrightarrow> 0 \<le> n) \<and> (failed n \<longrightarrow> 0 \<le> - (1 :: int)))" by (auto simp: failed_def)
qed

lemma tells_connect: "ipc_up E \<Longrightarrow> tells (c_connect E fd p) (\<lambda>n ds. n = 0 \<and> ds = [])"
  unfolding c_connect_def by (rule tells_sys_int) (auto simp: ipc_up_def failed_def)

lemma tells_socket_cmd:
  assumes up: "ipc_up E"
  shows "tells (socket_cmd E cmd) (\<lambda>r ds. ds = [cmd])"
proof -
  have rest: "makes E no_request (do {
      nd \<leftarrow> c_read E fd 15;
      if fst nd < 0 then do { ipc_error E; c_close E fd; ret (ERR_IPC, old) }
      else if fst nd = 0 \<or> strncmp (cstr (snd nd)) ''OK'' 2 \<noteq> 0
      then do { journal_error E ERR_IPC [AInt ERR_IPC]; c_close E fd; ret (ERR_IPC, old) }
      else do { c_close E fd; ret (ERR_SUCCESS, old) } })" for fd old
    unfolding ipc_error_def by (intro makes_rules no_request_log ipc_plain) simp_all
  have "tells (socket_send E cmd 0 []) (\<lambda>r ds. ds = [cmd])"
    unfolding socket_send_def
    by (rule tells_bind [OF tells_socket [OF up]], simp, rule tells_bind [OF tells_connect [OF up]], simp, rule tells_bind [OF tells_send [OF up]], simp,
        rule tells_makes [OF rest], simp)
  then show ?thesis
    unfolding socket_cmd_def by (rule tells_bind) (simp add: tells_ret)
qed

text \<open>A launch: the lock is asked for, and released once the game has been waited for.\<close>

lemma tells_launch_game:
  fixes E :: "'w env"
  assumes up: "ipc_up E"
  shows "tells (launch_game E args)
    (\<lambda>r ds. r = ERR_SUCCESS \<and> ds = [''SET_WRAPPER 1'', ''SET_WRAPPER 0''] \<or> r = ERR_IO \<and> ds = [''SET_WRAPPER 1''])"
proof -
  let ?Q = "\<lambda>r ds. r = ERR_SUCCESS \<and> ds = [''SET_WRAPPER 0''] \<or> r = ERR_IO \<and> ds = []"
  have quiet: "makes E no_request (c_udelay E 1000)" "makes E no_request (gets environ)" "makes E no_request (c_fork E ch)"
    "makes E no_request (c_waitpid E pid)" "makes E no_request (report_exit st)" for ch pid st
    unfolding report_exit_def c_udelay_def by - (intro makes_rules makes_sys_errno; simp)+
  have fail: "tells (do { journal_error E ERR_IO as; ret ERR_IO }) ?Q" for as
    by (rule tells_quiet_then [OF makes_journal(1) [OF no_request_log ipc_plain(3)]]) (simp add: tells_ret)
  have fin: "tells (do { report_exit st; ret ERR_SUCCESS } :: ('w, int) m) (\<lambda>r ds. r = ERR_SUCCESS \<and> ds = [])" for st
    by (rule tells_quiet_then [OF quiet(5)]) (simp add: tells_ret)
  have "tells (do { socket_cmd E ''SET_WRAPPER 0''; report_exit st; ret ERR_SUCCESS }) ?Q" for st
    by (rule tells_bind [OF tells_socket_cmd [OF up]]) (use fin in simp)
  then have wait: "tells (do { st \<leftarrow> c_waitpid E pid; socket_cmd E ''SET_WRAPPER 0''; report_exit (snd st); ret ERR_SUCCESS }) ?Q" for pid
    by (rule tells_quiet_then [OF quiet(4)])
  have after: "tells (do {
      c_udelay E 1000;
      env \<leftarrow> gets environ;
      pid \<leftarrow> c_fork E \<lparr>c_redirect = False, c_path = hd args, c_argv = args, c_env = env, c_fail = 1\<rparr>;
      if pid < 0 then do { journal_error E ERR_IO [AStr ''Failed to fork for game execution'']; ret ERR_IO }
      else do { st \<leftarrow> c_waitpid E pid; socket_cmd E ''SET_WRAPPER 0''; report_exit (snd st); ret ERR_SUCCESS } }) ?Q"
    by (rule tells_quiet_then [OF quiet(1)], rule tells_quiet_then [OF quiet(2)], rule tells_quiet_then [OF quiet(3)],
        rule tells_if [OF fail wait])
  show ?thesis
    unfolding launch_game_def
    by (rule tells_quiet_then [OF makes_out], rule tells_bind [OF tells_socket_cmd [OF up]]) (use after in simp)
qed

definition usage_only :: "string list \<Rightarrow> bool" where
  "usage_only argv \<longleftrightarrow> length argv < 2 \<or> length argv = 2 \<and> strcmp (argv ! 1) ''run'' = 0"

lemma tells_run_game:
  fixes E :: "'w env"
  assumes up: "ipc_up E"
  shows "tells (run_game E argv) (\<lambda>r ds. if usage_only argv then r = ERR_SYNTAX \<and> ds = []
    else r = ERR_SUCCESS \<and> ds = [''SET_WRAPPER 1'', ''SET_WRAPPER 0''] \<or> r = ERR_IO \<and> ds = [''SET_WRAPPER 1''])"
proof -
  let ?usage = "usage_error E ERR_SYNTAX [AStr ''Usage: x3d-run [CMD] [ARGS...]'']"
  have split: "run_game E argv = (if usage_only argv then ?usage else launch_game E (drop (if strcmp (argv ! 1) ''run'' = 0 then 2 else 1) argv))"
    by (auto simp: run_game_def usage_only_def Let_def)
  have usage: "tells ?usage (\<lambda>r ds. r = ERR_SYNTAX \<and> ds = [])"
    unfolding usage_error_def
    by (rule tells_quiet_then [OF makes_journal(1) [OF no_request_log ipc_plain(2)]]) (simp add: tells_ret)
  show ?thesis
  proof (cases "usage_only argv")
    case True
    show ?thesis unfolding split if_P [OF True] by (rule usage)
  next
    case False
    show ?thesis unfolding split if_not_P [OF False] by (rule tells_launch_game [OF up])
  qed
qed

text \<open>
  The launcher and the lock of the daemon: with a daemon that listens, a launch that starts the game asks for the lock
  before and releases it after the game ended, a usage error asks for nothing, and a launch whose fork failed has asked for the
  lock and returns without releasing it, so that the daemon keeps the cache mode until another request releases it.
\<close>

theorem run_game_requests:
  assumes up: "ipc_up E" and s: "log_path s = [] \<or> prefix VAR_LOGS (log_path s)"
  shows "let r = result (run_game E argv) s; ds = requests (calls (since s (exec (run_game E argv) s)))
    in if length argv < 2 \<or> length argv = 2 \<and> strcmp (argv ! 1) ''run'' = 0 then r = ERR_SYNTAX \<and> ds = []
       else r = ERR_SUCCESS \<and> ds = [''SET_WRAPPER 1'', ''SET_WRAPPER 0''] \<or> r = ERR_IO \<and> ds = [''SET_WRAPPER 1'']"
proof -
  from tells_run_game [OF up, of argv] s
  have "\<exists>t. trace (exec (run_game E argv) s) = trace s @ t \<and> (if usage_only argv then result (run_game E argv) s = ERR_SYNTAX \<and> requests (calls t) = []
      else result (run_game E argv) s = ERR_SUCCESS \<and> requests (calls t) = [''SET_WRAPPER 1'', ''SET_WRAPPER 0''] \<or>
           result (run_game E argv) s = ERR_IO \<and> requests (calls t) = [''SET_WRAPPER 1''])"
    unfolding tells_def log_ok_def by blast
  then show ?thesis unfolding usage_only_def by (elim exE conjE) (simp add: since_def Let_def)
qed

theorem run_game_requests_witness:
  "let r = result (run_game mem_env [''x3d-run'', ''doom'']) (mem_start Map.empty []);
       ds = requests (calls (since (mem_start Map.empty []) (exec (run_game mem_env [''x3d-run'', ''doom'']) (mem_start Map.empty []))))
   in r = ERR_SUCCESS \<and> ds = [''SET_WRAPPER 1'', ''SET_WRAPPER 0''] \<or> r = ERR_IO \<and> ds = [''SET_WRAPPER 1'']"
proof -
  have up: "ipc_up mem_env" by (simp add: ipc_up_def)
  have "log_path (mem_start Map.empty []) = [] \<or> prefix VAR_LOGS (log_path (mem_start Map.empty []))"
    by (simp add: mem_start_def initial_prog_def)
  from run_game_requests [OF up this, of "[''x3d-run'', ''doom'']"] show ?thesis by (simp add: Let_def)
qed

end
