(* ===== verification/Daemon_Runs.thy ===== *)
theory Daemon_Runs
  imports Daemon
begin

section \<open>Runs of the daemon\<close>

text \<open>
  What holds in every state the running daemon reaches, whatever the clients send, the kernel answers and the signals do;
  how it stops; and what its rounds make of the V-cache device.
\<close>

subsection \<open>An invariant of all turns\<close>

text \<open>The state is well formed.\<close>

definition daemon_ok :: "'w prog \<Rightarrow> bool" where
  "daemon_ok s \<longleftrightarrow> active_override s \<in> {0..4} \<and> cfg_ok (cfg s) \<and> games_ok (gl s)"

lemma served_daemon_ok: "served daemon_ok"
  by (simp add: served_def det_indep_def hw_indep_def jrn_indep_def sys_indep_def daemon_ok_def)

lemmas ok_base = served_base [OF served_daemon_ok] served_daemon_ok keeps_served_modify [OF served_daemon_ok]

lemma keeps_ok_modify:
  "keeps daemon_ok (modify (\<lambda>s. s\<lparr>p_stat := fp s\<rparr>))" "keeps daemon_ok (modify (\<lambda>s. s\<lparr>c_stat := fp s\<rparr>))"
  "keeps daemon_ok (modify (\<lambda>s. s\<lparr>cur_mode := fs s\<rparr>))" "keeps daemon_ok (modify (\<lambda>s. s\<lparr>target_mode := fs s\<rparr>))"
  "keeps daemon_ok (modify (\<lambda>s. s\<lparr>last_target := fs s\<rparr>))" "keeps daemon_ok (modify (\<lambda>s. s\<lparr>sig_installed := fb s\<rparr>))"
  by (simp_all add: hoare_def daemon_ok_def)

lemma keeps_ok_games_load: "keeps daemon_ok (games_load E)"
proof -
  have v: "active_override (exec (games_load E) s) = active_override s \<and> cfg (exec (games_load E) s) = cfg s" for s
    by (auto simp: games_load_def c_open_def c_read_def c_close_def run_sys_int run_sys_errno Let_def split: prod.splits)
  have g: "games_ok (gl (exec (games_load E) s))" for s
    using games_load_frame [of E s] games_parse_ok by (auto simp: games_ok_def [of "[]"])
  show ?thesis using v g by (simp add: hoare_def daemon_ok_def)
qed

lemma keeps_ok_polling: "keeps daemon_ok (polling_run E n)"
  unfolding polling_run_def polling_sense_def polling_decide_def poll_events_def bpf_game_def polling_switch_def force_apply_def
    polling_display_def stats_def
  by (intro hoare_rules ok_base keeps_ok_modify)

lemma keeps_ok_round: "keeps daemon_ok (daemon_round E n fd)"
  unfolding daemon_round_def daemon_wait_def daemon_running_def daemon_reload_def
  by (intro hoare_rules ok_base keeps_ok_polling keeps_ok_games_load)

lemma keeps_ok_start: "keeps daemon_ok (daemon_start E)"
proof -
  have state: "cfg_ok c \<Longrightarrow> cfg_ok (c\<lparr>daemon_state := fit 32 ''default''\<rparr>)" for c by (rule cfg_ok_daemon_state)
  show ?thesis
    unfolding daemon_start_def daemon_locals_def daemon_mode_init_def init_signals_def affinity_init_def socket_setup_def setup_failed_def
      notify_ready_def getenv_def stats_def journal_exit_def c_exit_def
    by (intro hoare_rules ok_base keeps_ok_modify keeps_ok_games_load plain_codes state)
qed

subsection \<open>Descriptors over the life of the daemon\<close>

lemma nets_daemon_parts [nets_rules]:
  "nets 0 (daemon_wait E fd)" "nets 0 (daemon_reload E)" "nets 0 (daemon_locals E)" "nets 0 (daemon_mode_init E)"
  "nets 0 (init_signals E)" "nets 0 daemon_running"
  unfolding daemon_wait_def daemon_reload_def daemon_locals_def daemon_mode_init_def init_signals_def daemon_running_def
  by - (intro nets_rules)+

lemma nets_round: "nets_opt 0 (daemon_round E n fd)"
proof -
  have tail: "nets_opt 0 (do { daemon_reload E; ret (Some ()) })" by (intro nets_optI nets_rules)
  have stop: "nets_opt 0 (ret (Some ()))" by (intro nets_optI nets_rules)
  show ?thesis
    unfolding daemon_round_def
    by (intro nets_opt_bind [OF nets_daemon_parts(1)] nets_opt_bind [OF nets_daemon_parts(6)] nets_opt_if stop
        nets_opt_option [OF nets_polling_run tail])
qed

text \<open>A balance that depends on the value of the fragment, such as a descriptor it returns.\<close>

definition nets_val :: "('a \<Rightarrow> int) \<Rightarrow> ('w, 'a) m \<Rightarrow> bool" where
  "nets_val d m \<longleftrightarrow> (\<forall>s. (exited s \<noteq> None \<longrightarrow> exited (exec m s) \<noteq> None) \<and>
     (exited (exec m s) = None \<longrightarrow> held (exec m s) = held s + d (result m s)))"

lemma nets_val_bind:
  assumes "nets_val d m" "\<And>x. nets_val (\<lambda>y. e y - d x) (k x)"
  shows "nets_val e (State_Monad.bind m k)"
  unfolding nets_val_def exec_bind result_bind
proof (intro allI conjI impI)
  fix s
  let ?x = "result m s" and ?s = "exec m s"
  note m = assms(1) [unfolded nets_val_def, rule_format, of s]
  note k = assms(2) [unfolded nets_val_def, rule_format, of ?s ?x]
  show "exited (exec (k ?x) ?s) \<noteq> None" if "exited s \<noteq> None" using m k that by blast
  show "held (exec (k ?x) ?s) = held s + e (result (k ?x) ?s)" if "exited (exec (k ?x) ?s) = None"
    using m k that by (cases "exited ?s = None") auto
qed

lemma nets_val_nets: "nets e m \<Longrightarrow> (\<And>s. d (result m s) = e) \<Longrightarrow> nets_val d m"
  by (simp add: nets_val_def nets_def)

lemma nets_val_bind0: "nets 0 m \<Longrightarrow> (\<And>x. nets_val e (k x)) \<Longrightarrow> nets_val e (State_Monad.bind m k)"
  by (rule nets_val_bind [of "\<lambda>_. 0"]) (simp_all add: nets_val_nets)

lemma nets_val_if: "(b \<Longrightarrow> nets_val d m) \<Longrightarrow> (\<not> b \<Longrightarrow> nets_val d m') \<Longrightarrow> nets_val d (if b then m else m')"
  by simp

lemma nets_val_ret: "d x = 0 \<Longrightarrow> nets_val d (ret x)"
  by (simp add: nets_val_def)

definition owned :: "int \<Rightarrow> int" where "owned fd = (if 0 \<le> fd then 1 else 0)"

lemma nets_val_socket: "nets_val owned (c_socket E a b c)"
  by (auto simp: nets_val_def owned_def held_def c_socket_def run_sys_int Let_def)

lemma nets_fcntl [nets_rules]: "nets 0 (c_fcntl E fd a b)"
  by (rule fcntl_w.op_held) simp

lemma nets_val_socket_setup: "nets_val owned (socket_setup E)"
proof -
  have "nets (- 1) (setup_failed E fd fmt as)" for fd fmt as
    unfolding setup_failed_def by - (linarith | rule fd_rules | rule nets_rules)+
  moreover have "result (setup_failed E fd fmt as) s = - 1" for fd fmt as s
    by (simp add: setup_failed_def result_bind del: run_state_bind)
  ultimately have fail: "nets_val (\<lambda>y. owned y - owned fd) (setup_failed E fd fmt as)" if "\<not> fd < 0" for fd fmt as
    using that by (intro nets_val_nets) (auto simp: owned_def)
  show ?thesis
    unfolding socket_setup_def
    by (rule nets_val_bind [OF nets_val_socket])
      (intro nets_val_if nets_val_bind0 nets_rules fail nets_val_ret; simp add: owned_def)
qed

lemma nets_val_start: "nets_val owned (daemon_start E)"
proof -
  have exit: "nets_val d (do { journal_exit E 1 fmt as; ret fd })" for fmt as fd and d :: "int \<Rightarrow> int"
    by (simp add: nets_val_def journal_exit_def c_exit_def exec_bind Let_def run_sys del: run_state_bind)
  have tail: "nets_val owned (do { server_fd \<leftarrow> socket_setup E;
     if server_fd < 0 then do { journal_exit E 1 ''Failed to initialize IPC server'' []; ret server_fd }
     else do {
       notify_ready E;
       p0 \<leftarrow> gets p_stat;
       p \<leftarrow> stats E p0;
       modify (\<lambda>s. s\<lparr>p_stat := p\<rparr>);
       ret server_fd
     } })"
    by (rule nets_val_bind [OF nets_val_socket_setup])
      (intro nets_val_if exit nets_val_bind0 nets_rules nets_val_ret; simp add: owned_def)
  show ?thesis
    unfolding daemon_start_def
    by (intro nets_val_bind0 tail nets_rules)
qed

lemma nets_signal: "nets 0 (sig_handler E sg)"
  by (rule nets_rules)

lemma nets_loop: "nets_opt 0 (daemon_loop E n fd k)"
proof (induction k)
  case (Suc k)
  have stop: "nets_opt 0 (ret (Some ()))" by (intro nets_optI nets_rules)
  show ?case
    unfolding daemon_loop.simps
    by (intro nets_opt_bind [OF nets_daemon_parts(6)] nets_opt_if stop nets_opt_option [OF nets_round Suc])
qed (simp add: nets_opt_def)

text \<open>Signals change flags only.\<close>

lemma keeps_ok_signal: "keeps daemon_ok (sig_handler E sg)"
  by (intro hoare_rules ok_base)



subsection \<open>Stopping\<close>

text \<open>
  C19. A request to stop is final: after \<^verbatim>\<open>SIGTERM\<close> or \<^verbatim>\<open>SIGINT\<close> no further turn begins, whatever other signals arrive; nothing more is
  called or changed in the world, and the loop ends at its next test.
\<close>

theorem stop_is_final:
  assumes "daemon_reach E n fd (exec (sig_handler E sg) s) s'" "sg \<in> {SIGTERM, SIGINT}"
  shows "\<not> active_keep s' \<and> trace s' = trace s \<and> world s' = world s \<and> cfg s' = cfg s \<and>
    run_state (daemon_loop E n fd (Suc k)) s' = (Some (), s')"
proof -
  have sig: "active_keep (exec (sig_handler E sg) s) = (active_keep s \<and> sg = SIGHUP) \<and> trace (exec (sig_handler E sg) s) = trace s \<and>
      world (exec (sig_handler E sg) s) = world s \<and> cfg (exec (sig_handler E sg) s) = cfg s"
    if "sg \<in> {SIGTERM, SIGINT, SIGHUP}" for sg s
    using that by (auto simp: sig_handler_def sig_defs)
  have "\<not> active_keep s' \<and> trace s' = trace s \<and> world s' = world s \<and> cfg s' = cfg s"
    using assms(1)
  proof (induction rule: daemon_reach.induct)
    case Start
    then show ?case using sig [of sg s] assms(2) by (auto simp: sig_defs)
  next
    case (Step s1 s2)
    from Step.hyps(2) Step.IH show ?case
      by (cases rule: daemon_step.cases) (auto simp: sig)
  qed
  then show ?thesis by (simp add: daemon_running_def)
qed

theorem stop_is_final_witness:
  "run_state (daemon_loop dev_env 1 3 1) (exec (sig_handler dev_env SIGHUP) (exec (sig_handler dev_env SIGTERM) (dev_start True))) =
    (Some (), exec (sig_handler dev_env SIGHUP) (exec (sig_handler dev_env SIGTERM) (dev_start True)))"
proof -
  let ?s = "exec (sig_handler dev_env SIGTERM) (dev_start True)"
  have "exited ?s = None" by (simp add: sig_handler_def sig_defs dev_start_def initial_prog_def)
  then have "daemon_step dev_env 1 3 ?s (exec (sig_handler dev_env SIGHUP) ?s)" by (rule daemon_step.Signal) simp
  from daemon_reach.Step [OF daemon_reach.Start this]
  have r: "daemon_reach dev_env 1 3 ?s (exec (sig_handler dev_env SIGHUP) ?s)" .
  show ?thesis using stop_is_final [OF r, of 0] by simp
qed

lemma nets_shutdown: "nets (- owned fd) (daemon_shutdown E fd)"
proof -
  have cl: "nets (- owned fd) (if fd \<ge> 0 then do { c_close E fd; ret () } else ret ())"
    by (cases "0 \<le> fd") (simp_all only: owned_def if_True if_False minus_zero, rule nets_close(1), rule nets_ret, rule nets_ret)
  have rest: "nets 0 (do { act \<leftarrow> gets bpf_active; (if act then bpf_cleanup E else ret ()); cppc_restore E; c_unlink E IPC_PATH; ret (0 :: int) })"
    by (intro nets_rules)
  show ?thesis
    unfolding daemon_shutdown_def by (rule nets_bind0 [OF nets_units(8)]) (use nets_bind [OF cl rest] in simp)
qed

lemma shutdown_last:
  "last (calls (trace (exec (daemon_shutdown E fd) s))) = SysUnlink IPC_PATH"
  "last (forks (trace (exec (daemon_shutdown E fd) s))) = reset_child"
proof -
  have "\<exists>s1. exec (daemon_shutdown E fd) s = exec (do { cppc_restore E; c_unlink E IPC_PATH; ret (0 :: int) }) s1"
    unfolding daemon_shutdown_def exec_bind by blast
  then obtain s1 where s1: "exec (daemon_shutdown E fd) s = exec (c_unlink E IPC_PATH) (exec (cppc_restore E) s1)"
    by (auto simp: exec_bind simp del: run_state_bind)
  have q: "forks [Sys (SysUnlink q) r] = []" for q r by (simp add: forks_def map_filter_def)
  show "last (calls (trace (exec (daemon_shutdown E fd) s))) = SysUnlink IPC_PATH"
    "last (forks (trace (exec (daemon_shutdown E fd) s))) = reset_child"
    unfolding s1 by (simp_all add: unlink_w.op_trace cppc_restore_run q)
qed


text \<open>A run that is stopped before its first turn, on a kernel where every call succeeds.\<close>

definition stopping :: "'w prog \<Rightarrow> bool" where
  "stopping s \<longleftrightarrow> exited s = None \<and> \<not> active_keep s"

lemma stopping_indep: "det_indep stopping"
  by (simp add: det_indep_def hw_indep_def jrn_indep_def sys_indep_def stopping_def)

lemma ok_env_start: "keeps stopping (daemon_start ok_env)"
proof -
  note base = stopping_indep det_hw [OF stopping_indep] det_jrn [OF stopping_indep] det_sys [OF stopping_indep] plain_codes
  have mods: "keeps stopping (modify (\<lambda>s. s\<lparr>cfg := fc s\<rparr>))" "keeps stopping (modify (\<lambda>s. s\<lparr>gl := fg s\<rparr>))"
    "keeps stopping (modify (\<lambda>s. s\<lparr>p_stat := fp s\<rparr>))" "keeps stopping (modify (\<lambda>s. s\<lparr>c_stat := fp s\<rparr>))"
    "keeps stopping (modify (\<lambda>s. s\<lparr>cur_mode := fs s\<rparr>))" "keeps stopping (modify (\<lambda>s. s\<lparr>target_mode := fs s\<rparr>))"
    "keeps stopping (modify (\<lambda>s. s\<lparr>sig_installed := fb s\<rparr>))" "keeps stopping (modify (\<lambda>s. s\<lparr>bpf_active := fb s\<rparr>))"
    for fc fg fp fs fb by (simp_all add: hoare_def stopping_def)
  have cl: "keeps stopping (config_load E)" for E
    by (rule keeps_config_load) (use base in \<open>simp_all add: stopping_def\<close>)
  have gl: "keeps stopping (games_load E)" for E unfolding games_load_def by (intro hoare_rules base mods)
  have r3: "result (sys_int ok_env c) s = 3" if "\<forall>fd n. c \<noteq> SysRead fd n" "\<forall>fd d fl p. c \<noteq> SysSendto fd d fl p" for c s
    using that by (cases c) (simp_all add: run_sys_int ok_env_def Let_def failed_def s32_id)
  have fd: "result (socket_setup ok_env) s = 3" for s
    unfolding socket_setup_def c_socket_def c_fcntl_def c_bind_def c_listen_def by (simp add: result_bind r3 del: run_state_bind)
  have su: "keeps stopping (socket_setup ok_env)"
    unfolding socket_setup_def setup_failed_def by (intro hoare_rules base)
  have tail: "keeps stopping (do { notify_ready ok_env; p0 \<leftarrow> gets p_stat; p \<leftarrow> stats ok_env p0;
      modify (\<lambda>s. s\<lparr>p_stat := p\<rparr>); ret (x :: int) })" for x
    unfolding notify_ready_def getenv_def stats_def by (intro hoare_rules base mods)
  have last: "keeps stopping (do { server_fd \<leftarrow> socket_setup ok_env;
     if server_fd < 0 then do { journal_exit ok_env 1 ''Failed to initialize IPC server'' []; ret server_fd }
     else do { notify_ready ok_env; p0 \<leftarrow> gets p_stat; p \<leftarrow> stats ok_env p0; modify (\<lambda>s. s\<lparr>p_stat := p\<rparr>); ret server_fd } })"
    using su tail [of 3] by (simp add: hoare_def exec_bind result_bind fd del: run_state_bind)
  show ?thesis
    unfolding daemon_start_def daemon_locals_def daemon_mode_init_def init_signals_def affinity_init_def bind_assoc
    by (intro hoare_rules base mods cl gl last)
qed


subsection \<open>A game started through the wrapper\<close>

lemma dispatch_wrapper: "ipc_dispatch E fd (''SET_WRAPPER '' @ arg) = ipc_set_wrapper E fd arg"
  by (simp add: ipc_dispatch_def ipc_commands_def numeral_eq_Suc)

lemma hoare_set_wrapper:
  assumes D: "mode_device E p st fds" and N: "node_at E p"
  shows "hoare (in_mode p st fds m) (ipc_set_wrapper E fd arg) (\<lambda>_ s.
    in_mode p st fds (if atoi arg \<noteq> 0 then ''cache'' else ''frequency'') s \<and> wrapper_lock s = atoi arg \<and>
    active_override s = (if atoi arg \<noteq> 0 then 1 else 0))"
  unfolding hoare_def
proof (intro allI impI)
  fix s :: "'a prog" assume s: "in_mode p st fds m s"
  define v where "v = atoi arg"
  define t where "t = (if v \<noteq> 0 then ''cache'' else ''frequency'')"
  define o' :: int where "o' = (if v \<noteq> 0 then 1 else 0)"
  let ?s1 = "s\<lparr>wrapper_lock := v\<rparr>"
  define s2 where "s2 = exec (cli_set_mode E t) ?s1"
  let ?s3 = "s2\<lparr>active_override := o'\<rparr>"
  have t: "t \<in> modes" by (simp add: modes_def t_def)
  have "in_mode p st fds m ?s1" using s by (simp add: in_mode_def log_ok_def)
  from hoareD [OF hoare_cli_set_mode [OF D N t] this] have i2: "in_mode p st fds t s2" by (simp add: s2_def)
  have hw: "hw_indep (\<lambda>s :: 'a prog. wrapper_lock s = v)" "hw_indep (\<lambda>s :: 'a prog. active_override s = o')"
    by (simp_all add: hw_indep_def jrn_indep_def sys_indep_def)
  have w2: "wrapper_lock s2 = v" using keeps_hw(3) [OF hw(1), of E t] by (simp add: hoare_def s2_def)
  have snd: "off_node p (SysSendto fd b n q)" for b n q by (simp add: off_node_def)
  have "keeps (in_mode p st fds t) (reply E fd ''OK'')"
    unfolding reply_def by (intro in_mode_quiet [OF D] makes_rules snd hoare_rules path_in_indep)
  moreover have "keeps (\<lambda>s. wrapper_lock s = v) (reply E fd ''OK'')" "keeps (\<lambda>s. active_override s = o') (reply E fd ''OK'')"
    by (intro hoare_rules hw_sys [OF hw(1)], intro hoare_rules hw_sys [OF hw(2)])
  moreover have "in_mode p st fds t ?s3" "wrapper_lock ?s3 = v" "active_override ?s3 = o'"
    using i2 w2 by (simp_all add: in_mode_def log_ok_def)
  ultimately have "in_mode p st fds t (exec (reply E fd ''OK'') ?s3) \<and> wrapper_lock (exec (reply E fd ''OK'') ?s3) = v \<and>
      active_override (exec (reply E fd ''OK'') ?s3) = o'" by (simp add: hoare_def)
  moreover have "exec (ipc_set_wrapper E fd arg) s = exec (reply E fd ''OK'') ?s3"
    by (cases "v = 0") (simp_all add: ipc_set_wrapper_def exec_bind result_bind v_def [symmetric] s2_def t_def o'_def del: run_state_bind)
  ultimately show "in_mode p st fds (if atoi arg \<noteq> 0 then ''cache'' else ''frequency'') (exec (ipc_set_wrapper E fd arg) s) \<and>
      wrapper_lock (exec (ipc_set_wrapper E fd arg) s) = atoi arg \<and>
      active_override (exec (ipc_set_wrapper E fd arg) s) = (if atoi arg \<noteq> 0 then 1 else 0)"
    unfolding v_def [symmetric] t_def [symmetric] o'_def [symmetric] by simp
qed

lemma lock_rounds:
  assumes D: "mode_device E p st fds" and N: "node_at E p"
  shows "in_mode p st fds ''cache'' s \<Longrightarrow> wrapper_lock s \<noteq> 0 \<Longrightarrow>
    in_mode p st fds ''cache'' (((\<lambda>s. exec (polling_run E n) s) ^^ k) s) \<and> wrapper_lock (((\<lambda>s. exec (polling_run E n) s) ^^ k) s) \<noteq> 0"
proof (induction k)
  case (Suc k)
  let ?s = "((\<lambda>s. exec (polling_run E n) s) ^^ k) s"
  have "in_mode p st fds ''cache'' ?s" "wrapper_lock ?s \<noteq> 0" using Suc by simp_all
  from lock_round [OF D N this, where n = n] this show ?case by simp
qed simp

text \<open>
  The session of the launcher \<^verbatim>\<open>x3d-run\<close>: after its request \<^verbatim>\<open>SET_WRAPPER 1\<close> the device is in \<^verbatim>\<open>cache\<close> and stays there for
  any number of the daemon's rounds, whatever the detectors report; after \<^verbatim>\<open>SET_WRAPPER 0\<close> the device is in \<^verbatim>\<open>frequency\<close>, the lock is free and the
  override is gone.
\<close>

theorem wrapper_session:
  assumes D: "mode_device E p st fds" and N: "node_at E p" and s: "in_mode p st fds m s"
  shows "let s1 = exec (ipc_dispatch E fd (''SET_WRAPPER '' @ ''1'')) s;
      s2 = ((\<lambda>s. exec (polling_run E n) s) ^^ k) s1;
      s3 = exec (ipc_dispatch E fd' (''SET_WRAPPER '' @ ''0'')) s2
    in in_mode p st fds ''cache'' s1 \<and> in_mode p st fds ''cache'' s2 \<and>
       in_mode p st fds ''frequency'' s3 \<and> wrapper_lock s3 = 0 \<and> active_override s3 = 0"
proof -
  have a: "atoi ''1'' = 1" "atoi ''0'' = 0" by code_simp+
  define s1 where "s1 = exec (ipc_set_wrapper E fd ''1'') s"
  define s2 where "s2 = ((\<lambda>s. exec (polling_run E n) s) ^^ k) s1"
  have s1: "in_mode p st fds ''cache'' s1" "wrapper_lock s1 \<noteq> 0"
    using hoare_set_wrapper [OF D N, where fd = fd and arg = "''1''" and m = m] s by (simp_all add: hoare_def s1_def a)
  have s2: "in_mode p st fds ''cache'' s2" using lock_rounds [OF D N s1] by (simp add: s2_def)
  have "in_mode p st fds ''frequency'' (exec (ipc_set_wrapper E fd' ''0'') s2) \<and> wrapper_lock (exec (ipc_set_wrapper E fd' ''0'') s2) = 0 \<and>
      active_override (exec (ipc_set_wrapper E fd' ''0'') s2) = 0"
    using hoare_set_wrapper [OF D N, where fd = fd' and arg = "''0''" and m = "''cache''"] s2 by (simp add: hoare_def a)
  with s1 s2 show ?thesis unfolding Let_def dispatch_wrapper s1_def [symmetric] s2_def [symmetric] by simp
qed

theorem wrapper_session_witness:
  "dv_mode (world (((\<lambda>s. exec (polling_run dev_env 1) s) ^^ 3) (exec (ipc_dispatch dev_env 7 (''SET_WRAPPER '' @ ''1'')) (dev_start False)))) = ''cache''"
  using wrapper_session [OF dev_mode_device dev_node_at dev_in_mode [of False], where fd = 7 and n = 1 and k = 3]
  unfolding Let_def in_mode_def by blast

end
