(* ===== verification/Heard.thy ===== *)
theory Heard
  imports Daemon_Runs
begin

section \<open>The requests the daemon has received\<close>

text \<open>
  \<open>heard\<close> reads off a trace the requests that the daemon took up, in order: the text of every \<^verbatim>\<open>recv\<close> that delivered something. Only
  \<^verbatim>\<open>socket_handle\<close> receives; everything else is \<open>deaf\<close>.
\<close>

definition heard :: "event list \<Rightarrow> string list" where
  "heard t = List.map_filter (\<lambda>e. case e of
     Sys c r \<Rightarrow> (case c of
        SysRecvfrom fd n fl \<Rightarrow> if 0 < fst (filled n r) then Some (request_of (snd (filled n r))) else None
      | _ \<Rightarrow> None)
   | Out f fmt as \<Rightarrow> None) t"

lemma heard_simps [simp]:
  "heard [] = []" "heard (t @ u) = heard t @ heard u"
  "heard [Sys (SysRecvfrom fd n fl) r] = (if 0 < fst (filled n r) then [request_of (snd (filled n r))] else [])"
  by (simp_all add: heard_def map_filter_def)

definition no_recv :: "syscall \<Rightarrow> bool" where
  "no_recv c \<longleftrightarrow> (\<forall>fd n fl. c \<noteq> SysRecvfrom fd n fl)"

lemma no_recv_heard: "list_all no_recv (calls t) \<Longrightarrow> heard t = []"
proof (induction t)
  case (Cons e t)
  have "heard [e] = []"
  proof (cases e)
    case (Sys c r)
    then show ?thesis using Cons.prems by (cases c) (simp_all add: heard_def map_filter_def no_recv_def)
  qed (simp add: heard_def map_filter_def)
  moreover have "heard t = []" using Cons by (cases e) simp_all
  ultimately show ?case using heard_simps(2) [of "[e]" t] by simp
qed simp

abbreviation deaf :: "'w env \<Rightarrow> ('w, 'a) m \<Rightarrow> bool" where
  "deaf E m \<equiv> makes E no_recv m"

lemma deaf_heard: "deaf E m \<Longrightarrow> log_ok s \<Longrightarrow> heard (trace (exec m s)) = heard (trace s) \<and> log_ok (exec m s)"
  unfolding makes_def makes_pq_def using no_recv_heard by fastforce

lemma no_recv_calls [simp]:
  "no_recv (SysOpen q fl md)" "no_recv (SysRead fd n)" "no_recv (SysWrite fd d)" "no_recv (SysClose fd)" "no_recv (SysAccess q md)"
  "no_recv (SysFork ch)" "no_recv (SysWait pid)" "no_recv (SysSendto fd d n q)" "no_recv SysGeteuid" "no_recv (SysAccept4 fd n)"
  "no_recv (SysSelect nf fs tv)" "no_recv (LibBpf bc)" "no_recv (SysExit st)" "no_recv (SysGetdents fd n)" "no_recv (SysClock clk)"
  "no_recv (SysSocket a b c)"
  by (simp_all add: no_recv_def)

lemma no_recv_sets: "log_calls no_recv" "scan_calls no_recv"
  by (simp_all add: log_calls_def scan_calls_def)

subsection \<open>Everything else is deaf\<close>

lemma deaf_vars:
  "deaf E (modify (\<lambda>s. s\<lparr>exited := fe s\<rparr>))" "deaf E (modify (\<lambda>s. s\<lparr>failsafe_active := fb s\<rparr>))"
  "deaf E (modify (\<lambda>s. s\<lparr>last_sig := fi s\<rparr>))" "deaf E (modify (\<lambda>s. s\<lparr>reload_flag := fb s\<rparr>))"
  "deaf E (modify (\<lambda>s. s\<lparr>bpf_obj := fi s\<rparr>))" "deaf E (modify (\<lambda>s. s\<lparr>bpf_link_exec := fi s\<rparr>))"
  "deaf E (modify (\<lambda>s. s\<lparr>bpf_link_exit := fi s\<rparr>))" "deaf E (modify (\<lambda>s. s\<lparr>bpf_rb := fi s\<rparr>))"
  by (rule makes_modify; simp add: log_ok_def)+

lemma deaf_bpf: "deaf E (bpf_lib E c)" "deaf E (bpf_init E)" "deaf E (bpf_cleanup E)"
proof -
  show lib: "deaf E (bpf_lib E c)" for c unfolding bpf_lib_def by (intro makes_rules makes_sys) simp
  show "deaf E (bpf_init E)" "deaf E (bpf_cleanup E)"
    unfolding bpf_init_def bpf_cleanup_def bpf_attach_def bpf_events_def
    by - (intro makes_rules lib deaf_vars no_recv_sets plain_codes)+
qed

lemma deaf_failsafe: "deaf E (null_deref E)"
  unfolding null_deref_def sig_handler_def daemon_failsafe_def daemon_restore_def cppc_restore_def c_exit_def
  by (intro makes_rules deaf_vars makes_sys) simp_all

lemma deaf_nodes:
  "deaf E (write_node E q val a b)" "deaf E (write_cores E fmt val cores)" "deaf E (sysctl_kernel_write E q val)"
  "deaf E (sysctl_write E q val)" "deaf E (sysctl_read E q n)" "deaf E (config_update E k v)" "deaf E (config_get E k)"
  "deaf E (config_load E)" "deaf E (games_load E)" "deaf E (stats E c)"
  unfolding write_node_def write_cores_def sysctl_kernel_write_def sysctl_write_def sysctl_read_def config_update_def config_get_def
    config_load_def config_probe_capabilities_def games_load_def stats_def
  by - (intro makes_rules no_recv_calls; simp)+

lemma deaf_find_path: "deaf E (find_path E)"
  by (rule makes_find_path) simp

lemma deaf_hw:
  "deaf E (mode E old n)" "deaf E (cli_set_mode E md)" "deaf E (cli_set_dual E)" "deaf E (cli_set_swap E)" "deaf E (cli_set_core E i on)"
  "deaf E (cppc_boost E on)" "deaf E (cppc_perf E v)" "deaf E (cppc_epp E val)" "deaf E (cppc_ccd E i val)" "deaf E (cppc_pstate E val)"
  "deaf E (cppc_governor E val)" "deaf E (cppc_prefcore E on)" "deaf E (affinity_set_masks E c f)" "deaf E (affinity_partition E i j)"
  "deaf E (scheduler_set E pf)" "deaf E (cli_mode_apply E part)" "deaf E (cppc_tdp E w)"
  unfolding cli_set_dual_def cli_set_swap_def cli_set_mode_def mode_def cli_set_core_def cppc_boost_def cppc_perf_def cppc_epp_def
    cppc_ccd_def cppc_pstate_def cppc_governor_def cppc_prefcore_def affinity_set_masks_def affinity_partition_def cgroup_write_raw_def
    cgroup_write_pid_def affinity_default_def cli_mode_apply_def scheduler_set_def scheduler_check_def cppc_tdp_def
  by - (intro makes_rules deaf_nodes deaf_find_path no_recv_calls no_recv_sets plain_codes)+

lemma deaf_reply: "deaf E (reply E fd msg)" "deaf E (reply_ok E fd ok)" "deaf E (reply_code E fd code)"
  unfolding reply_code_def reply_ok_def reply_def by - (intro makes_rules no_recv_calls)+

lemma deaf_dispatch: "deaf E (ipc_dispatch E fd buf)"
proof (rule dispatch_all)
  have num: "deaf E (with_number E fd arg err op)" if "\<And>n. deaf E (op n)" for arg err op
    unfolding with_number_def using that
    by (intro makes_rules) (auto split: request_number.split intro!: makes_rules deaf_reply deaf_failsafe)
  fix pre h arg
  assume "(pre, h) \<in> set (ipc_commands :: (string \<times> ('a env \<Rightarrow> int \<Rightarrow> string \<Rightarrow> ('a, bool) m)) list)"
  then show "deaf E (h E fd arg)"
    unfolding ipc_commands_def list.set insert_iff empty_iff prod.inject
    by (elim disjE conjE FalseE; hypsubst; unfold ipc_defs ipc_advanced_get_def ipc_advanced_set_def park_ccd1_def run_reset_def follow_ebpf_def;
        intro makes_rules deaf_reply num deaf_hw deaf_nodes deaf_bpf no_recv_calls no_recv_sets plain_codes)
qed (rule deaf_reply)

lemma deaf_round: "deaf E (polling_run E n)" "deaf E (daemon_reload E)"
  unfolding polling_run_def polling_sense_def polling_decide_def poll_events_def bpf_game_def polling_switch_def force_apply_def
    polling_display_def daemon_reload_def
  by - (intro makes_rules deaf_hw deaf_nodes deaf_vars no_recv_sets no_recv_calls)+

subsection \<open>Serving a client\<close>

text \<open>A served client has been heard with the text that was dispatched, any other with nothing.\<close>

lemma recv_heard:
  "heard (trace (exec (c_recv E cfd n fl) s)) = heard (trace s) @
     (if 0 < fst (result (c_recv E cfd n fl) s) then [request_of (snd (result (c_recv E cfd n fl) s))] else [])"
  by (auto simp: c_recv_def run_sys_errno Let_def filled_def failed_def split: sysres.splits)

end
