(* ===== verification/Mode_Machine.thy ===== *)
theory Mode_Machine
  imports Heard
begin

section \<open>The daemon as a small machine\<close>

text \<open>
  Who decides about the V-cache mode is spread over the daemon: the wrapper's lock, the override, the daemon's state, the buffer
  of the last target and the device itself. The machine of this theory has just these five parts and says in a few lines what a
  request and a round make of them. The refinement theorems show that the code of \<^verbatim>\<open>socket.c\<close>, \<^verbatim>\<open>polling.c\<close> and
  \<^verbatim>\<open>daemon.c\<close> does nothing else to them, whatever text the clients send.
\<close>

subsection \<open>The machine\<close>

record mode_state =
  m_lock :: int
  m_override :: int
  m_auto :: bool
  m_target :: string
  m_device :: string

definition toggled :: "mode_state \<Rightarrow> mode_state" where
  "toggled a = (if m_device a = ''cache'' then a\<lparr>m_override := 2, m_device := ''frequency''\<rparr>
     else a\<lparr>m_override := 1, m_device := ''cache''\<rparr>)"

text \<open>The value of \<^verbatim>\<open>SET_MODE\<close> is searched for the names in this order; the driver knows only \<^verbatim>\<open>cache\<close> and \<^verbatim>\<open>frequency\<close>.\<close>

definition picked :: "string \<Rightarrow> mode_state \<Rightarrow> mode_state" where
  "picked v a =
     (if sublist ''auto'' v \<or> sublist ''default'' v \<or> sublist ''reset'' v then a\<lparr>m_override := 0\<rparr>
      else if sublist ''cache'' v then a\<lparr>m_override := 1, m_device := ''cache''\<rparr>
      else if sublist ''frequency'' v then a\<lparr>m_override := 2, m_device := ''frequency''\<rparr>
      else if sublist ''dual'' v then a\<lparr>m_override := 3\<rparr>
      else if sublist ''swap'' v then a\<lparr>m_override := 4\<rparr>
      else a)"

definition locked :: "int \<Rightarrow> mode_state \<Rightarrow> mode_state" where
  "locked n a = (if n = 0 then a\<lparr>m_lock := 0, m_override := 0, m_device := ''frequency''\<rparr>
     else a\<lparr>m_lock := n, m_override := 1, m_device := ''cache''\<rparr>)"

text \<open>\<open>manual\<close> keeps the override, \<open>default\<close> drops it.\<close>

definition switched :: "string \<Rightarrow> mode_state \<Rightarrow> mode_state" where
  "switched v a =
     (if v = ''default'' then a\<lparr>m_auto := True, m_override := 0\<rparr>
      else if v = ''manual'' then a\<lparr>m_auto := False\<rparr> else a)"

text \<open>A round; \<open>game\<close> is what the detectors report in it.\<close>

definition polled :: "bool \<Rightarrow> mode_state \<Rightarrow> mode_state" where
  "polled game a =
     (if m_lock a \<noteq> 0 then a\<lparr>m_target := m_device a, m_device := ''cache''\<rparr>
      else if m_override a < 3 \<and> m_auto a then
        (let t = (if m_override a = 1 \<or> m_override a \<noteq> 2 \<and> game then ''cache'' else ''frequency'')
         in a\<lparr>m_target := t, m_device := t\<rparr>)
      else a\<lparr>m_target := m_device a, m_device := (if m_target a \<in> modes then m_target a else m_device a)\<rparr>)"

text \<open>
  What a request may do to the machine. A child of the daemon (the reset script, the power limit command) may leave the device in
  either mode; what \<^verbatim>\<open>CONFIG_SYNC\<close> reads from the file decides about the state. All other requests do nothing.
\<close>

definition mode_commands :: "string list" where
  "mode_commands = [''TOGGLE'', ''SET_MODE '', ''SET_WRAPPER '', ''SET_DAEMON '', ''SET_TDP '', ''CONFIG_SYNC'']"

inductive mode_request :: "string \<Rightarrow> mode_state \<Rightarrow> mode_state \<Rightarrow> bool" where
  Toggle: "mode_request (''TOGGLE'' @ rest) a (toggled a)"
| Pick: "mode_request (''SET_MODE '' @ v) a (picked v a)"
| Lock: "mode_request (''SET_WRAPPER '' @ v) a (locked (atoi v) a)"
| Switch: "v \<noteq> ''auto'' \<Longrightarrow> mode_request (''SET_DAEMON '' @ v) a (switched v a)"
| Reset: "ov = 0 \<or> ov = m_override a \<Longrightarrow> m \<in> modes \<Longrightarrow>
    mode_request (''SET_DAEMON '' @ ''auto'') a (a\<lparr>m_auto := False, m_override := ov, m_device := m\<rparr>)"
| Power: "m \<in> modes \<Longrightarrow> mode_request (''SET_TDP '' @ v) a (a\<lparr>m_device := m\<rparr>)"
| Sync: "mode_request (''CONFIG_SYNC'' @ rest) a (a\<lparr>m_auto := b\<rparr>)"
| Other: "\<forall>c \<in> set mode_commands. \<not> prefix c buf \<Longrightarrow> mode_request buf a a"

text \<open>
  A turn of the daemon's loop: the request that was received, if any, then a round, perhaps a reload of the configuration. The turn in which a request stops
  the daemon has no round; a signal changes nothing. A run lists the requests of its turns in order.
\<close>

definition served_request :: "string list \<Rightarrow> mode_state \<Rightarrow> mode_state \<Rightarrow> bool" where
  "served_request ds a b \<longleftrightarrow> ds = [] \<and> b = a \<or> (\<exists>buf. ds = [buf] \<and> mode_request buf a b)"

inductive mode_turn :: "string list \<Rightarrow> mode_state \<Rightarrow> mode_state \<Rightarrow> bool" where
  Idle: "mode_turn [] a a"
| Last: "served_request ds a b \<Longrightarrow> mode_turn ds a b"
| Turn: "served_request ds a b \<Longrightarrow> mode_turn ds a (polled game b)"
| Reload: "served_request ds a b \<Longrightarrow> mode_turn ds a ((polled game b)\<lparr>m_auto := x\<rparr>)"

inductive mode_run :: "string list \<Rightarrow> mode_state \<Rightarrow> mode_state \<Rightarrow> bool" where
  Start: "mode_run [] a a"
| Turns: "mode_run ds a b \<Longrightarrow> mode_turn es b c \<Longrightarrow> mode_run (ds @ es) a c"

subsection \<open>The program's state\<close>

definition mode_abs :: "('w \<Rightarrow> string) \<Rightarrow> 'w prog \<Rightarrow> mode_state" where
  "mode_abs st s =
     \<lparr>m_lock = wrapper_lock s, m_override = active_override s, m_auto = (strcmp (daemon_state (cfg s)) ''default'' = 0),
      m_target = target_mode s, m_device = st (world s)\<rparr>"

text \<open>
  Beside what the driver documents for the two modes: it refuses any other value (without a newline, which it would ignore), a
  child has descriptors of its own, and the configuration and game files are not the mode node.
\<close>

definition device_refuses :: "'w env \<Rightarrow> ('w \<Rightarrow> string) \<Rightarrow> ('w \<Rightarrow> int set) \<Rightarrow> bool" where
  "device_refuses E st fds \<longleftrightarrow>
     (\<forall>w fd v. fds w = {fd} \<longrightarrow> v \<notin> modes \<longrightarrow> NL \<notin> set v \<longrightarrow>
        fds (snd (kernel E (SysWrite fd v) w)) = {fd} \<and> st (snd (kernel E (SysWrite fd v) w)) = st w)"

definition device_children :: "'w env \<Rightarrow> ('w \<Rightarrow> int set) \<Rightarrow> bool" where
  "device_children E fds \<longleftrightarrow> (\<forall>w ch. fds w = {} \<longrightarrow> fds (snd (kernel E (SysFork ch) w)) = {})"

definition mode_driver :: "'w env \<Rightarrow> string \<Rightarrow> ('w \<Rightarrow> string) \<Rightarrow> ('w \<Rightarrow> int set) \<Rightarrow> bool" where
  "mode_driver E p st fds \<longleftrightarrow> mode_device E p st fds \<and> node_at E p \<and> device_refuses E st fds \<and> device_children E fds \<and>
     CONFIG_PATH E \<noteq> p"

text \<open>Between two operations: no descriptor of the node is open, the found path is the node's.\<close>

definition steady :: "string \<Rightarrow> ('w \<Rightarrow> int set) \<Rightarrow> 'w prog \<Rightarrow> bool" where
  "steady p fds s \<longleftrightarrow> fds (world s) = {} \<and> x3d_path_cache s \<in> {[], p} \<and> log_ok s \<and> NL \<notin> set (target_mode s)"

definition track :: "string \<Rightarrow> ('w \<Rightarrow> string) \<Rightarrow> ('w \<Rightarrow> int set) \<Rightarrow> mode_state \<Rightarrow> 'w prog \<Rightarrow> bool" where
  "track p st fds a s \<longleftrightarrow> steady p fds s \<and> mode_abs st s = a"

text \<open>The parts of the machine that are variables of the program.\<close>

definition steers :: "mode_state \<Rightarrow> 'w prog \<Rightarrow> bool" where
  "steers a s \<longleftrightarrow> wrapper_lock s = m_lock a \<and> active_override s = m_override a \<and>
     (strcmp (daemon_state (cfg s)) ''default'' = 0) = m_auto a \<and> target_mode s = m_target a \<and> NL \<notin> set (m_target a)"

lemma track_parts: "track p st fds a s \<longleftrightarrow> in_mode p st fds (m_device a) s \<and> steers a s"
  by (cases a) (auto simp: track_def steady_def mode_abs_def in_mode_def steers_def)

lemma steers_indep: "det_indep (steers a)"
  by (simp add: det_indep_def hw_indep_def jrn_indep_def sys_indep_def steers_def)

lemmas steers_base = det_sys [OF steers_indep] det_jrn [OF steers_indep] det_hw [OF steers_indep] steers_indep

lemma steers_device [simp]: "steers (a\<lparr>m_device := m\<rparr>) = steers a"
  by (simp add: steers_def [abs_def])

subsection \<open>Fragments that leave the machine alone\<close>

definition calm :: "'w env \<Rightarrow> string \<Rightarrow> ('w, 'a) m \<Rightarrow> bool" where
  "calm E p m \<longleftrightarrow> makes E (off_node p) m \<and> keeps (path_in p) m \<and> (\<forall>a. keeps (steers a) m)"

named_theorems calm_rules "fragments that leave the mode machine alone"

lemma calmI: "makes E (off_node p) m \<Longrightarrow> keeps (path_in p) m \<Longrightarrow> (\<And>a. keeps (steers a) m) \<Longrightarrow> calm E p m"
  by (simp add: calm_def)

lemma calm_track: "mode_device E p st fds \<Longrightarrow> calm E p m \<Longrightarrow> keeps (track p st fds a) m"
  using in_mode_quiet [of E p st fds m] by (auto simp: calm_def hoare_def track_parts)

lemma calm_bind [calm_rules]: "calm E p m \<Longrightarrow> (\<And>x. calm E p (k x)) \<Longrightarrow> calm E p (State_Monad.bind m k)"
  unfolding calm_def by (intro conjI allI makes_rules hoare_rules) blast+

lemma calm_ret [calm_rules]: "calm E p (ret x)" "calm E p (gets f)"
  by (intro calmI makes_rules hoare_rules)+

lemma calm_control [calm_rules]:
  "(b \<Longrightarrow> calm E p m) \<Longrightarrow> (\<not> b \<Longrightarrow> calm E p m') \<Longrightarrow> calm E p (if b then m else m')"
  "(x = None \<Longrightarrow> calm E p n) \<Longrightarrow> (\<And>y. x = Some y \<Longrightarrow> calm E p (f y)) \<Longrightarrow> calm E p (case x of None \<Rightarrow> n | Some y \<Rightarrow> f y)"
  "(\<And>u v. z = (u, v) \<Longrightarrow> calm E p (g u v)) \<Longrightarrow> calm E p (case z of (u, v) \<Rightarrow> g u v)"
  "calm E p (h y) \<Longrightarrow> calm E p (let v = y in h v)"
  by (auto split: option.splits prod.splits)

lemma calm_foldM [calm_rules]: "(\<And>x b. calm E p (f x b)) \<Longrightarrow> calm E p (foldM f xs b)"
  by (induction xs arbitrary: b) (auto intro!: calm_rules)

lemma calm_forM [calm_rules]: "(\<And>x. calm E p (f x)) \<Longrightarrow> calm E p (forM xs f)"
  by (induction xs) (auto intro!: calm_rules)

text \<open>A path that is none of the known nodes of the driver.\<close>

definition off_path :: "string \<Rightarrow> string \<Rightarrow> bool" where
  "off_path p q \<longleftrightarrow> q \<noteq> p"

lemma calm_calls [calm_rules]:
  "calm E p (c_read E fd n)" "calm E p (c_write E fd d)" "calm E p (c_close E fd)" "calm E p (c_access E q md)"
  "calm E p (c_geteuid E)" "calm E p (c_waitpid E pid)" "calm E p (c_send E fd d n)" "calm E p (c_recv E fd n k)"
  "calm E p (c_accept4 E fd n)" "calm E p (c_select E nf fs tv)" "off_path p q \<Longrightarrow> calm E p (c_open E q fl md)"
  by - (intro calmI makes_rules hoare_rules path_in_indep steers_base; simp add: off_node_def off_path_def)+

lemma calm_bpf_call [calm_rules]: "calm E p (bpf_lib E c)"
  unfolding bpf_lib_def by (intro calmI makes_rules makes_sys hoare_rules path_in_indep steers_base) (simp add: off_node_def)

lemma calm_modify:
  "(\<And>s. trace (f s) = trace s) \<Longrightarrow> (\<And>s. world (f s) = world s) \<Longrightarrow> (\<And>s. log_path (f s) = log_path s) \<Longrightarrow>
   (\<And>s. x3d_path_cache (f s) = x3d_path_cache s) \<Longrightarrow> (\<And>a s. steers a s \<Longrightarrow> steers a (f s)) \<Longrightarrow> calm E p (modify f)"
  by (intro calmI makes_modify) (simp_all add: log_ok_def hoare_def path_in_def)

lemma calm_vars [calm_rules]:
  "calm E p (modify (\<lambda>s. s\<lparr>errno := fi s\<rparr>))" "calm E p (modify (\<lambda>s. s\<lparr>active_keep := fb s\<rparr>))"
  "calm E p (modify (\<lambda>s. s\<lparr>bpf_active := fb s\<rparr>))" "calm E p (modify (\<lambda>s. s\<lparr>bpf_obj := fi s\<rparr>))"
  "calm E p (modify (\<lambda>s. s\<lparr>bpf_link_exec := fi s\<rparr>))" "calm E p (modify (\<lambda>s. s\<lparr>bpf_link_exit := fi s\<rparr>))"
  "calm E p (modify (\<lambda>s. s\<lparr>bpf_rb := fi s\<rparr>))" "calm E p (modify (\<lambda>s. s\<lparr>reload_flag := fb s\<rparr>))"
  "calm E p (modify (\<lambda>s. s\<lparr>gl := fg s\<rparr>))" "calm E p (modify (\<lambda>s. s\<lparr>last_sig := fi s\<rparr>))"
  by (rule calm_modify; simp add: steers_def)+

lemma calm_journal [calm_rules]:
  assumes "node_at E p"
  shows "plain_code code \<Longrightarrow> calm E p (journal_error E code as)" "plain_code code \<Longrightarrow> calm E p (journal_warn E code as)"
    "plain_code code \<Longrightarrow> calm E p (journal_info E code as)" "plain_code code \<Longrightarrow> calm E p (journal_log E code as)"
    "calm E p (journal_debug E fmt as)" "calm E p (syslog E prio fmt as)"
  using node_calls(2) [OF assms] plain_code_def
  by - (intro calmI makes_rules hoare_rules path_in_indep steers_base; (assumption | simp add: plain_code_def)?)+

subsection \<open>The operations that do not concern the machine\<close>

text \<open>None of the paths the program builds is a node of the driver.\<close>

lemma off_take:
  assumes "node_at E p" "\<exists>d \<in> {''/sys/devices/system/'', ''/sys/fs/'', ''/proc/'', ''/sys/kernel/''}. prefix d (take n q)"
  shows "off_path p (take n q)"
proof -
  have "p \<in> set x3d_targets" using assms(1) unfolding node_at_def by (metis in_set_conv_decomp)
  then show ?thesis using assms(2) by (auto simp: off_path_def x3d_targets_def)
qed

lemma off_literal:
  assumes "node_at E p" "\<exists>d \<in> {''/sys/devices/system/'', ''/sys/fs/'', ''/proc/'', ''/sys/kernel/''}. prefix d q"
  shows "off_path p q"
  using off_take [OF assms(1), of "length q" q] assms(2) by simp

lemma off_nodes:
  assumes "node_at E p"
  shows "off_path p (printf_sn E 128 ''/sys/devices/system/cpu/cpu%d/online'' [AInt i])"
    "off_path p (printf_sn E 256 ''/sys/devices/system/cpu/cpu%d/acpi_cppc/desired_perf'' [AInt i])"
    "off_path p (printf_sn E 256 epp_node [AInt i])"
    "off_path p (printf_sn E 256 ''/sys/devices/system/cpu/cpu%d/cpufreq/scaling_governor'' [AInt i])"
    "off_path p (printf_sn E 512 ''%s/%s'' [AStr CGROUP_ROOT, AStr rel])"
    "off_path p (printf_sn E 256 ''%s/%s/cgroup.procs'' [AStr CGROUP_ROOT, AStr rel])"
    "off_path p (printf_sn E 128 ''%s%s'' [AStr ''/proc/sys/kernel/'', AStr rel])"
    "off_path p ''/sys/devices/system/cpu/cpufreq/boost''" "off_path p ''/sys/devices/system/cpu/amd_pstate/status''"
    "off_path p ''/sys/devices/system/cpu/amd_pstate/prefcore''"
  unfolding printf_sn_def printf_vsn_render epp_node_def CGROUP_ROOT_def
  by (rule off_take [OF assms] off_literal [OF assms], simp add: fmt_simps)+

lemma off_advanced: "node_at E p \<Longrightarrow> map_of advanced_nodes k = Some (q, u, ck) \<Longrightarrow> off_path p q"
  by (drule map_of_SomeD, rule off_literal, assumption) (auto simp: advanced_nodes_def)

lemma calm_write_node [calm_rules]: "off_path p q \<Longrightarrow> calm E p (write_node E q val a b)"
  unfolding write_node_def by (intro calm_rules)

lemma calm_write_cores: "(\<And>i. off_path p (printf_sn E 256 fmt [AInt i])) \<Longrightarrow> calm E p (write_cores E fmt val cores)"
  unfolding write_cores_def by (intro calm_rules)

lemma calm_nodes [calm_rules]:
  assumes N: "node_at E p"
  shows "calm E p (cli_set_core E i on)" "calm E p (cppc_boost E on)" "calm E p (cppc_perf E v)" "calm E p (cppc_epp E val)"
    "calm E p (cppc_ccd E i val)" "calm E p (cppc_pstate E val)" "calm E p (cppc_governor E val)"
    "calm E p (cppc_prefcore E on)" "calm E p (affinity_set_masks E path val)" "calm E p (affinity_partition E i j)"
    "calm E p (scheduler_set E pf)"
  unfolding cli_set_core_def cppc_boost_def cppc_perf_def cppc_epp_def cppc_ccd_def cppc_pstate_def cppc_governor_def
    cppc_prefcore_def affinity_set_masks_def affinity_partition_def cgroup_write_raw_def cgroup_write_pid_def affinity_default_def
    scheduler_set_def scheduler_check_def sysctl_kernel_write_def
  by - (intro calm_rules calm_write_cores off_nodes [OF N])+

lemma calm_mode_apply [calm_rules]: "node_at E p \<Longrightarrow> calm E p (cli_mode_apply E part)"
  unfolding cli_mode_apply_def by (intro calm_rules plain_codes)

lemma calm_sysctl [calm_rules]:
  "off_path p q \<Longrightarrow> calm E p (sysctl_write E q val)" "off_path p q \<Longrightarrow> calm E p (sysctl_read E q n)"
  unfolding sysctl_write_def sysctl_read_def by - (intro calm_rules; assumption)+

lemma calm_config [calm_rules]:
  "off_path p (CONFIG_PATH E) \<Longrightarrow> calm E p (config_update E k v)" "calm E p (config_get E k)"
  unfolding config_update_def config_get_def by - (intro calm_rules; assumption)+

lemma calm_games_load [calm_rules]: "node_at E p \<Longrightarrow> calm E p (games_load E)"
proof -
  assume "node_at E p"
  then have "p \<in> set x3d_targets" unfolding node_at_def by (metis in_set_conv_decomp)
  then have "off_path p GAMES_SYS" by (auto simp: off_path_def GAMES_SYS_def x3d_targets_def)
  then show ?thesis unfolding games_load_def by (intro calm_rules)
qed

lemma calm_bpf [calm_rules]: "node_at E p \<Longrightarrow> calm E p (bpf_init E)" "node_at E p \<Longrightarrow> calm E p (bpf_cleanup E)"
  unfolding bpf_init_def bpf_cleanup_def bpf_attach_def bpf_events_def by - (intro calm_rules plain_codes; assumption?)+

lemma calm_reply [calm_rules]: "calm E p (reply E fd msg)" "calm E p (reply_ok E fd ok)" "calm E p (reply_code E fd code)"
  unfolding reply_code_def reply_ok_def reply_def by - (intro calm_rules)+

lemma live_daemon_state: "daemon_state (set_live k v c) = daemon_state c"
proof (cases "map_of live_setters k")
  case (Some u)
  have "list_all (\<lambda>(k, u). \<forall>v c. daemon_state (u v c) = daemon_state c) live_setters"
    unfolding live_setters_def list.pred_inject prod.case by (intro conjI allI TrueI; simp)
  moreover have "(k, u) \<in> set live_setters" using Some by (rule map_of_SomeD)
  ultimately have "daemon_state (u v c) = daemon_state c" unfolding list_all_iff by blast
  then show ?thesis using Some by (simp add: set_live_def)
qed (simp add: set_live_def)

lemma advanced_daemon_state: "map_of advanced_nodes k = Some (q, u, ck) \<Longrightarrow> daemon_state (u v c) = daemon_state c"
proof -
  have "list_all (\<lambda>(k, q, u, ck). \<forall>v c. daemon_state (u v c) = daemon_state c) advanced_nodes"
    unfolding advanced_nodes_def list.pred_inject prod.case by (intro conjI allI TrueI; simp)
  then show "map_of advanced_nodes k = Some (q, u, ck) \<Longrightarrow> daemon_state (u v c) = daemon_state c"
    unfolding list_all_iff by (blast dest: map_of_SomeD)
qed

lemma calm_cfg [calm_rules]: "(\<And>c. daemon_state (u c) = daemon_state c) \<Longrightarrow> calm E p (modify (\<lambda>s. s\<lparr>cfg := u (cfg s)\<rparr>))"
  by (rule calm_modify) (simp_all add: steers_def)

subsection \<open>The operations on the node\<close>

lemma mode_driverD:
  assumes "mode_driver E p st fds"
  shows "mode_device E p st fds" "node_at E p" "off_path p (CONFIG_PATH E)" "keeps (\<lambda>s. fds (world s) = {}) (c_fork E ch)"
  using assms by (auto simp: mode_driver_def off_path_def device_children_def hoare_def c_fork_def run_sys run_sys_errno Let_def)

lemma track_calm: "mode_driver E p st fds \<Longrightarrow> calm E p m \<Longrightarrow> keeps (track p st fds a) m"
  by (rule calm_track [OF mode_driverD(1)])

lemma track_set_mode:
  assumes D: "mode_driver E p st fds" and v: "v \<in> modes"
  shows "hoare (track p st fds a) (cli_set_mode E v) (\<lambda>_. track p st fds (a\<lparr>m_device := v\<rparr>))"
  using hoare_conj [OF hoare_cli_set_mode [OF mode_driverD(1,2) [OF D] v, where m = "m_device a"]
      keeps_hw(3) [OF steers_base(3), where a1 = a]]
  by (auto simp: hoare_def track_parts)

lemma hoare_node_refuses:
  assumes D: "mode_driver E p st fds" and v: "v \<notin> modes" "NL \<notin> set v"
  shows "hoare (on_node p st fds m fd) (c_write E fd v) (\<lambda>_. on_node p st fds m fd)"
  using D v by (auto simp: hoare_def on_node_def mode_driver_def device_refuses_def c_write_def run_sys_errno log_ok_def Let_def)

text \<open>A value the driver does not know changes nothing.\<close>

lemma track_refused:
  assumes D: "mode_driver E p st fds" and v: "v \<notin> modes" "NL \<notin> set v"
  shows "keeps (track p st fds a) (cli_set_mode E v)"
proof -
  note d = mode_driverD(1,2) [OF D]
  have wr: "O_WRONLY \<in> plain_flags" by (simp add: plain_flags_def)
  have body: "hoare (on_node p st fds m fd) (do { n \<leftarrow> c_write E fd v; c_close E fd; ret (f n) }) (\<lambda>_. in_mode p st fds m)"
    for fd m and f :: "int \<Rightarrow> int"
    by (rule hoare_bind [OF hoare_node_refuses [OF D v]], rule hoare_bind [OF hoare_node_close [OF d(1)]], rule hoare_ret)
  have "keeps (in_mode p st fds m) (write_node E p v ERR_HW ERR_IO)" for m
    unfolding write_node_def
    by (rule hoare_bind [OF hoare_node_open [OF d(1) wr]]) (use body in \<open>auto simp: hoare_def simp del: run_state_bind\<close>)
  then have "keeps (in_mode p st fds m) (cli_set_mode E v)" for m
    unfolding cli_set_mode_def
    by (intro hoare_bind [OF hoare_find_path [OF d]]) (auto simp: hoare_def simp del: run_state_bind)
  then show ?thesis
    using keeps_hw(3) [OF steers_base(3)] by (fastforce simp: hoare_def track_parts)
qed

lemma track_dual:
  assumes D: "mode_driver E p st fds"
  shows "keeps (track p st fds a) (cli_set_dual E)" "keeps (track p st fds a) (cli_set_swap E)"
  unfolding cli_set_dual_def cli_set_swap_def by (rule track_refused [OF D]; simp add: modes_def)+

lemma track_mode:
  assumes D: "mode_driver E p st fds" and n: "32 \<le> n"
  shows "hoare (track p st fds a) (mode E old n) (\<lambda>r s. r = (ERR_SUCCESS, m_device a) \<and> track p st fds a s)"
  using hoare_conj [OF hoare_mode [OF mode_driverD(1,2) [OF D] n, where m = "m_device a"]
      keeps_hw(1) [OF steers_base(3), where a1 = a]]
  by (auto simp: hoare_def track_parts)

lemma track_modes: "mode_driver E p st fds \<Longrightarrow> track p st fds a s \<Longrightarrow> m_device a \<in> modes"
  by (auto simp: mode_driver_def mode_device_def track_def mode_abs_def)

lemma track_vars:
  "hoare (track p st fds a) (modify (\<lambda>s. s\<lparr>active_override := i\<rparr>)) (\<lambda>_. track p st fds (a\<lparr>m_override := i\<rparr>))"
  "hoare (track p st fds a) (modify (\<lambda>s. s\<lparr>wrapper_lock := i\<rparr>)) (\<lambda>_. track p st fds (a\<lparr>m_lock := i\<rparr>))"
  "hoare (track p st fds a) (modify (\<lambda>s. s\<lparr>cfg := (cfg s)\<lparr>daemon_state := t\<rparr>\<rparr>))
     (\<lambda>_. track p st fds (a\<lparr>m_auto := (strcmp t ''default'' = 0)\<rparr>))"
  by (auto simp: hoare_def track_def steady_def mode_abs_def log_ok_def)

text \<open>A child may leave the device in either mode.\<close>

definition roams :: "string \<Rightarrow> ('w \<Rightarrow> string) \<Rightarrow> ('w \<Rightarrow> int set) \<Rightarrow> mode_state \<Rightarrow> 'w prog \<Rightarrow> bool" where
  "roams p st fds a s \<longleftrightarrow> (\<exists>m. track p st fds (a\<lparr>m_device := m\<rparr>) s)"

lemma roams_parts: "roams p st fds a s \<longleftrightarrow> (\<exists>m. in_mode p st fds m s) \<and> steers a s"
  by (auto simp: roams_def track_parts)

lemma roams_fork:
  assumes D: "mode_driver E p st fds"
  shows "keeps (roams p st fds a) (c_fork E ch)"
proof -
  have "keeps (steers a) (c_fork E ch)" "keeps (path_in p) (c_fork E ch)" "keeps log_ok (c_fork E ch)"
    by (simp_all add: hoare_def c_fork_def run_sys run_sys_errno steers_def path_in_def log_ok_def Let_def)
  with mode_driverD(4) [OF D, of ch] show ?thesis
    by (auto simp: hoare_def roams_parts in_mode_def path_in_def)
qed

lemma roams_calm: "mode_driver E p st fds \<Longrightarrow> calm E p m \<Longrightarrow> keeps (roams p st fds a) m"
  using track_calm [of E p st fds m] by (fastforce simp: hoare_def roams_def)

lemma roams_fork_then:
  assumes D: "mode_driver E p st fds" and k: "\<And>pid. calm E p (k pid)"
  shows "keeps (roams p st fds a) (State_Monad.bind (c_fork E ch) k)"
  by (rule keeps_bind [OF roams_fork [OF D] roams_calm [OF D k]])

lemma roams_reset: "mode_driver E p st fds \<Longrightarrow> keeps (roams p st fds a) (run_reset E)"
  unfolding run_reset_def
  by (rule roams_fork_then) (assumption, intro calm_rules mode_driverD(2))

lemma roams_tdp:
  assumes D: "mode_driver E p st fds"
  shows "keeps (roams p st fds a) (cppc_tdp E w)"
  unfolding cppc_tdp_def
  by (intro keeps_bind [OF roams_calm [OF D calm_journal(5)]] keeps_bind [OF keeps_gets] roams_fork_then [OF D] calm_rules
      mode_driverD(2) [OF D])

end
