(* ===== verification/Mode_Requests.thy ===== *)
theory Mode_Requests
  imports Mode_Machine
begin

section \<open>Requests refine the mode machine\<close>

text \<open>
  Every branch of the dispatch in \<^verbatim>\<open>socket.c\<close> does to the lock, the override, the state, the target and the device what the rule of
  \<open>mode_request\<close> for its request says.
\<close>

subsection \<open>Branches\<close>

text \<open>A branch does to the machine what its request may do, unless it ends the process.\<close>

definition serves :: "string \<Rightarrow> ('w \<Rightarrow> string) \<Rightarrow> ('w \<Rightarrow> int set) \<Rightarrow> string \<Rightarrow> ('w, 'a) m \<Rightarrow> bool" where
  "serves p st fds buf m \<longleftrightarrow> (\<forall>a. hoare (track p st fds a) m
     (\<lambda>_ s. exited s = None \<longrightarrow> (\<exists>b. mode_request buf a b \<and> track p st fds b s)))"

lemma serves_other:
  assumes "\<And>a. hoare (track p st fds a) m (\<lambda>_ s. exited s = None \<longrightarrow> track p st fds a s)" "list_all (\<lambda>c. \<not> prefix c buf) mode_commands"
  shows "serves p st fds buf m"
  using assms mode_request.Other [of buf] unfolding serves_def hoare_def list_all_iff by blast

lemma serves_calm:
  "mode_driver E p st fds \<Longrightarrow> calm E p m \<Longrightarrow> list_all (\<lambda>c. \<not> prefix c buf) mode_commands \<Longrightarrow> serves p st fds buf m"
  using track_calm [of E p st fds m] by (intro serves_other) (auto simp: hoare_def)

lemma serves_step:
  "(\<And>a. hoare (track p st fds a) m (\<lambda>_. track p st fds (f a))) \<Longrightarrow> (\<And>a. mode_request buf a (f a)) \<Longrightarrow> serves p st fds buf m"
  unfolding serves_def hoare_def by blast

lemma number_keeps:
  assumes "keeps I (modify (\<lambda>s. s\<lparr>errno := 0\<rparr>))" "\<And>code. keeps I (reply_code E fd code)" "\<And>n. keeps I (op n)"
  shows "hoare I (with_number E fd arg err op) (\<lambda>_ s. exited s = None \<longrightarrow> I s)"
proof -
  have dead: "(exited (exec (null_deref E) s) = None) = False" for s using null_deref_exits by blast
  have crash: "hoare I (do { modify (\<lambda>s. s\<lparr>errno := 34\<rparr>); null_deref E; ret False }) (\<lambda>_ s. exited s = None \<longrightarrow> I s)"
    by (simp add: hoare_def exec_bind dead del: run_state_bind)
  have "hoare I (case x of Null_Read \<Rightarrow> do { modify (\<lambda>s. s\<lparr>errno := 34\<rparr>); null_deref E; ret False }
     | Rejected \<Rightarrow> reply_code E fd err | Number n \<Rightarrow> do { r \<leftarrow> op n; reply_code E fd r }) (\<lambda>_ s. exited s = None \<longrightarrow> I s)" for x
    using crash assms(2) hoare_bind [OF assms(3) assms(2)] by (cases x) (simp_all add: hoare_def del: run_state_bind)
  then show ?thesis unfolding with_number_def by (intro hoare_bind [OF assms(1)])
qed

lemma then_reply:
  "mode_driver E p st fds \<Longrightarrow> hoare P m (\<lambda>_. track p st fds b) \<Longrightarrow> hoare P (do { m; reply E fd msg }) (\<lambda>_. track p st fds b)"
  by (rule hoare_bind, assumption, rule track_calm, assumption, rule calm_reply)

lemma track_toggle:
  assumes D: "mode_driver E p st fds"
  shows "hoare (track p st fds a) (ipc_toggle E fd arg) (\<lambda>_. track p st fds (toggled a))"
proof -
  have "hoare (\<lambda>s. r = (ERR_SUCCESS, m_device a) \<and> track p st fds a s)
    (do { let target = (if strcmp (snd r) ''cache'' = 0 then ''frequency'' else ''cache'');
          modify (\<lambda>s. s\<lparr>active_override := (if strcmp target ''cache'' = 0 then 1 else 2)\<rparr>);
          cli_set_mode E target; reply E fd ''OK'' }) (\<lambda>_. track p st fds (toggled a))" for r
  proof (cases "m_device a \<in> modes \<and> r = (ERR_SUCCESS, m_device a)")
    case True
    define t where "t = (if m_device a = ''cache'' then ''frequency'' else ''cache'')"
    define i :: int where "i = (if m_device a = ''cache'' then 2 else 1)"
    have "toggled a = a\<lparr>m_override := i, m_device := t\<rparr>" "t \<in> modes" by (simp_all add: toggled_def i_def t_def modes_def)
    moreover have "(if strcmp (snd r) ''cache'' = 0 then ''frequency'' else ''cache'') = t" "(if strcmp t ''cache'' = 0 then 1 else 2) = i"
      using True modes_facts [of "m_device a"] by (auto simp: t_def i_def cstr_simps)
    moreover have "hoare (track p st fds a) (do { modify (\<lambda>s. s\<lparr>active_override := i\<rparr>); cli_set_mode E t; reply E fd ''OK'' })
        (\<lambda>_. track p st fds (a\<lparr>m_override := i, m_device := t\<rparr>))" if "t \<in> modes"
      by (rule hoare_bind [OF track_vars(1)], rule then_reply [OF D track_set_mode [OF D that]])
    ultimately show ?thesis by (simp add: hoare_def del: run_state_bind)
  next
    case False
    then show ?thesis using track_modes [OF D] by (auto simp: hoare_def)
  qed
  then show ?thesis
    unfolding ipc_toggle_def by (intro hoare_bind [OF track_mode [OF D]]) simp_all
qed

lemma track_pick:
  assumes D: "mode_driver E p st fds"
  shows "hoare (track p st fds a) (ipc_set_mode E fd v) (\<lambda>_. track p st fds (picked v a))"
proof -
  note ap = track_calm [OF D calm_mode_apply [OF mode_driverD(2) [OF D]]]
  have ok: "keeps (track p st fds b) (reply_ok E fd x)" for b x by (rule track_calm [OF D calm_reply(2)])
  have go: "hoare (track p st fds a) (do { modify (\<lambda>s. s\<lparr>active_override := i\<rparr>); m; cli_mode_apply E part; reply_ok E fd True })
      (\<lambda>_. track p st fds b)" if "hoare (track p st fds (a\<lparr>m_override := i\<rparr>)) m (\<lambda>_. track p st fds b)" for i b part and m :: "('a, int) m"
    by (rule hoare_bind [OF track_vars(1)], rule hoare_bind [OF that], rule hoare_bind [OF ap ok])
  have set_m: "hoare (track p st fds (a\<lparr>m_override := i\<rparr>)) (cli_set_mode E t) (\<lambda>_. track p st fds (a\<lparr>m_override := i, m_device := t\<rparr>))"
    if "t \<in> modes" for i t by (rule track_set_mode [OF D that])
  have mm: "''cache'' \<in> modes" "''frequency'' \<in> modes" by (simp_all add: modes_def)
  have drop: "hoare (track p st fds a) (do { modify (\<lambda>s. s\<lparr>active_override := 0\<rparr>); reply_ok E fd True })
      (\<lambda>_. track p st fds (a\<lparr>m_override := 0\<rparr>))"
    by (rule hoare_bind [OF track_vars(1) ok])
  show ?thesis
    unfolding ipc_set_mode_def picked_def has_def strstr_None not_not
    using go [OF set_m [OF mm(1)]] go [OF set_m [OF mm(2)]] go [OF track_dual(1) [OF D]] go [OF track_dual(2) [OF D]]
      drop ok
    by simp
qed

lemma track_lock:
  assumes D: "mode_driver E p st fds"
  shows "hoare (track p st fds a) (ipc_set_wrapper E fd v) (\<lambda>_. track p st fds (locked (atoi v) a))"
proof -
  have mm: "''cache'' \<in> modes" "''frequency'' \<in> modes" by (simp_all add: modes_def)
  have set_m: "hoare (track p st fds b) (do { cli_set_mode E t; modify (\<lambda>s. s\<lparr>active_override := i\<rparr>) })
      (\<lambda>_. track p st fds (b\<lparr>m_override := i, m_device := t\<rparr>))" if "t \<in> modes" for b t i
  proof -
    have eq: "b\<lparr>m_override := i, m_device := t\<rparr> = b\<lparr>m_device := t, m_override := i\<rparr>" by (cases b) simp
    show ?thesis unfolding eq by (rule hoare_bind [OF track_set_mode [OF D that] track_vars(1)])
  qed
  have "hoare (track p st fds (a\<lparr>m_lock := atoi v\<rparr>))
      (if atoi v \<noteq> 0 then do { cli_set_mode E ''cache''; modify (\<lambda>s. s\<lparr>active_override := 1\<rparr>) }
       else do { cli_set_mode E ''frequency''; modify (\<lambda>s. s\<lparr>active_override := 0\<rparr>) })
      (\<lambda>_. track p st fds (locked (atoi v) a))"
    using set_m [OF mm(1), of "a\<lparr>m_lock := atoi v\<rparr>" 1] set_m [OF mm(2), of "a\<lparr>m_lock := atoi v\<rparr>" 0]
    by (cases "atoi v = 0") (simp_all add: locked_def)
  then show ?thesis
    unfolding ipc_set_wrapper_def Let_def by (intro hoare_bind [OF track_vars(2)] then_reply [OF D])
qed

text \<open>The state \<^verbatim>\<open>auto\<close>: the reset script may leave any mode, and when it cannot be started the override stays.\<close>

lemma roams_auto:
  assumes D: "mode_driver E p st fds"
  shows "hoare (track p st fds a) (ipc_set_daemon E fd ''auto'')
    (\<lambda>_ s. \<exists>ov. (ov = 0 \<or> ov = m_override a) \<and> roams p st fds (a\<lparr>m_auto := False, m_override := ov\<rparr>) s)"
proof -
  let ?a = "\<lambda>ov. a\<lparr>m_auto := False, m_override := ov\<rparr>"
  let ?d = "modify (\<lambda>s. s\<lparr>cfg := (cfg s)\<lparr>daemon_state := fit 32 ''auto''\<rparr>\<rparr>)"
  let ?fail = "do { reply E fd ''ERR''; c_close E fd; ret False }"
  let ?drop = "do { ov \<leftarrow> gets active_override; (if ov \<noteq> 0 then modify (\<lambda>s. s\<lparr>active_override := 0\<rparr>) else ret ()); reply E fd ''OK'' }"
  note up = track_calm [OF D calm_config(1) [OF mode_driverD(3) [OF D]]]
  have rep: "keeps (roams p st fds b) (reply E fd ''OK'')" for b by (rule roams_calm [OF D calm_reply(1)])
  have ne: "strcmp (fit 32 ''auto'') ''default'' \<noteq> 0" by (simp add: cstr_simps)
  have set_state: "hoare (track p st fds a) ?d (\<lambda>_. roams p st fds (?a (m_override a)))"
    using ne by (cases a) (auto simp: hoare_def track_parts roams_parts steers_def in_mode_def log_ok_def)
  have "roams p st fds (?a ov) s \<Longrightarrow> roams p st fds (?a 0) (s\<lparr>active_override := 0\<rparr>)"
    "roams p st fds (?a ov) s \<Longrightarrow> active_override s = 0 \<Longrightarrow> roams p st fds (?a 0) s" for s ov
    by (auto simp: roams_parts in_mode_def steers_def log_ok_def)
  then have drop: "hoare (roams p st fds (?a ov)) ?drop (\<lambda>_. roams p st fds (?a 0))" for ov
    using hoareD [OF rep] by (auto simp: hoare_def exec_bind simp del: run_state_bind)
  have failed: "keeps (roams p st fds b) ?fail" for b
    by (intro roams_calm [OF D] calm_rules)
  have "hoare (roams p st fds (?a (m_override a))) (if \<not> forked then ?fail else ?drop)
      (\<lambda>_ s. \<exists>ov. (ov = 0 \<or> ov = m_override a) \<and> roams p st fds (?a ov) s)" for forked
    using drop [of "m_override a"] failed [of "?a (m_override a)"] by (auto simp: hoare_def simp del: run_state_bind)
  then have "hoare (track p st fds a)
      (do { config_update E ''DAEMON_STATE'' ''auto''; ?d; forked \<leftarrow> run_reset E; if \<not> forked then ?fail else ?drop })
      (\<lambda>_ s. \<exists>ov. (ov = 0 \<or> ov = m_override a) \<and> roams p st fds (?a ov) s)"
    by (intro hoare_bind [OF up] hoare_bind [OF set_state] hoare_bind [OF roams_reset [OF D]])
  moreover have "strcmp ''auto'' ''auto'' = 0" by (simp add: cstr_simps)
  ultimately show ?thesis unfolding ipc_set_daemon_def by (simp only: simp_thms if_True)
qed

lemma track_switch:
  assumes D: "mode_driver E p st fds" and v: "cstring v" and ne: "v \<noteq> ''auto''"
  shows "hoare (track p st fds a) (ipc_set_daemon E fd v) (\<lambda>_. track p st fds (switched v a))"
proof -
  note rep = track_calm [OF D calm_reply(1)] and up = track_calm [OF D calm_config(1) [OF mode_driverD(3) [OF D]]]
  have cmp: "strcmp v ''manual'' = 0 \<longleftrightarrow> v = ''manual''" "strcmp v ''auto'' \<noteq> 0" "strcmp v ''default'' = 0 \<longleftrightarrow> v = ''default''"
    using v ne by (simp_all add: cstr_simps)
  let ?d = "modify (\<lambda>s. s\<lparr>cfg := (cfg s)\<lparr>daemon_state := fit 32 v\<rparr>\<rparr>)"
  let ?drop = "do { ov \<leftarrow> gets active_override; (if ov \<noteq> 0 \<and> v = ''default'' then modify (\<lambda>s. s\<lparr>active_override := 0\<rparr>) else ret ());
    reply E fd ''OK'' }"
  have known: "hoare (track p st fds a) (do { config_update E ''DAEMON_STATE'' v; ?d; ?drop }) (\<lambda>_. track p st fds (switched v a))"
    if "v = ''manual'' \<or> v = ''default''"
  proof (rule hoare_bind [OF up], rule hoare_bind)
    show "hoare (track p st fds a) ?d (\<lambda>_. track p st fds (a\<lparr>m_auto := (v = ''default'')\<rparr>))"
      using track_vars(3) [of p st fds a "fit 32 v"] that by (auto simp: cstr_simps)
    show "hoare (track p st fds (a\<lparr>m_auto := (v = ''default'')\<rparr>)) ?drop (\<lambda>_. track p st fds (switched v a))"
    proof -
      have "track p st fds b s \<Longrightarrow> track p st fds (b\<lparr>m_override := 0\<rparr>) (s\<lparr>active_override := 0\<rparr>)"
        "track p st fds b s \<Longrightarrow> active_override s = 0 \<Longrightarrow> track p st fds (b\<lparr>m_override := 0\<rparr>) s" for b s
        by (auto simp: track_parts in_mode_def steers_def log_ok_def)
      then show ?thesis using hoareD [OF rep] that by (auto simp: hoare_def exec_bind switched_def simp del: run_state_bind)
    qed
  qed
  have unknown: "hoare (track p st fds a) (reply E fd ''ERR'') (\<lambda>_. track p st fds (switched v a))" if "v \<noteq> ''manual''" "v \<noteq> ''default''"
    using rep that by (simp add: switched_def)
  show ?thesis
    using known unknown unfolding ipc_set_daemon_def by (simp add: cmp)
qed

lemma serves_switch:
  assumes D: "mode_driver E p st fds" and v: "cstring v"
  shows "serves p st fds (''SET_DAEMON '' @ v) (ipc_set_daemon E fd v)"
proof (cases "v = ''auto''")
  case True
  have "\<exists>b. mode_request (''SET_DAEMON '' @ ''auto'') a b \<and> track p st fds b s"
    if "ov = 0 \<or> ov = m_override a" "roams p st fds (a\<lparr>m_auto := False, m_override := ov\<rparr>) s" for a ov s
    using that mode_request.Reset track_modes [OF D] unfolding roams_def by fastforce
  then show ?thesis unfolding serves_def True using roams_auto [OF D] unfolding hoare_def by meson
next
  case False
  show ?thesis by (rule serves_step [OF track_switch [OF D v False] mode_request.Switch [OF False]])
qed

lemma serves_steps:
  assumes D: "mode_driver E p st fds"
  shows "serves p st fds (''TOGGLE'' @ arg) (ipc_toggle E fd arg)" "serves p st fds (''SET_MODE '' @ arg) (ipc_set_mode E fd arg)"
    "serves p st fds (''SET_WRAPPER '' @ arg) (ipc_set_wrapper E fd arg)"
  by (rule serves_step [OF track_toggle [OF D] mode_request.Toggle] serves_step [OF track_pick [OF D] mode_request.Pick]
      serves_step [OF track_lock [OF D] mode_request.Lock])+

lemma roams_number:
  assumes D: "mode_driver E p st fds" and I: "I = track p st fds a \<or> I = roams p st fds a" and op: "\<And>n. keeps I (op n)"
  shows "hoare I (with_number E fd arg err op) (\<lambda>_ s. exited s = None \<longrightarrow> I s)"
proof (rule number_keeps [OF _ _ op])
  show "keeps I (modify (\<lambda>s. s\<lparr>errno := 0\<rparr>))"
    using I by (elim disjE; hypsubst; intro track_calm [OF D] roams_calm [OF D] calm_rules)
  show "keeps I (reply_code E fd code)" for code
    using I by (elim disjE; hypsubst; intro track_calm [OF D] roams_calm [OF D] calm_rules)
qed

lemma serves_power:
  assumes D: "mode_driver E p st fds"
  shows "serves p st fds (''SET_TDP '' @ v) (ipc_set_tdp E fd v)"
proof -
  have "hoare (roams p st fds a) (ipc_set_tdp E fd v) (\<lambda>_ s. exited s = None \<longrightarrow> roams p st fds a s)" for a
    unfolding ipc_set_tdp_def by (rule roams_number [OF D disjI2 [OF refl] roams_tdp [OF D]])
  moreover have "track p st fds a s \<Longrightarrow> roams p st fds a s" for a s
    by (auto simp: roams_parts track_parts)
  moreover have "roams p st fds a s \<Longrightarrow> \<exists>b. mode_request (''SET_TDP '' @ v) a b \<and> track p st fds b s" for a s
    using mode_request.Power track_modes [OF D] unfolding roams_def by fastforce
  ultimately show ?thesis unfolding serves_def hoare_def by blast
qed

text \<open>Loading the configuration decides about the daemon's state only.\<close>

lemma track_config_load:
  assumes D: "mode_driver E p st fds"
  shows "hoare (track p st fds a) (config_load E) (\<lambda>_ s. \<exists>b. track p st fds (a\<lparr>m_auto := b\<rparr>) s)"
proof -
  let ?I = "\<lambda>s. \<exists>b. track p st fds (a\<lparr>m_auto := b\<rparr>) s"
  have c: "calm E p m \<Longrightarrow> keeps ?I m" for m :: "('a, 'b) m" using track_calm [OF D, of m] by (fastforce simp: hoare_def)
  have m: "keeps ?I (modify (\<lambda>s. s\<lparr>cfg := u s\<rparr>))" for u
    by (fastforce simp: hoare_def track_parts steers_def in_mode_def log_ok_def)
  have pr: "calm E p (c_access E q md)" for q md by (rule calm_rules)
  have pc: "keeps ?I (c_access E q md)" "keeps ?I (c_read E i n)" "keeps ?I (c_close E i)" "keeps ?I (c_open E (CONFIG_PATH E) fl md)" for q md i n fl
    using track_calm [OF D calm_calls(4)] track_calm [OF D calm_calls(1)] track_calm [OF D calm_calls(3)]
      track_calm [OF D calm_calls(11) [OF mode_driverD(3) [OF D]]] by (fastforce simp: hoare_def)+
  have "keeps ?I (config_load E)"
    unfolding config_load_def config_probe_capabilities_def by (intro hoare_rules m pc)
  moreover have "track p st fds a s \<Longrightarrow> ?I s" for s by (rule exI [of _ "m_auto a"]) simp
  ultimately show ?thesis by (auto simp: hoare_def)
qed

lemma serves_sync:
  assumes D: "mode_driver E p st fds"
  shows "serves p st fds (''CONFIG_SYNC'' @ arg) (ipc_config_sync E fd arg)"
proof -
  have rep: "hoare (\<lambda>s. \<exists>b. track p st fds (a\<lparr>m_auto := b\<rparr>) s) (reply E fd ''OK'') (\<lambda>_ s. \<exists>b. track p st fds (a\<lparr>m_auto := b\<rparr>) s)" for a
    using track_calm [OF D calm_reply(1)] by (fastforce simp: hoare_def)
  have "hoare (track p st fds a) (ipc_config_sync E fd arg) (\<lambda>_ s. \<exists>b. track p st fds (a\<lparr>m_auto := b\<rparr>) s)" for a
    unfolding ipc_config_sync_def by (rule hoare_bind [OF track_config_load [OF D] rep])
  then show ?thesis unfolding serves_def hoare_def using mode_request.Sync by blast
qed

lemma find_branch_split:
  "cstring buf \<Longrightarrow> \<forall>b \<in> set bs. cstring (fst b) \<Longrightarrow> find_branch bs buf = Some (q, h) \<Longrightarrow> (q, h) \<in> set bs \<and> prefix q buf"
  by (induction bs) (auto split: if_splits)

lemma find_branch_none:
  "cstring buf \<Longrightarrow> \<forall>b \<in> set bs. cstring (fst b) \<Longrightarrow> find_branch bs buf = None \<Longrightarrow> \<forall>b \<in> set bs. \<not> prefix (fst b) buf"
  by (induction bs) (fastforce split: if_splits)+

lemma dispatch_split:
  fixes E :: "'w env"
  assumes "cstring buf" "\<And>pre h arg. (pre, h) \<in> set ipc_commands \<Longrightarrow> buf = pre @ arg \<Longrightarrow> P (h E fd arg)"
    "list_all (\<lambda>q. \<not> prefix q buf) (map fst (ipc_commands :: (string \<times> ('w env \<Rightarrow> int \<Rightarrow> string \<Rightarrow> ('w, bool) m)) list)) \<Longrightarrow>
       P (reply E fd ''ERR'')"
  shows "P (ipc_dispatch E fd buf)"
proof -
  let ?bs = "ipc_commands :: (string \<times> ('w env \<Rightarrow> int \<Rightarrow> string \<Rightarrow> ('w, bool) m)) list"
  have cs: "\<forall>b \<in> set ?bs. cstring (fst b)"
    using ipc_prefix_free unfolding prefix_free_def list_all_iff set_map cstring_def by auto
  show ?thesis
  proof (cases "find_branch ?bs buf")
    case None
    then have "P (reply E fd ''ERR'')" using find_branch_none [OF assms(1) cs None] assms(3) by (simp add: list_all_iff)
    then show ?thesis unfolding ipc_dispatch_def using None by simp
  next
    case (Some b)
    obtain pre h where b: "b = (pre, h)" by (cases b)
    from find_branch_split [OF assms(1) cs Some [unfolded b]] obtain arg where "(pre, h) \<in> set ?bs" "buf = pre @ arg"
      by (auto simp: prefix_def)
    from assms(2) [OF this] have "P (h E fd (drop (length pre) buf))" using \<open>buf = _\<close> by simp
    then show ?thesis unfolding ipc_dispatch_def using Some b by simp
  qed
qed

lemma calm_advanced:
  assumes D: "mode_driver E p st fds"
  shows "calm E p (ipc_advanced_get E fd arg)" "calm E p (ipc_advanced_set E fd arg)"
proof -
  note adv = off_advanced [OF mode_driverD(2) [OF D]]
  have get: "calm E p (do { v \<leftarrow> sysctl_read E q 128; case v of None \<Rightarrow> reply E fd ''ERR'' | Some val \<Rightarrow> reply E fd val })"
    if "off_path p q" for q using that by (intro calm_rules)
  then show "calm E p (ipc_advanced_get E fd arg)"
    unfolding ipc_advanced_get_def using adv calm_reply by (cases "map_of advanced_nodes arg") auto
  have upd: "calm E p (do { modify (\<lambda>s. s\<lparr>cfg := u val (cfg s)\<rparr>); r \<leftarrow> sysctl_write E q val;
      (if r = 0 then config_update E ck val else ret ()); reply_ok E fd (r = 0) })"
    if "map_of advanced_nodes key = Some (q, u, ck)" for key q u ck val
    using adv [OF that] advanced_daemon_state [OF that] by (intro calm_rules mode_driverD(3) [OF D])
  have "calm E p (case map_of advanced_nodes key of None \<Rightarrow> reply_ok E fd False
     | Some (q, u, ck) \<Rightarrow> do { modify (\<lambda>s. s\<lparr>cfg := u val (cfg s)\<rparr>); r \<leftarrow> sysctl_write E q val;
         (if r = 0 then config_update E ck val else ret ()); reply_ok E fd (r = 0) })" for key val
    using upd calm_reply(2) by (cases "map_of advanced_nodes key") auto
  then show "calm E p (ipc_advanced_set E fd arg)"
    unfolding ipc_advanced_set_def using calm_reply(2) by (cases "split_arg arg") auto
qed

lemma calm_branches:
  assumes D: "mode_driver E p st fds"
  shows "calm E p (ipc_ping E fd arg)" "calm E p (ipc_daemon_info E fd arg)" "calm E p (ipc_get_config E fd arg)"
    "calm E p (ipc_get_topology E fd arg)" "calm E p (ipc_set_affinity_config E fd arg)" "calm E p (ipc_set_cppc E fd arg)"
    "calm E p (ipc_set_boost E fd arg)" "calm E p (ipc_set_epp E fd arg)" "calm E p (ipc_set_pstate E fd arg)"
    "calm E p (ipc_set_governor E fd arg)" "calm E p (ipc_set_prefcore E fd arg)" "calm E p (ipc_set_config E fd arg)"
    "calm E p (ipc_daemon_disable E fd arg)" "calm E p (ipc_games_list E fd arg)"
  unfolding ipc_defs follow_ebpf_def
  by - (intro calm_rules plain_codes mode_driverD(2,3) [OF D] live_daemon_state)+

lemma track_park: "mode_driver E p st fds \<Longrightarrow> keeps (track p st fds a) (park_ccd1 E)"
  unfolding park_ccd1_def by (rule track_calm, assumption, intro calm_rules mode_driverD(2))

lemma serves_numbers:
  assumes D: "mode_driver E p st fds"
  shows "serves p st fds (''SET_PARK '' @ arg) (ipc_set_park E fd arg)" "serves p st fds (''SET_UNPARK '' @ arg) (ipc_set_unpark E fd arg)"
    "serves p st fds (''SET_EPP_CCD '' @ arg) (ipc_set_epp_ccd E fd arg)" "serves p st fds (''MODE'' @ arg) (ipc_mode E fd arg)"
proof -
  note rep = track_calm [OF D calm_reply(3)] and num = roams_number [OF D disjI1 [OF refl]]
  have live: "keeps I m \<Longrightarrow> hoare I m (\<lambda>_ s. exited s = None \<longrightarrow> I s)" for I and m :: "('a, bool) m" by (simp add: hoare_def)
  have "hoare (track p st fds a) (ipc_set_park E fd arg) (\<lambda>_ s. exited s = None \<longrightarrow> track p st fds a s)" for a
    unfolding ipc_set_park_def
    by (intro hoare_if num live hoare_bind [OF track_park [OF D]] rep track_calm [OF D] calm_rules mode_driverD(2) [OF D])
  then show "serves p st fds (''SET_PARK '' @ arg) (ipc_set_park E fd arg)"
    by (rule serves_other) (simp add: mode_commands_def)
  have "hoare (track p st fds a) (ipc_set_unpark E fd arg) (\<lambda>_ s. exited s = None \<longrightarrow> track p st fds a s)" for a
    unfolding ipc_set_unpark_def
    by (intro hoare_if num live hoare_bind [OF track_dual(1) [OF D]] rep track_calm [OF D] calm_rules mode_driverD(2) [OF D])
  then show "serves p st fds (''SET_UNPARK '' @ arg) (ipc_set_unpark E fd arg)"
    by (rule serves_other) (simp add: mode_commands_def)
  have "hoare (track p st fds a) (ipc_set_epp_ccd E fd arg) (\<lambda>_ s. exited s = None \<longrightarrow> track p st fds a s)" for a
    unfolding ipc_set_epp_ccd_def
    by (intro hoare_case_option hoare_case_prod num live rep track_calm [OF D] calm_rules mode_driverD(2) [OF D])
  then show "serves p st fds (''SET_EPP_CCD '' @ arg) (ipc_set_epp_ccd E fd arg)"
    by (rule serves_other) (simp add: mode_commands_def)
  have "hoare (\<lambda>s. r = (ERR_SUCCESS, m_device a) \<and> track p st fds a s) (reply E fd (snd r)) (\<lambda>_. track p st fds a)" for r a
    using track_calm [OF D calm_reply(1)] by (auto simp: hoare_def)
  then have "keeps (track p st fds a) (ipc_mode E fd arg)" for a
    unfolding ipc_mode_def by (intro hoare_bind [OF track_mode [OF D]]) simp_all
  then show "serves p st fds (''MODE'' @ arg) (ipc_mode E fd arg)"
    by (intro serves_other live) (simp_all add: mode_commands_def)
qed

lemma serves_dispatch:
  assumes D: "mode_driver E p st fds" and buf: "cstring buf"
  shows "serves p st fds buf (ipc_dispatch E fd buf)"
proof (rule dispatch_split [OF buf])
  fix pre h arg
  assume ph: "(pre, h) \<in> set (ipc_commands :: (string \<times> ('a env \<Rightarrow> int \<Rightarrow> string \<Rightarrow> ('a, bool) m)) list)" and pa: "buf = pre @ arg"
  have arg: "cstring arg" using buf pa by simp
  note special = serves_steps [OF D] serves_switch [OF D arg] serves_power [OF D]
    serves_sync [OF D] serves_numbers [OF D]
  from ph show "serves p st fds buf (h E fd arg)"
    unfolding pa ipc_commands_def list.set insert_iff empty_iff prod.inject
    by (elim disjE conjE FalseE; hypsubst)
      (rule special | rule serves_calm [OF D], rule calm_branches [OF D] calm_advanced [OF D], simp add: mode_commands_def)+
next
  assume no: "list_all (\<lambda>q. \<not> prefix q buf)
    (map fst (ipc_commands :: (string \<times> ('a env \<Rightarrow> int \<Rightarrow> string \<Rightarrow> ('a, bool) m)) list))"
  show "serves p st fds buf (reply E fd ''ERR'')"
    by (rule serves_calm [OF D calm_reply(1)]) (use no in \<open>simp add: ipc_names mode_commands_def\<close>)
qed

text \<open>
  C4. A request steers the daemon only as the machine says: whatever text a client sends and however the kernel answers, unless the request ends the
  process, the wrapper's lock, the override, the daemon's state, the target of the rounds and the mode of the device are afterwards what
  one of the rules of \<open>mode_request\<close> for this text makes of them. The driver behaves as documented.
\<close>

theorem request_refines_machine:
  assumes "mode_driver E p st fds" "steady p fds s" "cstring buf" "exited (exec (ipc_dispatch E fd buf) s) = None"
  shows "steady p fds (exec (ipc_dispatch E fd buf) s) \<and>
    mode_request buf (mode_abs st s) (mode_abs st (exec (ipc_dispatch E fd buf) s))"
  using serves_dispatch [OF assms(1,3), of fd] assms(2,4) by (auto simp: serves_def hoare_def track_def)

end
