(* ===== verification/Mode_Runs.thy ===== *)
theory Mode_Runs
  imports Mode_Requests
begin

section \<open>Runs of the daemon refine runs of the mode machine\<close>

text \<open>
  A round, a turn of the loop and the start-up in terms of the mode machine, and what follows for every state the daemon reaches.
\<close>

subsection \<open>Rounds\<close>

lemma force_apply_any:
  assumes D: "mode_driver E p st fds" and s: "track p st fds a s" "cur_mode s = m_device a"
  shows "track p st fds (a\<lparr>m_target := m_device a, m_device := (if m_target a \<in> modes then m_target a else m_device a)\<rparr>)
    (exec (do { force_apply E True; polling_display E; ret (Some ()) }) s)"
proof -
  note d = mode_driverD(1,2) [OF D]
  define t where "t = m_target a"
  define m where "m = (if t \<in> modes then t else m_device a)"
  define s1 where "s1 = exec (polling_switch E True) s"
  have i: "in_mode p st fds (m_device a) s" "steers a s" "target_mode s = t" "NL \<notin> set t"
    using s by (auto simp: track_parts steers_def t_def)
  have md: "m_device a \<in> modes" by (rule track_modes [OF D s(1)])
  have i1: "in_mode p st fds m s1"
  proof (cases "t \<in> modes")
    case True
    then show ?thesis using hoareD [OF hoare_polling_switch [OF d True, where m = "m_device a"], of s] i s(2) by (simp add: s1_def m_def)
  next
    case False
    have "in_mode p st fds (m_device a) (exec (cli_set_mode E t) s)"
      using hoareD [OF track_refused [OF D False i(4)] s(1)] by (simp add: track_parts)
    then show ?thesis using False i(1,3) s(2) by (simp add: s1_def m_def polling_switch_def split_beta)
  qed
  have cm: "hw_indep (\<lambda>s. cur_mode s = m_device a)" by (simp add: hw_indep_def jrn_indep_def sys_indep_def)
  have "keeps (\<lambda>s. cur_mode s = m_device a) (polling_switch E True)" "keeps (steers a) (polling_switch E True)"
    unfolding polling_switch_def by - (intro hoare_rules cm steers_base)+
  then have v1: "cur_mode s1 = m_device a" "steers a s1" using s(2) i(2) by (simp_all add: hoare_def s1_def)
  have fit: "fit 32 (m_device a) = m_device a" "NL \<notin> set (m_device a)" using modes_facts [OF md] by simp_all
  have lt: "keeps (steers b) (modify (\<lambda>s. s\<lparr>last_target := f s\<rparr>))" for b f by (simp add: hoare_def steers_def)
  have disp: "keeps (steers b) (polling_display E)" for b
    unfolding polling_display_def by (intro hoare_rules lt steers_base)
  let ?s2 = "s1\<lparr>target_mode := m_device a\<rparr>" and ?b = "a\<lparr>m_target := m_device a, m_device := m\<rparr>"
  have "in_mode p st fds m ?s2" "steers ?b ?s2" using i1 v1 fit by (simp_all add: in_mode_def steers_def log_ok_def)
  then have "in_mode p st fds m (exec (polling_display E) ?s2)" "steers ?b (exec (polling_display E) ?s2)"
    using hoareD [OF keeps_polling_display [OF d]] hoareD [OF disp] by blast+
  then show ?thesis
    using v1(1) fit unfolding m_def [unfolded t_def, symmetric]
    by (simp add: force_apply_def s1_def [symmetric] exec_bind result_bind track_parts del: run_state_bind)
qed

lemma sense_steers: "keeps (steers b) (polling_sense E)"
proof -
  have mods: "keeps (steers b) (modify (\<lambda>s. s\<lparr>c_stat := fp s\<rparr>))" "keeps (steers b) (modify (\<lambda>s. s\<lparr>p_stat := fp s\<rparr>))"
    "keeps (steers b) (modify (\<lambda>s. s\<lparr>cur_mode := fs s\<rparr>))" for fp fs by (simp_all add: hoare_def steers_def)
  show ?thesis unfolding polling_sense_def stats_def by (intro hoare_rules mods steers_base)
qed

text \<open>A round that does not ask the detectors always finishes.\<close>

lemma steady_round_returns:
  fixes E :: "'w env"
  assumes "track p st fds a s" "m_lock a \<noteq> 0 \<or> \<not> (m_override a < 3 \<and> m_auto a)"
  shows "result (polling_run E n) s = Some ()"
proof -
  have "steers a (exec (polling_sense E) s)" using hoareD [OF sense_steers, of a s E] assms(1) by (simp add: track_parts)
  then show ?thesis using assms(2) by (auto simp: polling_run_def result_bind steers_def simp del: run_state_bind)
qed

text \<open>A finished round is one of the machine's, for some report of the detectors.\<close>

text \<open>What every round has sensed, and how it goes on: it applies a target, or it keeps the mode of the device, or it decides.\<close>

definition sensed :: "string \<Rightarrow> ('w \<Rightarrow> string) \<Rightarrow> ('w \<Rightarrow> int set) \<Rightarrow> mode_state \<Rightarrow> 'w prog \<Rightarrow> bool" where
  "sensed p st fds a s \<longleftrightarrow> track p st fds a s \<and> cur_mode s = m_device a"

lemma sensed_vars:
  assumes "sensed p st fds a s"
  shows "in_mode p st fds (m_device a) s" "steers a s" "cur_mode s = m_device a" "wrapper_lock s = m_lock a"
    "active_override s = m_override a" "(strcmp (daemon_state (cfg s)) ''default'' = 0) = m_auto a" "target_mode s = m_target a"
  using assms by (simp_all add: sensed_def track_parts steers_def)

lemma sense_track:
  assumes D: "mode_driver E p st fds" and s: "track p st fds a s"
  shows "result (polling_sense E) s" "sensed p st fds a (exec (polling_sense E) s)"
proof -
  note d = mode_driverD(1,2) [OF D]
  have i: "in_mode p st fds (m_device a) s" "steers a s" using s by (simp_all add: track_parts)
  show "result (polling_sense E) s" "sensed p st fds a (exec (polling_sense E) s)"
    using hoareD [OF hoare_polling_sense [OF d] i(1)] hoareD [OF sense_steers i(2)] by (simp_all add: sensed_def track_parts)
qed

lemma track_round_locked:
  assumes D: "mode_driver E p st fds" and s: "sensed p st fds a s" and l: "m_lock a \<noteq> 0"
  shows "track p st fds (polled g a) (exec (do { modify (\<lambda>s. s\<lparr>target_mode := ''cache''\<rparr>); force_apply E True; polling_display E; ret (Some ()) }) s)"
proof -
  let ?s = "s\<lparr>target_mode := ''cache''\<rparr>"
  have "track p st fds (a\<lparr>m_target := ''cache''\<rparr>) ?s" "cur_mode ?s = m_device (a\<lparr>m_target := ''cache''\<rparr>)"
    using s by (simp_all add: sensed_def track_parts in_mode_def steers_def log_ok_def)
  from force_apply_any [OF D this] show ?thesis
    using l by (simp add: polled_def modes_def exec_bind del: run_state_bind)
qed

lemma track_round_manual:
  assumes D: "mode_driver E p st fds" and s: "sensed p st fds a s" and l: "m_lock a = 0" "\<not> (m_override a < 3 \<and> m_auto a)"
  shows "track p st fds (polled g a) (exec (do { force_apply E True; polling_display E; ret (Some ()) }) s)"
proof -
  have eq: "polled g a = a\<lparr>m_target := m_device a, m_device := (if m_target a \<in> modes then m_target a else m_device a)\<rparr>"
    using l by (auto simp: polled_def)
  show ?thesis unfolding eq by (rule force_apply_any [OF D]) (use s in \<open>simp_all add: sensed_def\<close>)
qed

text \<open>The target decided by the games or an override, and its application.\<close>

lemma decide_track:
  assumes D: "mode_driver E p st fds" and s: "sensed p st fds a s" and t: "result (polling_decide E n) s = Some t"
  shows "sensed p st fds a (exec (polling_decide E n) s)" "\<exists>g. t = polling_target (m_override a) g"
proof -
  note d = mode_driverD(1,2) [OF D] and v = sensed_vars [OF s]
  have "in_mode p st fds (m_device a) (exec (polling_decide E n) s)" "\<exists>g. t = polling_target (m_override a) g"
    using polling_decide_run [OF d v(1) v(5), where n = n] t by auto
  moreover have cm: "det_indep (\<lambda>s. cur_mode s = m_device a)" by (simp add: det_indep_def hw_indep_def jrn_indep_def sys_indep_def)
  have "keeps (\<lambda>s. cur_mode s = m_device a) (polling_decide E n)" "keeps (steers a) (polling_decide E n)"
    unfolding polling_decide_def poll_events_def bpf_game_def by - (intro hoare_rules det_sys [OF cm] cm steers_base)+
  then have "cur_mode (exec (polling_decide E n) s) = m_device a" "steers a (exec (polling_decide E n) s)"
    using v(2,3) by (simp_all add: hoare_def)
  ultimately show "sensed p st fds a (exec (polling_decide E n) s)" "\<exists>g. t = polling_target (m_override a) g"
    by (simp_all add: sensed_def track_parts)
qed

lemma track_switch_to:
  assumes D: "mode_driver E p st fds" and s: "sensed p st fds a s" and t: "t \<in> modes"
  shows "track p st fds (a\<lparr>m_target := t, m_device := t\<rparr>)
    (exec (do { modify (\<lambda>s. s\<lparr>target_mode := t\<rparr>); polling_switch E True; polling_display E; ret (Some ()) }) s)"
proof -
  note d = mode_driverD(1,2) [OF D] and v = sensed_vars [OF s]
  let ?s = "s\<lparr>target_mode := t\<rparr>" and ?b = "a\<lparr>m_target := t\<rparr>"
  have lt: "keeps (steers ?b) (modify (\<lambda>s. s\<lparr>last_target := f s\<rparr>))" for f by (simp add: hoare_def steers_def)
  have "keeps (steers ?b) (polling_switch E True)" "keeps (steers ?b) (polling_display E)"
    unfolding polling_switch_def polling_display_def by - (intro hoare_rules lt steers_base)+
  moreover have "steers ?b ?s" using v(2) modes_facts [OF t] by (simp add: steers_def log_ok_def)
  ultimately have "steers ?b (exec (polling_display E) (exec (polling_switch E True) ?s))" by (simp add: hoare_def)
  moreover have "in_mode p st fds t (exec (polling_display E) (exec (polling_switch E True) ?s))"
    using apply_round [OF d t v(1) v(3)] by (simp add: Let_def exec_bind del: run_state_bind)
  ultimately show ?thesis by (simp add: track_parts exec_bind del: run_state_bind)
qed

lemma track_round:
  assumes D: "mode_driver E p st fds" and s: "track p st fds a s" and r: "result (polling_run E n) s = Some ()"
  shows "\<exists>game. track p st fds (polled game a) (exec (polling_run E n) s)"
proof -
  define s1 where "s1 = exec (polling_sense E) s"
  note s1 = sense_track [OF D s, folded s1_def]
  note v = sensed_vars [OF s1(2)]
  consider (lock) "m_lock a \<noteq> 0" | (auto) "m_lock a = 0" "m_override a < 3" "m_auto a"
    | (keep) "m_lock a = 0" "\<not> (m_override a < 3 \<and> m_auto a)" by blast
  then show ?thesis
  proof cases
    case lock
    have "exec (polling_run E n) s =
        exec (do { modify (\<lambda>s. s\<lparr>target_mode := ''cache''\<rparr>); force_apply E True; polling_display E; ret (Some ()) }) s1"
      using s1(1) v lock by (simp add: polling_run_def exec_bind result_bind s1_def [symmetric] del: run_state_bind)
    then show ?thesis using track_round_locked [OF D s1(2) lock] by metis
  next
    case keep
    have "exec (polling_run E n) s = exec (do { force_apply E True; polling_display E; ret (Some ()) }) s1"
      using s1(1) v keep by (auto simp: polling_run_def exec_bind result_bind s1_def [symmetric] simp del: run_state_bind)
    then show ?thesis using track_round_manual [OF D s1(2) keep] by metis
  next
    case auto
    define s2 where "s2 = exec (polling_decide E n) s1"
    let ?go = "\<lambda>t. do { modify (\<lambda>s. s\<lparr>target_mode := t\<rparr>); polling_switch E True; polling_display E; ret (Some ()) }"
    have go: "run_state (polling_run E n) s = run_state (case result (polling_decide E n) s1 of None \<Rightarrow> ret None | Some t \<Rightarrow> ?go t) s2"
      using s1(1) v auto
      by (simp add: polling_run_def prod_eq_iff exec_bind result_bind s1_def [symmetric] s2_def [symmetric] del: run_state_bind)
    obtain t where t: "result (polling_decide E n) s1 = Some t"
      using r unfolding go by (cases "result (polling_decide E n) s1") simp_all
    from decide_track [OF D s1(2) t, folded s2_def] obtain g where g: "sensed p st fds a s2" "t = polling_target (m_override a) g" by blast
    have "t \<in> modes" using g(2) polling_target_modes by auto
    from track_switch_to [OF D g(1) this] have "track p st fds (a\<lparr>m_target := t, m_device := t\<rparr>) (exec (?go t) s2)" .
    moreover have "exec (polling_run E n) s = exec (?go t) s2" unfolding go t by simp
    moreover have "polled g a = a\<lparr>m_target := t, m_device := t\<rparr>"
      using auto unfolding g(2) polling_target_spec by (simp add: polled_def Let_def)
    ultimately show ?thesis by metis
  qed
qed

subsection \<open>Turns of the daemon\<close>

lemma request_of_cstring: "cstring (request_of d)"
  by (simp add: request_of_def Let_def)

lemma exited_close: "exited (exec (c_close E fd) s) = exited s"
  by (simp add: c_close_def run_sys_int Let_def)

text \<open>The requests heard so far go along.\<close>

definition tracks :: "string \<Rightarrow> ('w \<Rightarrow> string) \<Rightarrow> ('w \<Rightarrow> int set) \<Rightarrow> string list \<Rightarrow> mode_state \<Rightarrow> 'w prog \<Rightarrow> bool" where
  "tracks p st fds h a s \<longleftrightarrow> track p st fds a s \<and> heard (trace s) = h"

lemma track_log: "track p st fds a s \<Longrightarrow> log_ok s"
  by (simp add: track_def steady_def)

lemma tracks_deaf:
  assumes "hoare (track p st fds a) m Q" "deaf E m"
  shows "hoare (tracks p st fds h a) m (\<lambda>x s. Q x s \<and> heard (trace s) = h)"
  using assms deaf_heard [OF assms(2)] by (auto simp: hoare_def tracks_def dest: track_log)

text \<open>After serving: one request more has been heard, and it did what it may do; or none, and nothing happened.\<close>

definition answered :: "string \<Rightarrow> ('w \<Rightarrow> string) \<Rightarrow> ('w \<Rightarrow> int set) \<Rightarrow> string list \<Rightarrow> mode_state \<Rightarrow> 'w prog \<Rightarrow> bool" where
  "answered p st fds h a s \<longleftrightarrow> exited s = None \<longrightarrow> (\<exists>ds b. served_request ds a b \<and> tracks p st fds (h @ ds) b s)"

lemma answered_none: "tracks p st fds h a s \<Longrightarrow> answered p st fds h a s"
  unfolding answered_def served_request_def by (metis append_Nil2)

lemma tracks_calm:
  assumes "mode_driver E p st fds" "calm E p m" "deaf E m"
  shows "keeps (tracks p st fds h a) m"
  using tracks_deaf [OF track_calm [OF assms(1,2), where a = a] assms(3), where h = h] by (simp add: hoare_def tracks_def)

lemma answered_close:
  assumes D: "mode_driver E p st fds"
  shows "keeps (answered p st fds h a) (if fall then do { c_close E cfd; ret () } else ret ())"
proof -
  have d: "deaf E (c_close E cfd)" by (intro makes_rules no_recv_calls)
  show ?thesis
    using tracks_calm [OF D calm_calls(3) d] exited_close [of E cfd]
    by (fastforce simp: hoare_def exec_bind answered_def simp del: run_state_bind)
qed

lemma answered_dispatch:
  assumes D: "mode_driver E p st fds" and b: "cstring buf"
  shows "hoare (\<lambda>s. track p st fds a s \<and> heard (trace s) = h @ [buf]) (ipc_dispatch E cfd buf) (\<lambda>_. answered p st fds h a)"
proof -
  have "hoare (track p st fds a) (ipc_dispatch E cfd buf) (\<lambda>_ s. exited s = None \<longrightarrow> (\<exists>b. mode_request buf a b \<and> track p st fds b s))"
    using serves_dispatch [OF D b] unfolding serves_def by blast
  from tracks_deaf [OF this deaf_dispatch, of "h @ [buf]"]
  show ?thesis unfolding hoare_def tracks_def answered_def served_request_def by blast
qed

lemma answered_handle:
  assumes D: "mode_driver E p st fds"
  shows "hoare (tracks p st fds h a) (socket_handle E fd) (\<lambda>_. answered p st fds h a)"
proof -
  have acc: "deaf E (c_accept4 E fd fl)" for fl by (intro makes_rules no_recv_calls)
  have recv: "hoare (tracks p st fds h a) (c_recv E cfd 511 0)
      (\<lambda>nd s. track p st fds a s \<and> heard (trace s) = h @ (if 0 < fst nd then [request_of (snd nd)] else []))" for cfd
    using track_calm [OF D calm_calls(8)] recv_heard [of E cfd 511 0] unfolding hoare_def tracks_def by blast
  have req: "hoare (\<lambda>s. track p st fds a s \<and> heard (trace s) = h @ (if 0 < fst nd then [request_of (snd nd)] else []))
      (if fst nd > 0 then ipc_dispatch E cfd (request_of (snd nd)) else ret True) (\<lambda>_. answered p st fds h a)" for nd :: "int \<times> string" and cfd
  proof (rule hoare_if)
    assume "0 < fst nd"
    then show "hoare (\<lambda>s. track p st fds a s \<and> heard (trace s) = h @ (if 0 < fst nd then [request_of (snd nd)] else []))
      (ipc_dispatch E cfd (request_of (snd nd))) (\<lambda>_. answered p st fds h a)"
      using answered_dispatch [OF D request_of_cstring] by simp
  next
    assume "\<not> 0 < fst nd"
    then show "hoare (\<lambda>s. track p st fds a s \<and> heard (trace s) = h @ (if 0 < fst nd then [request_of (snd nd)] else []))
      (ret True) (\<lambda>_. answered p st fds h a)"
      by (intro hoare_ret answered_none) (simp add: tracks_def)
  qed
  have inner: "hoare (tracks p st fds h a) (do { nd \<leftarrow> c_recv E cfd 511 0;
      fall \<leftarrow> (if fst nd > 0 then ipc_dispatch E cfd (request_of (snd nd)) else ret True);
      if fall then do { c_close E cfd; ret () } else ret () }) (\<lambda>_. answered p st fds h a)" for cfd
    by (rule hoare_bind [OF recv], rule hoare_bind [OF req answered_close [OF D]])
  have "hoare (tracks p st fds h a) (if cfd < 0 then ret () else do { nd \<leftarrow> c_recv E cfd 511 0;
      fall \<leftarrow> (if fst nd > 0 then ipc_dispatch E cfd (request_of (snd nd)) else ret True);
      if fall then do { c_close E cfd; ret () } else ret () }) (\<lambda>_. answered p st fds h a)" for cfd
    by (rule hoare_if, rule hoare_ret, erule answered_none, rule inner)
  then show ?thesis
    unfolding socket_handle_def by (rule hoare_bind [OF tracks_calm [OF D calm_calls(9) acc]])
qed

lemma answered_wait:
  assumes D: "mode_driver E p st fds"
  shows "hoare (tracks p st fds h a) (daemon_wait E fd) (\<lambda>_. answered p st fds h a)"
proof -
  have sel: "deaf E (c_select E i rf tv)" for i rf tv by (intro makes_rules no_recv_calls)
  have "hoare (tracks p st fds h a) (if fst q > 0 \<and> fd \<in> set (snd q) then socket_handle E fd else ret ()) (\<lambda>_. answered p st fds h a)"
    for q :: "int \<times> int list"
    by (rule hoare_if, rule answered_handle [OF D], rule hoare_ret, erule answered_none)
  then show ?thesis
    unfolding daemon_wait_def by (intro hoare_bind [OF keeps_gets] hoare_bind [OF tracks_calm [OF D calm_calls(10) sel]])
qed

text \<open>Nobody but the handler of \<^verbatim>\<open>SIGHUP\<close> asks for a reload.\<close>

definition reloads :: "bool \<Rightarrow> 'w prog \<Rightarrow> bool" where
  "reloads b s \<longleftrightarrow> reload_flag s = b"

lemma reloads_indep: "det_indep (reloads b)"
  by (simp add: det_indep_def hw_indep_def jrn_indep_def sys_indep_def reloads_def)

lemma keeps_reloads:
  "keeps (reloads b) (daemon_wait E fd)" "keeps (reloads b) (polling_run E n)"
proof -
  note base = reloads_indep det_hw [OF reloads_indep] det_jrn [OF reloads_indep] det_sys [OF reloads_indep] plain_codes
  have mods: "keeps (reloads b) (modify (\<lambda>s. s\<lparr>cfg := fc s\<rparr>))" "keeps (reloads b) (modify (\<lambda>s. s\<lparr>active_override := fi s\<rparr>))"
    "keeps (reloads b) (modify (\<lambda>s. s\<lparr>wrapper_lock := fi s\<rparr>))" "keeps (reloads b) (modify (\<lambda>s. s\<lparr>errno := fi s\<rparr>))"
    "keeps (reloads b) (modify (\<lambda>s. s\<lparr>active_keep := fb s\<rparr>))" "keeps (reloads b) (modify (\<lambda>s. s\<lparr>bpf_active := fb s\<rparr>))"
    "keeps (reloads b) (modify (\<lambda>s. s\<lparr>failsafe_active := fb s\<rparr>))" "keeps (reloads b) (modify (\<lambda>s. s\<lparr>last_sig := fi s\<rparr>))"
    "keeps (reloads b) (modify (\<lambda>s. s\<lparr>exited := fe s\<rparr>))" "keeps (reloads b) (modify (\<lambda>s. s\<lparr>target_mode := fs s\<rparr>))"
    "keeps (reloads b) (modify (\<lambda>s. s\<lparr>cur_mode := fs s\<rparr>))" "keeps (reloads b) (modify (\<lambda>s. s\<lparr>last_target := fs s\<rparr>))"
    "keeps (reloads b) (modify (\<lambda>s. s\<lparr>p_stat := fp s\<rparr>))" "keeps (reloads b) (modify (\<lambda>s. s\<lparr>c_stat := fp s\<rparr>))"
    for fc fi fb fe fs fp by (simp_all add: hoare_def reloads_def)
  have seg: "SIGSEGV \<noteq> SIGTERM" "SIGSEGV \<noteq> SIGINT" "SIGSEGV \<noteq> SIGHUP" by (simp_all add: sig_defs)
  have fs: "keeps (reloads b) (null_deref E)"
    unfolding null_deref_def sig_handler_def daemon_failsafe_def daemon_restore_def cppc_restore_def c_exit_def
    by (simp only: seg if_False simp_thms) (intro hoare_rules base mods)
  have num: "keeps (reloads b) (with_number E cfd arg err op)" if "\<And>n. keeps (reloads b) (op n)" for cfd arg err op
    unfolding with_number_def using that
    by (intro hoare_rules mods) (auto split: request_number.split intro!: hoare_rules mods base fs)
  have cl: "keeps (reloads b) (config_load E)" by (rule keeps_config_load) (simp_all add: base reloads_def)
  have "keeps (reloads b) (ipc_dispatch E cfd buf)" for cfd buf
  proof (rule dispatch_all)
    fix pre h arg
    assume "(pre, h) \<in> set (ipc_commands :: (string \<times> ('a env \<Rightarrow> int \<Rightarrow> string \<Rightarrow> ('a, bool) m)) list)"
    then show "keeps (reloads b) (h E cfd arg)"
      unfolding ipc_commands_def list.set insert_iff empty_iff prod.inject
      by (elim disjE conjE FalseE; hypsubst; unfold ipc_defs ipc_advanced_get_def ipc_advanced_set_def park_ccd1_def run_reset_def follow_ebpf_def;
          intro hoare_rules base mods num cl)
  qed (intro hoare_rules base)
  then show "keeps (reloads b) (daemon_wait E fd)"
    unfolding daemon_wait_def socket_handle_def by (intro hoare_rules base)
  show "keeps (reloads b) (polling_run E n)"
    unfolding polling_run_def polling_sense_def polling_decide_def poll_events_def bpf_game_def polling_switch_def force_apply_def
      polling_display_def stats_def
    by (intro hoare_rules base mods)
qed

text \<open>A turn that goes on: after the request comes a round, and a reload only if one was asked for.\<close>

lemma track_reload:
  assumes D: "mode_driver E p st fds" and s: "track p st fds a s"
  shows "\<exists>x. track p st fds (a\<lparr>m_auto := x\<rparr>) (exec (daemon_reload E) s) \<and> (\<not> reload_flag s \<longrightarrow> x = m_auto a)"
proof (cases "reload_flag s")
  case False
  then show ?thesis using s by (intro exI [of _ "m_auto a"]) (simp add: daemon_reload_def)
next
  case True
  have "hoare (track p st fds a) (do { modify (\<lambda>s. s\<lparr>reload_flag := False\<rparr>); config_load E; games_load E; ret () })
      (\<lambda>_ s. \<exists>x. track p st fds (a\<lparr>m_auto := x\<rparr>) s)"
  proof (rule hoare_bind [OF track_calm [OF D calm_vars(8)]], rule hoare_bind [OF track_config_load [OF D]])
    show "hoare (\<lambda>s. \<exists>x. track p st fds (a\<lparr>m_auto := x\<rparr>) s) (do { games_load E; ret () }) (\<lambda>_ s. \<exists>x. track p st fds (a\<lparr>m_auto := x\<rparr>) s)"
      using track_calm [OF D calm_games_load [OF mode_driverD(2) [OF D]]]
      by (fastforce simp: hoare_def exec_bind simp del: run_state_bind)
  qed
  from hoareD [OF this s] show ?thesis using True by (simp add: daemon_reload_def del: run_state_bind) (simp add: exec_bind del: run_state_bind)
qed

lemma turn_effect:
  assumes D: "mode_driver E p st fds" and s: "tracks p st fds h a s" and r: "run_state (daemon_round E n fd) s = (Some (), s')"
    and ok: "exited s' = None"
  shows "\<exists>ds b. served_request ds a b \<and> (tracks p st fds (h @ ds) b s' \<and> \<not> active_keep s' \<or>
    (\<exists>game x. tracks p st fds (h @ ds) ((polled game b)\<lparr>m_auto := x\<rparr>) s' \<and> (\<not> reload_flag s \<longrightarrow> x = m_auto (polled game b))))"
proof -
  define s1 where "s1 = exec (daemon_wait E fd) s"
  define s2 where "s2 = exec (polling_run E n) s1"
  have run: "run_state (daemon_round E n fd) s =
    (if \<not> (active_keep s1 \<and> exited s1 = None) then (Some (), s1)
     else case result (polling_run E n) s1 of None \<Rightarrow> (None, s2) | Some _ \<Rightarrow> (Some (), exec (daemon_reload E) s2))"
    by (simp add: daemon_round_def daemon_running_def s1_def s2_def split_beta split: option.split)
  have wait: "exited s1 = None \<Longrightarrow> \<exists>ds b. served_request ds a b \<and> tracks p st fds (h @ ds) b s1"
    using hoareD [OF answered_wait [OF D] s] by (simp add: s1_def answered_def)
  show ?thesis
  proof (cases "active_keep s1 \<and> exited s1 = None")
    case False
    then have "s' = s1" using r unfolding run by simp
    then show ?thesis using wait ok False by blast
  next
    case True
    then obtain ds b where b: "served_request ds a b" "tracks p st fds (h @ ds) b s1" using wait by blast
    then have b1: "track p st fds b s1" "heard (trace s1) = h @ ds" by (simp_all add: tracks_def)
    have res: "result (polling_run E n) s1 = Some ()" "s' = exec (daemon_reload E) s2"
      using r True unfolding run by (auto split: option.splits)
    obtain game where g: "track p st fds (polled game b) s2" using track_round [OF D b1(1) res(1)] by (auto simp: s2_def)
    obtain x where x: "track p st fds ((polled game b)\<lparr>m_auto := x\<rparr>) s'" "\<not> reload_flag s2 \<longrightarrow> x = m_auto (polled game b)"
      using track_reload [OF D g] unfolding res(2) by blast
    have "reload_flag s2 = reload_flag s"
      using hoareD [OF keeps_reloads(1), of "reload_flag s" s E fd] hoareD [OF keeps_reloads(2), of "reload_flag s" s1 E n]
      by (simp add: reloads_def s1_def s2_def)
    moreover have "heard (trace s') = h @ ds"
      using deaf_heard [OF deaf_round(1) track_log [OF b1(1)], of E n] deaf_heard [OF deaf_round(2), of s2 E] b1(2)
      unfolding res(2) s2_def by simp
    ultimately show ?thesis using b(1) x unfolding tracks_def by blast
  qed
qed

lemma step_simulated:
  assumes D: "mode_driver E p st fds" and s: "tracks p st fds h a s" and step: "daemon_step E n fd s s'" and ok: "exited s' = None"
  shows "\<exists>ds b. mode_turn ds a b \<and> tracks p st fds (h @ ds) b s'"
  using step
proof (cases rule: daemon_step.cases)
  case Round
  from turn_effect [OF D s Round(3) ok] show ?thesis by (blast intro: mode_turn.Last mode_turn.Reload)
next
  case (Signal sg)
  then have "tracks p st fds h a s'"
    using s by (auto simp: sig_handler_def sig_defs tracks_def track_parts in_mode_def steers_def log_ok_def)
  then show ?thesis by (metis append_Nil2 mode_turn.Idle)
qed

lemma reach_simulated:
  assumes D: "mode_driver E p st fds" and s: "tracks p st fds h a s0"
  shows "daemon_reach E n fd s0 s \<Longrightarrow> exited s = None \<Longrightarrow> \<exists>ds b. mode_run ds a b \<and> tracks p st fds (h @ ds) b s"
proof (induction rule: daemon_reach.induct)
  case Start
  then show ?case using s by (metis append_Nil2 mode_run.Start)
next
  case (Step s s')
  have "exited s = None" using Step.hyps(2) by (cases rule: daemon_step.cases) auto
  with Step.IH obtain ds b where b: "mode_run ds a b" "tracks p st fds (h @ ds) b s" by blast
  obtain es c where "mode_turn es b c" "tracks p st fds ((h @ ds) @ es) c s'"
    using step_simulated [OF D b(2) Step.hyps(2) Step.prems] by blast
  with b(1) show ?case by (metis append_assoc mode_run.Turns)
qed

subsection \<open>Start-up\<close>

definition starting :: "string \<Rightarrow> ('w \<Rightarrow> string) \<Rightarrow> ('w \<Rightarrow> int set) \<Rightarrow> mode_state \<Rightarrow> 'w prog \<Rightarrow> bool" where
  "starting p st fds a s \<longleftrightarrow> (\<exists>x. track p st fds (a\<lparr>m_auto := x\<rparr>) s)"

lemma starting_calm: "mode_driver E p st fds \<Longrightarrow> calm E p m \<Longrightarrow> keeps (starting p st fds a) m"
  using track_calm [of E p st fds m] by (fastforce simp: hoare_def starting_def)

lemma starting_config:
  assumes D: "mode_driver E p st fds"
  shows "keeps (starting p st fds a) (config_load E)"
    "keeps (starting p st fds a) (modify (\<lambda>s. s\<lparr>cfg := (cfg s)\<lparr>daemon_state := t\<rparr>\<rparr>))"
  using track_config_load [OF D] track_vars(3) [of p st fds _ t] by (fastforce simp: hoare_def starting_def)+

lemma starting_set_mode:
  assumes D: "mode_driver E p st fds"
  shows "hoare (starting p st fds a) (cli_set_mode E ''frequency'') (\<lambda>_. starting p st fds (a\<lparr>m_device := ''frequency''\<rparr>))"
proof -
  have "''frequency'' \<in> modes" by (simp add: modes_def)
  from track_set_mode [OF D this] show ?thesis by (cases a) (fastforce simp: hoare_def starting_def)
qed

lemma calm_sys:
  assumes "off_node p c"
  shows "calm E p (sys E c)" "calm E p (sys_errno E c)" "calm E p (sys_int E c)"
proof -
  show "calm E p (sys E c)" by (intro calmI makes_sys assms hoare_rules path_in_indep steers_base)
  show e: "calm E p (sys_errno E c)" by (intro calmI makes_sys_errno assms hoare_rules path_in_indep steers_base)
  then show "calm E p (sys_int E c)" unfolding sys_int_def by (intro calm_rules)
qed

lemma calm_start_calls [calm_rules]:
  "calm E p (c_sigaction E sg)" "calm E p (c_mkdir E q md)" "calm E p (c_socket E i j k)" "calm E p (c_fcntl E fd x y)"
  "calm E p (c_unlink E q)" "calm E p (c_bind E fd q)" "calm E p (c_listen E fd i)" "calm E p (c_chmod E q md)"
  "calm E p (c_sendto E fd d i q)" "calm E p (getenv v)"
  unfolding c_sigaction_def c_mkdir_def c_socket_def c_fcntl_def c_unlink_def c_bind_def c_listen_def c_chmod_def c_sendto_def getenv_def
  by - (intro calm_rules calm_sys; simp add: off_node_def)+

lemma calm_start_vars [calm_rules]:
  "calm E p (modify (\<lambda>s. s\<lparr>p_stat := fp s\<rparr>))" "calm E p (modify (\<lambda>s. s\<lparr>c_stat := fp s\<rparr>))"
  "calm E p (modify (\<lambda>s. s\<lparr>cur_mode := fs s\<rparr>))" "calm E p (modify (\<lambda>s. s\<lparr>sig_installed := fb s\<rparr>))"
  by (rule calm_modify; simp add: steers_def)+

lemma calm_start_parts:
  assumes N: "node_at E p"
  shows "calm E p (init_signals E)" "calm E p (affinity_init E)" "calm E p (socket_setup E)" "calm E p (notify_ready E)"
    "calm E p (stats E c)"
proof -
  have "off_path p ''/proc/stat''" by (rule off_literal [OF N]) simp
  then show "calm E p (stats E c)" unfolding stats_def by (intro calm_rules)
  show "calm E p (init_signals E)" unfolding init_signals_def by (intro calm_rules)
  show "calm E p (affinity_init E)"
    unfolding affinity_init_def cgroup_write_raw_def by (intro calm_rules off_nodes [OF N])
  show "calm E p (socket_setup E)" unfolding socket_setup_def setup_failed_def by (intro calm_rules N)
  show "calm E p (notify_ready E)" unfolding notify_ready_def by (intro calm_rules)
qed

lemma journal_exit_exits: "(exited (exec (journal_exit E c f as) s) = None) = False"
  by (simp add: journal_exit_def c_exit_def Let_def exec_bind del: run_state_bind)

text \<open>A daemon that has started: no lock, no override, the target as the uninitialised buffer was, the device in \<^verbatim>\<open>frequency\<close>.\<close>

definition started :: "'w env \<Rightarrow> bool \<Rightarrow> mode_state" where
  "started E x = \<lparr>m_lock = 0, m_override = 0, m_auto = x, m_target = garbage E, m_device = ''frequency''\<rparr>"

lemma daemon_start_track:
  assumes D: "mode_driver E p st fds" and w: "fds w = {}" and g: "NL \<notin> set (garbage E)"
    and ok: "exited (exec (daemon_start E) (initial_prog w)) = None"
  shows "\<exists>x. track p st fds (started E x) (exec (daemon_start E) (initial_prog w))"
proof -
  note N = mode_driverD(2) [OF D] and calm = starting_calm [OF D]
  let ?a = "started E True" and ?S = "\<lambda>a. starting p st fds a"
  let ?b = "(started E True)\<lparr>m_device := st w\<rparr>"
  have loc: "?S ?b (exec (daemon_locals E) (initial_prog w))"
    using w g by (auto simp: starting_def track_parts in_mode_def steers_def daemon_locals_def initial_prog_def started_def log_ok_def)
  have init: "hoare (?S ?b) (daemon_mode_init E) (\<lambda>_. ?S ?a)"
  proof -
    have eq: "?b\<lparr>m_device := ''frequency''\<rparr> = ?a" "?a\<lparr>m_device := ''frequency''\<rparr> = ?a" by (simp_all add: started_def)
    note sm = starting_set_mode [OF D, of ?b, unfolded eq] starting_set_mode [OF D, of ?a, unfolded eq]
    have "keeps (?S ?a) (if strcmp ds ''default'' = 0 then do { cli_set_mode E ''frequency''; ret () } else ret ())" for ds
      by (intro hoare_if hoare_bind [OF sm(2)] keeps_ret)
    moreover have "keeps (?S ?a) (if length ds = 0 then modify (\<lambda>s. s\<lparr>cfg := (cfg s)\<lparr>daemon_state := fit 32 ''default''\<rparr>\<rparr>) else ret ())" for ds :: string
      by (intro hoare_if starting_config(2) [OF D] keeps_ret)
    ultimately show ?thesis
      unfolding daemon_mode_init_def by (intro hoare_bind [OF sm(1)] hoare_bind [OF keeps_gets] keeps_bind)
  qed
  have aff: "keeps (?S ?b) (if r \<noteq> ERR_SUCCESS then journal_error E ERR_CGROUP as else ret ())" for r :: int and as
    by (intro calm calm_rules N plain_codes)
  have bpf: "keeps (?S ?b) (if en \<noteq> 0 then do { b \<leftarrow> bpf_init E; modify (\<lambda>s. s\<lparr>bpf_active := b\<rparr>) } else ret ())" for en :: int
    by (intro calm calm_rules N)
  have run: "keeps (?S ?a) (do { notify_ready E; p0 \<leftarrow> gets p_stat; q \<leftarrow> stats E p0; modify (\<lambda>s. s\<lparr>p_stat := q\<rparr>); ret x })" for x :: int
    by (intro calm calm_rules calm_start_parts N)
  have last: "hoare (?S ?a) (if sfd < 0 then do { journal_exit E 1 f as; ret sfd }
      else do { notify_ready E; p0 \<leftarrow> gets p_stat; q \<leftarrow> stats E p0; modify (\<lambda>s. s\<lparr>p_stat := q\<rparr>); ret sfd })
      (\<lambda>_ s. exited s = None \<longrightarrow> ?S ?a s)" for sfd :: int and f as
    using run [of sfd] by (auto simp: hoare_def exec_bind journal_exit_exits simp del: run_state_bind)
  have "hoare (\<lambda>s. s = initial_prog w) (daemon_start E) (\<lambda>_ s. exited s = None \<longrightarrow> ?S ?a s)"
    unfolding daemon_start_def
    by (rule hoare_bind [where R = "\<lambda>_. ?S ?b"], simp add: hoare_def loc,
        intro hoare_bind [OF starting_config(1) [OF D]] hoare_bind [OF init] hoare_bind [OF aff] hoare_bind [OF bpf]
          hoare_bind [OF calm [OF calm_start_parts(1) [OF N]]] hoare_bind [OF calm [OF calm_journal(3) [OF N]]] hoare_bind [OF keeps_gets]
          hoare_bind [OF calm [OF calm_games_load [OF N]]] hoare_bind [OF calm [OF calm_start_parts(2) [OF N]]]
          hoare_bind [OF calm [OF calm_start_parts(3) [OF N]]] last plain_codes)
  then have "?S ?a (exec (daemon_start E) (initial_prog w))" using ok by (simp add: hoare_def)
  then show ?thesis by (simp add: starting_def started_def)
qed

text \<open>The process that has not ended had not ended before.\<close>

lemma reach_alive: "daemon_reach E n fd s0 s \<Longrightarrow> exited s = None \<Longrightarrow> exited s0 = None"
proof (induction rule: daemon_reach.induct)
  case (Step s s')
  have "exited s = None" using Step.hyps(2) by (cases rule: daemon_step.cases) auto
  with Step.IH show ?case by blast
qed

text \<open>The start-up hears nothing, so what a daemon has heard are the requests of its turns.\<close>

lemma start_deaf: "deaf E (daemon_start E)"
proof -
  have v: "deaf E (modify (\<lambda>s. s\<lparr>sig_installed := fb s\<rparr>))" for fb by (rule makes_modify; simp add: log_ok_def)
  have je: "deaf E (journal_exit E c f as)" for c f as
    unfolding journal_exit_def daemon_failsafe_def daemon_restore_def cppc_restore_def c_exit_def
    by (intro makes_rules deaf_vars makes_sys no_recv_sets) simp_all
  have fc: "deaf E (c_fcntl E d x y)" for d x y
    unfolding c_fcntl_def sys_int_def by (intro makes_rules makes_sys_errno) (simp_all add: no_recv_def)
  show ?thesis
    unfolding daemon_start_def daemon_locals_def daemon_mode_init_def init_signals_def affinity_init_def socket_setup_def setup_failed_def
      notify_ready_def cgroup_write_raw_def
    by (intro makes_rules deaf_hw deaf_nodes deaf_bpf deaf_vars v je fc no_recv_sets plain_codes; simp add: no_recv_def)
qed

lemma reach_track:
  assumes D: "mode_driver E p st fds" and w: "fds w = {}" "NL \<notin> set (garbage E)"
    and r: "daemon_reach E n fd (exec (daemon_start E) (initial_prog w)) s" and ok: "exited s = None"
  shows "\<exists>x ds b. mode_run ds (started E x) b \<and> tracks p st fds ds b s"
proof -
  obtain x where x: "track p st fds (started E x) (exec (daemon_start E) (initial_prog w))"
    using daemon_start_track [OF D w reach_alive [OF r ok]] by blast
  moreover have "heard (trace (exec (daemon_start E) (initial_prog w))) = []"
    using deaf_heard [OF start_deaf, of "initial_prog w" E] by (simp add: initial_prog_def log_ok_def)
  ultimately have "tracks p st fds [] (started E x) (exec (daemon_start E) (initial_prog w))" by (simp add: tracks_def)
  from reach_simulated [OF D this r ok] show ?thesis by auto
qed

text \<open>
  C3. The running daemon is the small machine: in every state it reaches from its start-up by turns and signals, for all clients, answers of the kernel and
  bounds of the scan, lock, override, state, target and the mode of the device are those of a run of the machine on the requests the daemon has received, in their
  order, from the state without lock and override and with the device in \<^verbatim>\<open>frequency\<close>.
\<close>

theorem daemon_refines_machine:
  assumes "mode_driver E p st fds" "fds w = {}" "NL \<notin> set (garbage E)"
    "daemon_reach E n fd (exec (daemon_start E) (initial_prog w)) s" "exited s = None"
  shows "\<exists>x. mode_run (heard (trace s)) (started E x) (mode_abs st s)"
  using reach_track [OF assms] by (auto simp: tracks_def track_def)

text \<open>The lock that the requests ask for: the number of the last \<^verbatim>\<open>SET_WRAPPER\<close>, and no lock before the first.\<close>

definition lock_after :: "int \<Rightarrow> string \<Rightarrow> int" where
  "lock_after l buf = (if prefix ''SET_WRAPPER '' buf then atoi (drop 12 buf) else l)"

definition lock_asked :: "string list \<Rightarrow> int" where
  "lock_asked ds = fold (\<lambda>buf l. lock_after l buf) ds 0"

lemma request_lock: "mode_request buf a b \<Longrightarrow> m_lock b = lock_after (m_lock a) buf"
  by (induction rule: mode_request.induct)
    (simp_all add: lock_after_def toggled_def picked_def locked_def switched_def mode_commands_def)

lemma turn_lock: "mode_turn ds a b \<Longrightarrow> m_lock b = fold (\<lambda>buf l. lock_after l buf) ds (m_lock a)"
proof -
  have served: "m_lock b = fold (\<lambda>buf l. lock_after l buf) ds (m_lock a)" if "served_request ds a b" for ds a b
    using that request_lock unfolding served_request_def by auto
  have polled: "m_lock (polled game b) = m_lock b" for game b by (simp add: polled_def Let_def)
  assume "mode_turn ds a b"
  then show ?thesis by (cases rule: mode_turn.cases) (use served in \<open>auto simp: polled\<close>)
qed

lemma run_lock: "mode_run ds a b \<Longrightarrow> m_lock b = fold (\<lambda>buf l. lock_after l buf) ds (m_lock a)"
  by (induction rule: mode_run.induct) (simp_all add: turn_lock)

text \<open>
  C5. Nothing else touches the wrapper's lock: in every state the daemon reaches, the lock is what the last \<^verbatim>\<open>SET_WRAPPER\<close> it received asked for, and
  is free if it never received one, whatever other requests, signals, games and errors there were.
\<close>

theorem lock_is_last_asked:
  assumes "mode_driver E p st fds" "fds w = {}" "NL \<notin> set (garbage E)"
    "daemon_reach E n fd (exec (daemon_start E) (initial_prog w)) s" "exited s = None"
  shows "wrapper_lock s = lock_asked (heard (trace s))"
proof -
  obtain x ds b where "mode_run ds (started E x) b" "tracks p st fds ds b s" using reach_track [OF assms] by blast
  then have "wrapper_lock s = m_lock b" "m_lock b = lock_asked (heard (trace s))"
    using run_lock [of ds "started E x" b] by (auto simp: tracks_def track_def mode_abs_def lock_asked_def started_def)
  then show ?thesis by simp
qed

text \<open>What a round decides.\<close>

lemma polled_decides:
  "(m_lock (polled game b) \<noteq> 0 \<longrightarrow> m_device (polled game b) = ''cache'') \<and>
   (m_lock (polled game b) = 0 \<and> m_auto (polled game b) \<longrightarrow>
      (m_override (polled game b) = 1 \<longrightarrow> m_device (polled game b) = ''cache'') \<and>
      (m_override (polled game b) = 2 \<longrightarrow> m_device (polled game b) = ''frequency''))"
  by (auto simp: polled_def Let_def)

text \<open>
  C6. The lock and the override prevail over every client: after a turn in which the daemon was not told to stop, at whatever point of its life, the device is
  in \<^verbatim>\<open>cache\<close> if the wrapper holds the lock; without it, in the automatic state and unless the configuration was reloaded, an override of cache or frequency is
  what the device is in, whatever the client of this turn asked for.
\<close>

theorem turn_ends_as_decided:
  assumes "mode_driver E p st fds" "fds w = {}" "NL \<notin> set (garbage E)"
    "daemon_reach E n fd (exec (daemon_start E) (initial_prog w)) s" "exited s = None"
    "run_state (daemon_round E n fd) s = (Some (), s')" "active_keep s'" "exited s' = None"
  shows "(wrapper_lock s' \<noteq> 0 \<longrightarrow> st (world s') = ''cache'') \<and>
    (wrapper_lock s' = 0 \<and> strcmp (daemon_state (cfg s')) ''default'' = 0 \<and> \<not> reload_flag s \<longrightarrow>
      (active_override s' = 1 \<longrightarrow> st (world s') = ''cache'') \<and> (active_override s' = 2 \<longrightarrow> st (world s') = ''frequency''))"
proof -
  obtain h a where a: "tracks p st fds h a s" using reach_track [OF assms(1-5)] by blast
  from turn_effect [OF assms(1) a assms(6,8)] obtain b game x where
    "track p st fds ((polled game b)\<lparr>m_auto := x\<rparr>) s'" "\<not> reload_flag s \<longrightarrow> x = m_auto (polled game b)"
    using assms(7) unfolding tracks_def by blast
  then have eq: "mode_abs st s' = (polled game b)\<lparr>m_auto := x\<rparr>" "\<not> reload_flag s \<longrightarrow> x = m_auto (polled game b)" by (auto simp: track_def)
  have "wrapper_lock s' = m_lock (polled game b)" "active_override s' = m_override (polled game b)"
    "(strcmp (daemon_state (cfg s')) ''default'' = 0) = x" "st (world s') = m_device (polled game b)"
    using eq(1) by (cases "polled game b"; simp add: mode_abs_def)+
  then show ?thesis using polled_decides [of game b] eq(2) by auto
qed

subsection \<open>On the device in memory\<close>

text \<open>The device alone, and in every turn a client that takes the lock.\<close>

definition eager_env :: "dev_world env" where
  "eager_env = dev_env\<lparr>kernel := (\<lambda>c w. case c of
     SysSelect nf fs tv \<Rightarrow> (Nums 1 fs, w)
   | SysAccept4 fd fl \<Rightarrow> (Ret 9, w)
   | SysRecvfrom fd k fl \<Rightarrow> (Data ''SET_WRAPPER 1'', w)
   | SysOpen q fl md \<Rightarrow> if q = dev_node then dev_kernel c w else (Ret (- 2), w)
   | _ \<Rightarrow> dev_kernel c w)\<rparr>"

lemma eager_mode_driver: "mode_driver eager_env dev_node dv_mode dv_fds"
proof -
  note d = dev_mode_device [unfolded mode_device_def]
  have "device_open eager_env dev_node dv_mode dv_fds" "device_read eager_env dv_mode dv_fds" "device_write eager_env dv_mode dv_fds"
    "device_close eager_env dv_mode dv_fds"
    using d by (simp_all add: eager_env_def dev_env_def device_open_def device_read_def device_write_def device_close_def)
  moreover have "device_apart eager_env dev_node dv_mode dv_fds"
    using d by (auto simp: eager_env_def dev_env_def device_apart_def off_node_def split: syscall.splits)
  ultimately have "mode_device eager_env dev_node dv_mode dv_fds" using d by (simp add: mode_device_def)
  moreover have "node_at eager_env dev_node" using dev_node_at by (simp add: node_at_def eager_env_def dev_env_def)
  moreover have "device_refuses eager_env dv_mode dv_fds"
    by (auto simp: device_refuses_def eager_env_def dev_kernel_def modes_def)
  moreover have "device_children eager_env dv_fds"
    by (auto simp: device_children_def eager_env_def dev_kernel_def)
  moreover have "CONFIG_PATH eager_env \<noteq> dev_node" by (simp add: eager_env_def dev_env_def mem_env_def dev_node_def)
  ultimately show ?thesis by (simp add: mode_driver_def)
qed

definition dev_boot :: "dev_world" where
  "dev_boot = \<lparr>dv_mem = world (mem_start Map.empty []), dv_cache = True, dv_fds = {}\<rparr>"

definition lives :: "'w prog \<Rightarrow> bool" where
  "lives s \<longleftrightarrow> exited s = None \<and> active_keep s"

lemma lives_indep: "det_indep lives"
  by (simp add: det_indep_def hw_indep_def jrn_indep_def sys_indep_def lives_def)

lemma eager_daemon_lives: "lives (exec (daemon_start eager_env) (initial_prog dev_boot))"
proof -
  note base = lives_indep det_hw [OF lives_indep] det_jrn [OF lives_indep] det_sys [OF lives_indep] plain_codes
  have mods: "keeps lives (modify (\<lambda>s. s\<lparr>cfg := fc s\<rparr>))" "keeps lives (modify (\<lambda>s. s\<lparr>gl := fg s\<rparr>))"
    "keeps lives (modify (\<lambda>s. s\<lparr>p_stat := fp s\<rparr>))" "keeps lives (modify (\<lambda>s. s\<lparr>c_stat := fp s\<rparr>))"
    "keeps lives (modify (\<lambda>s. s\<lparr>cur_mode := fs s\<rparr>))" "keeps lives (modify (\<lambda>s. s\<lparr>target_mode := fs s\<rparr>))"
    "keeps lives (modify (\<lambda>s. s\<lparr>sig_installed := fb s\<rparr>))" "keeps lives (modify (\<lambda>s. s\<lparr>bpf_active := fb s\<rparr>))"
    for fc fg fp fs fb by (simp_all add: hoare_def lives_def)
  have cl: "keeps lives (config_load E)" for E by (rule keeps_config_load) (use base in \<open>simp_all add: lives_def\<close>)
  have gl: "keeps lives (games_load E)" for E unfolding games_load_def by (intro hoare_rules base mods)
  have r0: "result (sys_int eager_env c) s = 0" if "(\<exists>i j k. c = SysSocket i j k) \<or> (\<exists>i j k. c = SysFcntl i j k) \<or> (\<exists>i q. c = SysBind i q) \<or> (\<exists>i k. c = SysListen i k)" for c s
    using that by (auto simp: run_sys_int eager_env_def dev_kernel_def Let_def failed_def s32_id)
  have fd: "result (socket_setup eager_env) s = 0" for s
    unfolding socket_setup_def c_socket_def c_fcntl_def c_bind_def c_listen_def by (simp add: result_bind r0 del: run_state_bind)
  have su: "keeps lives (socket_setup eager_env)"
    unfolding socket_setup_def setup_failed_def by (intro hoare_rules base)
  have tail: "keeps lives (do { notify_ready eager_env; p0 \<leftarrow> gets p_stat; p \<leftarrow> stats eager_env p0;
      modify (\<lambda>s. s\<lparr>p_stat := p\<rparr>); ret (x :: int) })" for x
    unfolding notify_ready_def getenv_def stats_def by (intro hoare_rules base mods)
  have last: "keeps lives (do { server_fd \<leftarrow> socket_setup eager_env;
     if server_fd < 0 then do { journal_exit eager_env 1 ''Failed to initialize IPC server'' []; ret server_fd }
     else do { notify_ready eager_env; p0 \<leftarrow> gets p_stat; p \<leftarrow> stats eager_env p0; modify (\<lambda>s. s\<lparr>p_stat := p\<rparr>); ret server_fd } })"
    using su tail [of 0] by (simp add: hoare_def exec_bind result_bind fd del: run_state_bind)
  have "keeps lives (daemon_start eager_env)"
    unfolding daemon_start_def daemon_locals_def daemon_mode_init_def init_signals_def affinity_init_def bind_assoc
    by (intro hoare_rules base mods cl gl last)
  then show ?thesis by (simp add: hoare_def lives_def initial_prog_def)
qed

lemma eager_rounds: "result (polling_run eager_env n) s = Some ()"
proof (rule polling_run_returns)
  fix s
  have "result (c_open eager_env ''/proc'' O_RDONLY 0) s < 0"
    by (simp add: c_open_def run_sys_int eager_env_def dev_node_def failed_def Let_def)
  then show "result (detect_game eager_env n) s \<noteq> None" by (simp add: detect_game_def result_bind del: run_state_bind)
qed

text \<open>The request of the client is served.\<close>

lemma eager_wait: "hoare lives (daemon_wait eager_env fd) (\<lambda>_ s. lives s \<and> wrapper_lock s = 1)"
proof -
  note base = lives_indep det_hw [OF lives_indep] det_jrn [OF lives_indep] det_sys [OF lives_indep] plain_codes
  have W: "det_indep (\<lambda>s :: dev_world prog. wrapper_lock s = 1)" by (simp add: det_indep_def hw_indep_def jrn_indep_def sys_indep_def)
  note lock = W det_hw [OF W] det_sys [OF W]
  have mods: "keeps lives (modify (\<lambda>s. s\<lparr>active_override := i\<rparr>))" "keeps lives (modify (\<lambda>s. s\<lparr>wrapper_lock := i\<rparr>))"
    "keeps (\<lambda>s. wrapper_lock s = 1) (modify (\<lambda>s. s\<lparr>active_override := i\<rparr>))" for i
    by (simp_all add: hoare_def lives_def)
  have one: "atoi ''1'' = 1" by code_simp
  have "keeps lives (ipc_set_wrapper eager_env cfd ''1'')" for cfd
    unfolding ipc_set_wrapper_def by (intro hoare_rules mods base)
  moreover have "hoare (\<lambda>_. True) (ipc_set_wrapper eager_env cfd ''1'') (\<lambda>_ s. wrapper_lock s = 1)" for cfd
    unfolding ipc_set_wrapper_def Let_def one
    by (rule hoare_bind [where R = "\<lambda>_ s. wrapper_lock s = 1"], simp add: hoare_def, intro hoare_rules mods lock)
  moreover have "ipc_dispatch eager_env cfd (request_of ''SET_WRAPPER 1'') = ipc_set_wrapper eager_env cfd ''1''" for cfd
  proof -
    have "request_of ''SET_WRAPPER 1'' = ''SET_WRAPPER '' @ ''1''" by code_simp
    then show ?thesis by (simp only: dispatch_wrapper)
  qed
  ultimately have disp: "hoare lives (ipc_dispatch eager_env cfd (request_of ''SET_WRAPPER 1'')) (\<lambda>_ s. lives s \<and> wrapper_lock s = 1)" for cfd
    by (simp add: hoare_def del: run_state_bind)
  let ?Q = "\<lambda>s. lives s \<and> wrapper_lock s = 1"
  have cl: "keeps ?Q (if fall then do { c_close eager_env cfd; ret () } else ret ())" for fall cfd
  proof -
    have "keeps lives (c_close eager_env cfd)" "keeps (\<lambda>s. wrapper_lock s = 1) (c_close eager_env cfd)" by (intro hoare_rules base lock)+
    then show ?thesis by (auto simp: hoare_def exec_bind simp del: run_state_bind)
  qed
  have acc: "hoare lives (c_accept4 eager_env fd fl) (\<lambda>r s. r = 9 \<and> lives s)" for fd fl
    by (simp add: hoare_def c_accept4_def run_sys_int eager_env_def Let_def failed_def s32_id lives_def)
  have rec: "hoare lives (c_recv eager_env cfd 511 fl) (\<lambda>r s. r = (13, ''SET_WRAPPER 1'') \<and> lives s)" for cfd fl
    by (simp add: hoare_def c_recv_def run_sys_errno eager_env_def Let_def failed_def filled_def lives_def)
  have sel: "hoare lives (c_select eager_env i [fd] tv) (\<lambda>r s. r = (1, [fd]) \<and> lives s)" for i tv
    by (simp add: hoare_def c_select_def run_sys run_sys_errno eager_env_def Let_def failed_def lives_def s32_id)
  have step: "hoare (\<lambda>s. nd = (13, ''SET_WRAPPER 1'') \<and> lives s) (do { fall \<leftarrow> (if fst nd > 0 then ipc_dispatch eager_env cfd (request_of (snd nd)) else ret True);
      if fall then do { c_close eager_env cfd; ret () } else ret () }) (\<lambda>_. ?Q)" for nd :: "int \<times> string" and cfd
    using hoare_bind [OF disp cl] by (auto simp: hoare_def simp del: run_state_bind)
  have inner: "hoare (\<lambda>s. cfd = 9 \<and> lives s) (if cfd < 0 then ret () else do { nd \<leftarrow> c_recv eager_env cfd 511 0;
      fall \<leftarrow> (if fst nd > 0 then ipc_dispatch eager_env cfd (request_of (snd nd)) else ret True);
      if fall then do { c_close eager_env cfd; ret () } else ret () }) (\<lambda>_. ?Q)" for cfd
    using hoare_bind [OF rec step] by (auto simp: hoare_def simp del: run_state_bind)
  have handle: "hoare lives (socket_handle eager_env fd) (\<lambda>_. ?Q)"
    unfolding socket_handle_def by (rule hoare_bind [OF acc inner])
  have "hoare (\<lambda>s. sel = (1, [fd]) \<and> lives s) (if fst sel > 0 \<and> fd \<in> set (snd sel) then socket_handle eager_env fd else ret ()) (\<lambda>_. ?Q)" for sel :: "int \<times> int list"
    using handle by (auto simp: hoare_def simp del: run_state_bind)
  then show ?thesis
    unfolding daemon_wait_def by (intro hoare_bind [OF keeps_gets] hoare_bind [OF sel])
qed

lemma eager_turn:
  assumes "lives s"
  shows "run_state (daemon_round eager_env n fd) s = (Some (), exec (daemon_round eager_env n fd) s)" "lives (exec (daemon_round eager_env n fd) s)"
proof -
  note base = lives_indep det_hw [OF lives_indep] det_jrn [OF lives_indep] det_sys [OF lives_indep] plain_codes
  have mods: "keeps lives (modify (\<lambda>s. s\<lparr>cfg := fc s\<rparr>))" "keeps lives (modify (\<lambda>s. s\<lparr>gl := fg s\<rparr>))"
    "keeps lives (modify (\<lambda>s. s\<lparr>p_stat := fp s\<rparr>))" "keeps lives (modify (\<lambda>s. s\<lparr>c_stat := fp s\<rparr>))"
    "keeps lives (modify (\<lambda>s. s\<lparr>cur_mode := fs s\<rparr>))" "keeps lives (modify (\<lambda>s. s\<lparr>target_mode := fs s\<rparr>))"
    "keeps lives (modify (\<lambda>s. s\<lparr>last_target := fs s\<rparr>))" "keeps lives (modify (\<lambda>s. s\<lparr>reload_flag := fb s\<rparr>))"
    for fc fg fp fs fb by (simp_all add: hoare_def lives_def)
  have cl: "keeps lives (config_load E)" for E by (rule keeps_config_load) (use base in \<open>simp_all add: lives_def\<close>)
  have wait: "keeps lives (daemon_wait eager_env fd)" by (rule hoare_conseq [OF eager_wait]) simp_all
  have poll: "keeps lives (polling_run eager_env n)"
    unfolding polling_run_def polling_sense_def polling_decide_def poll_events_def bpf_game_def polling_switch_def force_apply_def
      polling_display_def stats_def
    by (intro hoare_rules base mods)
  have "keeps lives (daemon_round eager_env n fd)"
    unfolding daemon_round_def daemon_running_def daemon_reload_def games_load_def
    by (intro hoare_rules wait poll base mods cl)
  then show "lives (exec (daemon_round eager_env n fd) s)" using assms by (simp add: hoare_def)
  show "run_state (daemon_round eager_env n fd) s = (Some (), exec (daemon_round eager_env n fd) s)"
    by (simp add: prod_eq_iff daemon_round_def result_bind eager_rounds del: run_state_bind)
qed

definition eager_start :: "dev_world prog" where
  "eager_start = exec (daemon_start eager_env) (initial_prog dev_boot)"

lemma eager_facts:
  "dv_fds dev_boot = {}" "NL \<notin> set (garbage eager_env)" "daemon_reach eager_env 1 0 (exec (daemon_start eager_env) (initial_prog dev_boot)) eager_start"
  "exited eager_start = None" "lives eager_start"
  using eager_daemon_lives by (auto simp: dev_boot_def eager_env_def dev_env_def eager_start_def lives_def intro: daemon_reach.Start)

theorem request_refines_machine_witness:
  "mode_request ''TOGGLE'' (mode_abs dv_mode (dev_start True)) (mode_abs dv_mode (exec (ipc_dispatch eager_env 7 ''TOGGLE'') (dev_start True)))"
proof -
  have "steady dev_node dv_fds (dev_start True)"
    by (simp add: steady_def dev_start_def initial_prog_def log_ok_def)
  moreover have "keeps (\<lambda>s. exited s = None) (ipc_toggle eager_env 7 [])"
  proof -
    have I: "det_indep (\<lambda>s :: dev_world prog. exited s = None)" by (simp add: det_indep_def hw_indep_def jrn_indep_def sys_indep_def)
    have m: "keeps (\<lambda>s :: dev_world prog. exited s = None) (modify (\<lambda>s. s\<lparr>active_override := i\<rparr>))" for i by (simp add: hoare_def)
    show ?thesis unfolding ipc_toggle_def by (intro hoare_rules m det_hw [OF I] det_sys [OF I])
  qed
  then have "exited (exec (ipc_dispatch eager_env 7 ''TOGGLE'') (dev_start True)) = None"
    using dispatch_toggle [of eager_env 7 "[]"] by (simp add: hoare_def dev_start_def initial_prog_def)
  ultimately show ?thesis
    using request_refines_machine [OF eager_mode_driver, of "dev_start True" "''TOGGLE''" 7] by (simp add: cstr_simps)
qed

theorem daemon_refines_machine_witness:
  "\<exists>x. mode_run (heard (trace eager_start)) (started eager_env x) (mode_abs dv_mode eager_start)"
  by (rule daemon_refines_machine [OF eager_mode_driver eager_facts(1-4)])

lemma eager_lock:
  assumes "lives s"
  shows "wrapper_lock (exec (daemon_round eager_env n fd) s) = 1"
proof -
  have W: "det_indep (\<lambda>s :: dev_world prog. wrapper_lock s = 1)" by (simp add: det_indep_def hw_indep_def jrn_indep_def sys_indep_def)
  note lock = W det_hw [OF W] det_jrn [OF W] det_sys [OF W]
  have mods: "keeps (\<lambda>s. wrapper_lock s = 1) (modify (\<lambda>s. s\<lparr>cfg := fc s\<rparr>))" "keeps (\<lambda>s. wrapper_lock s = 1) (modify (\<lambda>s. s\<lparr>gl := fg s\<rparr>))"
    "keeps (\<lambda>s. wrapper_lock s = 1) (modify (\<lambda>s. s\<lparr>p_stat := fp s\<rparr>))" "keeps (\<lambda>s. wrapper_lock s = 1) (modify (\<lambda>s. s\<lparr>c_stat := fp s\<rparr>))"
    "keeps (\<lambda>s. wrapper_lock s = 1) (modify (\<lambda>s. s\<lparr>cur_mode := fs s\<rparr>))" "keeps (\<lambda>s. wrapper_lock s = 1) (modify (\<lambda>s. s\<lparr>target_mode := fs s\<rparr>))"
    "keeps (\<lambda>s. wrapper_lock s = 1) (modify (\<lambda>s. s\<lparr>last_target := fs s\<rparr>))" "keeps (\<lambda>s. wrapper_lock s = 1) (modify (\<lambda>s. s\<lparr>reload_flag := fb s\<rparr>))"
    for fc fg fp fs fb by (simp_all add: hoare_def)
  have cl: "keeps (\<lambda>s. wrapper_lock s = 1) (config_load E)" for E :: "dev_world env"
    by (rule keeps_config_load) (use lock in simp_all)
  have poll: "keeps (\<lambda>s. wrapper_lock s = 1) (polling_run eager_env n)"
    unfolding polling_run_def polling_sense_def polling_decide_def poll_events_def bpf_game_def polling_switch_def force_apply_def
      polling_display_def stats_def
    by (intro hoare_rules lock mods plain_codes)
  have wait: "hoare lives (daemon_wait eager_env fd) (\<lambda>_ s. wrapper_lock s = 1)" by (rule hoare_conseq [OF eager_wait]) simp_all
  have "hoare lives (daemon_round eager_env n fd) (\<lambda>_ s. wrapper_lock s = 1)"
    unfolding daemon_round_def daemon_running_def daemon_reload_def games_load_def
    by (rule hoare_bind [OF wait], intro hoare_rules poll lock mods cl)
  then show ?thesis using assms by (simp add: hoare_def)
qed

lemma eager_reach:
  "daemon_reach eager_env 1 0 (exec (daemon_start eager_env) (initial_prog dev_boot)) (exec (daemon_round eager_env 1 0) eager_start)"
  "exited (exec (daemon_round eager_env 1 0) eager_start) = None"
proof -
  have "active_keep eager_start" "exited eager_start = None" using eager_facts(5) by (simp_all add: lives_def)
  from daemon_reach.Step [OF eager_facts(3) daemon_step.Round [OF this eager_turn(1) [OF eager_facts(5)]]]
  show "daemon_reach eager_env 1 0 (exec (daemon_start eager_env) (initial_prog dev_boot)) (exec (daemon_round eager_env 1 0) eager_start)" .
  show "exited (exec (daemon_round eager_env 1 0) eager_start) = None" using eager_turn(2) [OF eager_facts(5)] by (simp add: lives_def)
qed

theorem lock_is_last_asked_witness:
  "lock_asked (heard (trace (exec (daemon_round eager_env 1 0) eager_start))) = 1"
  using lock_is_last_asked [OF eager_mode_driver eager_facts(1,2) eager_reach] eager_lock [OF eager_facts(5), of 1 0] by simp

theorem turn_ends_as_decided_witness:
  "dv_mode (world (exec (daemon_round eager_env 1 0) eager_start)) = ''cache''"
proof -
  have "active_keep (exec (daemon_round eager_env 1 0) eager_start)" "exited (exec (daemon_round eager_env 1 0) eager_start) = None"
    using eager_turn(2) [OF eager_facts(5)] by (simp_all add: lives_def)
  from turn_ends_as_decided [OF eager_mode_driver eager_facts(1-4) eager_turn(1) [OF eager_facts(5)] this]
  show ?thesis using eager_lock [OF eager_facts(5), of 1 0] by (metis zero_neq_one)
qed

end
