(* ===== verification/Session.thy ===== *)
theory Session
  imports Client_Facts Mode_Runs
begin

section \<open>Clients and daemon together\<close>

text \<open>
  What a run of a client asks for is served by the daemon in the same order, one request in each turn of its loop. The theorems follow the
  command that sets a mode and the launcher from the client's call to the mode the device is in.
\<close>

text \<open>A turn that serves a request: the branch of the dispatch, then the round.\<close>

definition turn_with :: "'w env \<Rightarrow> nat \<Rightarrow> int \<Rightarrow> string \<Rightarrow> 'w prog \<Rightarrow> 'w prog" where
  "turn_with E n fd buf s = exec (do { ipc_dispatch E fd buf; polling_run E n }) s"

definition turns_with :: "'w env \<Rightarrow> nat \<Rightarrow> int \<Rightarrow> string list \<Rightarrow> 'w prog \<Rightarrow> 'w prog" where
  "turns_with E n fd ds s = fold (turn_with E n fd) ds s"

lemma turns_with_simps [simp]:
  "turns_with E n fd [] s = s" "turns_with E n fd (d # ds) s = turns_with E n fd ds (turn_with E n fd d s)"
  by (simp_all add: turns_with_def)

lemma turn_with_exec: "turn_with E n fd buf s = exec (polling_run E n) (exec (ipc_dispatch E fd buf) s)"
  by (simp add: turn_with_def exec_bind del: run_state_bind)

subsection \<open>The command that sets a mode\<close>

lemma no_request_node: "makes E no_request (cli_set_mode E md)" "makes E no_request (mode_path E old n)"
proof -
  have f: "makes E no_request (find_path E)" by (rule makes_find_path) (simp add: no_request_def)
  have w: "makes E no_request (write_node E q v a b)" for q v a b
    unfolding write_node_def by (intro makes_rules; simp add: no_request_def)
  show "makes E no_request (cli_set_mode E md)" unfolding cli_set_mode_def by (intro makes_rules f w)
  show "makes E no_request (mode_path E old n)" unfolding mode_path_def by (intro makes_rules f)
qed

lemma tells_ccd_change:
  assumes up: "ipc_up C" and md: "md \<in> modes"
  shows "tells (ccd_change C md) (\<lambda>r ds. ds = [''SET_DAEMON manual'', ''SET_MODE '' @ md])"
proof -
  have cmd: "printf_sn C 64 ''SET_MODE %s'' [AStr md] = ''SET_MODE '' @ md"
    using md by (auto simp: modes_def printf_sn_def printf_simps)
  have known: "(strcmp md ''cache'' = 0 \<or> strcmp md ''frequency'' = 0 \<or> strcmp md ''dual'' = 0 \<or> strcmp md ''swap'' = 0) = True"
    "(strcmp md ''dual'' = 0) = False" "(strcmp md ''swap'' = 0) = False"
    "(strcmp md ''cache'' = 0 \<or> strcmp md ''frequency'' = 0 \<or> False \<or> False) = True"
    using md by (auto simp: modes_def cstr_simps)
  have out: "makes C no_request (printf_step f as)" for f as by (rule makes_rules)
  have rest: "makes C no_request (if r = ERR_SUCCESS then do { mp \<leftarrow> mode_path C ''unknown'' 256; printf_step f (as (snd mp)); ret ERR_SUCCESS }
      else do { hw_res \<leftarrow> cli_set_mode C md;
        if hw_res \<noteq> ERR_SUCCESS then do { journal_error C ERR_HW [AInt hw_res]; ret ERR_HW }
        else do { mp \<leftarrow> mode_path C ''unknown'' 256; printf_step g (as (snd mp)); ret ERR_SUCCESS } })" for r :: int and f g as
    by (intro makes_rules no_request_node out no_request_log plain_codes)
  have two: "tells (do { socket_cmd C ''SET_DAEMON manual''; socket_cmd C (''SET_MODE '' @ md) })
      (\<lambda>r ds. ds = [''SET_DAEMON manual'', ''SET_MODE '' @ md])"
    by (rule tells_bind [OF tells_socket_cmd [OF up]]) (use tells_socket_cmd [OF up, of "''SET_MODE '' @ md"] in \<open>simp add: tells_def\<close>)
  show ?thesis
    unfolding ccd_change_def cmd known if_True if_False
    by (rule tells_bind [OF two], rule tells_makes [OF rest]) simp
qed

lemma picked_mode: "md \<in> modes \<Longrightarrow> \<exists>i. picked md a = a\<lparr>m_override := i, m_device := md\<rparr>"
proof -
  have "\<not> sublist ''auto'' ''cache''" "\<not> sublist ''default'' ''cache''" "\<not> sublist ''reset'' ''cache''" "\<not> sublist ''auto'' ''frequency''"
    "\<not> sublist ''default'' ''frequency''" "\<not> sublist ''reset'' ''frequency''" "\<not> sublist ''cache'' ''frequency''" by code_simp+
  then show "md \<in> modes \<Longrightarrow> ?thesis" by (auto simp: modes_def picked_def)
qed

lemma manual_turns:
  assumes D: "mode_driver E p st fds" and s: "track p st fds a s" and a: "m_lock a = 0" "m_target a = m_device a" and md: "md \<in> modes"
  shows "\<exists>ov. track p st fds \<lparr>m_lock = 0, m_override = ov, m_auto = False, m_target = md, m_device = m_device a\<rparr>
    (turns_with E n fd [''SET_DAEMON manual'', ''SET_MODE '' @ md] s)"
proof -
  let ?man = "switched ''manual'' a"
  have man: "?man = a\<lparr>m_auto := False\<rparr>" by (simp add: switched_def)
  have sw: "ipc_dispatch E fd ''SET_DAEMON manual'' = ipc_set_daemon E fd ''manual''"
    by (simp add: ipc_dispatch_def ipc_commands_def numeral_eq_Suc)
  have pk: "ipc_dispatch E fd (''SET_MODE '' @ md) = ipc_set_mode E fd md"
    by (simp add: ipc_dispatch_def ipc_commands_def numeral_eq_Suc)
  have md_a: "m_device a \<in> modes" by (rule track_modes [OF D s])
  define s1 where "s1 = exec (ipc_dispatch E fd ''SET_DAEMON manual'') s"
  have s1: "track p st fds ?man s1"
    using hoareD [OF track_switch [OF D _ _, of "''manual''"] s] by (simp add: s1_def sw cstr_simps)
  obtain g where s2: "track p st fds (polled g ?man) (exec (polling_run E n) s1)"
    using track_round [OF D s1 steady_round_returns [OF s1]] by (auto simp: man)
  have "polled g ?man = ?man" unfolding man using a md_a by (cases a) (simp add: polled_def)
  with s2 have s2: "track p st fds ?man (turn_with E n fd ''SET_DAEMON manual'' s)"
    by (simp only: turn_with_exec s1_def)
  let ?b = "picked md ?man"
  define s3 where "s3 = exec (ipc_dispatch E fd (''SET_MODE '' @ md)) (turn_with E n fd ''SET_DAEMON manual'' s)"
  have "hoare (track p st fds ?man) (ipc_set_mode E fd md) (\<lambda>_. track p st fds ?b)" by (rule track_pick [OF D])
  then have "track p st fds ?b (exec (ipc_set_mode E fd md) (turn_with E n fd ''SET_DAEMON manual'' s))" using s2 unfolding hoare_def by blast
  then have s3: "track p st fds ?b s3" by (simp only: s3_def pk)
  obtain i where "?b = ?man\<lparr>m_override := i, m_device := md\<rparr>" using picked_mode [OF md] by blast
  then have b: "?b = a\<lparr>m_auto := False, m_override := i, m_device := md\<rparr>" by (simp only: man)
  obtain g where "track p st fds (polled g ?b) (exec (polling_run E n) s3)"
    using track_round [OF D s3 steady_round_returns [OF s3]] by (fastforce simp: b)
  moreover have "polled g ?b = \<lparr>m_lock = 0, m_override = i, m_auto = False, m_target = md, m_device = m_device a\<rparr>"
    unfolding b using a md_a by (cases a) (simp add: polled_def)
  ultimately show ?thesis unfolding turns_with_simps turn_with_exec [of E n fd "''SET_MODE '' @ md"] s3_def by metis
qed


definition old_client :: "mem_world prog" where
  "old_client = mem_start Map.empty []"

definition settled :: "dev_world prog" where
  "settled = (dev_start True)\<lparr>target_mode := ''cache''\<rparr>"

lemma meeting_facts:
  "ipc_up mem_env" "log_path old_client = [] \<or> prefix VAR_LOGS (log_path old_client)" "steady dev_node dv_fds settled"
  "wrapper_lock settled = 0" "target_mode settled = dv_mode (world settled)"
  by (simp_all add: ipc_up_def old_client_def mem_start_def initial_prog_def settled_def dev_start_def steady_def log_ok_def dv_mode_def)


subsection \<open>The launcher\<close>

text \<open>Rounds leave lock and override as they are.\<close>

lemma rounds_locked:
  assumes D: "mode_driver E p st fds"
  shows "track p st fds a s \<Longrightarrow> m_lock a \<noteq> 0 \<Longrightarrow>
    \<exists>b. track p st fds b (((\<lambda>s. exec (polling_run E n) s) ^^ k) s) \<and> m_lock b = m_lock a \<and> (m_device a = ''cache'' \<longrightarrow> m_device b = ''cache'')"
proof (induction k)
  case (Suc k)
  then obtain b where b: "track p st fds b (((\<lambda>s. exec (polling_run E n) s) ^^ k) s)" "m_lock b = m_lock a" "m_device a = ''cache'' \<longrightarrow> m_device b = ''cache''"
    by blast
  with Suc.prems have "result (polling_run E n) (((\<lambda>s. exec (polling_run E n) s) ^^ k) s) = Some ()"
    by (intro steady_round_returns [OF b(1)]) simp
  from track_round [OF D b(1) this] obtain g where "track p st fds (polled g b) (((\<lambda>s. exec (polling_run E n) s) ^^ Suc k) s)" by auto
  moreover have "m_lock (polled g b) = m_lock a" "m_device (polled g b) = ''cache''" using Suc.prems b(2) by (simp_all add: polled_def)
  ultimately show ?case by blast
qed auto

lemma round_keeps_lock: "keeps (\<lambda>s. wrapper_lock s = x \<and> active_override s = y) (polling_run E n)"
proof -
  let ?I = "\<lambda>s :: 'a prog. wrapper_lock s = x \<and> active_override s = y"
  have I: "det_indep ?I" by (simp add: det_indep_def hw_indep_def jrn_indep_def sys_indep_def)
  have mods: "keeps ?I (modify (\<lambda>s. s\<lparr>cur_mode := fs s\<rparr>))" "keeps ?I (modify (\<lambda>s. s\<lparr>target_mode := fs s\<rparr>))"
    "keeps ?I (modify (\<lambda>s. s\<lparr>last_target := fs s\<rparr>))" "keeps ?I (modify (\<lambda>s. s\<lparr>p_stat := fp s\<rparr>))" "keeps ?I (modify (\<lambda>s. s\<lparr>c_stat := fp s\<rparr>))"
    for fs fp by (simp_all add: hoare_def)
  show ?thesis
    unfolding polling_run_def polling_sense_def polling_decide_def poll_events_def bpf_game_def polling_switch_def force_apply_def
      polling_display_def stats_def
    by (intro hoare_rules det_hw [OF I] det_jrn [OF I] det_sys [OF I] I mods plain_codes)
qed

text \<open>The daemon \<open>k\<close> rounds after the turn that served the request for the lock.\<close>

definition in_game :: "'w env \<Rightarrow> nat \<Rightarrow> int \<Rightarrow> nat \<Rightarrow> 'w prog \<Rightarrow> 'w prog" where
  "in_game E n fd k s = ((\<lambda>s. exec (polling_run E n) s) ^^ k) (turn_with E n fd ''SET_WRAPPER 1'' s)"

lemma in_game_track:
  assumes D: "mode_driver E p st fds" and s: "steady p fds s"
  shows "\<exists>b. track p st fds b (in_game E n fd k s) \<and> m_lock b = 1 \<and> m_device b = ''cache''"
proof -
  have "track p st fds (mode_abs st s) s" using s by (simp add: track_def)
  moreover have sw: "ipc_dispatch E fd ''SET_WRAPPER 1'' = ipc_set_wrapper E fd ''1''"
    using dispatch_wrapper [of E fd "''1''"] by simp
  moreover have one: "atoi ''1'' = 1" by code_simp
  ultimately have l: "track p st fds (locked 1 (mode_abs st s)) (exec (ipc_dispatch E fd ''SET_WRAPPER 1'') s)"
    using track_lock [OF D, of "mode_abs st s" fd "''1''"] unfolding hoare_def by simp
  have "result (polling_run E n) (exec (ipc_dispatch E fd ''SET_WRAPPER 1'') s) = Some ()"
    by (rule steady_round_returns [OF l]) (simp add: locked_def)
  from track_round [OF D l this] obtain g where
    t: "track p st fds (polled g (locked 1 (mode_abs st s))) (turn_with E n fd ''SET_WRAPPER 1'' s)" unfolding turn_with_exec by blast
  have "m_lock (polled g (locked 1 (mode_abs st s))) = 1" "m_device (polled g (locked 1 (mode_abs st s))) = ''cache''"
    by (simp_all add: polled_def locked_def)
  with rounds_locked [OF D t, where n = n and k = k] show ?thesis unfolding in_game_def by auto
qed

lemma unlock_turn:
  assumes D: "mode_driver E p st fds" and s: "track p st fds a s"
  shows "wrapper_lock (turn_with E n fd ''SET_WRAPPER 0'' s) = 0 \<and> active_override (turn_with E n fd ''SET_WRAPPER 0'' s) = 0"
proof -
  have sw: "ipc_dispatch E fd ''SET_WRAPPER 0'' = ipc_set_wrapper E fd ''0''" using dispatch_wrapper [of E fd "''0''"] by simp
  have "atoi ''0'' = 0" by code_simp
  then have "track p st fds (locked 0 a) (exec (ipc_dispatch E fd ''SET_WRAPPER 0'') s)"
    using track_lock [OF D, of a fd "''0''"] s unfolding sw hoare_def by simp
  then have z: "wrapper_lock (exec (ipc_dispatch E fd ''SET_WRAPPER 0'') s) = 0 \<and> active_override (exec (ipc_dispatch E fd ''SET_WRAPPER 0'') s) = 0"
    by (auto simp: track_parts steers_def locked_def)
  have "keeps (\<lambda>s. wrapper_lock s = 0 \<and> active_override s = 0) (polling_run E n)" by (rule round_keeps_lock)
  with z show ?thesis unfolding turn_with_exec hoare_def by blast
qed



end
