(* ===== verification/Gui.thy ===== *)
theory Gui
  imports Client_Facts
begin

section \<open>The window (src/gtk4/gui.c)\<close>

text \<open>
  The window is a set of callbacks around the requests that the command line tool sends as well. GTK is not part of the
  sources: what its getters answer while a callback runs is the parameter \<open>toolkit\<close>, what a callback asks of it is
  the list \<open>screen\<close> of calls. A call that changes a widget may make GTK emit a signal before it returns (\<open>t_emits\<close>); the
  callback connected to it then runs nested, as in the program. Widgets are named by their identifiers in the builder file; the static
  pointer to a widget is non-null when its identifier is in \<open>bound\<close>.

  The window is built on the system's C library, of which the standard functions used here are modelled first. Numbers are read in the
  decimal notation; the other notations of \<^verbatim>\<open>atof\<close> are left out, and doubles are exact rationals.
\<close>

subsection \<open>Standard library\<close>

definition std_atoi :: "string \<Rightarrow> int" where
  "std_atoi s = s32 (l_val (strtol (dropWhile isspace s) 10))"

definition std_strtoul :: "string \<Rightarrow> nat \<Rightarrow> nat" where
  "std_strtoul s base =
     (let (neg, q) = strtol_sign (dropWhile isspace s);
          (b, p) = strtol_base base q;
          (r, overflow, rest) = strtol_digits b (2 ^ 64 - 1) 0 False p
      in if overflow then 2 ^ 64 - 1 else if neg then (2 ^ 64 - r) mod 2 ^ 64 else r)"

definition std_exponent :: "string \<Rightarrow> rat \<Rightarrow> rat" where
  "std_exponent s m =
     (let (neg, q) = strtol_sign (drop 1 s); e = dec_value (takeWhile is_digit q)
      in if take 1 s = ''e'' \<or> take 1 s = ''E'' then (if neg then m / 10 ^ e else m * 10 ^ e) else m)"

definition std_atof :: "string \<Rightarrow> rat" where
  "std_atof s =
     (let (neg, q) = strtol_sign (dropWhile isspace s);
          ip = takeWhile is_digit q;
          r = dropWhile is_digit q;
          fp = (if take 1 r = ''.'' then takeWhile is_digit (drop 1 r) else []);
          rest = (if take 1 r = ''.'' then dropWhile is_digit (drop 1 r) else r);
          v = std_exponent rest (of_nat (dec_value (ip @ fp)) / 10 ^ length fp)
      in if ip @ fp = [] then 0 else if neg then - v else v)"

text \<open>The conversion of a double to \<^verbatim>\<open>int\<close>.\<close>

definition int_of :: "rat \<Rightarrow> int" where
  "int_of r = s32 (if r < 0 then - \<lfloor>- r\<rfloor> else \<lfloor>r\<rfloor>)"

definition guint :: "int \<Rightarrow> nat" where
  "guint n = nat (n mod 2 ^ 32)"

subsection \<open>The toolkit\<close>

datatype gtk_call =
    SwitchSet string bool
  | DropSet string nat
  | RangeSet string rat
  | SpinSet string int
  | TextSet string string
  | LabelSet string string
  | MarkupSet string string
  | SensitiveSet string bool
  | VisibleSet string bool
  | NameSet string string
  | PageShow string
  | RowSelect string
  | RowAdd string string
  | CssAdd string string
  | CssRemove string string
  | GridRemove nat
  | CoreAdd string int int
  | CoreActive string
  | Connect string string string
  | Spawn "string list" "(string \<times> string) list"
  | Timeout int string
  | BuilderGet string
  | BuilderUnref
  | Emit string string
  | Gtk string "string list"

record toolkit =
  t_object :: "string \<Rightarrow> bool"                     \<comment> \<open>the builder knows the identifier\<close>
  t_switch :: "string \<Rightarrow> bool"
  t_selected :: "string \<Rightarrow> nat"
  t_value :: "string \<Rightarrow> rat"
  t_text :: "string \<Rightarrow> string"
  t_name :: "string \<Rightarrow> string option"
  t_label :: "string \<Rightarrow> string"
  t_page :: "string option"                       \<comment> \<open>the visible page\<close>
  t_rows :: "string option list"                  \<comment> \<open>the names of the rows of the sidebar\<close>
  t_cores :: "(string \<times> bool) option list"        \<comment> \<open>the children of the grid: label and state of the toggle buttons\<close>
  t_resource :: "string \<Rightarrow> string option + string" \<comment> \<open>an error, with its message, or the data\<close>
  t_emits :: "gtk_call \<Rightarrow> bool"
  t_reads :: nat                                  \<comment> \<open>the bound on the reads of the configuration file\<close>

text \<open>The callbacks connected to the change of a widget.\<close>

datatype change_handler =
    Cfg_dropdown_changed | Cfg_switch_changed | Cfg_switch_enabled | Cfg_scale_changed
  | Server_address_changed | Server_port_changed | Server_ssh_changed
  | Dev_enable_toggled | Advanced_enable_toggled

record 'w gui =
  prg :: "'w prog"
  bound :: "string list"
  connected :: "(string \<times> change_handler) list"
  config_dirty :: bool
  config_ignoring_changes :: bool
  g_selected_mode :: "string option"
  daemon_retry_cooldown :: int
  screen :: "gtk_call list"

type_synonym ('w, 'a) g = "('w gui, 'a) state"

definition run_prog :: "('w, 'a) m \<Rightarrow> ('w, 'a) g" where
  "run_prog p = State (\<lambda>u. case run_state p (prg u) of (x, s) \<Rightarrow> (x, u\<lparr>prg := s\<rparr>))"

definition gtk :: "gtk_call \<Rightarrow> ('w, unit) g" where
  "gtk c = modify (\<lambda>u. u\<lparr>screen := screen u @ [c]\<rparr>)"

definition when_bound :: "string \<Rightarrow> ('w, unit) g \<Rightarrow> ('w, unit) g" where
  "when_bound i m = do { b \<leftarrow> gets bound; if i \<in> set b then m else ret () }"

definition bind_widget :: "string \<Rightarrow> ('w, unit) g" where
  "bind_widget i = modify (\<lambda>u. u\<lparr>bound := i # bound u\<rparr>)"

subsection \<open>Settings\<close>

text \<open>
  The transport is that of the command line tool, with the stub of \<^verbatim>\<open>unit_active\<close> that the window is linked with: it answers 0.
\<close>

definition gui_connect_failed :: "'w env \<Rightarrow> ('w, unit) m" where
  "gui_connect_failed E = do {
     e \<leftarrow> gets errno;
     if e = EACCES then do {
       w \<leftarrow> gets warned_group;
       if w then ret ()
       else do { journal_warn E ERR_MISSING []; modify (\<lambda>s. s\<lparr>warned_group := True\<rparr>) }
     } else if e = ENOENT then ret ()
     else journal_error E ERR_IPC [AInt e]
   }"

definition gui_socket_send :: "'w env \<Rightarrow> string \<Rightarrow> nat \<Rightarrow> string \<Rightarrow> ('w, int \<times> string) m" where
  "gui_socket_send E cmd resp_len old = do {
     fd \<leftarrow> c_socket E AF_UNIX (SOCK_STREAM + SOCK_CLOEXEC) 0;
     if fd < 0 then do { ipc_error E; ret (ERR_IPC, old) }
     else do {
       cn \<leftarrow> c_connect E fd (fit 108 IPC_PATH);
       if cn < 0 then do { gui_connect_failed E; c_close E fd; ret (ERR_IPC, old) }
       else do {
         sn \<leftarrow> c_send E fd cmd MSG_NOSIGNAL;
         if sn < 0 then do { ipc_error E; c_close E fd; ret (ERR_IPC, old) }
         else if resp_len > 0 then do {
           nd \<leftarrow> c_read E fd (resp_len - 1);
           if fst nd > 0 then do { c_close E fd; ret (ERR_SUCCESS, cstr (snd nd)) }
           else if fst nd = 0 then do { journal_error E ERR_IPC [AInt (- 3)]; c_close E fd; ret (ERR_IPC, old) }
           else do { ipc_error E; c_close E fd; ret (ERR_IPC, old) }
         } else do {
           nd \<leftarrow> c_read E fd 15;
           if fst nd < 0 then do { ipc_error E; c_close E fd; ret (ERR_IPC, old) }
           else if fst nd = 0 \<or> strncmp (cstr (snd nd)) ''OK'' 2 \<noteq> 0
           then do { journal_error E ERR_IPC [AInt ERR_IPC]; c_close E fd; ret (ERR_IPC, old) }
           else do { c_close E fd; ret (ERR_SUCCESS, old) }
         }
       }
     }
   }"

text \<open>A request without a response buffer.\<close>

definition gui_cmd :: "'w env \<Rightarrow> string \<Rightarrow> ('w, int) g" where
  "gui_cmd E cmd = do { r \<leftarrow> run_prog (gui_socket_send E cmd 0 []); ret (fst r) }"

definition config_send :: "'w env \<Rightarrow> string \<Rightarrow> string \<Rightarrow> ('w, unit) g" where
  "config_send E key v = do {
     run_prog (gui_socket_send E (printf_sn E 256 ''SET_CONFIG %s %s'' [AStr key, AStr v]) 64 (garbage E));
     ret ()
   }"

text \<open>
  The fallback reads the file through \<^verbatim>\<open>fopen\<close> and \<^verbatim>\<open>fgets\<close>: blocks of 4096 bytes, of which a line of at most 511 bytes is taken at a
  time. \<open>conf_scan\<close> is the loop over the lines at hand: the value found, or what is left of the block. A file that has not ended after
  \<open>t_reads\<close> blocks is taken to end there.
\<close>

definition next_line :: "string \<Rightarrow> (string \<times> string) option" where
  "next_line buf =
     (let k = length (takeWhile (\<lambda>c. c \<noteq> NL) buf)
      in if k < 511 \<and> k < length buf then Some (take (Suc k) buf, drop (Suc k) buf)
         else if length buf < 511 then None
         else Some (take 511 buf, drop 511 buf))"

definition line_value :: "string \<Rightarrow> string \<Rightarrow> string option" where
  "line_value key line =
     (let l = cstr line
      in if take 1 l = ''#'' \<or> take 1 l = [NL] then None
         else if strncmp l key (length key) = 0 \<and> take 1 (drop (length key) l) = ''=''
         then (let v = drop (length key + 1) l in Some (fit 256 (take (strcspn v [CR, NL]) v)))
         else None)"

lemma next_line_shorter: "next_line buf = Some (line, rest) \<Longrightarrow> length rest < length buf"
  by (auto simp: next_line_def Let_def split: if_splits)

function conf_scan :: "string \<Rightarrow> string \<Rightarrow> string + string" where
  "conf_scan key buf =
     (case next_line buf of
        None \<Rightarrow> Inr buf
      | Some (line, rest) \<Rightarrow> (case line_value key line of Some v \<Rightarrow> Inl v | None \<Rightarrow> conf_scan key rest))"
  by pat_completeness auto
termination by (relation "measure (\<lambda>(key, buf). length buf)") (auto dest: next_line_shorter)

declare conf_scan.simps [simp del]

primrec conf_reads :: "'w env \<Rightarrow> nat \<Rightarrow> int \<Rightarrow> string \<Rightarrow> string \<Rightarrow> ('w, string) m" where
  "conf_reads E 0 fd key buf =
     ret (case conf_scan key buf of Inl v \<Rightarrow> v | Inr rest \<Rightarrow> (case line_value key rest of Some v \<Rightarrow> v | None \<Rightarrow> []))"
| "conf_reads E (Suc n) fd key buf =
     (case conf_scan key buf of
        Inl v \<Rightarrow> ret v
      | Inr rest \<Rightarrow> do {
          nd \<leftarrow> c_read E fd 4096;
          if fst nd > 0 then conf_reads E n fd key (rest @ snd nd)
          else ret (case line_value key rest of Some v \<Rightarrow> v | None \<Rightarrow> [])
        })"

definition gui_config_get :: "'w env \<Rightarrow> toolkit \<Rightarrow> string \<Rightarrow> ('w, string) g" where
  "gui_config_get E T key = run_prog (do {
     r \<leftarrow> gui_socket_send E (printf_sn E 128 ''GET_CONFIG %s'' [AStr key]) 256 [];
     if fst r = 0 \<and> snd r \<noteq> [] \<and> strcmp (snd r) ''ERR'' \<noteq> 0 then ret (fit 256 (snd r))
     else do {
       fd \<leftarrow> c_open E (CONFIG_PATH E) O_RDONLY 438;
       if fd < 0 then ret []
       else do {
         v \<leftarrow> conf_reads E (t_reads T) fd key [];
         c_close E fd;
         ret v
       }
     }
   })"

subsection \<open>The grid of cores\<close>

text \<open>One entry of a mask, a number or a range, and the loop over the entries between commas.\<close>

definition entry_has :: "int \<Rightarrow> string \<Rightarrow> bool" where
  "entry_has core p =
     (case strchr p (CHR ''-'') of
        Some h \<Rightarrow> std_atoi p \<le> core \<and> core \<le> std_atoi (drop (Suc h) p)
      | None \<Rightarrow> std_atoi p = core)"

lemma strchr_less: "strchr p c = Some k \<Longrightarrow> c \<noteq> NUL \<Longrightarrow> k < length p"
  by (induction p arbitrary: k) (auto split: if_splits)

function entries_have :: "int \<Rightarrow> string \<Rightarrow> bool" where
  "entries_have core p =
     (if p = [] then False
      else case strchr p (CHR '','') of
             None \<Rightarrow> entry_has core p
           | Some k \<Rightarrow> entry_has core (take k p) \<or> entries_have core (drop (Suc k) p))"
  by pat_completeness auto
termination by (relation "measure (\<lambda>(core, p). length p)") (auto dest!: strchr_less)

declare entries_have.simps [simp del]

definition is_core_in_mask :: "int \<Rightarrow> string \<Rightarrow> bool" where
  "is_core_in_mask core msk = entries_have core (fit 256 msk)"

definition show_core :: "'w env \<Rightarrow> string \<Rightarrow> nat \<Rightarrow> ('w, unit) g" where
  "show_core E msk i = do {
     let label = printf_sn E 8 ''%d'' [AInt (int i)];
     gtk (CoreAdd label (int i mod 8) (int i div 8));
     (if is_core_in_mask (int i) msk then do { gtk (CoreActive label); gtk (CssAdd label ''x3d-accent'') } else ret ());
     gtk (Connect label ''toggled'' ''on_core_toggled'')
   }"

text \<open>The saved mask is copied over the discovered one, at most 127 characters of it.\<close>

definition refresh_topology :: "'w env \<Rightarrow> toolkit \<Rightarrow> ('w, unit) g" where
  "refresh_topology E T =
     when_bound ''grid_topology''
       (case ccd_result E of
          None \<Rightarrow> ret ()
        | Some (hw_mask, ccd1_start, total_cores) \<Rightarrow> do {
            saved \<leftarrow> gui_config_get E T ''AFFINITY_MASK'';
            let msk = (if saved \<noteq> [] \<and> strcmp saved ''none'' \<noteq> 0 then take 127 saved else hw_mask);
            forM [0..<length (t_cores T)] (\<lambda>i. gtk (GridRemove i));
            forM [0..<nat total_cores] (show_core E msk)
          })"

definition on_nav_row_selected :: "'w env \<Rightarrow> toolkit \<Rightarrow> string option \<Rightarrow> ('w, unit) g" where
  "on_nav_row_selected E T sel =
     (case sel of
        None \<Rightarrow> ret ()
      | Some i \<Rightarrow> do { gtk (PageShow i); if strcmp i ''affinity'' = 0 then refresh_topology E T else ret () })"

subsection \<open>Widgets that change\<close>

definition set_config_dirty :: "bool \<Rightarrow> ('w, unit) g" where
  "set_config_dirty d = do {
     modify (\<lambda>u. u\<lparr>config_dirty := d\<rparr>);
     when_bound ''btn_cfg_apply'' (gtk (SensitiveSet ''btn_cfg_apply'' d));
     when_bound ''btn_cfg_cancel'' (gtk (SensitiveSet ''btn_cfg_cancel'' d))
   }"

text \<open>The body that the callbacks of plain settings share.\<close>

definition on_setting_changed :: "('w, unit) g" where
  "on_setting_changed = do {
     ignoring \<leftarrow> gets config_ignoring_changes;
     if ignoring then ret () else set_config_dirty True
   }"

definition find_sidebar_row :: "toolkit \<Rightarrow> string \<Rightarrow> bool" where
  "find_sidebar_row T name = list_ex (\<lambda>r. case r of Some n \<Rightarrow> strcmp n name = 0 | None \<Rightarrow> False) (t_rows T)"

text \<open>Selecting a row makes the sidebar emit its signal, whose callback shows the page.\<close>

definition choose_row :: "'w env \<Rightarrow> toolkit \<Rightarrow> string \<Rightarrow> ('w, unit) g" where
  "choose_row E T name = do {
     gtk (RowSelect name);
     if t_emits T (RowSelect name) then on_nav_row_selected E T (Some name) else ret ()
   }"

definition select_row :: "'w env \<Rightarrow> toolkit \<Rightarrow> string \<Rightarrow> ('w, unit) g" where
  "select_row E T name =
     when_bound ''sidebar_list'' (if find_sidebar_row T name then choose_row E T name else ret ())"

definition leave_page :: "'w env \<Rightarrow> toolkit \<Rightarrow> string list \<Rightarrow> ('w, unit) g" where
  "leave_page E T pages =
     when_bound ''content_stack''
       (case t_page T of
          None \<Rightarrow> ret ()
        | Some vis \<Rightarrow>
            if list_ex (\<lambda>p. strcmp vis p = 0) pages
            then do { gtk (PageShow ''configuration''); select_row E T ''configuration'' }
            else ret ())"

definition on_advanced_enable_toggled :: "'w env \<Rightarrow> toolkit \<Rightarrow> bool \<Rightarrow> ('w, unit) g" where
  "on_advanced_enable_toggled E T active = do {
     config_send E ''ADVANCED_CONFIG_ENABLE'' (if active then ''1'' else ''0'');
     gtk (VisibleSet ''row_advanced'' active);
     if \<not> active then leave_page E T [''advanced''] else ret ()
   }"

definition on_dev_enable_toggled :: "'w env \<Rightarrow> toolkit \<Rightarrow> bool \<Rightarrow> ('w, unit) g" where
  "on_dev_enable_toggled E T active = do {
     config_send E ''DEV_ENABLE'' (if active then ''1'' else ''0'');
     gtk (VisibleSet ''row_developer'' active);
     gtk (VisibleSet ''row_debug'' active);
     if \<not> active then leave_page E T [''developer'', ''debug''] else ret ()
   }"

text \<open>What a signal of a widget runs: the callbacks connected to it, with the state of the switch.\<close>

definition run_change :: "'w env \<Rightarrow> toolkit \<Rightarrow> bool \<Rightarrow> change_handler \<Rightarrow> ('w, unit) g" where
  "run_change E T active h =
     (case h of
        Dev_enable_toggled \<Rightarrow> on_dev_enable_toggled E T active
      | Advanced_enable_toggled \<Rightarrow> on_advanced_enable_toggled E T active
      | _ \<Rightarrow> on_setting_changed)"

definition changed :: "'w env \<Rightarrow> toolkit \<Rightarrow> string \<Rightarrow> bool \<Rightarrow> ('w, unit) g" where
  "changed E T i active = do {
     hs \<leftarrow> gets connected;
     forM (map snd (filter (\<lambda>p. fst p = i) hs)) (run_change E T active)
   }"

definition emit :: "'w env \<Rightarrow> toolkit \<Rightarrow> gtk_call \<Rightarrow> string \<Rightarrow> bool \<Rightarrow> ('w, unit) g" where
  "emit E T c i active = do { gtk c; if t_emits T c then changed E T i active else ret () }"

definition set_switch :: "'w env \<Rightarrow> toolkit \<Rightarrow> string \<Rightarrow> bool \<Rightarrow> ('w, unit) g" where
  "set_switch E T i v = emit E T (SwitchSet i v) i v"

definition set_drop :: "'w env \<Rightarrow> toolkit \<Rightarrow> string \<Rightarrow> nat \<Rightarrow> ('w, unit) g" where
  "set_drop E T i n = emit E T (DropSet i n) i False"

definition set_range :: "'w env \<Rightarrow> toolkit \<Rightarrow> string \<Rightarrow> rat \<Rightarrow> ('w, unit) g" where
  "set_range E T i r = emit E T (RangeSet i r) i False"

definition set_spin :: "'w env \<Rightarrow> toolkit \<Rightarrow> string \<Rightarrow> int \<Rightarrow> ('w, unit) g" where
  "set_spin E T i n = emit E T (SpinSet i n) i False"

definition set_text :: "'w env \<Rightarrow> toolkit \<Rightarrow> string \<Rightarrow> string \<Rightarrow> ('w, unit) g" where
  "set_text E T i v = emit E T (TextSet i v) i False"

definition connect :: "string \<Rightarrow> change_handler \<Rightarrow> ('w, unit) g" where
  "connect i h = modify (\<lambda>u. u\<lparr>connected := connected u @ [(i, h)]\<rparr>)"

subsection \<open>Starting programs\<close>

text \<open>The environment of the child: its settings of the form \<^verbatim>\<open>KEY=VALUE\<close> override those of the window.\<close>

definition env_pair :: "string \<Rightarrow> (string \<times> string) option" where
  "env_pair e = (case strchr e (CHR ''='') of Some k \<Rightarrow> Some (take k e, drop (Suc k) e) | None \<Rightarrow> None)"

definition gui_spawn :: "string list \<Rightarrow> string list \<Rightarrow> ('w, unit) g" where
  "gui_spawn args env = gtk (Spawn args (List.map_filter env_pair env))"

definition in_terminal :: "string \<Rightarrow> string list" where
  "in_terminal cmd =
     [''/bin/sh'', ''-c'',
      ''kgx -e '' @ [CHR 0x27] @ cmd @ [CHR 0x27] @ '' || gnome-terminal -- '' @ cmd @ '' || konsole -e '' @ cmd @ '' || xterm -e '' @ cmd]"

definition reset_btn_lbl :: "string \<Rightarrow> string \<Rightarrow> ('w, unit) g" where
  "reset_btn_lbl btn orig = do { gtk (LabelSet btn orig); gtk (SensitiveSet btn True) }"

definition btn_feedback :: "toolkit \<Rightarrow> string \<Rightarrow> ('w, unit) g" where
  "btn_feedback T btn = do {
     let orig = t_label T btn;
     gtk (LabelSet btn ''Done!'');
     gtk (SensitiveSet btn False);
     gtk (Timeout 1500 orig)
   }"

definition on_btn_launch_debug_clicked :: "('w, unit) g" where
  "on_btn_launch_debug_clicked =
     gui_spawn (in_terminal ''pkexec /usr/lib/x3d-toggle/scripts/tools/debug.sh'') [''X3D_EXEC=1'']"

definition on_btn_analyze_coredump_clicked :: "('w, unit) g" where
  "on_btn_analyze_coredump_clicked =
     gui_spawn (in_terminal ''/usr/lib/x3d-toggle/scripts/tools/coredump.sh'') [''X3D_EXEC=1'']"

definition on_btn_lint_clang_clicked :: "('w, unit) g" where
  "on_btn_lint_clang_clicked =
     gui_spawn (in_terminal ''/usr/lib/x3d-toggle/scripts/tools/linter.sh clang'') [''X3D_EXEC=1'']"

definition on_btn_lint_cppcheck_clicked :: "('w, unit) g" where
  "on_btn_lint_cppcheck_clicked =
     gui_spawn (in_terminal ''/usr/lib/x3d-toggle/scripts/tools/linter.sh cppc'') [''X3D_EXEC=1'']"

definition on_btn_lint_valgrind_clicked :: "('w, unit) g" where
  "on_btn_lint_valgrind_clicked =
     gui_spawn (in_terminal ''/usr/lib/x3d-toggle/scripts/tools/linter.sh valgrind'') [''X3D_EXEC=1'']"

definition on_btn_archive_journal_clicked :: "toolkit \<Rightarrow> string \<Rightarrow> ('w, unit) g" where
  "on_btn_archive_journal_clicked T btn = do {
     gui_spawn [''/bin/sh'', ''/usr/lib/x3d-toggle/scripts/tools/archive.sh''] [''X3D_EXEC=1''];
     btn_feedback T btn
   }"

definition on_btn_rotate_journal_clicked :: "toolkit \<Rightarrow> string \<Rightarrow> ('w, unit) g" where
  "on_btn_rotate_journal_clicked T btn = do {
     gui_spawn [''/bin/sh'', ''/usr/lib/x3d-toggle/scripts/tools/rotate.sh'', ''--all''] [''X3D_EXEC=1''];
     btn_feedback T btn
   }"

definition on_irq_status_clicked :: "('w, unit) g" where
  "on_irq_status_clicked = gui_spawn (in_terminal ''watch -n1 x3d-toggle irq-status'') []"

subsection \<open>The page of modes\<close>

definition mode_ids :: "string list" where
  "mode_ids = [''cache'', ''frequency'', ''dual'', ''default'', ''reset'']"

definition on_mode_card_clicked :: "toolkit \<Rightarrow> string \<Rightarrow> ('w, unit) g" where
  "on_mode_card_clicked T m = do {
     modify (\<lambda>u. u\<lparr>g_selected_mode := Some m\<rparr>);
     forM (map (\<lambda>i. ''mode_card_'' @ i) mode_ids) (\<lambda>card.
       when_bound card
         (case t_name T card of
            Some name \<Rightarrow> if strstr name m \<noteq> None then gtk (CssAdd card ''selected'') else gtk (CssRemove card ''selected'')
          | None \<Rightarrow> gtk (CssRemove card ''selected'')))
   }"

definition back_to_dashboard :: "'w env \<Rightarrow> toolkit \<Rightarrow> ('w, unit) g" where
  "back_to_dashboard E T = do {
     when_bound ''content_stack'' (gtk (PageShow ''dashboard''));
     select_row E T ''dashboard''
   }"

definition lifecycle_requests :: "nat \<Rightarrow> string list" where
  "lifecycle_requests idx =
     (if idx = 1 then [''CONFIG_SYNC'', ''SET_DAEMON default'', ''SET_MODE frequency'']
      else if idx = 2 then [''SET_DAEMON manual'']
      else if idx = 3 then [''DAEMON_DISABLE'']
      else [])"

definition on_mode_apply_clicked :: "'w env \<Rightarrow> toolkit \<Rightarrow> ('w, unit) g" where
  "on_mode_apply_clicked E T = do {
     sel \<leftarrow> gets g_selected_mode;
     (case sel of Some m \<Rightarrow> gui_spawn [''/usr/bin/x3d-toggle'', m] [] | None \<Rightarrow> ret ());
     when_bound ''lifecycle_dropdown''
       (forM (lifecycle_requests (t_selected T ''lifecycle_dropdown'')) (\<lambda>cmd. do { gui_cmd E cmd; ret () }));
     back_to_dashboard E T
   }"

definition on_mode_cancel_clicked :: "'w env \<Rightarrow> toolkit \<Rightarrow> ('w, unit) g" where
  "on_mode_cancel_clicked E T = back_to_dashboard E T"

definition add_nav_row :: "string \<Rightarrow> string \<Rightarrow> ('w, unit) g" where
  "add_nav_row i title = gtk (RowAdd i title)"

subsection \<open>The page of cores\<close>

definition on_core_toggled :: "'w env \<Rightarrow> toolkit \<Rightarrow> string \<Rightarrow> ('w, unit) g" where
  "on_core_toggled E T btn = do {
     when_bound ''cfg_affinity_level'' (set_drop E T ''cfg_affinity_level'' 2);
     if t_switch T btn then gtk (CssAdd btn ''x3d-accent'') else gtk (CssRemove btn ''x3d-accent'')
   }"

text \<open>Appending one core to a mask of 256 bytes.\<close>

definition mask_append :: "'w env \<Rightarrow> string \<Rightarrow> string \<Rightarrow> string" where
  "mask_append E core msk =
     msk @ printf_sn E (256 - length msk) ''%s%s'' [AStr (if msk = [] then [] else '',''), AStr core]"

definition mask_append_int :: "'w env \<Rightarrow> int \<Rightarrow> string \<Rightarrow> string" where
  "mask_append_int E i msk =
     msk @ printf_sn E (256 - length msk) ''%s%d'' [AStr (if msk = [] then [] else '',''), AInt i]"

definition die_masks :: "'w env \<Rightarrow> string \<times> string" where
  "die_masks E =
     (case ccd_result E of
        None \<Rightarrow> ([], [])
      | Some (hw_mask, ccd1_start, total_cores) \<Rightarrow>
          if ccd1_start > 0
          then fold (\<lambda>i (c, f). if int i < ccd1_start then (mask_append_int E (int i) c, f) else (c, mask_append_int E (int i) f))
                 [0..<nat total_cores] ([], [])
          else ([], []))"

definition button_masks :: "'w env \<Rightarrow> toolkit \<Rightarrow> string \<times> string" where
  "button_masks E T =
     fold (\<lambda>child (c, f). case child of
             None \<Rightarrow> (c, f)
           | Some (label, active) \<Rightarrow> if active then (mask_append E label c, f) else (c, mask_append E label f))
       (t_cores T) ([], [])"

definition affinity_masks :: "'w env \<Rightarrow> toolkit \<Rightarrow> nat \<Rightarrow> string \<times> string" where
  "affinity_masks E T level =
     (if level = 0 then (''none'', ''none'') else if level = 1 then die_masks E else button_masks E T)"

definition on_affinity_apply_clicked :: "'w env \<Rightarrow> toolkit \<Rightarrow> ('w, unit) g" where
  "on_affinity_apply_clicked E T = when_bound ''grid_topology'' (do {
     b \<leftarrow> gets bound;
     let level = (if ''cfg_affinity_level'' \<in> set b then t_selected T ''cfg_affinity_level'' else 2);
     let (cache_mask, freq_mask) = affinity_masks E T level;
     let cmd = printf_sn E 512 ''SET_AFFINITY_CONFIG %s %s''
       [AStr (if cache_mask \<noteq> [] then cache_mask else ''none''), AStr (if freq_mask \<noteq> [] then freq_mask else ''none'')];
     r \<leftarrow> gui_cmd E cmd;
     dbg \<leftarrow> gui_config_get E T ''DEBUG_ENABLE'';
     (if std_atoi dbg \<noteq> 0
      then run_prog (journal_debug E ''GUI: Sent affinity config: %s (result=%d)'' [AStr cmd, AInt r])
      else ret ());
     when_bound ''lbl_status_daemon'' (gtk (LabelSet ''lbl_status_daemon'' ''Affinity Settings Applied''));
     config_send E ''AFFINITY_MASK'' cache_mask;
     config_send E ''AFFINITY_FREQ_MASK'' freq_mask;
     config_send E ''AFFINITY_LEVEL'' (printf_sn E 4 ''%u'' [AUInt level])
   })"

definition on_affinity_cancel_clicked :: "'w env \<Rightarrow> toolkit \<Rightarrow> ('w, unit) g" where
  "on_affinity_cancel_clicked E T = do {
     when_bound ''cfg_affinity_level'' (do {
       v \<leftarrow> gui_config_get E T ''AFFINITY_LEVEL'';
       set_drop E T ''cfg_affinity_level'' (guint (std_atoi v))
     });
     refresh_topology E T
   }"

subsection \<open>The dashboard\<close>

definition gui_status_sysfs :: "'w env \<Rightarrow> string \<Rightarrow> nat \<Rightarrow> ('w, string) m" where
  "gui_status_sysfs E path max_len = do {
     fd \<leftarrow> c_open E path O_RDONLY 0;
     if fd < 0 then ret (fit max_len ''N/A'')
     else do {
       nd \<leftarrow> c_read E fd (max_len - 1);
       c_close E fd;
       ret (if fst nd > 0 then takeWhile (\<lambda>c. c \<noteq> NL \<and> c \<noteq> CR) (cstr (snd nd)) else fit max_len ''N/A'')
     }
   }"

text \<open>What the window makes of the reply to \<^verbatim>\<open>DAEMON_INFO\<close>.\<close>

record dash =
  da_state :: string
  da_ebpf :: string
  da_sched :: string
  da_override :: int
  da_affinity :: bool

definition dash_offline :: dash where
  "dash_offline = \<lparr>da_state = ''STOPPED'', da_ebpf = ''INACTIVE'', da_sched = ''INACTIVE (MANUAL OVERRIDE)'',
     da_override = 0, da_affinity = False\<rparr>"

definition dash_live :: "string \<Rightarrow> dash" where
  "dash_live info =
     (let st = status_upper (case strstr info ''STATE='' of
                 None \<Rightarrow> ''STOPPED'' | Some k \<Rightarrow> cut_state (fit 64 (drop (k + 6) info)));
          ebpf = (case strstr info ''BPF_ACTIVE='' of
                    None \<Rightarrow> ''INACTIVE''
                  | Some k \<Rightarrow> if std_atoi (drop (k + 11) info) \<noteq> 0 then ''HEALTHY'' else ''POLLING (FALLBACK)'');
          (s, e, m) = (if strcmp st ''DEFAULT'' = 0 then (''ACTIVE'', ebpf, ''ACTIVE'')
                       else if strcmp st ''HARD_RESET'' = 0 \<or> strcmp st ''AUTO'' = 0
                       then (''CPPC NATIVE'', ebpf, ''INACTIVE (MANUAL OVERRIDE)'')
                       else (''SUSPENDED'', ''INACTIVE (MANUAL OVERRIDE)'', ''INACTIVE (MANUAL OVERRIDE)''))
      in \<lparr>da_state = s, da_ebpf = e, da_sched = m,
          da_override = (case strstr info ''OVERRIDE='' of None \<Rightarrow> 0 | Some k \<Rightarrow> std_atoi (drop (k + 9) info)),
          da_affinity = (case strstr info ''MASK='' of None \<Rightarrow> False | Some k \<Rightarrow> strncmp (drop (k + 5) info) ''none'' 4 \<noteq> 0)\<rparr>)"

definition cap_rows :: "(string \<times> 64 word) list" where
  "cap_rows =
     [(''row_sched_bore'', CAP_BORE), (''row_sched_bit_shift'', CAP_BORE), (''row_sched_burst_fork'', CAP_BORE),
      (''row_split_lock'', CAP_SPLIT_LOCK), (''row_nmi_watchdog'', CAP_NMI_WATCHDOG), (''row_thp_mode'', CAP_THP)]"

definition info_caps :: "string \<Rightarrow> 64 word option" where
  "info_caps info =
     (case strstr info ''CAPS='' of
        None \<Rightarrow> None
      | Some k \<Rightarrow> Some (of_nat (std_strtoul (drop (k + 5) info) 16 mod 2 ^ 32)))"

definition show_caps :: "toolkit \<Rightarrow> string \<Rightarrow> ('w, unit) g" where
  "show_caps T info =
     (case info_caps info of
        None \<Rightarrow> ret ()
      | Some caps \<Rightarrow> do {
          b \<leftarrow> gets bound;
          let force = ''cfg_force_unsupported'' \<in> set b \<and> t_switch T ''cfg_force_unsupported'';
          forM cap_rows (\<lambda>(i, cap). when_bound i (gtk (VisibleSet i (force \<or> and caps cap \<noteq> 0))))
        })"

text \<open>An attempt to revive the daemon, and ten polls without one.\<close>

definition revive_daemon :: "('w, unit) g" where
  "revive_daemon = do {
     c \<leftarrow> gets daemon_retry_cooldown;
     if c \<le> 0 then do {
       modify (\<lambda>u. u\<lparr>daemon_retry_cooldown := 10\<rparr>);
       gtk (Spawn [''/usr/bin/systemctl'', ''start'', ''x3d-toggle.service''] [])
     } else modify (\<lambda>u. u\<lparr>daemon_retry_cooldown := c - 1\<rparr>)
   }"

definition core_online :: "'w env \<Rightarrow> int \<Rightarrow> ('w, string) m" where
  "core_online E core = do {
     fd \<leftarrow> c_open E (printf_sn E 256 ''/sys/devices/system/cpu/cpu%d/online'' [AInt core]) O_RDONLY 0;
     if fd < 0 then ret ''ONLINE''
     else do {
       nd \<leftarrow> c_read E fd 7;
       c_close E fd;
       ret (if fst nd > 0 \<and> take 1 (snd nd) = ''0'' then ''PARKED'' else ''ONLINE'')
     }
   }"

definition gui_ccd_state :: "bool \<Rightarrow> string \<Rightarrow> int \<Rightarrow> string" where
  "gui_ccd_state affinity ccd1_st override =
     (if affinity then ''AFFINITY PINNED''
      else if strcmp ccd1_st ''ONLINE'' = 0 then (if override = 4 then ''INVERTED'' else ''FULL THROUGHPUT'')
      else ''CCD ISOLATED'')"

definition display_daemon :: "'w env \<Rightarrow> dash \<Rightarrow> string \<Rightarrow> string" where
  "display_daemon E d ipc_status = printf_sn E 512
     (''<span font_family='' @ [CHR 0x22] @ ''monospace'' @ [CHR 0x22] @ ''>'' @
      ''  <b>Daemon Status:</b>  %s'' @ [NL] @ ''  <b>IPC Status:</b>     %s'' @ [NL] @
      ''  <b>eBPF Health:</b>    %s'' @ [NL] @ ''  <b>Scheduler Mode:</b> %s'' @ [NL] @ ''</span>'')
     [AStr (da_state d), AStr ipc_status, AStr (da_ebpf d), AStr (da_sched d)]"

definition display_hardware :: "'w env \<Rightarrow> string \<Rightarrow> string \<Rightarrow> string \<Rightarrow> string \<Rightarrow> string \<Rightarrow> string" where
  "display_hardware E mode_str boost_str ccd_state ccd0_st ccd1_st = printf_sn E 512
     (''<span font_family='' @ [CHR 0x22] @ ''monospace'' @ [CHR 0x22] @ ''>'' @
      ''  <b>v-Cache Mode:</b>   %s'' @ [NL] @ ''  <b>Boost Mode:</b>     %s'' @ [NL] @ ''  <b>CCD State:</b>      %s'' @ [NL] @
      ''  <b>CCD0 Status:</b>    %s'' @ [NL] @ ''  <b>CCD1 Status:</b>    %s'' @ [NL] @ ''</span>'')
     [AStr mode_str, AStr boost_str, AStr ccd_state, AStr ccd0_st, AStr ccd1_st]"

definition display_system :: "'w env \<Rightarrow> string \<Rightarrow> string \<Rightarrow> string \<Rightarrow> string \<Rightarrow> string \<Rightarrow> string" where
  "display_system E d_buff epp gov smt plat = printf_sn E 512
     (''<span font_family='' @ [CHR 0x22] @ ''monospace'' @ [CHR 0x22] @ ''>'' @
      ''  <b>Driver Mode:</b>    %s'' @ [NL] @ ''  <b>EPP Profile:</b>    %s'' @ [NL] @ ''  <b>Governor:</b>       %s'' @ [NL] @
      ''  <b>SMT Status:</b>     %s'' @ [NL] @ ''  <b>Platform:</b>       %s'' @ [NL] @ ''</span>'')
     [AStr d_buff, AStr epp, AStr gov, AStr smt, AStr plat]"

definition show_dashboard :: "'w env \<Rightarrow> toolkit \<Rightarrow> ('w, unit) g" where
  "show_dashboard E T = do {
     r \<leftarrow> run_prog (gui_socket_send E ''DAEMON_INFO'' 128 []);
     let socket_ok = (fst r = 0);
     (if socket_ok then modify (\<lambda>u. u\<lparr>daemon_retry_cooldown := 0\<rparr>) else revive_daemon);
     let d = (if socket_ok then dash_live (snd r) else dash_offline);
     (if socket_ok then show_caps T (snd r) else ret ());
     md \<leftarrow> (if socket_ok then run_prog (gui_socket_send E ''MODE'' 16 ''N/A'') else ret (ERR_IPC, ''N/A''));
     let mode_str = (if socket_ok \<and> fst md = 0 then status_upper (snd md) else snd md);
     ccd0_st \<leftarrow> run_prog (core_online E 0);
     ccd1_st \<leftarrow> run_prog (core_online E (CCD1_START E));
     d_buff \<leftarrow> run_prog (gui_status_sysfs E ''/sys/devices/system/cpu/amd_pstate/status'' 64);
     epp \<leftarrow> run_prog (gui_status_sysfs E ''/sys/devices/system/cpu/cpu0/cpufreq/energy_performance_preference'' 64);
     gov \<leftarrow> run_prog (gui_status_sysfs E ''/sys/devices/system/cpu/cpu0/cpufreq/scaling_governor'' 64);
     smt \<leftarrow> run_prog (gui_status_sysfs E ''/sys/devices/system/cpu/smt/control'' 64);
     plat \<leftarrow> run_prog (gui_status_sysfs E ''/sys/firmware/acpi/platform_profile'' 64);
     bst_raw \<leftarrow> run_prog (gui_status_sysfs E ''/sys/devices/system/cpu/cpufreq/boost'' 64);
     gtk (MarkupSet ''lbl_status_daemon''
       (display_daemon E d (if socket_ok then ''SOCKET ONLINE'' else ''SOCKET OFFLINE'')));
     gtk (MarkupSet ''lbl_status_hardware''
       (display_hardware E mode_str (if strcmp bst_raw ''1'' = 0 then ''ENABLED'' else ''DISABLED'')
          (gui_ccd_state (da_affinity d) ccd1_st (da_override d)) ccd0_st ccd1_st));
     gtk (MarkupSet ''lbl_status_system''
       (display_system E (status_upper d_buff) (status_upper epp) (status_upper gov) (status_upper smt) (status_upper plat)))
   }"

definition update_dashboard_cb :: "'w env \<Rightarrow> toolkit \<Rightarrow> ('w, unit) g" where
  "update_dashboard_cb E T =
     when_bound ''lbl_status_daemon'' (when_bound ''lbl_status_hardware'' (when_bound ''lbl_status_system'' (show_dashboard E T)))"

end
