(* ===== verification/Gui_Settings.thy ===== *)
theory Gui_Settings
  imports Gui
begin

section \<open>The settings of the window, and its start (src/gtk4/gui.c)\<close>

text \<open>
  The pages of settings: applying sends the values of the widgets as \<^verbatim>\<open>SET_CONFIG\<close> requests, cancelling reads them back, and
  \<^verbatim>\<open>config_bind\<close> connects the widgets and fills them. \<^verbatim>\<open>on_app_activate\<close> builds the window.

  An index of a drop-down list is an offset into a table of texts; outside of the table, where the program reads beyond it, the text is arbitrary.
\<close>

subsection \<open>Tables\<close>

definition daemon_state_vals :: "string list" where "daemon_state_vals = [''default'', ''auto'', ''manual'']"
definition fallback_vals :: "string list" where "fallback_vals = [''default'', ''cache'', ''frequency'']"
definition valgrind_mode_vals :: "string list" where "valgrind_mode_vals = [''full'', ''summary'', ''disabled'']"
definition valgrind_kinds_vals :: "string list" where
  "valgrind_kinds_vals = [''all'', ''definite'', ''indirect'', ''possible'', ''reachable'']"
definition journal_max_mb_vals :: "string list" where "journal_max_mb_vals = [''5'', ''10'', ''25'', ''50'', ''100'']"
definition server_ssh_vals :: "string list" where "server_ssh_vals = [''local'', ''remote'', ''enabled'']"
definition thp_modes :: "string list" where "thp_modes = [''always'', ''madvise'', ''never'']"

definition find_dropdown_idx :: "string list \<Rightarrow> string \<Rightarrow> nat" where
  "find_dropdown_idx vals target =
     (case find (\<lambda>i. strcmp (vals ! i) target = 0) [0..<length vals] of Some i \<Rightarrow> i | None \<Rightarrow> 0)"

definition table_text :: "'w env \<Rightarrow> string list \<Rightarrow> nat \<Rightarrow> string" where
  "table_text E vals n = (if n < length vals then vals ! n else garbage E)"

subsection \<open>Sending and restoring one widget\<close>

definition flag :: "bool \<Rightarrow> string" where "flag b = (if b then ''1'' else ''0'')"

definition send_switch :: "'w env \<Rightarrow> toolkit \<Rightarrow> string \<Rightarrow> string \<Rightarrow> ('w, unit) g" where
  "send_switch E T i key = when_bound i (config_send E key (flag (t_switch T i)))"

definition send_number :: "'w env \<Rightarrow> toolkit \<Rightarrow> string \<Rightarrow> string \<Rightarrow> ('w, unit) g" where
  "send_number E T i key = when_bound i (config_send E key (printf_sn E 16 ''%d'' [AInt (int_of (t_value T i))]))"

definition send_text :: "'w env \<Rightarrow> toolkit \<Rightarrow> string \<Rightarrow> string \<Rightarrow> ('w, unit) g" where
  "send_text E T i key = when_bound i (config_send E key (t_text T i))"

definition send_choice :: "'w env \<Rightarrow> toolkit \<Rightarrow> string \<Rightarrow> string \<Rightarrow> string list \<Rightarrow> ('w, unit) g" where
  "send_choice E T i key vals = when_bound i (config_send E key (table_text E vals (t_selected T i)))"

definition restore_switch :: "'w env \<Rightarrow> toolkit \<Rightarrow> string \<Rightarrow> string \<Rightarrow> ('w, unit) g" where
  "restore_switch E T i key = when_bound i (do { v \<leftarrow> gui_config_get E T key; set_switch E T i (std_atoi v \<noteq> 0) })"

definition restore_spin :: "'w env \<Rightarrow> toolkit \<Rightarrow> string \<Rightarrow> string \<Rightarrow> ('w, unit) g" where
  "restore_spin E T i key = when_bound i (do { v \<leftarrow> gui_config_get E T key; set_spin E T i (std_atoi v) })"

definition restore_range :: "'w env \<Rightarrow> toolkit \<Rightarrow> string \<Rightarrow> string \<Rightarrow> ('w, unit) g" where
  "restore_range E T i key = when_bound i (do { v \<leftarrow> gui_config_get E T key; set_range E T i (std_atof v) })"

definition restore_text :: "'w env \<Rightarrow> toolkit \<Rightarrow> string \<Rightarrow> string \<Rightarrow> ('w, unit) g" where
  "restore_text E T i key = when_bound i (do { v \<leftarrow> gui_config_get E T key; set_text E T i v })"

definition restore_choice :: "'w env \<Rightarrow> toolkit \<Rightarrow> string \<Rightarrow> string \<Rightarrow> string list \<Rightarrow> ('w, unit) g" where
  "restore_choice E T i key vals =
     when_bound i (do { v \<leftarrow> gui_config_get E T key; set_drop E T i (find_dropdown_idx vals v) })"

text \<open>The address and the port of the server are only shown when there is a value.\<close>

definition usable :: "string \<Rightarrow> bool" where
  "usable v \<longleftrightarrow> v \<noteq> [] \<and> strcmp v ''ERR'' \<noteq> 0"

definition restore_server :: "'w env \<Rightarrow> toolkit \<Rightarrow> string \<Rightarrow> string \<Rightarrow> ('w, unit) g" where
  "restore_server E T i key =
     when_bound i (do { v \<leftarrow> gui_config_get E T key; if usable v then set_text E T i v else ret () })"

definition ignoring_changes :: "('w, unit) g \<Rightarrow> ('w, unit) g" where
  "ignoring_changes m = do {
     modify (\<lambda>u. u\<lparr>config_ignoring_changes := True\<rparr>);
     m;
     modify (\<lambda>u. u\<lparr>config_ignoring_changes := False\<rparr>)
   }"

subsection \<open>Rotation, interrupts, advanced settings and network\<close>

definition on_rotation_apply_clicked :: "'w env \<Rightarrow> toolkit \<Rightarrow> ('w, unit) g" where
  "on_rotation_apply_clicked E T = do {
     send_number E T ''cfg_journal_keep'' ''JOURNAL_KEEP'';
     when_bound ''cfg_journal_max_mb''
       (let idx = t_selected T ''cfg_journal_max_mb''
        in if idx < length journal_max_mb_vals
           then config_send E ''JOURNAL_MAX_MB'' (printf_sn E 16 ''%s'' [AStr (journal_max_mb_vals ! idx)])
           else ret ())
   }"

definition restore_keep :: "'w env \<Rightarrow> toolkit \<Rightarrow> ('w, unit) g" where
  "restore_keep E T = when_bound ''cfg_journal_keep'' (do {
     v \<leftarrow> gui_config_get E T ''JOURNAL_KEEP'';
     if v \<noteq> [] then set_spin E T ''cfg_journal_keep'' (std_atoi v) else ret ()
   })"

definition on_rotation_cancel_clicked :: "'w env \<Rightarrow> toolkit \<Rightarrow> ('w, unit) g" where
  "on_rotation_cancel_clicked E T = do {
     restore_keep E T;
     restore_choice E T ''cfg_journal_max_mb'' ''JOURNAL_MAX_MB'' journal_max_mb_vals
   }"

definition irq_switches :: "(string \<times> string) list" where
  "irq_switches =
     [(''cfg_irq_enable'', ''IRQ_ENABLE''), (''cfg_irq_gpu'', ''IRQ_GPU''), (''cfg_irq_nvme'', ''IRQ_NVME''),
      (''cfg_irq_usb'', ''IRQ_USB''), (''cfg_irq_nic'', ''IRQ_NIC''), (''cfg_irq_audio'', ''IRQ_AUDIO''),
      (''cfg_irq_coalesce'', ''IRQ_COALESCE''), (''cfg_irq_watch'', ''IRQ_WATCH'')]"

definition on_irq_apply_clicked :: "'w env \<Rightarrow> toolkit \<Rightarrow> ('w, unit) g" where
  "on_irq_apply_clicked E T = do {
     forM irq_switches (\<lambda>(i, key). send_switch E T i key);
     set_config_dirty False;
     gui_spawn [''/usr/bin/x3d-toggle'', ''irq-bind''] []
   }"

definition on_adv_apply_clicked :: "'w env \<Rightarrow> toolkit \<Rightarrow> string \<Rightarrow> ('w, unit) g" where
  "on_adv_apply_clicked E T btn = do {
     send_switch E T ''cfg_sched_bore'' ''SCHED_BORE'';
     send_number E T ''cfg_sched_bit_shift'' ''SCHED_BIT_SHIFT'';
     send_switch E T ''cfg_sched_burst_fork'' ''SCHED_BURST_FORK'';
     send_number E T ''cfg_sched_slice_us'' ''SCHED_SLICE_US'';
     send_text E T ''cfg_vm_max_map'' ''VM_MAX_MAP'';
     send_switch E T ''cfg_split_lock_detect'' ''SPLIT_LOCK_DETECT'';
     send_switch E T ''cfg_nmi_watchdog'' ''NMI_WATCHDOG'';
     send_choice E T ''cfg_thp_mode'' ''THP_MODE'' thp_modes;
     btn_feedback T btn
   }"

definition on_adv_cancel_clicked :: "'w env \<Rightarrow> toolkit \<Rightarrow> ('w, unit) g" where
  "on_adv_cancel_clicked E T = ignoring_changes (do {
     restore_switch E T ''cfg_sched_bore'' ''SCHED_BORE'';
     restore_spin E T ''cfg_sched_bit_shift'' ''SCHED_BIT_SHIFT'';
     restore_switch E T ''cfg_sched_burst_fork'' ''SCHED_BURST_FORK'';
     restore_spin E T ''cfg_sched_slice_us'' ''SCHED_SLICE_US'';
     restore_text E T ''cfg_vm_max_map'' ''VM_MAX_MAP'';
     restore_switch E T ''cfg_split_lock_detect'' ''SPLIT_LOCK_DETECT'';
     restore_switch E T ''cfg_nmi_watchdog'' ''NMI_WATCHDOG'';
     restore_choice E T ''cfg_thp_mode'' ''THP_MODE'' thp_modes
   })"

definition on_net_apply_clicked :: "'w env \<Rightarrow> toolkit \<Rightarrow> string \<Rightarrow> ('w, unit) g" where
  "on_net_apply_clicked E T btn = do {
     send_text E T ''cfg_net_qdisc'' ''NET_QDISC'';
     send_number E T ''cfg_net_fastopen'' ''NET_FASTOPEN'';
     send_number E T ''cfg_net_rp_filter'' ''NET_RP_FILTER'';
     send_switch E T ''cfg_net_source_route'' ''NET_SOURCE_ROUTE'';
     gui_spawn [''/usr/bin/x3d-toggle'', ''advanced'', ''networking'', ''--apply''] [];
     btn_feedback T btn
   }"

definition on_net_cancel_clicked :: "'w env \<Rightarrow> toolkit \<Rightarrow> ('w, unit) g" where
  "on_net_cancel_clicked E T = ignoring_changes (do {
     restore_text E T ''cfg_net_qdisc'' ''NET_QDISC'';
     restore_spin E T ''cfg_net_fastopen'' ''NET_FASTOPEN'';
     restore_spin E T ''cfg_net_rp_filter'' ''NET_RP_FILTER'';
     restore_switch E T ''cfg_net_source_route'' ''NET_SOURCE_ROUTE''
   })"

subsection \<open>The configuration page\<close>

definition lint_switches :: "(string \<times> string) list" where
  "lint_switches =
     [(''cfg_lint_clang_diagnostic'', ''LINT_CLANG_DIAGNOSTIC''), (''cfg_lint_clang_bugprone'', ''LINT_CLANG_BUGPRONE''),
      (''cfg_lint_clang_modernize'', ''LINT_CLANG_MODERNIZE''), (''cfg_lint_clang_readability'', ''LINT_CLANG_READABILITY''),
      (''cfg_lint_clang_performance'', ''LINT_CLANG_PERFORMANCE''), (''cfg_lint_clang_portability'', ''LINT_CLANG_PORTABILITY''),
      (''cfg_lint_clang_analyzer'', ''LINT_CLANG_ANALYZER''), (''cfg_lint_cppcheck_all'', ''LINT_CPPCHECK_ALL''),
      (''cfg_lint_cppcheck_warning'', ''LINT_CPPCHECK_WARNING''), (''cfg_lint_cppcheck_style'', ''LINT_CPPCHECK_STYLE''),
      (''cfg_lint_cppcheck_performance'', ''LINT_CPPCHECK_PERFORMANCE''), (''cfg_lint_cppcheck_portability'', ''LINT_CPPCHECK_PORTABILITY''),
      (''cfg_lint_cppcheck_information'', ''LINT_CPPCHECK_INFORMATION''), (''cfg_lint_cppcheck_unused'', ''LINT_CPPCHECK_UNUSED''),
      (''cfg_lint_valgrind_origins'', ''LINT_VALGRIND_ORIGINS'')]"

text \<open>\<^verbatim>\<open>gtk_builder_get_object\<close>; that the builder is asked is recorded.\<close>

definition get_object :: "toolkit \<Rightarrow> string \<Rightarrow> ('w, bool) g" where
  "get_object T i = do { gtk (BuilderGet i); ret (t_object T i) }"

definition send_server :: "'w env \<Rightarrow> toolkit \<Rightarrow> string \<Rightarrow> string \<Rightarrow> ('w, unit) g" where
  "send_server E T i key = when_bound i (if t_text T i \<noteq> [] then config_send E key (t_text T i) else ret ())"

definition on_cfg_apply_clicked :: "'w env \<Rightarrow> toolkit \<Rightarrow> ('w, unit) g" where
  "on_cfg_apply_clicked E T = do {
     when_bound ''btn_cfg_apply'' (gtk (LabelSet ''btn_cfg_apply'' ''Applying...''));
     send_choice E T ''cfg_daemon_state'' ''DAEMON_STATE'' daemon_state_vals;
     send_choice E T ''cfg_fallback_profile'' ''FALLBACK_PROFILE'' fallback_vals;
     send_number E T ''cfg_polling_interval'' ''POLLING_INTERVAL'';
     send_number E T ''cfg_load_threshold'' ''LOAD_THRESHOLD'';
     when_bound ''cfg_detection_level''
       (config_send E ''DETECTION_LEVEL''
         (printf_sn E 16 ''%d'' [AInt (s32 (s32 (int (t_selected T ''cfg_detection_level'')) + 1))]));
     send_switch E T ''cfg_ebpf_enable'' ''EBPF_ENABLE'';
     send_switch E T ''cfg_debug_enable'' ''DEBUG_ENABLE'';
     send_switch E T ''cfg_dev_enable'' ''DEV_ENABLE'';
     send_switch E T ''cfg_advanced_enable'' ''ADVANCED_CONFIG_ENABLE'';
     send_server E T ''cfg_server_address'' ''SERVER_ADDRESS'';
     send_server E T ''cfg_server_port'' ''SERVER_PORT'';
     when_bound ''cfg_server_ssh''
       (let idx = t_selected T ''cfg_server_ssh''
        in if idx < length server_ssh_vals then config_send E ''SERVER_SSH'' (server_ssh_vals ! idx) else ret ());
     when_bound ''g_builder'' (forM lint_switches (\<lambda>(i, key). do {
       lw \<leftarrow> get_object T i;
       if lw then config_send E key (if t_switch T i then ''enabled'' else ''disabled'') else ret ()
     }));
     set_config_dirty False;
     when_bound ''btn_cfg_apply'' (gtk (LabelSet ''btn_cfg_apply'' ''Apply''))
   }"

definition restore_detection :: "'w env \<Rightarrow> toolkit \<Rightarrow> ('w, unit) g" where
  "restore_detection E T = when_bound ''cfg_detection_level'' (do {
     v \<leftarrow> gui_config_get E T ''DETECTION_LEVEL'';
     set_drop E T ''cfg_detection_level'' (guint (std_atoi v - 1))
   })"

definition on_cfg_cancel_clicked :: "'w env \<Rightarrow> toolkit \<Rightarrow> ('w, unit) g" where
  "on_cfg_cancel_clicked E T = do {
     ignoring_changes (do {
       restore_choice E T ''cfg_daemon_state'' ''DAEMON_STATE'' daemon_state_vals;
       restore_choice E T ''cfg_fallback_profile'' ''FALLBACK_PROFILE'' fallback_vals;
       restore_range E T ''cfg_polling_interval'' ''POLLING_INTERVAL'';
       restore_range E T ''cfg_load_threshold'' ''LOAD_THRESHOLD'';
       restore_detection E T;
       restore_switch E T ''cfg_ebpf_enable'' ''EBPF_ENABLE'';
       restore_switch E T ''cfg_debug_enable'' ''DEBUG_ENABLE'';
       restore_switch E T ''cfg_dev_enable'' ''DEV_ENABLE'';
       restore_switch E T ''cfg_advanced_enable'' ''ADVANCED_CONFIG_ENABLE'';
       restore_server E T ''cfg_server_address'' ''SERVER_ADDRESS'';
       restore_server E T ''cfg_server_port'' ''SERVER_PORT'';
       restore_choice E T ''cfg_server_ssh'' ''SERVER_SSH'' server_ssh_vals
     });
     set_config_dirty False
   }"

subsection \<open>Connecting the widgets\<close>

definition with_object :: "toolkit \<Rightarrow> string \<Rightarrow> ('w, unit) g \<Rightarrow> ('w, unit) g" where
  "with_object T i m = do { w \<leftarrow> get_object T i; if w then m else ret () }"

definition bind_choice :: "'w env \<Rightarrow> toolkit \<Rightarrow> string \<Rightarrow> string \<Rightarrow> string list \<Rightarrow> ('w, unit) g" where
  "bind_choice E T i key vals = with_object T i (do {
     bind_widget i;
     v \<leftarrow> gui_config_get E T key;
     set_drop E T i (find_dropdown_idx vals v);
     connect i Cfg_dropdown_changed
   })"

definition bind_range :: "'w env \<Rightarrow> toolkit \<Rightarrow> string \<Rightarrow> string \<Rightarrow> ('w, unit) g" where
  "bind_range E T i key = with_object T i (do {
     bind_widget i;
     v \<leftarrow> gui_config_get E T key;
     set_range E T i (std_atof v);
     connect i Cfg_scale_changed
   })"

definition bind_switch :: "'w env \<Rightarrow> toolkit \<Rightarrow> string \<Rightarrow> string \<Rightarrow> ('w, unit) g" where
  "bind_switch E T i key = with_object T i (do {
     bind_widget i;
     v \<leftarrow> gui_config_get E T key;
     set_switch E T i (std_atoi v \<noteq> 0);
     connect i Cfg_switch_changed
   })"

text \<open>A switch of a group of pages: also their rows in the sidebar are shown or hidden.\<close>

definition bind_group :: "'w env \<Rightarrow> toolkit \<Rightarrow> string \<Rightarrow> string \<Rightarrow> change_handler \<Rightarrow> string list \<Rightarrow> ('w, unit) g" where
  "bind_group E T i key h rows = with_object T i (do {
     bind_widget i;
     v \<leftarrow> gui_config_get E T key;
     let on = (std_atoi v \<noteq> 0);
     set_switch E T i on;
     connect i h;
     forM rows (\<lambda>r. gtk (VisibleSet r on))
   })"

text \<open>A drop-down list without a static pointer.\<close>

definition bind_local_choice :: "'w env \<Rightarrow> toolkit \<Rightarrow> string \<Rightarrow> string \<Rightarrow> string list \<Rightarrow> ('w, unit) g" where
  "bind_local_choice E T i key vals = with_object T i (do {
     v \<leftarrow> gui_config_get E T key;
     set_drop E T i (find_dropdown_idx vals v);
     connect i Cfg_dropdown_changed
   })"

definition bind_button :: "toolkit \<Rightarrow> string \<Rightarrow> string \<Rightarrow> ('w, unit) g" where
  "bind_button T i handler_name = with_object T i (gtk (Connect i ''clicked'' handler_name))"

definition bind_main_button :: "toolkit \<Rightarrow> string \<Rightarrow> string \<Rightarrow> ('w, unit) g" where
  "bind_main_button T i handler_name = with_object T i (do {
     bind_widget i;
     gtk (SensitiveSet i False);
     gtk (Connect i ''clicked'' handler_name)
   })"

text \<open>The widgets of the advanced page and of the network page are filled, but their changes are not followed.\<close>

definition fill_widget :: "toolkit \<Rightarrow> string \<Rightarrow> ('w, unit) g \<Rightarrow> ('w, unit) g" where
  "fill_widget T i restore = with_object T i (do { bind_widget i; restore })"

definition bind_general :: "'w env \<Rightarrow> toolkit \<Rightarrow> ('w, unit) g" where
  "bind_general E T = do {
     bind_choice E T ''cfg_daemon_state'' ''DAEMON_STATE'' daemon_state_vals;
     bind_choice E T ''cfg_fallback_profile'' ''FALLBACK_PROFILE'' fallback_vals;
     bind_range E T ''cfg_polling_interval'' ''POLLING_INTERVAL'';
     bind_range E T ''cfg_load_threshold'' ''LOAD_THRESHOLD'';
     with_object T ''cfg_detection_level'' (do {
       bind_widget ''cfg_detection_level'';
       v \<leftarrow> gui_config_get E T ''DETECTION_LEVEL'';
       set_drop E T ''cfg_detection_level'' (guint (std_atoi v - 1));
       connect ''cfg_detection_level'' Cfg_dropdown_changed
     });
     bind_switch E T ''cfg_ebpf_enable'' ''EBPF_ENABLE'';
     with_object T ''cfg_affinity_level'' (do {
       v \<leftarrow> gui_config_get E T ''AFFINITY_LEVEL'';
       set_drop E T ''cfg_affinity_level'' (guint (std_atoi v));
       connect ''cfg_affinity_level'' Cfg_dropdown_changed
     });
     bind_group E T ''cfg_advanced_enable'' ''ADVANCED_CONFIG_ENABLE'' Advanced_enable_toggled [''row_advanced''];
     bind_group E T ''cfg_dev_enable'' ''DEV_ENABLE'' Dev_enable_toggled [''row_developer'', ''row_debug''];
     bind_switch E T ''cfg_debug_enable'' ''DEBUG_ENABLE''
   }"

definition bind_lint :: "'w env \<Rightarrow> toolkit \<Rightarrow> ('w, unit) g" where
  "bind_lint E T = do {
     forM lint_switches (\<lambda>(i, key). with_object T i (do {
       v \<leftarrow> gui_config_get E T key;
       set_switch E T i (strcmp v ''enabled'' = 0);
       connect i Cfg_switch_enabled
     }));
     bind_local_choice E T ''cfg_lint_valgrind_mode'' ''LINT_VALGRIND_MODE'' valgrind_mode_vals;
     bind_local_choice E T ''cfg_lint_valgrind_kinds'' ''LINT_VALGRIND_KINDS'' valgrind_kinds_vals;
     bind_button T ''btn_lint_clang_run'' ''on_btn_lint_clang_clicked'';
     bind_button T ''btn_lint_cppcheck_run'' ''on_btn_lint_cppcheck_clicked'';
     bind_button T ''btn_lint_valgrind_run'' ''on_btn_lint_valgrind_clicked''
   }"

definition bind_journal :: "'w env \<Rightarrow> toolkit \<Rightarrow> ('w, unit) g" where
  "bind_journal E T = do {
     bind_button T ''btn_launch_debug'' ''on_btn_launch_debug_clicked'';
     bind_button T ''btn_analyze_coredump'' ''on_btn_analyze_coredump_clicked'';
     bind_button T ''btn_archive_journal'' ''on_btn_archive_journal_clicked'';
     bind_button T ''btn_rotate_journal'' ''on_btn_rotate_journal_clicked'';
     fill_widget T ''cfg_journal_keep'' (restore_keep E T);
     fill_widget T ''cfg_journal_max_mb'' (restore_choice E T ''cfg_journal_max_mb'' ''JOURNAL_MAX_MB'' journal_max_mb_vals);
     bind_button T ''btn_rotation_apply'' ''on_rotation_apply_clicked'';
     bind_button T ''btn_rotation_cancel'' ''on_rotation_cancel_clicked''
   }"

definition fill_server :: "'w env \<Rightarrow> toolkit \<Rightarrow> string \<Rightarrow> string \<Rightarrow> (string \<Rightarrow> ('w, unit) g) \<Rightarrow> ('w, unit) g" where
  "fill_server E T i key show_value = do {
     v \<leftarrow> gui_config_get E T key;
     if usable v then when_bound i (show_value v) else ret ()
   }"

definition bind_server :: "'w env \<Rightarrow> toolkit \<Rightarrow> ('w, unit) g" where
  "bind_server E T = do {
     with_object T ''cfg_server_address'' (do { bind_widget ''cfg_server_address''; connect ''cfg_server_address'' Server_address_changed });
     with_object T ''cfg_server_port'' (do { bind_widget ''cfg_server_port''; connect ''cfg_server_port'' Server_port_changed });
     fill_server E T ''cfg_server_address'' ''SERVER_ADDRESS'' (set_text E T ''cfg_server_address'');
     fill_server E T ''cfg_server_port'' ''SERVER_PORT'' (set_text E T ''cfg_server_port'');
     with_object T ''cfg_server_ssh'' (do { bind_widget ''cfg_server_ssh''; connect ''cfg_server_ssh'' Server_ssh_changed });
     fill_server E T ''cfg_server_ssh'' ''SERVER_SSH'' (\<lambda>v. set_drop E T ''cfg_server_ssh'' (find_dropdown_idx server_ssh_vals v))
   }"

definition bind_advanced :: "'w env \<Rightarrow> toolkit \<Rightarrow> ('w, unit) g" where
  "bind_advanced E T = do {
     forM [(''cfg_sched_bore'', ''SCHED_BORE''), (''cfg_sched_burst_fork'', ''SCHED_BURST_FORK''),
           (''cfg_split_lock_detect'', ''SPLIT_LOCK_DETECT''), (''cfg_nmi_watchdog'', ''NMI_WATCHDOG'')]
       (\<lambda>(i, key). fill_widget T i (restore_switch E T i key));
     fill_widget T ''cfg_sched_bit_shift'' (restore_spin E T ''cfg_sched_bit_shift'' ''SCHED_BIT_SHIFT'');
     fill_widget T ''cfg_sched_slice_us'' (restore_spin E T ''cfg_sched_slice_us'' ''SCHED_SLICE_US'');
     fill_widget T ''cfg_vm_max_map'' (restore_text E T ''cfg_vm_max_map'' ''VM_MAX_MAP'');
     fill_widget T ''cfg_thp_mode'' (restore_choice E T ''cfg_thp_mode'' ''THP_MODE'' thp_modes);
     bind_button T ''btn_adv_apply'' ''on_adv_apply_clicked'';
     bind_button T ''btn_adv_cancel'' ''on_adv_cancel_clicked'';
     fill_widget T ''cfg_net_qdisc'' (restore_text E T ''cfg_net_qdisc'' ''NET_QDISC'');
     fill_widget T ''cfg_net_fastopen'' (restore_spin E T ''cfg_net_fastopen'' ''NET_FASTOPEN'');
     fill_widget T ''cfg_net_rp_filter'' (restore_spin E T ''cfg_net_rp_filter'' ''NET_RP_FILTER'');
     fill_widget T ''cfg_net_source_route'' (restore_switch E T ''cfg_net_source_route'' ''NET_SOURCE_ROUTE'');
     bind_button T ''btn_net_apply'' ''on_net_apply_clicked'';
     bind_button T ''btn_net_cancel'' ''on_net_cancel_clicked''
   }"

definition capability_rows :: "string list" where
  "capability_rows = [''row_sched_bore'', ''row_sched_bit_shift'', ''row_sched_burst_fork'', ''row_split_lock'',
     ''row_nmi_watchdog'', ''row_thp_mode'']"

definition config_bind :: "'w env \<Rightarrow> toolkit \<Rightarrow> ('w, unit) g" where
  "config_bind E T = do {
     bind_widget ''g_builder'';
     ignoring_changes (do {
       bind_general E T;
       forM irq_switches (\<lambda>(i, key). bind_switch E T i key);
       bind_lint E T;
       bind_journal E T;
       bind_server E T;
       bind_main_button T ''btn_cfg_apply'' ''on_cfg_apply_clicked'';
       bind_button T ''btn_irq_apply'' ''on_irq_apply_clicked'';
       bind_button T ''btn_irq_status'' ''on_irq_status_clicked'';
       bind_main_button T ''btn_cfg_cancel'' ''on_cfg_cancel_clicked'';
       bind_advanced E T;
       forM capability_rows (\<lambda>i. with_object T i (bind_widget i));
       bind_switch E T ''cfg_force_unsupported'' ''FORCE_UNSUPPORTED_DISPLAY''
     });
     set_config_dirty False
   }"

subsection \<open>Extras\<close>

definition extras_files :: "string list" where
  "extras_files = [''/org/x3d-toggle/gui/README.md'', ''/org/x3d-toggle/gui/ARCHITECTURE.md'', ''/org/x3d-toggle/gui/x3d-toggle.1.md'']"

definition bullet_utf8 :: string where "bullet_utf8 = map char_of [226 :: nat, 128, 162]"

definition insults_text :: string where
  "insults_text =
     scroll_utf8 @ '' X3D Toggle - The Great Book of Insults '' @ scroll_utf8 @ [NL, NL] @
     concat (map (\<lambda>l. bullet_utf8 @ '' '' @ l @ [NL]) insults)"

definition update_extras_view :: "toolkit \<Rightarrow> nat \<Rightarrow> ('w, unit) g" where
  "update_extras_view T index =
     (if index = 3 then gtk (TextSet ''txt_extras_view'' insults_text)
      else if index \<ge> length extras_files then ret ()
      else case t_resource T (extras_files ! index) of
             Inr data \<Rightarrow> gtk (TextSet ''txt_extras_view'' data)
           | Inl (Some message) \<Rightarrow> gtk (TextSet ''txt_extras_view'' message)
           | Inl None \<Rightarrow> gtk (TextSet ''txt_extras_view'' ''Error loading document.''))"

definition on_extras_dropdown_selected :: "toolkit \<Rightarrow> ('w, unit) g" where
  "on_extras_dropdown_selected T = update_extras_view T (t_selected T ''dropdown_extras'')"

subsection \<open>The start of the window\<close>

text \<open>A static pointer that is set to what the builder has.\<close>

definition fetch :: "toolkit \<Rightarrow> string \<Rightarrow> ('w, unit) g" where
  "fetch T i = with_object T i (bind_widget i)"

definition nav_rows :: "(string \<times> string) list" where
  "nav_rows =
     [(''dashboard'', ''Dashboard''), (''modes'', ''Modes''), (''affinity'', ''Threaded Affinity Settings''),
      (''irq'', ''IRQ Vector Binding''), (''configuration'', ''Configuration''), (''advanced'', ''Advanced Configuration''),
      (''networking'', ''Networking Settings''), (''developer'', ''Developer Options''), (''debug'', ''System Journal''),
      (''extras'', ''Extras'')]"

definition load_window :: "('w, unit) g" where
  "load_window = do {
     gtk (Gtk ''gtk_window_set_default_icon_name'' [''x3d-toggle'']);
     gtk (Gtk ''adw_style_manager_set_color_scheme'' [''ADW_COLOR_SCHEME_DEFAULT'']);
     gtk (Gtk ''gtk_css_provider_load_from_resource'' [''/org/x3d-toggle/gui/theme.css'']);
     gtk (Gtk ''gtk_style_context_add_provider_for_display'' [''GTK_STYLE_PROVIDER_PRIORITY_APPLICATION'']);
     gtk (Gtk ''gtk_builder_new_from_resource'' [''/org/x3d-toggle/gui/x3d-toggle.ui''])
   }"

definition build_sidebar :: "'w env \<Rightarrow> toolkit \<Rightarrow> ('w, unit) g" where
  "build_sidebar E T = do {
     fetch T ''sidebar_list'';
     fetch T ''content_stack'';
     get_object T ''dropdown_extras'';
     get_object T ''txt_extras_view'';
     gtk (Connect ''dropdown_extras'' ''notify::selected'' ''on_extras_dropdown_selected'');
     update_extras_view T 0;
     forM nav_rows (\<lambda>(i, title). add_nav_row i title);
     forM [''row_developer'', ''row_debug'', ''row_advanced''] (\<lambda>r. gtk (VisibleSet r False));
     gtk (Connect ''sidebar_list'' ''row-selected'' ''on_nav_row_selected'');
     (case t_rows T of
        Some first # rows \<Rightarrow> do {
          choose_row E T first;
          gtk (Emit ''sidebar_list'' ''row-selected'');
          on_nav_row_selected E T (Some first)
        }
      | _ \<Rightarrow> ret ())
   }"

definition bind_modes :: "'w env \<Rightarrow> toolkit \<Rightarrow> ('w, unit) g" where
  "bind_modes E T = do {
     forM mode_ids (\<lambda>m.
       let btn_id = printf_sn E 64 ''mode_card_%s'' [AStr m]
       in with_object T btn_id (do {
            bind_widget btn_id;
            gtk (NameSet btn_id btn_id);
            gtk (Connect btn_id ''clicked'' (''on_mode_card_clicked '' @ m))
          }));
     bind_button T ''btn_mode_apply'' ''on_mode_apply_clicked'';
     bind_button T ''btn_mode_cancel'' ''on_mode_cancel_clicked''
   }"

definition on_app_activate :: "'w env \<Rightarrow> toolkit \<Rightarrow> ('w, unit) g" where
  "on_app_activate E T = do {
     load_window;
     get_object T ''main_window'';
     gtk (Gtk ''gtk_window_set_application'' []);
     fetch T ''lbl_status_daemon'';
     fetch T ''lbl_status_hardware'';
     fetch T ''lbl_status_system'';
     build_sidebar E T;
     bind_modes E T;
     fetch T ''grid_topology'';
     bind_button T ''btn_affinity_apply'' ''on_affinity_apply_clicked'';
     bind_button T ''btn_affinity_cancel'' ''on_affinity_cancel_clicked'';
     with_object T ''cfg_affinity_level'' (do {
       bind_widget ''cfg_affinity_level'';
       v \<leftarrow> gui_config_get E T ''AFFINITY_LEVEL'';
       set_drop E T ''cfg_affinity_level'' (guint (std_atoi v))
     });
     fetch T ''lifecycle_dropdown'';
     config_bind E T;
     gtk BuilderUnref;
     gtk (Gtk ''gtk_window_present'' []);
     gtk (Timeout 1000 ''update_dashboard_cb'');
     update_dashboard_cb E T
   }"

definition gui_main :: "('w, unit) g" where
  "gui_main = do {
     gtk (Gtk ''g_set_prgname'' [''x3d-toggle'']);
     gtk (Gtk ''adw_application_new'' [''org.x3d.toggle'']);
     gtk (Connect ''app'' ''activate'' ''on_app_activate'');
     gtk (Gtk ''g_application_run'' []);
     gtk (Gtk ''g_object_unref'' [''app''])
   }"

end
