(* ===== verification/Gui_Facts.thy ===== *)
theory Gui_Facts
  imports Gui_Settings
begin

section \<open>What the window does\<close>

text \<open>
  How often the dashboard tries to revive the daemon, what the window makes of the daemon's answers, and the environments the
  witnesses of the window use.
\<close>

subsection \<open>Frames\<close>

lemma run_run_prog [simp]: "run_state (run_prog p) u = (result p (prg u), u\<lparr>prg := exec p (prg u)\<rparr>)"
  by (simp add: run_prog_def case_prod_beta)

definition prg_indep :: "('w gui \<Rightarrow> bool) \<Rightarrow> bool" where
  "prg_indep I \<longleftrightarrow> (\<forall>u s. I (u\<lparr>prg := s\<rparr>) \<longleftrightarrow> I u)"

lemma keeps_run_prog: "prg_indep I \<Longrightarrow> keeps I (run_prog p)"
  by (simp add: hoare_def prg_indep_def)

lemma hoare_run_prog: "prg_indep I \<Longrightarrow> hoare (\<lambda>_. True) p (\<lambda>r _. Q r) \<Longrightarrow> hoare I (run_prog p) (\<lambda>r u. I u \<and> Q r)"
  by (simp add: hoare_def prg_indep_def)

lemma keeps_when_bound: "keeps I m \<Longrightarrow> keeps I (when_bound i m)"
  unfolding when_bound_def by (intro hoare_rules)

subsection \<open>Reviving the daemon\<close>

definition spawn_count :: "gtk_call list \<Rightarrow> nat" where
  "spawn_count cs = length (filter (\<lambda>c. case c of Spawn args env \<Rightarrow> True | _ \<Rightarrow> False) cs)"

text \<open>The part of the state of the window that matters here.\<close>

definition reviving :: "int \<Rightarrow> nat \<Rightarrow> string list \<Rightarrow> 'w gui \<Rightarrow> bool" where
  "reviving c n b u \<longleftrightarrow> daemon_retry_cooldown u = c \<and> spawn_count (screen u) = n \<and> bound u = b"

lemma prg_indep_reviving: "prg_indep (reviving c n b)"
  by (simp add: prg_indep_def reviving_def)

lemma keeps_reviving_gtk: "(\<And>args env. call \<noteq> Spawn args env) \<Longrightarrow> keeps (reviving c n b) (gtk call)"
  by (cases call) (auto simp: gtk_def reviving_def spawn_count_def intro!: hoare_modify)

text \<open>A daemon that cannot be reached.\<close>

definition unreachable :: "'w env \<Rightarrow> bool" where
  "unreachable E \<longleftrightarrow> (\<forall>fd p w. failed (ret_of (fst (kernel E (SysConnect fd p) w))))"

lemma send_unreachable:
  assumes "unreachable E"
  shows "hoare (\<lambda>_. True) (gui_socket_send E cmd resp_len old) (\<lambda>r _. fst r \<noteq> 0)"
proof -
  have conn: "hoare (\<lambda>_. True) (c_connect E fd p) (\<lambda>cn _. cn < 0)" for fd p
    using assms by (simp add: hoare_def unreachable_def c_connect_def run_sys_int Let_def)
  have any: "hoare (\<lambda>_. True) m (\<lambda>_ _. True)" for m :: "('a, 'b) m" by (simp add: hoare_def)
  have fin: "hoare (\<lambda>_. True) (do { m; m'; ret (ERR_IPC, old) }) (\<lambda>r _. fst r \<noteq> 0)" for m :: "('a, unit) m" and m' :: "('a, int) m"
    by (rule hoare_bind [OF any], rule hoare_bind [OF any], rule hoare_ret) (simp add: ERR_IPC_def)
  have fail: "hoare (\<lambda>_. True) (do { ipc_error E; ret (ERR_IPC, old) }) (\<lambda>r _. fst r \<noteq> 0)"
    by (rule hoare_bind [OF any], rule hoare_ret) (simp add: ERR_IPC_def)
  show ?thesis
    unfolding gui_socket_send_def
  proof (rule hoare_bind [OF any], rule hoare_if [OF fail], rule hoare_bind [OF conn], goal_cases)
    case (1 fd cn)
    show ?case by (cases "cn < 0") (use fin in \<open>auto simp: hoare_def\<close>)
  qed
qed

lemma hoare_pull: "(Q \<Longrightarrow> hoare P m R) \<Longrightarrow> hoare (\<lambda>s. P s \<and> Q) m R"
  by (simp add: hoare_def)

definition after_poll :: "int \<Rightarrow> nat \<Rightarrow> string list \<Rightarrow> 'w gui \<Rightarrow> bool" where
  "after_poll c n b = (if c \<le> 0 then reviving 10 (Suc n) b else reviving (c - 1) n b)"

lemma poll_unreachable:
  assumes "unreachable E"
  shows "hoare (reviving c n b) (show_dashboard E T) (\<lambda>_. after_poll c n b)"
proof -
  have revive: "hoare (reviving c n b) revive_daemon (\<lambda>_. after_poll c n b)"
    by (auto simp: hoare_def revive_daemon_def reviving_def gtk_def spawn_count_def after_poll_def)
  have keep: "keeps (after_poll c n b) (run_prog p)" for p :: "('a, 'b) m"
    by (simp add: keeps_run_prog prg_indep_reviving after_poll_def)
  have disp: "keeps (after_poll c n b) (gtk (MarkupSet i v))" for i v
    by (auto intro: keeps_reviving_gtk simp: after_poll_def)
  have send: "hoare (reviving c n b) (run_prog (gui_socket_send E cmd l old)) (\<lambda>r u. reviving c n b u \<and> fst r \<noteq> 0)" for cmd l old
    by (rule hoare_run_prog [OF prg_indep_reviving send_unreachable [OF assms]])
  show ?thesis
    unfolding show_dashboard_def Let_def
  proof (rule hoare_bind [OF send], rule hoare_pull, rule hoare_bind [where R = "\<lambda>_. after_poll c n b"], goal_cases)
    case (1 r)
    then show ?case using revive by simp
  next
    case (2 r x)
    show ?case by (intro hoare_rules keep disp; use 2 in simp)
  qed
qed

primrec polls :: "'w env \<Rightarrow> toolkit \<Rightarrow> nat \<Rightarrow> ('w, unit) g" where
  "polls E T 0 = ret ()"
| "polls E T (Suc k) = do { update_dashboard_cb E T; polls E T k }"

definition dashboard_labels :: "string list" where
  "dashboard_labels = [''lbl_status_daemon'', ''lbl_status_hardware'', ''lbl_status_system'']"

lemma exec_when_bound: "i \<in> set (bound u) \<Longrightarrow> run_state (when_bound i m) u = run_state m u"
  by (simp add: when_bound_def)

lemma polls_unreachable:
  assumes E: "unreachable E" and b: "set dashboard_labels \<subseteq> set b" and c: "0 \<le> c" "c \<le> 10"
  shows "reviving c n b u \<Longrightarrow> spawn_count (screen (exec (polls E T k) u)) = n + nat ((int k + 10 - c) div 11)"
  using c
proof (induction k arbitrary: u c n)
  case (Suc k)
  let ?u = "exec (update_dashboard_cb E T) u"
  have "after_poll c n b ?u"
    using hoareD [OF poll_unreachable [OF E] Suc.prems(1)] b Suc.prems(1)
    by (simp add: update_dashboard_cb_def exec_when_bound dashboard_labels_def reviving_def)
  then have step: "reviving (if c \<le> 0 then 10 else c - 1) (if c \<le> 0 then Suc n else n) b ?u"
    by (simp add: after_poll_def split: if_splits)
  have "nat ((int (Suc k) + 10 - c) div 11) =
      (if c \<le> 0 then 1 else 0) + nat ((int k + 10 - (if c \<le> 0 then 10 else c - 1)) div 11)"
  proof (cases "c = 0")
    case True
    have "(int (Suc k) + 10) div 11 = 1 + int k div 11" by linarith
    with True show ?thesis by (simp add: nat_add_distrib pos_imp_zdiv_nonneg_iff)
  qed (use Suc.prems in simp)
  with Suc.IH [OF step] Suc.prems show ?case
    by (simp add: exec_bind del: run_state_bind split: if_splits)
qed (simp add: reviving_def)

text \<open>
  C40. The dashboard's attempts to revive the daemon: while the daemon cannot be reached, polling \<open>k\<close> times starts
  the service exactly once in eleven polls, beginning with the poll at which the running cooldown is over.
\<close>

theorem dashboard_restarts:
  assumes "unreachable E" "set dashboard_labels \<subseteq> set (bound u)" "0 \<le> daemon_retry_cooldown u" "daemon_retry_cooldown u \<le> 10"
  shows "spawn_count (screen (exec (polls E T k) u)) =
    spawn_count (screen u) + nat ((int k + 10 - daemon_retry_cooldown u) div 11)"
  using polls_unreachable [OF assms, of "spawn_count (screen u)" u T k] by (simp add: reviving_def)

text \<open>The window before it is activated, and a toolkit that knows every identifier.\<close>

definition gui_initial :: "'w prog \<Rightarrow> 'w gui" where
  "gui_initial s = \<lparr>prg = s, bound = [], connected = [], config_dirty = False, config_ignoring_changes = False,
     g_selected_mode = None, daemon_retry_cooldown = 0, screen = []\<rparr>"

definition plain_toolkit :: toolkit where
  "plain_toolkit = \<lparr>t_object = (\<lambda>i. True), t_switch = (\<lambda>i. True), t_selected = (\<lambda>i. 1), t_value = (\<lambda>i. 7), t_text = (\<lambda>i. []),
     t_name = (\<lambda>i. None), t_label = (\<lambda>i. []), t_page = None, t_rows = [], t_cores = [],
     t_resource = (\<lambda>p. Inl None), t_emits = (\<lambda>c. True), t_reads = 16\<rparr>"

definition dead_env :: "mem_world env" where
  "dead_env = mem_env\<lparr>kernel := (\<lambda>c w. (Ret (- 2), w))\<rparr>"

theorem dashboard_restarts_witness:
  "spawn_count (screen (exec (polls dead_env plain_toolkit 12)
     ((gui_initial (mem_start Map.empty []))\<lparr>bound := dashboard_labels\<rparr>))) = 2"
proof -
  let ?u = "(gui_initial (mem_start Map.empty []))\<lparr>bound := dashboard_labels\<rparr>"
  have "unreachable dead_env" by (simp add: unreachable_def dead_env_def failed_def)
  moreover have "set dashboard_labels \<subseteq> set (bound ?u)" "0 \<le> daemon_retry_cooldown ?u" "daemon_retry_cooldown ?u \<le> 10"
    by (simp_all add: gui_initial_def)
  ultimately have "spawn_count (screen (exec (polls dead_env plain_toolkit 12) ?u)) =
      spawn_count (screen ?u) + nat ((int 12 + 10 - daemon_retry_cooldown ?u) div 11)"
    by (rule dashboard_restarts)
  then show ?thesis by (simp add: gui_initial_def spawn_count_def)
qed

subsection \<open>A daemon that answers\<close>

text \<open>A kernel whose descriptors deliver the answer \<open>f\<close> gives to the last request sent.\<close>

fun reply_kernel :: "(string \<Rightarrow> string) \<Rightarrow> syscall \<Rightarrow> string \<Rightarrow> sysres \<times> string" where
  "reply_kernel f (SysRead fd n) w = (Data (f w), w)"
| "reply_kernel f (SysSendto fd d fl p) w = (Ret (int (length d)), d)"
| "reply_kernel f (SysSocket a b c) w = (Ret 3, w)"
| "reply_kernel f c w = (Ret 0, w)"

definition reply_env :: "(string \<Rightarrow> string) \<Rightarrow> string env" where
  "reply_env f = \<lparr>kernel = reply_kernel f, xui_symbols = [], garbage = [], CONFIG_PATH = ''/etc/x3d-toggle.conf'', TOTAL_CORES = 16,
     CCD1_START = 8, ccd_result = Some (''0-7'', 8, 16), defaults = mem_defaults\<rparr>"

lemma reply_config:
  assumes "f (fit 128 (''GET_CONFIG '' @ key)) = v" "v \<noteq> []" "v \<noteq> ''ERR''" "cstring v" "length v < 256"
  shows "result (gui_config_get (reply_env f) T key) u = v"
proof -
  have req: "printf_sn (reply_env f) 128 ''GET_CONFIG %s'' [AStr key] = fit 128 (''GET_CONFIG '' @ key)"
    by (simp add: printf_sn_def printf_simps fit_def)
  have "result (gui_socket_send (reply_env f) req' 256 old) s = (0, f req')" if "cstring (f req')" "f req' \<noteq> []" "length (f req') < 256" for req' old s
    using that by (simp add: gui_socket_send_def c_socket_def c_connect_def c_send_def c_read_def c_close_def run_sys_int run_sys_errno
        reply_env_def Let_def failed_def s32_id ERR_SUCCESS_def filled_def cstr_simps)
  with assms show ?thesis by (simp add: gui_config_get_def req exec_bind result_bind cstr_simps del: run_state_bind)
qed

subsection \<open>The capabilities\<close>

lemma strtoul_llx: "std_strtoul ''llx'' 16 = 0"
  by (simp add: std_strtoul_def isspace_def strtol_sign_def strtol_base_def hex_prefix_def digit_value_def is_digit_def uchar_def)

lemma info_caps_llx:
  fixes ds ov bp rf mk :: string
  assumes "CHR ''C'' \<notin> set (ds @ ov @ bp @ rf @ mk)"
  shows "info_caps (''STATE='' @ ds @ ''|OVERRIDE='' @ ov @ ''|BPF_ACTIVE='' @ bp @ ''|REFRESH_INTERVAL='' @ rf @ ''|MASK='' @ mk @ ''|CAPS=llx'') = Some 0"
proof -
  define u w where "u = ''STATE='' @ ds @ ''|OVERRIDE='' @ ov @ ''|BPF_A''"
    and "w = ''TIVE='' @ bp @ ''|REFRESH_INTERVAL='' @ rf @ ''|MASK='' @ mk @ ''|''"
  let ?info = "u @ CHR ''C'' # w @ ''CAPS='' @ ''llx''"
  have "CHR ''C'' \<notin> set w" using assms by (simp add: w_def)
  then have "strstr (w @ ''CAPS='' @ ''llx'') ''CAPS='' = Some (length w)" by (rule strstr_after)
  moreover have "\<not> prefix ''CAPS='' (CHR ''C'' # w @ ''CAPS='' @ ''llx'')" by (simp add: w_def)
  ultimately have "strstr (CHR ''C'' # w @ ''CAPS='' @ ''llx'') ''CAPS='' = Some (Suc (length w))"
    by (simp only: strstr_step if_False option.map)
  moreover have "CHR ''C'' \<notin> set u" using assms by (simp add: u_def)
  then have "strstr ?info ''CAPS='' = map_option (\<lambda>k. k + length u) (strstr (CHR ''C'' # w @ ''CAPS='' @ ''llx'') ''CAPS='')"
    by (rule strstr_skip)
  ultimately have "strstr ?info ''CAPS='' = Some (Suc (length w) + length u)" by (simp only: option.map)
  moreover have "drop (Suc (length w) + length u + 5) ?info = ''llx''" by (simp add: drop_Cons')
  ultimately have "info_caps ?info = Some (of_nat (std_strtoul ''llx'' 16 mod 2 ^ 32))" by (simp only: info_caps_def option.case)
  then show ?thesis by (simp add: u_def w_def strtoul_llx)
qed

text \<open>
  The window never learns the capabilities: whatever the daemon has found out, the reply to \<^verbatim>\<open>DAEMON_INFO\<close> (the formatter has
  no \<^verbatim>\<open>%llx\<close>) reads as no capability at all, so that the rows of the advanced page stay hidden.
\<close>

theorem window_sees_no_capabilities:
  assumes "0 \<le> refresh_interval (cfg s)" "CHR ''C'' \<notin> set (daemon_state (cfg s) @ affinity_mask (cfg s))"
    "length (daemon_info E s) < 128"
  shows "info_caps (daemon_info E s) = Some 0"
proof -
  let ?ov = "xui_itoa 10 (s32 (active_override s))" and ?bp = "if bpf_active s then ''1'' else ''0''"
  have num: "CHR ''C'' \<notin> set (?ov @ ?bp @ fixed1 (refresh_interval (cfg s)))"
    using xui_itoa_chars [of "CHR ''C''"] fixed1_chars [OF assms(1), of "CHR ''C''"] by (auto simp: is_digit_def uchar_def)
  have "daemon_info E s = ''STATE='' @ daemon_state (cfg s) @ ''|OVERRIDE='' @ ?ov @ ''|BPF_ACTIVE='' @ ?bp @ ''|REFRESH_INTERVAL='' @
      fixed1 (refresh_interval (cfg s)) @ ''|MASK='' @ affinity_mask (cfg s) @ ''|CAPS=llx''"
    using assms(3) daemon_info_text [of E s] by (simp split: if_splits)
  then show ?thesis using info_caps_llx num assms(2) by (auto simp del: append_assoc)
qed

theorem window_sees_no_capabilities_witness:
  "info_caps (daemon_info dev_env (info_start\<lparr>cfg := (cfg info_start)\<lparr>capabilities := 63\<rparr>\<rparr>)) = Some 0"
proof -
  have f: "fixed1 (1 / 2) = ''0.5''" "xui_itoa 10 (s32 0) = ''0''" by code_simp+
  have "length (daemon_info dev_env (info_start\<lparr>cfg := (cfg info_start)\<lparr>capabilities := 63\<rparr>\<rparr>)) < 128"
    unfolding daemon_info_text by (simp add: info_start_def dev_start_def initial_prog_def f)
  then show ?thesis by (intro window_sees_no_capabilities) (simp_all add: info_start_def dev_start_def initial_prog_def)
qed

end
