(* ===== verification/Gui_Masks.thy ===== *)
theory Gui_Masks
  imports Gui_Facts
begin

section \<open>The masks of cores that the window writes and reads\<close>

text \<open>
  A mask is the decimal numbers of its cores with commas between them. \<open>cores_text\<close> is this text; appending a core to a mask extends it, as
  long as it fits the buffer, and reading it gives back the cores.
\<close>

definition core_label :: "nat \<Rightarrow> string" where
  "core_label i = xui_itoa 10 (int i)"

fun cores_text :: "nat list \<Rightarrow> string" where
  "cores_text [] = []"
| "cores_text [i] = core_label i"
| "cores_text (i # j # is) = core_label i @ CHR '','' # cores_text (j # is)"

subsection \<open>Labels\<close>

lemma core_label_digits: "digits (core_label i)" "core_label i \<noteq> []"
proof -
  have "core_label i = xui_utoa 10 i" by (simp add: core_label_def xui_itoa_def xui_utoa_def)
  then show "digits (core_label i)" "core_label i \<noteq> []" by (simp_all add: xui_utoa_digits)
qed

lemma core_label_chars: "c \<in> set (core_label i) \<Longrightarrow> is_digit c"
  using core_label_digits(1) [of i] by (simp add: digits_def)

lemma core_label_plain: "CHR '','' \<notin> set (core_label i)" "CHR ''-'' \<notin> set (core_label i)"
  by (auto dest!: core_label_chars simp: is_digit_def uchar_def)

lemma std_atoi_label:
  assumes "i < 2 ^ 31"
  shows "std_atoi (core_label i) = int i"
proof -
  obtain c cs where l: "core_label i = c # cs" using core_label_digits(2) [of i] by (cases "core_label i") auto
  then have "is_digit c" using core_label_chars [of c i] by simp
  then have "\<not> isspace c" by (auto simp: isspace_def is_digit_def uchar_def)
  with l have "dropWhile isspace (core_label i) = core_label i" by simp
  moreover have "l_val (strtol (core_label i) 10) = int i"
    using strtol_itoa [of "[]" "int i"] assms by (simp add: core_label_def LONG_MIN_def LONG_MAX_def)
  ultimately show ?thesis using assms by (simp add: std_atoi_def s32_id)
qed

lemma core_label_inject [simp]: "core_label i = core_label j \<longleftrightarrow> i = j"
proof -
  have "core_label k = xui_utoa 10 k" for k by (simp add: core_label_def xui_itoa_def xui_utoa_def)
  then have "dec_value (core_label k) = k" for k by (simp add: xui_utoa_digits)
  then show ?thesis by metis
qed

lemma length_utoa_digit: "n < 10 \<Longrightarrow> length (utoa_loop 10 n) \<le> 1"
  by (subst utoa_loop.simps) (simp add: utoa_loop_Nil)

lemma length_utoa_two: "n < 100 \<Longrightarrow> length (utoa_loop 10 n) \<le> 2"
  using length_utoa_digit [of "n div 10"] by (subst utoa_loop.simps) simp

lemma length_core_label: "i < 100 \<Longrightarrow> length (core_label i) \<le> 2"
  using length_utoa_two [of i] by (simp add: core_label_def xui_itoa_def)

lemma strchr_label: "strchr (core_label i) (CHR '','') = None" "strchr (core_label i) (CHR ''-'') = None"
  using core_label_plain [of i] by (simp_all add: strchr_None)

lemma entry_has_label: "i < 2 ^ 31 \<Longrightarrow> entry_has c (core_label i) \<longleftrightarrow> c = int i"
  by (auto simp: entry_has_def strchr_label std_atoi_label)

subsection \<open>Reading a mask\<close>

lemma cores_text_Nil: "cores_text is = [] \<longleftrightarrow> is = []"
  by (cases "is" rule: cores_text.cases) (simp_all add: core_label_digits)

lemma entries_have_cores: "list_all (\<lambda>i. i < 2 ^ 31) is \<Longrightarrow> entries_have c (cores_text is) \<longleftrightarrow> c \<in> int ` set is"
proof (induction "is" rule: cores_text.induct)
  case 1
  show ?case by (simp add: entries_have.simps)
next
  case (2 i)
  then show ?case
    using core_label_digits(2) [of i] by (subst entries_have.simps) (simp add: entry_has_label strchr_label)
next
  case (3 i j js)
  then show ?case
    using core_label_plain(1) [of i]
    by (subst entries_have.simps) (simp add: strchr_append_stop entry_has_label)
qed

lemma is_core_in_cores: "length (cores_text is) < 256 \<Longrightarrow> list_all (\<lambda>i. i < 2 ^ 31) is \<Longrightarrow>
    is_core_in_mask c (cores_text is) \<longleftrightarrow> c \<in> int ` set is"
  by (simp add: is_core_in_mask_def entries_have_cores)

subsection \<open>Writing a mask\<close>

lemma cores_text_snoc: "cores_text (is @ [i]) = cores_text is @ (if is = [] then [] else '','') @ core_label i"
  by (induction "is" rule: cores_text.induct) simp_all

lemma mask_append_label:
  assumes "length (cores_text (is @ [i])) < 256"
  shows "mask_append E (core_label i) (cores_text is) = cores_text (is @ [i])"
  using assms by (simp add: mask_append_def printf_sn_def printf_simps cores_text_snoc cores_text_Nil)

lemma mask_append_number:
  assumes "length (cores_text (is @ [i])) < 256" "i < 2 ^ 31"
  shows "mask_append_int E (int i) (cores_text is) = cores_text (is @ [i])"
  using assms by (simp add: mask_append_int_def printf_sn_def printf_simps cores_text_snoc cores_text_Nil core_label_def s32_id)

lemma length_cores_text: "list_all (\<lambda>i. i < 100) is \<Longrightarrow> length (cores_text is) \<le> 3 * length is"
  by (induction "is" rule: cores_text.induct) (auto dest!: length_core_label)

subsection \<open>The masks of the page of cores\<close>

text \<open>A grid with the toggle buttons of \<open>n\<close> cores, of which those in \<open>act\<close> are pressed.\<close>

definition core_grid :: "nat \<Rightarrow> (nat \<Rightarrow> bool) \<Rightarrow> (string \<times> bool) option list" where
  "core_grid n act = map (\<lambda>i. Some (core_label i, act i)) [0..<n]"

lemma fits_two_digits: "length is \<le> 42 \<Longrightarrow> list_all (\<lambda>i. i < 100) is \<Longrightarrow> length (cores_text is) < 127"
  using length_cores_text [of "is"] by simp

lemma filter_upt_fits: "n \<le> 42 \<Longrightarrow> length (cores_text (filter act [0..<n])) < 127"
  by (rule fits_two_digits) (auto simp: list_all_iff intro: order_trans [OF length_filter_le])

lemma button_masks_cores:
  assumes "n \<le> 42" "t_cores T = core_grid n act"
  shows "button_masks E T = (cores_text (filter act [0..<n]), cores_text (filter (\<lambda>i. \<not> act i) [0..<n]))"
proof -
  have "fold (\<lambda>child (c, f). case child of None \<Rightarrow> (c, f)
          | Some (label, active) \<Rightarrow> if active then (mask_append E label c, f) else (c, mask_append E label f))
        (core_grid k act) ([], []) = (cores_text (filter act [0..<k]), cores_text (filter (\<lambda>i. \<not> act i) [0..<k]))" if "k \<le> 42" for k
    using that
  proof (induction k)
    case (Suc k)
    have "length (cores_text (filter p [0..<k] @ [k])) < 256" for p
      using fits_two_digits [of "filter p [0..<k] @ [k]"] Suc.prems length_filter_le [of p "[0..<k]"]
      by (auto simp: list_all_iff)
    with Suc show ?case by (simp add: core_grid_def mask_append_label)
  qed (simp add: core_grid_def)
  with assms show ?thesis by (simp add: button_masks_def)
qed

lemma die_masks_cores:
  assumes "n \<le> 42" "ccd_result E = Some (hw, int start, int n)" "0 < start"
  shows "die_masks E = (cores_text (filter (\<lambda>i. i < start) [0..<n]), cores_text (filter (\<lambda>i. \<not> i < start) [0..<n]))"
proof -
  have "fold (\<lambda>i (c, f). if int i < int start then (mask_append_int E (int i) c, f) else (c, mask_append_int E (int i) f))
        [0..<k] ([], []) = (cores_text (filter (\<lambda>i. i < start) [0..<k]), cores_text (filter (\<lambda>i. \<not> i < start) [0..<k]))" if "k \<le> 42" for k
    using that
  proof (induction k)
    case (Suc k)
    have "length (cores_text (filter p [0..<k] @ [k])) < 256" for p
      using fits_two_digits [of "filter p [0..<k] @ [k]"] Suc.prems length_filter_le [of p "[0..<k]"]
      by (auto simp: list_all_iff)
    with Suc this [of "\<lambda>_. True"] show ?case by (simp add: mask_append_number)
  qed simp
  with assms show ?thesis by (simp add: die_masks_def)
qed

lemma is_core_in_filter: "n \<le> 42 \<Longrightarrow> is_core_in_mask c (cores_text (filter act [0..<n])) \<longleftrightarrow> (\<exists>i < n. c = int i \<and> act i)"
  using filter_upt_fits [of n act] by (subst is_core_in_cores) (auto simp: list_all_iff image_def)

text \<open>
  C39. The two masks of the page of cores, by die or by hand: read the way the window reads masks, the cache mask has exactly the
  chosen cores (those of the first die, or those pressed) and the frequency mask exactly the others.
\<close>

theorem affinity_masks_partition:
  assumes "n \<le> 42" "ccd_result E = Some (hw, int start, int n)" "0 < start" "t_cores T = core_grid n act"
    "level = 1 \<and> chosen = (\<lambda>i. i < start) \<or> 2 \<le> level \<and> chosen = act"
  shows "(is_core_in_mask c (fst (affinity_masks E T level)) \<longleftrightarrow> (\<exists>i < n. c = int i \<and> chosen i)) \<and>
    (is_core_in_mask c (snd (affinity_masks E T level)) \<longleftrightarrow> (\<exists>i < n. c = int i \<and> \<not> chosen i))"
proof -
  have "affinity_masks E T level = (cores_text (filter chosen [0..<n]), cores_text (filter (\<lambda>i. \<not> chosen i) [0..<n]))"
    using assms die_masks_cores [OF assms(1-3)] button_masks_cores [OF assms(1,4)] by (auto simp: affinity_masks_def)
  with assms(1) show ?thesis by (simp add: is_core_in_filter)
qed

theorem affinity_masks_partition_witness:
  "\<not> is_core_in_mask 9 (fst (affinity_masks (mem_env\<lparr>ccd_result := Some (''0-7'', 8, 16)\<rparr>) (plain_toolkit\<lparr>t_cores := core_grid 16 (\<lambda>i. even i)\<rparr>) 1)) \<and>
   is_core_in_mask 9 (snd (affinity_masks (mem_env\<lparr>ccd_result := Some (''0-7'', 8, 16)\<rparr>) (plain_toolkit\<lparr>t_cores := core_grid 16 (\<lambda>i. even i)\<rparr>) 1))"
  using affinity_masks_partition [of 16 "mem_env\<lparr>ccd_result := Some (''0-7'', 8, 16)\<rparr>" "''0-7''" 8
      "plain_toolkit\<lparr>t_cores := core_grid 16 (\<lambda>i. even i)\<rparr>" "\<lambda>i. even i" 1 "\<lambda>i. i < 8" 9]
  by (auto intro!: exI [of _ 9])

subsection \<open>What the grid shows\<close>

definition core_calls :: "string \<Rightarrow> nat \<Rightarrow> gtk_call list" where
  "core_calls msk i =
     [CoreAdd (core_label i) (int i mod 8) (int i div 8)] @
     (if is_core_in_mask (int i) msk then [CoreActive (core_label i), CssAdd (core_label i) ''x3d-accent''] else []) @
     [Connect (core_label i) ''toggled'' ''on_core_toggled'']"

lemma show_core_calls:
  assumes "i < 100"
  shows "screen (exec (show_core E msk i) u) = screen u @ core_calls msk i"
proof -
  have "length (core_label i) < 8" using length_core_label [OF assms] by simp
  then have "printf_sn E 8 ''%d'' [AInt (int i)] = core_label i"
    using assms by (simp add: printf_sn_def printf_simps core_label_def s32_id)
  then show ?thesis by (simp add: show_core_def core_calls_def gtk_def Let_def)
qed

lemma show_cores_calls: "k \<le> 100 \<Longrightarrow> screen (exec (forM [i..<k] (show_core E msk)) u) = screen u @ concat (map (core_calls msk) [i..<k])"
proof (induction "k - i" arbitrary: i u)
  case (Suc d)
  then have "[i..<k] = i # [Suc i..<k]" by (simp add: upt_rec)
  with Suc.hyps(1) [of "Suc i"] Suc.hyps(2) Suc.prems show ?case
    by (simp add: show_core_calls exec_bind del: run_state_bind)
qed simp

lemma grid_removed: "screen (exec (forM xs (\<lambda>i. gtk (GridRemove i))) u) = screen u @ map GridRemove xs"
  by (induction xs arbitrary: u) (simp_all add: gtk_def)

lemma cores_text_not_none: "cores_text is \<noteq> ''none''"
proof (cases "is")
  case (Cons i js)
  obtain c cs where l: "core_label i = c # cs" using core_label_digits(2) [of i] by (cases "core_label i") auto
  then have "is_digit c" using core_label_chars [of c i] by simp
  moreover have "take 1 (cores_text is) = [c]" using l Cons by (cases js) simp_all
  ultimately show ?thesis by (auto simp: is_digit_def uchar_def)
qed simp

lemma cstring_cores: "cstring (cores_text is)"
  by (induction "is" rule: cores_text.induct) (simp_all add: core_label_def cstr_simps)

lemma refresh_calls:
  assumes "ccd_result E = Some (hw, start, int n)" "''grid_topology'' \<in> set (bound u)" "n \<le> 100"
    "result (gui_config_get E T ''AFFINITY_MASK'') u = msk" "msk \<noteq> []" "strcmp msk ''none'' \<noteq> 0" "length msk \<le> 127"
  shows "screen (exec (refresh_topology E T) u) =
    screen u @ map GridRemove [0..<length (t_cores T)] @ concat (map (core_calls msk) [0..<n])"
proof -
  have "screen (exec (gui_config_get E T ''AFFINITY_MASK'') u) = screen u" by (simp add: gui_config_get_def)
  with assms show ?thesis
    by (simp add: refresh_topology_def exec_when_bound exec_bind Let_def grid_removed show_cores_calls del: run_state_bind)
qed



subsection \<open>A mask that is too long for the daemon\<close>

text \<open>
  The daemon keeps 63 characters of \<^verbatim>\<open>AFFINITY_MASK\<close>: of 32 pressed cores, the last ones come back as not pressed.
\<close>

lemma cores_text_32: "cores_text [0..<32] =
  ''0,1,2,3,4,5,6,7,8,9,10,11,12,13,14,15,16,17,18,19,20,21,22,23,24,25,26,27,28,29,30,31''"
  by code_simp

lemma cores_text_cut: "cores_text ([0..<24] @ [2]) = ''0,1,2,3,4,5,6,7,8,9,10,11,12,13,14,15,16,17,18,19,20,21,22,23,2''"
  by code_simp

lemma mask_cut: "\<not> is_core_in_mask 31 (fit 64 (cores_text [0..<32])) \<and> is_core_in_mask 31 (cores_text [0..<32])"
proof -
  have "fit 64 (cores_text [0..<32]) = cores_text ([0..<24] @ [2])"
    unfolding cores_text_32 cores_text_cut fit_def by simp
  then show ?thesis
    using is_core_in_filter [of 32 31 "\<lambda>_. True"] is_core_in_cores [of "[0..<24] @ [2]" 31]
      fits_two_digits [of "[0..<24] @ [2]"] by (auto simp: list_all_iff)
qed
end
