(* ===== verification/Gui_Calls.thy ===== *)
theory Gui_Calls
  imports Gui_Facts
begin

section \<open>What the callbacks of the window ask of the toolkit\<close>

text \<open>
  \<open>only P m\<close>: \<open>m\<close> appends to the calls of the toolkit only such that satisfy \<open>P\<close>, and binds widgets but unbinds none. The
  rules follow the structure of the callbacks; with them the calls of cancelling a page (in \<open>Gui_Daemon\<close>) and of applying after the window
  was built are read off.
\<close>

named_theorems only_rules "calls of the toolkit made by callbacks"

definition only :: "(gtk_call \<Rightarrow> bool) \<Rightarrow> ('w, 'a) g \<Rightarrow> bool" where
  "only P m \<longleftrightarrow> (\<forall>u. (\<exists>cs. screen (exec m u) = screen u @ cs \<and> list_all P cs) \<and> set (bound u) \<subseteq> set (bound (exec m u)))"

lemma only_bind [only_rules]: "only P m \<Longrightarrow> (\<And>x. only P (k x)) \<Longrightarrow> only P (State_Monad.bind m k)"
  unfolding only_def
proof
  fix u
  assume m: "\<forall>u. (\<exists>cs. screen (exec m u) = screen u @ cs \<and> list_all P cs) \<and> set (bound u) \<subseteq> set (bound (exec m u))"
    and k: "\<And>x. \<forall>u. (\<exists>cs. screen (exec (k x) u) = screen u @ cs \<and> list_all P cs) \<and> set (bound u) \<subseteq> set (bound (exec (k x) u))"
  obtain cs where cs: "screen (exec m u) = screen u @ cs" "list_all P cs" "set (bound u) \<subseteq> set (bound (exec m u))"
    using m by blast
  let ?v = "exec (k (result m u)) (exec m u)"
  obtain ds where ds: "screen ?v = screen (exec m u) @ ds" "list_all P ds" "set (bound (exec m u)) \<subseteq> set (bound ?v)"
    using k by blast
  show "(\<exists>cs. screen (exec (State_Monad.bind m k) u) = screen u @ cs \<and> list_all P cs) \<and>
      set (bound u) \<subseteq> set (bound (exec (State_Monad.bind m k) u))"
    using cs ds by (auto simp: exec_bind simp del: run_state_bind intro!: exI [of _ "cs @ ds"])
qed

lemma only_basic [only_rules]:
  "only P (ret x)" "only P (gets f)" "only P (run_prog p)" "only P (bind_widget i)" "only P (connect i h)"
  "only P (modify (\<lambda>u. u\<lparr>config_dirty := fb u\<rparr>))" "only P (modify (\<lambda>u. u\<lparr>config_ignoring_changes := fb u\<rparr>))"
  "only P (modify (\<lambda>u. u\<lparr>g_selected_mode := fo u\<rparr>))" "only P (modify (\<lambda>u. u\<lparr>daemon_retry_cooldown := fi u\<rparr>))"
  by (auto simp: only_def bind_widget_def connect_def)

lemma only_gtk [only_rules]: "P c \<Longrightarrow> only P (gtk c)"
  by (simp add: only_def gtk_def)

lemma only_control [only_rules]:
  "(b \<Longrightarrow> only P m) \<Longrightarrow> (\<not> b \<Longrightarrow> only P m') \<Longrightarrow> only P (if b then m else m')"
  "(x = None \<Longrightarrow> only P n) \<Longrightarrow> (\<And>y. x = Some y \<Longrightarrow> only P (f y)) \<Longrightarrow> only P (case x of None \<Rightarrow> n | Some y \<Rightarrow> f y)"
  "(\<And>y z. w = (y, z) \<Longrightarrow> only P (h y z)) \<Longrightarrow> only P (case w of (y, z) \<Rightarrow> h y z)"
  "only P (l v) \<Longrightarrow> only P (let y = v in l y)"
  by (auto split: option.splits prod.splits)

lemma only_forM [only_rules]: "(\<And>x. x \<in> set xs \<Longrightarrow> only P (f x)) \<Longrightarrow> only P (forM xs f)"
  by (induction xs) (auto intro!: only_rules)

lemma only_when_bound [only_rules]: "only P m \<Longrightarrow> only P (when_bound i m)"
  unfolding when_bound_def by (intro only_rules)

lemma only_send [only_rules]: "only P (config_send E key v)" "only P (gui_cmd E cmd)" "only P (gui_config_get E T key)"
  unfolding config_send_def gui_cmd_def gui_config_get_def by (intro only_rules)+

text \<open>Calls that set the value of a widget, and callbacks that make none of them.\<close>

definition sets_value :: "gtk_call \<Rightarrow> bool" where
  "sets_value c \<longleftrightarrow> (case c of SwitchSet i b \<Rightarrow> True | DropSet i n \<Rightarrow> True | RangeSet i r \<Rightarrow> True | SpinSet i n \<Rightarrow> True
     | TextSet i v \<Rightarrow> True | _ \<Rightarrow> False)"

definition free_calls :: "(gtk_call \<Rightarrow> bool) \<Rightarrow> bool" where
  "free_calls P \<longleftrightarrow> (\<forall>c. \<not> sets_value c \<longrightarrow> P c)"

lemma only_free [only_rules]:
  assumes "free_calls P"
  shows "only P (set_config_dirty d)" "only P on_setting_changed" "only P (refresh_topology E T)"
    "only P (on_nav_row_selected E T r)" "only P (choose_row E T name)" "only P (select_row E T name)" "only P (leave_page E T pages)"
    "only P (run_change E T active h)" "only P (changed E T i active)"
proof -
  have free: "P c" if "\<not> sets_value c" for c using assms that by (simp add: free_calls_def)
  show dirty: "only P (set_config_dirty d)" for d
    unfolding set_config_dirty_def by (intro only_rules free) (simp_all add: sets_value_def)
  show setting: "only P on_setting_changed"
    unfolding on_setting_changed_def by (intro only_rules dirty)
  show refresh: "only P (refresh_topology E T)"
    unfolding refresh_topology_def show_core_def by (intro only_rules free; simp add: sets_value_def)
  show nav: "only P (on_nav_row_selected E T r)" for r
    unfolding on_nav_row_selected_def by (intro only_rules free refresh; simp add: sets_value_def)
  show row: "only P (choose_row E T name)" for name
    unfolding choose_row_def by (intro only_rules free nav; simp add: sets_value_def)
  show sel: "only P (select_row E T name)" for name
    unfolding select_row_def by (intro only_rules row)
  show leave: "only P (leave_page E T pages)" for pages
    unfolding leave_page_def by (intro only_rules free sel; simp add: sets_value_def)
  have dev: "only P (on_dev_enable_toggled E T active)" for active
    unfolding on_dev_enable_toggled_def by (intro only_rules free leave; simp add: sets_value_def)
  have adv: "only P (on_advanced_enable_toggled E T active)" for active
    unfolding on_advanced_enable_toggled_def by (intro only_rules free leave; simp add: sets_value_def)
  show change: "only P (run_change E T active h)" for active h
    by (cases h) (simp_all add: run_change_def dev adv setting)
  show "only P (changed E T i active)"
    unfolding changed_def by (intro only_rules change)
qed

lemma only_emit:
  assumes "free_calls P"
  shows "P (SwitchSet i b) \<Longrightarrow> only P (set_switch E T i b)" "P (DropSet i n) \<Longrightarrow> only P (set_drop E T i n)"
    "P (RangeSet i r) \<Longrightarrow> only P (set_range E T i r)" "P (SpinSet i z) \<Longrightarrow> only P (set_spin E T i z)"
    "P (TextSet i v) \<Longrightarrow> only P (set_text E T i v)"
  unfolding set_switch_def set_drop_def set_range_def set_spin_def set_text_def emit_def
  by (intro only_rules assms; simp)+

subsection \<open>Values that a widget gets back\<close>

lemma only_get:
  assumes "\<And>u. result (gui_config_get E T key) u = v" "only P (k v)"
  shows "only P (State_Monad.bind (gui_config_get E T key) k)"
proof -
  have "screen (exec (gui_config_get E T key) u) = screen u" "bound (exec (gui_config_get E T key) u) = bound u" for u
    by (simp_all add: gui_config_get_def)
  with assms show ?thesis by (simp add: only_def exec_bind del: run_state_bind) metis
qed

lemma std_atoi_itoa:
  assumes "- (2 ^ 31) \<le> n" "n < 2 ^ 31"
  shows "std_atoi (xui_itoa 10 n) = n"
proof -
  have "xui_itoa 10 n \<noteq> []" by (rule xui_itoa_shape [of n]) auto
  then obtain c cs where l: "xui_itoa 10 n = c # cs" by (cases "xui_itoa 10 n") auto
  then have "is_digit c \<or> c = CHR ''-''" using xui_itoa_chars [of c n] by simp
  then have "\<not> isspace c" by (auto simp: isspace_def is_digit_def uchar_def)
  with l have "dropWhile isspace (xui_itoa 10 n) = xui_itoa 10 n" by simp
  moreover have "l_val (strtol (xui_itoa 10 n) 10) = n"
    using strtol_itoa [of "[]" n] assms by (simp add: LONG_MIN_def LONG_MAX_def)
  ultimately show ?thesis using assms by (simp add: std_atoi_def s32_id)
qed

lemma std_atoi_flag: "std_atoi (flag b) \<noteq> 0 \<longleftrightarrow> b"
proof -
  have "digit_char 1 = CHR ''1''" by code_simp
  then have "utoa_loop 10 (Suc 0) = ''1''" by (subst utoa_loop.simps) (simp add: utoa_loop_Nil)
  then have "std_atoi ''1'' = 1" "std_atoi ''0'' = 0"
    using std_atoi_itoa [of 1] std_atoi_itoa [of 0] by (simp_all add: xui_itoa_def)
  then show ?thesis by (simp add: flag_def)
qed

lemma std_atof_itoa: "std_atof (xui_itoa 10 n) = of_int n"
proof -
  obtain sg ds where l: "xui_itoa 10 n = sg @ ds" "digits ds" "ds \<noteq> []" "sg \<in> {[], ''-''}" "signed_value sg ds = n"
    by (rule xui_itoa_shape)
  obtain c cs where ds: "ds = c # cs" using l(3) by (cases ds) auto
  with l(2) have c: "is_digit c" by simp
  then have nc: "\<not> isspace c" "c \<noteq> CHR ''-''" "c \<noteq> CHR ''+''" by (auto simp: isspace_def is_digit_def uchar_def)
  have dg: "takeWhile is_digit ds = ds" "dropWhile is_digit ds = []"
    using l(2) by (auto simp: digits_def takeWhile_eq_all_conv dropWhile_eq_Nil_conv)
  have minus: "\<not> isspace (CHR ''-'')" by (simp add: isspace_def)
  have sign: "strtol_sign (dropWhile isspace (sg @ ds)) = (sg = ''-'', ds)"
    using l(4) ds nc minus by (auto simp: strtol_sign_def)
  have "std_atof (sg @ ds) = (if sg = ''-'' then - of_nat (dec_value ds) else of_nat (dec_value ds))"
    using l(3) by (simp add: std_atof_def sign dg std_exponent_def Let_def)
  also have "\<dots> = of_int (signed_value sg ds)" by (simp add: signed_value_def)
  finally show ?thesis using l(1,5) by simp
qed

lemma find_dropdown_same:
  assumes "n < length vals" "distinct vals" "list_all cstring vals"
  shows "find_dropdown_idx vals (table_text E vals n) = n"
proof -
  have "find (\<lambda>i. strcmp (vals ! i) (vals ! n) = 0) [0..<length vals] = Some n"
    using assms by (auto simp: find_Some_iff list_all_length nth_eq_iff_index_eq intro!: exI [of _ n])
  then show ?thesis using assms(1) by (simp add: find_dropdown_idx_def table_text_def)
qed

lemma tables_distinct:
  "distinct daemon_state_vals" "list_all cstring daemon_state_vals" "distinct fallback_vals" "list_all cstring fallback_vals"
  "distinct server_ssh_vals" "list_all cstring server_ssh_vals"
  by (simp_all add: daemon_state_vals_def fallback_vals_def server_ssh_vals_def cstr_simps)

subsection \<open>The builder after its release\<close>

text \<open>Fragments of which it only matters that they append calls and unbind nothing.\<close>

abbreviation grows :: "('w, 'a) g \<Rightarrow> bool" where
  "grows m \<equiv> only (\<lambda>_. True) m"

lemma free_all [only_rules]: "free_calls (\<lambda>_. True)"
  by (simp add: free_calls_def)

lemma grows_set [only_rules]:
  "grows (set_switch E T i b)" "grows (set_drop E T i n)" "grows (set_range E T i r)" "grows (set_spin E T i z)"
  "grows (set_text E T i v)"
  by (rule only_emit [OF free_all]; simp)+

lemma grows_object [only_rules]: "grows (get_object T i)" "grows m \<Longrightarrow> grows (with_object T i m)" "grows m \<Longrightarrow> grows (fill_widget T i m)"
  "grows (fetch T i)" "grows (bind_button T i h)" "grows (bind_main_button T i h)"
  unfolding get_object_def with_object_def fill_widget_def fetch_def bind_button_def bind_main_button_def
  by (intro only_rules TrueI | assumption)+

lemma grows_restore [only_rules]:
  "grows (restore_switch E T i key)" "grows (restore_spin E T i key)" "grows (restore_range E T i key)"
  "grows (restore_text E T i key)" "grows (restore_choice E T i key vals)" "grows (restore_keep E T)"
  "(\<And>v. grows (f v)) \<Longrightarrow> grows (fill_server E T i key f)"
  unfolding restore_switch_def restore_spin_def restore_range_def restore_text_def restore_choice_def restore_keep_def fill_server_def
  by (intro only_rules | assumption)+

lemma grows_bind [only_rules]:
  "grows (bind_choice E T i key vals)" "grows (bind_range E T i key)" "grows (bind_switch E T i key)"
  "grows (bind_group E T i key h rows)" "grows (bind_local_choice E T i key vals)"
  unfolding bind_choice_def bind_range_def bind_switch_def bind_group_def bind_local_choice_def
  by (intro only_rules TrueI)+

lemma grows_pages [only_rules]:
  "grows (bind_general E T)" "grows (bind_lint E T)" "grows (bind_journal E T)" "grows (bind_server E T)" "grows (bind_advanced E T)"
  unfolding bind_general_def bind_lint_def bind_journal_def bind_server_def bind_advanced_def
  by (intro only_rules TrueI free_all)+

lemma grows_ignoring [only_rules]: "grows m \<Longrightarrow> grows (ignoring_changes m)"
  unfolding ignoring_changes_def by (intro only_rules)

lemma grows_binding: "grows (ignoring_changes (do {
       bind_general E T;
       forM irq_switches (\<lambda>(i, key). bind_switch E T i key);
       bind_lint E T;
       bind_journal E T;
       bind_server E T;
       bind_main_button T ''btn_cfg_apply'' ''on_cfg_apply_clicked'';
       bind_button T ''btn_irq_apply'' ''on_irq_apply_clicked'';
       bind_button T ''btn_irq_status'' ''on_irq_status_clicked'';
       bind_main_button T ''btn_cfg_cancel'' ''on_cfg_cancel_clicked'';
       bind_advanced E T;
       forM capability_rows (\<lambda>i. with_object T i (bind_widget i));
       bind_switch E T ''cfg_force_unsupported'' ''FORCE_UNSUPPORTED_DISPLAY''
     }))"
  by (intro only_rules)

lemma grows_start [only_rules]:
  "grows (update_extras_view T n)" "grows load_window" "grows (build_sidebar E T)" "grows (bind_modes E T)"
  "grows (update_dashboard_cb E T)"
proof -
  show extras: "grows (update_extras_view T n)" for n
    unfolding update_extras_view_def by (auto intro!: only_rules split: sum.split option.split)
  show "grows load_window" "grows (bind_modes E T)"
    unfolding load_window_def bind_modes_def Let_def by (intro only_rules TrueI)+
  show "grows (build_sidebar E T)"
    unfolding build_sidebar_def add_nav_row_def
    by (intro only_rules TrueI extras) (auto intro!: only_rules free_all split: list.split option.split)
  show "grows (update_dashboard_cb E T)"
    unfolding update_dashboard_cb_def show_dashboard_def revive_daemon_def show_caps_def Let_def by (intro only_rules TrueI)
qed

text \<open>A call that is certainly made, once the widgets in \<open>J\<close> are bound.\<close>

definition emits :: "string set \<Rightarrow> gtk_call \<Rightarrow> ('w, 'a) g \<Rightarrow> bool" where
  "emits J c m \<longleftrightarrow> (\<forall>u. J \<subseteq> set (bound u) \<longrightarrow> (\<exists>xs ys. screen (exec m u) = screen u @ xs @ c # ys))"

lemma emits_gtk: "emits J c (gtk c)"
  by (auto simp: emits_def gtk_def intro!: exI [of _ "[]"])

lemma emits_later:
  assumes "grows m" "\<And>x. emits J c (k x)"
  shows "emits J c (State_Monad.bind m k)"
  unfolding emits_def exec_bind
proof (intro allI impI)
  fix u :: "'a gui" assume J: "J \<subseteq> set (bound u)"
  obtain cs where "screen (exec m u) = screen u @ cs" "set (bound u) \<subseteq> set (bound (exec m u))"
    using assms(1) unfolding only_def by blast
  moreover from this(2) J assms(2) obtain xs ys where
    "screen (exec (k (result m u)) (exec m u)) = screen (exec m u) @ xs @ c # ys"
    unfolding emits_def by blast
  ultimately have "screen (exec (k (result m u)) (exec m u)) = screen u @ (cs @ xs) @ c # ys" by simp
  then show "\<exists>xs ys. screen (exec (k (result m u)) (exec m u)) = screen u @ xs @ c # ys" by blast
qed

lemma emits_first:
  assumes "emits J c m" "\<And>x. grows (k x)"
  shows "emits J c (State_Monad.bind m k)"
  unfolding emits_def exec_bind
proof (intro allI impI)
  fix u :: "'a gui" assume J: "J \<subseteq> set (bound u)"
  obtain xs ys where "screen (exec m u) = screen u @ xs @ c # ys" using assms(1) J unfolding emits_def by blast
  moreover obtain cs where "screen (exec (k (result m u)) (exec m u)) = screen (exec m u) @ cs"
    using assms(2) unfolding only_def by blast
  ultimately have "screen (exec (k (result m u)) (exec m u)) = screen u @ xs @ c # (ys @ cs)" by simp
  then show "\<exists>xs ys. screen (exec (k (result m u)) (exec m u)) = screen u @ xs @ c # ys" by blast
qed

lemma emits_when_bound: "i \<in> J \<Longrightarrow> emits J c m \<Longrightarrow> emits J c (when_bound i m)"
  unfolding emits_def by (metis exec_when_bound subset_eq)

lemma grows_config_bind [only_rules]: "grows (config_bind E T)"
  unfolding config_bind_def by (intro only_rules grows_binding)

lemma emits_unref: "emits {} BuilderUnref (on_app_activate E T)"
  unfolding on_app_activate_def
  by (rule emits_first [OF emits_gtk] | rule emits_later | intro only_rules TrueI)+

text \<open>A widget that is certainly bound.\<close>

definition binds :: "string \<Rightarrow> ('w, 'a) g \<Rightarrow> bool" where
  "binds i m \<longleftrightarrow> (\<forall>u. i \<in> set (bound (exec m u)))"

lemma binds_widget: "binds i (bind_widget i)"
  by (simp add: binds_def bind_widget_def)

lemma binds_later: "(\<And>x. binds i (k x)) \<Longrightarrow> binds i (State_Monad.bind m k)"
  unfolding binds_def exec_bind by blast

lemma binds_first: "binds i m \<Longrightarrow> (\<And>x. grows (k x)) \<Longrightarrow> binds i (State_Monad.bind m k)"
  unfolding binds_def only_def exec_bind by blast

lemma binds_builder: "binds ''g_builder'' (on_app_activate E T)"
proof -
  have "binds ''g_builder'' (config_bind E T)"
    unfolding config_bind_def by (rule binds_first [OF binds_widget]) (intro only_rules grows_binding)
  note conf = binds_first [OF this]
  show ?thesis
    unfolding on_app_activate_def by (rule conf | rule binds_later | intro only_rules TrueI)+
qed

lemma grows_apply [only_rules]:
  "grows (send_switch E T i key)" "grows (send_number E T i key)" "grows (send_choice E T i key vals)" "grows (send_server E T i key)"
  unfolding send_switch_def send_number_def send_choice_def send_server_def by (intro only_rules)+

lemma emits_lint: "emits {''g_builder''} (BuilderGet ''cfg_lint_clang_diagnostic'') (on_cfg_apply_clicked E T)"
proof -
  let ?c = "BuilderGet ''cfg_lint_clang_diagnostic''"
  let ?f = "\<lambda>(i, key). do {
       lw \<leftarrow> get_object T i;
       if lw then config_send E key (if t_switch T i then ''enabled'' else ''disabled'') else ret ()
     }"
  have "emits {''g_builder''} ?c (?f (''cfg_lint_clang_diagnostic'', key))" for key
    unfolding get_object_def split by (rule emits_first, rule emits_first [OF emits_gtk]) (intro only_rules)+
  then have "emits {''g_builder''} ?c (forM ((''cfg_lint_clang_diagnostic'', key) # xs) ?f)" for key xs
    unfolding forM.simps by (rule emits_first) (intro only_rules)
  from this [of "''LINT_CLANG_DIAGNOSTIC''" "tl lint_switches"] have "emits {''g_builder''} ?c (forM lint_switches ?f)"
    by (simp only: lint_switches_def list.sel)
  then have lint: "emits {''g_builder''} ?c (when_bound ''g_builder'' (forM lint_switches ?f))"
    by (rule emits_when_bound [OF singletonI])
  show ?thesis
    unfolding on_cfg_apply_clicked_def Let_def
    by (rule emits_first [OF lint] | rule emits_later | intro only_rules TrueI)+
qed

text \<open>
  The builder is used after it was released: building the window gives up the only reference to the builder, and
  applying the configuration page asks it for the linter switches all the same, whatever the user did to the widgets.
\<close>

theorem builder_used_after_release:
  "\<exists>xs ys zs. screen (exec (on_cfg_apply_clicked E T') (exec (on_app_activate E T) u)) =
     screen u @ xs @ BuilderUnref # ys @ BuilderGet ''cfg_lint_clang_diagnostic'' # zs"
proof -
  obtain xs ys where "screen (exec (on_app_activate E T) u) = screen u @ xs @ BuilderUnref # ys"
    using emits_unref [of E T, unfolded emits_def, rule_format, of u] by auto
  moreover obtain as zs where "screen (exec (on_cfg_apply_clicked E T') (exec (on_app_activate E T) u)) =
      screen (exec (on_app_activate E T) u) @ as @ BuilderGet ''cfg_lint_clang_diagnostic'' # zs"
    using emits_lint [of E T', unfolded emits_def, rule_format] binds_builder [of E T, unfolded binds_def, rule_format, of u]
    by (metis empty_subsetI insert_subset)
  ultimately show ?thesis by (intro exI [of _ xs] exI [of _ "ys @ as"] exI [of _ zs]) simp
qed

end
