(* ===== verification/Irq_Facts.thy ===== *)
theory Irq_Facts
  imports Irq
begin

section \<open>What the interrupt commands do\<close>

text \<open>
  Discovery computes a plain list expression; saving and restoring the masks is the identity on a kernel that treats the affinity
  nodes of \<^verbatim>\<open>/proc/irq\<close> as documented; two ways in which the commands do not undo what they did.
\<close>

subsection \<open>Discovery\<close>

definition line_irqs :: "string \<Rightarrow> string list \<Rightarrow> int list" where
  "line_irqs token ls = filter (\<lambda>n. n > 0) (map atoi (filter (\<lambda>l. has l token) ls))"

lemma discover_fold:
  "length acc \<le> b \<Longrightarrow> fold_while (\<lambda>irqs. length irqs < b) (irq_line token) ls acc = take b (acc @ line_irqs token ls)"
proof (induction ls arbitrary: acc)
  case Nil
  then show ?case by (simp add: line_irqs_def)
next
  case (Cons l ls)
  show ?case
  proof (cases "length acc < b")
    case True
    then have "b - length acc = Suc (b - Suc (length acc))" by simp
    with True show ?thesis using Cons.IH [of "irq_line token l acc"] by (auto simp: irq_line_def line_irqs_def)
  next
    case False
    with Cons.prems show ?thesis by simp
  qed
qed

text \<open>
  C37. The interrupts a driver is bound with are exactly those the kernel lists: the numbers at the head of the lines of
  \<^verbatim>\<open>/proc/interrupts\<close> (as far as the buffer of 8191 bytes holds them) that name the driver, in order, without the lines that do not begin with a
  positive number, and at most the 64 that fit the array.
\<close>

theorem discover_irqs_list:
  "result (discover_irqs E token) s =
     (case result (read_interrupts E) s of
        None \<Rightarrow> [] | Some buf \<Rightarrow> take 64 (filter (\<lambda>n. n > 0) (map atoi (filter (\<lambda>l. has l token) (c_lines buf)))))"
  using discover_fold [of "[]" IRQ_MAX_VECTORS token]
  by (auto simp: discover_irqs_def while_lines_fold IRQ_MAX_VECTORS_def line_irqs_def result_bind
      simp del: run_state_bind split: option.split)

subsection \<open>The kernel's affinity nodes\<close>

text \<open>
  What the masks rely on, as documented for \<^verbatim>\<open>/proc/irq\<close> and for regular files: a node and an existing file can be opened, a read at the
  start delivers the contents, a write to a node replaces its mask and reads back with a newline, a new file below the
  program's directory is empty and holds what is written to it. \<open>fs\<close> and \<open>pos\<close> are contents and descriptors as for regular files.
\<close>

definition irq_node :: "path \<Rightarrow> bool" where
  "irq_node p \<longleftrightarrow> prefix ''/proc/irq/'' p"

definition irq_opens :: "'w env \<Rightarrow> 'w files \<Rightarrow> 'w descriptors \<Rightarrow> bool" where
  "irq_opens E fs pos \<longleftrightarrow>
     (\<forall>w p fl md. fs w p \<noteq> None \<longrightarrow> fl \<in> plain_flags \<longrightarrow>
        (\<exists>fd w'. kernel E (SysOpen p fl md) w = (Ret fd, w') \<and> 0 \<le> fd \<and> fd < 2 ^ 31 \<and>
           pos w' = (pos w)(fd \<mapsto> (p, 0)) \<and> fs w' = fs w)) \<and>
     (\<forall>w p md. prefix IRQ_STATE_DIR p \<longrightarrow>
        (\<exists>fd w'. kernel E (SysOpen p (O_WRONLY + O_CREAT + O_TRUNC) md) w = (Ret fd, w') \<and> 0 \<le> fd \<and> fd < 2 ^ 31 \<and>
           pos w' = (pos w)(fd \<mapsto> (p, 0)) \<and> fs w' = (fs w)(p \<mapsto> [])))"

definition irq_writes :: "'w env \<Rightarrow> 'w files \<Rightarrow> 'w descriptors \<Rightarrow> bool" where
  "irq_writes E fs pos \<longleftrightarrow>
     (\<forall>w fd d p c. pos w fd = Some (p, 0) \<longrightarrow> fs w p = Some c \<longrightarrow> irq_node p \<or> c = [] \<longrightarrow>
        (\<exists>w'. kernel E (SysWrite fd d) w = (Ret (int (length d)), w') \<and>
           fs w' = (fs w)(p \<mapsto> (if irq_node p then d @ [NL] else d))))"

definition irq_names :: "'w env \<Rightarrow> 'w files \<Rightarrow> bool" where
  "irq_names E fs \<longleftrightarrow>
     (\<forall>w p md. fs (snd (kernel E (SysMkdir p md) w)) = fs w) \<and>
     (\<forall>w p. prefix IRQ_STATE_DIR p \<longrightarrow> fs (snd (kernel E (SysUnlink p) w)) = (fs w)(p := None))"

definition irq_kernel :: "'w env \<Rightarrow> 'w files \<Rightarrow> 'w descriptors \<Rightarrow> bool" where
  "irq_kernel E fs pos \<longleftrightarrow> irq_opens E fs pos \<and> reads_files E fs pos \<and> closes_files E fs pos \<and> irq_writes E fs pos \<and> irq_names E fs"

definition mask_text :: "string \<Rightarrow> bool" where
  "mask_text m \<longleftrightarrow> m \<noteq> [] \<and> length m < 63 \<and> cstring m \<and> last m \<noteq> NL \<and> last m \<noteq> CR"

lemma irq_opened:
  assumes "irq_kernel E fs pos" "fs w p = Some c" "fl \<in> plain_flags"
  obtains fd w' where "kernel E (SysOpen p fl md) w = (Ret fd, w')" "0 \<le> fd" "fd < 2 ^ 31" "pos w' fd = Some (p, 0)" "fs w' = fs w"
proof -
  have "irq_opens E fs pos" using assms(1) by (simp add: irq_kernel_def)
  then have "fs w p \<noteq> None \<longrightarrow> fl \<in> plain_flags \<longrightarrow> (\<exists>fd w'. kernel E (SysOpen p fl md) w = (Ret fd, w') \<and> 0 \<le> fd \<and> fd < 2 ^ 31 \<and>
      pos w' = (pos w)(fd \<mapsto> (p, 0)) \<and> fs w' = fs w)" unfolding irq_opens_def by blast
  then show ?thesis using assms(2,3) that by auto
qed

lemma irq_created:
  assumes "irq_kernel E fs pos" "prefix IRQ_STATE_DIR p"
  obtains fd w' where "kernel E (SysOpen p (O_WRONLY + O_CREAT + O_TRUNC) md) w = (Ret fd, w')" "0 \<le> fd" "fd < 2 ^ 31"
    "pos w' fd = Some (p, 0)" "fs w' = (fs w)(p \<mapsto> [])"
proof -
  have "irq_opens E fs pos" using assms(1) by (simp add: irq_kernel_def)
  then have "prefix IRQ_STATE_DIR p \<longrightarrow> (\<exists>fd w'. kernel E (SysOpen p (O_WRONLY + O_CREAT + O_TRUNC) md) w = (Ret fd, w') \<and>
      0 \<le> fd \<and> fd < 2 ^ 31 \<and> pos w' = (pos w)(fd \<mapsto> (p, 0)) \<and> fs w' = (fs w)(p \<mapsto> []))" unfolding irq_opens_def by blast
  then show ?thesis using assms(2) that by auto
qed

lemma irq_read:
  assumes "irq_kernel E fs pos" "pos w fd = Some (p, 0)" "fs w p = Some c"
  obtains w' where "kernel E (SysRead fd n) w = (Data (take n c), w')" "fs w' = fs w"
proof -
  have "reads_files E fs pos" using assms(1) by (simp add: irq_kernel_def)
  from this [unfolded reads_files_def, rule_format, OF assms(2,3), of n] show ?thesis using that by auto
qed

lemma irq_written:
  assumes "irq_kernel E fs pos" "pos w fd = Some (p, 0)" "fs w p = Some c" "irq_node p \<or> c = []"
  obtains w' where "kernel E (SysWrite fd d) w = (Ret (int (length d)), w')" "fs w' = (fs w)(p \<mapsto> (if irq_node p then d @ [NL] else d))"
proof -
  have "irq_writes E fs pos" using assms(1) by (simp add: irq_kernel_def)
  from this [unfolded irq_writes_def, rule_format, OF assms(2,3,4), of d] show ?thesis using that by auto
qed

lemma irq_closed:
  assumes "irq_kernel E fs pos"
  obtains w' z where "kernel E (SysClose fd) w = (Ret z, w')" "fs w' = fs w"
  using assms that unfolding irq_kernel_def closes_files_def by meson

lemmas irq_runs = c_mkdir_def c_open_def c_read_def c_write_def c_close_def c_unlink_def run_sys_int run_sys_errno failed_def filled_def s32_id Let_def

lemma hoare_read_line:
  assumes K: "irq_kernel E fs pos" and F: "F p = Some c" and c: "c = m \<or> c = m @ [NL]" "mask_text m"
  shows "hoare (\<lambda>s. fs (world s) = F) (read_file_line E p 64) (\<lambda>r s. r = Some m \<and> fs (world s) = F)"
  unfolding hoare_def
proof (intro allI impI)
  fix s :: "'a prog" assume s: "fs (world s) = F"
  have "fs (world s) p = Some c" "O_RDONLY \<in> plain_flags" using s F by (simp_all add: plain_flags_def)
  then obtain fd w1 where o: "kernel E (SysOpen p O_RDONLY 0) (world s) = (Ret fd, w1)" "0 \<le> fd" "fd < 2 ^ 31"
    "pos w1 fd = Some (p, 0)" "fs w1 = fs (world s)" by (rule irq_opened [OF K])
  have "fs w1 p = Some c" using o(5) s F by simp
  with o(4) obtain w2 where r: "kernel E (SysRead fd 63) w1 = (Data (take 63 c), w2)" "fs w2 = fs w1" by (rule irq_read [OF K])
  obtain w3 z where cl: "kernel E (SysClose fd) w2 = (Ret z, w3)" "fs w3 = fs w2" by (rule irq_closed [OF K])
  have t: "take 63 c = c" "c \<noteq> []" using c by (auto simp: mask_text_def)
  have "dropWhile (\<lambda>c. c = NL \<or> c = CR) (rev m) = rev m"
    using c(2) by (cases m rule: rev_cases) (auto simp: mask_text_def)
  then have "cstr (rev (dropWhile (\<lambda>c. c = NL \<or> c = CR) (rev c))) = m" using c by (auto simp: mask_text_def)
  with o r cl t s show "result (read_file_line E p 64) s = Some m \<and> fs (world (exec (read_file_line E p 64) s)) = F"
    by (simp add: read_file_line_def irq_runs)
qed

lemma hoare_write_node:
  assumes K: "irq_kernel E fs pos" and F: "F p = Some c" "irq_node p" and d: "d \<noteq> []"
  shows "hoare (\<lambda>s. fs (world s) = F) (write_file E p d) (\<lambda>r s. r = 0 \<and> fs (world s) = F(p \<mapsto> d @ [NL]))"
  unfolding hoare_def
proof (intro allI impI)
  fix s :: "'a prog" assume s: "fs (world s) = F"
  have "fs (world s) p = Some c" "O_WRONLY \<in> plain_flags" using s F by (simp_all add: plain_flags_def)
  then obtain fd w1 where o: "kernel E (SysOpen p O_WRONLY 0) (world s) = (Ret fd, w1)" "0 \<le> fd" "fd < 2 ^ 31"
    "pos w1 fd = Some (p, 0)" "fs w1 = fs (world s)" by (rule irq_opened [OF K])
  have "fs w1 p = Some c" "irq_node p \<or> c = []" using o(5) s F by simp_all
  with o(4) obtain w2 where r: "kernel E (SysWrite fd d) w1 = (Ret (int (length d)), w2)"
    "fs w2 = (fs w1)(p \<mapsto> (if irq_node p then d @ [NL] else d))" by (rule irq_written [OF K])
  obtain w3 z where cl: "kernel E (SysClose fd) w2 = (Ret z, w3)" "fs w3 = fs w2" by (rule irq_closed [OF K])
  from o r cl d s F(2) show "result (write_file E p d) s = 0 \<and> fs (world (exec (write_file E p d) s)) = F(p \<mapsto> d @ [NL])"
    by (simp add: write_file_def irq_runs)
qed

definition save_text :: "'w env \<Rightarrow> string \<Rightarrow> string \<Rightarrow> ('w, unit) m" where
  "save_text E p d = do {
     c_mkdir E IRQ_STATE_DIR 493;
     fd \<leftarrow> c_open E p (O_WRONLY + O_CREAT + O_TRUNC) 420;
     if fd \<ge> 0 then do { c_write E fd d; c_close E fd; ret () } else ret ()
   }"

lemma hoare_save_text:
  assumes K: "irq_kernel E fs pos" and p: "prefix IRQ_STATE_DIR p" "\<not> irq_node p"
  shows "hoare (\<lambda>s. fs (world s) = F) (save_text E p d) (\<lambda>_ s. fs (world s) = F(p \<mapsto> d))"
  unfolding hoare_def
proof (intro allI impI)
  fix s :: "'a prog" assume s: "fs (world s) = F"
  let ?w0 = "snd (kernel E (SysMkdir IRQ_STATE_DIR 493) (world s))"
  have w0: "fs ?w0 = F" using K s by (simp add: irq_kernel_def irq_names_def)
  from p(1) obtain fd w1 where o: "kernel E (SysOpen p (O_WRONLY + O_CREAT + O_TRUNC) 420) ?w0 = (Ret fd, w1)" "0 \<le> fd" "fd < 2 ^ 31"
    "pos w1 fd = Some (p, 0)" "fs w1 = (fs ?w0)(p \<mapsto> [])" by (rule irq_created [OF K])
  have "fs w1 p = Some []" "irq_node p \<or> [] = []" using o(5) by simp_all
  with o(4) obtain w2 where r: "kernel E (SysWrite fd d) w1 = (Ret (int (length d)), w2)"
    "fs w2 = (fs w1)(p \<mapsto> (if irq_node p then d @ [NL] else d))" by (rule irq_written [OF K])
  obtain w3 z where cl: "kernel E (SysClose fd) w2 = (Ret z, w3)" "fs w3 = fs w2" by (rule irq_closed [OF K])
  from o r cl w0 p(2) show "fs (world (exec (save_text E p d) s)) = F(p \<mapsto> d)"
    by (simp add: save_text_def irq_runs)
qed

subsection \<open>Paths\<close>

definition irq_range :: "int \<Rightarrow> bool" where
  "irq_range i \<longleftrightarrow> - (2 ^ 31) \<le> i \<and> i < 2 ^ 31"

lemma irq_paths:
  assumes "irq_range i"
  shows "affinity_node E i = ''/proc/irq/'' @ xui_itoa 10 i @ ''/smp_affinity_list''"
    and "orig_file E i = ''/run/x3d-toggle/irq_orig_'' @ xui_itoa 10 i"
proof -
  have v: "s32 i = i" "length (xui_itoa 10 i) \<le> 11" using assms by (auto simp: irq_range_def intro: s32_id itoa_length)
  then show "affinity_node E i = ''/proc/irq/'' @ xui_itoa 10 i @ ''/smp_affinity_list''"
    by (simp add: affinity_node_def printf_sn_def printf_vsn_render fmt_simps)
  show "orig_file E i = ''/run/x3d-toggle/irq_orig_'' @ xui_itoa 10 i"
    using v by (simp add: orig_file_def IRQ_STATE_DIR_def printf_sn_def printf_vsn_render fmt_simps)
qed

lemma itoa_inj: "irq_range i \<Longrightarrow> irq_range j \<Longrightarrow> xui_itoa 10 i = xui_itoa 10 j \<longleftrightarrow> i = j"
proof
  assume r: "irq_range i" "irq_range j" and e: "xui_itoa 10 i = xui_itoa 10 j"
  have "stops []" by (simp add: stops_def)
  from atoi_itoa [OF this, of i] atoi_itoa [OF this, of j] have "s32 i = s32 j" unfolding e by simp
  then show "i = j" using r by (simp add: irq_range_def s32_id)
qed simp

lemma irq_path_facts:
  assumes "irq_range i" "irq_range j"
  shows "affinity_node E i = affinity_node E j \<longleftrightarrow> i = j" "orig_file E i = orig_file E j \<longleftrightarrow> i = j"
    "affinity_node E i \<noteq> orig_file E j" "irq_node (affinity_node E i)" "\<not> irq_node (orig_file E i)"
    "prefix IRQ_STATE_DIR (orig_file E i)"
  using assms by (simp_all add: irq_paths itoa_inj irq_node_def IRQ_STATE_DIR_def)

subsection \<open>One interrupt\<close>

definition core_text :: "'w env \<Rightarrow> int \<Rightarrow> string" where
  "core_text E core = printf_sn E 16 ''%d'' [AInt core]"

lemma core_text_mask: "mask_text (core_text E core)"
proof -
  have l: "length (xui_itoa 10 (s32 core)) \<le> 11" using s32_range by (auto intro: itoa_length)
  have e: "core_text E core = xui_itoa 10 (s32 core)" using l by (simp add: core_text_def printf_sn_def printf_simps)
  have ne: "xui_itoa 10 (s32 core) \<noteq> []" by (rule xui_itoa_shape [of "s32 core"]) auto
  have "last (xui_itoa 10 (s32 core)) \<in> set (xui_itoa 10 (s32 core))" using ne by simp
  from xui_itoa_chars [OF this] have "last (xui_itoa 10 (s32 core)) \<noteq> NL" "last (xui_itoa 10 (s32 core)) \<noteq> CR"
    by (auto simp: is_digit_def uchar_def)
  then show ?thesis using l ne by (simp add: e mask_text_def)
qed

lemma hoare_apply_affinity:
  assumes K: "irq_kernel E fs pos" and i: "irq_range i" and F: "F (affinity_node E i) = Some (m @ [NL])" "mask_text m"
  shows "hoare (\<lambda>s. fs (world s) = F) (apply_affinity E i core)
    (\<lambda>r s. r = ERR_SUCCESS \<and> fs (world s) = F(orig_file E i \<mapsto> m, affinity_node E i \<mapsto> core_text E core @ [NL]))"
proof -
  let ?G = "F(orig_file E i \<mapsto> m)"
  note pf = irq_path_facts [OF i i, of E]
  have save: "hoare (\<lambda>s. r = Some m \<and> fs (world s) = F)
      (case r of None \<Rightarrow> ret () | Some old \<Rightarrow> save_text E (orig_file E i) old) (\<lambda>_ s. fs (world s) = ?G)" for r
    using hoare_save_text [OF K pf(6,5), where F = F and d = m] by (cases "r = Some m") (auto simp: hoare_def)
  have s: "hoare (\<lambda>s. fs (world s) = F) (save_original_mask E i) (\<lambda>_ s. fs (world s) = ?G)"
    unfolding save_original_mask_def save_text_def [symmetric]
    by (rule hoare_bind [OF hoare_read_line [where F = F, OF K F(1) disjI2 [OF refl] F(2)]], rule hoare_bind [OF save], rule hoare_ret)
  have "?G (affinity_node E i) = Some (m @ [NL])" "core_text E core \<noteq> []" using F pf core_text_mask [of E core] by (simp_all add: mask_text_def)
  from hoare_write_node [where F = ?G, OF K this(1) pf(4) this(2)]
  have w: "hoare (\<lambda>s. fs (world s) = ?G) (write_file E (affinity_node E i) (core_text E core))
    (\<lambda>r s. r = 0 \<and> fs (world s) = ?G(affinity_node E i \<mapsto> core_text E core @ [NL]))" .
  show ?thesis
    unfolding apply_affinity_def core_text_def [symmetric]
    by (rule hoare_bind [OF s], rule hoare_bind [OF w]) (auto simp: hoare_def)
qed

lemma hoare_restore_affinity:
  assumes K: "irq_kernel E fs pos" and i: "irq_range i"
    and F: "F (orig_file E i) = Some m" "mask_text m" "F (affinity_node E i) = Some c"
  shows "hoare (\<lambda>s. fs (world s) = F) (restore_affinity E i)
    (\<lambda>r s. r = ERR_SUCCESS \<and> fs (world s) = F(affinity_node E i \<mapsto> m @ [NL], orig_file E i := None))"
proof -
  let ?G = "F(affinity_node E i \<mapsto> m @ [NL])" and ?H = "F(affinity_node E i \<mapsto> m @ [NL], orig_file E i := None)"
  note pf = irq_path_facts [OF i i, of E]
  have "m \<noteq> []" using F(2) by (simp add: mask_text_def)
  from hoare_write_node [where F = F, OF K F(3) pf(4) this]
  have w: "hoare (\<lambda>s. fs (world s) = F) (write_file E (affinity_node E i) m) (\<lambda>r s. r = 0 \<and> fs (world s) = ?G)" .
  have u: "hoare (\<lambda>s. fs (world s) = ?G) (do { c_unlink E (orig_file E i); ret () }) (\<lambda>_ s. fs (world s) = ?H)"
    using K pf(6) by (simp add: hoare_def c_unlink_def run_sys_int Let_def irq_kernel_def irq_names_def)
  have "hoare (\<lambda>s. r = 0 \<and> fs (world s) = ?G)
      (do { (if r < 0 then journal_warn E ERR_IRQ_TEARDOWN [AInt i] else ret ()); c_unlink E (orig_file E i); ret () })
      (\<lambda>_ s. fs (world s) = ?H)" for r :: int
    using u by (auto simp: hoare_def)
  then have body: "hoare (\<lambda>s. fs (world s) = F)
      (do { r \<leftarrow> write_file E (affinity_node E i) m;
            (if r < 0 then journal_warn E ERR_IRQ_TEARDOWN [AInt i] else ret ()); c_unlink E (orig_file E i); ret () })
      (\<lambda>_ s. fs (world s) = ?H)"
    by (rule hoare_bind [OF w])
  have "hoare (\<lambda>s. x = Some m \<and> fs (world s) = F)
      (case x of None \<Rightarrow> ret () | Some old \<Rightarrow>
         (do { r \<leftarrow> write_file E (affinity_node E i) old;
            (if r < 0 then journal_warn E ERR_IRQ_TEARDOWN [AInt i] else ret ()); c_unlink E (orig_file E i); ret () }))
      (\<lambda>_ s. fs (world s) = ?H)" for x
    by (cases "x = Some m") (use body in \<open>auto simp: hoare_def split: option.split simp del: run_state_bind\<close>)
  note inner = this
  show ?thesis
    unfolding restore_affinity_def
    by (rule hoare_bind [OF hoare_read_line [where F = F, OF K F(1) disjI1 [OF refl] F(2)]], rule hoare_bind [OF inner],
        rule hoare_ret) simp
qed

subsection \<open>Lists of interrupts\<close>

definition irq_keys :: "'w env \<Rightarrow> int \<Rightarrow> path set" where
  "irq_keys E i = {affinity_node E i, orig_file E i}"

definition unbound_irq :: "'w env \<Rightarrow> (int \<Rightarrow> string) \<Rightarrow> (path \<Rightarrow> string option) \<Rightarrow> int \<Rightarrow> bool" where
  "unbound_irq E mk F i \<longleftrightarrow> F (affinity_node E i) = Some (mk i @ [NL]) \<and> F (orig_file E i) = None"

definition bound_irq :: "'w env \<Rightarrow> (int \<Rightarrow> string) \<Rightarrow> int \<Rightarrow> (path \<Rightarrow> string option) \<Rightarrow> int \<Rightarrow> bool" where
  "bound_irq E mk core F i \<longleftrightarrow> F (affinity_node E i) = Some (core_text E core @ [NL]) \<and> F (orig_file E i) = Some (mk i)"

lemma irq_keys_apart: "irq_range i \<Longrightarrow> irq_range j \<Longrightarrow> i \<noteq> j \<Longrightarrow> irq_keys E i \<inter> irq_keys E j = {}"
  using irq_path_facts [of i j E] irq_path_facts [of j i E] by (auto simp: irq_keys_def)

lemma keys_cong:
  "(\<And>p. p \<in> irq_keys E i \<Longrightarrow> F p = G p) \<Longrightarrow> unbound_irq E mk F i = unbound_irq E mk G i \<and> bound_irq E mk core F i = bound_irq E mk core G i"
  by (simp add: unbound_irq_def bound_irq_def irq_keys_def)

text \<open>
  An operation that takes each interrupt from one condition to another and touches only its own two files, run over a list.
\<close>

lemma hoare_each_irq:
  fixes op :: "int \<Rightarrow> ('w, unit) m" and fs :: "'w files"
  assumes step: "\<And>i F. i \<in> set irqs \<Longrightarrow> A F i \<Longrightarrow>
      hoare (\<lambda>s. fs (world s) = F) (op i) (\<lambda>_ s. B (fs (world s)) i \<and> (\<forall>p. p \<notin> irq_keys E i \<longrightarrow> fs (world s) p = F p))"
    and loc: "\<And>i F G. (\<And>p. p \<in> irq_keys E i \<Longrightarrow> F p = G p) \<Longrightarrow> A F i = A G i \<and> B F i = B G i"
    and irqs: "distinct irqs" "\<forall>i \<in> set irqs. irq_range i" "\<forall>i \<in> set irqs. A F i"
  shows "hoare (\<lambda>s. fs (world s) = F) (forM irqs op)
    (\<lambda>_ s. (\<forall>i \<in> set irqs. B (fs (world s)) i) \<and> (\<forall>p. p \<notin> (\<Union>i \<in> set irqs. irq_keys E i) \<longrightarrow> fs (world s) p = F p))"
  using assms
proof (induction irqs arbitrary: F)
  case Nil
  show ?case by (simp add: hoare_def)
next
  case (Cons i irqs)
  have apart: "irq_keys E i \<inter> irq_keys E j = {}" if "j \<in> set irqs" for j
    using Cons.prems(3,4) that by (intro irq_keys_apart) auto
  have rest: "hoare (\<lambda>s. B (fs (world s)) i \<and> (\<forall>p. p \<notin> irq_keys E i \<longrightarrow> fs (world s) p = F p)) (forM irqs op)
    (\<lambda>_ s. (\<forall>i \<in> set (i # irqs). B (fs (world s)) i) \<and>
       (\<forall>p. p \<notin> (\<Union>i \<in> set (i # irqs). irq_keys E i) \<longrightarrow> fs (world s) p = F p))"
    unfolding hoare_def
  proof (intro allI impI; elim conjE)
    fix s :: "'w prog"
    assume b: "B (fs (world s)) i" "\<forall>p. p \<notin> irq_keys E i \<longrightarrow> fs (world s) p = F p"
    let ?G = "fs (world s)" and ?s = "exec (forM irqs op) s"
    have A: "A ?G j" if j: "j \<in> set irqs" for j
      using Cons.prems(2) [of j ?G F] Cons.prems(5) b(2) apart [OF j] j by auto
    from Cons.IH [OF Cons.prems(1,2), of ?G] Cons.prems(3,4) A
    have r: "\<forall>i \<in> set irqs. B (fs (world ?s)) i" "\<forall>p. p \<notin> (\<Union>i \<in> set irqs. irq_keys E i) \<longrightarrow> fs (world ?s) p = ?G p"
      by (simp_all add: hoare_def)
    have "fs (world ?s) p = ?G p" if "p \<in> irq_keys E i" for p using r(2) apart that by auto
    with Cons.prems(2) [of i "fs (world ?s)" ?G] b(1) have "B (fs (world ?s)) i" by simp
    with r b(2) show "(\<forall>i \<in> set (i # irqs). B (fs (world ?s)) i) \<and>
       (\<forall>p. p \<notin> (\<Union>i \<in> set (i # irqs). irq_keys E i) \<longrightarrow> fs (world ?s) p = F p)" by simp
  qed
  have "hoare (\<lambda>s. fs (world s) = F) (op i) (\<lambda>_ s. B (fs (world s)) i \<and> (\<forall>p. p \<notin> irq_keys E i \<longrightarrow> fs (world s) p = F p))"
    by (rule Cons.prems(1)) (use Cons.prems(5) in simp_all)
  then show ?case unfolding forM.simps by (rule hoare_bind) (rule rest)
qed

lemma hoare_bind_list:
  assumes K: "irq_kernel E fs pos" and irqs: "distinct irqs" "\<forall>i \<in> set irqs. irq_range i \<and> mask_text (mk i) \<and> unbound_irq E mk F i"
  shows "hoare (\<lambda>s. fs (world s) = F) (apply_list E irqs core)
    (\<lambda>_ s. (\<forall>i \<in> set irqs. bound_irq E mk core (fs (world s)) i) \<and>
       (\<forall>p. p \<notin> (\<Union>i \<in> set irqs. irq_keys E i) \<longrightarrow> fs (world s) p = F p))"
  unfolding apply_list_def
proof (rule hoare_each_irq [where A = "unbound_irq E mk" and B = "bound_irq E mk core"])
  fix i F assume i: "i \<in> set irqs" and A: "unbound_irq E mk F i"
  then have r: "irq_range i" "mask_text (mk i)" "F (affinity_node E i) = Some (mk i @ [NL])" using irqs by (auto simp: unbound_irq_def)
  from irq_path_facts [OF r(1) r(1), of E]
  have "bound_irq E mk core (F(orig_file E i \<mapsto> mk i, affinity_node E i \<mapsto> core_text E core @ [NL])) i" by (simp add: bound_irq_def)
  with hoare_apply_affinity [where F = F and core = core, OF K r(1,3,2)]
  show "hoare (\<lambda>s. fs (world s) = F) (do { apply_affinity E i core; ret () })
      (\<lambda>_ s. bound_irq E mk core (fs (world s)) i \<and> (\<forall>p. p \<notin> irq_keys E i \<longrightarrow> fs (world s) p = F p))"
    by (auto simp: hoare_def exec_bind irq_keys_def simp del: run_state_bind)
qed (use irqs keys_cong in blast)+

lemma hoare_restore_list:
  assumes K: "irq_kernel E fs pos" and irqs: "distinct irqs" "\<forall>i \<in> set irqs. irq_range i \<and> mask_text (mk i) \<and> bound_irq E mk core F i"
  shows "hoare (\<lambda>s. fs (world s) = F) (forM irqs (\<lambda>irq. do { restore_affinity E irq; ret () }))
    (\<lambda>_ s. (\<forall>i \<in> set irqs. unbound_irq E mk (fs (world s)) i) \<and>
       (\<forall>p. p \<notin> (\<Union>i \<in> set irqs. irq_keys E i) \<longrightarrow> fs (world s) p = F p))"
proof (rule hoare_each_irq [where A = "bound_irq E mk core" and B = "unbound_irq E mk"])
  fix i F assume i: "i \<in> set irqs" and A: "bound_irq E mk core F i"
  then have r: "irq_range i" "mask_text (mk i)" "F (orig_file E i) = Some (mk i)" "F (affinity_node E i) = Some (core_text E core @ [NL])"
    using irqs by (auto simp: bound_irq_def)
  from irq_path_facts [OF r(1) r(1), of E]
  have "unbound_irq E mk (F(affinity_node E i \<mapsto> mk i @ [NL], orig_file E i := None)) i" by (simp add: unbound_irq_def)
  with hoare_restore_affinity [where F = F, OF K r(1,3,2,4)]
  show "hoare (\<lambda>s. fs (world s) = F) (do { restore_affinity E i; ret () })
      (\<lambda>_ s. unbound_irq E mk (fs (world s)) i \<and> (\<forall>p. p \<notin> irq_keys E i \<longrightarrow> fs (world s) p = F p))"
    by (auto simp: hoare_def exec_bind irq_keys_def simp del: run_state_bind)
qed (use irqs keys_cong in blast)+

text \<open>
  C36. Binding can be undone: on a kernel with affinity nodes as documented, pinning any list of distinct interrupts whose masks have not been saved
  yet leaves each of them on the chosen core, and restoring the same list brings every node back to its mask, removes the saved copies
  and leaves all other files alone. The mask has to fit the 64-byte buffer.
\<close>

theorem bind_restore_roundtrip:
  assumes K: "irq_kernel E fs pos" and irqs: "distinct irqs"
    "\<forall>i \<in> set irqs. irq_range i \<and> mask_text (mk i) \<and> fs (world s) (affinity_node E i) = Some (mk i @ [NL]) \<and>
       fs (world s) (orig_file E i) = None"
  shows "let s1 = exec (apply_list E irqs core) s; s2 = exec (forM irqs (\<lambda>irq. do { restore_affinity E irq; ret () })) s1
    in (\<forall>i \<in> set irqs. fs (world s1) (affinity_node E i) = Some (core_text E core @ [NL])) \<and> fs (world s2) = fs (world s)"
proof -
  let ?F = "fs (world s)"
  have u: "\<forall>i \<in> set irqs. irq_range i \<and> mask_text (mk i) \<and> unbound_irq E mk ?F i" using irqs(2) by (simp add: unbound_irq_def)
  define s1 where "s1 = exec (apply_list E irqs core) s"
  have b: "\<forall>i \<in> set irqs. bound_irq E mk core (fs (world s1)) i" "\<forall>p. p \<notin> (\<Union>i \<in> set irqs. irq_keys E i) \<longrightarrow> fs (world s1) p = ?F p"
    using hoareD [OF hoare_bind_list [where F = ?F and core = core, OF K irqs(1) u], of s] by (simp_all add: s1_def)
  define s2 where "s2 = exec (forM irqs (\<lambda>irq. do { restore_affinity E irq; ret () })) s1"
  have "\<forall>i \<in> set irqs. irq_range i \<and> mask_text (mk i) \<and> bound_irq E mk core (fs (world s1)) i" using u b by blast
  from hoareD [OF hoare_restore_list [OF K irqs(1) this], of s1]
  have e: "\<forall>i \<in> set irqs. unbound_irq E mk (fs (world s2)) i" "\<forall>p. p \<notin> (\<Union>i \<in> set irqs. irq_keys E i) \<longrightarrow> fs (world s2) p = fs (world s1) p"
    by (simp_all add: s2_def)
  have "fs (world s2) p = ?F p" for p
    using e b(2) u by (cases "p \<in> (\<Union>i \<in> set irqs. irq_keys E i)") (auto simp: irq_keys_def unbound_irq_def)
  then have "fs (world s2) = ?F" by blast
  then show ?thesis using b(1) by (simp add: Let_def bound_irq_def flip: s1_def s2_def)
qed

text \<open>The kernel of the witnesses: the files in memory, with the affinity nodes among them.\<close>

fun node_kernel :: "syscall \<Rightarrow> mem_world \<Rightarrow> sysres \<times> mem_world" where
  "node_kernel (SysWrite fd d) w =
     (case mw_pos w fd of
        Some (p, k) \<Rightarrow>
          if irq_node p then (Ret (int (length d)), w\<lparr>mw_files := (mw_files w)(p \<mapsto> d @ [NL])\<rparr>) else mem_write fd d w
      | None \<Rightarrow> mem_write fd d w)"
| "node_kernel (SysUnlink p) w = (Ret 0, w\<lparr>mw_files := (mw_files w)(p := None)\<rparr>)"
| "node_kernel c w = mem_kernel c w"

definition node_env :: "mem_world env" where
  "node_env = mem_env\<lparr>kernel := node_kernel\<rparr>"

lemma node_irq_kernel: "irq_kernel node_env mw_files mw_pos"
  unfolding irq_kernel_def
proof (intro conjI)
  have k: "kernel node_env = node_kernel" by (simp add: node_env_def)
  show "irq_opens node_env mw_files mw_pos"
    unfolding irq_opens_def k
  proof (intro conjI allI impI)
    fix w :: mem_world and p fl md
    assume a: "mw_files w p \<noteq> None" "fl \<in> plain_flags"
    then have "fl \<notin> trunc_flags" by (auto simp: plain_flags_def trunc_flags_def libc_consts)
    then show "\<exists>fd w'. node_kernel (SysOpen p fl md) w = (Ret fd, w') \<and> 0 \<le> fd \<and> fd < 2 ^ 31 \<and>
        mw_pos w' = (mw_pos w)(fd \<mapsto> (p, 0)) \<and> mw_files w' = mw_files w"
      using a pos_mod_bound [of "2 ^ 30" "mw_next w"]
      by (auto simp: mem_open_def Let_def plain_flags_def libc_consts map_upd_triv)
  next
    fix w :: mem_world and p md
    assume "prefix IRQ_STATE_DIR p"
    show "\<exists>fd w'. node_kernel (SysOpen p (O_WRONLY + O_CREAT + O_TRUNC) md) w = (Ret fd, w') \<and> 0 \<le> fd \<and> fd < 2 ^ 31 \<and>
        mw_pos w' = (mw_pos w)(fd \<mapsto> (p, 0)) \<and> mw_files w' = (mw_files w)(p \<mapsto> [])"
      using pos_mod_bound [of "2 ^ 30" "mw_next w"] by (auto simp: mem_open_def Let_def trunc_flags_def libc_consts)
  qed
  show "reads_files node_env mw_files mw_pos" unfolding k reads_files_def by (auto simp: mem_read_def Let_def)
  show "closes_files node_env mw_files mw_pos" unfolding k closes_files_def by simp
  show "irq_writes node_env mw_files mw_pos" unfolding k irq_writes_def by (auto simp: mem_write_def)
  show "irq_names node_env mw_files" unfolding k irq_names_def by simp
qed

definition two_nodes :: "path \<Rightarrow> string option" where
  "two_nodes = [affinity_node node_env 41 \<mapsto> ''0-15'' @ [NL], affinity_node node_env 42 \<mapsto> ''0,8'' @ [NL]]"

theorem bind_restore_roundtrip_witness:
  "mw_files (world (exec (do { apply_list node_env [41, 42] 3;
      forM [41, 42] (\<lambda>irq. do { restore_affinity node_env irq; ret () }) }) (mem_start two_nodes []))) = two_nodes"
proof -
  let ?mk = "\<lambda>i :: int. if i = 41 then ''0-15'' else ''0,8''"
  have r: "irq_range 41" "irq_range 42" by (simp_all add: irq_range_def)
  note pf = irq_path_facts [of 41 42 node_env] irq_path_facts [of 42 41 node_env] irq_path_facts [of 41 41 node_env]
    irq_path_facts [of 42 42 node_env]
  have "mask_text ''0-15''" "mask_text ''0,8''" by (simp_all add: mask_text_def cstring_def)
  with r pf have h: "\<forall>i \<in> set [41, 42]. irq_range i \<and> mask_text (?mk i) \<and>
      mw_files (world (mem_start two_nodes [])) (affinity_node node_env i) = Some (?mk i @ [NL]) \<and>
      mw_files (world (mem_start two_nodes [])) (orig_file node_env i) = None"
    by (auto simp: two_nodes_def)
  have "distinct [41 :: int, 42]" by simp
  from bind_restore_roundtrip [where mk = ?mk, OF node_irq_kernel this h, of 3]
  show ?thesis by (simp add: Let_def exec_bind del: run_state_bind forM.simps)
qed

text \<open>
  Binding twice loses the original: the second run (the udev rule that the tool installs starts one at every device event) saves
  the pinned core as the mask to go back to, so that the interrupt is still pinned after it was restored.
\<close>

theorem second_bind_loses_mask:
  assumes K: "irq_kernel E fs pos" and i: "irq_range i" and m: "fs (world s) (affinity_node E i) = Some (m @ [NL])" "mask_text m"
  shows "fs (world (exec (do { apply_affinity E i core; apply_affinity E i core; restore_affinity E i }) s)) (affinity_node E i)
    = Some (core_text E core @ [NL])"
proof -
  let ?v = "core_text E core" and ?F = "fs (world s)"
  note pf = irq_path_facts [OF i i, of E]
  let ?F1 = "?F(orig_file E i \<mapsto> m, affinity_node E i \<mapsto> ?v @ [NL])"
  let ?F2 = "?F1(orig_file E i \<mapsto> ?v, affinity_node E i \<mapsto> ?v @ [NL])"
  have F1: "fs (world (exec (apply_affinity E i core) s)) = ?F1"
    using hoareD [OF hoare_apply_affinity [where F = ?F and core = core, OF K i m]] by blast
  have "?F1 (affinity_node E i) = Some (?v @ [NL])" by simp
  from hoare_apply_affinity [where F = ?F1 and core = core, OF K i this core_text_mask]
  have F2: "fs (world (exec (apply_affinity E i core) (exec (apply_affinity E i core) s))) = ?F2" using F1 by (simp add: hoare_def)
  have "?F2 (orig_file E i) = Some ?v" "?F2 (affinity_node E i) = Some (?v @ [NL])" using pf by simp_all
  from hoare_restore_affinity [where F = ?F2, OF K i this(1) core_text_mask this(2)] F2 pf
  show ?thesis by (simp add: hoare_def exec_bind del: run_state_bind)
qed

theorem second_bind_loses_mask_witness:
  "mw_files (world (exec (do { apply_affinity node_env 41 3; apply_affinity node_env 41 3; restore_affinity node_env 41 })
      (mem_start two_nodes []))) (affinity_node node_env 41) = Some (''3'' @ [NL])"
proof -
  have r: "irq_range 41" "irq_range 42" "mask_text ''0-15''" by (simp_all add: irq_range_def mask_text_def cstring_def)
  have "mw_files (world (mem_start two_nodes [])) (affinity_node node_env 41) = Some (''0-15'' @ [NL])"
    using irq_path_facts(1) [OF r(1,2), of node_env] by (simp add: two_nodes_def)
  from second_bind_loses_mask [where core = 3, OF node_irq_kernel r(1) this r(3)]
  moreover have "xui_itoa 10 3 = ''3''" by code_simp
  ultimately show ?thesis by (simp add: core_text_def printf_sn_def printf_vsn_render fmt_simps s32_id del: run_state_bind)
qed

text \<open>The calls of a run that opens nothing but the log.\<close>

definition log_only :: "syscall \<Rightarrow> bool" where
  "log_only c \<longleftrightarrow> (case c of SysOpen p fl md \<Rightarrow> prefix VAR_LOGS p | _ \<Rightarrow> True)"

lemma log_only_calls: "log_calls log_only"
  by (simp add: log_calls_def log_only_def)

lemma makes_log_system: "makes E log_only (c_system E cmd)"
  unfolding c_system_def by (intro makes_rules) (simp_all add: log_only_def)

lemma makes_restore_irqbalance: "makes E log_only (restore_irqbalance E)"
  unfolding restore_irqbalance_def file_exists_def
  by (intro makes_rules makes_log_system log_only_calls) (simp_all add: log_only_def plain_code_def ERR_IRQ_BALANCER_def ERR_CONF_def)

text \<open>
  The command that is to undo the bindings restores no interrupt: the lists of bound interrupts live in the memory of the process
  that bound them, so \<^verbatim>\<open>x3d-toggle irq-reset\<close>, a new process, walks through empty lists. Whatever the kernel answers, it opens
  no file but the log, and so no saved mask and no affinity node.
\<close>

theorem irq_reset_restores_nothing:
  assumes "log_path s = [] \<or> prefix VAR_LOGS (log_path s)"
  shows "list_all log_only (calls (since s (exec (cli_irq_reset E irq_zero) s)))"
proof -
  have "makes E log_only (cli_irq_reset E irq_zero)"
    unfolding cli_irq_reset_def irq_teardown_def irq_zero_def irq_lists_def file_exists_def
    by (simp add: makes_restore_irqbalance, intro makes_rules makes_log_system makes_restore_irqbalance) (simp_all add: log_only_def)
  from this [unfolded makes_def makes_pq_def, rule_format, of s] assms
  show ?thesis by (auto simp: since_def log_ok_def)
qed

theorem irq_reset_restores_nothing_witness:
  "list_all log_only (calls (since (mem_start two_nodes []) (exec (cli_irq_reset node_env irq_zero) (mem_start two_nodes []))))"
  by (rule irq_reset_restores_nothing) (simp add: mem_start_def initial_prog_def)

end
