(* ===== verification/Gui_Daemon.thy ===== *)
theory Gui_Daemon
  imports Gui_Calls Irq_Facts
begin

section \<open>The window and the daemon together\<close>

text \<open>
  What the daemon answers for a setting that a client has sent, what the window sends when the configuration page is applied, and both
  together: what cancelling the page shows afterwards.
\<close>

subsection \<open>Settings the running daemon takes over\<close>

text \<open>The daemon serves a list of settings, one request each.\<close>

definition set_request :: "string \<times> string \<Rightarrow> string" where
  "set_request kv = ''SET_CONFIG '' @ fst kv @ CHR '' '' # snd kv"

definition serve_settings :: "'w env \<Rightarrow> int \<Rightarrow> (string \<times> string) list \<Rightarrow> ('w, unit) m" where
  "serve_settings E fd kvs = forM kvs (\<lambda>kv. do { ipc_dispatch E fd (set_request kv); ret () })"

lemma dispatch_set_config: "ipc_dispatch E fd (''SET_CONFIG '' @ rest) = ipc_set_config E fd rest"
  by (simp add: ipc_dispatch_def ipc_commands_def numeral_eq_Suc)

lemma split_arg_pair: "CHR '' '' \<notin> set k \<Longrightarrow> split_arg (k @ CHR '' '' # v) = Some (k, v)"
  by (induction k) (auto simp: split_arg_def)

lemma cfg_indep: "sys_indep (\<lambda>s. cfg s = c)" "jrn_indep (\<lambda>s. cfg s = c)" "det_indep (\<lambda>s. cfg s = c)"
  by (simp_all add: sys_indep_def jrn_indep_def det_indep_def hw_indep_def)

lemma cfg_set_config:
  assumes "CHR '' '' \<notin> set k"
  shows "cfg (exec (ipc_dispatch E fd (set_request (k, v))) s) = set_live k v (cfg s)"
proof -
  have upd: "keeps (\<lambda>s. cfg s = c) (config_update E k v)" for c by (intro hoare_rules cfg_indep)
  have act: "keeps (\<lambda>s. cfg s = c) (modify (\<lambda>s. s\<lparr>bpf_active := f s\<rparr>))" for c f by (simp add: hoare_def)
  have "keeps (\<lambda>s. cfg s = c) (do {
      (if strcmp k ''EBPF_ENABLE'' = 0 then follow_ebpf E else ret ());
      journal_info E DAEMON_TRANSIT [AStr ''Configuration Update: %s -> %s'', AStr k, AStr v];
      reply E fd ''OK'' })" for c
    unfolding follow_ebpf_def by (intro hoare_rules cfg_indep act plain_codes)
  then show ?thesis
    using upd split_arg_pair [OF assms, of v] dispatch_set_config [of E fd "k @ CHR '' '' # v"]
    by (simp add: set_request_def ipc_set_config_def exec_bind hoare_def del: run_state_bind)
qed

lemma cfg_serve:
  "list_all (\<lambda>(k, v). CHR '' '' \<notin> set k) kvs \<Longrightarrow> cfg (exec (serve_settings E fd kvs) s) = fold (\<lambda>(k, v). set_live k v) kvs (cfg s)"
proof (induction kvs arbitrary: s)
  case (Cons kv kvs)
  then show ?case by (cases kv) (simp add: serve_settings_def exec_bind cfg_set_config del: run_state_bind)
qed (simp add: serve_settings_def)

text \<open>The settings by how the daemon keeps them: as a number, as a text of bounded length, or not before the next start.\<close>

definition daemon_numbers :: "string list" where
  "daemon_numbers = [''DETECTION_LEVEL'', ''POLLING_INTERVAL'', ''EBPF_ENABLE'', ''DEV_ENABLE'', ''DEBUG_ENABLE'', ''AFFINITY_LEVEL'',
     ''ADVANCED_CONFIG_ENABLE'', ''FORCE_UNSUPPORTED_DISPLAY'']"

definition kernel_numbers :: "string list" where
  "kernel_numbers = [''SCHED_BORE'', ''SCHED_BIT_SHIFT'', ''SCHED_BURST_FORK'', ''SCHED_SLICE_US'', ''VM_MAX_MAP'', ''SPLIT_LOCK_DETECT'',
     ''NMI_WATCHDOG'', ''NET_FASTOPEN'', ''NET_RP_FILTER'', ''NET_SOURCE_ROUTE'']"

definition irq_numbers :: "string list" where
  "irq_numbers = [''IRQ_ENABLE'', ''IRQ_GPU'', ''IRQ_NVME'', ''IRQ_USB'', ''IRQ_NIC'', ''IRQ_AUDIO'', ''IRQ_COALESCE'', ''IRQ_WATCH'']"

definition number_keys :: "string list" where
  "number_keys = daemon_numbers @ kernel_numbers @ irq_numbers"

definition text_keys :: "(string \<times> nat) list" where
  "text_keys = [(''SERVER_ADDRESS'', 128), (''AFFINITY_MASK'', 64), (''AFFINITY_FREQ_MASK'', 64), (''FALLBACK_PROFILE'', 64),
     (''THP_MODE'', 16), (''NET_QDISC'', 32)]"

definition stale_keys :: "string list" where
  "stale_keys =
     [''DAEMON_STATE'', ''SERVER_ENABLED'', ''SERVER_PORT'', ''SERVER_SSH'', ''LINT_CLANG_DIAGNOSTIC'', ''LINT_CLANG_BUGPRONE'',
      ''LINT_CLANG_MODERNIZE'', ''LINT_CLANG_READABILITY'', ''LINT_CLANG_PERFORMANCE'', ''LINT_CLANG_PORTABILITY'',
      ''LINT_CLANG_ANALYZER'', ''LINT_CPPCHECK_ALL'', ''LINT_CPPCHECK_WARNING'', ''LINT_CPPCHECK_STYLE'', ''LINT_CPPCHECK_PERFORMANCE'',
      ''LINT_CPPCHECK_PORTABILITY'', ''LINT_CPPCHECK_INFORMATION'', ''LINT_CPPCHECK_UNUSED'', ''LINT_VALGRIND_MODE'',
      ''LINT_VALGRIND_KINDS'', ''LINT_VALGRIND_ORIGINS'', ''JOURNAL_KEEP'', ''JOURNAL_MAX_MB'']"

text \<open>The setter and the getter of a key fit: what is read is \<open>show\<close> of what was sent.\<close>

definition reads_back :: "('w env \<Rightarrow> string \<Rightarrow> string) \<Rightarrow> 'w itself \<Rightarrow> string \<Rightarrow> bool" where
  "reads_back show w k \<longleftrightarrow> CHR '' '' \<notin> set k \<and> (\<exists>u g. map_of live_setters k = Some u \<and>
     map_of (config_getters :: (string \<times> ('w env \<Rightarrow> DaemonConfig \<Rightarrow> string)) list) k = Some g \<and> (\<forall>E v c. g E (u v c) = show E v))"

abbreviation as_number :: "'w env \<Rightarrow> string \<Rightarrow> string" where
  "as_number E v \<equiv> printf_sn E 128 ''%d'' [AInt (atoi v)]"

lemma daemon_numbers_live: "list_all (reads_back as_number w) daemon_numbers"
  unfolding daemon_numbers_def list.pred_inject reads_back_def
  by (intro conjI TrueI; simp add: live_setters_def config_getters_def)

lemma kernel_numbers_live: "list_all (reads_back as_number w) kernel_numbers"
  unfolding kernel_numbers_def list.pred_inject reads_back_def
  by (intro conjI TrueI; simp add: live_setters_def config_getters_def)

lemma irq_numbers_live: "list_all (reads_back as_number w) irq_numbers"
  unfolding irq_numbers_def list.pred_inject reads_back_def
  by (intro conjI TrueI; simp add: live_setters_def config_getters_def)

lemmas number_keys_live = daemon_numbers_live kernel_numbers_live irq_numbers_live

lemma text_keys_live: "list_all (\<lambda>(k, n). reads_back (\<lambda>E. fit n) w k) text_keys"
  unfolding text_keys_def list.pred_inject prod.case reads_back_def
  by (intro conjI TrueI; simp add: live_setters_def config_getters_def)

lemma stale_keys_dead: "list_all (\<lambda>k. CHR '' '' \<notin> set k \<and> map_of live_setters k = None) stale_keys"
  unfolding stale_keys_def list.pred_inject
  by (intro conjI TrueI; simp add: live_setters_def)

lemma atoi_itoa_int: "in_int i \<Longrightarrow> atoi (xui_itoa 10 i) = i"
  using atoi_itoa [of "[]" i] by (simp add: in_int_def s32_id)

lemma print_number: "in_int i \<Longrightarrow> printf_sn E 128 ''%d'' [AInt i] = xui_itoa 10 i"
  using itoa_length [of i] by (simp add: printf_sn_def printf_simps fit_def in_int_def s32_id)

lemma config_get_map: "map_of config_getters k = Some g \<Longrightarrow> result (config_get E k) s = g E (cfg s)"
  by (simp add: config_get_def)





subsection \<open>Several settings\<close>

definition live_key :: "string \<Rightarrow> (DaemonConfig \<Rightarrow> 'b) \<Rightarrow> (string \<Rightarrow> 'b) \<Rightarrow> bool" where
  "live_key K f g \<longleftrightarrow> (\<forall>k v c. f (set_live k v c) = (if k = K then g v else f c))"

lemma live_keyI:
  assumes "list_all (\<lambda>(k, u). \<forall>v c. f (u v c) = (if k = K then g v else f c)) live_setters" "map_of live_setters K \<noteq> None"
  shows "live_key K f g"
  unfolding live_key_def
proof (intro allI)
  fix k v c
  show "f (set_live k v c) = (if k = K then g v else f c)"
  proof (cases "map_of live_setters k")
    case None
    then have "k \<noteq> K" using assms(2) by auto
    then show ?thesis by (simp add: set_live_def None)
  next
    case (Some u)
    then have "(k, u) \<in> set live_setters" by (rule map_of_SomeD)
    with assms(1) show ?thesis by (auto simp: list_all_iff set_live_def Some)
  qed
qed

text \<open>The settings of the configuration page.\<close>

lemma page_keys:
  "live_key ''FALLBACK_PROFILE'' fallback_profile (fit 64)" "live_key ''POLLING_INTERVAL'' polling_interval atoi"
  "live_key ''LOAD_THRESHOLD'' load_threshold atof" "live_key ''DETECTION_LEVEL'' detection_level atoi"
  "live_key ''EBPF_ENABLE'' ebpf_enable atoi" "live_key ''DEBUG_ENABLE'' debug_enable atoi" "live_key ''DEV_ENABLE'' dev_enable atoi"
  "live_key ''ADVANCED_CONFIG_ENABLE'' advanced_config_enable atoi" "live_key ''SERVER_ADDRESS'' server_address (fit 128)"
  by - (rule live_keyI; (unfold live_setters_def list.pred_inject prod.case, (intro conjI allI TrueI)?; simp))+

lemma page_kept:
  "daemon_state (set_live k v c) = daemon_state c" "server_port (set_live k v c) = server_port c" "server_ssh (set_live k v c) = server_ssh c"
proof -
  have "list_all (\<lambda>(k, u). \<forall>v c. daemon_state (u v c) = daemon_state c \<and> server_port (u v c) = server_port c \<and> server_ssh (u v c) = server_ssh c)
      live_setters"
    unfolding live_setters_def list.pred_inject prod.case by simp
  then have "\<forall>v c. daemon_state (u v c) = daemon_state c \<and> server_port (u v c) = server_port c \<and> server_ssh (u v c) = server_ssh c"
    if "map_of live_setters k = Some u" for u
    using map_of_SomeD [OF that] by (auto simp: list_all_iff)
  then show "daemon_state (set_live k v c) = daemon_state c" "server_port (set_live k v c) = server_port c" "server_ssh (set_live k v c) = server_ssh c"
    by (auto simp: set_live_def split: option.split)
qed

lemma live_fold_other: "live_key K f g \<Longrightarrow> K \<notin> fst ` set kvs \<Longrightarrow> f (fold (\<lambda>(k, v). set_live k v) kvs c) = f c"
  by (induction kvs arbitrary: c) (auto simp: live_key_def)

lemma live_fold: "live_key K f g \<Longrightarrow> distinct (map fst kvs) \<Longrightarrow> (K, v) \<in> set kvs \<Longrightarrow> f (fold (\<lambda>(k, v). set_live k v) kvs c) = g v"
proof (induction kvs arbitrary: c)
  case (Cons kv kvs)
  show ?case
  proof (cases "kv = (K, v)")
    case True
    then have "K \<notin> fst ` set kvs" using Cons.prems(2) by auto
    then show ?thesis using live_fold_other [OF Cons.prems(1), of kvs] Cons.prems(1) True by (simp add: live_key_def)
  next
    case False
    then show ?thesis using Cons by (simp add: case_prod_beta)
  qed
qed simp

lemma kept_fold:
  "daemon_state (fold (\<lambda>(k, v). set_live k v) kvs c) = daemon_state c" "server_port (fold (\<lambda>(k, v). set_live k v) kvs c) = server_port c"
  "server_ssh (fold (\<lambda>(k, v). set_live k v) kvs c) = server_ssh c"
  by (induction kvs arbitrary: c) (auto simp: page_kept)

subsection \<open>What applying the page sends\<close>

text \<open>\<open>asks b m ds\<close>: while the widgets \<open>b\<close> are bound, \<open>m\<close> sends exactly the requests \<open>ds\<close> and leaves the widgets bound.\<close>

named_theorems asks_rules "requests sent by callbacks of the window"

definition asks :: "string list \<Rightarrow> ('w, 'a) g \<Rightarrow> string list \<Rightarrow> bool" where
  "asks b m ds \<longleftrightarrow> (\<forall>u. bound u = b \<and> log_ok (prg u) \<longrightarrow> bound (exec m u) = b \<and> log_ok (prg (exec m u)) \<and>
     (\<exists>t. trace (prg (exec m u)) = trace (prg u) @ t \<and> requests (calls t) = ds))"

lemma asks_bind [asks_rules]:
  assumes "asks b m ds" "\<And>x. asks b (k x) es"
  shows "asks b (State_Monad.bind m k) (ds @ es)"
  unfolding asks_def
proof (intro allI impI)
  fix u :: "'a gui" assume u: "bound u = b \<and> log_ok (prg u)"
  with assms(1) obtain t where t: "bound (exec m u) = b" "log_ok (prg (exec m u))" "trace (prg (exec m u)) = trace (prg u) @ t"
    "requests (calls t) = ds" by (auto simp: asks_def)
  let ?v = "exec (k (result m u)) (exec m u)"
  from assms(2) [of "result m u"] t(1,2) obtain t' where "bound ?v = b" "log_ok (prg ?v)" "trace (prg ?v) = trace (prg (exec m u)) @ t'"
    "requests (calls t') = es" by (auto simp: asks_def)
  with t show "bound (exec (State_Monad.bind m k) u) = b \<and> log_ok (prg (exec (State_Monad.bind m k) u)) \<and>
      (\<exists>t. trace (prg (exec (State_Monad.bind m k) u)) = trace (prg u) @ t \<and> requests (calls t) = ds @ es)"
    by (auto simp: exec_bind simp del: run_state_bind intro!: exI [of _ "t @ t'"])
qed

lemma asks_basic [asks_rules]:
  "asks b (ret x) []" "asks b (gtk c) []" "asks b (modify (\<lambda>u. u\<lparr>config_dirty := f u\<rparr>)) []"
  by (auto simp: asks_def gtk_def)

lemma asks_if [asks_rules]: "asks b m ds \<Longrightarrow> asks b m' es \<Longrightarrow> asks b (if c then m else m') (if c then ds else es)"
  by simp

lemma asks_when_bound [asks_rules]: "asks b m ds \<Longrightarrow> asks b (when_bound i m) (if i \<in> set b then ds else [])"
  by (auto simp: asks_def when_bound_def exec_bind simp del: run_state_bind)

lemma asks_forM [asks_rules]: "(\<And>x. asks b (f x) (g x)) \<Longrightarrow> asks b (forM xs f) (concat (map g xs))"
  by (induction xs) (auto intro!: asks_rules)

lemma tells_gui_send:
  assumes up: "ipc_up E"
  shows "tells (gui_socket_send E cmd n old) (\<lambda>r ds. ds = [cmd])"
proof -
  have rest: "makes E no_request (if n > 0 then do {
      nd \<leftarrow> c_read E fd (n - 1);
      if fst nd > 0 then do { c_close E fd; ret (ERR_SUCCESS, cstr (snd nd)) }
      else if fst nd = 0 then do { journal_error E ERR_IPC [AInt (- 3)]; c_close E fd; ret (ERR_IPC, old) }
      else do { ipc_error E; c_close E fd; ret (ERR_IPC, old) }
    } else do {
      nd \<leftarrow> c_read E fd 15;
      if fst nd < 0 then do { ipc_error E; c_close E fd; ret (ERR_IPC, old) }
      else if fst nd = 0 \<or> strncmp (cstr (snd nd)) ''OK'' 2 \<noteq> 0
      then do { journal_error E ERR_IPC [AInt ERR_IPC]; c_close E fd; ret (ERR_IPC, old) }
      else do { c_close E fd; ret (ERR_SUCCESS, old) } })" for fd
    unfolding ipc_error_def by (intro makes_rules no_request_log ipc_plain) simp_all
  show ?thesis
    unfolding gui_socket_send_def
    by (rule tells_bind [OF tells_socket [OF up]], simp split del: if_split, rule tells_bind [OF tells_connect [OF up]],
        simp split del: if_split, rule tells_bind [OF tells_send [OF up]], simp split del: if_split, rule tells_makes [OF rest], simp)
qed

lemma asks_config_send:
  assumes "ipc_up E"
  shows "asks b (config_send E key v) [printf_sn E 256 ''SET_CONFIG %s %s'' [AStr key, AStr v]]"
  using tells_gui_send [OF assms] by (auto simp: asks_def config_send_def tells_def)

definition page_widgets :: "string list" where
  "page_widgets =
     [''cfg_daemon_state'', ''cfg_fallback_profile'', ''cfg_polling_interval'', ''cfg_load_threshold'', ''cfg_detection_level'',
      ''cfg_ebpf_enable'', ''cfg_debug_enable'', ''cfg_dev_enable'', ''cfg_advanced_enable'', ''cfg_server_address'', ''cfg_server_port'',
      ''cfg_server_ssh'', ''g_builder'']"

definition text_setting :: "string \<Rightarrow> string \<Rightarrow> (string \<times> string) list" where
  "text_setting key v = (if v \<noteq> [] then [(key, v)] else [])"

definition page_pairs :: "'w env \<Rightarrow> toolkit \<Rightarrow> (string \<times> string) list" where
  "page_pairs E T =
     [(''DAEMON_STATE'', table_text E daemon_state_vals (t_selected T ''cfg_daemon_state'')),
      (''FALLBACK_PROFILE'', table_text E fallback_vals (t_selected T ''cfg_fallback_profile'')),
      (''POLLING_INTERVAL'', xui_itoa 10 (int_of (t_value T ''cfg_polling_interval''))),
      (''LOAD_THRESHOLD'', xui_itoa 10 (int_of (t_value T ''cfg_load_threshold''))),
      (''DETECTION_LEVEL'', xui_itoa 10 (s32 (s32 (int (t_selected T ''cfg_detection_level'')) + 1))),
      (''EBPF_ENABLE'', flag (t_switch T ''cfg_ebpf_enable'')), (''DEBUG_ENABLE'', flag (t_switch T ''cfg_debug_enable'')),
      (''DEV_ENABLE'', flag (t_switch T ''cfg_dev_enable'')),
      (''ADVANCED_CONFIG_ENABLE'', flag (t_switch T ''cfg_advanced_enable''))] @
     text_setting ''SERVER_ADDRESS'' (t_text T ''cfg_server_address'') @ text_setting ''SERVER_PORT'' (t_text T ''cfg_server_port'') @
     (if t_selected T ''cfg_server_ssh'' < 3 then [(''SERVER_SSH'', server_ssh_vals ! t_selected T ''cfg_server_ssh'')] else []) @
     concat (map (\<lambda>(i, key). if t_object T i then [(key, if t_switch T i then ''enabled'' else ''disabled'')] else []) lint_switches)"

lemma asks_eq: "asks b m ds \<Longrightarrow> ds = ds' \<Longrightarrow> asks b m ds'"
  by simp

lemma asks_set [asks_rules]:
  assumes "ipc_up E"
  shows "asks b (config_send E key v) [fit 256 (set_request (key, v))]"
  using asks_config_send [OF assms, of b key v] by (simp add: printf_sn_def printf_simps set_request_def fit_def)

lemma asks_get_object [asks_rules]: "asks b (get_object T i) []"
  by (simp add: asks_def get_object_def gtk_def)

lemma asks_object:
  assumes "asks b m ds"
  shows "asks b (do { w \<leftarrow> get_object T i; if w then m else ret () }) (if t_object T i then ds else [])"
  unfolding asks_def
proof (intro allI impI)
  fix u :: "'a gui" assume u: "bound u = b \<and> log_ok (prg u)"
  let ?v = "u\<lparr>screen := screen u @ [BuilderGet i]\<rparr>"
  have e: "exec (do { w \<leftarrow> get_object T i; if w then m else ret () }) u = (if t_object T i then exec m ?v else ?v)"
    by (simp add: get_object_def gtk_def)
  show "bound (exec (do { w \<leftarrow> get_object T i; if w then m else ret () }) u) = b \<and>
      log_ok (prg (exec (do { w \<leftarrow> get_object T i; if w then m else ret () }) u)) \<and>
      (\<exists>t. trace (prg (exec (do { w \<leftarrow> get_object T i; if w then m else ret () }) u)) = trace (prg u) @ t \<and>
         requests (calls t) = (if t_object T i then ds else []))"
    using assms [unfolded asks_def, rule_format, of ?v] u unfolding e by auto
qed

lemma print_int: "printf_sn E 16 ''%d'' [AInt (s32 n)] = xui_itoa 10 (s32 n)"
proof -
  have "s32 (s32 n) = s32 n" by (rule s32_id) (rule s32_range)+
  then show ?thesis using itoa_length [OF s32_range, of n] by (simp add: printf_sn_def printf_simps fit_def)
qed

lemma asks_apply:
  assumes up: "ipc_up E" and b: "set page_widgets \<subseteq> set b"
  shows "asks b (on_cfg_apply_clicked E T) (map (fit 256 \<circ> set_request) (page_pairs E T))"
proof -
  have n: "printf_sn E 16 ''%d'' [AInt (int_of x)] = xui_itoa 10 (int_of x)" for x
    unfolding int_of_def by (rule print_int)
  have lint: "asks b (forM lint_switches (\<lambda>p. do {
      lw \<leftarrow> get_object T (fst p);
      if lw then config_send E (snd p) (if t_switch T (fst p) then ''enabled'' else ''disabled'') else ret () }))
    (concat (map (\<lambda>p. map (\<lambda>x. fit 256 (set_request x))
      (if t_object T (fst p) then [(snd p, if t_switch T (fst p) then ''enabled'' else ''disabled'')] else [])) lint_switches))"
    by (rule asks_forM, rule asks_eq, rule asks_object, rule asks_set [OF up]) simp
  show ?thesis
    unfolding on_cfg_apply_clicked_def send_choice_def send_number_def send_switch_def send_server_def set_config_dirty_def case_prod_beta Let_def
      n print_int
    by (rule asks_eq, (rule lint asks_rules up)+)
      (use b in \<open>simp add: page_widgets_def page_pairs_def text_setting_def n print_int server_ssh_vals_def map_concat o_def case_prod_beta\<close>)
qed


abbreviation host_toolkit :: toolkit where
  "host_toolkit \<equiv> plain_toolkit\<lparr>t_text := (\<lambda>i. ''host'')\<rparr>"

lemma small_itoa: "xui_itoa 10 7 = ''7''" "xui_itoa 10 2 = ''2''" "xui_itoa 10 1 = ''1''"
proof -
  have "digit_char 7 = CHR ''7''" "digit_char 2 = CHR ''2''" "digit_char 1 = CHR ''1''" by code_simp+
  then have "utoa_loop 10 7 = ''7''" "utoa_loop 10 2 = ''2''" "utoa_loop 10 (Suc 0) = ''1''"
    by (subst utoa_loop.simps, simp add: utoa_loop_Nil)+
  then show "xui_itoa 10 7 = ''7''" "xui_itoa 10 2 = ''2''" "xui_itoa 10 1 = ''1''" by (simp_all add: xui_itoa_def)
qed

lemma host_pairs: "page_pairs E host_toolkit =
  [(''DAEMON_STATE'', ''auto''), (''FALLBACK_PROFILE'', ''cache''), (''POLLING_INTERVAL'', ''7''), (''LOAD_THRESHOLD'', ''7''),
   (''DETECTION_LEVEL'', ''2''), (''EBPF_ENABLE'', ''1''), (''DEBUG_ENABLE'', ''1''), (''DEV_ENABLE'', ''1''),
   (''ADVANCED_CONFIG_ENABLE'', ''1''), (''SERVER_ADDRESS'', ''host''), (''SERVER_PORT'', ''host''), (''SERVER_SSH'', ''remote'')] @
  map (\<lambda>(i, key). (key, ''enabled'')) lint_switches"
  by (simp add: page_pairs_def text_setting_def plain_toolkit_def table_text_def flag_def daemon_state_vals_def fallback_vals_def
      server_ssh_vals_def int_of_def s32_id lint_switches_def small_itoa)


subsection \<open>Cancelling after applying\<close>

text \<open>
  What cancelling sets the widgets to when the daemon has served the page's requests: their own values, a range without its fraction,
  but for the state of the daemon, the port and the remote access the values \<open>c0\<close> the daemon had before.
\<close>

definition page_shows :: "toolkit \<Rightarrow> DaemonConfig \<Rightarrow> gtk_call \<Rightarrow> bool" where
  "page_shows T c0 c \<longleftrightarrow> (case c of
     SwitchSet i b \<Rightarrow> b = t_switch T i
   | DropSet i n \<Rightarrow> n = (if i = ''cfg_daemon_state'' then find_dropdown_idx daemon_state_vals (daemon_state c0)
       else if i = ''cfg_server_ssh'' then find_dropdown_idx server_ssh_vals (server_ssh c0) else t_selected T i)
   | RangeSet i r \<Rightarrow> r = of_int (int_of (t_value T i))
   | TextSet i v \<Rightarrow> v = (if i = ''cfg_server_port'' then xui_itoa 10 (server_port c0) else t_text T i)
   | SpinSet i n \<Rightarrow> False
   | _ \<Rightarrow> True)"

lemma free_page_shows: "free_calls (page_shows T c0)"
  by (auto simp: free_calls_def page_shows_def sets_value_def split: gtk_call.splits)

lemma page_getters:
  "result (config_get E ''DAEMON_STATE'') s = daemon_state (cfg s)" "result (config_get E ''FALLBACK_PROFILE'') s = fallback_profile (cfg s)"
  "result (config_get E ''POLLING_INTERVAL'') s = printf_sn E 128 ''%d'' [AInt (polling_interval (cfg s))]"
  "result (config_get E ''LOAD_THRESHOLD'') s = printf_sn E 128 ''%d'' [AInt (rat_trunc (load_threshold (cfg s)))]"
  "result (config_get E ''DETECTION_LEVEL'') s = printf_sn E 128 ''%d'' [AInt (detection_level (cfg s))]"
  "result (config_get E ''EBPF_ENABLE'') s = printf_sn E 128 ''%d'' [AInt (ebpf_enable (cfg s))]"
  "result (config_get E ''DEBUG_ENABLE'') s = printf_sn E 128 ''%d'' [AInt (debug_enable (cfg s))]"
  "result (config_get E ''DEV_ENABLE'') s = printf_sn E 128 ''%d'' [AInt (dev_enable (cfg s))]"
  "result (config_get E ''ADVANCED_CONFIG_ENABLE'') s = printf_sn E 128 ''%d'' [AInt (advanced_config_enable (cfg s))]"
  "result (config_get E ''SERVER_ADDRESS'') s = server_address (cfg s)"
  "result (config_get E ''SERVER_PORT'') s = printf_sn E 128 ''%d'' [AInt (server_port (cfg s))]"
  "result (config_get E ''SERVER_SSH'') s = server_ssh (cfg s)"
  by (simp_all add: config_get_def config_getters_def)

lemma atof_itoa: "atof (xui_itoa 10 n) = of_int n"
proof -
  have u: "digits (xui_utoa 10 m)" "xui_utoa 10 m \<noteq> []" "dec_value (xui_utoa 10 m) = m" for m by (rule xui_utoa_digits)+
  have loop: "atof_loop 0 1 False (xui_utoa 10 m) = of_nat m" for m
    using atof_loop_digits [OF u(1) [of m], where r = 0 and fr = 1 and rest = "[]"] u(3) [of m] by simp
  obtain a b where ab: "xui_utoa 10 (nat n) = a # b" using u(2) [of "nat n"] by (cases "xui_utoa 10 (nat n)") auto
  have a: "is_digit a" "\<not> is_blank a" "a \<noteq> CHR ''-''" using u(1) [of "nat n"] ab by (auto simp: is_digit_def is_blank_def uchar_def)
  show ?thesis
  proof (cases "0 \<le> n")
    case True
    then have "atof (xui_itoa 10 n) = atof_loop 0 1 False (xui_utoa 10 (nat n))"
      using a by (simp add: atof_def itoa_utoa ab)
    then show ?thesis using loop True by simp
  next
    case False
    then have "xui_itoa 10 n = CHR ''-'' # xui_utoa 10 (nat (- n))" by (simp add: xui_itoa_def xui_utoa_def)
    then have "atof (xui_itoa 10 n) = - atof_loop 0 1 False (xui_utoa 10 (nat (- n)))" by (simp add: atof_def is_blank_def)
    then show ?thesis using loop False by simp
  qed
qed

lemma page_distinct: "distinct (map fst (page_pairs E T))"
proof -
  have lint: "subseq (map fst (concat (map (\<lambda>(i, key). if f i then [(key, g i)] else []) xs))) (map snd xs)" for f and g :: "string \<Rightarrow> string" and xs
    by (induction xs) (auto intro: list_emb_Cons)
  have some: "subseq (map fst (text_setting key v)) [key]" "subseq (map fst (if b then [(key, v)] else [])) [key]" for key v b
    by (simp_all add: text_setting_def)
  let ?keys = "[''DAEMON_STATE'', ''FALLBACK_PROFILE'', ''POLLING_INTERVAL'', ''LOAD_THRESHOLD'', ''DETECTION_LEVEL'', ''EBPF_ENABLE'',
    ''DEBUG_ENABLE'', ''DEV_ENABLE'', ''ADVANCED_CONFIG_ENABLE''] @ [''SERVER_ADDRESS''] @ [''SERVER_PORT''] @ [''SERVER_SSH''] @ map snd lint_switches"
  have "subseq (map fst (page_pairs E T)) ?keys"
    unfolding page_pairs_def map_append
    by (intro list_emb_append_mono some lint) simp
  then obtain N where "map fst (page_pairs E T) = nths ?keys N" by (auto simp: subseq_conv_nths)
  moreover have "distinct ?keys" by (simp add: lint_switches_def)
  ultimately show ?thesis by (metis distinct_nthsI)
qed

text \<open>The keys the page reads, and what the daemon answers for them once it has served the page.\<close>

definition page_reads :: "string list" where
  "page_reads = [''DAEMON_STATE'', ''FALLBACK_PROFILE'', ''POLLING_INTERVAL'', ''LOAD_THRESHOLD'', ''DETECTION_LEVEL'', ''EBPF_ENABLE'',
     ''DEBUG_ENABLE'', ''DEV_ENABLE'', ''ADVANCED_CONFIG_ENABLE'', ''SERVER_ADDRESS'', ''SERVER_PORT'', ''SERVER_SSH'']"

lemma flag_number: "in_int (if b then 1 else 0)" "flag b = xui_itoa 10 (if b then 1 else 0)"
proof -
  have "digit_char 1 = CHR ''1''" by code_simp
  then have "utoa_loop 10 (Suc 0) = ''1''" by (subst utoa_loop.simps) (simp add: utoa_loop_Nil)
  then show "in_int (if b then 1 else 0)" "flag b = xui_itoa 10 (if b then 1 else 0)"
    by (simp_all add: in_int_def flag_def xui_itoa_def)
qed

lemma served_page:
  assumes "fold (\<lambda>(k, v). set_live k v) (page_pairs E T) c = c'"
  shows "daemon_state c' = daemon_state c" "server_port c' = server_port c" "server_ssh c' = server_ssh c"
    "fallback_profile c' = fit 64 (table_text E fallback_vals (t_selected T ''cfg_fallback_profile''))"
    "polling_interval c' = int_of (t_value T ''cfg_polling_interval'')"
    "load_threshold c' = of_int (int_of (t_value T ''cfg_load_threshold''))"
    "detection_level c' = s32 (s32 (int (t_selected T ''cfg_detection_level'')) + 1)"
    "ebpf_enable c' = (if t_switch T ''cfg_ebpf_enable'' then 1 else 0)" "debug_enable c' = (if t_switch T ''cfg_debug_enable'' then 1 else 0)"
    "dev_enable c' = (if t_switch T ''cfg_dev_enable'' then 1 else 0)"
    "advanced_config_enable c' = (if t_switch T ''cfg_advanced_enable'' then 1 else 0)"
    "t_text T ''cfg_server_address'' \<noteq> [] \<Longrightarrow> server_address c' = fit 128 (t_text T ''cfg_server_address'')"
proof -
  have i32: "in_int (s32 n)" "in_int (int_of r)" for n r using s32_range by (simp_all add: in_int_def int_of_def)
  have num: "atoi (xui_itoa 10 n) = n" if "in_int n" for n by (rule atoi_itoa_int [OF that])
  have sw: "atoi (flag b) = (if b then 1 else 0)" for b unfolding flag_number(2) by (rule num [OF flag_number(1)])
  show "daemon_state c' = daemon_state c" "server_port c' = server_port c" "server_ssh c' = server_ssh c"
    using kept_fold [of "page_pairs E T" c] assms by simp_all
  show "fallback_profile c' = fit 64 (table_text E fallback_vals (t_selected T ''cfg_fallback_profile''))"
    using live_fold [OF page_keys(1) page_distinct, of _ E T c] assms by (simp add: page_pairs_def)
  show "polling_interval c' = int_of (t_value T ''cfg_polling_interval'')"
    using live_fold [OF page_keys(2) page_distinct, of "xui_itoa 10 (int_of (t_value T ''cfg_polling_interval''))" E T c] assms
    by (simp add: page_pairs_def num i32)
  show "load_threshold c' = of_int (int_of (t_value T ''cfg_load_threshold''))"
    using live_fold [OF page_keys(3) page_distinct, of "xui_itoa 10 (int_of (t_value T ''cfg_load_threshold''))" E T c] assms
    by (simp add: page_pairs_def atof_itoa)
  show "detection_level c' = s32 (s32 (int (t_selected T ''cfg_detection_level'')) + 1)"
    using live_fold [OF page_keys(4) page_distinct, of "xui_itoa 10 (s32 (s32 (int (t_selected T ''cfg_detection_level'')) + 1))" E T c] assms
    by (simp add: page_pairs_def num i32)
  show "ebpf_enable c' = (if t_switch T ''cfg_ebpf_enable'' then 1 else 0)"
    using live_fold [OF page_keys(5) page_distinct, of "flag (t_switch T ''cfg_ebpf_enable'')" E T c] assms by (simp add: page_pairs_def sw)
  show "debug_enable c' = (if t_switch T ''cfg_debug_enable'' then 1 else 0)"
    using live_fold [OF page_keys(6) page_distinct, of "flag (t_switch T ''cfg_debug_enable'')" E T c] assms by (simp add: page_pairs_def sw)
  show "dev_enable c' = (if t_switch T ''cfg_dev_enable'' then 1 else 0)"
    using live_fold [OF page_keys(7) page_distinct, of "flag (t_switch T ''cfg_dev_enable'')" E T c] assms by (simp add: page_pairs_def sw)
  show "advanced_config_enable c' = (if t_switch T ''cfg_advanced_enable'' then 1 else 0)"
    using live_fold [OF page_keys(8) page_distinct, of "flag (t_switch T ''cfg_advanced_enable'')" E T c] assms by (simp add: page_pairs_def sw)
  show "server_address c' = fit 128 (t_text T ''cfg_server_address'')" if "t_text T ''cfg_server_address'' \<noteq> []"
    using live_fold [OF page_keys(9) page_distinct, of "t_text T ''cfg_server_address''" E T c] assms that
    by (simp add: page_pairs_def text_setting_def)
qed

lemma page_keys_send: "list_all (\<lambda>(k, v). CHR '' '' \<notin> set k) (page_pairs E T)"
proof -
  have "list_all (\<lambda>(i, k). CHR '' '' \<notin> set k) lint_switches" by (simp add: lint_switches_def)
  then show ?thesis by (auto simp: page_pairs_def text_setting_def list_all_iff split: if_splits)
qed

definition applied :: "'w env \<Rightarrow> toolkit \<Rightarrow> DaemonConfig \<Rightarrow> (string \<times> string) list" where
  "applied E T c0 =
     [(''DAEMON_STATE'', daemon_state c0), (''FALLBACK_PROFILE'', table_text E fallback_vals (t_selected T ''cfg_fallback_profile'')),
      (''POLLING_INTERVAL'', xui_itoa 10 (int_of (t_value T ''cfg_polling_interval''))),
      (''LOAD_THRESHOLD'', xui_itoa 10 (int_of (t_value T ''cfg_load_threshold''))),
      (''DETECTION_LEVEL'', xui_itoa 10 (int (t_selected T ''cfg_detection_level'') + 1)),
      (''EBPF_ENABLE'', flag (t_switch T ''cfg_ebpf_enable'')), (''DEBUG_ENABLE'', flag (t_switch T ''cfg_debug_enable'')),
      (''DEV_ENABLE'', flag (t_switch T ''cfg_dev_enable'')), (''ADVANCED_CONFIG_ENABLE'', flag (t_switch T ''cfg_advanced_enable'')),
      (''SERVER_ADDRESS'', t_text T ''cfg_server_address''), (''SERVER_PORT'', xui_itoa 10 (server_port c0)), (''SERVER_SSH'', server_ssh c0)]"

lemma applied_answers:
  assumes served: "d' = exec (serve_settings D fd (page_pairs E T)) d"
    and sel: "t_selected T ''cfg_fallback_profile'' < 3" "t_selected T ''cfg_detection_level'' < 2"
    and host: "t_text T ''cfg_server_address'' \<noteq> []" "length (t_text T ''cfg_server_address'') < 128"
    and port: "in_int (server_port (cfg d))"
  shows "list_all (\<lambda>(key, v). result (config_get D key) d' = v) (applied E' T (cfg d))"
proof -
  have "fold (\<lambda>(k, v). set_live k v) (page_pairs E T) (cfg d) = cfg d'"
    unfolding served by (rule cfg_serve [OF page_keys_send, symmetric])
  note c = served_page [OF this]
  have i32: "in_int (int_of r)" for r using s32_range by (simp add: in_int_def int_of_def)
  have fb: "length (table_text E fallback_vals (t_selected T ''cfg_fallback_profile'')) < 64"
    using sel(1) by (auto simp: table_text_def fallback_vals_def less_Suc_eq numeral_3_eq_3)
  have det: "detection_level (cfg d') = int (t_selected T ''cfg_detection_level'') + 1" "in_int (detection_level (cfg d'))"
    using sel(2) c(7) by (simp_all add: s32_id in_int_def)
  have trunc: "rat_trunc (of_int n) = n" for n by (cases "n < 0") (simp_all add: rat_trunc_def)
  have print_flag: "printf_sn D 128 ''%d'' [AInt (if b then 1 else 0)] = flag b" for b
    unfolding flag_number(2) by (rule print_number [OF flag_number(1)])
  show ?thesis
    unfolding applied_def list.pred_inject prod.case
    using fb sel det port host c
    by (simp add: page_getters print_number i32 fit_def table_text_def fallback_vals_def trunc print_flag split del: if_split)
qed

text \<open>Restoring a widget from an answer that is its own value calls for what the page shows.\<close>

lemma set_shows:
  "only (page_shows T c0) (set_switch E T i (t_switch T i))"
  "only (page_shows T c0) (set_range E T i (of_int (int_of (t_value T i))))"
  "page_shows T c0 (DropSet i n) \<Longrightarrow> only (page_shows T c0) (set_drop E T i n)"
  "page_shows T c0 (TextSet i v) \<Longrightarrow> only (page_shows T c0) (set_text E T i v)"
  by (rule only_emit [OF free_page_shows], simp add: page_shows_def)+

lemma restore_shows:
  assumes "\<And>u. result (gui_config_get E T key) u = v"
  shows "v = flag (t_switch T i) \<Longrightarrow> only (page_shows T c0) (restore_switch E T i key)"
    "v = xui_itoa 10 (int_of (t_value T i)) \<Longrightarrow> only (page_shows T c0) (restore_range E T i key)"
    "page_shows T c0 (DropSet i (find_dropdown_idx vals v)) \<Longrightarrow> only (page_shows T c0) (restore_choice E T i key vals)"
    "page_shows T c0 (TextSet i v) \<Longrightarrow> only (page_shows T c0) (restore_server E T i key)"
proof -
  show "only (page_shows T c0) (restore_switch E T i key)" if "v = flag (t_switch T i)"
    unfolding restore_switch_def by (rule only_when_bound, rule only_get [OF assms]) (simp add: that std_atoi_flag set_shows)
  show "only (page_shows T c0) (restore_range E T i key)" if "v = xui_itoa 10 (int_of (t_value T i))"
    unfolding restore_range_def by (rule only_when_bound, rule only_get [OF assms]) (simp add: that std_atof_itoa set_shows)
  show "only (page_shows T c0) (restore_choice E T i key vals)" if "page_shows T c0 (DropSet i (find_dropdown_idx vals v))"
    unfolding restore_choice_def by (rule only_when_bound, rule only_get [OF assms], rule set_shows(3) [OF that])
  show "only (page_shows T c0) (restore_server E T i key)" if "page_shows T c0 (TextSet i v)"
    unfolding restore_server_def
    by (rule only_when_bound, rule only_get [OF assms], rule only_control(1)) (simp_all add: set_shows(4) [OF that] only_basic)
qed


text \<open>A daemon that was in its default state, and what it replies after it has served the page.\<close>

definition idle_daemon :: "mem_world prog" where
  "idle_daemon = (mem_start Map.empty [])\<lparr>cfg := zero_cfg\<lparr>daemon_state := ''default'', server_port := 7, server_ssh := ''local''\<rparr>\<rparr>"

definition served_reply :: "string \<Rightarrow> string" where
  "served_reply r = result (config_get mem_env (drop 11 r)) (exec (serve_settings mem_env 5 (page_pairs mem_env host_toolkit)) idle_daemon)"

lemma served_replies:
  "list_all (\<lambda>key. served_reply (''GET_CONFIG '' @ key) \<noteq> [] \<and> served_reply (''GET_CONFIG '' @ key) \<noteq> ''ERR'' \<and>
     cstring (served_reply (''GET_CONFIG '' @ key)) \<and> length (served_reply (''GET_CONFIG '' @ key)) < 256 \<and>
     fit 128 (''GET_CONFIG '' @ key) = ''GET_CONFIG '' @ key) page_reads"
proof -
  let ?d = "exec (serve_settings mem_env 5 (page_pairs mem_env host_toolkit)) idle_daemon"
  have print: "printf_sn mem_env 128 ''%d'' [AInt 7] = ''7''" "printf_sn mem_env 128 ''%d'' [AInt 2] = ''2''"
    "printf_sn mem_env 128 ''%d'' [AInt 1] = ''1''"
    using print_number [of 7 mem_env] print_number [of 2 mem_env] print_number [of 1 mem_env] by (simp_all add: in_int_def small_itoa)
  have "fold (\<lambda>(k, v). set_live k v) (page_pairs mem_env host_toolkit) (cfg idle_daemon) = cfg ?d"
    by (rule cfg_serve [OF page_keys_send, symmetric])
  note c = served_page [OF this]
  have v: "load_threshold (cfg ?d) = 7" "polling_interval (cfg ?d) = 7" "detection_level (cfg ?d) = 2"
    "daemon_state (cfg ?d) = ''default''" "server_port (cfg ?d) = 7" "server_ssh (cfg ?d) = ''local''"
    "fallback_profile (cfg ?d) = ''cache''" "ebpf_enable (cfg ?d) = 1" "debug_enable (cfg ?d) = 1"
    "dev_enable (cfg ?d) = 1" "advanced_config_enable (cfg ?d) = 1"
    unfolding c by (simp_all add: plain_toolkit_def idle_daemon_def int_of_def s32_id table_text_def fallback_vals_def fit_def)
  have "server_address (cfg ?d) = ''host''" using c(12) by (simp add: fit_def)
  then show ?thesis
    by (simp add: page_reads_def served_reply_def page_getters v print rat_trunc_def cstr_simps fit_def)
qed


end
