(* ===== verification/Probe.thy ===== *)
theory Probe
  imports Polling
begin

unbundle bit_operations_syntax

section \<open>The kernel half of the game detection (src/daemon/bpf/bpf.c) and what the daemon makes of it\<close>

text \<open>
  The two programs of \<^verbatim>\<open>bpf.c\<close> run in the kernel whenever a task executes a program or exits, and leave a record in the ring buffer
  \<^verbatim>\<open>events\<close> that \<^verbatim>\<open>bpf-user.c\<close> reads. A record is 24 bytes; both files declare \<^verbatim>\<open>struct process_event\<close>, and \<open>read_event\<close> is the
  reader's view of the writer's stores. The helpers of the kernel are the parameter \<open>helpers\<close>: the memory a reservation yields and the
  bytes of a task's name.
\<close>

subsection \<open>Writing and reading a record\<close>

record helpers =
  bpf_ringbuf_reserve :: "8 word list list \<Rightarrow> 8 word list option"
  bpf_get_current_comm :: "string \<Rightarrow> 8 word list"

definition store :: "nat \<Rightarrow> 8 word list \<Rightarrow> 8 word list \<Rightarrow> 8 word list" where
  "store off bs e = take off e @ bs @ drop (off + length bs) e"

text \<open>An \<^verbatim>\<open>int\<close> in memory, lowest byte first; the upper half of the result of \<^verbatim>\<open>bpf_get_current_pid_tgid\<close> is the number of the process.\<close>

definition int_bytes :: "32 word \<Rightarrow> 8 word list" where
  "int_bytes w = map (\<lambda>k. ucast (drop_bit (8 * k) w)) [0, 1, 2, 3]"

definition process_of :: "64 word \<Rightarrow> 32 word" where
  "process_of pid_tgid = ucast (drop_bit 32 pid_tgid)"

definition submit :: "helpers \<Rightarrow> 8 word \<Rightarrow> 64 word \<Rightarrow> string \<Rightarrow> 8 word list list \<Rightarrow> 8 word list list" where
  "submit H is_exit pid_tgid comm events =
     (case bpf_ringbuf_reserve H events of
        None \<Rightarrow> events
      | Some e \<Rightarrow> events @ [store 20 [is_exit] (store 4 (bpf_get_current_comm H comm) (store 0 (int_bytes (process_of pid_tgid)) e))])"

definition handle_exec :: "helpers \<Rightarrow> 64 word \<Rightarrow> string \<Rightarrow> 8 word list list \<Rightarrow> int \<times> 8 word list list" where
  "handle_exec H pid_tgid comm events = (0, submit H 0 pid_tgid comm events)"

definition handle_exit :: "helpers \<Rightarrow> 64 word \<Rightarrow> string \<Rightarrow> 8 word list list \<Rightarrow> int \<times> 8 word list list" where
  "handle_exit H pid_tgid comm events = (0, submit H 1 pid_tgid comm events)"

definition bytes_int :: "8 word list \<Rightarrow> 32 word" where
  "bytes_int bs = ucast (bs ! 0) OR push_bit 8 (ucast (bs ! 1)) OR push_bit 16 (ucast (bs ! 2)) OR push_bit 24 (ucast (bs ! 3))"

definition read_event :: "8 word list \<Rightarrow> process_event" where
  "read_event e = \<lparr>pe_pid = sint (bytes_int e),
     pe_comm = cstr (map (\<lambda>b. char_of (unat b)) (take 16 (drop 4 e))), pe_is_exit = e ! 20 \<noteq> 0\<rparr>"

subsection \<open>Tasks\<close>

text \<open>
  What the kernel reports: the numbers of the process and of the thread, and the name. \<^verbatim>\<open>bpf_get_current_pid_tgid\<close> answers the
  two numbers as the halves of one word. Each thread of a process exits for itself.
\<close>

datatype task_event = Exec_point "32 word" "32 word" string | Exit_point "32 word" "32 word" string

definition bpf_get_current_pid_tgid :: "32 word \<Rightarrow> 32 word \<Rightarrow> 64 word" where
  "bpf_get_current_pid_tgid process thread = push_bit 32 (ucast process) OR ucast thread"

fun probe :: "helpers \<Rightarrow> task_event \<Rightarrow> 8 word list list \<Rightarrow> 8 word list list" where
  "probe H (Exec_point p t c) events = snd (handle_exec H (bpf_get_current_pid_tgid p t) c events)"
| "probe H (Exit_point p t c) events = snd (handle_exit H (bpf_get_current_pid_tgid p t) c events)"

fun task_name :: "task_event \<Rightarrow> string" where
  "task_name (Exec_point p t c) = c"
| "task_name (Exit_point p t c) = c"

fun task_process :: "task_event \<Rightarrow> int" where
  "task_process (Exec_point p t c) = sint p"
| "task_process (Exit_point p t c) = sint p"

fun exits :: "task_event \<Rightarrow> bool" where
  "exits (Exec_point p t c) = False"
| "exits (Exit_point p t c) = True"

definition seen :: "task_event \<Rightarrow> process_event" where
  "seen t = \<lparr>pe_pid = task_process t, pe_comm = fit 16 (task_name t), pe_is_exit = exits t\<rparr>"

text \<open>The documented behaviour of the helpers: 24 bytes on request, and the name cut to 15 characters with a NUL.\<close>

definition helpers_ok :: "helpers \<Rightarrow> bool" where
  "helpers_ok H \<longleftrightarrow> (\<forall>r e. bpf_ringbuf_reserve H r = Some e \<longrightarrow> length e = 24) \<and>
     (\<forall>c. cstring c \<longrightarrow> length (bpf_get_current_comm H c) = 16 \<and>
        cstr (map (\<lambda>b. char_of (unat b)) (bpf_get_current_comm H c)) = fit 16 c)"

lemma length_int_bytes: "length (int_bytes w) = 4"
  by (simp add: int_bytes_def)

lemma bytes_int_bytes: "bytes_int (int_bytes w @ xs) = w"
proof (rule bit_word_eqI)
  fix n
  assume "n < LENGTH(32)"
  then consider "n < 8" | "8 \<le> n" "n < 16" | "16 \<le> n" "n < 24" | "24 \<le> n" "n < 32" by fastforce
  then show "bit (bytes_int (int_bytes w @ xs)) n \<longleftrightarrow> bit w n"
    by cases (auto simp: bytes_int_def int_bytes_def bit_simps)
qed

lemma read_store:
  assumes "length e = 24" "length cm = 16"
  shows "read_event (store 20 [x] (store 4 cm (store 0 (int_bytes w) e))) =
    \<lparr>pe_pid = sint w, pe_comm = cstr (map (\<lambda>b. char_of (unat b)) cm), pe_is_exit = x \<noteq> 0\<rparr>"
proof -
  have "store 20 [x] (store 4 cm (store 0 (int_bytes w) e)) = int_bytes w @ cm @ x # drop 21 e"
    using assms length_int_bytes [of w] by (simp add: store_def)
  then show ?thesis
    using assms length_int_bytes [of w] bytes_int_bytes [of w "cm @ x # drop 21 e"] by (simp add: read_event_def nth_append)
qed

lemma process_of_pair: "process_of (bpf_get_current_pid_tgid p t) = p"
  by (rule bit_word_eqI) (auto simp: process_of_def bpf_get_current_pid_tgid_def bit_simps dest: bit_imp_le_length)

lemma probe_step:
  assumes "helpers_ok H" "cstring (task_name t)"
  shows "map read_event (probe H t events) = map read_event events @ (if bpf_ringbuf_reserve H events = None then [] else [seen t])"
  using assms
  by (cases t) (auto simp: handle_exec_def handle_exit_def submit_def seen_def helpers_ok_def read_store process_of_pair split: option.splits)

lemma probe_records:
  assumes "helpers_ok H" "list_all (\<lambda>t. cstring (task_name t)) ts"
  shows "\<exists>ps. map read_event (fold (probe H) ts events) = map read_event events @ ps \<and> subseq ps (map seen ts) \<and>
    ((\<forall>r. length r < length events + length ts \<longrightarrow> bpf_ringbuf_reserve H r \<noteq> None) \<longrightarrow> ps = map seen ts)"
  using assms(2)
proof (induction ts arbitrary: events)
  case (Cons t ts)
  let ?room = "bpf_ringbuf_reserve H events \<noteq> None" and ?e = "probe H t events"
  have step: "map read_event ?e = map read_event events @ (if ?room then [seen t] else [])"
    using probe_step [OF assms(1), of t events] Cons.prems by simp
  have "length (map read_event ?e) = length (map read_event events @ (if ?room then [seen t] else []))" using step by simp
  then have len: "length ?e = length events + (if ?room then 1 else 0)"
    unfolding length_map length_append by (cases ?room) simp_all
  obtain ps where ps: "map read_event (fold (probe H) ts ?e) = map read_event ?e @ ps" "subseq ps (map seen ts)"
    "(\<forall>r. length r < length ?e + length ts \<longrightarrow> bpf_ringbuf_reserve H r \<noteq> None) \<longrightarrow> ps = map seen ts"
    using Cons.IH [of ?e] Cons.prems by auto
  have "subseq ((if ?room then [seen t] else []) @ ps) (map seen (t # ts))" using ps(2) by (auto intro: list_emb_Cons)
  then show ?case
    using step ps(1,3) len by (intro exI [of _ "(if ?room then [seen t] else []) @ ps"]) simp
qed simp

text \<open>
  C17. The daemon reads what the kernel saw: for every sequence of tasks that execute programs or exit, the records that
  \<^verbatim>\<open>bpf-user.c\<close> reads from the ring buffer are the events in their order, each with the number of the process, the first 15 characters of
  the name and its kind; events for which the ring buffer has no room are left out, and none is invented.
\<close>

theorem probe_roundtrip:
  assumes "helpers_ok H" "list_all (\<lambda>t. cstring (task_name t)) ts"
  shows "subseq (map read_event (fold (probe H) ts [])) (map seen ts) \<and>
    ((\<forall>r. length r < length ts \<longrightarrow> bpf_ringbuf_reserve H r \<noteq> None) \<longrightarrow> map read_event (fold (probe H) ts []) = map seen ts)"
  using probe_records [OF assms, of "[]"] by simp

text \<open>Helpers with room for \<open>n\<close> records.\<close>

definition roomy :: "nat \<Rightarrow> helpers" where
  "roomy n = \<lparr>bpf_ringbuf_reserve = (\<lambda>r. if length r < n then Some (replicate 24 0) else None),
     bpf_get_current_comm = (\<lambda>c. map (\<lambda>x. word_of_nat (of_char x)) (fit 16 c) @ replicate (16 - length (fit 16 c)) 0)\<rparr>"

lemma roomy_ok: "helpers_ok (roomy n)"
proof -
  have c: "char_of (unat (word_of_nat (of_char x) :: 8 word)) = x" for x :: char
    by (simp add: unat_of_nat take_bit_eq_mod)
  have z: "char_of (0 :: nat) = NUL" by (simp add: char_of_def)
  have "cstr (fit 16 c @ replicate k (char_of (0 :: nat))) = fit 16 c" if "cstring c" for c k
  proof -
    have "NUL \<notin> set (fit 16 c)" using that by (auto simp: cstring_def fit_def dest: in_set_takeD)
    then have "takeWhile (\<lambda>c. c \<noteq> NUL) (fit 16 c) = fit 16 c" by (auto simp: takeWhile_eq_all_conv)
    then show ?thesis using \<open>NUL \<notin> set (fit 16 c)\<close> unfolding cstr_def z by (cases k) (auto simp: takeWhile_append)
  qed
  then show ?thesis
    by (auto simp: helpers_ok_def roomy_def c o_def fit_def split: if_splits)
qed

theorem probe_roundtrip_witness:
  "map read_event (fold (probe (roomy 2)) [Exec_point 42 42 ''doom'', Exit_point 42 42 ''doom''] []) =
   map seen [Exec_point 42 42 ''doom'', Exit_point 42 42 ''doom'']"
  using probe_roundtrip [OF roomy_ok, of "[Exec_point 42 42 ''doom'', Exit_point 42 42 ''doom'']" 2]
  by (simp add: roomy_def cstr_simps)

subsection \<open>Counting games\<close>

text \<open>
  What \<^verbatim>\<open>handle_event\<close> does to the counter, as a function of the event alone: every exit takes one game away, whoever exits. \<open>steam\<close>
  is what the look into \<^verbatim>\<open>/proc/<pid>/environ\<close> answers for a process.
\<close>

definition is_launch :: "string list \<Rightarrow> (int \<Rightarrow> bool) \<Rightarrow> process_event \<Rightarrow> bool" where
  "is_launch g steam e \<longleftrightarrow> games_match g (pe_comm e) \<or> is_game_engine_comm (pe_comm e) \<or> steam (pe_pid e)"

definition count_event :: "string list \<Rightarrow> (int \<Rightarrow> bool) \<Rightarrow> process_event \<Rightarrow> nat \<Rightarrow> nat" where
  "count_event g steam e a = (if pe_is_exit e then a - 1 else if is_launch g steam e then a + 1 else a)"

definition steam_answers :: "'w env \<Rightarrow> (int \<Rightarrow> bool) \<Rightarrow> bool" where
  "steam_answers E steam \<longleftrightarrow> (\<forall>p s. result (scan_pid_steam_by_pid E p) s = steam p)"

definition tracked :: "string list \<Rightarrow> nat \<Rightarrow> 'w prog \<Rightarrow> bool" where
  "tracked g a s \<longleftrightarrow> gl s = g \<and> active_games s = int a"

lemma tracked_indep: "sys_indep (tracked g a)" "jrn_indep (tracked g a)"
  by (simp_all add: tracked_def sys_indep_def jrn_indep_def)

lemma frames_tracked:
  "gl (exec (journal_log E BPF_HIT xs) s) = gl s" "active_games (exec (journal_log E BPF_HIT xs) s) = active_games s"
  "gl (exec (scan_pid_steam_by_pid E p) s) = gl s" "active_games (exec (scan_pid_steam_by_pid E p) s) = active_games s"
proof -
  have ind: "sys_indep (\<lambda>s. gl s = g)" "jrn_indep (\<lambda>s. gl s = g)" "sys_indep (\<lambda>s. active_games s = k)" "jrn_indep (\<lambda>s. active_games s = k)"
    for g k by (simp_all add: sys_indep_def jrn_indep_def)
  have "keeps (\<lambda>s. gl s = g) (journal_log E BPF_HIT xs)" "keeps (\<lambda>s. active_games s = k) (journal_log E BPF_HIT xs)"
    "keeps (\<lambda>s. gl s = g) (scan_pid_steam_by_pid E p)" "keeps (\<lambda>s. active_games s = k) (scan_pid_steam_by_pid E p)" for g k
    by (intro hoare_rules ind plain_codes)+
  then show "gl (exec (journal_log E BPF_HIT xs) s) = gl s" "active_games (exec (journal_log E BPF_HIT xs) s) = active_games s"
    "gl (exec (scan_pid_steam_by_pid E p) s) = gl s" "active_games (exec (scan_pid_steam_by_pid E p) s) = active_games s"
    by (simp_all add: hoare_def)
qed

lemma hoare_handle_event:
  assumes "steam_answers E steam"
  shows "hoare (tracked g a) (handle_event E e) (\<lambda>_. tracked g (count_event g steam e a))"
  using assms
  by (auto simp: hoare_def tracked_def handle_event_def count_event_def is_launch_def exec_bind result_bind count_launch_def
      count_exit_def frames_tracked steam_answers_def simp del: run_state_bind)

lemma hoare_events:
  assumes "steam_answers E steam"
  shows "hoare (tracked g a) (forM es (handle_event E)) (\<lambda>_. tracked g (fold (count_event g steam) es a))"
proof (induction es arbitrary: a)
  case (Cons e es)
  show ?case using hoare_bind [OF hoare_handle_event [OF assms] Cons.IH] by simp
qed (simp add: hoare_def)

text \<open>A poll that finds the records of \<open>ts\<close>.\<close>

definition polled :: "'w env \<Rightarrow> helpers \<Rightarrow> int \<Rightarrow> task_event list \<Rightarrow> 'w prog \<Rightarrow> bool" where
  "polled E H ms ts s \<longleftrightarrow> bpf_rb s \<noteq> 0 \<and> helpers_ok H \<and> list_all (\<lambda>t. cstring (task_name t)) ts \<and>
     (\<forall>r. length r < length ts \<longrightarrow> bpf_ringbuf_reserve H r \<noteq> None) \<and>
     events_of (fst (kernel E (LibBpf (BpfRingPoll (bpf_rb s) ms)) (world s))) = map read_event (fold (probe H) ts [])"

lemma poll_counts:
  assumes "polled E H ms ts s" "steam_answers E steam" "active_games s = int a"
  shows "active_games (exec (bpf_poll E ms) s) = int (fold (count_event (gl s) steam) (map seen ts) a)"
proof -
  have es: "events_of (fst (kernel E (LibBpf (BpfRingPoll (bpf_rb s) ms)) (world s))) = map seen ts"
    using assms(1) probe_records [of H ts "[]"] by (auto simp: polled_def)
  let ?s1 = "exec (sys E (LibBpf (BpfRingPoll (bpf_rb s) ms))) s"
  have "tracked (gl s) a s" using assms(3) by (simp add: tracked_def)
  moreover have "keeps (tracked (gl s) a) (sys E (LibBpf (BpfRingPoll (bpf_rb s) ms)))"
    by (intro hoare_rules tracked_indep)
  ultimately have "tracked (gl s) a ?s1" by (simp add: hoare_def)
  then have "tracked (gl s) (fold (count_event (gl s) steam) (map seen ts) a) (exec (forM (map seen ts) (handle_event E)) ?s1)"
    by (rule hoareD [OF hoare_events [OF assms(2)]])
  moreover have "exec (bpf_poll E ms) s = exec (forM (map seen ts) (handle_event E)) ?s1"
    using assms(1) es by (simp add: bpf_poll_def polled_def exec_bind result_bind run_sys Let_def del: run_state_bind)
  ultimately show ?thesis by (simp add: tracked_def)
qed

subsection \<open>The counter and the games that run\<close>

text \<open>
  The processes of launched games, by what the kernel reports: a process ends with the exit of its first thread, whose own
  number is that of the process. In an orderly sequence only such processes exit, each only once, and none launches a second game.
\<close>

fun first_thread :: "task_event \<Rightarrow> bool" where
  "first_thread (Exec_point p t c) = (t = p)"
| "first_thread (Exit_point p t c) = (t = p)"

definition live_step :: "string list \<Rightarrow> (int \<Rightarrow> bool) \<Rightarrow> task_event \<Rightarrow> int set \<Rightarrow> int set" where
  "live_step g steam t L =
     (if exits t then (if first_thread t then L - {task_process t} else L)
      else if is_launch g steam (seen t) then insert (task_process t) L else L)"

primrec orderly :: "string list \<Rightarrow> (int \<Rightarrow> bool) \<Rightarrow> task_event list \<Rightarrow> int set \<Rightarrow> bool" where
  "orderly g steam [] L \<longleftrightarrow> True"
| "orderly g steam (t # ts) L \<longleftrightarrow>
     (if exits t then first_thread t \<and> task_process t \<in> L else is_launch g steam (seen t) \<longrightarrow> task_process t \<notin> L) \<and>
     orderly g steam ts (live_step g steam t L)"

lemma count_live:
  assumes "orderly g steam ts L" "finite L"
  shows "fold (count_event g steam) (map seen ts) (card L) = card (fold (live_step g steam) ts L)"
  using assms
proof (induction ts arbitrary: L)
  case (Cons t ts)
  have "count_event g steam (seen t) (card L) = card (live_step g steam t L)" "finite (live_step g steam t L)"
    using Cons.prems by (auto simp: count_event_def live_step_def seen_def card_Diff_singleton split: if_splits)
  then show ?case using Cons.IH [of "live_step g steam t L"] Cons.prems(1) by simp
qed simp

text \<open>
  C15. The counter of the event source is the number of running games as long as the events are orderly: for every such sequence of
  launches and exits, after the poll that delivers them \<^verbatim>\<open>active_games\<close> is the number of the games' processes that run.
\<close>

theorem counter_follows_games:
  assumes "polled E H ms ts s" "steam_answers E steam" "finite L" "active_games s = int (card L)" "orderly (gl s) steam ts L"
  shows "active_games (exec (bpf_poll E ms) s) = int (card (fold (live_step (gl s) steam) ts L))"
  using poll_counts [OF assms(1,2,4)] count_live [OF assms(5,3)] by simp

lemma count_exits: "list_all exits ts \<Longrightarrow> fold (count_event g steam) (map seen ts) a = a - length ts"
  by (induction ts arbitrary: a) (simp_all add: count_event_def seen_def)

lemma live_exits:
  "list_all (\<lambda>t. exits t \<and> (first_thread t \<longrightarrow> task_process t \<notin> L)) ts \<Longrightarrow> fold (live_step g steam) ts L = L"
  by (induction ts) (auto simp: live_step_def)

text \<open>
  C16. Exits of others make the event source forget the games: when as many tasks exit as games are counted, none of them the first
  thread of a game (other programs, or threads of the games themselves), every game still runs, but the counter is 0 and
  \<^verbatim>\<open>bpf_game()\<close> says that there is none.
\<close>

theorem stray_exits_forget_games:
  assumes "polled E H ms ts s" "steam_answers E steam" "active_games s = int (card L)"
    and "list_all (\<lambda>t. exits t \<and> (first_thread t \<longrightarrow> task_process t \<notin> L)) ts" "card L \<le> length ts"
  shows "fold (live_step (gl s) steam) ts L = L \<and> active_games (exec (bpf_poll E ms) s) = 0 \<and>
    \<not> result bpf_game (exec (bpf_poll E ms) s)"
proof -
  have "list_all exits ts" using assms(4) by (simp add: list_all_iff)
  then have "active_games (exec (bpf_poll E ms) s) = 0"
    using poll_counts [OF assms(1-3)] count_exits [of ts "gl s" steam "card L"] assms(5) by simp
  then show ?thesis using live_exits [OF assms(4)] by (simp add: bpf_game_def)
qed

text \<open>A kernel without files whose ring buffer holds what the events left.\<close>

definition probe_env :: "task_event list \<Rightarrow> mem_world env" where
  "probe_env ts = mem_env\<lparr>kernel := (\<lambda>c w. case c of
     LibBpf (BpfRingPoll r ms) \<Rightarrow> (Events (map read_event (fold (probe (roomy (length ts))) ts [])), w) | _ \<Rightarrow> (Ret (- 2), w))\<rparr>"

lemma probe_env_steam: "steam_answers (probe_env ts) (\<lambda>p. False)"
proof -
  have "result (c_open (probe_env ts) p fl md) s < 0" for p fl md s
    by (simp add: c_open_def run_sys_int probe_env_def failed_def Let_def)
  then show ?thesis
    by (simp add: steam_answers_def scan_pid_steam_by_pid_def scan_pid_steam_def Let_def result_bind not_le del: run_state_bind)
qed

lemma probe_env_polled:
  assumes "list_all (\<lambda>t. cstring (task_name t)) ts" "bpf_rb s \<noteq> 0"
  shows "polled (probe_env ts) (roomy (length ts)) 0 ts s"
  using assms roomy_ok by (simp add: polled_def probe_env_def roomy_def)

abbreviation game_42 :: "task_event list" where
  "game_42 \<equiv> [Exec_point 42 42 ''GameThread'']"

abbreviation thread_43 :: "task_event list" where
  "thread_43 \<equiv> [Exit_point 42 43 ''GameThread'']"

definition ring_start :: "int \<Rightarrow> mem_world prog" where
  "ring_start k = (mem_start Map.empty [])\<lparr>bpf_rb := 1, active_games := k\<rparr>"

theorem counter_follows_games_witness: "active_games (exec (bpf_poll (probe_env game_42) 0) (ring_start 0)) = 1"
proof -
  have "strncmp ''GameThread'' ''GameThread'' 10 = 0" by code_simp
  then have "is_launch g steam (seen (hd game_42))" for g steam
    by (simp add: is_launch_def seen_def is_game_engine_comm_def fit_def)
  then show ?thesis
    using counter_follows_games [OF probe_env_polled probe_env_steam, of game_42 "ring_start 0" "{}"]
    by (simp add: ring_start_def cstr_simps mem_start_def initial_prog_def live_step_def)
qed

theorem stray_exits_forget_games_witness: "\<not> result bpf_game (exec (bpf_poll (probe_env thread_43) 0) (ring_start 1))"
proof -
  show ?thesis
    using stray_exits_forget_games [OF probe_env_polled probe_env_steam, of thread_43 "ring_start 1" "{42}"]
    by (simp add: ring_start_def cstr_simps)
qed

subsection \<open>The thread that listens to GameMode (\<^verbatim>\<open>gamemode_listener_thread\<close> of src/daemon/bpf/bpf-user.c)\<close>

text \<open>
  What the thread asks of sd-bus: it tries the session buses of ten users and stays with the first that starts. The answers of
  \<^verbatim>\<open>sd_bus_new\<close> and \<^verbatim>\<open>sd_bus_start\<close> are parameters, \<open>k\<close> is the number of times the endless loop is taken.
\<close>

datatype bus_call = Bus_new | Bus_set_address string | Bus_start | Bus_unref | Bus_match_signal string string string string | Bus_process | Bus_wait

definition bus_path :: "'w env \<Rightarrow> nat \<Rightarrow> string" where
  "bus_path E uid = printf_sn E 128 ''unix:path=/run/user/%d/bus'' [AInt (int uid)]"

fun connect_bus :: "'w env \<Rightarrow> (nat \<Rightarrow> int) \<Rightarrow> (string \<Rightarrow> int) \<Rightarrow> nat list \<Rightarrow> bus_call list \<times> bool" where
  "connect_bus E bus_new bus_start [] = ([], False)"
| "connect_bus E bus_new bus_start (uid # uids) =
     (if bus_new uid \<ge> 0 then
        (let path = bus_path E uid; opened = [Bus_new, Bus_set_address path, Bus_start]
         in if bus_start path \<ge> 0 then (opened, True)
            else (let r = connect_bus E bus_new bus_start uids in (opened @ Bus_unref # fst r, snd r)))
      else (let r = connect_bus E bus_new bus_start uids in (Bus_new # fst r, snd r)))"

definition gamemode_listener_thread :: "'w env \<Rightarrow> (nat \<Rightarrow> int) \<Rightarrow> (string \<Rightarrow> int) \<Rightarrow> nat \<Rightarrow> bus_call list" where
  "gamemode_listener_thread E bus_new bus_start k =
     (let r = connect_bus E bus_new bus_start [1000..<1010]
      in fst r @ (if snd r then
           [Bus_match_signal ''/com/feralinteractive/GameMode'' ''com.feralinteractive.GameMode'' ''GameRegistered'' ''on_gamemode_signal'',
            Bus_match_signal ''/com/feralinteractive/GameMode'' ''com.feralinteractive.GameMode'' ''GameUnregistered'' ''on_gamemode_signal''] @
           concat (replicate k [Bus_process, Bus_wait])
         else []))"

text \<open>Every bus that was opened and did not start is released, and at most one stays open: that of the first user whose bus starts.\<close>

lemma connect_bus_first:
  "snd (connect_bus E bus_new bus_start uids) \<longleftrightarrow> list_ex (\<lambda>uid. bus_new uid \<ge> 0 \<and> bus_start (bus_path E uid) \<ge> 0) uids"
  "count_list (fst (connect_bus E bus_new bus_start uids)) Bus_start =
     count_list (fst (connect_bus E bus_new bus_start uids)) Bus_unref + (if snd (connect_bus E bus_new bus_start uids) then 1 else 0)"
  by (induction uids) (auto simp: Let_def)

text \<open>
  The thread and the daemon's own thread both change \<^verbatim>\<open>active_games\<close>, each increment a load and a store of its own. Whatever the order
  of the accesses, two launches count at least once; counting only once happens.
\<close>

datatype access = Load nat | Store nat

fun race :: "access list \<Rightarrow> int \<times> (nat \<Rightarrow> int) \<Rightarrow> int" where
  "race [] (c, r) = c"
| "race (Load t # as) (c, r) = race as (c, r(t := c))"
| "race (Store t # as) (c, r) = race as (r t + 1, r)"

lemma lost_launch: "(\<lambda>as. race as (c, r)) ` shuffles [Load 0, Store 0] [Load 1, Store 1] = {c + 1, c + 2}"
  by auto

end
