(* ===== verification/Fd_Sets.thy ===== *)
theory Fd_Sets
  imports Daemon
begin

unbundle bit_operations_syntax

section \<open>Descriptor sets (src/include/libc.h) and the wait of the daemon\<close>

text \<open>
  \<^verbatim>\<open>fd_set\<close> is an array of sixteen 64-bit words; the macros select a word and a bit with the division and the remainder by 64, in the unsigned
  64-bit arithmetic to which \<^verbatim>\<open>sizeof\<close> forces the descriptor. An access beyond the array is \<open>None\<close>. \<open>daemon_wait\<close> hands \<^verbatim>\<open>select\<close> a
  list of descriptors; \<open>wait_set\<close> is the array the code builds for it.
\<close>

type_synonym fd_set = "64 word list"

definition fd_word :: "int \<Rightarrow> nat" where
  "fd_word n = nat (n mod 2 ^ 64) div 64"

definition fd_bit :: "int \<Rightarrow> 64 word" where
  "fd_bit n = push_bit (nat (n mod 2 ^ 64) mod 64) 1"

definition FD_ZERO :: fd_set where
  "FD_ZERO = replicate 16 0"

definition FD_SET :: "int \<Rightarrow> fd_set \<Rightarrow> fd_set option" where
  "FD_SET n p = (if fd_word n < length p then Some (p[fd_word n := (p ! fd_word n) OR fd_bit n]) else None)"

definition FD_CLR :: "int \<Rightarrow> fd_set \<Rightarrow> fd_set option" where
  "FD_CLR n p = (if fd_word n < length p then Some (p[fd_word n := (p ! fd_word n) AND NOT (fd_bit n)]) else None)"

definition FD_ISSET :: "int \<Rightarrow> fd_set \<Rightarrow> 64 word option" where
  "FD_ISSET n p = (if fd_word n < length p then Some ((p ! fd_word n) AND fd_bit n) else None)"

subsection \<open>The arrays are sets of descriptors\<close>

definition fd_member :: "fd_set \<Rightarrow> int \<Rightarrow> bool" where
  "fd_member p n \<longleftrightarrow> 0 \<le> n \<and> n < 1024 \<and> bit (p ! (nat n div 64)) (nat n mod 64)"

definition fd_members :: "fd_set \<Rightarrow> int set" where
  "fd_members p = {n. fd_member p n}"

definition fd_list :: "fd_set \<Rightarrow> int list" where
  "fd_list p = filter (fd_member p) (map int [0..<1024])"

lemma fd_list_members: "set (fd_list p) = fd_members p" "distinct (fd_list p)"
  by (auto simp: fd_list_def fd_members_def fd_member_def distinct_map image_iff intro!: bexI [of _ "nat x" for x])

lemma fd_small:
  assumes "0 \<le> n" "n < 1024"
  shows "fd_word n = nat n div 64" "fd_word n < 16" "fd_bit n = push_bit (nat n mod 64) 1"
proof -
  have "n mod 2 ^ 64 = n" using assms by simp
  then show "fd_word n = nat n div 64" "fd_bit n = push_bit (nat n mod 64) 1" by (simp_all add: fd_word_def fd_bit_def)
  then show "fd_word n < 16" using assms by linarith
qed

lemma fd_out:
  assumes "in_int n" "n < 0 \<or> 1024 \<le> n"
  shows "16 \<le> fd_word n"
proof (cases "n < 0")
  case True
  have "n mod 2 ^ 64 = (n + 2 ^ 64) mod 2 ^ 64" by simp
  also have "\<dots> = n + 2 ^ 64" using assms(1) True by (intro mod_pos_pos_trivial) (simp_all add: in_int_def)
  finally have "n mod 2 ^ 64 = n + 2 ^ 64" .
  then show ?thesis using assms True by (simp add: fd_word_def in_int_def)
next
  case False
  then show ?thesis using assms by (simp add: fd_word_def in_int_def)
qed

lemma fd_same_bit: "nat n div 64 = nat m div 64 \<and> nat n mod 64 = nat m mod 64 \<longleftrightarrow> n = m" if "0 \<le> n" "0 \<le> m"
proof
  assume *: "nat n div 64 = nat m div 64 \<and> nat n mod 64 = nat m mod 64"
  have "nat n = nat m" using div_mult_mod_eq [of "nat n" 64] div_mult_mod_eq [of "nat m" 64] * by metis
  then show "n = m" using that by simp
qed simp

text \<open>Within the bounds the macros are insertion, deletion and membership; outside of them they leave the array.\<close>

lemma fd_zero_members: "fd_members FD_ZERO = {}"
  by (auto simp: fd_members_def fd_member_def FD_ZERO_def)

lemma fd_set_members:
  assumes "0 \<le> n" "n < 1024" "length p = 16"
  shows "\<exists>q. FD_SET n p = Some q \<and> length q = 16 \<and> fd_members q = insert n (fd_members p)"
proof -
  note w = fd_small [OF assms(1,2)]
  have "fd_member (p[fd_word n := (p ! fd_word n) OR fd_bit n]) m \<longleftrightarrow> m = n \<or> fd_member p m" for m
    using assms w fd_same_bit [of n m]
    by (cases "nat n div 64 = nat m div 64") (auto simp: fd_member_def nth_list_update bit_simps)
  then show ?thesis using w assms by (auto simp: FD_SET_def fd_members_def)
qed

lemma fd_clr_members:
  assumes "0 \<le> n" "n < 1024" "length p = 16"
  shows "\<exists>q. FD_CLR n p = Some q \<and> length q = 16 \<and> fd_members q = fd_members p - {n}"
proof -
  note w = fd_small [OF assms(1,2)]
  have "fd_member (p[fd_word n := (p ! fd_word n) AND NOT (fd_bit n)]) m \<longleftrightarrow> m \<noteq> n \<and> fd_member p m" for m
    using assms w fd_same_bit [of n m]
    by (cases "nat n div 64 = nat m div 64") (auto simp: fd_member_def nth_list_update bit_simps)
  then show ?thesis using w assms by (auto simp: FD_CLR_def fd_members_def)
qed

lemma fd_isset_member:
  assumes "0 \<le> n" "n < 1024" "length p = 16"
  shows "\<exists>b. FD_ISSET n p = Some b \<and> (b \<noteq> 0 \<longleftrightarrow> n \<in> fd_members p)"
proof -
  note w = fd_small [OF assms(1,2)]
  have "(p ! fd_word n) AND fd_bit n \<noteq> 0 \<longleftrightarrow> bit (p ! fd_word n) (nat n mod 64)"
    unfolding w(3) by (simp add: push_bit_of_1 and_exp_eq_0_iff_not_bit)
  then show ?thesis using w assms by (simp add: FD_ISSET_def fd_members_def fd_member_def)
qed

lemma fd_outside: "in_int n \<Longrightarrow> n < 0 \<or> 1024 \<le> n \<Longrightarrow> length p = 16 \<Longrightarrow> FD_SET n p = None \<and> FD_CLR n p = None \<and> FD_ISSET n p = None"
  using fd_out [of n] by (simp add: FD_SET_def FD_CLR_def FD_ISSET_def)

subsection \<open>The wait of the daemon\<close>

definition wait_set :: "int \<Rightarrow> fd_set option" where
  "wait_set server_fd = (if 0 \<le> server_fd then FD_SET server_fd FD_ZERO else Some FD_ZERO)"

lemma wait_set_list:
  assumes "0 \<le> fd" "fd < 1024"
  shows "map_option fd_list (wait_set fd) = Some [fd]"
proof -
  obtain q where q: "FD_SET fd FD_ZERO = Some q" "fd_members q = {fd}"
    using fd_set_members [OF assms, of FD_ZERO] fd_zero_members by (auto simp: FD_ZERO_def)
  then have "set (fd_list q) = {fd}" "distinct (fd_list q)" using fd_list_members by simp_all
  then have "fd_list q = [fd]" by (cases "fd_list q"; cases "tl (fd_list q)") auto
  then show ?thesis using q assms by (simp add: wait_set_def)
qed

end
