(* ===== verification/Dashboard.thy ===== *)
theory Dashboard
  imports Xui_Format
begin

unbundle bit_operations_syntax

section \<open>The dashboard server (src/server.c)\<close>

text \<open>
  A small web server over TCP that shows one page; nothing else of the program calls it. The calls into the C library are an own type, with
  \<^verbatim>\<open>printf\<close> among them for the log line; their answers and \<^verbatim>\<open>inet_addr\<close> are parameters. The page is composed by the C library's
  \<^verbatim>\<open>snprintf\<close>, whose \<^verbatim>\<open>%s\<close> and \<^verbatim>\<open>%d\<close> give the text that \<open>render\<close> gives without a table of symbols. The bytes of
  \<^verbatim>\<open>sin_zero\<close>, which the code leaves uninitialised, are not part of a call. The loop of the server has no end; \<open>x3d_server_run\<close> takes
  the number of its passes.
\<close>

record ServerConfig =
  address :: string
  port :: int
  enabled :: bool
  ssh_mode :: string
  ssh_user :: string
  ssh_port :: int

record X3DServer =
  listen_fd :: int
  config :: ServerConfig

datatype inet_call =
    InetSocket
  | InetReuse int
  | InetBind int "32 word" "16 word"
  | InetListen int nat
  | InetAccept int
  | InetSend int string
  | InetClose int
  | InetPrint string

record 'w inet =
  inet_kernel :: "inet_call \<Rightarrow> 'w \<Rightarrow> int \<times> 'w"
  inet_addr :: "string \<Rightarrow> 32 word"

record 'w desk =
  inet_world :: 'w
  inet_calls :: "inet_call list"

definition inet :: "'w inet \<Rightarrow> inet_call \<Rightarrow> ('w desk, int) state" where
  "inet I c = State (\<lambda>s. case inet_kernel I c (inet_world s) of
     (r, w) \<Rightarrow> (r, s\<lparr>inet_world := w, inet_calls := inet_calls s @ [c]\<rparr>))"

text \<open>The order of the network, on the machine's lowest byte first.\<close>

definition htons :: "16 word \<Rightarrow> 16 word" where
  "htons w = push_bit 8 w OR drop_bit 8 w"

definition std_snprintf :: "nat \<Rightarrow> string \<Rightarrow> arg list \<Rightarrow> string" where
  "std_snprintf n fmt as = take (n - 1) (render [] fmt as)"

definition page_style :: string where
  "page_style = ''HTTP/1.1 200 OK'' @ [CR, NL] @ ''Content-Type: text/html'' @ [CR, NL, CR, NL] @
     ''<!DOCTYPE html><html><head><style>'' @
     ''body { background: #0f0f0f; color: #00ff41; font-family: monospace; display: flex; '' @
     ''justify-content: center; align-items: center; height: 100vh; margin: 0; }'' @
     ''.matrix-box { border: 1px solid #00ff41; padding: 2rem; box-shadow: 0 0 15px #00ff41; }'' @
     ''</style></head><body><div class='' @ [CHR 0x27] @ ''matrix-box'' @ [CHR 0x27] @ ''>'' @
     ''<h1>X3D SERVER ACTIVE</h1>''"

definition page_format :: string where
  "page_format = page_style @ ''<p>IP: %s</p><p>PORT: %d</p><p>SSH MODE: %s</p>'' @ ''</div></body></html>''"

definition response :: "ServerConfig \<Rightarrow> string" where
  "response conf = std_snprintf 2048 page_format [AStr (address conf), AInt (port conf), AStr (ssh_mode conf)]"

definition serve_ui :: "'w inet \<Rightarrow> int \<Rightarrow> ServerConfig \<Rightarrow> ('w desk, unit) state" where
  "serve_ui I client_fd conf = do { inet I (InetSend client_fd (response conf)); ret () }"

definition x3d_server_init :: "'w inet \<Rightarrow> X3DServer \<Rightarrow> ServerConfig \<Rightarrow> ('w desk, int \<times> X3DServer) state" where
  "x3d_server_init I server conf = do {
     fd \<leftarrow> inet I InetSocket;
     let server = server\<lparr>config := conf, listen_fd := fd\<rparr>;
     if fd < 0 then ret (- 1, server)
     else do {
       inet I (InetReuse fd);
       b \<leftarrow> inet I (InetBind fd (inet_addr I (address conf)) (htons (word_of_int (port conf))));
       if b < 0 then do { inet I (InetClose fd); ret (- 1, server) }
       else do {
         l \<leftarrow> inet I (InetListen fd 5);
         if l < 0 then do { inet I (InetClose fd); ret (- 1, server) } else ret (0, server)
       }
     }
   }"

definition accept_client :: "'w inet \<Rightarrow> X3DServer \<Rightarrow> ('w desk, unit) state" where
  "accept_client I server = do {
     client_fd \<leftarrow> inet I (InetAccept (listen_fd server));
     if client_fd < 0 then ret ()
     else do { serve_ui I client_fd (config server); inet I (InetClose client_fd); ret () }
   }"

definition server_banner :: "ServerConfig \<Rightarrow> string" where
  "server_banner conf = render [] (''[X3D] Matrix listener active on %s:%d'' @ [NL]) [AStr (address conf), AInt (port conf)]"

definition x3d_server_run :: "'w inet \<Rightarrow> X3DServer \<Rightarrow> nat \<Rightarrow> ('w desk, unit) state" where
  "x3d_server_run I server n = do {
     inet I (InetPrint (server_banner (config server)));
     forM [0..<n] (\<lambda>_. accept_client I server)
   }"

subsection \<open>Facts\<close>

lemma run_inet [simp]:
  "run_state (inet I c) s = (fst (inet_kernel I c (inet_world s)),
     s\<lparr>inet_world := snd (inet_kernel I c (inet_world s)), inet_calls := inet_calls s @ [c]\<rparr>)"
  by (simp add: inet_def split: prod.split)

lemma htons_involution: "htons (htons w) = w"
  by (rule bit_word_eqI) (auto simp: htons_def bit_simps)

text \<open>The page is never cut, whatever the strings of the configuration hold.\<close>

lemma render_literal: "list_all (\<lambda>c. c \<noteq> CHR ''%'' \<and> c \<noteq> CHR ''$'') l \<Longrightarrow> render table (l @ p) as = l @ render table p as"
  by (induction l) (simp_all add: render_plain)

lemma page_style_plain: "list_all (\<lambda>c. c \<noteq> CHR ''%'' \<and> c \<noteq> CHR ''$'') page_style" "length page_style < 1000"
  by (simp_all add: page_style_def)

lemma response_whole:
  assumes "length (address conf) < 64" "length (ssh_mode conf) < 16"
  shows "response conf = page_style @ ''<p>IP: '' @ address conf @ ''</p><p>PORT: '' @ xui_itoa 10 (s32 (port conf)) @
    ''</p><p>SSH MODE: '' @ ssh_mode conf @ ''</p></div></body></html>''"
proof -
  have "length (xui_itoa 10 (s32 (port conf))) \<le> 11" using s32_range by (auto intro: itoa_length)
  then show ?thesis
    using assms page_style_plain(2)
    by (simp add: response_def std_snprintf_def page_format_def render_literal [OF page_style_plain(1)] fmt_simps)
qed

text \<open>A server that could be set up holds a listening socket and nothing is closed; one that could not has closed what it had.\<close>

definition set_up :: "'w inet \<Rightarrow> ServerConfig \<Rightarrow> int \<Rightarrow> inet_call list" where
  "set_up I conf fd = [InetSocket, InetReuse fd, InetBind fd (inet_addr I (address conf)) (htons (word_of_int (port conf))), InetListen fd 5]"

lemma server_init_calls:
  "\<exists>fd cs rc. result (x3d_server_init I server conf) s = (rc, server\<lparr>config := conf, listen_fd := fd\<rparr>) \<and>
     inet_calls (exec (x3d_server_init I server conf) s) = inet_calls s @ cs \<and>
     (rc = 0 \<and> 0 \<le> fd \<and> cs = set_up I conf fd \<or> rc = - 1 \<and> fd < 0 \<and> cs = [InetSocket] \<or>
      rc = - 1 \<and> 0 \<le> fd \<and> (\<exists>k \<in> {3, 4}. cs = take k (set_up I conf fd) @ [InetClose fd]))"
  by (auto simp: x3d_server_init_def set_up_def Let_def numeral_3_eq_3)

text \<open>Every pass of the loop asks for a client, whatever the one before answered; a client gets the page and is closed.\<close>

definition visit :: "X3DServer \<Rightarrow> int \<Rightarrow> inet_call list" where
  "visit server fd = InetAccept (listen_fd server) # (if fd < 0 then [] else [InetSend fd (response (config server)), InetClose fd])"

lemma server_banner_text: "server_banner conf = ''[X3D] Matrix listener active on '' @ address conf @ '':'' @ xui_itoa 10 (s32 (port conf)) @ [NL]"
  by (simp add: server_banner_def fmt_simps)

lemma accept_client_calls: "\<exists>fd. inet_calls (exec (accept_client I server) s) = inet_calls s @ visit server fd"
  by (auto simp: accept_client_def serve_ui_def visit_def intro: exI [of _ "fst (inet_kernel I (InetAccept (listen_fd server)) (inet_world s))"])

lemma server_run_calls:
  "\<exists>fds. length fds = n \<and> inet_calls (exec (x3d_server_run I server n) s) = inet_calls s @
     InetPrint (server_banner (config server)) # concat (map (visit server) fds)"
proof -
  have loop: "\<exists>fds. length fds = length xs \<and>
      inet_calls (exec (forM xs (\<lambda>_. accept_client I server)) u) = inet_calls u @ concat (map (visit server) fds)" for xs :: "nat list" and u
  proof (induction xs arbitrary: u)
    case (Cons x xs)
    obtain fd where fd: "inet_calls (exec (accept_client I server) u) = inet_calls u @ visit server fd" using accept_client_calls by blast
    obtain fds where "length fds = length xs" "inet_calls (exec (forM xs (\<lambda>_. accept_client I server)) (exec (accept_client I server) u)) =
        inet_calls (exec (accept_client I server) u) @ concat (map (visit server) fds)" using Cons.IH by blast
    then show ?case using fd by (intro exI [of _ "fd # fds"]) (simp add: exec_bind del: run_state_bind)
  qed simp
  show ?thesis
    using loop [of "[0..<n]" "exec (inet I (InetPrint (server_banner (config server)))) s"]
    by (simp add: x3d_server_run_def exec_bind del: run_state_bind)
qed

end
