(* ===== verification/Sysfs_Tool.thy ===== *)
theory Sysfs_Tool
  imports Hardware
begin

section \<open>The debug tool for the nodes of the driver (src/sysfs.c)\<close>

text \<open>
  A program of its own that prints which files match two patterns. \<^verbatim>\<open>glob\<close> is a parameter: its code and the paths it lists.
  \<open>glob_match\<close> is the documented meaning of a pattern with stars, and \<open>glob_ok\<close> says that the paths are the existing files that match.
\<close>

definition SYSFS_PATTERN1 :: string where "SYSFS_PATTERN1 = ''/sys/bus/platform/drivers/amd_x3d_vcache/*/amd_x3d_mode''"
definition SYSFS_PATTERN2 :: string where "SYSFS_PATTERN2 = ''/sys/devices/platform/AMDI*/amd_x3d_mode''"

definition PATH_MAX :: nat where "PATH_MAX = 4096"

text \<open>A line of the report: formatted into \<^verbatim>\<open>buf\<close> and written to the standard output.\<close>

definition report_line :: "'w env \<Rightarrow> string \<Rightarrow> arg list \<Rightarrow> ('w, unit) m" where
  "report_line E fmt as = do { c_write E 1 (printf_sn E PATH_MAX (fmt @ [NL]) as); ret () }"

definition debug_sysfs :: "'w env \<Rightarrow> (string \<Rightarrow> 'w \<Rightarrow> int \<times> string list) \<Rightarrow> string \<Rightarrow> ('w, unit) m" where
  "debug_sysfs E glob pattern = do {
     report_line E ''Globbing pattern: %s'' [AStr pattern];
     g \<leftarrow> gets (\<lambda>s. glob pattern (world s));
     if fst g \<noteq> 0 then report_line E ''glob() ret=%d'' [AInt (fst g)]
     else do {
       report_line E ''glob() ret=%d, count=%zu'' [AInt (fst g), ASize (length (snd g))];
       forM (snd g) (\<lambda>p. report_line E ''  found: %s'' [AStr p])
     }
   }"

definition sysfs_main :: "'w env \<Rightarrow> (string \<Rightarrow> 'w \<Rightarrow> int \<times> string list) \<Rightarrow> ('w, int) m" where
  "sysfs_main E glob = do { debug_sysfs E glob SYSFS_PATTERN1; debug_sysfs E glob SYSFS_PATTERN2; ret 0 }"

subsection \<open>What the tool reports\<close>

text \<open>The texts written to the standard output, as the trace records them.\<close>

definition shown :: "event list \<Rightarrow> string list" where
  "shown t = List.map_filter (\<lambda>e. case e of Sys (SysWrite fd d) r \<Rightarrow> if fd = 1 then Some d else None | _ \<Rightarrow> None) t"

lemma shown_simps [simp]:
  "shown [] = []" "shown (t @ u) = shown t @ shown u" "shown [Sys (SysWrite 1 d) r] = [d]"
  by (simp_all add: shown_def map_filter_def)

definition report :: "string \<Rightarrow> int \<times> string list \<Rightarrow> string list" where
  "report pattern g = (''Globbing pattern: '' @ pattern @ [NL]) #
     (if fst g \<noteq> 0 then [''glob() ret='' @ xui_itoa 10 (s32 (fst g)) @ [NL]]
      else (''glob() ret=0, count='' @ xui_utoa 10 (length (snd g) mod 2 ^ 64) @ [NL]) # map (\<lambda>p. ''  found: '' @ p @ [NL]) (snd g))"

text \<open>Writing to the standard output does not change what \<^verbatim>\<open>glob\<close> finds.\<close>

definition glob_stable :: "'w env \<Rightarrow> (string \<Rightarrow> 'w \<Rightarrow> int \<times> string list) \<Rightarrow> bool" where
  "glob_stable E glob \<longleftrightarrow> (\<forall>pattern d w. glob pattern (snd (kernel E (SysWrite 1 d) w)) = glob pattern w)"

definition told :: "(string \<Rightarrow> 'w \<Rightarrow> int \<times> string list) \<Rightarrow> (string \<Rightarrow> int \<times> string list) \<Rightarrow> string list \<Rightarrow> 'w prog \<Rightarrow> bool" where
  "told glob G t s \<longleftrightarrow> shown (trace s) = t \<and> (\<forall>pattern. glob pattern (world s) = G pattern)"

lemma told_line:
  assumes "glob_stable E glob"
  shows "hoare (told glob G t) (report_line E fmt as) (\<lambda>_. told glob G (t @ [printf_sn E PATH_MAX (fmt @ [NL]) as]))"
  using assms by (simp add: hoare_def told_def report_line_def c_write_def exec_bind run_sys_errno Let_def glob_stable_def del: run_state_bind)

lemma told_forM:
  assumes "\<And>x t. hoare (told glob G t) (k x) (\<lambda>_. told glob G (t @ [f x]))"
  shows "hoare (told glob G t) (forM xs k) (\<lambda>_. told glob G (t @ map f xs))"
proof (induction xs arbitrary: t)
  case (Cons x xs)
  show ?case using hoare_bind [OF assms [of t x] Cons.IH] by simp
qed (simp add: hoare_def)

lemma report_texts:
  "length p < 4000 \<Longrightarrow> printf_sn E PATH_MAX (''Globbing pattern: %s'' @ [NL]) [AStr p] = ''Globbing pattern: '' @ p @ [NL]"
  "length p < 4000 \<Longrightarrow> printf_sn E PATH_MAX (''  found: %s'' @ [NL]) [AStr p] = ''  found: '' @ p @ [NL]"
  by (simp_all add: printf_sn_def printf_simps PATH_MAX_def)

lemma report_numbers:
  "printf_sn E PATH_MAX (''glob() ret=%d'' @ [NL]) [AInt n] = ''glob() ret='' @ xui_itoa 10 (s32 n) @ [NL]"
  "printf_sn E PATH_MAX (''glob() ret=%d, count=%zu'' @ [NL]) [AInt 0, ASize k] = ''glob() ret=0, count='' @ xui_utoa 10 (k mod 2 ^ 64) @ [NL]"
proof -
  have l: "length (xui_itoa 10 (s32 n)) \<le> 11" "length (xui_utoa 10 (k mod 2 ^ 64)) \<le> 20" "s32 0 = 0"
    using s32_range by (auto intro: itoa_length utoa_length simp: s32_id)
  show "printf_sn E PATH_MAX (''glob() ret=%d'' @ [NL]) [AInt n] = ''glob() ret='' @ xui_itoa 10 (s32 n) @ [NL]"
    using l by (simp add: printf_sn_def printf_simps PATH_MAX_def)
  show "printf_sn E PATH_MAX (''glob() ret=%d, count=%zu'' @ [NL]) [AInt 0, ASize k] = ''glob() ret=0, count='' @ xui_utoa 10 (k mod 2 ^ 64) @ [NL]"
    using l by (simp add: printf_sn_def printf_simps PATH_MAX_def xui_itoa_def)
qed

lemma told_debug:
  assumes "glob_stable E glob" "length pattern < 4000" "list_all (\<lambda>p. length p < 4000) (snd (G pattern))"
  shows "hoare (told glob G t) (debug_sysfs E glob pattern) (\<lambda>_. told glob G (t @ report pattern (G pattern)))"
proof -
  note line = told_line [OF assms(1), where G = G]
  have found: "map (\<lambda>p. printf_sn E PATH_MAX (''  found: %s'' @ [NL]) [AStr p]) (snd (G pattern)) = map (\<lambda>p. ''  found: '' @ p @ [NL]) (snd (G pattern))"
    using assms(3) report_texts(2) by (auto simp: list_all_iff)
  have list: "hoare (told glob G u) (forM (snd (G pattern)) (\<lambda>p. report_line E ''  found: %s'' [AStr p]))
      (\<lambda>_. told glob G (u @ map (\<lambda>p. ''  found: '' @ p @ [NL]) (snd (G pattern))))" for u
    unfolding found [symmetric] by (rule told_forM) (rule line)
  let ?t = "t @ [''Globbing pattern: '' @ pattern @ [NL]]"
  have "hoare (\<lambda>s. told glob G ?t s \<and> g = G pattern)
      (if fst g \<noteq> 0 then report_line E ''glob() ret=%d'' [AInt (fst g)]
       else do { report_line E ''glob() ret=%d, count=%zu'' [AInt (fst g), ASize (length (snd g))];
                 forM (snd g) (\<lambda>p. report_line E ''  found: %s'' [AStr p]) })
      (\<lambda>_. told glob G (t @ report pattern (G pattern)))" for g
  proof (rule hoare_if)
    assume "fst g \<noteq> 0"
    then show "hoare (\<lambda>s. told glob G ?t s \<and> g = G pattern) (report_line E ''glob() ret=%d'' [AInt (fst g)])
        (\<lambda>_. told glob G (t @ report pattern (G pattern)))"
      using line [of ?t "''glob() ret=%d''" "[AInt (fst g)]", unfolded report_numbers] by (auto simp: hoare_def report_def)
  next
    assume z: "\<not> fst g \<noteq> 0"
    have "hoare (told glob G ?t) (do { report_line E ''glob() ret=%d, count=%zu'' [AInt 0, ASize (length (snd (G pattern)))];
        forM (snd (G pattern)) (\<lambda>p. report_line E ''  found: %s'' [AStr p]) }) (\<lambda>_. told glob G ((?t @ [''glob() ret=0, count='' @
          xui_utoa 10 (length (snd (G pattern)) mod 2 ^ 64) @ [NL]]) @ map (\<lambda>p. ''  found: '' @ p @ [NL]) (snd (G pattern))))"
      by (rule hoare_bind [OF line [of ?t "''glob() ret=%d, count=%zu''" "[AInt 0, ASize (length (snd (G pattern)))]", unfolded report_numbers] list])
    then show "hoare (\<lambda>s. told glob G ?t s \<and> g = G pattern)
        (do { report_line E ''glob() ret=%d, count=%zu'' [AInt (fst g), ASize (length (snd g))];
              forM (snd g) (\<lambda>p. report_line E ''  found: %s'' [AStr p]) }) (\<lambda>_. told glob G (t @ report pattern (G pattern)))"
      using z by (auto simp: hoare_def report_def)
  qed
  moreover have "hoare (told glob G ?t) (gets (\<lambda>s. glob pattern (world s))) (\<lambda>g s. told glob G ?t s \<and> g = G pattern)"
    by (simp add: hoare_def told_def)
  ultimately show ?thesis
    unfolding debug_sysfs_def
    by (intro hoare_bind [OF line [where t = t and fmt = "''Globbing pattern: %s''" and as = "[AStr pattern]", unfolded report_texts(1) [OF assms(2)]]]
        hoare_bind) 
qed

text \<open>The report of the tool, whatever its writes answer: for each pattern what \<^verbatim>\<open>glob\<close> says, one line for each path.\<close>

lemma sysfs_reports:
  assumes "glob_stable E glob" "list_all (\<lambda>p. length p < 4000) (snd (glob SYSFS_PATTERN1 (world s)) @ snd (glob SYSFS_PATTERN2 (world s)))"
  shows "result (sysfs_main E glob) s = 0 \<and> shown (trace (exec (sysfs_main E glob) s)) = shown (trace s) @
    report SYSFS_PATTERN1 (glob SYSFS_PATTERN1 (world s)) @ report SYSFS_PATTERN2 (glob SYSFS_PATTERN2 (world s))"
proof -
  let ?G = "\<lambda>p. glob p (world s)"
  have p: "length SYSFS_PATTERN1 < 4000" "length SYSFS_PATTERN2 < 4000" by (simp_all add: SYSFS_PATTERN1_def SYSFS_PATTERN2_def)
  have l: "list_all (\<lambda>p. length p < 4000) (snd (?G SYSFS_PATTERN1))" "list_all (\<lambda>p. length p < 4000) (snd (?G SYSFS_PATTERN2))"
    using assms(2) by simp_all
  have "hoare (told glob ?G (shown (trace s))) (sysfs_main E glob)
      (\<lambda>x u. x = 0 \<and> told glob ?G ((shown (trace s) @ report SYSFS_PATTERN1 (?G SYSFS_PATTERN1)) @ report SYSFS_PATTERN2 (?G SYSFS_PATTERN2)) u)"
    unfolding sysfs_main_def
    by (rule hoare_bind [OF told_debug [where G = ?G, OF assms(1) p(1) l(1)]], rule hoare_bind [OF told_debug [where G = ?G, OF assms(1) p(2) l(2)]]) (simp add: hoare_def)
  from hoareD [OF this, of s] show ?thesis by (simp add: told_def)
qed

subsection \<open>The nodes the program looks for\<close>

text \<open>The documented meaning of a pattern: a star stands for any characters of one component, but not for a leading period.\<close>

fun glob_match :: "bool \<Rightarrow> string \<Rightarrow> string \<Rightarrow> bool" where
  "glob_match leading [] f = (f = [])"
| "glob_match leading (c # p) [] = (c = CHR ''*'' \<and> glob_match leading p [])"
| "glob_match leading (c # p) (d # f) =
     (if c = CHR ''*'' then \<not> (leading \<and> d = CHR ''.'') \<and> (glob_match leading p (d # f) \<or> d \<noteq> CHR ''/'' \<and> glob_match False (c # p) f)
      else c = d \<and> glob_match (d = CHR ''/'') p f)"

text \<open>
  Of the five nodes that \<open>find_path\<close> tries, the patterns of the tool match two: a driver that offers only the first, second or fourth is used by the
  program and not reported by the tool.
\<close>

lemma tool_sees_two_nodes:
  "filter (\<lambda>q. glob_match False SYSFS_PATTERN1 q \<or> glob_match False SYSFS_PATTERN2 q) x3d_targets =
   [''/sys/devices/platform/AMDI0101:00/amd_x3d_mode'', ''/sys/bus/platform/drivers/amd_x3d_vcache/AMDI0101:00/amd_x3d_mode'']"
  by (simp add: x3d_targets_def SYSFS_PATTERN1_def SYSFS_PATTERN2_def)

end
