(* ===== verification/Console.thy ===== *)
theory Console
  imports Commands
begin

section \<open>What reaches the terminal (xui.c, written by xui.sh)\<close>

text \<open>
  The trace keeps a console routine with its format and arguments. Here is what the routines of \<^verbatim>\<open>xui.c\<close> write: the list of the buffers they
  hand to \<^verbatim>\<open>write(1, ...)\<close>, in order, or \<open>None\<close> when they read beyond an array. A text may begin with the depth of its indentation
  and a comma; it is indented from \<^verbatim>\<open>prefix\<close>, which has 64 bytes: 63 blanks at most and the terminator.
\<close>

type_synonym drawing = "string list option"

definition COLOR_RESET :: string where "COLOR_RESET = CHR 0x1B # ''[0m''"
definition TERM_WIDTH :: nat where "TERM_WIDTH = 80"

definition xui_level :: "string \<Rightarrow> int \<times> string" where
  "xui_level buf =
     (if buf \<noteq> [] \<and> is_digit (hd buf) then
        (case strchr buf (CHR '','') of
           Some k \<Rightarrow> if k < 5 then (atoi buf, drop (Suc k) buf) else (1, buf)
         | None \<Rightarrow> (1, buf))
      else if take 1 buf = '','' then (1, drop 1 buf) else (1, buf))"

definition xui_prefix :: "nat \<Rightarrow> string option" where
  "xui_prefix spaces =
     (if spaces \<le> 64 then Some (take spaces (replicate (min spaces 63) (CHR '' '') @ replicate (64 - min spaces 63) NUL)) else None)"

definition draw_br :: drawing where "draw_br = Some [[NL]]"

definition draw_string :: "(string \<times> string) list \<Rightarrow> string \<Rightarrow> arg list \<Rightarrow> drawing" where
  "draw_string table fmt as =
     (case xui_level (printf_vsn table 8192 fmt as) of (level, content) \<Rightarrow>
        map_option (\<lambda>p. [p, content, [NL], COLOR_RESET]) (xui_prefix (nat (level * 4))))"

text \<open>A step that asks begins with a question mark, as a letter or as a picture, and is indented further.\<close>

definition xui_spaces :: "int \<Rightarrow> string \<Rightarrow> nat" where
  "xui_spaces level content =
     nat (level * 4) + (if take 1 content = ''?'' \<or> take 3 content = [CHR 0xE2, CHR 0x9D, CHR 0x93] then 4 else 0)"

lemma strchr_shorter: "strchr line c = Some k \<Longrightarrow> line \<noteq> [] \<Longrightarrow> length (drop (Suc k) line) < length line"
  by (cases line) auto

function step_lines :: "string \<Rightarrow> string \<Rightarrow> string list" where
  "step_lines p line =
     (if line = [] then []
      else case strchr line NL of
        Some k \<Rightarrow> [p, take k line, [NL]] @ step_lines p (drop (Suc k) line)
      | None \<Rightarrow> [p, line, [NL]])"
  by pat_completeness auto
termination
  by (relation "measure (\<lambda>(p, line). length line)") (auto dest: strchr_shorter)

declare step_lines.simps [simp del]

definition draw_step :: "(string \<times> string) list \<Rightarrow> string \<Rightarrow> arg list \<Rightarrow> drawing" where
  "draw_step table fmt as =
     (case xui_level (printf_vsn table 8192 fmt as) of (level, content) \<Rightarrow>
        map_option (\<lambda>p. step_lines p content @ [COLOR_RESET]) (xui_prefix (xui_spaces level content)))"

definition draw_step_no_nl :: "(string \<times> string) list \<Rightarrow> string \<Rightarrow> arg list \<Rightarrow> drawing" where
  "draw_step_no_nl table fmt as =
     (case xui_level (printf_vsn table 8192 fmt as) of (level, content) \<Rightarrow>
        map_option (\<lambda>p. [p, content]) (xui_prefix (xui_spaces level content)))"

definition draw_divider :: drawing where
  "draw_divider = Some ([NL] # replicate (TERM_WIDTH - 4) ''='' @ [[NL], [NL]])"

text \<open>
  The columns a text takes up to its first newline: an escape sequence none, a character of three or four bytes two. The rest of a character is
  skipped without a look at it, which passes the terminator when the text ends within the character.
\<close>

function center_len :: "bool \<Rightarrow> string \<Rightarrow> nat option" where
  "center_len in_escape [] = Some 0"
| "center_len in_escape (c # s) =
     (if c = NL then Some 0
      else if c = CHR 0x1B then center_len True s
      else if in_escape then center_len (c \<noteq> CHR ''m'') s
      else if uchar c div 64 = 2 then center_len False s
      else if 0xF0 \<le> uchar c then (if length s < 3 then None else map_option (\<lambda>n. n + 2) (center_len False (drop 3 s)))
      else if 0xE0 \<le> uchar c then (if length s < 2 then None else map_option (\<lambda>n. n + 2) (center_len False (drop 2 s)))
      else if 0xC2 \<le> uchar c then (if length s < 1 then None else map_option (\<lambda>n. n + 1) (center_len False (drop 1 s)))
      else map_option (\<lambda>n. n + 1) (center_len False s))"
  by pat_completeness auto
termination
  by (relation "measure (\<lambda>(e, s). length s)") auto

definition center_pad :: "nat \<Rightarrow> nat" where
  "center_pad len = (if len < TERM_WIDTH - 4 then (TERM_WIDTH - 4 - len) div 2 else 0)"

definition draw_center :: "(string \<times> string) list \<Rightarrow> string \<Rightarrow> drawing" where
  "draw_center table str =
     Option.bind (center_len False str) (\<lambda>len. draw_step table ''1,%*s%s'' [AInt (int (center_pad len)), AStr [], AStr str])"

text \<open>Where the script writes a symbol into a text, the shell has put its value in its place.\<close>

definition symbol_text :: "(string \<times> string) list \<Rightarrow> string \<Rightarrow> string" where
  "symbol_text table name = (case map_of table name of Some v \<Rightarrow> v | None \<Rightarrow> [])"

definition then_draw :: "drawing \<Rightarrow> drawing \<Rightarrow> drawing" where
  "then_draw a b = Option.bind a (\<lambda>xs. map_option (\<lambda>ys. xs @ ys) b)"

definition draw_upcoming :: "(string \<times> string) list \<Rightarrow> string \<Rightarrow> drawing" where
  "draw_upcoming table feature = then_draw draw_br
     (draw_step table (symbol_text table ''ALERT'' @ ''  Feature '' @ [CHR 0x27] @ ''%s'' @ [CHR 0x27] @ '' will be available in an upcoming feature update.'') [AStr feature])"

definition draw_signature :: "(string \<times> string) list \<Rightarrow> drawing" where
  "draw_signature table =
     then_draw (draw_center table (''Please consider leaving feedback or'' @ [NL] @ ''contributing to the project if you'' @ [NL] @
         ''are not satisfied with the utility. '' @ symbol_text table ''ROCKET''))
     (then_draw draw_br
     (then_draw (draw_center table (''Live Long and Prosper '' @ symbol_text table ''LLAP'' @ [NL] @ ''=/'' @ [CHR 0x5C] @ ''= Pyrotiger =/'' @ [CHR 0x5C] @ ''=''))
     draw_divider))"

text \<open>A routine of the trace on the terminal; a call there is not drawn.\<close>

definition draw :: "(string \<times> string) list \<Rightarrow> event \<Rightarrow> drawing" where
  "draw table e = (case e of
     Sys c r \<Rightarrow> Some []
   | Out f fmt as \<Rightarrow>
       if f = ''printf_string'' then draw_string table fmt as
       else if f = ''printf_step'' then draw_step table fmt as
       else if f = ''printf_center'' then draw_center table fmt
       else if f = ''printf_divider'' then draw_divider
       else if f = ''printf_br'' then draw_br
       else if f = ''printf_upcoming'' then draw_upcoming table (va_str (va_hd as))
       else Some [])"

subsection \<open>Lines and indentation\<close>

lemma xui_prefix_blanks: "n \<le> 63 \<Longrightarrow> xui_prefix n = Some (replicate n (CHR '' ''))"
  by (simp add: xui_prefix_def)

lemma xui_level_plain: "str = [] \<or> \<not> is_digit (hd str) \<and> hd str \<noteq> CHR '','' \<Longrightarrow> xui_level str = (1, str)"
  by (cases str) (simp_all add: xui_level_def)

text \<open>A text without a depth of its own appears as it is, indented by four, with its line ended and the colour reset.\<close>

lemma draw_string_plain:
  assumes "str = [] \<or> \<not> is_digit (hd str) \<and> hd str \<noteq> CHR '',''" "length str < 8192"
  shows "draw_string table ''%s'' [AStr str] = Some [''    '', str, [NL], COLOR_RESET]"
  using assms by (simp add: draw_string_def printf_fit xui_level_plain xui_prefix_blanks numeral_eq_Suc)

text \<open>A step writes its lines one after another, each indented alike.\<close>

lemma strchr_NL: "cstring s \<Longrightarrow> strchr s NL = (if NL \<in> set s then Some (length (takeWhile (\<lambda>c. c \<noteq> NL) s)) else None)"
  by (induction s) (auto simp: cstring_def)

lemma step_lines_text: "cstring line \<Longrightarrow> concat (step_lines p line) = concat (map (\<lambda>l. p @ l @ [NL]) (c_lines line))"
proof (induction p line rule: step_lines.induct)
  case (1 p line)
  show ?case
  proof (cases "line = []")
    case False
    let ?l = "takeWhile (\<lambda>c. c \<noteq> NL) line"
    have t: "take (length ?l) line = ?l" by (metis takeWhile_eq_take)
    have d: "drop (Suc (length ?l)) line = drop 1 (dropWhile (\<lambda>c. c \<noteq> NL) line)"
      by (metis (no_types, lifting) One_nat_def dropWhile_eq_drop drop_drop plus_1_eq_Suc)
    show ?thesis
    proof (cases "NL \<in> set line")
      case True
      then have k: "strchr line NL = Some (length ?l)" using "1.prems" strchr_NL by simp
      have c: "cstring (drop (Suc (length ?l)) line)" using "1.prems" by simp
      from "1.IH" [OF False k c] show ?thesis
        using False k t d by (simp add: step_lines.simps [of p line] c_lines_unfold)
    next
      case no: False
      then have w: "?l = line" "dropWhile (\<lambda>c. c \<noteq> NL) line = []" by (auto simp: takeWhile_eq_all_conv)
      have "strchr line NL = None" using no "1.prems" strchr_NL by simp
      then show ?thesis unfolding step_lines.simps [of p line] c_lines_unfold [OF False] w using False by simp
    qed
  qed (simp add: step_lines.simps)
qed

subsection \<open>Centering\<close>

lemma center_len_plain: "list_all (\<lambda>c. 32 \<le> uchar c \<and> uchar c < 128) s \<Longrightarrow> center_len False s = Some (length s)"
proof (induction s)
  case (Cons c s)
  then have "c \<noteq> NL" "c \<noteq> CHR 0x1B" "uchar c div 64 \<noteq> 2" by (auto simp: uchar_def)
  then show ?case using Cons by (simp del: center_len.simps add: center_len.simps(2))
qed simp

text \<open>A plain text of at most 76 characters is in the middle of the 76 columns, half a column to the left at most.\<close>

lemma center_in_the_middle: "len \<le> 76 \<Longrightarrow> 2 * center_pad len + len \<in> {75, 76}"
  by (auto simp: center_pad_def TERM_WIDTH_def)

subsection \<open>Reading beyond the prefix\<close>

text \<open>A text that begins with a number of at most four digits and a comma is indented by four times that number, which the prefix only has up to 16.\<close>

lemma xui_level_number:
  assumes "digits ds" "ds \<noteq> []" "length ds < 5"
  shows "xui_level (ds @ CHR '','' # str) = (s32 (int (dec_value ds)), str)"
proof -
  have "atoi ([] @ [] @ ds @ CHR '','' # str) = s32 (signed_value [] ds)"
    using assms(1,2) by (intro atoi_reads_decimal) (simp_all add: stops_def is_digit_def uchar_def)
  moreover have "strchr (ds @ CHR '','' # str) (CHR '','') = Some (length ds)"
    using assms(1) by (intro strchr_append_stop) (auto simp: digits_def is_digit_def uchar_def)
  moreover have "is_digit (hd (ds @ CHR '','' # str))" using assms(1,2) by (cases ds) (simp_all add: digits_def)
  ultimately show ?thesis using assms(3) by (simp add: xui_level_def)
qed

lemma dec_from_less: "digits ds \<Longrightarrow> dec_from r ds < (r + 1) * 10 ^ length ds"
proof (induction ds arbitrary: r)
  case (Cons d ds)
  have d: "of_char d - 48 < (10 :: nat)" using Cons.prems by (auto simp: digits_def is_digit_def uchar_def)
  have "dec_from (r * 10 + (of_char d - 48)) ds < (r * 10 + (of_char d - 48) + 1) * 10 ^ length ds"
    using Cons.IH Cons.prems by (simp add: digits_def)
  also have "\<dots> \<le> ((r + 1) * 10) * 10 ^ length ds" using d by (intro mult_right_mono) simp_all
  finally show ?case by (simp add: algebra_simps)
qed simp

lemma deep_string_reads_beyond:
  assumes "printf_vsn table 8192 fmt as = ds @ CHR '','' # str" "digits ds" "ds \<noteq> []" "length ds < 5" "16 < dec_value ds"
  shows "draw_string table fmt as = None"
proof -
  have "dec_value ds < 10 ^ length ds" using dec_from_less [OF assms(2), of 0] by simp
  also have "\<dots> \<le> 10 ^ 4" using assms(4) by (intro power_increasing) simp_all
  finally have "s32 (int (dec_value ds)) = int (dec_value ds)" by (intro s32_id) simp_all
  then show ?thesis using assms by (simp add: draw_string_def xui_level_number xui_prefix_def)
qed

text \<open>
  The client shows a setting with the key the user gave, at the front: a key that begins with such a number makes it write bytes behind the array to the
  terminal, whatever the daemon answers for it.
\<close>

lemma advanced_get_reads_beyond:
  assumes "argv ! 2 = ''get''" "argv ! 3 = ds @ CHR '','' # str" "3 < length argv"
    "fst (result (socket_send E (printf_sn E 256 ''ADVANCED_GET %s'' [AStr (argv ! 3)]) 256 []) s) = 0"
    "digits ds" "ds \<noteq> []" "length ds < 5" "16 < dec_value ds"
  shows "draw table (last (trace (exec (cli_advanced_config E argv) s))) = None"
proof -
  let ?r = "snd (result (socket_send E (printf_sn E 256 ''ADVANCED_GET %s'' [AStr (argv ! 3)]) 256 []) s)"
  have "printf_vsn table 8192 ''%s = %s'' [AStr (argv ! 3), AStr ?r] = ds @ CHR '','' # take (8191 - length ds - 1) (str @ '' = '' @ ?r)"
    using assms(2,7) by (simp add: printf_simps take_Cons')
  from deep_string_reads_beyond [OF this assms(5-8)]
  show ?thesis
    using assms(1,3,4) by (simp add: cli_advanced_config_def exec_bind draw_def run_out del: run_state_bind)
qed

end
