(* ===== verification/Spec2Isabelle.thy ===== *)
theory Spec2Isabelle
  imports Session Gui_Masks Gui_Daemon Probe Fd_Sets Dashboard Sysfs_Tool Console
begin

text \<open>
  \<^bold>\<open>X3D Toggle.\<close> The processors the program serves have two dies (CCDs): one with a large cache, one with higher clocks. A root
  daemon watches for games and writes \<^verbatim>\<open>cache\<close> or \<^verbatim>\<open>frequency\<close> to the mode node of the AMD V-cache driver; a command line tool, a game
  launcher and a GTK window talk to it over a UNIX socket and fall back to direct access when it does not answer. All of it
  is C without the system's C library: \<^verbatim>\<open>src/src/libc.c\<close> wraps the system calls, and the formatter behind every message is
  written by a script (\<^verbatim>\<open>src/scripts/framework/xui.sh\<close>).

  \<^bold>\<open>How the model is built.\<close> A function of the source is a function of the same name in a state monad over \<open>prog\<close>
  (\<open>X3D_State\<close>): the static variables of the program, the world outside, and the trace of what was done to it. A system call is a
  value of \<open>syscall\<close>; the kernel, a field of the parameter \<open>env\<close>, answers it and changes the world. So every theorem
  without a further hypothesis holds for every kernel, every failure of every call included; what a theorem relies on
  (a node reads back what was written to it, a descriptor delivers a finite stream) is a named hypothesis with
  a witness on a concrete kernel. The generated headers (symbols, defaults, topology) are further fields of \<open>env\<close>.
  C strings are lists of characters without NUL where the code only reads them, and bytes in an explicit memory where it writes through
  pointers; \<^verbatim>\<open>int\<close> results pass through \<open>s32\<close>, counters that may wrap are words. A crash (null pointer) is a branch that delivers
  the signal to the program's own handler.

  \<^bold>\<open>Theories, in the order of the calls.\<close>

  \<^item> \<open>X3D_Prelude\<close>: C strings, casts, the monad, Hoare rules for invariants (\<open>keeps\<close>) and for the number of held descriptors
    (\<open>nets\<close>), both collected in named theorems that the later proofs apply.
  \<^item> \<open>Libc_String\<close>, \<open>Libc_Mem\<close>, \<open>Sys_Libc\<close>: \<^verbatim>\<open>src/src/libc.c\<close>. The locale \<open>bounded_append\<close> is the contract of an append to
    a fixed buffer, \<open>int_wrapper\<close> the \<^verbatim>\<open>errno\<close> convention of the wrappers; both are interpreted for each provider. Shown: exact results and
    extents of the copying functions, overlap of \<^verbatim>\<open>memmove\<close>, return values and \<^verbatim>\<open>errno\<close> of each wrapper.
  \<^item> \<open>Xui_Format\<close>: \<^verbatim>\<open>printf_vsn\<close> and its conversions.
  \<^item> \<open>Journal\<close>: \<^verbatim>\<open>error.c\<close> and the failsafe of \<^verbatim>\<open>systemd.c\<close>. Shown: the deferred buffer never overflows, the failsafe acts once.
  \<^item> \<open>Kernel_Files\<close>, \<open>Calls\<close>: the hypotheses on files, and which system calls a piece of the program can make.
  \<^item> \<open>Games\<close>: \<^verbatim>\<open>games.c\<close>. Shown: the loaded list is well formed, matching, loading of well-formed sections, adding and
    removing as a round trip, and the rows \<^verbatim>\<open>game_add\<close> stores beyond its allocation.
  \<^item> \<open>Config\<close>: \<^verbatim>\<open>daemon/config.c\<close>. The file is a key-value store (locale \<open>kv_store\<close>, interpreted on the code's line
    update), which \<^verbatim>\<open>config_update\<close> refines and \<^verbatim>\<open>config_load\<close> reads back within the bounds of its arrays.
  \<^item> \<open>Hardware\<close>, \<open>Mode_Device\<close>: \<^verbatim>\<open>modes.c\<close>, \<^verbatim>\<open>cppc.c\<close>, \<^verbatim>\<open>affinity.c\<close>, \<^verbatim>\<open>scheduler.c\<close>. Shown: writing and reading the mode node, the
    partition of the cores, all-or-error of a scheduler profile.
  \<^item> \<open>Detect\<close>: \<^verbatim>\<open>steam.h\<close>, the scan of \<^verbatim>\<open>/proc\<close> and \<^verbatim>\<open>bpf-user.c\<close>; libbpf and sd-bus answer as the kernel does. Shown: the scan returns,
    what counts as a game, the bounds of the counter, the ring buffer freed but still used.
  \<^item> \<open>Transport\<close>, \<open>Status\<close>: \<^verbatim>\<open>worker.c\<close>, \<^verbatim>\<open>systemd.c\<close>, \<^verbatim>\<open>status.c\<close>. Shown: when a command counts as served, the load as a fraction, the
    strings of the report fit.
  \<^item> \<open>Polling\<close>: \<^verbatim>\<open>polling_run\<close>, the decision of the daemon. Shown: an automatic round leaves the device in the mode that override or games
    ask for, and what goes wrong in the manual state.
  \<^item> \<open>Probe\<close>: \<^verbatim>\<open>bpf.c\<close>, the two programs in the kernel, and both halves together: the records read are those written, the counter is the number
    of running games for orderly events, and exits of others make it forget them. Also the thread that listens to GameMode.
  \<^item> \<open>Console\<close>: what the console routines of \<^verbatim>\<open>xui.c\<close>, which the trace keeps with their arguments, write to the terminal.
    Shown: texts and steps appear line by line with their indentation, centered lines are in the middle, a depth beyond 16 reads behind an array.
  \<^item> \<open>Fd_Sets\<close>: the descriptor sets of \<^verbatim>\<open>libc.h\<close> as arrays of words. Shown: within 1024 descriptors the macros insert, delete and
    test, outside they leave the array; the daemon waits on its socket alone.
  \<^item> \<open>Dashboard\<close>, \<open>Sysfs_Tool\<close>: \<^verbatim>\<open>server.c\<close> and \<^verbatim>\<open>sysfs.c\<close>, which no target builds. Shown: the calls of the server, for
    every answer of the system, and that its page is never cut; the report of the tool, and that it looks at two of the five nodes of the program.
  \<^item> \<open>Socket\<close>, \<open>Requests\<close>: \<^verbatim>\<open>socket.c\<close>, every branch of the request handler. Shown: dispatch is unambiguous, invariant and
    descriptors are kept, what a client can make the root process touch, replies parse back, a crash by a large number.
  \<^item> \<open>Daemon\<close>, \<open>Daemon_Runs\<close>: \<^verbatim>\<open>daemon.c\<close>, as a program and as a step relation of turns and signals. Shown: the invariant of every
    reachable state, sessions of the launcher, stopping and a clean exit.
  \<^item> \<open>Heard\<close>, \<open>Mode_Machine\<close>, \<open>Mode_Requests\<close>, \<open>Mode_Runs\<close>: the abstract specification of who decides about the mode, a machine
    with five variables (lock, override, automatic or not, target, device), one rule per request and runs on lists of requests. Shown: \<^verbatim>\<open>socket.c\<close>,
    \<^verbatim>\<open>polling.c\<close> and \<^verbatim>\<open>daemon.c\<close> refine it from the start-up on, on exactly the requests that \<open>heard\<close> reads off the trace, so lock and
    override prevail over every client, and the lock is what the last \<^verbatim>\<open>SET_WRAPPER\<close> asked for. \<open>mode_driver\<close> is what the V-cache driver
    documents.
  \<^item> \<open>Session\<close>: a client and the daemon together. Shown: the launcher holds the device in \<^verbatim>\<open>cache\<close> while the game runs, and the command that sets a
    mode is undone by the round that follows it.
  \<^item> \<open>Irq\<close>, \<open>Irq_Facts\<close>: \<^verbatim>\<open>irq.c\<close>. Shown: discovery equals its specification, binding and restoring is a round trip, binding twice and
    \<^verbatim>\<open>irq-reset\<close> are not.
  \<^item> \<open>Commands\<close>, \<open>Stress\<close>, \<open>Client\<close>, \<open>Client_Facts\<close>: the handlers of the command line tool, its table and dispatch, diagnostics,
    monitor, load generator and launcher. Shown: the launcher's lock, the load generator stops and awaits what it started.
  \<^item> \<open>Gui\<close>, \<open>Gui_Settings\<close>: the GTK window (\<^verbatim>\<open>gtk4/gui.c\<close>), a state monad over \<open>gui\<close>: the program's state, the static variables of the window,
    and the calls of the toolkit in order (\<open>screen\<close>). What widgets hold and whether a call emits a signal at once are fields of the parameter \<open>toolkit\<close>;
    a callback that a signal runs is called where the signal is emitted. \<open>Gui_Facts\<close>, \<open>Gui_Masks\<close>, \<open>Gui_Calls\<close> show how often the dashboard
    starts the daemon again, that the masks sent for a grid partition the cores and bring the same grid back; also that the window sees no
    capabilities and uses its builder after releasing it. \<open>Gui_Daemon\<close> puts window and daemon together: which settings the running daemon takes over,
    what applying a page sends, and what cancelling shows once the daemon has served it.

  \<^bold>\<open>Bounds.\<close> Loops over data are structurally recursive or have a measure. Some kinds of loops end only when the
  outside lets them: the scans of a directory take a bound \<open>n\<close> on its reads and return \<open>None\<close> when it is too small (\<open>detect_game_returns\<close>: for
  a finite directory some bound is enough, and every larger one gives the same); the daemon's loop takes a bound on its turns, and
  \<open>daemon_step\<close> has none; \<^verbatim>\<open>irq_watch\<close> and the monitor of the client, which never return by themselves, take the number of rounds, the dashboard server that of its clients; the load
  generator takes the number of tests that find it active; the window reads a configuration file in at most \<open>t_reads\<close> blocks, a file that is longer
  counts as ended there.

  \<^bold>\<open>Not modelled.\<close> The pictures and colours of the generated \<^verbatim>\<open>xui.h\<close> are a table given as a parameter;
  in the daemon as a whole, that the GameMode thread runs beside the polling thread (\<open>Probe\<close> has the thread itself and what the unlocked counter can lose).
  A child between \<^verbatim>\<open>fork\<close> and \<^verbatim>\<open>execve\<close> is described by what it executes, and \<open>child_run\<close> says what that does; parent and child
  do not run side by side. Signals of the daemon are steps of \<open>daemon_step\<close>; the
  structures passed to \<^verbatim>\<open>rt_sigaction\<close> carry no restorer, so whether the kernel can run the handlers at all is outside the model.
\<close>

end
